(* ===== verification/Prelude.thy ===== *)
theory Prelude
  imports Main "HOL-Library.Sublist"
begin

text \<open>
  Shared ground of the development: results with errors as values, the part of Go's
  \<^verbatim>\<open>strings\<close>, \<^verbatim>\<open>strconv\<close> and \<^verbatim>\<open>unicode\<close> packages the server uses, and the record of
  third-party and table-driven functions that are parameters of the model.

  A Go string is a sequence of bytes, so it is an Isabelle \<open>string\<close> (a list of 8-bit
  \<open>char\<close>s). Functions of the Go library that work rune by rune split the bytes into UTF-8
  sequences first (\<open>runes\<close>). Strings are taken to be valid UTF-8, which \<^verbatim>\<open>encoding/json\<close>
  guarantees for request bodies.
\<close>

named_theorems frame_simps \<open>fields an operation leaves alone\<close>
named_theorems sql_simps \<open>placeholders of SQL fragments\<close>

section \<open>Results\<close>

text \<open>Sequencing stops at the first error. It is an abbreviation of a \<open>case\<close>, so that evaluation
  does not look into the continuation before the first result is known.\<close>

abbreviation rbind :: "'e + 'a \<Rightarrow> ('a \<Rightarrow> 'e + 'b) \<Rightarrow> 'e + 'b" where
  "rbind m f \<equiv> case_sum Inl f m"

lemma rbind_eq_Inr: "rbind m f = Inr y \<longleftrightarrow> (\<exists>x. m = Inr x \<and> f x = Inr y)"
  by (cases m) auto

lemma rbind_eq_Inl: "rbind m f = Inl e \<longleftrightarrow> m = Inl e \<or> (\<exists>x. m = Inr x \<and> f x = Inl e)"
  by (cases m) auto

lemma rbind_InrE:
  assumes "rbind m f = Inr y"
  obtains x where "m = Inr x" and "f x = Inr y"
  using assms by (cases m) auto

lemma rbind_cong [fundef_cong]:
  "m = m' \<Longrightarrow> (\<And>x. m' = Inr x \<Longrightarrow> f x = g x) \<Longrightarrow> rbind m f = rbind m' g"
  by (cases m') auto

text \<open>A loop whose body may return an error: the state is threaded through the list.\<close>

fun rfold :: "('s \<Rightarrow> 'a \<Rightarrow> 'e + 's) \<Rightarrow> 's \<Rightarrow> 'a list \<Rightarrow> 'e + 's" where
  "rfold f s [] = Inr s"
| "rfold f s (x # xs) = rbind (f s x) (\<lambda>s'. rfold f s' xs)"

lemma rfold_cong [fundef_cong]:
  "s = s' \<Longrightarrow> xs = ys \<Longrightarrow> (\<And>t x. x \<in> set ys \<Longrightarrow> f t x = g t x) \<Longrightarrow> rfold f s xs = rfold g s' ys"
  by (induction ys arbitrary: xs s s') (auto intro!: rbind_cong)

lemma rfold_append: "rfold f s (xs @ ys) = rbind (rfold f s xs) (\<lambda>s'. rfold f s' ys)"
  by (induction xs arbitrary: s) (auto split: sum.splits)

text \<open>An invariant every successful step keeps holds after the whole loop.\<close>

lemma rfold_invariant:
  assumes "rfold f s xs = Inr t" and "P s"
    and "\<And>u x v. x \<in> set xs \<Longrightarrow> P u \<Longrightarrow> f u x = Inr v \<Longrightarrow> P v"
  shows "P t"
  using assms
proof (induction xs arbitrary: s)
  case Nil
  then show ?case by simp
next
  case (Cons x xs)
  from Cons.prems(1) obtain u where u: "f s x = Inr u" "rfold f u xs = Inr t"
    by (auto simp: rbind_eq_Inr)
  from Cons.prems(2) u(1) have "P u"
    by (rule Cons.prems(3) [rotated]) simp
  with u(2) show ?case
    by (rule Cons.IH) (use Cons.prems(3) in auto)
qed

text \<open>Mapping a fallible function over a list, stopping at the first error.\<close>

fun rmap :: "('a \<Rightarrow> 'e + 'b) \<Rightarrow> 'a list \<Rightarrow> 'e + 'b list" where
  "rmap f [] = Inr []"
| "rmap f (x # xs) = rbind (f x) (\<lambda>y. rbind (rmap f xs) (\<lambda>ys. Inr (y # ys)))"

lemma rmap_Inr_iff: "rmap f xs = Inr ys \<longleftrightarrow> list_all2 (\<lambda>x y. f x = Inr y) xs ys"
  by (induction xs arbitrary: ys) (auto simp: rbind_eq_Inr list_all2_Cons1)

section \<open>Parameters: code that is not in the repository\<close>

text \<open>
  \<open>NFC\<close> is \<^verbatim>\<open>norm.NFC.String\<close> of golang.org/x/text; \<open>uuid_parse\<close> is \<^verbatim>\<open>uuid.Parse\<close> of
  github.com/google/uuid followed by its \<^verbatim>\<open>String\<close> method (\<open>None\<close> where it returns an
  error); \<open>bcrypt_compare\<close> and \<open>bcrypt_generate\<close> are golang.org/x/crypto/bcrypt
  (the latter with its error message).
  \<open>rune_lower\<close>, \<open>rune_upper\<close> and \<open>rune_fold\<close> are Go's Unicode case tables on the UTF-8
  encoding of one non-ASCII rune (\<open>rune_fold\<close> picks one member of the rune's simple-folding
  orbit). \<open>time_parse\<close> is \<^verbatim>\<open>time.ParseInLocation(layout, s, time.UTC)\<close>, \<open>time_format\<close> is
  \<^verbatim>\<open>t.UTC().Format(layout)\<close> on the parsed instant, \<open>url_parse\<close> tells whether \<^verbatim>\<open>url.Parse\<close>
  accepts, \<open>x509_parse\<close> whether \<^verbatim>\<open>x509.ParseCertificate\<close> accepts a DER string.
\<close>

record ext =
  NFC :: "string \<Rightarrow> string"
  rune_lower :: "string \<Rightarrow> string"
  rune_upper :: "string \<Rightarrow> string"
  rune_fold :: "string \<Rightarrow> string"
  uuid_parse :: "string \<Rightarrow> string option"
  bcrypt_compare :: "string \<Rightarrow> string \<Rightarrow> bool"
  bcrypt_generate :: "string \<Rightarrow> string + string"
  time_parse :: "string \<Rightarrow> string \<Rightarrow> int option"
  time_format :: "string \<Rightarrow> int \<Rightarrow> string"
  url_parse :: "string \<Rightarrow> bool"
  x509_parse :: "string \<Rightarrow> bool"

text \<open>
  A concrete instance on which witnesses evaluate: no normalisation, no case pairs beyond
  ASCII, UUIDs accepted as they are spelled, a marking function for bcrypt.
\<close>

definition plain_ext :: ext where
  "plain_ext = \<lparr>NFC = (\<lambda>s. s), rune_lower = (\<lambda>s. s), rune_upper = (\<lambda>s. s), rune_fold = (\<lambda>s. s),
     uuid_parse = (\<lambda>s. if length s = 36 then Some s else None),
     bcrypt_compare = (\<lambda>h p. h = ''#'' @ p), bcrypt_generate = (\<lambda>p. Inr (''#'' @ p)),
     time_parse = (\<lambda>l s. if length s = 20 then Some 0 else None),
     time_format = (\<lambda>l t. ''1970-01-01T00:00:00Z''),
     url_parse = (\<lambda>s. True), x509_parse = (\<lambda>s. False)\<rparr>"

end
