(* ===== verification/GoStrings.thy ===== *)
theory GoStrings
  imports Prelude
begin

text \<open>
  The functions of Go's \<^verbatim>\<open>strings\<close>, \<^verbatim>\<open>strconv\<close>, \<^verbatim>\<open>unicode\<close> and \<^verbatim>\<open>regexp\<close> packages that the
  repository calls, on byte strings. Case mapping and trimming work on the UTF-8 sequences of
  the string, as Go's do: ASCII is computed here, the case tables of the other runes come
  from the parameter record.
\<close>

section \<open>Bytes and runes\<close>

definition code :: "char \<Rightarrow> nat" where
  "code c = of_char c"

definition is_digit :: "char \<Rightarrow> bool" where
  "is_digit c \<longleftrightarrow> 48 \<le> code c \<and> code c \<le> 57"

definition is_upper :: "char \<Rightarrow> bool" where
  "is_upper c \<longleftrightarrow> 65 \<le> code c \<and> code c \<le> 90"

definition is_lower :: "char \<Rightarrow> bool" where
  "is_lower c \<longleftrightarrow> 97 \<le> code c \<and> code c \<le> 122"

definition ascii_lower :: "char \<Rightarrow> char" where
  "ascii_lower c = (if is_upper c then char_of (code c + 32) else c)"

definition ascii_upper :: "char \<Rightarrow> char" where
  "ascii_upper c = (if is_lower c then char_of (code c - 32) else c)"

text \<open>Length of a UTF-8 sequence, from its first byte.\<close>

definition rune_len :: "char \<Rightarrow> nat" where
  "rune_len c = (if code c < 192 then 1 else if code c < 224 then 2 else if code c < 240 then 3 else 4)"

fun runes :: "string \<Rightarrow> string list" where
  "runes [] = []"
| "runes (c # cs) = (c # take (rune_len c - 1) cs) # runes (drop (rune_len c - 1) cs)"

lemma concat_runes [simp]: "concat (runes s) = s"
  by (induction s rule: runes.induct) auto

lemma runes_nonempty: "r \<in> set (runes s) \<Longrightarrow> r \<noteq> []"
  by (induction s rule: runes.induct) auto

lemma rune_len_ascii [simp]: "code c < 128 \<Longrightarrow> rune_len c = 1"
  by (simp add: rune_len_def)

lemma runes_ascii: "\<forall>c \<in> set s. code c < 128 \<Longrightarrow> runes s = map (\<lambda>c. [c]) s"
  by (induction s) simp_all

section \<open>Case mapping\<close>

fun lower_rune :: "ext \<Rightarrow> string \<Rightarrow> string" where
  "lower_rune L [c] = [ascii_lower c]"
| "lower_rune L r = rune_lower L r"

fun upper_rune :: "ext \<Rightarrow> string \<Rightarrow> string" where
  "upper_rune L [c] = [ascii_upper c]"
| "upper_rune L r = rune_upper L r"

fun fold_rune :: "ext \<Rightarrow> string \<Rightarrow> string" where
  "fold_rune L [c] = [ascii_lower c]"
| "fold_rune L r = rune_fold L r"

definition ToLower :: "ext \<Rightarrow> string \<Rightarrow> string" where
  "ToLower L s = concat (map (lower_rune L) (runes s))"

definition ToUpper :: "ext \<Rightarrow> string \<Rightarrow> string" where
  "ToUpper L s = concat (map (upper_rune L) (runes s))"

definition EqualFold :: "ext \<Rightarrow> string \<Rightarrow> string \<Rightarrow> bool" where
  "EqualFold L s t \<longleftrightarrow> map (fold_rune L) (runes s) = map (fold_rune L) (runes t)"

lemma ToLower_Nil [simp]: "ToLower L [] = []"
  by (simp add: ToLower_def)

lemma ToLower_ascii: "\<forall>c \<in> set s. code c < 128 \<Longrightarrow> ToLower L s = map ascii_lower s"
proof -
  assume "\<forall>c \<in> set s. code c < 128"
  then have "ToLower L s = concat (map (\<lambda>c. [ascii_lower c]) s)"
    by (simp add: ToLower_def runes_ascii comp_def)
  then show ?thesis by (induction s) auto
qed

text \<open>What the Unicode tables guarantee: lowering twice is lowering once.\<close>

definition lower_idem :: "ext \<Rightarrow> bool" where
  "lower_idem L \<longleftrightarrow> (\<forall>s. ToLower L (ToLower L s) = ToLower L s)"

lemma ascii_lower_idem [simp]: "ascii_lower (ascii_lower c) = ascii_lower c"
  by (simp add: ascii_lower_def is_upper_def code_def)

lemma rune_len_ascii_lower [simp]: "rune_len (ascii_lower c) = rune_len c"
  by (simp add: ascii_lower_def is_upper_def code_def rune_len_def)

lemma runes_lower_plain:
  "runes (ToLower plain_ext s) = map (lower_rune plain_ext) (runes s)"
proof (induction s rule: runes.induct)
  case 1
  show ?case by (simp add: ToLower_def)
next
  case (2 c cs)
  let ?k = "rune_len c - 1"
  have low: "lower_rune plain_ext (c # take ?k cs) = (if take ?k cs = [] then [ascii_lower c] else c # take ?k cs)"
  proof (cases "take ?k cs")
    case Nil
    then show ?thesis unfolding Nil by simp
  next
    case (Cons d ds)
    then show ?thesis unfolding Cons by (simp add: plain_ext_def)
  qed
  have split: "ToLower plain_ext (c # cs) =
      lower_rune plain_ext (c # take ?k cs) @ ToLower plain_ext (drop ?k cs)"
    by (simp add: ToLower_def)
  show ?case
  proof (cases "take ?k cs = []")
    case True
    then have "?k = 0 \<or> cs = []" by simp
    then show ?thesis
      using "2.IH" low split True by (auto simp: ToLower_def)
  next
    case False
    show ?thesis
    proof (cases "length cs < ?k")
      case True
      then show ?thesis using low split False by (simp add: ToLower_def)
    next
      case F: False
      then show ?thesis using low split False "2.IH" by (simp add: ToLower_def)
    qed
  qed
qed

lemma lower_rune_plain_idem: "lower_rune plain_ext (lower_rune plain_ext r) = lower_rune plain_ext r"
  by (cases "(plain_ext, r)" rule: lower_rune.cases) (simp_all add: plain_ext_def)

lemma lower_idem_plain [simp]: "lower_idem plain_ext"
proof -
  have "ToLower plain_ext (ToLower plain_ext s) = ToLower plain_ext s" for s
    unfolding ToLower_def [of plain_ext "ToLower plain_ext s"] runes_lower_plain
    by (simp add: ToLower_def comp_def lower_rune_plain_idem)
  then show ?thesis by (simp add: lower_idem_def)
qed

lemma EqualFold_refl [simp]: "EqualFold L s s"
  by (simp add: EqualFold_def)

lemma EqualFold_sym: "EqualFold L s t \<Longrightarrow> EqualFold L t s"
  by (simp add: EqualFold_def)

lemma EqualFold_trans: "EqualFold L s t \<Longrightarrow> EqualFold L t u \<Longrightarrow> EqualFold L s u"
  by (simp add: EqualFold_def)

section \<open>Quotes, white space of regular expressions, normal form\<close>

abbreviation dquote :: char where "dquote \<equiv> CHR 0x22"
abbreviation bslash :: char where "bslash \<equiv> CHR 0x5C"

definition quoted :: "string \<Rightarrow> string" where
  "quoted s = [CHR 0x27] @ s @ [CHR 0x27]"

text \<open>\<^verbatim>\<open>\s\<close> of package regexp.\<close>

definition regex_space :: "char \<Rightarrow> bool" where
  "regex_space c \<longleftrightarrow> c \<in> set [CHR '' '', CHR 0x09, CHR 0x0A, CHR 0x0C, CHR 0x0D]"

text \<open>\<^verbatim>\<open>NormalizeNFC\<close> of canonicalize.go: the empty string is returned as it is.\<close>

definition NormalizeNFC :: "ext \<Rightarrow> string \<Rightarrow> string" where
  "NormalizeNFC L s = (if s = [] then s else NFC L s)"

section \<open>Trimming, searching, splitting\<close>

text \<open>The runes with \<^verbatim>\<open>unicode.IsSpace\<close>: six ASCII ones and the UTF-8 encodings of U+0085,
  U+00A0, U+1680, U+2000 to U+200A, U+2028, U+2029, U+202F, U+205F and U+3000.\<close>

definition IsSpace :: "string \<Rightarrow> bool" where
  "IsSpace r \<longleftrightarrow> (case r of
      [c] \<Rightarrow> c \<in> set [CHR 0x09, CHR 0x0A, CHR 0x0B, CHR 0x0C, CHR 0x0D, CHR '' '']
    | [c1, c2] \<Rightarrow> c1 = CHR 0xC2 \<and> c2 \<in> set [CHR 0x85, CHR 0xA0]
    | [c1, c2, c3] \<Rightarrow>
        (c1 = CHR 0xE1 \<and> c2 = CHR 0x9A \<and> c3 = CHR 0x80)
        \<or> (c1 = CHR 0xE2 \<and> c2 = CHR 0x80 \<and> c3 \<in> set [CHR 0x80, CHR 0x81, CHR 0x82, CHR 0x83,
             CHR 0x84, CHR 0x85, CHR 0x86, CHR 0x87, CHR 0x88, CHR 0x89, CHR 0x8A, CHR 0xA8,
             CHR 0xA9, CHR 0xAF])
        \<or> (c1 = CHR 0xE2 \<and> c2 = CHR 0x81 \<and> c3 = CHR 0x9F)
        \<or> (c1 = CHR 0xE3 \<and> c2 = CHR 0x80 \<and> c3 = CHR 0x80)
    | _ \<Rightarrow> False)"

definition TrimSpace :: "string \<Rightarrow> string" where
  "TrimSpace s = concat (rev (dropWhile IsSpace (rev (dropWhile IsSpace (runes s)))))"

lemma TrimSpace_Nil [simp]: "TrimSpace [] = []"
  by (simp add: TrimSpace_def)

definition HasPrefix :: "string \<Rightarrow> string \<Rightarrow> bool" where
  "HasPrefix s p \<longleftrightarrow> prefix p s"

definition HasSuffix :: "string \<Rightarrow> string \<Rightarrow> bool" where
  "HasSuffix s p \<longleftrightarrow> suffix p s"

definition TrimPrefix :: "string \<Rightarrow> string \<Rightarrow> string" where
  "TrimPrefix s p = (if HasPrefix s p then drop (length p) s else s)"

definition TrimSuffix :: "string \<Rightarrow> string \<Rightarrow> string" where
  "TrimSuffix s p = (if HasSuffix s p then take (length s - length p) s else s)"

text \<open>\<^verbatim>\<open>strings.Index\<close>: the least position where the pattern occurs (\<open>None\<close> for Go's -1).\<close>

fun Index :: "string \<Rightarrow> string \<Rightarrow> nat option" where
  "Index [] p = (if p = [] then Some 0 else None)"
| "Index (c # cs) p = (if prefix p (c # cs) then Some 0 else map_option Suc (Index cs p))"

fun IndexAny :: "string \<Rightarrow> string \<Rightarrow> nat option" where
  "IndexAny [] cset = None"
| "IndexAny (c # cs) cset = (if c \<in> set cset then Some 0 else map_option Suc (IndexAny cs cset))"

definition Contains :: "string \<Rightarrow> string \<Rightarrow> bool" where
  "Contains s p \<longleftrightarrow> Index s p \<noteq> None"

definition ContainsAny :: "string \<Rightarrow> string \<Rightarrow> bool" where
  "ContainsAny s cset \<longleftrightarrow> (\<exists>c \<in> set s. c \<in> set cset)"

definition LastIndexByte :: "string \<Rightarrow> char \<Rightarrow> nat option" where
  "LastIndexByte s c = map_option (\<lambda>i. length s - 1 - i) (Index (rev s) [c])"

definition TrimRightByte :: "string \<Rightarrow> char \<Rightarrow> string" where
  "TrimRightByte s c = rev (dropWhile (\<lambda>d. d = c) (rev s))"

definition TrimByte :: "string \<Rightarrow> char \<Rightarrow> string" where
  "TrimByte s c = TrimRightByte (dropWhile (\<lambda>d. d = c) s) c"

text \<open>\<^verbatim>\<open>strings.Split(s, sep)\<close> and \<^verbatim>\<open>strings.SplitN(s, sep, 2)\<close> for a one-byte separator.\<close>

fun SplitByte :: "string \<Rightarrow> char \<Rightarrow> string list" where
  "SplitByte [] c = [[]]"
| "SplitByte (d # ds) c =
     (if d = c then [] # SplitByte ds c
      else (case SplitByte ds c of [] \<Rightarrow> [[d]] | x # xs \<Rightarrow> (d # x) # xs))"

definition SplitN2 :: "string \<Rightarrow> char \<Rightarrow> string list" where
  "SplitN2 s c = (if c \<in> set s
     then [takeWhile (\<lambda>d. d \<noteq> c) s, tl (dropWhile (\<lambda>d. d \<noteq> c) s)] else [s])"

text \<open>\<^verbatim>\<open>strings.ReplaceAll(s, old, new)\<close> for a nonempty \<open>old\<close>.\<close>

function ReplaceAll :: "string \<Rightarrow> string \<Rightarrow> string \<Rightarrow> string" where
  "ReplaceAll s old new = (case s of [] \<Rightarrow> []
     | c # cs \<Rightarrow> if old \<noteq> [] \<and> prefix old s then new @ ReplaceAll (drop (length old) s) old new
                 else c # ReplaceAll cs old new)"
  by pat_completeness auto
termination
  by (relation "measure (\<lambda>(s, old, new). length s)") auto

declare ReplaceAll.simps [simp del]

fun Join :: "string list \<Rightarrow> string \<Rightarrow> string" where
  "Join [] sep = []"
| "Join [s] sep = s"
| "Join (s # t # ss) sep = s @ sep @ Join (t # ss) sep"

lemma Index_Some_split:
  "Index s [c] = Some i \<Longrightarrow> i < length s \<and> s ! i = c \<and> c \<notin> set (take i s)"
  by (induction s arbitrary: i) (auto split: if_splits)

lemma SplitN2_parts: "SplitN2 s c = [a, b] \<Longrightarrow> s = a @ c # b \<and> c \<notin> set a"
proof -
  assume eq: "SplitN2 s c = [a, b]"
  then have c: "c \<in> set s" and a: "a = takeWhile (\<lambda>d. d \<noteq> c) s"
    and b: "b = tl (dropWhile (\<lambda>d. d \<noteq> c) s)"
    by (auto simp: SplitN2_def split: if_splits)
  from c have "dropWhile (\<lambda>d. d \<noteq> c) s \<noteq> []" "hd (dropWhile (\<lambda>d. d \<noteq> c) s) = c"
    using hd_dropWhile [of "\<lambda>d. d \<noteq> c" s] by auto
  then have "dropWhile (\<lambda>d. d \<noteq> c) s = c # b" using b by (cases "dropWhile (\<lambda>d. d \<noteq> c) s") auto
  then have "s = a @ c # b" using a takeWhile_dropWhile_id [of "\<lambda>d. d \<noteq> c" s] by simp
  then show ?thesis using a by (auto dest: set_takeWhileD)
qed

section \<open>Printing of integers\<close>

definition digit_char :: "nat \<Rightarrow> char" where
  "digit_char n = char_of (48 + n)"

fun itoa :: "nat \<Rightarrow> string" where
  "itoa n = (if n < 10 then [digit_char n] else itoa (n div 10) @ [digit_char (n mod 10)])"

declare itoa.simps [simp del]

definition itoa_int :: "int \<Rightarrow> string" where
  "itoa_int i = (if i < 0 then CHR ''-'' # itoa (nat (- i)) else itoa (nat i))"

lemma code_digit_char [simp]: "n < 10 \<Longrightarrow> code (digit_char n) = 48 + n"
  by (simp add: code_def digit_char_def)

lemma is_digit_digit_char [simp]: "n < 10 \<Longrightarrow> is_digit (digit_char n)"
  by (simp add: is_digit_def)

lemma itoa_digits: "c \<in> set (itoa n) \<Longrightarrow> is_digit c"
proof (induction n rule: itoa.induct)
  case (1 n)
  then show ?case by (cases "n < 10") (auto simp: itoa.simps [of n])
qed

lemma itoa_nonempty [simp]: "itoa n \<noteq> []"
  by (simp add: itoa.simps [of n])

fun atoi_from :: "nat \<Rightarrow> string \<Rightarrow> nat" where
  "atoi_from acc [] = acc"
| "atoi_from acc (c # cs) = atoi_from (10 * acc + (code c - 48)) cs"

lemma atoi_from_append: "atoi_from acc (s @ t) = atoi_from (atoi_from acc s) t"
  by (induction s arbitrary: acc) auto

lemma atoi_itoa: "atoi_from 0 (itoa n) = n"
proof (induction n rule: itoa.induct)
  case (1 n)
  then show ?case
    by (cases "n < 10") (simp_all add: itoa.simps [of n] atoi_from_append)
qed

lemma itoa_inject: "itoa m = itoa n \<longleftrightarrow> m = n"
  by (metis atoi_itoa)


section \<open>Code equations\<close>

text \<open>The character classes on the bits of a \<open>char\<close>, so that \<open>code_simp\<close> evaluates them without
  unary arithmetic.\<close>

lemma is_upper_code [code]:
  "is_upper (Char b0 b1 b2 b3 b4 b5 b6 b7) \<longleftrightarrow>
     \<not> b7 \<and> b6 \<and> \<not> b5 \<and> (b0 \<or> b1 \<or> b2 \<or> b3 \<or> b4) \<and> \<not> (b4 \<and> b3 \<and> (b2 \<or> b1 \<and> b0))"
  by (cases b7; cases b6; cases b5; cases b4; cases b3; cases b2; cases b1; cases b0)
     (simp_all add: is_upper_def code_def)

lemma is_lower_code [code]:
  "is_lower (Char b0 b1 b2 b3 b4 b5 b6 b7) \<longleftrightarrow>
     \<not> b7 \<and> b6 \<and> b5 \<and> (b0 \<or> b1 \<or> b2 \<or> b3 \<or> b4) \<and> \<not> (b4 \<and> b3 \<and> (b2 \<or> b1 \<and> b0))"
  by (cases b7; cases b6; cases b5; cases b4; cases b3; cases b2; cases b1; cases b0)
     (simp_all add: is_lower_def code_def)

lemma is_digit_code [code]:
  "is_digit (Char b0 b1 b2 b3 b4 b5 b6 b7) \<longleftrightarrow>
     \<not> b7 \<and> \<not> b6 \<and> b5 \<and> b4 \<and> \<not> (b3 \<and> (b2 \<or> b1))"
  by (cases b7; cases b6; cases b5; cases b4; cases b3; cases b2; cases b1; cases b0)
     (simp_all add: is_digit_def code_def)

lemma rune_len_code [code]:
  "rune_len (Char b0 b1 b2 b3 b4 b5 b6 b7) =
     (if \<not> b7 \<or> \<not> b6 then 1 else if \<not> b5 then 2 else if \<not> b4 then 3 else 4)"
  by (cases b7; cases b6; cases b5; cases b4; cases b3; cases b2; cases b1; cases b0)
     (simp_all add: rune_len_def code_def)

lemma ascii_lower_code [code]:
  "ascii_lower (Char b0 b1 b2 b3 b4 b5 b6 b7) =
     (if is_upper (Char b0 b1 b2 b3 b4 b5 b6 b7) then Char b0 b1 b2 b3 b4 True b6 b7
      else Char b0 b1 b2 b3 b4 b5 b6 b7)"
proof -
  have "code (Char b0 b1 b2 b3 b4 True b6 b7) = code (Char b0 b1 b2 b3 b4 False b6 b7) + 32"
    by (simp add: code_def)
  then show ?thesis
    by (cases b5) (auto simp: ascii_lower_def is_upper_code code_def char_of_def bit_0)
qed

end
