(* ===== verification/FilterTables.thy ===== *)
theory FilterTables
  imports GoStrings
begin

text \<open>
  \<^verbatim>\<open>internal/scim/filter.go\<close>, first part: the lexer and the attribute tables. A Go
  \<^verbatim>\<open>switch\<close> over string constants that maps attributes to columns is an association list
  with the constants in source order; an error of the parser is its message.
\<close>

section \<open>Lexer\<close>

datatype tokenType = tokenWord | tokenString | tokenLParen | tokenRParen

record token =
  tok_typ :: tokenType
  tok_val :: string

text \<open>
  \<^verbatim>\<open>tokenRegex\<close> has three alternatives: a double-quoted string with backslash escapes
  (\<open>scan_quoted\<close>, after the opening quote), one parenthesis, and a run of bytes that are
  neither \<^verbatim>\<open>\s\<close> nor parentheses. An unterminated quote falls through to the third.
\<close>

definition regex_plain :: "char \<Rightarrow> bool" where
  "regex_plain c \<longleftrightarrow> \<not> regex_space c \<and> c \<noteq> CHR ''('' \<and> c \<noteq> CHR '')''"

fun scan_quoted :: "string \<Rightarrow> (string \<times> string) option" where
  "scan_quoted [] = None"
| "scan_quoted (c # cs) =
     (if c = dquote then Some ([], cs)
      else if c = bslash then
        (case cs of [] \<Rightarrow> None
         | d # ds \<Rightarrow> if d = CHR 0x0A then None
                     else map_option (\<lambda>(q, rest). (c # d # q, rest)) (scan_quoted ds))
      else map_option (\<lambda>(q, rest). (c # q, rest)) (scan_quoted cs))"

lemma scan_quoted_parts: "scan_quoted s = Some (q, rest) \<Longrightarrow> s = q @ dquote # rest"
  by (induction s arbitrary: q rest rule: scan_quoted.induct)
     (auto split: if_splits list.splits)

function token_matches :: "string \<Rightarrow> string list" where
  "token_matches s = (case s of [] \<Rightarrow> []
     | c # cs \<Rightarrow>
        (case (if c = dquote then scan_quoted cs else None) of
          Some (q, rest) \<Rightarrow> (dquote # q @ [dquote]) # token_matches rest
        | None \<Rightarrow>
            if c = CHR ''('' \<or> c = CHR '')'' then [c] # token_matches cs
            else if regex_space c then token_matches cs
            else (c # takeWhile regex_plain cs) # token_matches (dropWhile regex_plain cs)))"
  by pat_completeness auto
termination
  by (relation "measure length")
     (auto dest!: scan_quoted_parts split: if_splits simp: le_imp_less_Suc length_dropWhile_le)

declare token_matches.simps [simp del]

definition tokenize :: "ext \<Rightarrow> string \<Rightarrow> token list" where
  "tokenize L flt = map (\<lambda>m.
     if m = ''('' then \<lparr>tok_typ = tokenLParen, tok_val = ''(''\<rparr>
     else if m = '')'' then \<lparr>tok_typ = tokenRParen, tok_val = '')''\<rparr>
     else if 2 \<le> length m \<and> hd m = dquote \<and> last m = dquote
       then \<lparr>tok_typ = tokenString, tok_val = NormalizeNFC L (butlast (tl m))\<rparr>
     else \<lparr>tok_typ = tokenWord, tok_val = m\<rparr>) (token_matches (NormalizeNFC L flt))"

section \<open>URN prefixes\<close>

definition coreUserURN :: string where
  "coreUserURN = ''urn:ietf:params:scim:schemas:core:2.0:User:''"

definition coreGroupURN :: string where
  "coreGroupURN = ''urn:ietf:params:scim:schemas:core:2.0:Group:''"

definition enterpriseURN :: string where
  "enterpriseURN = ''urn:ietf:params:scim:schemas:extension:enterprise:2.0:User:''"

definition enterpriseURNBase :: string where
  "enterpriseURNBase = ''urn:ietf:params:scim:schemas:extension:enterprise:2.0:User''"

definition stripURNPrefix :: "ext \<Rightarrow> string \<Rightarrow> string" where
  "stripURNPrefix L attr =
     (let lower = ToLower L attr in
      if HasPrefix lower (ToLower L coreUserURN) then drop (length coreUserURN) attr
      else if HasPrefix lower (ToLower L coreGroupURN) then drop (length coreGroupURN) attr
      else if HasPrefix lower (ToLower L enterpriseURN) then drop (length enterpriseURN) attr
      else attr)"

datatype entity = entityTypeUser | entityTypeGroup

definition stripEntityURNPrefix :: "ext \<Rightarrow> entity \<Rightarrow> string \<Rightarrow> string" where
  "stripEntityURNPrefix L entityType attr =
     (let lower = ToLower L attr in
      if entityType = entityTypeGroup then
        (if HasPrefix lower (ToLower L coreGroupURN) then drop (length coreGroupURN) attr else attr)
      else if HasPrefix lower (ToLower L coreUserURN) then drop (length coreUserURN) attr
      else if HasPrefix lower (ToLower L enterpriseURN) then drop (length enterpriseURN) attr
      else attr)"

section \<open>Sort attributes\<close>

definition userSortTable :: "(string \<times> string) list" where
  "userSortTable = [
    (''id'', ''id''), (''username'', ''user_name''), (''name.formatted'', ''name_formatted''),
    (''name.familyname'', ''name_family_name''), (''name.givenname'', ''name_given_name''),
    (''name.middlename'', ''name_middle_name''),
    (''name.honorificprefix'', ''name_honorific_prefix''),
    (''name.honorificsuffix'', ''name_honorific_suffix''),
    (''displayname'', ''display_name''), (''nickname'', ''nick_name''),
    (''profileurl'', ''profile_url''), (''title'', ''title''), (''usertype'', ''user_type''),
    (''preferredlanguage'', ''preferred_language''), (''locale'', ''locale''),
    (''timezone'', ''timezone''), (''emails'', ''emails''), (''emails.value'', ''emails''),
    (''email'', ''emails''), (''meta.created'', ''created_at''),
    (''meta.lastmodified'', ''last_modified''), (''externalid'', ''external_id''),
    (''active'', ''active''), (''employeenumber'', ''enterprise_employee_number''),
    (''costcenter'', ''enterprise_cost_center''), (''organization'', ''enterprise_organization''),
    (''division'', ''enterprise_division''), (''department'', ''enterprise_department''),
    (''manager'', ''enterprise_manager_value''), (''manager.value'', ''enterprise_manager_value''),
    (''manager.displayname'', ''enterprise_manager_display'')]"

definition ResolveUserSortAttribute :: "ext \<Rightarrow> string \<Rightarrow> string" where
  "ResolveUserSortAttribute L sortBy =
     (case map_of userSortTable (ToLower L (stripURNPrefix L sortBy)) of
        Some col \<Rightarrow> col | None \<Rightarrow> ''user_name'')"

definition groupSortTable :: "(string \<times> string) list" where
  "groupSortTable = [(''id'', ''id''), (''displayname'', ''display_name''),
    (''meta.created'', ''created_at''), (''meta.lastmodified'', ''last_modified''),
    (''externalid'', ''external_id'')]"

definition ResolveGroupSortAttribute :: "ext \<Rightarrow> string \<Rightarrow> string" where
  "ResolveGroupSortAttribute L sortBy =
     (case map_of groupSortTable (ToLower L (stripURNPrefix L sortBy)) of
        Some col \<Rightarrow> col | None \<Rightarrow> ''display_name'')"

section \<open>Attribute classes\<close>

definition caseInsensitiveAttrs :: "string list" where
  "caseInsensitiveAttrs = [''meta.resourcetype'', ''username'', ''displayname'',
    ''name.familyname'', ''name.givenname'', ''name.formatted'', ''name.middlename'',
    ''name.honorificprefix'', ''name.honorificsuffix'', ''nickname'', ''title'', ''usertype'',
    ''preferredlanguage'', ''locale'', ''timezone'', ''emails.value'', ''emails.type'',
    ''emails.display'', ''phonenumbers.value'', ''phonenumbers.type'', ''phonenumbers.display'',
    ''ims.value'', ''ims.type'', ''ims.display'', ''addresses.type'', ''addresses.formatted'',
    ''addresses.streetaddress'', ''addresses.locality'', ''addresses.region'',
    ''addresses.postalcode'', ''addresses.country'', ''photos.value'', ''photos.type'',
    ''photos.display'', ''roles.value'', ''roles.display'', ''entitlements.value'',
    ''entitlements.display'', ''x509certificates.value'', ''x509certificates.display'']"

definition isJSONCollection :: "ext \<Rightarrow> string \<Rightarrow> bool" where
  "isJSONCollection L attr \<longleftrightarrow> ToLower L attr \<in> set [''emails'', ''phonenumbers'', ''addresses'',
     ''ims'', ''photos'', ''entitlements'', ''roles'', ''x509certificates'']"

definition isJSONColumn :: "ext \<Rightarrow> string \<Rightarrow> bool" where
  "isJSONColumn L attr = isJSONCollection L (ToLower L (hd (SplitN2 attr CHR ''.'')))"

definition jsonColumnTable :: "(string \<times> string) list" where
  "jsonColumnTable = [(''emails'', ''emails''), (''phonenumbers'', ''phone_numbers''),
    (''addresses'', ''addresses''), (''ims'', ''ims''), (''photos'', ''photos''),
    (''entitlements'', ''entitlements''), (''roles'', ''roles''),
    (''x509certificates'', ''x509_certificates'')]"

definition resolveJSONColumn :: "ext \<Rightarrow> string \<Rightarrow> string" where
  "resolveJSONColumn L attr =
     (case map_of jsonColumnTable (ToLower L attr) of Some col \<Rightarrow> col | None \<Rightarrow> attr)"

definition isValidComparisonOp :: "string \<Rightarrow> bool" where
  "isValidComparisonOp op \<longleftrightarrow>
     op \<in> set [''eq'', ''ne'', ''co'', ''sw'', ''ew'', ''gt'', ''ge'', ''lt'', ''le'']"

definition isGroupMembersAttr :: "string \<Rightarrow> bool" where
  "isGroupMembersAttr lowerAttr \<longleftrightarrow> lowerAttr \<in>
     set [''members'', ''members.value'', ''members.display'', ''members.type'', ''members.$ref'']"

definition isUserGroupsAttr :: "string \<Rightarrow> bool" where
  "isUserGroupsAttr lowerAttr \<longleftrightarrow> lowerAttr \<in>
     set [''groups'', ''groups.value'', ''groups.display'', ''groups.type'', ''groups.$ref'']"

definition isBooleanAttr :: "ext \<Rightarrow> string \<Rightarrow> bool" where
  "isBooleanAttr L attr \<longleftrightarrow> ToLower L attr = ''active''"

section \<open>Columns\<close>

definition groupColumnTable :: "(string \<times> string) list" where
  "groupColumnTable = [(''id'', ''id::text''), (''displayname'', ''display_name''),
    (''externalid'', ''external_id''), (''meta.created'', ''created_at''),
    (''meta.lastmodified'', ''last_modified''),
    (''meta.resourcetype'', quoted ''Group'' @ ''::text''),
    (''meta.location'', ''id::text''), (''meta.version'', ''version::text'')]"

definition userColumnTable :: "(string \<times> string) list" where
  "userColumnTable = [
    (''username'', ''user_name''), (''externalid'', ''external_id''),
    (''name.formatted'', ''name_formatted''), (''name.familyname'', ''name_family_name''),
    (''name.givenname'', ''name_given_name''), (''name.middlename'', ''name_middle_name''),
    (''name.honorificprefix'', ''name_honorific_prefix''),
    (''name.honorificsuffix'', ''name_honorific_suffix''),
    (''displayname'', ''display_name''), (''nickname'', ''nick_name''),
    (''profileurl'', ''profile_url''), (''title'', ''title''), (''usertype'', ''user_type''),
    (''preferredlanguage'', ''preferred_language''), (''locale'', ''locale''),
    (''timezone'', ''timezone''), (''active'', ''active''), (''meta.created'', ''created_at''),
    (''meta.lastmodified'', ''last_modified''),
    (''meta.resourcetype'', quoted ''User'' @ ''::text''), (''meta.location'', ''id::text''),
    (''meta.version'', ''version::text''), (''id'', ''id::text''),
    (''employeenumber'', ''enterprise_employee_number''),
    (''urn:ietf:params:scim:schemas:extension:enterprise:2.0:user:employeenumber'',
     ''enterprise_employee_number''),
    (''costcenter'', ''enterprise_cost_center''), (''organization'', ''enterprise_organization''),
    (''division'', ''enterprise_division''), (''department'', ''enterprise_department''),
    (''manager.value'', ''enterprise_manager_value''), (''manager.$ref'', ''enterprise_manager_ref''),
    (''manager.displayname'', ''enterprise_manager_display'')]"

definition enterpriseColumnTable :: "(string \<times> string) list" where
  "enterpriseColumnTable = [(''employeenumber'', ''enterprise_employee_number''),
    (''costcenter'', ''enterprise_cost_center''), (''organization'', ''enterprise_organization''),
    (''division'', ''enterprise_division''), (''department'', ''enterprise_department''),
    (''manager.value'', ''enterprise_manager_value''), (''manager.$ref'', ''enterprise_manager_ref''),
    (''manager.displayname'', ''enterprise_manager_display'')]"

definition resolveEnterpriseColumn :: "ext \<Rightarrow> string \<Rightarrow> string + string" where
  "resolveEnterpriseColumn L attr =
     (case map_of enterpriseColumnTable (ToLower L attr) of
        Some col \<Rightarrow> Inr col | None \<Rightarrow> Inl (''unknown enterprise attribute: '' @ attr))"

definition resolveColumn :: "ext \<Rightarrow> entity \<Rightarrow> string \<Rightarrow> string + string" where
  "resolveColumn L entityType attr =
     (let lower = ToLower L attr in
      if entityType = entityTypeGroup then
        (case map_of groupColumnTable lower of
           Some col \<Rightarrow> Inr col | None \<Rightarrow> Inl (''unknown attribute: '' @ attr))
      else if HasPrefix lower (ToLower L enterpriseURNBase @ '':'') then
        resolveEnterpriseColumn L (drop (length enterpriseURN) attr)
      else if isJSONCollection L lower then Inr (resolveJSONColumn L attr)
      else
        (case map_of userColumnTable lower of
           Some col \<Rightarrow> Inr col | None \<Rightarrow> Inl (''unknown attribute: '' @ attr)))"

definition plainSubTable :: "(string \<times> string \<times> bool) list" where
  "plainSubTable = [(''value'', ''value'', False), (''type'', ''type'', False),
    (''display'', ''display'', False), (''primary'', ''primaryFlag'', True)]"

definition addressSubTable :: "(string \<times> string \<times> bool) list" where
  "addressSubTable = [(''formatted'', ''formatted'', False),
    (''streetaddress'', ''streetAddress'', False), (''locality'', ''locality'', False),
    (''region'', ''region'', False), (''postalcode'', ''postalCode'', False),
    (''country'', ''country'', False), (''type'', ''type'', False),
    (''primary'', ''primaryFlag'', True)]"

definition resolveSubAttribute :: "ext \<Rightarrow> string \<Rightarrow> string \<Rightarrow> string + (string \<times> bool)" where
  "resolveSubAttribute L collectionAttr subAttr =
     (let colLower = ToLower L collectionAttr; subLower = ToLower L subAttr;
          unknown = ''unknown sub-attribute '' @ quoted subAttr @ '' for '' @ quoted collectionAttr in
      if colLower \<in> set [''emails'', ''phonenumbers'', ''ims'', ''photos'', ''entitlements'',
          ''roles'', ''x509certificates''] then
        (case map_of plainSubTable subLower of Some r \<Rightarrow> Inr r | None \<Rightarrow> Inl unknown)
      else if colLower = ''addresses'' then
        (case map_of addressSubTable subLower of Some r \<Rightarrow> Inr r | None \<Rightarrow> Inl unknown)
      else Inl (''attribute '' @ quoted collectionAttr @ '' is not a multi-valued complex attribute''))"

section \<open>Attributes valid on some resource type\<close>

definition isValidCommonAttr :: "string \<Rightarrow> bool" where
  "isValidCommonAttr lower \<longleftrightarrow> lower \<in> set [''id'', ''externalid'', ''schemas'', ''meta.created'',
     ''meta.lastmodified'', ''meta.resourcetype'', ''meta.location'', ''meta.version'']"

definition isValidEnterpriseAttr :: "string \<Rightarrow> bool" where
  "isValidEnterpriseAttr lower \<longleftrightarrow> lower \<in> set [''employeenumber'', ''costcenter'',
     ''organization'', ''division'', ''department'', ''manager'', ''manager.value'',
     ''manager.$ref'', ''manager.displayname'']"

definition isValidUserCoreAttr :: "ext \<Rightarrow> string \<Rightarrow> bool" where
  "isValidUserCoreAttr L lower \<longleftrightarrow>
     isValidCommonAttr lower \<or> isUserGroupsAttr lower \<or>
     lower \<in> set [''username'', ''name'', ''name.formatted'', ''name.familyname'',
       ''name.givenname'', ''name.middlename'', ''name.honorificprefix'', ''name.honorificsuffix'',
       ''displayname'', ''nickname'', ''profileurl'', ''title'', ''usertype'',
       ''preferredlanguage'', ''locale'', ''timezone'', ''active''] \<or>
     isJSONCollection L lower \<or>
     (case SplitN2 lower CHR ''.'' of
        [col, sub] \<Rightarrow> isJSONCollection L col \<and> \<not> isl (resolveSubAttribute L col sub)
      | _ \<Rightarrow> False)"

definition isValidGroupCoreAttr :: "string \<Rightarrow> bool" where
  "isValidGroupCoreAttr lower \<longleftrightarrow>
     isValidCommonAttr lower \<or> isGroupMembersAttr lower \<or> lower = ''displayname''"

definition isValidAnyResourceAttr :: "ext \<Rightarrow> string \<Rightarrow> bool" where
  "isValidAnyResourceAttr L rawAttr \<longleftrightarrow>
     (let lower = ToLower L (TrimSpace rawAttr) in
      if HasPrefix lower (ToLower L coreUserURN)
        then isValidUserCoreAttr L (drop (length coreUserURN) lower)
      else if HasPrefix lower (ToLower L enterpriseURN)
        then isValidEnterpriseAttr (drop (length enterpriseURN) lower)
      else if HasPrefix lower (ToLower L coreGroupURN)
        then isValidGroupCoreAttr (drop (length coreGroupURN) lower)
      else if Contains lower '':'' then False
      else isValidUserCoreAttr L lower \<or> isValidEnterpriseAttr lower \<or> isValidGroupCoreAttr lower)"

end
