(* ===== verification/FilterBuild.thy ===== *)
theory FilterBuild
  imports FilterTables
begin

text \<open>
  \<^verbatim>\<open>internal/scim/filter.go\<close>, second part: the builders of SQL fragments. A builder
  takes the parser state because \<^verbatim>\<open>nextParam\<close> draws the next placeholder number from it, and
  returns the fragment with the state after its draws. Errors are the messages of
  \<^verbatim>\<open>fmt.Errorf\<close>; on an error the caller drops the parser, so no state is returned.
\<close>

datatype sql_arg = ArgString string | ArgBool bool

record FilterResult =
  SQL :: string
  Args :: "sql_arg list"

record filterParser =
  tokens :: "token list"
  pos :: nat
  paramIdx :: nat
  entityType :: entity
  crossResource :: bool

definition nextParam :: "filterParser \<Rightarrow> string \<times> filterParser" where
  "nextParam p = (CHR ''$'' # itoa (paramIdx p), p\<lparr>paramIdx := paramIdx p + 1\<rparr>)"

fun escapeLikeValue :: "string \<Rightarrow> string" where
  "escapeLikeValue [] = []"
| "escapeLikeValue (c # cs) =
     (if c = CHR ''%'' \<or> c = CHR ''_'' \<or> c = bslash then bslash # c # escapeLikeValue cs
      else c # escapeLikeValue cs)"

definition TimeRFC3339 :: string where
  "TimeRFC3339 = ''2006-01-02T15:04:05Z07:00''"

definition TimeRFC3339Nano :: string where
  "TimeRFC3339Nano = ''2006-01-02T15:04:05.999999999Z07:00''"

fun first_parse :: "ext \<Rightarrow> string \<Rightarrow> string list \<Rightarrow> int option" where
  "first_parse L s [] = None"
| "first_parse L s (f # fs) =
     (case time_parse L f s of Some t \<Rightarrow> Some t | None \<Rightarrow> first_parse L s fs)"

definition parseDateTime :: "ext \<Rightarrow> string \<Rightarrow> string + int" where
  "parseDateTime L s =
     (case first_parse L s [TimeRFC3339, ''2006-01-02T15:04:05.999999999'',
                            ''2006-01-02 15:04:05.999999999''] of
        Some t \<Rightarrow> Inr t | None \<Rightarrow> Inl (''invalid dateTime format: '' @ s))"

definition isValidDateTime :: "ext \<Rightarrow> string \<Rightarrow> bool" where
  "isValidDateTime L s \<longleftrightarrow> \<not> isl (parseDateTime L s)"

text \<open>\<^verbatim>\<open>ExtractUUIDFromRef\<close> of mapper.go: the canonical UUID at the end of a reference path.\<close>

definition ExtractUUIDFromRef :: "ext \<Rightarrow> string \<Rightarrow> string" where
  "ExtractUUIDFromRef L ref =
     (let s = TrimSpace ref in
      if s = [] then []
      else
       (let s = (case IndexAny s ''?#'' of Some i \<Rightarrow> take i s | None \<Rightarrow> s);
            rest = (case Index s ''://'' of
                None \<Rightarrow> Some s
              | Some i \<Rightarrow> (let r = drop (i + 3) s in
                  case Index r ''/'' of None \<Rightarrow> None | Some j \<Rightarrow> Some (drop j r)))
        in case rest of
             None \<Rightarrow> []
           | Some s \<Rightarrow>
              (let s = TrimRightByte s CHR ''/'' in
               case LastIndexByte s CHR ''/'' of
                 None \<Rightarrow> []
               | Some idx \<Rightarrow>
                   if length s \<le> idx + 1 then []
                   else (case uuid_parse L (drop (idx + 1) s) of Some u \<Rightarrow> u | None \<Rightarrow> []))))"

section \<open>Conditions on one text expression\<close>

definition buildTextExprCondition ::
  "filterParser \<Rightarrow> string \<Rightarrow> string \<Rightarrow> string \<Rightarrow> bool \<Rightarrow> string + ((string \<times> string) \<times> filterParser)" where
  "buildTextExprCondition p expr operator value caseInsensitive =
     (let (param, p') = nextParam p;
          like = (if caseInsensitive then ''LOWER('' @ expr @ '') LIKE LOWER('' @ param @ '')''
                  else expr @ '' LIKE '' @ param) in
      if operator = ''eq'' then
        Inr ((if caseInsensitive then ''LOWER('' @ expr @ '') = LOWER('' @ param @ '')''
              else expr @ '' = '' @ param, value), p')
      else if operator = ''ne'' then
        Inr ((if caseInsensitive
              then ''(LOWER('' @ expr @ '') != LOWER('' @ param @ '') OR '' @ expr @ '' IS NULL)''
              else ''('' @ expr @ '' != '' @ param @ '' OR '' @ expr @ '' IS NULL)'', value), p')
      else if operator = ''co'' then Inr ((like, ''%'' @ escapeLikeValue value @ ''%''), p')
      else if operator = ''sw'' then Inr ((like, escapeLikeValue value @ ''%''), p')
      else if operator = ''ew'' then Inr ((like, ''%'' @ escapeLikeValue value), p')
      else if operator = ''gt'' then Inr ((expr @ '' > '' @ param, value), p')
      else if operator = ''ge'' then Inr ((expr @ '' >= '' @ param, value), p')
      else if operator = ''lt'' then Inr ((expr @ '' < '' @ param, value), p')
      else if operator = ''le'' then Inr ((expr @ '' <= '' @ param, value), p')
      else Inl (''unsupported operator: '' @ operator))"

type_synonym built = "string + (FilterResult \<times> filterParser)"

definition membersFrom :: string where
  "membersFrom = ''EXISTS (SELECT 1 FROM scim_group_memberships m WHERE m.group_id = scim_groups.id AND m.workspace_id = scim_groups.workspace_id''"

definition groupsFrom :: string where
  "groupsFrom = ''EXISTS (SELECT 1 FROM scim_group_memberships m WHERE m.member_value = scim_users.id AND m.workspace_id = scim_users.workspace_id''"

definition groupsJoinFrom :: string where
  "groupsJoinFrom = ''EXISTS (SELECT 1 FROM scim_group_memberships m JOIN scim_groups g ON g.id = m.group_id WHERE m.member_value = scim_users.id AND m.workspace_id = scim_users.workspace_id''"

definition buildGroupMembersPresentFilter :: "string \<Rightarrow> string + FilterResult" where
  "buildGroupMembersPresentFilter lowerAttr =
     (if lowerAttr \<in> set [''members'', ''members.value'', ''members.$ref''] then
        Inr \<lparr>SQL = membersFrom @ '')'', Args = []\<rparr>
      else if lowerAttr = ''members.display'' then
        Inr \<lparr>SQL = membersFrom @ '' AND m.display IS NOT NULL)'', Args = []\<rparr>
      else if lowerAttr = ''members.type'' then
        Inr \<lparr>SQL = membersFrom @ '' AND m.member_type IS NOT NULL)'', Args = []\<rparr>
      else Inl (''unknown attribute: '' @ lowerAttr))"

definition buildUserGroupsPresentFilter :: "string \<Rightarrow> string + FilterResult" where
  "buildUserGroupsPresentFilter lowerAttr = Inr \<lparr>SQL = groupsFrom @ '')'', Args = []\<rparr>"

text \<open>The value of a reference attribute is reduced to its UUID for \<^verbatim>\<open>eq\<close> and \<^verbatim>\<open>ne\<close>.\<close>

definition refValue :: "ext \<Rightarrow> bool \<Rightarrow> string \<Rightarrow> string \<Rightarrow> string" where
  "refValue L isRef operator value =
     (if isRef \<and> (operator = ''eq'' \<or> operator = ''ne'') \<and> ExtractUUIDFromRef L value \<noteq> []
      then ExtractUUIDFromRef L value else value)"

definition existsWith :: "string \<Rightarrow> filterParser \<Rightarrow> string \<Rightarrow> string \<Rightarrow> string \<Rightarrow> built" where
  "existsWith from p expr operator value =
     rbind (buildTextExprCondition p expr operator value True) (\<lambda>((cond, arg), p').
       Inr (\<lparr>SQL = from @ '' AND '' @ cond @ '')'', Args = [ArgString arg]\<rparr>, p'))"

definition buildGroupMembersFilter ::
  "ext \<Rightarrow> filterParser \<Rightarrow> string \<Rightarrow> string \<Rightarrow> string \<Rightarrow> built" where
  "buildGroupMembersFilter L p attr operator value =
     (if \<not> isValidComparisonOp operator then Inl (''unsupported operator: '' @ operator)
      else
       (let lower0 = ToLower L attr;
            lower = (if lower0 = ''members'' then ''members.value'' else lower0) in
        if lower = ''members.value'' \<or> lower = ''members.$ref'' then
          existsWith membersFrom p ''m.member_value::text'' operator
            (refValue L (lower = ''members.$ref'') operator value)
        else if lower = ''members.display'' then existsWith membersFrom p ''m.display'' operator value
        else if lower = ''members.type'' then existsWith membersFrom p ''m.member_type'' operator value
        else Inl (''unknown attribute: '' @ attr)))"

definition buildUserGroupsFilter ::
  "ext \<Rightarrow> filterParser \<Rightarrow> string \<Rightarrow> string \<Rightarrow> string \<Rightarrow> built" where
  "buildUserGroupsFilter L p attr operator value =
     (if \<not> isValidComparisonOp operator then Inl (''unsupported operator: '' @ operator)
      else
       (let lower0 = ToLower L attr;
            lower = (if lower0 = ''groups'' then ''groups.value'' else lower0) in
        if lower = ''groups.value'' \<or> lower = ''groups.$ref'' then
          existsWith groupsFrom p ''m.group_id::text'' operator
            (refValue L (lower = ''groups.$ref'') operator value)
        else if lower = ''groups.display'' then existsWith groupsJoinFrom p ''g.display_name'' operator value
        else if lower = ''groups.type'' then
          existsWith groupsFrom p (quoted ''direct'' @ ''::text'') operator value
        else Inl (''unknown attribute: '' @ attr)))"

definition entPresent :: string where
  "entPresent = ''(enterprise_employee_number IS NOT NULL OR enterprise_cost_center IS NOT NULL OR enterprise_organization IS NOT NULL OR enterprise_division IS NOT NULL OR enterprise_department IS NOT NULL OR enterprise_manager_value IS NOT NULL)''"

definition buildSchemasFilter :: "filterParser \<Rightarrow> string \<Rightarrow> string \<Rightarrow> built" where
  "buildSchemasFilter p operator value =
     (if \<not> isValidComparisonOp operator then Inl (''unsupported operator: '' @ operator)
      else if entityType p = entityTypeGroup then
        rbind (buildTextExprCondition p (quoted ''urn:ietf:params:scim:schemas:core:2.0:Group'' @ ''::text'')
                 operator value False) (\<lambda>((cond, arg), p').
          Inr (\<lparr>SQL = cond, Args = [ArgString arg]\<rparr>, p'))
      else
        rbind (buildTextExprCondition p (quoted ''urn:ietf:params:scim:schemas:core:2.0:User'' @ ''::text'')
                 operator value False) (\<lambda>((condCore, argCore), p1).
        rbind (buildTextExprCondition p1 (quoted enterpriseURNBase @ ''::text'')
                 operator value False) (\<lambda>((condEnt, argEnt), p2).
          if operator = ''ne'' then
            Inr (\<lparr>SQL = ''('' @ condCore @ '' AND (NOT '' @ entPresent @ '' OR '' @ condEnt @ ''))'',
                  Args = [ArgString argCore, ArgString argEnt]\<rparr>, p2)
          else
            Inr (\<lparr>SQL = ''('' @ condCore @ '' OR ('' @ entPresent @ '' AND '' @ condEnt @ ''))'',
                  Args = [ArgString argCore, ArgString argEnt]\<rparr>, p2))))"

section \<open>Conditions on elements of a JSON collection\<close>

definition elemKey :: "string \<Rightarrow> string" where
  "elemKey jsonKey = ''elem->>'' @ quoted jsonKey"

definition boolLiteral :: "ext \<Rightarrow> string \<Rightarrow> bool" where
  "boolLiteral L v \<longleftrightarrow> EqualFold L v ''true'' \<or> EqualFold L v ''false''"

definition buildElemCondition ::
  "ext \<Rightarrow> filterParser \<Rightarrow> string \<Rightarrow> string \<Rightarrow> string \<Rightarrow> string
    \<Rightarrow> string + ((string \<times> sql_arg list) \<times> filterParser)" where
  "buildElemCondition L p collectionAttr attr op v =
     rbind (resolveSubAttribute L collectionAttr attr) (\<lambda>(jsonKey, isBool).
      let key = elemKey jsonKey; (param, p') = nextParam p in
      if isBool then
        (if op \<noteq> ''eq'' \<and> op \<noteq> ''ne'' \<and> op \<noteq> ''pr'' then
           Inl (''comparison operator '' @ quoted op @ '' is not supported for boolean attribute '' @ quoted attr)
         else if op = ''pr'' then Inr ((''('' @ key @ '') IS NOT NULL'', []), p)
         else if \<not> boolLiteral L v then
           Inl (''invalid boolean value for attribute '' @ quoted attr @ '': '' @ v)
         else if op = ''eq'' then
           Inr ((''('' @ key @ '') = '' @ param, [ArgString (ToLower L v)]), p')
         else
           Inr ((''(('' @ key @ '') != '' @ param @ '' OR ('' @ key @ '') IS NULL)'',
                 [ArgString (ToLower L v)]), p'))
      else if op = ''pr'' then
        Inr ((''(('' @ key @ '') IS NOT NULL AND ('' @ key @ '') != '' @ quoted [] @ '')'', []), p)
      else if op = ''eq'' then
        Inr ((''LOWER('' @ key @ '') = LOWER('' @ param @ '')'', [ArgString v]), p')
      else if op = ''ne'' then
        Inr ((''(('' @ key @ '') IS NULL OR LOWER('' @ key @ '') != LOWER('' @ param @ ''))'',
              [ArgString v]), p')
      else if op = ''co'' then
        Inr ((''LOWER('' @ key @ '') LIKE LOWER('' @ param @ '')'',
              [ArgString (''%'' @ escapeLikeValue v @ ''%'')]), p')
      else if op = ''sw'' then
        Inr ((''LOWER('' @ key @ '') LIKE LOWER('' @ param @ '')'',
              [ArgString (escapeLikeValue v @ ''%'')]), p')
      else if op = ''ew'' then
        Inr ((''LOWER('' @ key @ '') LIKE LOWER('' @ param @ '')'',
              [ArgString (''%'' @ escapeLikeValue v)]), p')
      else if op = ''gt'' then
        Inr ((''LOWER('' @ key @ '') > LOWER('' @ param @ '')'', [ArgString v]), p')
      else if op = ''ge'' then
        Inr ((''LOWER('' @ key @ '') >= LOWER('' @ param @ '')'', [ArgString v]), p')
      else if op = ''lt'' then
        Inr ((''LOWER('' @ key @ '') < LOWER('' @ param @ '')'', [ArgString v]), p')
      else if op = ''le'' then
        Inr ((''LOWER('' @ key @ '') <= LOWER('' @ param @ '')'', [ArgString v]), p')
      else Inl (''unsupported operator in value path filter: '' @ op))"

text \<open>The common frame of a condition over the elements of a JSON array column.\<close>

definition jsonExists :: "string \<Rightarrow> string \<Rightarrow> string" where
  "jsonExists col cond =
     ''('' @ col @ '' IS NOT NULL AND jsonb_typeof('' @ col @ ''::jsonb) = '' @ quoted ''array'' @
     '' AND '' @ col @ ''::text != '' @ quoted ''[]'' @
     '' AND EXISTS (SELECT 1 FROM jsonb_array_elements('' @ col @ ''::jsonb) AS elem WHERE '' @ cond @ ''))''"

definition notEmptyArray :: "string \<Rightarrow> string" where
  "notEmptyArray col = col @ '' IS NOT NULL AND '' @ col @ ''::text != '' @ quoted ''[]''"

definition buildJSONAttributeFilter ::
  "ext \<Rightarrow> filterParser \<Rightarrow> string \<Rightarrow> string \<Rightarrow> string \<Rightarrow> string \<Rightarrow> string \<Rightarrow> built" where
  "buildJSONAttributeFilter L p col collectionName subAttr operator value =
     rbind (resolveSubAttribute L collectionName subAttr) (\<lambda>(jsonKey, isBool).
      let path = quoted (collectionName @ ''.'' @ subAttr); key = elemKey jsonKey in
      if isBool \<and> operator \<noteq> ''eq'' \<and> operator \<noteq> ''pr'' then
        Inl (''comparison operator '' @ quoted operator @ '' is not supported for boolean attribute '' @ path)
      else if isBool \<and> operator = ''eq'' \<and> \<not> boolLiteral L value then
        Inl (''invalid boolean value for attribute '' @ path @ '': '' @ value)
      else if operator = ''pr'' then
        Inr (\<lparr>SQL = jsonExists col (''('' @ key @ '') IS NOT NULL AND ('' @ key @ '') != '' @ quoted []),
              Args = []\<rparr>, p)
      else if isBool then
        (let (param, p') = nextParam p in
         Inr (\<lparr>SQL = jsonExists col (''('' @ key @ '') = '' @ param),
               Args = [ArgString (ToLower L value)]\<rparr>, p'))
      else if operator \<in> set [''eq'', ''co'', ''sw'', ''ew''] then
        rbind (buildElemCondition L p collectionName subAttr operator value) (\<lambda>((cond, args), p').
          Inr (\<lparr>SQL = jsonExists col cond, Args = args\<rparr>, p'))
      else Inl (''unsupported operator for JSON attribute: '' @ operator))"

record innerClause =
  ic_attr :: string
  ic_op :: string
  ic_val :: string

text \<open>
  \<^verbatim>\<open>buildJSONContainsFilter\<close>: up to two conditions on the same element, one from the
  bracketed clause and one from the sub-attribute after it.
\<close>

definition elemConds ::
  "ext \<Rightarrow> filterParser \<Rightarrow> string \<Rightarrow> bool \<Rightarrow> string \<Rightarrow> string \<Rightarrow> string
    \<Rightarrow> string + ((string list \<times> sql_arg list) \<times> filterParser)" where
  "elemConds L p collectionAttr present attr op v =
     (if \<not> present then Inr (([], []), p)
      else rbind (buildElemCondition L p collectionAttr attr op v) (\<lambda>((c, a), p').
        Inr (([c], a), p')))"

definition buildJSONContainsFilter ::
  "ext \<Rightarrow> filterParser \<Rightarrow> string \<Rightarrow> string \<Rightarrow> innerClause option \<Rightarrow> string \<Rightarrow> string \<Rightarrow> string \<Rightarrow> built" where
  "buildJSONContainsFilter L p col collectionAttr clause subAttr operator value =
     (let (attr, cop, cval) = (case clause of None \<Rightarrow> ([], [], [])
        | Some c \<Rightarrow> (ic_attr c, ic_op c, ic_val c)) in
      rbind (elemConds L p collectionAttr (attr \<noteq> []) attr cop cval) (\<lambda>((conds1, args1), p1).
      rbind (elemConds L p1 collectionAttr (subAttr \<noteq> []) subAttr
               (if operator = [] then ''pr'' else operator) value) (\<lambda>((conds2, args2), p2).
        let conds = conds1 @ conds2; args = args1 @ args2 in
        if conds = [] then Inr (\<lparr>SQL = notEmptyArray col, Args = []\<rparr>, p2)
        else Inr (\<lparr>SQL = jsonExists col (Join conds '' AND ''), Args = args\<rparr>, p2))))"

end
