(* ===== verification/FilterParse.thy ===== *)
theory FilterParse
  imports FilterBuild
begin

text \<open>
  \<^verbatim>\<open>internal/scim/filter.go\<close>, third part: presence and comparison filters, value path
  filters, and the recursive descent parser. The four mutually recursive functions carry a
  fuel argument; \<open>OutOfFuel\<close> is a result of its own, and \<open>FilterProps\<close> shows that the fuel
  \<open>parseEntityFilter\<close> starts with is always enough.
\<close>

section \<open>Presence and comparison of one attribute\<close>

definition buildPresentFilter :: "ext \<Rightarrow> filterParser \<Rightarrow> string \<Rightarrow> string \<Rightarrow> built" where
  "buildPresentFilter L p rawAttrName attrName =
     (let lower = ToLower L attrName;
          plain = (\<lambda>sql. Inr (\<lparr>SQL = sql, Args = []\<rparr>, p));
          column = (case resolveColumn L (entityType p) attrName of
              Inl e \<Rightarrow> if crossResource p \<and> isValidAnyResourceAttr L rawAttrName
                       then plain ''FALSE'' else Inl e
            | Inr col \<Rightarrow> if isJSONColumn L attrName then plain (notEmptyArray col)
                         else plain (col @ '' IS NOT NULL'')) in
      if lower = ''schemas'' then plain ''TRUE''
      else if entityType p = entityTypeGroup \<and> isGroupMembersAttr lower then
        rbind (buildGroupMembersPresentFilter lower) (\<lambda>r. Inr (r, p))
      else if entityType p = entityTypeUser then
        (if isUserGroupsAttr lower then rbind (buildUserGroupsPresentFilter lower) (\<lambda>r. Inr (r, p))
         else if lower = ''name'' then
           plain ''(name_formatted IS NOT NULL OR name_family_name IS NOT NULL OR name_given_name IS NOT NULL OR name_middle_name IS NOT NULL OR name_honorific_prefix IS NOT NULL OR name_honorific_suffix IS NOT NULL)''
         else if lower = ''manager'' then plain ''enterprise_manager_value IS NOT NULL''
         else (case SplitN2 attrName CHR ''.'' of
             [col, sub] \<Rightarrow>
               if isJSONCollection L col
               then buildJSONAttributeFilter L p (resolveJSONColumn L col) col sub ''pr'' []
               else column
           | _ \<Rightarrow> column))
      else column)"

definition validateCrossResourceComparison ::
  "ext \<Rightarrow> string \<Rightarrow> string \<Rightarrow> string \<Rightarrow> string + unit" where
  "validateCrossResourceComparison L rawAttr operator value =
     (if \<not> isValidComparisonOp operator then Inl (''unsupported operator: '' @ operator)
      else
       (let stripped = ToLower L (stripURNPrefix L rawAttr);
            isBool = isBooleanAttr L stripped \<or>
              (case SplitN2 stripped CHR ''.'' of
                 [col, sub] \<Rightarrow> isJSONCollection L col \<and> sub = ''primary'' | _ \<Rightarrow> False);
            isTime = (stripped = ''meta.created'' \<or> stripped = ''meta.lastmodified'') in
        if isBool \<and> operator \<noteq> ''eq'' \<and> operator \<noteq> ''ne'' then
          Inl (''comparison operator '' @ quoted operator @ '' is not supported for boolean attribute '' @ quoted rawAttr)
        else if isBool \<and> \<not> boolLiteral L value then
          Inl (''invalid boolean value for attribute '' @ quoted rawAttr @ '': '' @ value)
        else if isTime \<and> operator \<in> set [''co'', ''sw'', ''ew''] then
          Inl (''comparison operator '' @ quoted operator @ '' is not supported for dateTime attribute '' @ quoted rawAttr)
        else if isTime \<and> isl (parseDateTime L value) then
          Inl (''invalid dateTime format for attribute '' @ quoted rawAttr @ '': '' @ value)
        else Inr ()))"

text \<open>The tail of \<^verbatim>\<open>buildComparisonWithRaw\<close> for a resolved column: validation, then one
  condition with one placeholder.\<close>

definition buildColumnComparison ::
  "ext \<Rightarrow> filterParser \<Rightarrow> string \<Rightarrow> string \<Rightarrow> string \<Rightarrow> string \<Rightarrow> built" where
  "buildColumnComparison L p attr col operator value0 =
     (let lowerAttr = ToLower L attr;
          isBool = isBooleanAttr L lowerAttr;
          isTime = (lowerAttr = ''meta.created'' \<or> lowerAttr = ''meta.lastmodified'') in
      if isBool \<and> operator \<noteq> ''eq'' \<and> operator \<noteq> ''ne'' then
        Inl (''comparison operator '' @ quoted operator @ '' is not supported for boolean attribute '' @ quoted attr)
      else if isBool \<and> \<not> boolLiteral L value0 then
        Inl (''invalid boolean value for attribute '' @ quoted attr @ '': '' @ value0)
      else if isTime \<and> operator \<in> set [''co'', ''sw'', ''ew''] then
        Inl (''comparison operator '' @ quoted operator @ '' is not supported for dateTime attribute '' @ quoted attr)
      else if isTime \<and> isl (parseDateTime L value0) then
        Inl (''invalid dateTime format for attribute '' @ quoted attr @ '': '' @ value0)
      else
       (let value = (if isTime
              then (case parseDateTime L value0 of Inl _ \<Rightarrow> value0
                    | Inr t \<Rightarrow> time_format L TimeRFC3339Nano t) else value0);
            ci = (ToLower L attr \<in> set caseInsensitiveAttrs);
            (param, p') = nextParam p;
            boolArg = ArgBool (EqualFold L value ''true'');
            like = (if ci then ''LOWER('' @ col @ '') LIKE LOWER('' @ param @ '')''
                    else col @ '' LIKE '' @ param);
            res = (\<lambda>sql arg. Inr (\<lparr>SQL = sql, Args = [arg]\<rparr>, p')) in
        if operator = ''eq'' then
          (if isBool then res (col @ '' = '' @ param) boolArg
           else if ci then res (''LOWER('' @ col @ '') = LOWER('' @ param @ '')'') (ArgString value)
           else res (col @ '' = '' @ param) (ArgString value))
        else if operator = ''ne'' then
          (if isBool then res (''('' @ col @ '' != '' @ param @ '' OR '' @ col @ '' IS NULL)'') boolArg
           else if ci then
             res (''(LOWER('' @ col @ '') != LOWER('' @ param @ '') OR '' @ col @ '' IS NULL)'') (ArgString value)
           else res (''('' @ col @ '' != '' @ param @ '' OR '' @ col @ '' IS NULL)'') (ArgString value))
        else if operator = ''co'' then res like (ArgString (''%'' @ escapeLikeValue value @ ''%''))
        else if operator = ''sw'' then res like (ArgString (escapeLikeValue value @ ''%''))
        else if operator = ''ew'' then res like (ArgString (''%'' @ escapeLikeValue value))
        else if operator = ''gt'' then res (col @ '' > '' @ param) (ArgString value)
        else if operator = ''ge'' then res (col @ '' >= '' @ param) (ArgString value)
        else if operator = ''lt'' then res (col @ '' < '' @ param) (ArgString value)
        else if operator = ''le'' then res (col @ '' <= '' @ param) (ArgString value)
        else Inl (''unsupported operator: '' @ operator)))"

definition buildResolvedComparison ::
  "ext \<Rightarrow> filterParser \<Rightarrow> string \<Rightarrow> string \<Rightarrow> string \<Rightarrow> string \<Rightarrow> built" where
  "buildResolvedComparison L p rawAttr attr operator value =
     (case resolveColumn L (entityType p) attr of
        Inl e \<Rightarrow>
          if crossResource p \<and> isValidAnyResourceAttr L rawAttr then
            rbind (validateCrossResourceComparison L rawAttr operator value) (\<lambda>_.
              Inr (\<lparr>SQL = ''FALSE'', Args = []\<rparr>, p))
          else Inl e
      | Inr col \<Rightarrow>
          if col = ''enterprise_manager_ref'' \<and> (operator = ''eq'' \<or> operator = ''ne'')
             \<and> ExtractUUIDFromRef L value \<noteq> [] then
            rbind (buildTextExprCondition p ''enterprise_manager_value'' operator
                     (ExtractUUIDFromRef L value) True) (\<lambda>((cond, arg), p').
              Inr (\<lparr>SQL = cond, Args = [ArgString arg]\<rparr>, p'))
          else buildColumnComparison L p attr col operator value)"

definition buildComparisonWithRaw ::
  "ext \<Rightarrow> filterParser \<Rightarrow> string \<Rightarrow> string \<Rightarrow> string \<Rightarrow> string \<Rightarrow> built" where
  "buildComparisonWithRaw L p rawAttr attr operator value =
     (let lowerAttr = ToLower L attr in
      if lowerAttr = ''schemas'' then buildSchemasFilter p operator value
      else if entityType p = entityTypeGroup \<and> isGroupMembersAttr lowerAttr then
        buildGroupMembersFilter L p attr operator value
      else if entityType p = entityTypeUser \<and> isUserGroupsAttr lowerAttr then
        buildUserGroupsFilter L p attr operator value
      else (case SplitN2 attr CHR ''.'' of
          [col, sub] \<Rightarrow>
            if entityType p = entityTypeUser \<and> isJSONCollection L col
            then buildJSONAttributeFilter L p (resolveJSONColumn L col) col sub operator value
            else buildResolvedComparison L p rawAttr attr operator value
        | _ \<Rightarrow> buildResolvedComparison L p rawAttr attr operator value))"

section \<open>Token stream\<close>

definition peek :: "filterParser \<Rightarrow> token option" where
  "peek p = (if length (tokens p) \<le> pos p then None else Some (tokens p ! pos p))"

definition next_tok :: "filterParser \<Rightarrow> token option \<times> filterParser" where
  "next_tok p = (if length (tokens p) \<le> pos p then (None, p)
     else (Some (tokens p ! pos p), p\<lparr>pos := pos p + 1\<rparr>))"

definition remaining :: "filterParser \<Rightarrow> nat" where
  "remaining p = length (tokens p) - pos p"

definition advance :: "filterParser \<Rightarrow> filterParser" where
  "advance p = snd (next_tok p)"

definition is_word :: "ext \<Rightarrow> token \<Rightarrow> string \<Rightarrow> bool" where
  "is_word L t w \<longleftrightarrow> tok_typ t = tokenWord \<and> EqualFold L (tok_val t) w"

section \<open>Value path filters\<close>

record innerToken =
  it_val :: string
  it_isString :: bool

definition nonblank :: "string \<Rightarrow> innerToken list" where
  "nonblank s = (if TrimSpace s = [] then [] else [\<lparr>it_val = TrimSpace s, it_isString = False\<rparr>])"

definition afterBracket :: "string \<Rightarrow> string" where
  "afterBracket after = (if HasPrefix after ''.'' then drop 1 after else [])"

text \<open>The loop that collects tokens up to the one with the closing bracket.\<close>

function collectInner :: "filterParser \<Rightarrow> string + (innerToken list \<times> string \<times> filterParser)" where
  "collectInner p =
     (case peek p of
        None \<Rightarrow> Inl ''unterminated value path filter''
      | Some t \<Rightarrow>
          if tok_typ t = tokenString then
            rbind (collectInner (advance p)) (\<lambda>(its, sub, p').
              Inr (\<lparr>it_val = tok_val t, it_isString = True\<rparr> # its, sub, p'))
          else (case Index (tok_val t) '']'' of
              Some closeIdx \<Rightarrow>
                Inr (nonblank (take closeIdx (tok_val t)),
                     afterBracket (drop (closeIdx + 1) (tok_val t)), advance p)
            | None \<Rightarrow>
                rbind (collectInner (advance p)) (\<lambda>(its, sub, p').
                  Inr (\<lparr>it_val = tok_val t, it_isString = False\<rparr> # its, sub, p'))))"
  by pat_completeness auto
termination
  by (relation "measure remaining")
     (auto simp: remaining_def peek_def advance_def next_tok_def split: if_splits)

declare collectInner.simps [simp del]

definition collectTokens :: "filterParser \<Rightarrow> string \<Rightarrow> string + (innerToken list \<times> string \<times> filterParser)" where
  "collectTokens p filterStart =
     (case Index filterStart '']'' of
        Some closeIdx \<Rightarrow>
          Inr (nonblank (take closeIdx filterStart), afterBracket (drop (closeIdx + 1) filterStart), p)
      | None \<Rightarrow>
          rbind (collectInner p) (\<lambda>(its, sub, p').
            Inr ((if TrimSpace filterStart = [] then []
                  else [\<lparr>it_val = filterStart, it_isString = False\<rparr>]) @ its, sub, p')))"

text \<open>The clause between the brackets: one, two or three tokens.\<close>

definition multiClause :: "ext \<Rightarrow> innerToken \<Rightarrow> bool" where
  "multiClause L t \<longleftrightarrow> \<not> it_isString t \<and>
     (ToLower L (it_val t) \<in> set [''and'', ''or'', ''not''] \<or> it_val t = ''('' \<or> it_val t = '')'')"

definition parseInnerClause :: "ext \<Rightarrow> string \<Rightarrow> innerToken list \<Rightarrow> string + innerClause" where
  "parseInnerClause L collectionAttr its =
     (case its of
        [t1, t2] \<Rightarrow>
          if ToLower L (it_val t2) \<noteq> ''pr'' then
            Inl (''expected '' @ quoted ''pr'' @ '' operator in 2-token inner filter, got: '' @ it_val t2)
          else rbind (resolveSubAttribute L collectionAttr (it_val t1)) (\<lambda>_.
            Inr \<lparr>ic_attr = it_val t1, ic_op = ToLower L (it_val t2), ic_val = []\<rparr>)
      | [t1, t2, t3] \<Rightarrow>
          (let attr = it_val t1; op = ToLower L (it_val t2); v = it_val t3 in
           if \<not> isValidComparisonOp op then Inl (''unsupported operator in value path filter: '' @ op)
           else rbind (resolveSubAttribute L collectionAttr attr) (\<lambda>(_, isBool).
             if isBool \<and> op \<noteq> ''eq'' \<and> op \<noteq> ''ne'' \<and> op \<noteq> ''pr'' then
               Inl (''comparison operator '' @ quoted op @ '' is not supported for boolean attribute '' @ quoted attr)
             else if isBool \<and> \<not> boolLiteral L v then
               Inl (''invalid boolean value for attribute '' @ quoted attr @ '': '' @ v)
             else Inr \<lparr>ic_attr = attr, ic_op = op, ic_val = v\<rparr>))
      | [t1] \<Rightarrow> rbind (resolveSubAttribute L collectionAttr (it_val t1)) (\<lambda>_.
            Inr \<lparr>ic_attr = it_val t1, ic_op = ''pr'', ic_val = []\<rparr>)
      | _ \<Rightarrow> Inl ''invalid inner filter in value path'')"

definition subIsBool :: "ext \<Rightarrow> string \<Rightarrow> string \<Rightarrow> bool" where
  "subIsBool L collectionAttr subAttr =
     (case resolveSubAttribute L collectionAttr subAttr of Inl _ \<Rightarrow> False | Inr (_, b) \<Rightarrow> b)"

text \<open>The outer comparison after the closing bracket.\<close>

definition valuePathTail ::
  "ext \<Rightarrow> filterParser \<Rightarrow> string \<Rightarrow> innerClause \<Rightarrow> string \<Rightarrow> built" where
  "valuePathTail L p collectionAttr clause subAttr =
     (let col = resolveJSONColumn L collectionAttr;
          group = (entityType p = entityTypeGroup \<and> crossResource p);
          finish = (\<lambda>q operator value. if group then Inr (\<lparr>SQL = ''FALSE'', Args = []\<rparr>, q)
             else buildJSONContainsFilter L q col collectionAttr (Some clause) subAttr operator value) in
      case peek p of
        None \<Rightarrow> finish p [] []
      | Some opToken \<Rightarrow>
          if tok_typ opToken \<noteq> tokenWord then finish p [] []
          else
           (let operator = ToLower L (tok_val opToken);
                isBool = (subAttr \<noteq> [] \<and> subIsBool L collectionAttr subAttr) in
            if operator \<in> set [''and'', ''or'', ''not''] then finish p [] []
            else if isBool \<and> operator \<noteq> ''pr'' \<and> operator \<noteq> ''eq'' \<and> operator \<noteq> ''ne'' then
              Inl (''comparison operator '' @ quoted operator @ '' is not supported for boolean attribute '' @ quoted subAttr)
            else if operator = ''pr'' then finish (advance p) ''pr'' []
            else if \<not> isValidComparisonOp operator then
              Inl (''unsupported operator in value path filter: '' @ operator)
            else
             (case next_tok (advance p) of
                (None, _) \<Rightarrow> Inl ''expected value''
              | (Some valToken, p') \<Rightarrow>
                  if isBool \<and> \<not> boolLiteral L (tok_val valToken) then
                    Inl (''invalid boolean value for attribute '' @ quoted subAttr @ '': '' @ tok_val valToken)
                  else finish p' operator (tok_val valToken))))"

text \<open>A sub-attribute after the closing bracket may be a token of its own.\<close>

definition trailingSub :: "string \<Rightarrow> filterParser \<Rightarrow> string \<times> filterParser" where
  "trailingSub sub0 p =
     (if sub0 = [] then
        (case peek p of
           Some t \<Rightarrow> if tok_typ t = tokenWord \<and> HasPrefix (tok_val t) ''.''
                     then (drop 1 (tok_val t), advance p) else (sub0, p)
         | None \<Rightarrow> (sub0, p))
      else (sub0, p))"

definition valuePathBody ::
  "ext \<Rightarrow> string \<Rightarrow> innerToken list \<Rightarrow> string \<Rightarrow> filterParser \<Rightarrow> built" where
  "valuePathBody L collectionAttr its sub0 p =
     (if its = [] then
        Inl (''empty valuePath filter expression in '' @ quoted (collectionAttr @ ''[]''))
      else
       (let (subAttr, p2) = trailingSub sub0 p in
        if list_ex (multiClause L) its then
          Inl ''multi-clause inner filters in value paths are not supported''
        else rbind (parseInnerClause L collectionAttr its) (\<lambda>clause.
          if subAttr \<noteq> [] \<and> isl (resolveSubAttribute L collectionAttr subAttr) then
            Inl (projl (resolveSubAttribute L collectionAttr subAttr))
          else valuePathTail L p2 collectionAttr clause subAttr)))"

text \<open>\<open>raw\<close> is the word token with the opening bracket, already consumed from \<open>p\<close>.\<close>

definition parseValuePathFilter :: "ext \<Rightarrow> filterParser \<Rightarrow> string \<Rightarrow> built" where
  "parseValuePathFilter L p raw =
     (let bracketIdx = (case Index raw ''['' of Some i \<Rightarrow> i | None \<Rightarrow> 0);
          rawCollectionAttr = take bracketIdx raw;
          filterStart = drop (bracketIdx + 1) raw;
          isMembers = EqualFold L (stripURNPrefix L rawCollectionAttr) ''members'';
          membersErr = ''value path filters on '' @ quoted ''members'' @ '' are not supported'';
          collectionAttr =
            (if HasPrefix (ToLower L rawCollectionAttr) (ToLower L coreUserURN)
             then drop (length coreUserURN) rawCollectionAttr else rawCollectionAttr) in
      if entityType p = entityTypeGroup \<and> \<not> crossResource p then
        (if isMembers then Inl membersErr else Inl (''unknown attribute: '' @ rawCollectionAttr))
      else if isMembers then Inl membersErr
      else if \<not> isJSONCollection L collectionAttr then
        (if entityType p = entityTypeGroup then Inl (''unknown attribute: '' @ rawCollectionAttr)
         else Inl (''attribute '' @ quoted rawCollectionAttr @ '' is not a multi-valued complex attribute''))
      else rbind (collectTokens p filterStart) (\<lambda>(its, sub0, p1).
        valuePathBody L collectionAttr its sub0 p1))"

section \<open>Recursive descent\<close>

datatype perr = ParseError string | OutOfFuel

type_synonym parsed = "perr + (FilterResult \<times> filterParser)"

definition lift_built :: "built \<Rightarrow> parsed" where
  "lift_built b = (case b of Inl e \<Rightarrow> Inl (ParseError e) | Inr r \<Rightarrow> Inr r)"

text \<open>The part of \<^verbatim>\<open>parseAtom\<close> after a grouped expression has been excluded: a value path
  filter, a presence test or a comparison; \<open>t\<close> is the token \<open>peek\<close> returned.\<close>

definition parseSimpleAtom :: "ext \<Rightarrow> filterParser \<Rightarrow> token \<Rightarrow> built" where
  "parseSimpleAtom L p t =
     (if tok_typ t = tokenWord \<and> Contains (tok_val t) ''['' then
        parseValuePathFilter L (advance p) (tok_val t)
      else if tok_typ t \<noteq> tokenWord then Inl (''expected attribute name, got: '' @ tok_val t)
      else
       (let rawAttrName = tok_val t; p1 = advance p;
            attrName = stripEntityURNPrefix L (entityType p) rawAttrName in
        case peek p1 of
          None \<Rightarrow> Inl (''expected operator after '' @ quoted attrName)
        | Some opToken \<Rightarrow>
            if is_word L opToken ''pr'' then buildPresentFilter L (advance p1) rawAttrName attrName
            else if tok_typ opToken \<noteq> tokenWord then
              Inl (''expected operator after '' @ quoted attrName)
            else
             (let operator = ToLower L (tok_val opToken) in
              case next_tok (advance p1) of
                (None, _) \<Rightarrow> Inl (''expected value after '' @ quoted (attrName @ '' '' @ operator))
              | (Some valToken, p2) \<Rightarrow>
                  buildComparisonWithRaw L p2 rawAttrName attrName operator (tok_val valToken))))"

definition joinResults :: "string \<Rightarrow> FilterResult \<Rightarrow> FilterResult \<Rightarrow> FilterResult" where
  "joinResults op left right =
     \<lparr>SQL = ''('' @ SQL left @ op @ SQL right @ '')'', Args = Args left @ Args right\<rparr>"

definition closeParen :: "string \<Rightarrow> FilterResult \<Rightarrow> filterParser \<Rightarrow> parsed" where
  "closeParen msg r p =
     (case next_tok p of
        (Some rp, p') \<Rightarrow> if tok_typ rp = tokenRParen then Inr (r, p') else Inl (ParseError msg)
      | (None, _) \<Rightarrow> Inl (ParseError msg))"

definition negResult :: "FilterResult \<Rightarrow> FilterResult" where
  "negResult r = \<lparr>SQL = ''NOT ('' @ SQL r @ '')'', Args = Args r\<rparr>"

fun parseOrExpression :: "nat \<Rightarrow> ext \<Rightarrow> filterParser \<Rightarrow> parsed"
and orLoop :: "nat \<Rightarrow> ext \<Rightarrow> FilterResult \<Rightarrow> filterParser \<Rightarrow> parsed"
and parseAndExpression :: "nat \<Rightarrow> ext \<Rightarrow> filterParser \<Rightarrow> parsed"
and andLoop :: "nat \<Rightarrow> ext \<Rightarrow> FilterResult \<Rightarrow> filterParser \<Rightarrow> parsed"
and parseNotExpression :: "nat \<Rightarrow> ext \<Rightarrow> filterParser \<Rightarrow> parsed"
and parseAtom :: "nat \<Rightarrow> ext \<Rightarrow> filterParser \<Rightarrow> parsed" where
  "parseOrExpression 0 L p = Inl OutOfFuel"
| "parseOrExpression (Suc n) L p =
     rbind (parseAndExpression n L p) (\<lambda>(left, p1). orLoop n L left p1)"
| "orLoop 0 L left p = Inl OutOfFuel"
| "orLoop (Suc n) L left p =
     (case peek p of
        Some t \<Rightarrow>
          if is_word L t ''or'' then
            rbind (parseAndExpression n L (advance p)) (\<lambda>(right, p1).
              orLoop n L (joinResults '' OR '' left right) p1)
          else Inr (left, p)
      | None \<Rightarrow> Inr (left, p))"
| "parseAndExpression 0 L p = Inl OutOfFuel"
| "parseAndExpression (Suc n) L p =
     rbind (parseNotExpression n L p) (\<lambda>(left, p1). andLoop n L left p1)"
| "andLoop 0 L left p = Inl OutOfFuel"
| "andLoop (Suc n) L left p =
     (case peek p of
        Some t \<Rightarrow>
          if is_word L t ''and'' then
            rbind (parseNotExpression n L (advance p)) (\<lambda>(right, p1).
              andLoop n L (joinResults '' AND '' left right) p1)
          else Inr (left, p)
      | None \<Rightarrow> Inr (left, p))"
| "parseNotExpression 0 L p = Inl OutOfFuel"
| "parseNotExpression (Suc n) L p =
     (case peek p of
        Some t \<Rightarrow>
          if is_word L t ''not'' then
            (let p1 = advance p in
             case peek p1 of
               Some lp \<Rightarrow>
                 if tok_typ lp = tokenLParen then
                   rbind (parseOrExpression n L (advance p1)) (\<lambda>(inner, p2).
                     closeParen (''expected '' @ quoted '')'' @ '' after NOT expression'')
                       (negResult inner) p2)
                 else rbind (parseAtom n L p1) (\<lambda>(inner, p2). Inr (negResult inner, p2))
             | None \<Rightarrow> rbind (parseAtom n L p1) (\<lambda>(inner, p2). Inr (negResult inner, p2)))
          else parseAtom n L p
      | None \<Rightarrow> parseAtom n L p)"
| "parseAtom 0 L p = Inl OutOfFuel"
| "parseAtom (Suc n) L p =
     (case peek p of
        None \<Rightarrow> Inl (ParseError ''unexpected end of filter'')
      | Some t \<Rightarrow>
          if tok_typ t = tokenLParen then
            rbind (parseOrExpression n L (advance p)) (\<lambda>(inner, p2).
              closeParen (''expected '' @ quoted '')'') inner p2)
          else lift_built (parseSimpleAtom L p t))"

text \<open>
  \<^verbatim>\<open>parseEntityFilter\<close>: no filter for the empty string, otherwise parse everything. The
  error is the \<^verbatim>\<open>ScimError\<close> with status 400 and type \<^verbatim>\<open>invalidFilter\<close>, here its detail.
\<close>

definition enoughFuel :: "filterParser \<Rightarrow> nat" where
  "enoughFuel p = 6 * length (tokens p) + 6"

definition parseEntityFilter ::
  "ext \<Rightarrow> string \<Rightarrow> nat \<Rightarrow> entity \<Rightarrow> bool \<Rightarrow> perr + FilterResult option" where
  "parseEntityFilter L flt startParam ent cross =
     (if flt = [] then Inr None
      else
       (let p = \<lparr>tokens = tokenize L flt, pos = 0, paramIdx = startParam,
                 entityType = ent, crossResource = cross\<rparr> in
        case parseOrExpression (enoughFuel p) L p of
          Inl OutOfFuel \<Rightarrow> Inl OutOfFuel
        | Inl (ParseError e) \<Rightarrow> Inl (ParseError (''Invalid filter: '' @ e))
        | Inr (result, p') \<Rightarrow>
            if pos p' < length (tokens p') then
              Inl (ParseError (''Invalid filter: unexpected token '' @ quoted (tok_val (tokens p' ! pos p'))))
            else Inr (Some result)))"

definition ParseUserFilter :: "ext \<Rightarrow> string \<Rightarrow> nat \<Rightarrow> perr + FilterResult option" where
  "ParseUserFilter L flt startParam = parseEntityFilter L flt startParam entityTypeUser False"

definition ParseUserFilterForRoot :: "ext \<Rightarrow> string \<Rightarrow> nat \<Rightarrow> perr + FilterResult option" where
  "ParseUserFilterForRoot L flt startParam = parseEntityFilter L flt startParam entityTypeUser True"

definition ParseGroupFilter :: "ext \<Rightarrow> string \<Rightarrow> nat \<Rightarrow> perr + FilterResult option" where
  "ParseGroupFilter L flt startParam = parseEntityFilter L flt startParam entityTypeGroup False"

definition ParseGroupFilterForRoot :: "ext \<Rightarrow> string \<Rightarrow> nat \<Rightarrow> perr + FilterResult option" where
  "ParseGroupFilterForRoot L flt startParam = parseEntityFilter L flt startParam entityTypeGroup True"

end
