(* ===== verification/FilterSql.thy ===== *)
theory FilterSql
  imports FilterParse
begin

text \<open>
  What the SQL text of a parsed filter looks like: the placeholders in it, read from left to
  right, are exactly the numbers drawn from the parser, one for each argument. The contract
  of a builder is \<open>draws\<close>, that of a parser function \<open>drawn\<close> (it also moves the position).
\<close>

section \<open>Placeholders of a SQL text\<close>

fun placeholders :: "string \<Rightarrow> string list" where
  "placeholders [] = []"
| "placeholders (c # cs) =
     (if c = CHR ''$'' then takeWhile is_digit cs # placeholders cs else placeholders cs)"

definition starts_digit :: "string \<Rightarrow> bool" where
  "starts_digit s \<longleftrightarrow> s \<noteq> [] \<and> is_digit (hd s)"

lemma starts_digit_simps [simp]:
  "\<not> starts_digit []" "starts_digit (c # s) = is_digit c"
  by (simp_all add: starts_digit_def)

lemma takeWhile_append_stop:
  "\<not> starts_digit t \<Longrightarrow> takeWhile is_digit (s @ t) = takeWhile is_digit s"
  by (induction s) (auto simp: starts_digit_def takeWhile_eq_Nil_iff)

lemma placeholders_append [sql_simps]:
  "\<not> starts_digit t \<Longrightarrow> placeholders (s @ t) = placeholders s @ placeholders t"
  by (induction s) (auto simp: takeWhile_append_stop)

lemma placeholders_no_dollar [sql_simps]:
  "CHR ''$'' \<notin> set s \<Longrightarrow> placeholders (s @ t) = placeholders t"
  by (induction s) auto

lemma placeholders_none [sql_simps]: "CHR ''$'' \<notin> set s \<Longrightarrow> placeholders s = []"
  using placeholders_no_dollar [of s "[]"] by simp

lemma dollar_not_digit [simp]: "\<not> is_digit CHR ''$''"
  by (simp add: is_digit_def code_def)

lemma itoa_no_dollar [simp]: "CHR ''$'' \<notin> set (itoa n)"
  using itoa_digits dollar_not_digit by blast

lemma takeWhile_itoa [simp]: "takeWhile is_digit (itoa n) = itoa n"
  by (simp add: takeWhile_eq_all_conv itoa_digits)

lemma takeWhile_itoa_append [simp]:
  "\<not> starts_digit t \<Longrightarrow> takeWhile is_digit (itoa n @ t) = itoa n"
  by (simp add: takeWhile_append_stop)

lemma placeholders_itoa [simp]: "placeholders (itoa n) = []"
  by (simp add: placeholders_none)

lemma not_digit [simp]:
  "\<not> is_digit CHR '' ''" "\<not> is_digit CHR '')''" "\<not> is_digit CHR ''(''"
  by (simp_all add: is_digit_def code_def)

text \<open>The contract of a builder: the fragment has exactly the placeholders drawn from the
  parser, in order, one per argument, and nothing but the counter changes.\<close>

definition draws :: "filterParser \<Rightarrow> string \<Rightarrow> sql_arg list \<Rightarrow> filterParser \<Rightarrow> bool" where
  "draws p sql args p' \<longleftrightarrow>
     placeholders sql = map itoa [paramIdx p ..< paramIdx p + length args] \<and>
     p' = p\<lparr>paramIdx := paramIdx p + length args\<rparr>"

lemma draws_none: "CHR ''$'' \<notin> set sql \<Longrightarrow> draws p sql [] p"
  by (simp add: draws_def placeholders_none)

lemma text_draws:
  assumes "CHR ''$'' \<notin> set expr"
    and "buildTextExprCondition p expr operator value ci = Inr ((cond, arg), p')"
  shows "draws p cond [a] p'"
  using assms
  by (auto simp: buildTextExprCondition_def Let_def nextParam_def draws_def sql_simps
      split: if_splits)


text \<open>Composition: fixed text around a fragment, or between two, draws nothing.\<close>

lemma draws_frame:
  assumes "draws p s a p'" "CHR ''$'' \<notin> set pre" "CHR ''$'' \<notin> set post" "\<not> starts_digit post"
  shows "draws p (pre @ s @ post) a p'"
  using assms placeholders_append [OF assms(4), of s]
  by (simp add: draws_def placeholders_no_dollar placeholders_none)

lemma draws_join:
  assumes d1: "draws p s1 a1 p1" and d2: "draws p1 s2 a2 p2"
    and pre: "CHR ''$'' \<notin> set pre" and mid: "CHR ''$'' \<notin> set mid" and post: "CHR ''$'' \<notin> set post"
    and sep: "mid \<noteq> []" "\<not> starts_digit mid" "\<not> starts_digit post"
  shows "draws p (pre @ s1 @ mid @ s2 @ post) (a1 @ a2) p2"
proof -
  have "\<not> starts_digit (mid @ s2 @ post)"
    using sep by (cases mid) auto
  then have "placeholders (pre @ s1 @ mid @ s2 @ post) = placeholders s1 @ placeholders (mid @ s2 @ post)"
    using pre by (simp only: placeholders_no_dollar placeholders_append simp_thms)
  also have "placeholders (mid @ s2 @ post) = placeholders s2"
    using mid post placeholders_append [OF sep(3), of s2]
    by (simp add: placeholders_no_dollar placeholders_none)
  finally have "placeholders (pre @ s1 @ mid @ s2 @ post) = placeholders s1 @ placeholders s2" .
  moreover have "[paramIdx p ..< paramIdx p + (length a1 + length a2)] =
      [paramIdx p ..< paramIdx p + length a1] @
      [paramIdx p + length a1 ..< paramIdx p + length a1 + length a2]"
    using upt_add_eq_append [of "paramIdx p" "paramIdx p + length a1" "length a2"]
    by (simp only: add.assoc le_add1)
  ultimately show ?thesis
    using d1 d2 by (auto simp: draws_def add.assoc)
qed

section \<open>Columns have no placeholder\<close>

lemma quoted_no_dollar [simp]: "CHR ''$'' \<in> set (quoted s) \<longleftrightarrow> CHR ''$'' \<in> set s"
  by (simp add: quoted_def)

lemma map_of_all: "map_of xs k = Some v \<Longrightarrow> list_all (\<lambda>(_, v). P v) xs \<Longrightarrow> P v"
  by (auto simp: list_all_iff dest!: map_of_SomeD)

lemma table_no_dollar:
  "list_all (\<lambda>(_, col). CHR ''$'' \<notin> set col) groupColumnTable"
  "list_all (\<lambda>(_, col). CHR ''$'' \<notin> set col) userColumnTable"
  "list_all (\<lambda>(_, col). CHR ''$'' \<notin> set col) enterpriseColumnTable"
  "list_all (\<lambda>(_, col). CHR ''$'' \<notin> set col) jsonColumnTable"
  "list_all (\<lambda>(_, key, _). CHR ''$'' \<notin> set key) plainSubTable"
  "list_all (\<lambda>(_, key, _). CHR ''$'' \<notin> set key) addressSubTable"
  by (simp_all add: groupColumnTable_def userColumnTable_def enterpriseColumnTable_def
      jsonColumnTable_def plainSubTable_def addressSubTable_def)

lemma isJSONCollection_table:
  "isJSONCollection L attr \<longleftrightarrow> ToLower L attr \<in> fst ` set jsonColumnTable"
  by (simp add: isJSONCollection_def jsonColumnTable_def)

lemma resolveJSONColumn_no_dollar [simp]:
  "isJSONCollection L attr \<Longrightarrow> CHR ''$'' \<notin> set (resolveJSONColumn L attr)"
  by (auto simp: isJSONCollection_table resolveJSONColumn_def map_of_eq_None_iff
      split: option.splits dest: map_of_all [OF _ table_no_dollar(4)])

lemma isJSONCollection_lower:
  "isJSONCollection L attr \<Longrightarrow> ToLower L (ToLower L attr) = ToLower L attr"
  by (auto simp: isJSONCollection_def ToLower_ascii code_def ascii_lower_def is_upper_def)

lemma resolveEnterpriseColumn_no_dollar:
  "resolveEnterpriseColumn L attr = Inr col \<Longrightarrow> CHR ''$'' \<notin> set col"
  by (auto simp: resolveEnterpriseColumn_def split: option.splits
      dest: map_of_all [OF _ table_no_dollar(3)])

lemma resolveSubAttribute_no_dollar:
  "resolveSubAttribute L c a = Inr (key, b) \<Longrightarrow> CHR ''$'' \<notin> set key"
  by (auto simp: resolveSubAttribute_def Let_def split: option.splits if_splits
      dest: map_of_all [OF _ table_no_dollar(5)] map_of_all [OF _ table_no_dollar(6)])


lemma userColumn_no_dollar:
  "map_of userColumnTable a = Some col \<Longrightarrow> CHR ''$'' \<notin> set col"
  by (rule map_of_all [OF _ table_no_dollar(2)])

lemma resolveColumn_no_dollar:
  assumes "lower_idem L" and "resolveColumn L ent attr = Inr col"
  shows "CHR ''$'' \<notin> set col"
proof -
  have json: "isJSONCollection L (ToLower L attr) = isJSONCollection L attr"
    using assms(1) by (simp add: isJSONCollection_def lower_idem_def)
  show ?thesis
    using assms(2)
    by (auto simp: resolveColumn_def Let_def resolveEnterpriseColumn_no_dollar userColumn_no_dollar json
        split: if_splits option.splits dest: map_of_all [OF _ table_no_dollar(1)])
qed

section \<open>Every builder draws what it returns\<close>

lemma existsWith_draws:
  assumes "existsWith from p expr operator v = Inr (r, p')"
    and "CHR ''$'' \<notin> set from" "CHR ''$'' \<notin> set expr"
  shows "draws p (SQL r) (Args r) p'"
proof -
  from assms(1) obtain cond arg where
    tx: "buildTextExprCondition p expr operator v True = Inr ((cond, arg), p')"
    and r: "r = \<lparr>SQL = from @ '' AND '' @ cond @ '')'', Args = [ArgString arg]\<rparr>"
    by (auto simp: existsWith_def rbind_eq_Inr)
  have "draws p ((from @ '' AND '') @ cond @ '')'') [ArgString arg] p'"
    by (rule draws_frame [OF text_draws [OF assms(3) tx]]) (use assms(2) in simp_all)
  with r show ?thesis by simp
qed

lemma from_no_dollar [simp]:
  "CHR ''$'' \<notin> set membersFrom" "CHR ''$'' \<notin> set groupsFrom" "CHR ''$'' \<notin> set groupsJoinFrom"
  "CHR ''$'' \<notin> set entPresent" "CHR ''$'' \<notin> set enterpriseURNBase"
  by (simp_all add: membersFrom_def groupsFrom_def groupsJoinFrom_def entPresent_def
      enterpriseURNBase_def)

lemma members_draws:
  "buildGroupMembersFilter L p attr operator v = Inr (r, p') \<Longrightarrow> draws p (SQL r) (Args r) p'"
  by (auto simp: buildGroupMembersFilter_def Let_def split: if_splits dest!: existsWith_draws)

lemma groups_draws:
  "buildUserGroupsFilter L p attr operator v = Inr (r, p') \<Longrightarrow> draws p (SQL r) (Args r) p'"
  by (auto simp: buildUserGroupsFilter_def Let_def split: if_splits dest!: existsWith_draws)

lemma schemas_draws:
  assumes "buildSchemasFilter p operator v = Inr (r, p')"
  shows "draws p (SQL r) (Args r) p'"
proof (cases "entityType p = entityTypeGroup")
  case True
  with assms show ?thesis
    by (auto simp: buildSchemasFilter_def rbind_eq_Inr split: if_splits dest!: text_draws [rotated])
next
  case False
  with assms obtain c1 a1 p1 c2 a2 where
    t1: "buildTextExprCondition p (quoted ''urn:ietf:params:scim:schemas:core:2.0:User'' @ ''::text'')
           operator v False = Inr ((c1, a1), p1)"
    and t2: "buildTextExprCondition p1 (quoted enterpriseURNBase @ ''::text'')
           operator v False = Inr ((c2, a2), p')"
    and r: "Args r = [ArgString a1, ArgString a2]"
      "SQL r = ''('' @ c1 @ '' AND (NOT '' @ entPresent @ '' OR '' @ c2 @ ''))'' \<or>
       SQL r = ''('' @ c1 @ '' OR ('' @ entPresent @ '' AND '' @ c2 @ ''))''"
    by (auto simp: buildSchemasFilter_def rbind_eq_Inr split: if_splits)
  have d1: "draws p c1 [ArgString a1] p1" by (rule text_draws [OF _ t1]) simp
  have d2: "draws p1 c2 [ArgString a2] p'" by (rule text_draws [OF _ t2]) simp
  have "draws p (''('' @ c1 @ ('' AND (NOT '' @ entPresent @ '' OR '') @ c2 @ ''))'')
          ([ArgString a1] @ [ArgString a2]) p'"
    by (rule draws_join [OF d1 d2]) simp_all
  moreover have "draws p (''('' @ c1 @ ('' OR ('' @ entPresent @ '' AND '') @ c2 @ ''))'')
          ([ArgString a1] @ [ArgString a2]) p'"
    by (rule draws_join [OF d1 d2]) simp_all
  ultimately show ?thesis using r by auto
qed

lemma elem_draws:
  assumes "buildElemCondition L p c a op v = Inr ((cond, args), p')"
  shows "draws p cond args p'"
proof -
  from assms obtain key b where k: "resolveSubAttribute L c a = Inr (key, b)"
    by (auto simp: buildElemCondition_def rbind_eq_Inr)
  then have key: "CHR ''$'' \<notin> set (elemKey key)"
    by (simp add: elemKey_def resolveSubAttribute_no_dollar)
  show ?thesis
    using assms k key
    by (auto simp: buildElemCondition_def Let_def nextParam_def draws_def sql_simps
        split: if_splits)
qed

lemma jsonExists_draws:
  assumes "draws p cond args p'" and "CHR ''$'' \<notin> set col"
  shows "draws p (jsonExists col cond) args p'"
proof -
  let ?pre = "''('' @ col @ '' IS NOT NULL AND jsonb_typeof('' @ col @ ''::jsonb) = '' @ quoted ''array'' @
     '' AND '' @ col @ ''::text != '' @ quoted ''[]'' @
     '' AND EXISTS (SELECT 1 FROM jsonb_array_elements('' @ col @ ''::jsonb) AS elem WHERE ''"
  have "draws p (?pre @ cond @ ''))'') args p'"
    by (rule draws_frame [OF assms(1)]) (use assms(2) in simp_all)
  then show ?thesis by (simp add: jsonExists_def)
qed


lemma elemKey_no_dollar: "resolveSubAttribute L c a = Inr (key, b) \<Longrightarrow> CHR ''$'' \<notin> set (elemKey key)"
  by (simp add: elemKey_def resolveSubAttribute_no_dollar)

lemma notEmptyArray_no_dollar [simp]: "CHR ''$'' \<in> set (notEmptyArray col) \<longleftrightarrow> CHR ''$'' \<in> set col"
  by (auto simp: notEmptyArray_def quoted_def)

lemma jsonAttribute_draws:
  assumes build: "buildJSONAttributeFilter L p col c a op v = Inr (r, p')"
    and col: "CHR ''$'' \<notin> set col"
  shows "draws p (SQL r) (Args r) p'"
proof -
  from build obtain key b where k: "resolveSubAttribute L c a = Inr (key, b)"
    by (auto simp: buildJSONAttributeFilter_def rbind_eq_Inr)
  note key = elemKey_no_dollar [OF k]
  have eq: "draws p (CHR ''('' # elemKey key @ '') = '' @ param) [x] q"
    if "nextParam p = (param, q)" for param q x
    using key that by (auto simp: draws_def nextParam_def sql_simps)
  show ?thesis
    using build k col key
    by (auto simp: buildJSONAttributeFilter_def Let_def rbind_eq_Inr draws_none eq [simplified]
        intro!: jsonExists_draws dest: elem_draws split: if_splits prod.splits)
qed

lemma elemConds_draws:
  assumes "elemConds L p c present a op v = Inr ((conds, args), p')"
  shows "(conds = [] \<and> args = [] \<and> p' = p) \<or> (\<exists>cond. conds = [cond] \<and> draws p cond args p')"
  using assms by (auto simp: elemConds_def rbind_eq_Inr split: if_splits dest: elem_draws)

lemma jsonContains_draws:
  assumes build: "buildJSONContainsFilter L p col c clause sub op v = Inr (r, p')"
    and col: "CHR ''$'' \<notin> set col"
  shows "draws p (SQL r) (Args r) p'"
proof -
  obtain attr cop cval where cl: "(case clause of None \<Rightarrow> ([], [], [])
        | Some c \<Rightarrow> (ic_attr c, ic_op c, ic_val c)) = (attr, cop, cval)"
    by (cases clause) auto
  define op' where "op' = (if op = [] then ''pr'' else op)"
  note step = build [unfolded buildJSONContainsFilter_def cl Let_def prod.case, folded op'_def]
  from step obtain conds1 args1 p1 where
    e1: "elemConds L p c (attr \<noteq> []) attr cop cval = Inr ((conds1, args1), p1)"
    by (cases "elemConds L p c (attr \<noteq> []) attr cop cval") auto
  with step obtain conds2 args2 where
    e2: "elemConds L p1 c (sub \<noteq> []) sub op' v = Inr ((conds2, args2), p')"
    and r: "r = (if conds1 @ conds2 = [] then \<lparr>SQL = notEmptyArray col, Args = []\<rparr>
      else \<lparr>SQL = jsonExists col (Join (conds1 @ conds2) '' AND ''), Args = args1 @ args2\<rparr>)"
    by (cases "elemConds L p1 c (sub \<noteq> []) sub op' v") (auto split: if_splits)
  from elemConds_draws [OF e1] elemConds_draws [OF e2]
  consider "conds1 = []" "args1 = []" "p1 = p" "conds2 = []" "args2 = []" "p' = p1"
    | c1 where "conds1 = [c1]" "draws p c1 args1 p1" "conds2 = []" "args2 = []" "p' = p1"
    | c2 where "conds1 = []" "args1 = []" "p1 = p" "conds2 = [c2]" "draws p1 c2 args2 p'"
    | c1 c2 where "conds1 = [c1]" "draws p c1 args1 p1" "conds2 = [c2]" "draws p1 c2 args2 p'"
    by auto
  then show ?thesis
  proof cases
    case 1
    then show ?thesis using r col by (simp add: draws_none)
  next
    case (2 c1)
    then show ?thesis using r col by (simp add: jsonExists_draws)
  next
    case (3 c2)
    then show ?thesis using r col by (simp add: jsonExists_draws)
  next
    case (4 c1 c2)
    have "draws p ([] @ c1 @ '' AND '' @ c2 @ []) (args1 @ args2) p'"
      by (rule draws_join [OF 4(2,4)]) simp_all
    then show ?thesis using r col 4 by (simp add: jsonExists_draws)
  qed
qed

lemma present_draws:
  assumes "lower_idem L" and "buildPresentFilter L p raw attr = Inr (r, p')"
  shows "draws p (SQL r) (Args r) p'"
proof -
  have members: "buildGroupMembersPresentFilter a = Inr r \<Longrightarrow> CHR ''$'' \<notin> set (SQL r) \<and> Args r = []" for a
    by (auto simp: buildGroupMembersPresentFilter_def split: if_splits)
  have groups: "buildUserGroupsPresentFilter a = Inr r \<Longrightarrow> CHR ''$'' \<notin> set (SQL r) \<and> Args r = []" for a
    by (auto simp: buildUserGroupsPresentFilter_def)
  show ?thesis
    using assms(2)
    by (auto simp: buildPresentFilter_def Let_def rbind_eq_Inr
        dest!: members groups resolveColumn_no_dollar [OF assms(1)]
        intro!: draws_none elim!: jsonAttribute_draws
        split: if_splits sum.splits list.splits)
qed

lemma columnComparison_draws:
  assumes "buildColumnComparison L p attr col operator v = Inr (r, p')" and "CHR ''$'' \<notin> set col"
  shows "draws p (SQL r) (Args r) p'"
  using assms
  by (simp add: buildColumnComparison_def Let_def nextParam_def split: if_splits)
     (auto simp: draws_def sql_simps)

lemma manager_draws:
  "buildTextExprCondition p ''enterprise_manager_value'' op v ci = Inr ((cond, arg), p')
    \<Longrightarrow> draws p cond [ArgString arg] p'"
  by (rule text_draws) simp_all

lemma resolved_draws:
  assumes "lower_idem L" and "buildResolvedComparison L p raw attr operator v = Inr (r, p')"
  shows "draws p (SQL r) (Args r) p'"
  using assms(2)
  by (auto simp: buildResolvedComparison_def rbind_eq_Inr draws_none
      dest!: resolveColumn_no_dollar [OF assms(1)] manager_draws
      intro: columnComparison_draws
      split: sum.splits if_splits)

lemma comparison_draws:
  assumes "lower_idem L" and "buildComparisonWithRaw L p raw attr operator v = Inr (r, p')"
  shows "draws p (SQL r) (Args r) p'"
  using assms(2)
  by (auto simp: buildComparisonWithRaw_def Let_def
      dest: schemas_draws members_draws groups_draws resolved_draws [OF assms(1)]
      elim!: jsonAttribute_draws
      split: if_splits list.splits)


section \<open>The parser draws what it returns\<close>

text \<open>The parser also moves its position; everything else is as for a builder.\<close>

definition drawn :: "filterParser \<Rightarrow> FilterResult \<Rightarrow> filterParser \<Rightarrow> bool" where
  "drawn p r p' \<longleftrightarrow> draws (p\<lparr>pos := pos p'\<rparr>) (SQL r) (Args r) p'"

lemma draws_pos: "draws p s a p' \<Longrightarrow> draws (p\<lparr>pos := k\<rparr>) s a (p'\<lparr>pos := k\<rparr>)"
  by (simp add: draws_def)

lemma draws_pos_eq: "draws p s a p' \<Longrightarrow> pos p' = pos p"
  by (simp add: draws_def)

lemma drawnI: "draws (p\<lparr>pos := k\<rparr>) (SQL r) (Args r) p' \<Longrightarrow> drawn p r p'"
  by (frule draws_pos_eq) (simp add: drawn_def)

lemma drawn_from: "draws p (SQL r) (Args r) p' \<Longrightarrow> drawn p r p'"
  by (frule draws_pos_eq) (simp add: drawn_def)

lemma advance_pos: "advance p = p\<lparr>pos := pos (advance p)\<rparr>"
  by (simp add: advance_def next_tok_def)

lemma next_tok_advance: "next_tok p = (t, q) \<Longrightarrow> q = advance p"
  by (simp add: advance_def)

lemma drawn_shift: "drawn (p\<lparr>pos := k\<rparr>) r p' \<longleftrightarrow> drawn p r p'"
  by (simp add: drawn_def)

lemma drawn_advance [simp]: "drawn (advance p) r p' \<longleftrightarrow> drawn p r p'"
  using drawn_shift [where p = p and k = "pos (advance p)"] advance_pos [of p] by simp

lemma drawn_advance_pos: "drawn p r p' \<Longrightarrow> drawn p r (advance p')"
proof -
  assume d: "drawn p r p'"
  have "draws (p\<lparr>pos := pos (advance p')\<rparr>) (SQL r) (Args r) (p'\<lparr>pos := pos (advance p')\<rparr>)"
    using draws_pos [OF d [unfolded drawn_def], of "pos (advance p')"] by simp
  then show ?thesis using advance_pos [of p'] by (simp add: drawn_def)
qed

lemma drawn_join:
  assumes "drawn p l p1" and "drawn p1 r p2"
    and "CHR ''$'' \<notin> set op" and "op \<noteq> []" and "\<not> starts_digit op"
  shows "drawn p (joinResults op l r) p2"
proof -
  have d1: "draws (p\<lparr>pos := pos p2\<rparr>) (SQL l) (Args l) (p1\<lparr>pos := pos p2\<rparr>)"
    using draws_pos [OF assms(1) [unfolded drawn_def], of "pos p2"] by simp
  have d2: "draws (p1\<lparr>pos := pos p2\<rparr>) (SQL r) (Args r) p2"
    using assms(2) by (simp add: drawn_def)
  have "draws (p\<lparr>pos := pos p2\<rparr>) (''('' @ SQL l @ op @ SQL r @ '')'') (Args l @ Args r) p2"
    by (rule draws_join [OF d1 d2]) (use assms in simp_all)
  then show ?thesis by (simp add: drawn_def joinResults_def)
qed

lemma drawn_neg: "drawn p r p' \<Longrightarrow> drawn p (negResult r) p'"
  using draws_frame [of "p\<lparr>pos := pos p'\<rparr>" "SQL r" "Args r" p' "''NOT (''" "'')''"]
  by (simp add: drawn_def negResult_def)

lemma drawn_closeParen: "drawn p r p' \<Longrightarrow> closeParen msg r p' = Inr (r', p2) \<Longrightarrow> drawn p r' p2"
  by (auto simp: closeParen_def drawn_advance_pos split: prod.splits option.splits if_splits
      dest!: next_tok_advance)

lemma collectInner_pos: "collectInner p = Inr (its, sub, p') \<Longrightarrow> \<exists>k. p' = p\<lparr>pos := k\<rparr>"
proof (induction p arbitrary: its sub p' rule: collectInner.induct)
  case (1 p)
  have adv: "\<exists>k. advance p = p\<lparr>pos := k\<rparr>" using advance_pos by blast
  show ?case
  proof (cases "peek p")
    case None
    then show ?thesis using "1.prems" by (simp add: collectInner.simps [of p])
  next
    case (Some t)
    have lift: "\<exists>k. q = p\<lparr>pos := k\<rparr>" if "\<exists>k. q = (advance p)\<lparr>pos := k\<rparr>" for q :: filterParser
      using that adv by auto
    show ?thesis
    proof (cases "tok_typ t = tokenString")
      case True
      with "1.prems" Some obtain its' where "collectInner (advance p) = Inr (its', sub, p')"
        by (auto simp: collectInner.simps [of p] rbind_eq_Inr)
      then show ?thesis using "1.IH"(1) [OF Some True] lift by blast
    next
      case False
      show ?thesis
      proof (cases "Index (tok_val t) '']''")
        case None
        with "1.prems" Some False obtain its' where "collectInner (advance p) = Inr (its', sub, p')"
          by (auto simp: collectInner.simps [of p] rbind_eq_Inr)
        then show ?thesis using "1.IH"(2) [OF Some False None] lift by blast
      next
        case (Some i)
        with "1.prems" \<open>peek p = Some t\<close> False adv show ?thesis
          by (auto simp: collectInner.simps [of p])
      qed
    qed
  qed
qed

lemma collectTokens_pos: "collectTokens p s = Inr (its, sub, p') \<Longrightarrow> \<exists>k. p' = p\<lparr>pos := k\<rparr>"
proof (cases "Index s '']''")
  case (Some i)
  moreover assume "collectTokens p s = Inr (its, sub, p')"
  ultimately have "p' = p\<lparr>pos := pos p\<rparr>" by (auto simp: collectTokens_def)
  then show ?thesis ..
next
  case None
  moreover assume "collectTokens p s = Inr (its, sub, p')"
  ultimately show ?thesis
    by (auto simp: collectTokens_def rbind_eq_Inr dest: collectInner_pos)
qed


lemma drawn_false: "drawn p \<lparr>SQL = ''FALSE'', Args = []\<rparr> p"
  by (rule drawn_from) (simp add: draws_none)

lemma contains_drawn:
  "buildJSONContainsFilter L q (resolveJSONColumn L c) c cl sub op v = Inr (r, p')
    \<Longrightarrow> isJSONCollection L c \<Longrightarrow> drawn q r p'"
  by (rule drawn_from, erule jsonContains_draws) simp

lemma valuePathTail_drawn:
  assumes "valuePathTail L p c clause sub = Inr (r, p')" and "isJSONCollection L c"
  shows "drawn p r p'"
  using assms
  by (auto simp: valuePathTail_def Let_def drawn_false drawn_advance_pos
      split: option.splits if_splits prod.splits
      dest!: next_tok_advance dest: contains_drawn)

lemma valuePathBody_drawn:
  assumes "valuePathBody L c its sub0 p = Inr (r, p')" and "isJSONCollection L c"
  shows "drawn p r p'"
proof -
  obtain sub p2 where ts: "trailingSub sub0 p = (sub, p2)" by fastforce
  then have "p2 = p \<or> p2 = advance p"
    by (auto simp: trailingSub_def split: if_splits option.splits)
  moreover from assms(1) ts obtain clause where "valuePathTail L p2 c clause sub = Inr (r, p')"
    by (auto simp: valuePathBody_def rbind_eq_Inr split: if_splits)
  then have "drawn p2 r p'" using assms(2) by (rule valuePathTail_drawn)
  ultimately show ?thesis by auto
qed

lemma parseValuePathFilter_drawn:
  assumes "parseValuePathFilter L p raw = Inr (r, p')"
  shows "drawn p r p'"
proof -
  from assms obtain c start where c: "isJSONCollection L c"
    and body: "rbind (collectTokens p start) (\<lambda>(its, sub0, p1). valuePathBody L c its sub0 p1) = Inr (r, p')"
    unfolding parseValuePathFilter_def Let_def by (simp split: if_splits)
  from body obtain its sub0 p1 where coll: "collectTokens p start = Inr (its, sub0, p1)"
    and tail: "valuePathBody L c its sub0 p1 = Inr (r, p')"
    by (auto simp: rbind_eq_Inr)
  from collectTokens_pos [OF coll] valuePathBody_drawn [OF tail c]
  show ?thesis by (auto simp: drawn_shift)
qed

lemma parseSimpleAtom_drawn:
  assumes low: "lower_idem L" and atom: "parseSimpleAtom L p t = Inr (r, p')"
  shows "drawn p r p'"
proof -
  have "drawn (advance p) r p' \<or> drawn (advance (advance p)) r p' \<or>
      drawn (advance (advance (advance p))) r p'"
    using atom
    by (auto simp: parseSimpleAtom_def Let_def
        split: if_splits option.splits prod.splits
        dest!: next_tok_advance
        dest: drawn_from [OF present_draws [OF low]] drawn_from [OF comparison_draws [OF low]]
          parseValuePathFilter_drawn)
  then show ?thesis by simp
qed

lemma parse_drawn:
  assumes "lower_idem L"
  shows "parseOrExpression n L p = Inr (r, p') \<Longrightarrow> drawn p r p'"
    and "drawn p0 l p \<Longrightarrow> orLoop n L l p = Inr (r, p') \<Longrightarrow> drawn p0 r p'"
    and "parseAndExpression n L p = Inr (r, p') \<Longrightarrow> drawn p r p'"
    and "drawn p0 l p \<Longrightarrow> andLoop n L l p = Inr (r, p') \<Longrightarrow> drawn p0 r p'"
    and "parseNotExpression n L p = Inr (r, p') \<Longrightarrow> drawn p r p'"
    and "parseAtom n L p = Inr (r, p') \<Longrightarrow> drawn p r p'"
proof (induction n arbitrary: p p0 l r p')
  case 0
  { case 1 then show ?case by simp }
  { case 2 then show ?case by simp }
  { case 3 then show ?case by simp }
  { case 4 then show ?case by simp }
  { case 5 then show ?case by simp }
  { case 6 then show ?case by simp }
next
  case (Suc n)
  { case 1 then show ?case by (auto simp: rbind_eq_Inr dest: Suc.IH) }
  { case 2
    note prems = this
    from prems(2) consider (stop) "r = l" "p' = p"
      | (more) right p1 where "parseAndExpression n L (advance p) = Inr (right, p1)"
          "orLoop n L (joinResults '' OR '' l right) p1 = Inr (r, p')"
      by (auto simp: rbind_eq_Inr split: option.splits if_splits)
    then show ?case
    proof cases
      case stop
      then show ?thesis using prems(1) by simp
    next
      case more
      have "drawn p right p1" using Suc.IH(3) [OF more(1)] by simp
      then have "drawn p0 (joinResults '' OR '' l right) p1"
        by (rule drawn_join [OF prems(1)]) simp_all
      from this more(2) show ?thesis by (rule Suc.IH(2))
    qed }
  { case 3 then show ?case by (auto simp: rbind_eq_Inr dest: Suc.IH) }
  { case 4
    note prems = this
    from prems(2) consider (stop) "r = l" "p' = p"
      | (more) right p1 where "parseNotExpression n L (advance p) = Inr (right, p1)"
          "andLoop n L (joinResults '' AND '' l right) p1 = Inr (r, p')"
      by (auto simp: rbind_eq_Inr split: option.splits if_splits)
    then show ?case
    proof cases
      case stop
      then show ?thesis using prems(1) by simp
    next
      case more
      have "drawn p right p1" using Suc.IH(5) [OF more(1)] by simp
      then have "drawn p0 (joinResults '' AND '' l right) p1"
        by (rule drawn_join [OF prems(1)]) simp_all
      from this more(2) show ?thesis by (rule Suc.IH(4))
    qed }
  { case 5
    then show ?case
      by (auto simp: rbind_eq_Inr Let_def split: option.splits if_splits
          dest!: Suc.IH(1) Suc.IH(6) drawn_closeParen [rotated] intro: drawn_neg) }
  { case 6
    then show ?case
      by (auto simp: rbind_eq_Inr lift_built_def split: option.splits if_splits sum.splits
          dest!: Suc.IH(1) drawn_closeParen [rotated] parseSimpleAtom_drawn [OF assms]) }
qed

end
