(* ===== verification/FilterTotal.thy ===== *)
theory FilterTotal
  imports FilterParse
begin

text \<open>
  The filter parser always returns: every parser function consumes tokens, and the fuel
  \<open>parseEntityFilter\<close> hands out is enough, so \<open>OutOfFuel\<close> is never its result.
\<close>

section \<open>Builders leave the token stream alone\<close>

definition same_stream :: "filterParser \<Rightarrow> filterParser \<Rightarrow> bool" where
  "same_stream p p' \<longleftrightarrow> tokens p' = tokens p \<and> pos p' = pos p"

lemma same_stream_refl [simp]: "same_stream p p"
  by (simp add: same_stream_def)

lemma same_stream_trans: "same_stream p q \<Longrightarrow> same_stream q r \<Longrightarrow> same_stream p r"
  by (simp add: same_stream_def)

lemma nextParam_stream: "nextParam p = (s, p') \<Longrightarrow> same_stream p p'"
  by (auto simp: nextParam_def same_stream_def)

lemma text_stream: "buildTextExprCondition p e op v ci = Inr (x, p') \<Longrightarrow> same_stream p p'"
  by (auto simp: buildTextExprCondition_def Let_def split: prod.splits if_splits dest: nextParam_stream)

lemma exists_stream: "existsWith fr p e op v = Inr (x, p') \<Longrightarrow> same_stream p p'"
  by (auto simp: existsWith_def rbind_eq_Inr dest: text_stream)

lemma members_stream: "buildGroupMembersFilter L p a op v = Inr (x, p') \<Longrightarrow> same_stream p p'"
  by (auto simp: buildGroupMembersFilter_def Let_def split: if_splits dest: exists_stream)

lemma groups_stream: "buildUserGroupsFilter L p a op v = Inr (x, p') \<Longrightarrow> same_stream p p'"
  by (auto simp: buildUserGroupsFilter_def Let_def split: if_splits dest: exists_stream)

lemma schemas_stream: "buildSchemasFilter p op v = Inr (x, p') \<Longrightarrow> same_stream p p'"
  by (auto simp: buildSchemasFilter_def rbind_eq_Inr split: if_splits
      dest!: text_stream intro: same_stream_trans)

lemma elem_stream: "buildElemCondition L p c a op v = Inr (x, p') \<Longrightarrow> same_stream p p'"
  by (auto simp: buildElemCondition_def rbind_eq_Inr Let_def nextParam_def same_stream_def
      split: if_splits)

lemma jsonAttribute_stream:
  "buildJSONAttributeFilter L p col c a op v = Inr (x, p') \<Longrightarrow> same_stream p p'"
  by (auto simp: buildJSONAttributeFilter_def rbind_eq_Inr Let_def split: prod.splits if_splits
      dest: nextParam_stream elem_stream)

lemma elemConds_stream: "elemConds L p c pr a op v = Inr (x, p') \<Longrightarrow> same_stream p p'"
  by (auto simp: elemConds_def rbind_eq_Inr split: if_splits dest: elem_stream)

lemma jsonContains_stream:
  assumes "buildJSONContainsFilter L p col c cl sub op v = Inr (x, p')"
  shows "same_stream p p'"
proof -
  obtain attr cop cval where cl: "(case cl of None \<Rightarrow> ([], [], [])
        | Some c \<Rightarrow> (ic_attr c, ic_op c, ic_val c)) = (attr, cop, cval)"
    by (cases cl) auto
  define op' where "op' = (if op = [] then ''pr'' else op)"
  note step = assms [unfolded buildJSONContainsFilter_def cl Let_def prod.case, folded op'_def]
  from step obtain y p1 where e1: "elemConds L p c (attr \<noteq> []) attr cop cval = Inr (y, p1)"
    by (cases "elemConds L p c (attr \<noteq> []) attr cop cval") auto
  moreover from step e1 obtain z where "elemConds L p1 c (sub \<noteq> []) sub op' v = Inr (z, p')"
    by (cases "elemConds L p1 c (sub \<noteq> []) sub op' v") (auto split: if_splits prod.splits)
  ultimately show ?thesis by (blast dest: elemConds_stream intro: same_stream_trans)
qed

lemma present_stream: "buildPresentFilter L p raw a = Inr (x, p') \<Longrightarrow> same_stream p p'"
  by (auto simp: buildPresentFilter_def Let_def rbind_eq_Inr
      split: if_splits sum.splits list.splits dest: jsonAttribute_stream)

lemma columnComparison_stream:
  "buildColumnComparison L p a col op v = Inr (x, p') \<Longrightarrow> same_stream p p'"
  by (simp add: buildColumnComparison_def Let_def nextParam_def split: if_splits)
     (auto simp: same_stream_def)

lemma resolved_stream: "buildResolvedComparison L p raw a op v = Inr (x, p') \<Longrightarrow> same_stream p p'"
  by (auto simp: buildResolvedComparison_def rbind_eq_Inr split: sum.splits if_splits
      dest: text_stream columnComparison_stream)

lemma comparison_stream: "buildComparisonWithRaw L p raw a op v = Inr (x, p') \<Longrightarrow> same_stream p p'"
  by (auto simp: buildComparisonWithRaw_def Let_def split: if_splits list.splits
      dest: schemas_stream members_stream groups_stream resolved_stream jsonAttribute_stream)

section \<open>Parser functions consume tokens\<close>

text \<open>\<open>consumed p p'\<close>: same tokens, and the position did not move back.\<close>

definition consumed :: "filterParser \<Rightarrow> filterParser \<Rightarrow> bool" where
  "consumed p p' \<longleftrightarrow> tokens p' = tokens p \<and> pos p \<le> pos p'"

lemma consumed_refl [simp]: "consumed p p"
  by (simp add: consumed_def)

lemma consumed_trans [trans]: "consumed p q \<Longrightarrow> consumed q r \<Longrightarrow> consumed p r"
  by (auto simp: consumed_def)

lemma consumed_stream: "same_stream p p' \<Longrightarrow> consumed p p'"
  by (simp add: consumed_def same_stream_def)

lemma consumed_advance [simp]: "consumed p (advance p)"
  by (simp add: consumed_def advance_def next_tok_def)

lemma advance_remaining: "peek p = Some t \<Longrightarrow> remaining (advance p) < remaining p"
  by (auto simp: peek_def remaining_def advance_def next_tok_def split: if_splits)

lemma consumed_remaining: "consumed p p' \<Longrightarrow> remaining p' \<le> remaining p"
  by (auto simp: consumed_def remaining_def)

lemma next_tok_consumed: "next_tok p = (t, q) \<Longrightarrow> consumed p q"
  by (auto simp: next_tok_def consumed_def split: if_splits)

lemma closeParen_consumed: "closeParen msg r p = Inr (r', p') \<Longrightarrow> consumed p p'"
  by (auto simp: closeParen_def split: prod.splits option.splits if_splits dest: next_tok_consumed)

lemma closeParen_fuel: "closeParen msg r p \<noteq> Inl OutOfFuel"
  by (auto simp: closeParen_def split: prod.splits option.splits)

lemma collectInner_consumed: "collectInner p = Inr (its, sub, p') \<Longrightarrow> consumed p p'"
proof (induction p arbitrary: its sub p' rule: collectInner.induct)
  case (1 p)
  show ?case
  proof (cases "peek p")
    case None
    then show ?thesis using "1.prems" by (simp add: collectInner.simps [of p])
  next
    case (Some t)
    show ?thesis
    proof (cases "tok_typ t = tokenString")
      case True
      with "1.prems" Some obtain its' where "collectInner (advance p) = Inr (its', sub, p')"
        by (auto simp: collectInner.simps [of p] rbind_eq_Inr)
      then show ?thesis using "1.IH"(1) [OF Some True] consumed_trans consumed_advance by blast
    next
      case False
      show ?thesis
      proof (cases "Index (tok_val t) '']''")
        case None
        with "1.prems" Some False obtain its' where "collectInner (advance p) = Inr (its', sub, p')"
          by (auto simp: collectInner.simps [of p] rbind_eq_Inr)
        then show ?thesis using "1.IH"(2) [OF Some False None] consumed_trans consumed_advance by blast
      next
        case (Some i)
        with "1.prems" \<open>peek p = Some t\<close> False show ?thesis
          by (auto simp: collectInner.simps [of p])
      qed
    qed
  qed
qed

lemma collectTokens_consumed: "collectTokens p s = Inr (its, sub, p') \<Longrightarrow> consumed p p'"
  by (auto simp: collectTokens_def rbind_eq_Inr split: option.splits dest: collectInner_consumed)

lemma valuePathTail_consumed:
  assumes "valuePathTail L p c clause sub = Inr (r, p')"
  shows "consumed p p'"
proof -
  have "same_stream p p' \<or> same_stream (advance p) p' \<or> same_stream (advance (advance p)) p'"
    using assms
    by (auto simp: valuePathTail_def Let_def advance_def
        split: option.splits if_splits prod.splits dest: jsonContains_stream)
  then show ?thesis
    by (blast intro: consumed_stream consumed_trans consumed_advance)
qed

lemma parseValuePathFilter_consumed:
  assumes "parseValuePathFilter L p raw = Inr (r, p')"
  shows "consumed p p'"
proof -
  from assms obtain c start where
    body: "rbind (collectTokens p start) (\<lambda>(its, sub0, p1). valuePathBody L c its sub0 p1) = Inr (r, p')"
    unfolding parseValuePathFilter_def Let_def by (simp split: if_splits)
  then obtain its sub0 p1 where coll: "collectTokens p start = Inr (its, sub0, p1)"
    and tail: "valuePathBody L c its sub0 p1 = Inr (r, p')"
    by (auto simp: rbind_eq_Inr)
  obtain sub p2 where ts: "trailingSub sub0 p1 = (sub, p2)" by fastforce
  then have "consumed p1 p2"
    by (auto simp: trailingSub_def split: if_splits option.splits)
  moreover from tail ts obtain clause where "valuePathTail L p2 c clause sub = Inr (r, p')"
    by (auto simp: valuePathBody_def rbind_eq_Inr split: if_splits)
  ultimately show ?thesis
    using collectTokens_consumed [OF coll] valuePathTail_consumed consumed_trans by blast
qed

lemma parseSimpleAtom_consumed:
  assumes "parseSimpleAtom L p t = Inr (r, p')"
  shows "consumed (advance p) p'"
proof -
  have "consumed (advance p) p' \<or> consumed (advance (advance p)) p' \<or>
      consumed (advance (advance (advance p))) p'"
    using assms
    by (auto simp: parseSimpleAtom_def Let_def advance_def
        split: if_splits option.splits prod.splits
        dest: consumed_stream [OF present_stream] consumed_stream [OF comparison_stream]
          parseValuePathFilter_consumed)
  then show ?thesis by (blast intro: consumed_trans consumed_advance)
qed


lemma parse_consumed:
  shows "parseOrExpression n L p = Inr (r, p') \<Longrightarrow> consumed p p' \<and> remaining p' < remaining p"
    and "orLoop n L l p = Inr (r, p') \<Longrightarrow> consumed p p'"
    and "parseAndExpression n L p = Inr (r, p') \<Longrightarrow> consumed p p' \<and> remaining p' < remaining p"
    and "andLoop n L l p = Inr (r, p') \<Longrightarrow> consumed p p'"
    and "parseNotExpression n L p = Inr (r, p') \<Longrightarrow> consumed p p' \<and> remaining p' < remaining p"
    and "parseAtom n L p = Inr (r, p') \<Longrightarrow> consumed p p' \<and> remaining p' < remaining p"
proof (induction n arbitrary: p l r p')
  case 0
  { case 1 then show ?case by simp }
  { case 2 then show ?case by simp }
  { case 3 then show ?case by simp }
  { case 4 then show ?case by simp }
  { case 5 then show ?case by simp }
  { case 6 then show ?case by simp }
next
  case (Suc n)
  have adv: "consumed p p' \<and> remaining p' < remaining p"
    if "peek p = Some t" "consumed (advance p) p'" for p p' t
    using that advance_remaining [OF that(1)] consumed_remaining [OF that(2)]
      consumed_trans [OF consumed_advance that(2)] by simp
  { case 1
    then obtain left p1 where "parseAndExpression n L p = Inr (left, p1)" "orLoop n L left p1 = Inr (r, p')"
      by (auto simp: rbind_eq_Inr)
    then show ?case
      using Suc.IH(3) Suc.IH(2) consumed_trans consumed_remaining by (meson le_less_trans) }
  { case 2
    then consider (stop) "p' = p"
      | (more) right p1 l' where "parseAndExpression n L (advance p) = Inr (right, p1)"
          "orLoop n L l' p1 = Inr (r, p')"
      by (auto simp: rbind_eq_Inr split: option.splits if_splits)
    then show ?case
      using Suc.IH(3) Suc.IH(2) consumed_trans consumed_advance consumed_refl by cases (blast, metis) }
  { case 3
    then obtain left p1 where "parseNotExpression n L p = Inr (left, p1)" "andLoop n L left p1 = Inr (r, p')"
      by (auto simp: rbind_eq_Inr)
    then show ?case
      using Suc.IH(5) Suc.IH(4) consumed_trans consumed_remaining by (meson le_less_trans) }
  { case 4
    then consider (stop) "p' = p"
      | (more) right p1 l' where "parseNotExpression n L (advance p) = Inr (right, p1)"
          "andLoop n L l' p1 = Inr (r, p')"
      by (auto simp: rbind_eq_Inr split: option.splits if_splits)
    then show ?case
      using Suc.IH(5) Suc.IH(4) consumed_trans consumed_advance consumed_refl by cases (blast, metis) }
  { case 5
    show ?case
    proof (cases "parseAtom n L p = Inr (r, p')")
      case True
      then show ?thesis by (rule Suc.IH(6))
    next
      case False
      with 5 obtain t where pk: "peek p = Some t" and
        "(\<exists>inner p2. parseOrExpression n L (advance (advance p)) = Inr (inner, p2) \<and> consumed p2 p')
          \<or> (\<exists>inner. parseAtom n L (advance p) = Inr (inner, p'))"
        by (auto simp: rbind_eq_Inr Let_def split: option.splits if_splits dest: closeParen_consumed)
      then have "consumed (advance p) p'"
        using Suc.IH(1) Suc.IH(6) consumed_trans consumed_advance by meson
      then show ?thesis by (rule adv [OF pk])
    qed }
  { case 6
    then obtain t where pk: "peek p = Some t"
      and "(\<exists>inner p2. parseOrExpression n L (advance p) = Inr (inner, p2) \<and> consumed p2 p')
        \<or> parseSimpleAtom L p t = Inr (r, p')"
      by (auto simp: rbind_eq_Inr lift_built_def split: option.splits if_splits sum.splits
          dest: closeParen_consumed)
    then have "consumed (advance p) p'"
      using Suc.IH(1) parseSimpleAtom_consumed consumed_trans by meson
    then show ?case by (rule adv [OF pk]) }
qed

section \<open>The fuel is enough\<close>

lemma parse_fuel:
  shows "6 * remaining p + 4 \<le> n \<Longrightarrow> parseOrExpression n L p \<noteq> Inl OutOfFuel"
    and "6 * remaining p + 1 \<le> n \<Longrightarrow> orLoop n L l p \<noteq> Inl OutOfFuel"
    and "6 * remaining p + 3 \<le> n \<Longrightarrow> parseAndExpression n L p \<noteq> Inl OutOfFuel"
    and "6 * remaining p + 1 \<le> n \<Longrightarrow> andLoop n L l p \<noteq> Inl OutOfFuel"
    and "6 * remaining p + 2 \<le> n \<Longrightarrow> parseNotExpression n L p \<noteq> Inl OutOfFuel"
    and "6 * remaining p + 1 \<le> n \<Longrightarrow> parseAtom n L p \<noteq> Inl OutOfFuel"
proof (induction n arbitrary: p l)
  case 0
  { case 1 then show ?case by simp }
  { case 2 then show ?case by simp }
  { case 3 then show ?case by simp }
  { case 4 then show ?case by simp }
  { case 5 then show ?case by simp }
  { case 6 then show ?case by simp }
next
  case (Suc n)
  have adv2: "remaining (advance (advance p)) \<le> remaining (advance p)" for p
    by (rule consumed_remaining) simp
  { case 1
    then have first: "parseAndExpression n L p \<noteq> Inl OutOfFuel" by (intro Suc.IH(3)) simp
    have rest: "orLoop n L left p1 \<noteq> Inl OutOfFuel" if "parseAndExpression n L p = Inr (left, p1)" for left p1
      using parse_consumed(3) [OF that] 1 by (intro Suc.IH(2)) simp
    show ?case using first rest by (auto simp: rbind_eq_Inl) }
  { case 2
    have first: "parseAndExpression n L (advance p) \<noteq> Inl OutOfFuel" if "peek p = Some t" for t
      using advance_remaining [OF that] 2 by (intro Suc.IH(3)) simp
    have rest: "orLoop n L l' p1 \<noteq> Inl OutOfFuel"
      if "peek p = Some t" "parseAndExpression n L (advance p) = Inr (right, p1)" for t right p1 l'
      using advance_remaining [OF that(1)] parse_consumed(3) [OF that(2)] 2 by (intro Suc.IH(2)) simp
    show ?case using first rest by (auto simp: rbind_eq_Inl split: option.splits) }
  { case 3
    then have first: "parseNotExpression n L p \<noteq> Inl OutOfFuel" by (intro Suc.IH(5)) simp
    have rest: "andLoop n L left p1 \<noteq> Inl OutOfFuel" if "parseNotExpression n L p = Inr (left, p1)" for left p1
      using parse_consumed(5) [OF that] 3 by (intro Suc.IH(4)) simp
    show ?case using first rest by (auto simp: rbind_eq_Inl) }
  { case 4
    have first: "parseNotExpression n L (advance p) \<noteq> Inl OutOfFuel" if "peek p = Some t" for t
      using advance_remaining [OF that] 4 by (intro Suc.IH(5)) simp
    have rest: "andLoop n L l' p1 \<noteq> Inl OutOfFuel"
      if "peek p = Some t" "parseNotExpression n L (advance p) = Inr (right, p1)" for t right p1 l'
      using advance_remaining [OF that(1)] parse_consumed(5) [OF that(2)] 4 by (intro Suc.IH(4)) simp
    show ?case using first rest by (auto simp: rbind_eq_Inl split: option.splits) }
  { case 5
    have atom: "parseAtom n L p \<noteq> Inl OutOfFuel" using 5 by (intro Suc.IH(6)) simp
    have atom': "parseAtom n L (advance p) \<noteq> Inl OutOfFuel" if "peek p = Some t" for t
      using advance_remaining [OF that] 5 by (intro Suc.IH(6)) simp
    have group: "parseOrExpression n L (advance (advance p)) \<noteq> Inl OutOfFuel" if "peek p = Some t" for t
      using advance_remaining [OF that] adv2 [of p] 5 by (intro Suc.IH(1)) simp
    show ?case
      using atom atom' group closeParen_fuel
      by (auto simp: rbind_eq_Inl Let_def split: option.splits if_splits) }
  { case 6
    have group: "parseOrExpression n L (advance p) \<noteq> Inl OutOfFuel" if "peek p = Some t" for t
      using advance_remaining [OF that] 6 by (intro Suc.IH(1)) simp
    show ?case
      using group closeParen_fuel
      by (auto simp: rbind_eq_Inl lift_built_def split: option.splits sum.splits) }
qed

lemma enough_fuel: "parseOrExpression (enoughFuel p) L p \<noteq> Inl OutOfFuel"
  by (rule parse_fuel(1)) (simp add: enoughFuel_def remaining_def)

end
