(* ===== verification/FilterProps.thy ===== *)
theory FilterProps
  imports FilterSql FilterTotal
begin

text \<open>
  The properties of the filter component: the parser returns, its SQL has one placeholder per
  argument in order, LIKE patterns mean what the operator says, sort columns are fixed names.
\<close>

section \<open>Whole filters\<close>

lemma parseEntityFilter_Some:
  assumes "parseEntityFilter L flt start ent cross = Inr (Some r)"
  shows "\<exists>p p' n. parseOrExpression n L p = Inr (r, p') \<and> paramIdx p = start"
proof -
  let ?p = "\<lparr>tokens = tokenize L flt, pos = 0, paramIdx = start,
             entityType = ent, crossResource = cross\<rparr>"
  from assms obtain p' where "parseOrExpression (enoughFuel ?p) L ?p = Inr (r, p')"
    by (auto simp: parseEntityFilter_def Let_def split: if_splits sum.splits perr.splits)
  moreover have "paramIdx ?p = start" by simp
  ultimately show ?thesis by blast
qed

text \<open>C1. The SQL condition of an accepted filter has, read from left to right, exactly the
  placeholders \<open>$start\<close>, \<open>$(start+1)\<close>, ..., one for each element of the argument list: every
  user value is bound, none is missing, and the numbering fits the query it is embedded in.\<close>

theorem filter_placeholders:
  assumes "lower_idem L" and "parseEntityFilter L flt start ent cross = Inr (Some r)"
  shows "placeholders (SQL r) = map itoa [start ..< start + length (Args r)]"
proof -
  from parseEntityFilter_Some [OF assms(2)] obtain p p' n
    where parse: "parseOrExpression n L p = Inr (r, p')" and "paramIdx p = start" by blast
  with parse_drawn(1) [OF assms(1) parse] show ?thesis
    by (simp add: drawn_def draws_def)
qed

definition sample_filter :: string where
  "sample_filter = ''title co x and not (active eq true)''"

lemma sample_filter_parse:
  "parseEntityFilter plain_ext sample_filter 2 entityTypeUser False =
     Inr (Some \<lparr>SQL = ''(LOWER(title) LIKE LOWER($2) AND NOT (active = $3))'',
                Args = [ArgString ''%x%'', ArgBool True]\<rparr>)"
  by code_simp

theorem filter_placeholders_witness:
  "parseEntityFilter plain_ext sample_filter 2 entityTypeUser False =
     Inr (Some \<lparr>SQL = ''(LOWER(title) LIKE LOWER($2) AND NOT (active = $3))'',
                Args = [ArgString ''%x%'', ArgBool True]\<rparr>)
   \<and> placeholders ''(LOWER(title) LIKE LOWER($2) AND NOT (active = $3))'' = [itoa 2, itoa 3]"
proof -
  have "[2 ..< 2 + length [ArgString ''%x%'', ArgBool True]] = [2, 3]"
    by code_simp
  with filter_placeholders [OF lower_idem_plain sample_filter_parse] sample_filter_parse
  show ?thesis by (simp del: placeholders.simps)
qed

text \<open>C2. The recursive descent parser terminates on every filter: the fuel the model starts it
  with never runs out, so every filter is accepted or rejected with an error message.\<close>

theorem filter_parser_total:
  "parseEntityFilter L flt start ent cross \<noteq> Inl OutOfFuel"
  using enough_fuel
  by (auto simp: parseEntityFilter_def Let_def split: sum.splits perr.splits)

section \<open>LIKE patterns\<close>

text \<open>PostgreSQL's LIKE with its default escape: \<^verbatim>\<open>%\<close> matches any text, \<^verbatim>\<open>_\<close> one element,
  a backslash makes the next element literal, everything else stands for itself.\<close>

fun sql_like :: "string \<Rightarrow> string \<Rightarrow> bool" where
  "sql_like [] s = (s = [])"
| "sql_like (c # p) s =
     (if c = CHR ''%'' then \<exists>k \<in> {0..length s}. sql_like p (drop k s)
      else if c = CHR ''_'' then (case s of [] \<Rightarrow> False | x # s' \<Rightarrow> sql_like p s')
      else if c = bslash then
        (case p of [] \<Rightarrow> False
         | d # p' \<Rightarrow> (case s of [] \<Rightarrow> False | x # s' \<Rightarrow> x = d \<and> sql_like p' s'))
      else (case s of [] \<Rightarrow> False | x # s' \<Rightarrow> x = c \<and> sql_like p s'))"

lemma sql_like_escape:
  "sql_like (escapeLikeValue v @ q) s \<longleftrightarrow> (\<exists>t. s = v @ t \<and> sql_like q t)"
proof (induction v arbitrary: s)
  case Nil
  show ?case by simp
next
  case (Cons c v)
  then show ?case by (cases s) auto
qed

lemma sql_like_any: "sql_like (CHR ''%'' # p) s \<longleftrightarrow> (\<exists>u t. s = u @ t \<and> sql_like p t)"
proof
  assume "sql_like (CHR ''%'' # p) s"
  then obtain k where "sql_like p (drop k s)" by auto
  then show "\<exists>u t. s = u @ t \<and> sql_like p t" by (metis append_take_drop_id)
next
  assume "\<exists>u t. s = u @ t \<and> sql_like p t"
  then obtain u t where "s = u @ t" "sql_like p t" by blast
  then have "sql_like p (drop (length u) s)" "length u \<in> {0..length s}" by simp_all
  then have "\<exists>k \<in> {0..length s}. sql_like p (drop k s)" by (rule bexI)
  then show "sql_like (CHR ''%'' # p) s" by (subst sql_like.simps) (simp only: simp_thms if_True)
qed

text \<open>What the three substring operators of RFC 7644 mean.\<close>

definition op_holds :: "string \<Rightarrow> string \<Rightarrow> string \<Rightarrow> bool" where
  "op_holds op v s = (if op = ''co'' then sublist v s else if op = ''sw'' then prefix v s else suffix v s)"

lemma like_pattern_holds:
  "sql_like (CHR ''%'' # escapeLikeValue v @ ''%'') s \<longleftrightarrow> sublist v s"
  "sql_like (escapeLikeValue v @ ''%'') s \<longleftrightarrow> prefix v s"
  "sql_like (CHR ''%'' # escapeLikeValue v) s \<longleftrightarrow> suffix v s"
proof -
  have all: "sql_like ''%'' t" for t using sql_like_any [of "[]" t] by auto
  have none: "sql_like (escapeLikeValue v) t \<longleftrightarrow> t = v" for t
    using sql_like_escape [of v "[]" t] by simp
  have pre: "sql_like (escapeLikeValue v @ ''%'') t \<longleftrightarrow> prefix v t" for t
    by (simp only: sql_like_escape [of v "''%''"] all simp_thms prefix_def)
  show "sql_like (CHR ''%'' # escapeLikeValue v @ ''%'') s \<longleftrightarrow> sublist v s"
    by (auto simp only: sql_like_any [of "escapeLikeValue v @ ''%''"] pre sublist_def prefix_def)
  show "sql_like (escapeLikeValue v @ ''%'') s \<longleftrightarrow> prefix v s"
    by (rule pre)
  show "sql_like (CHR ''%'' # escapeLikeValue v) s \<longleftrightarrow> suffix v s"
    by (auto simp only: sql_like_any [of "escapeLikeValue v"] none suffix_def)
qed

text \<open>C3. For \<^verbatim>\<open>co\<close>, \<^verbatim>\<open>sw\<close> and \<^verbatim>\<open>ew\<close> the bound LIKE pattern matches a text exactly if the text
  contains, starts with or ends with the filter value: the escaping of \<^verbatim>\<open>%\<close>, \<^verbatim>\<open>_\<close> and backslash
  leaves no wildcard of the client's in the pattern. This holds for each of the three functions that build
  LIKE patterns: for text expressions, for columns and for the elements of a JSON collection.\<close>

theorem like_pattern_exact:
  assumes "operator \<in> {''co'', ''sw'', ''ew''}"
  shows "(buildTextExprCondition p expr operator value ci = Inr ((cond, pattern), p') \<longrightarrow>
      (sql_like pattern s \<longleftrightarrow> op_holds operator value s))
    \<and> (buildColumnComparison L p attr col operator value = Inr (res, p') \<longrightarrow>
      (\<exists>pattern. Args res = [ArgString pattern] \<and> (sql_like pattern s \<longleftrightarrow> op_holds operator value s)))
    \<and> (buildElemCondition L p coll attr operator value = Inr ((cond, args), p') \<longrightarrow>
      (\<exists>pattern. args = [ArgString pattern] \<and> (sql_like pattern s \<longleftrightarrow> op_holds operator value s)))"
proof (intro conjI impI)
  assume "buildTextExprCondition p expr operator value ci = Inr ((cond, pattern), p')"
  with assms show "sql_like pattern s \<longleftrightarrow> op_holds operator value s"
    by (auto simp: buildTextExprCondition_def Let_def op_holds_def like_pattern_holds
        simp del: sql_like.simps split: prod.splits)
next
  assume "buildColumnComparison L p attr col operator value = Inr (res, p')"
  with assms show "\<exists>pattern. Args res = [ArgString pattern] \<and> (sql_like pattern s \<longleftrightarrow> op_holds operator value s)"
    by (elim insertE emptyE)
      (simp_all add: buildColumnComparison_def Let_def op_holds_def like_pattern_holds case_prod_beta
        del: sql_like.simps split: if_splits; (elim conjE)?; hypsubst; simp add: like_pattern_holds del: sql_like.simps)+
next
  assume "buildElemCondition L p coll attr operator value = Inr ((cond, args), p')"
  with assms show "\<exists>pattern. args = [ArgString pattern] \<and> (sql_like pattern s \<longleftrightarrow> op_holds operator value s)"
    by (auto simp: buildElemCondition_def Let_def rbind_eq_Inr op_holds_def like_pattern_holds case_prod_beta
        simp del: sql_like.simps split: if_splits)
qed

theorem like_pattern_exact_witness:
  "\<exists>pattern. (\<exists>cond p'. buildTextExprCondition
       \<lparr>tokens = [], pos = 0, paramIdx = 1, entityType = entityTypeUser, crossResource = False\<rparr>
       ''title'' ''sw'' ''50%_a'' True = Inr ((cond, pattern), p'))
     \<and> pattern = [CHR ''5'', CHR ''0'', bslash, CHR ''%'', bslash, CHR ''_'', CHR ''a'', CHR ''%'']
     \<and> sql_like pattern ''50%_abc'' \<and> \<not> sql_like pattern ''50xyabc''"
proof -
  let ?p = "\<lparr>tokens = [], pos = 0, paramIdx = 1, entityType = entityTypeUser, crossResource = False\<rparr>"
  let ?pat = "[CHR ''5'', CHR ''0'', bslash, CHR ''%'', bslash, CHR ''_'', CHR ''a'', CHR ''%'']"
  have run: "buildTextExprCondition ?p ''title'' ''sw'' ''50%_a'' True =
      Inr ((''LOWER(title) LIKE LOWER($1)'', ?pat), ?p\<lparr>paramIdx := 2\<rparr>)"
    by code_simp
  have op: "''sw'' \<in> {''co'', ''sw'', ''ew''}" by simp
  have "sql_like ?pat s \<longleftrightarrow> op_holds ''sw'' ''50%_a'' s" for s
    by (rule like_pattern_exact [OF op, THEN conjunct1, THEN mp, OF run])
  moreover have "op_holds ''sw'' ''50%_a'' ''50%_abc''" "\<not> op_holds ''sw'' ''50%_a'' ''50xyabc''"
    by code_simp+
  ultimately show ?thesis using run by blast
qed

section \<open>Sort columns\<close>

text \<open>Whatever the client sends as \<^verbatim>\<open>sortBy\<close>, the name that is spliced into ORDER BY is one of
  a fixed set of column names of the resource's table.\<close>

theorem sort_columns_fixed:
  "ResolveUserSortAttribute L sortBy \<in> set (map snd userSortTable)
   \<and> ResolveGroupSortAttribute L sortBy \<in> set (map snd groupSortTable)"
proof -
  have user: "''user_name'' \<in> set (map snd userSortTable)" by (simp add: userSortTable_def)
  have group: "''display_name'' \<in> set (map snd groupSortTable)" by (simp add: groupSortTable_def)
  show ?thesis
    using user group
    by (auto simp: ResolveUserSortAttribute_def ResolveGroupSortAttribute_def
        split: option.splits dest!: map_of_SomeD intro: rev_image_eqI)
qed

end
