(* ===== verification/Json.thy ===== *)
theory Json
  imports GoStrings
begin

text \<open>
  Decoded JSON values (Go's \<^verbatim>\<open>any\<close> after \<^verbatim>\<open>json.Decode\<close>), SCIM errors, and the typed readers
  at the end of \<^verbatim>\<open>internal/scim/patch.go\<close>.

  A Go map from strings is the list of its entries in the order in which a \<^verbatim>\<open>range\<close> loop visits
  them; Go leaves that order open, so what is proved for every list holds for every order.
  Numbers keep their literal, no operation of the repository looks into them.
\<close>

datatype json = JNull | JBool bool | JNum string | JStr string | JArr "json list"
  | JObj "(string \<times> json) list"

type_synonym json_object = "(string \<times> json) list"

text \<open>The Go type names that \<^verbatim>\<open>%T\<close> prints.\<close>

fun type_name :: "json \<Rightarrow> string" where
  "type_name JNull = ''<nil>''"
| "type_name (JBool b) = ''bool''"
| "type_name (JNum n) = ''float64''"
| "type_name (JStr s) = ''string''"
| "type_name (JArr xs) = ''[]interface {}''"
| "type_name (JObj kvs) = ''map[string]interface {}''"

text \<open>\<^verbatim>\<open>m[k]\<close> for a missing key is \<^verbatim>\<open>nil\<close>.\<close>

definition jget :: "json_object \<Rightarrow> string \<Rightarrow> json" where
  "jget m k = (case map_of m k of None \<Rightarrow> JNull | Some v \<Rightarrow> v)"

lemma jget_Nil [simp]: "jget [] k = JNull"
  by (simp add: jget_def)

text \<open>\<^verbatim>\<open>m[k] = v\<close>.\<close>

definition jput :: "json_object \<Rightarrow> string \<Rightarrow> json \<Rightarrow> json_object" where
  "jput m k v = (if k \<in> fst ` set m then map (\<lambda>(k', w). if k' = k then (k', v) else (k', w)) m
     else m @ [(k, v)])"

lemma map_of_jput [simp]: "map_of (jput m k v) k' = (if k' = k then Some v else map_of m k')"
proof -
  have "map_of (map (\<lambda>(k', w). if k' = k then (k', v) else (k', w)) m) k' =
      (if k' = k \<and> k \<in> fst ` set m then Some v else map_of m k')"
  proof (induction m)
    case (Cons e m)
    then show ?case by (cases e; cases "k' = k") simp_all
  qed simp
  moreover have "map_of m k = None" if "k \<notin> fst ` set m" using that by (simp add: map_of_eq_None_iff)
  ultimately show ?thesis
    by (cases "k \<in> fst ` set m"; cases "k' = k") (simp_all add: jput_def map_add_def split: option.split)
qed

lemma keys_jput [simp]: "fst ` set (jput m k v) = insert k (fst ` set m)"
proof -
  have "fst (case e of (k', w) \<Rightarrow> if k' = k then (k', v) else (k', w)) = fst e" for e :: "string \<times> json"
    by (cases e) simp
  then have "fst ` set (map (\<lambda>(k', w). if k' = k then (k', v) else (k', w)) m) = fst ` set m"
    by (simp add: image_image)
  then show ?thesis by (auto simp: jput_def)
qed

section \<open>Errors\<close>

text \<open>\<^verbatim>\<open>ScimError\<close> of error.go; the field \<^verbatim>\<open>ScimType\<close> may be empty.\<close>

record ScimError =
  Status :: nat
  ScimType :: string
  Detail :: string

definition NewScimError :: "nat \<Rightarrow> string \<Rightarrow> string \<Rightarrow> ScimError" where
  "NewScimError status scimType detail =
     \<lparr>Status = status, ScimType = scimType, Detail = detail\<rparr>"

type_synonym 'a res = "ScimError + 'a"

abbreviation invalidValue :: "string \<Rightarrow> 'a res" where
  "invalidValue detail \<equiv> Inl (NewScimError 400 ''invalidValue'' detail)"

abbreviation invalidPath :: "string \<Rightarrow> 'a res" where
  "invalidPath detail \<equiv> Inl (NewScimError 400 ''invalidPath'' detail)"

abbreviation mutability :: "string \<Rightarrow> 'a res" where
  "mutability detail \<equiv> Inl (NewScimError 400 ''mutability'' detail)"

text \<open>The body \<^verbatim>\<open>WriteScimError\<close> sends, and the error it sends for a foreign error value.\<close>

definition WriteScimError :: "ScimError \<Rightarrow> nat \<times> json_object" where
  "WriteScimError e =
     (Status e,
      [(''schemas'', JArr [JStr ''urn:ietf:params:scim:api:messages:2.0:Error'']),
       (''status'', JStr (itoa (Status e))), (''detail'', JStr (Detail e))] @
      (if ScimType e \<noteq> [] then [(''scimType'', JStr (ScimType e))] else []))"

definition WriteErrorFromAny :: "ScimError + string \<Rightarrow> nat \<times> json_object" where
  "WriteErrorFromAny err =
     (case err of Inl e \<Rightarrow> WriteScimError e
      | Inr _ \<Rightarrow> WriteScimError \<lparr>Status = 500, ScimType = [], Detail = ''Internal server error''\<rparr>)"

section \<open>Typed readers\<close>

definition parseStrictBool :: "json \<Rightarrow> string \<Rightarrow> bool res" where
  "parseStrictBool value attrName =
     (case value of JBool b \<Rightarrow> Inr b
      | _ \<Rightarrow> invalidValue (''Attribute '' @ quoted attrName @ '' must be a boolean''))"

definition parseStrictOptionalBool :: "json \<Rightarrow> string \<Rightarrow> bool res" where
  "parseStrictOptionalBool value attrName =
     (if value = JNull then Inr False else parseStrictBool value attrName)"

definition parseRawStringPtr :: "json \<Rightarrow> string \<Rightarrow> string option res" where
  "parseRawStringPtr value attrName =
     (case value of JNull \<Rightarrow> Inr None | JStr s \<Rightarrow> Inr (Some s)
      | _ \<Rightarrow> invalidValue (''Attribute '' @ quoted attrName @ '' must be a string''))"

definition parseStrictStringPtr :: "ext \<Rightarrow> json \<Rightarrow> string \<Rightarrow> string option res" where
  "parseStrictStringPtr L value attrName =
     (case value of JNull \<Rightarrow> Inr None | JStr s \<Rightarrow> Inr (Some (NormalizeNFC L s))
      | _ \<Rightarrow> invalidValue (''Attribute '' @ quoted attrName @ '' must be a string''))"

definition parseStrictString :: "ext \<Rightarrow> json \<Rightarrow> string \<Rightarrow> string res" where
  "parseStrictString L value attrName =
     (case value of JNull \<Rightarrow> Inr [] | JStr s \<Rightarrow> Inr (NormalizeNFC L s)
      | _ \<Rightarrow> invalidValue (''Attribute '' @ quoted attrName @ '' must be a string''))"

text \<open>\<^verbatim>\<open>toItemList\<close> and \<^verbatim>\<open>extractMapSlice\<close>: an array of objects. The Go case
  \<^verbatim>\<open>[]map[string]any\<close> does not occur in decoded JSON.\<close>

definition toItemList :: "json \<Rightarrow> json_object list res" where
  "toItemList value =
     (case value of
        JArr xs \<Rightarrow> rmap (\<lambda>item. case item of JObj m \<Rightarrow> Inr m
          | _ \<Rightarrow> invalidValue ''Expected object elements in multi-valued attribute array'') xs
      | JObj m \<Rightarrow> Inr [m]
      | _ \<Rightarrow> invalidValue ''Expected array or object for multi-valued attribute'')"

definition extractMapSlice :: "json \<Rightarrow> string \<Rightarrow> json_object list res" where
  "extractMapSlice v attrName =
     (case v of
        JNull \<Rightarrow> Inr []
      | JArr xs \<Rightarrow> rmap (\<lambda>item. case item of JObj m \<Rightarrow> Inr m
          | _ \<Rightarrow> invalidValue (''Elements of '' @ quoted attrName @ '' must be JSON objects'')) xs
      | _ \<Rightarrow> invalidValue (''Attribute '' @ quoted attrName @ '' must be an array''))"

text \<open>\<^verbatim>\<open>ValidateSinglePrimary\<close>: the loop counts the items with primary set to true.\<close>

definition countStep :: "nat \<Rightarrow> json_object \<Rightarrow> nat res" where
  "countStep n m =
     (case jget m ''primary'' of
        JNull \<Rightarrow> Inr n
      | JBool b \<Rightarrow> Inr (if b then n + 1 else n)
      | v \<Rightarrow> invalidValue (''Attribute '' @ quoted ''primary'' @ '' must be a boolean, got '' @ type_name v))"

definition countPrimary :: "json_object list \<Rightarrow> nat res" where
  "countPrimary items = rfold countStep 0 items"

definition ValidateSinglePrimary :: "json_object list \<Rightarrow> unit res" where
  "ValidateSinglePrimary items =
     rbind (countPrimary items) (\<lambda>n.
       if 1 < n then invalidValue ''At most one element in a multi-valued attribute may have primary=true''
       else Inr ())"

lemma parseStrictBool_Inr: "parseStrictBool v a = Inr b \<longleftrightarrow> v = JBool b"
  by (auto simp: parseStrictBool_def split: json.splits)

lemma parseStrictOptionalBool_Inr:
  "parseStrictOptionalBool v a = Inr b \<longleftrightarrow> v = JBool b \<or> v = JNull \<and> \<not> b"
  by (auto simp: parseStrictOptionalBool_def parseStrictBool_Inr)

end
