(* ===== verification/Base64.thy ===== *)
theory Base64
  imports GoStrings
begin

text \<open>
  Go's encoding/base64 as the repository uses it: \<^verbatim>\<open>StdEncoding.Strict()\<close> for certificates and
  \<^verbatim>\<open>RawURLEncoding.Strict()\<close> for cursors. \<open>pad\<close> tells padded from raw encodings. Line breaks
  inside the text, which Go's decoder skips, are dropped first.
\<close>

definition std_alphabet :: string where
  "std_alphabet = ''ABCDEFGHIJKLMNOPQRSTUVWXYZabcdefghijklmnopqrstuvwxyz0123456789+/''"

definition url_alphabet :: string where
  "url_alphabet = ''ABCDEFGHIJKLMNOPQRSTUVWXYZabcdefghijklmnopqrstuvwxyz0123456789-_''"

fun position :: "char \<Rightarrow> string \<Rightarrow> nat option" where
  "position c [] = None"
| "position c (d # ds) = (if c = d then Some 0 else map_option Suc (position c ds))"

definition byte :: "nat \<Rightarrow> char" where
  "byte n = char_of n"

fun b64_encode :: "string \<Rightarrow> bool \<Rightarrow> string \<Rightarrow> string" where
  "b64_encode al pad [] = []"
| "b64_encode al pad [a] =
     [al ! (code a div 4), al ! (code a mod 4 * 16)] @ (if pad then ''=='' else [])"
| "b64_encode al pad [a, b] =
     [al ! (code a div 4), al ! (code a mod 4 * 16 + code b div 16), al ! (code b mod 16 * 4)]
     @ (if pad then ''='' else [])"
| "b64_encode al pad (a # b # c # s) =
     [al ! (code a div 4), al ! (code a mod 4 * 16 + code b div 16),
      al ! (code b mod 16 * 4 + code c div 64), al ! (code c mod 64)] @ b64_encode al pad s"

text \<open>The last group holds one or two bytes; in strict mode its unused bits must be zero.\<close>

definition last1 :: "nat \<Rightarrow> nat \<Rightarrow> string option" where
  "last1 x y = (if y mod 16 = 0 then Some [byte (x * 4 + y div 16)] else None)"

definition last2 :: "nat \<Rightarrow> nat \<Rightarrow> nat \<Rightarrow> string option" where
  "last2 x y z = (if z mod 4 = 0
     then Some [byte (x * 4 + y div 16), byte (y mod 16 * 16 + z div 4)] else None)"

fun b64_groups :: "string \<Rightarrow> bool \<Rightarrow> string \<Rightarrow> string option" where
  "b64_groups al pad [] = Some []"
| "b64_groups al pad [a, b] =
     (if pad then None
      else (case (position a al, position b al) of (Some x, Some y) \<Rightarrow> last1 x y | _ \<Rightarrow> None))"
| "b64_groups al pad [a, b, c] =
     (if pad then None
      else (case (position a al, position b al, position c al) of
          (Some x, Some y, Some z) \<Rightarrow> last2 x y z | _ \<Rightarrow> None))"
| "b64_groups al pad (a # b # c # d # s) =
     (case (position a al, position b al) of
        (Some x, Some y) \<Rightarrow>
          if pad \<and> c = CHR ''='' then (if d = CHR ''='' \<and> s = [] then last1 x y else None)
          else (case position c al of
              None \<Rightarrow> None
            | Some z \<Rightarrow>
                if pad \<and> d = CHR ''='' then (if s = [] then last2 x y z else None)
                else (case position d al of
                    None \<Rightarrow> None
                  | Some w \<Rightarrow> map_option ((@) [byte (x * 4 + y div 16), byte (y mod 16 * 16 + z div 4),
                      byte (z mod 4 * 64 + w)]) (b64_groups al pad s)))
      | _ \<Rightarrow> None)"
| "b64_groups al pad [a] = None"

definition b64_decode_strict :: "string \<Rightarrow> bool \<Rightarrow> string \<Rightarrow> string option" where
  "b64_decode_strict al pad s = b64_groups al pad (filter (\<lambda>c. c \<noteq> CHR 0x0A \<and> c \<noteq> CHR 0x0D) s)"

section \<open>Decoding inverts encoding\<close>

definition alphabet :: "string \<Rightarrow> bool" where
  "alphabet al \<longleftrightarrow> length al = 64 \<and> distinct al \<and> CHR ''='' \<notin> set al
     \<and> CHR 0x0A \<notin> set al \<and> CHR 0x0D \<notin> set al"

lemma alphabet_std: "alphabet std_alphabet"
  by code_simp

lemma alphabet_url: "alphabet url_alphabet"
  by code_simp

lemma position_nth: "distinct al \<Longrightarrow> i < length al \<Longrightarrow> position (al ! i) al = Some i"
proof (induction al arbitrary: i)
  case (Cons d ds)
  then show ?case by (cases i) auto
qed simp

lemma position_Some: "position c al = Some i \<Longrightarrow> i < length al \<and> al ! i = c"
  by (induction al arbitrary: i) (auto split: if_splits)

lemma code_less [simp]: "code c < 256"
  by (simp add: code_def)

lemma byte_code [simp]: "byte (code c) = c"
  by (simp add: byte_def code_def)

lemma code_byte [simp]: "n < 256 \<Longrightarrow> code (byte n) = n"
  by (simp add: byte_def code_def)

lemma join_first: "(a::nat) div 4 * 4 + (a mod 4 * 16 + b div 16) div 16 = a" if "b < 256"
proof -
  have "b div 16 < 16" using that by auto
  then have "(a mod 4 * 16 + b div 16) div 16 = a mod 4" by simp
  then show ?thesis by simp
qed

lemma join_second: "((a::nat) mod 4 * 16 + b div 16) mod 16 * 16 + (b mod 16 * 4 + c div 64) div 4 = b"
  if "b < 256" "c < 256"
proof -
  have "b div 16 < 16" "c div 64 < 4" using that by auto
  then have "(a mod 4 * 16 + b div 16) mod 16 = b div 16" "(b mod 16 * 4 + c div 64) div 4 = b mod 16"
    by simp_all
  then show ?thesis by simp
qed

lemma join_third: "((b::nat) mod 16 * 4 + c div 64) mod 4 * 64 + c mod 64 = c" if "c < 256"
proof -
  have "c div 64 < 4" using that by auto
  then have "(b mod 16 * 4 + c div 64) mod 4 = c div 64" by simp
  then show ?thesis by simp
qed

lemma sextets_small:
  fixes a b c :: nat
  assumes "a < 256" "b < 256" "c < 256"
  shows "a div 4 < 64" "a mod 4 * 16 < 64" "a mod 4 * 16 + b div 16 < 64"
    "b mod 16 * 4 < 64" "b mod 16 * 4 + c div 64 < 64" "c mod 64 < 64"
  using assms by auto

lemma nth_alphabet:
  assumes "alphabet al" "i < 64"
  shows "position (al ! i) al = Some i" "al ! i \<noteq> CHR ''=''" "al ! i \<noteq> CHR 0x0A" "al ! i \<noteq> CHR 0x0D"
proof -
  from assms have "al ! i \<in> set al" by (simp add: alphabet_def)
  then show "al ! i \<noteq> CHR ''=''" "al ! i \<noteq> CHR 0x0A" "al ! i \<noteq> CHR 0x0D"
    using assms(1) unfolding alphabet_def by metis+
  show "position (al ! i) al = Some i" using assms by (simp add: alphabet_def position_nth)
qed

lemma groups_step:
  assumes "position a al = Some x" "position b al = Some y" "position c al = Some z"
    "position d al = Some w" "c \<noteq> CHR ''=''" "d \<noteq> CHR ''=''"
  shows "b64_groups al pad (a # b # c # d # s) = map_option ((@) [byte (x * 4 + y div 16),
    byte (y mod 16 * 16 + z div 4), byte (z mod 4 * 64 + w)]) (b64_groups al pad s)"
  using assms by simp

lemma groups_encode: "alphabet al \<Longrightarrow> b64_groups al pad (b64_encode al pad s) = Some s"
proof (induction al pad s rule: b64_encode.induct)
  case (2 al pad a)
  have "code a div 4 * 4 + (code a mod 4 * 16) div 16 = code a" using join_first [of 0 "code a"] by simp
  with 2 show ?case by (auto simp: nth_alphabet sextets_small [of "code a" 0 0] last1_def)
next
  case (3 al pad a b)
  have "code b div 16 * 16 + code b mod 16 = code b" by simp
  with 3 join_first [of "code b" "code a"] join_second [of "code b" 0 "code a"] show ?case
    using sextets_small [of "code a" "code b" 0]
    by (auto simp: nth_alphabet last2_def)
next
  case (4 al pad a b c s)
  have al: "alphabet al" by fact
  note small = sextets_small [of "code a" "code b" "code c", OF code_less code_less code_less]
  have "b64_groups al pad (b64_encode al pad (a # b # c # s)) =
      map_option ((@) [a, b, c]) (b64_groups al pad (b64_encode al pad s))"
    unfolding b64_encode.simps append.simps
      groups_step [OF nth_alphabet(1) [OF al small(1)] nth_alphabet(1) [OF al small(3)]
        nth_alphabet(1) [OF al small(5)] nth_alphabet(1) [OF al small(6)]
        nth_alphabet(2) [OF al small(5)] nth_alphabet(2) [OF al small(6)]]
      join_first [OF code_less] join_second [OF code_less code_less] join_third [OF code_less] byte_code ..
  with 4 show ?case by simp
qed simp

lemma encode_no_breaks:
  "alphabet al \<Longrightarrow> filter (\<lambda>c. c \<noteq> CHR 0x0A \<and> c \<noteq> CHR 0x0D) (b64_encode al pad s) = b64_encode al pad s"
proof (induction al pad s rule: b64_encode.induct)
  case (4 al pad a b c s)
  have al: "alphabet al" by fact
  show ?case
    using sextets_small [of "code a" "code b" "code c"] 4 by (simp add: nth_alphabet [OF al])
next
  case (3 al pad a b)
  show ?case using sextets_small [of "code a" "code b" 0] by (simp add: nth_alphabet [OF 3])
next
  case (2 al pad a)
  show ?case using sextets_small [of "code a" 0 0] by (simp add: nth_alphabet [OF 2])
qed simp

lemma b64_roundtrip: "alphabet al \<Longrightarrow> b64_decode_strict al pad (b64_encode al pad s) = Some s"
  by (simp add: b64_decode_strict_def encode_no_breaks groups_encode)

lemma nth_position: "position c al = Some i \<Longrightarrow> al ! i = c"
  using position_Some by blast

lemma position_less: "alphabet al \<Longrightarrow> position c al = Some i \<Longrightarrow> i < 64"
  using position_Some by (fastforce simp: alphabet_def)

lemma sextet_join:
  fixes x y z w :: nat
  assumes "x < 64" "y < 64" "z < 64" "w < 64"
  shows "x * 4 + y div 16 < 256" "y mod 16 * 16 + z div 4 < 256" "z mod 4 * 64 + w < 256"
    "(x * 4 + y div 16) div 4 = x" "(x * 4 + y div 16) mod 4 * 16 + (y mod 16 * 16 + z div 4) div 16 = y"
    "(y mod 16 * 16 + z div 4) mod 16 * 4 + (z mod 4 * 64 + w) div 64 = z" "(z mod 4 * 64 + w) mod 64 = w"
proof -
  have d: "y div 16 < 4" "z div 4 < 16" "y mod 16 < 16" "z mod 4 < 4" using assms by auto
  then show "x * 4 + y div 16 < 256" "y mod 16 * 16 + z div 4 < 256" "z mod 4 * 64 + w < 256"
    using assms by linarith+
  show "(x * 4 + y div 16) div 4 = x" using d by simp
  have "(x * 4 + y div 16) mod 4 = y div 16" "(y mod 16 * 16 + z div 4) div 16 = y mod 16" using d by simp_all
  then show "(x * 4 + y div 16) mod 4 * 16 + (y mod 16 * 16 + z div 4) div 16 = y" by simp
  have "(y mod 16 * 16 + z div 4) mod 16 = z div 4" "(z mod 4 * 64 + w) div 64 = z mod 4"
    using d assms by simp_all
  then show "(y mod 16 * 16 + z div 4) mod 16 * 4 + (z mod 4 * 64 + w) div 64 = z" by simp
  show "(z mod 4 * 64 + w) mod 64 = w" using assms by simp
qed

lemma encode_groups:
  "alphabet al \<Longrightarrow> b64_groups al pad s = Some t \<Longrightarrow> b64_encode al pad t = s"
proof (induction al pad s arbitrary: t rule: b64_groups.induct)
  case (2 al pad a b)
  then obtain x y where p: "\<not> pad" "position a al = Some x" "position b al = Some y" "last1 x y = Some t"
    by (auto split: if_splits option.splits)
  then have "x < 64" "y < 64" using position_less [OF 2(1)] by blast+
  from sextet_join [OF this, of 0 0] this p show ?case
    by (auto simp: last1_def nth_position split: if_splits)
next
  case (3 al pad a b c)
  then obtain x y z where p: "\<not> pad" "position a al = Some x" "position b al = Some y"
      "position c al = Some z" "last2 x y z = Some t"
    by (auto split: if_splits option.splits)
  then have "x < 64" "y < 64" "z < 64" using position_less [OF 3(1)] by blast+
  from sextet_join [OF this, of 0] this p show ?case
    by (auto simp: last2_def nth_position split: if_splits)
next
  case (4 al pad a b c d s)
  then obtain x y where xy: "position a al = Some x" "position b al = Some y"
    by (auto split: option.splits)
  then have xy': "x < 64" "y < 64" using position_less [OF 4(2)] by blast+
  show ?case
  proof (cases "pad \<and> c = CHR ''=''")
    case True
    with 4(3) xy have "d = CHR ''=''" "s = []" "last1 x y = Some t" by (auto split: if_splits)
    with sextet_join [OF xy', of 0 0] xy' xy True show ?thesis
      by (auto simp: last1_def nth_position split: if_splits)
  next
    case c: False
    with 4(3) xy obtain z where z: "position c al = Some z" by (auto split: option.splits)
    then have z': "z < 64" using position_less [OF 4(2)] by blast
    show ?thesis
    proof (cases "pad \<and> d = CHR ''=''")
      case True
      with 4(3) xy z c have "s = []" "last2 x y z = Some t" by (auto split: if_splits)
      with sextet_join [OF xy' z', of 0] xy' z' xy z True show ?thesis
        by (auto simp: last2_def nth_position split: if_splits)
    next
      case d: False
      with 4(3) xy z c obtain w t' where w: "position d al = Some w" "b64_groups al pad s = Some t'"
        "t = [byte (x * 4 + y div 16), byte (y mod 16 * 16 + z div 4), byte (z mod 4 * 64 + w)] @ t'"
        by (auto split: option.splits)
      from w(1) have w': "w < 64" using position_less [OF 4(2)] by blast
      have "b64_encode al pad t' = s"
        using 4(1) [OF refl xy c z d w(1) 4(2) w(2)] by simp
      with sextet_join [OF xy' z' w'] xy z w show ?thesis by (simp add: nth_position)
    qed
  qed
qed (auto simp: alphabet_def)

end
