(* ===== verification/Canonical.thy ===== *)
theory Canonical
  imports Json Base64
begin

text \<open>
  \<^verbatim>\<open>internal/scim/canonicalize.go\<close>, \<^verbatim>\<open>password.go\<close> and the value checks of \<^verbatim>\<open>patch.go\<close>:
  canonical forms of e-mail addresses, phone numbers, messaging identifiers, country codes
  and type labels, X.509 values, references and passwords.
\<close>

section \<open>E-mail addresses, phone numbers, messaging identifiers\<close>

definition CanonicalizeEmail :: "ext \<Rightarrow> string \<Rightarrow> string" where
  "CanonicalizeEmail L raw =
     (let s = NormalizeNFC L (TrimSpace raw) in
      case LastIndexByte s CHR ''@'' of
        Some at \<Rightarrow>
          if 0 < at \<and> at < length s - 1 then take (at + 1) s @ ToLower L (drop (at + 1) s) else s
      | None \<Rightarrow> s)"

text \<open>\<^verbatim>\<open>sepRunRegex\<close> is a run of white space, dots, parentheses and hyphens; replacing all its
  matches puts one hyphen for each maximal run. \<^verbatim>\<open>compactE164Regex\<close> is a plus sign, a digit
  from 1 to 9 and one to fourteen digits.\<close>

definition isSep :: "char \<Rightarrow> bool" where
  "isSep c \<longleftrightarrow> regex_space c \<or> c \<in> set ''.()-''"

function replaceSepRuns :: "string \<Rightarrow> string" where
  "replaceSepRuns [] = []"
| "replaceSepRuns (c # cs) =
     (if isSep c then CHR ''-'' # replaceSepRuns (dropWhile isSep cs) else c # replaceSepRuns cs)"
  by pat_completeness auto
termination
  by (relation "measure length") (auto simp: le_imp_less_Suc length_dropWhile_le)

definition compactE164 :: "string \<Rightarrow> bool" where
  "compactE164 s \<longleftrightarrow> 3 \<le> length s \<and> length s \<le> 16 \<and> hd s = CHR ''+''
     \<and> is_digit (s ! 1) \<and> s ! 1 \<noteq> CHR ''0'' \<and> list_all is_digit (drop 2 s)"

definition cleanNumber :: "string \<Rightarrow> string" where
  "cleanNumber body =
     TrimByte (ReplaceAll (replaceSepRuns (ReplaceAll (ReplaceAll body ''('' []) '')'' [])) ''+-'' ''+'')
       CHR ''-''"

definition CanonicalizePhoneNumber :: "ext \<Rightarrow> string \<Rightarrow> string" where
  "CanonicalizePhoneNumber L raw =
     (let s = TrimSpace raw in
      if s = [] then []
      else if HasPrefix (ToLower L s) ''tel:'' then ''tel:'' @ cleanNumber (TrimSpace (drop 4 s))
      else if compactE164 s then s
      else if HasPrefix s ''+'' then ''tel:'' @ cleanNumber s
      else NormalizeNFC L s)"

definition CanonicalizeIM :: "ext \<Rightarrow> string \<Rightarrow> string" where
  "CanonicalizeIM L raw =
     concat (map (lower_rune L) (filter (\<lambda>r. \<not> IsSpace r) (runes (NormalizeNFC L raw))))"

section \<open>DER structure\<close>

text \<open>
  \<^verbatim>\<open>asn1.Unmarshal\<close> into a \<^verbatim>\<open>RawValue\<close>: the header of one element (class, tag, compound bit,
  definite length of at most four bytes of length in minimal form) and its bytes; the rest follows.
\<close>

record rawValue =
  Class :: nat
  Tag :: nat
  IsCompound :: bool
  Bytes :: string
  FullBytes :: string

fun base128 :: "nat \<Rightarrow> nat \<Rightarrow> string \<Rightarrow> (nat \<times> string) option" where
  "base128 shifted acc [] = None"
| "base128 shifted acc (b # bs) =
     (if shifted = 5 \<or> (shifted = 0 \<and> code b = 128) then None
      else
       (let acc' = acc * 128 + code b mod 128 in
        if code b < 128 then (if acc' < 2 ^ 31 then Some (acc', bs) else None)
        else base128 (Suc shifted) acc' bs))"

fun longLength :: "nat \<Rightarrow> nat \<Rightarrow> string \<Rightarrow> (nat \<times> string) option" where
  "longLength 0 acc bs = Some (acc, bs)"
| "longLength (Suc n) acc [] = None"
| "longLength (Suc n) acc (b # bs) =
     (if 2 ^ 23 \<le> acc \<or> acc * 256 + code b = 0 then None else longLength n (acc * 256 + code b) bs)"

definition parseLength :: "string \<Rightarrow> (nat \<times> string) option" where
  "parseLength bs =
     (case bs of
        [] \<Rightarrow> None
      | b # rest \<Rightarrow>
          if code b < 128 then Some (code b, rest)
          else if code b = 128 then None
          else (case longLength (code b - 128) 0 rest of
              None \<Rightarrow> None
            | Some (n, rest') \<Rightarrow> if n < 128 then None else Some (n, rest')))"

definition parseTag :: "string \<Rightarrow> (nat \<times> string) option" where
  "parseTag bs =
     (case bs of
        [] \<Rightarrow> None
      | b # rest \<Rightarrow>
          if code b mod 32 = 31 then
            (case base128 0 0 rest of
               None \<Rightarrow> None
             | Some (t, rest') \<Rightarrow> if t < 31 then None else Some (t, rest'))
          else Some (code b mod 32, rest))"

definition asn1_Unmarshal :: "string \<Rightarrow> (rawValue \<times> string) option" where
  "asn1_Unmarshal bs =
     (case parseTag bs of
        None \<Rightarrow> None
      | Some (t, bs1) \<Rightarrow>
          (case parseLength bs1 of
             None \<Rightarrow> None
           | Some (n, bs2) \<Rightarrow>
               if length bs2 < n then None
               else Some (\<lparr>Class = code (hd bs) div 64, Tag = t, IsCompound = (code (hd bs) div 32 mod 2 = 1),
                   Bytes = take n bs2, FullBytes = take (length bs - length bs2 + n) bs\<rparr>,
                 drop n bs2)))"

lemma base128_shorter: "base128 k a bs = Some (t, r) \<Longrightarrow> length r < length bs"
  by (induction k a bs rule: base128.induct) (auto simp: Let_def less_SucI split: if_splits)

lemma longLength_shorter: "longLength n a bs = Some (t, r) \<Longrightarrow> length r \<le> length bs"
  by (induction n a bs rule: longLength.induct) (auto simp: le_SucI split: if_splits)

lemma parseTag_shorter: "parseTag bs = Some (t, r) \<Longrightarrow> length r < length bs"
proof (cases bs)
  case (Cons b rest)
  assume "parseTag bs = Some (t, r)"
  with Cons show ?thesis
    using base128_shorter [of 0 0 rest t r] by (auto simp: parseTag_def split: if_splits option.splits)
qed (simp add: parseTag_def)

lemma parseLength_shorter: "parseLength bs = Some (t, r) \<Longrightarrow> length r < length bs"
proof (cases bs)
  case (Cons b rest)
  assume "parseLength bs = Some (t, r)"
  with Cons show ?thesis
    using longLength_shorter [of "code b - 128" 0 rest t r]
    by (auto simp: parseLength_def split: if_splits option.splits)
qed (simp add: parseLength_def)

lemma asn1_Unmarshal_shorter: "asn1_Unmarshal bs = Some (v, r) \<Longrightarrow> length r < length bs"
  by (auto simp: asn1_Unmarshal_def split: option.splits if_splits
      dest!: parseTag_shorter parseLength_shorter) linarith

text \<open>A SEQUENCE element: class 0, tag 16, compound.\<close>

definition isSequence :: "rawValue \<Rightarrow> bool" where
  "isSequence v \<longleftrightarrow> Class v = 0 \<and> Tag v = 16 \<and> IsCompound v"

definition isDERCertificateStructure :: "ext \<Rightarrow> string \<Rightarrow> bool" where
  "isDERCertificateStructure L b \<longleftrightarrow>
     b \<noteq> [] \<and>
     (x509_parse L b \<or>
      (case asn1_Unmarshal b of
         Some (outer, []) \<Rightarrow> isSequence outer \<and>
           (case asn1_Unmarshal (Bytes outer) of
              Some (tbs, rem1) \<Rightarrow> rem1 \<noteq> [] \<and> isSequence tbs \<and>
                (case asn1_Unmarshal rem1 of
                   Some (sigAlg, rem2) \<Rightarrow> rem2 \<noteq> [] \<and> isSequence sigAlg \<and>
                     (case asn1_Unmarshal rem2 of
                        Some (sigVal, rem3) \<Rightarrow> rem3 = [] \<and> Class sigVal = 0 \<and> Tag sigVal = 3
                      | None \<Rightarrow> False)
                 | None \<Rightarrow> False)
            | None \<Rightarrow> False)
       | _ \<Rightarrow> False))"

text \<open>The loop that counts the certificates of a sequence; 0 if an element is none.\<close>

function certCount :: "ext \<Rightarrow> string \<Rightarrow> nat \<Rightarrow> nat" where
  "certCount L inner n =
     (if inner = [] then n
      else (case asn1_Unmarshal inner of
          None \<Rightarrow> 0
        | Some (elem, nextRest) \<Rightarrow>
            if isDERCertificateStructure L (FullBytes elem) then certCount L nextRest (n + 1) else 0))"
  by pat_completeness auto
termination
  by (relation "measure (\<lambda>(L, inner, n). length inner)") (auto dest: asn1_Unmarshal_shorter)

declare certCount.simps [simp del]

definition ValidateX509CertificateValue :: "ext \<Rightarrow> string \<Rightarrow> unit res" where
  "ValidateX509CertificateValue L v =
     (if v = [] then invalidValue ''x509Certificates value must not be empty''
      else if ContainsAny v [CHR '' '', CHR 0x09, CHR 0x0D, CHR 0x0A] \<or> Contains v ''-----'' then
        invalidValue ''x509Certificates value must be strict base64 DER without PEM headers or whitespace''
      else (case b64_decode_strict std_alphabet True v of
          None \<Rightarrow> invalidValue ''Invalid base64 encoding for x509Certificates value''
        | Some [] \<Rightarrow> invalidValue ''Decoded x509Certificates value is empty''
        | Some (d # ds) \<Rightarrow>
            let der = d # ds in
            if d \<noteq> CHR 0x30 then Inr ()
            else (case asn1_Unmarshal der of
                None \<Rightarrow> Inr ()
              | Some (first, rest) \<Rightarrow>
                  if rest \<noteq> [] then
                    (if isDERCertificateStructure L (FullBytes first) then
                       invalidValue ''x509Certificates value must contain a single DER certificate, not multiple concatenated certificates''
                     else Inr ())
                  else if \<not> isDERCertificateStructure L der \<and> Bytes first \<noteq> []
                     \<and> hd (Bytes first) = CHR 0x30 \<and> 1 < certCount L (Bytes first) 0 then
                    invalidValue ''x509Certificates value must not be a sequence of multiple certificates''
                  else Inr ())))"

section \<open>Labels, countries, references\<close>

text \<open>\<^verbatim>\<open>normalizeCanonical\<close>: the label of the table that equals the value under case folding.
  The labels of each table differ under folding, so the order of the table does not matter.\<close>

definition normalizeCanonical :: "ext \<Rightarrow> string \<Rightarrow> string list \<Rightarrow> string" where
  "normalizeCanonical L v validTypes =
     (if v = [] then v else (case find (EqualFold L v) validTypes of Some k \<Rightarrow> k | None \<Rightarrow> v))"

definition emailTypes :: "string list" where
  "emailTypes = [''work'', ''home'', ''other'']"

definition phoneTypes :: "string list" where
  "phoneTypes = [''work'', ''home'', ''mobile'', ''fax'', ''pager'', ''other'']"

definition imTypes :: "string list" where
  "imTypes = [''aim'', ''gtalk'', ''icq'', ''xmpp'', ''skype'', ''qq'', ''msn'', ''yahoo'']"

definition photoTypes :: "string list" where
  "photoTypes = [''photo'', ''thumbnail'']"

definition addressTypes :: "string list" where
  "addressTypes = [''work'', ''home'', ''other'']"

definition isoAlpha3ToAlpha2 :: "(string \<times> string) list" where
  "isoAlpha3ToAlpha2 =
    [(''USA'', ''US''), (''GBR'', ''GB''), (''DEU'', ''DE''), (''FRA'', ''FR''), (''CAN'', ''CA''),
     (''AUS'', ''AU''), (''JPN'', ''JP''), (''SWE'', ''SE''), (''CHE'', ''CH''), (''AUT'', ''AT''),
     (''ITA'', ''IT''), (''ESP'', ''ES''), (''NLD'', ''NL''), (''BEL'', ''BE''), (''DNK'', ''DK''),
     (''NOR'', ''NO''), (''FIN'', ''FI''), (''POL'', ''PL''), (''IRL'', ''IE''), (''PRT'', ''PT''),
     (''BRA'', ''BR''), (''MEX'', ''MX''), (''IND'', ''IN''), (''CHN'', ''CN''), (''KOR'', ''KR''),
     (''SGP'', ''SG''), (''NZL'', ''NZ'')]"

definition normalizeCountry :: "ext \<Rightarrow> string \<Rightarrow> string" where
  "normalizeCountry L raw =
     (let c = ToUpper L (TrimSpace raw) in
      if c = [] then []
      else if length c = 2 \<and> is_upper (c ! 0) \<and> is_upper (c ! 1) then c
      else (case map_of isoAlpha3ToAlpha2 c of Some alpha2 \<Rightarrow> alpha2 | None \<Rightarrow> []))"

definition validateReference :: "ext \<Rightarrow> string \<Rightarrow> unit res" where
  "validateReference L v =
     (if v = [] then Inr ()
      else if ContainsAny v [CHR '' '', CHR 0x09, CHR 0x0D, CHR 0x0A] then
        invalidValue (''Invalid reference URI (contains whitespace): '' @ v)
      else if \<not> url_parse L v then invalidValue (''Invalid reference URI: '' @ v)
      else Inr ())"

section \<open>Passwords\<close>

definition MaxBcryptPasswordBytes :: nat where
  "MaxBcryptPasswordBytes = 72"

definition HashPassword :: "ext \<Rightarrow> string option \<Rightarrow> string option res" where
  "HashPassword L raw =
     (case raw of
        None \<Rightarrow> Inr None
      | Some v \<Rightarrow>
          if v = [] then Inr (Some v)
          else if MaxBcryptPasswordBytes < length v then
            invalidValue ''password cannot be more than 72 bytes''
          else (case bcrypt_generate L v of
              Inl err \<Rightarrow> invalidValue (''Failed to hash password: '' @ err)
            | Inr h \<Rightarrow> Inr (Some h)))"

text \<open>What a stored password may be: absent, empty, or the bcrypt hash of a password of at
  most 72 bytes.\<close>

definition hashed :: "ext \<Rightarrow> string option \<Rightarrow> bool" where
  "hashed L pw \<longleftrightarrow> (case pw of None \<Rightarrow> True | Some h \<Rightarrow> h = [] \<or>
     (\<exists>p. p \<noteq> [] \<and> length p \<le> MaxBcryptPasswordBytes \<and> bcrypt_generate L p = Inr h))"

lemma HashPassword_hashed: "HashPassword L raw = Inr pw \<Longrightarrow> hashed L pw"
  by (auto simp: HashPassword_def hashed_def split: option.splits if_splits sum.splits)

end
