(* ===== verification/MultiValue.thy ===== *)
theory MultiValue
  imports Canonical
begin

text \<open>
  The loops that \<^verbatim>\<open>patch.go\<close> repeats for each of the eight multi-valued attributes of a user,
  over the operations of one attribute: the key that identifies an entry, its primary flag,
  the builder of an entry from JSON and the setter of one sub-attribute. The locale
  \<open>multi_valued\<close> names the laws of the flag and the key, \<open>collection\<close> adds the laws of the
  builder and the setter; \<open>Patch\<close> interprets it for all eight attributes.
\<close>

section \<open>The loops\<close>

text \<open>The loop of the \<^verbatim>\<open>Deduplicate...\<close> functions: \<open>seen\<close> maps a key to its position in
  \<open>result\<close>.\<close>

fun dedupLoop :: "('a \<Rightarrow> string) \<Rightarrow> ('a \<Rightarrow> bool) \<Rightarrow> (bool \<Rightarrow> 'a \<Rightarrow> 'a)
    \<Rightarrow> 'a list \<Rightarrow> (string \<times> nat) list \<Rightarrow> 'a list \<Rightarrow> 'a list" where
  "dedupLoop key prim setp result seen [] = result"
| "dedupLoop key prim setp result seen (x # xs) =
     (case map_of seen (key x) of
        Some idx \<Rightarrow>
          dedupLoop key prim setp
            (if prim x then result[idx := setp True (result ! idx)] else result) seen xs
      | None \<Rightarrow> dedupLoop key prim setp (result @ [x]) ((key x, length result) # seen) xs)"

definition deduplicate :: "('a \<Rightarrow> string) \<Rightarrow> ('a \<Rightarrow> bool) \<Rightarrow> (bool \<Rightarrow> 'a \<Rightarrow> 'a) \<Rightarrow> 'a list \<Rightarrow> 'a list" where
  "deduplicate key prim setp items =
     (if length items \<le> 1 then items else dedupLoop key prim setp [] [] items)"

text \<open>The loop of \<^verbatim>\<open>addToMultiValued\<close>: a new primary entry demotes the ones before it.\<close>

definition addItems :: "('a \<Rightarrow> bool) \<Rightarrow> (bool \<Rightarrow> 'a \<Rightarrow> 'a) \<Rightarrow> (json_object \<Rightarrow> 'a res)
    \<Rightarrow> 'a list \<Rightarrow> json_object list \<Rightarrow> 'a list res" where
  "addItems prim setp build cur items =
     rfold (\<lambda>us item. rbind (build item) (\<lambda>built.
       Inr ((if prim built then map (setp False) us else us) @ [built]))) cur items"

text \<open>The loop of \<^verbatim>\<open>applyFilteredUpdate\<close>, over the positions of the list; each visit sees the
  changes of the earlier ones. The result tells whether an entry matched.\<close>

definition demoteOthers :: "(bool \<Rightarrow> 'a \<Rightarrow> 'a) \<Rightarrow> nat \<Rightarrow> 'a list \<Rightarrow> 'a list" where
  "demoteOthers setp i us = map (\<lambda>(j, x). if j \<noteq> i then setp False x else x) (zip [0..<length us] us)"

definition updateAt :: "(bool \<Rightarrow> 'a \<Rightarrow> 'a) \<Rightarrow> ('a \<Rightarrow> bool) \<Rightarrow> ('a \<Rightarrow> 'a res) \<Rightarrow> bool
    \<Rightarrow> 'a list \<times> bool \<Rightarrow> nat \<Rightarrow> ('a list \<times> bool) res" where
  "updateAt setp matches upd demote st i =
     (let (us, found) = st in
      if matches (us ! i) then
        rbind (upd (us ! i)) (\<lambda>x.
          Inr (if demote then demoteOthers setp i (us[i := x]) else us[i := x], True))
      else Inr (us, found))"

definition updateMatching :: "(bool \<Rightarrow> 'a \<Rightarrow> 'a) \<Rightarrow> ('a \<Rightarrow> bool) \<Rightarrow> ('a \<Rightarrow> 'a res) \<Rightarrow> bool
    \<Rightarrow> 'a list \<Rightarrow> ('a list \<times> bool) res" where
  "updateMatching setp matches upd demote us =
     rfold (updateAt setp matches upd demote) (us, False) [0..<length us]"

definition removeMatching :: "'a list \<Rightarrow> ('a \<Rightarrow> bool) \<Rightarrow> 'a list" where
  "removeMatching items matches = filter (\<lambda>x. \<not> matches x) items"

section \<open>Reference descriptions\<close>

text \<open>At most one entry of a multi-valued attribute is primary.\<close>

definition single_primary :: "('a \<Rightarrow> bool) \<Rightarrow> 'a list \<Rightarrow> bool" where
  "single_primary prim us \<longleftrightarrow> length (filter prim us) \<le> 1"

text \<open>The entries with the first occurrence of each key, in order.\<close>

fun firsts :: "('a \<Rightarrow> string) \<Rightarrow> string list \<Rightarrow> 'a list \<Rightarrow> 'a list" where
  "firsts key seen [] = []"
| "firsts key seen (x # xs) =
     (if key x \<in> set seen then firsts key seen xs else x # firsts key (key x # seen) xs)"

lemma single_primary_Nil [simp]: "single_primary prim []"
  by (simp add: single_primary_def)

lemma firsts_cong: "set s = set t \<Longrightarrow> firsts key s xs = firsts key t xs"
proof (induction xs arbitrary: s t)
  case (Cons x xs)
  have "firsts key s xs = firsts key t xs" by (rule Cons.IH) (rule Cons.prems)
  moreover have "firsts key (key x # s) xs = firsts key (key x # t) xs"
    by (rule Cons.IH) (simp add: Cons.prems)
  ultimately show ?case by (simp add: Cons.prems)
qed simp

lemma firsts_append: "firsts key s (xs @ ys) = firsts key s xs @ firsts key (map key xs @ s) ys"
proof (induction xs arbitrary: s)
  case (Cons x xs)
  have "firsts key (map key xs @ key x # s) ys = firsts key (key x # map key xs @ s) ys"
    by (rule firsts_cong) auto
  moreover have "firsts key (map key xs @ s) ys = firsts key (key x # map key xs @ s) ys"
    if "key x \<in> set s" by (rule firsts_cong) (use that in auto)
  ultimately show ?case using Cons.IH by auto
qed simp

lemma keys_firsts: "key ` set (firsts key s xs) = key ` set xs - set s"
  by (induction xs arbitrary: s) auto

lemma distinct_firsts: "distinct (map key (firsts key s xs)) \<and> key ` set (firsts key s xs) \<inter> set s = {}"
proof (induction xs arbitrary: s)
  case (Cons x xs)
  then show ?case
    using Cons.IH [of "key x # s"] Cons.IH [of s] by (auto simp: image_iff)
qed simp

lemma firsts_distinct: "distinct (map key xs) \<Longrightarrow> key ` set xs \<inter> set s = {} \<Longrightarrow> firsts key s xs = xs"
  by (induction xs arbitrary: s) auto

lemma firsts_covered: "key ` set xs \<subseteq> set s \<Longrightarrow> firsts key s xs = []"
  by (induction xs arbitrary: s) auto

lemma set_firsts: "set (firsts key s xs) \<subseteq> set xs"
  by (induction xs arbitrary: s) auto

section \<open>One attribute\<close>

locale multi_valued =
  fixes key :: "'a \<Rightarrow> string" and prim :: "'a \<Rightarrow> bool" and setp :: "bool \<Rightarrow> 'a \<Rightarrow> 'a"
  assumes prim_set [simp]: "prim (setp b x) = b"
    and key_set [simp]: "key (setp b x) = key x"
    and set_prim [simp]: "setp (prim x) x = x"
    and set_set [simp]: "setp b (setp c x) = setp b x"
begin

definition wins :: "'a list \<Rightarrow> 'a \<Rightarrow> 'a" where
  "wins us x = setp (\<exists>y \<in> set us. key y = key x \<and> prim y) x"

lemma key_wins [simp]: "key (wins us x) = key x"
  by (simp add: wins_def)

lemma keys_wins [simp]: "map key (map (wins us) xs) = map key xs"
  by (simp add: comp_def)

text \<open>What the result and the index of \<open>dedupLoop\<close> are after the entries \<open>us\<close>.\<close>

lemma dedupLoop_spec:
  assumes "\<And>k i. map_of seen k = Some i \<longleftrightarrow> i < length (firsts key [] us) \<and> key (firsts key [] us ! i) = k"
  shows "dedupLoop key prim setp (map (wins us) (firsts key [] us)) seen xs =
    map (wins (us @ xs)) (firsts key [] (us @ xs))"
  using assms
proof (induction xs arbitrary: us seen)
  case Nil
  show ?case by simp
next
  case (Cons x xs)
  let ?F = "firsts key [] us" and ?G = "firsts key [] (us @ [x])"
  have index: "key x \<in> key ` set us \<longleftrightarrow> map_of seen (key x) \<noteq> None"
  proof -
    have "key x \<in> key ` set us \<longleftrightarrow> key x \<in> key ` set ?F" by (simp add: keys_firsts)
    also have "\<dots> \<longleftrightarrow> (\<exists>i < length ?F. key (?F ! i) = key x)" by (auto simp: image_def Bex_def in_set_conv_nth)
    finally show ?thesis using Cons.prems by auto
  qed
  show ?case
  proof (cases "map_of seen (key x)")
    case None
    with index have G: "?G = ?F @ [x]" by (simp add: firsts_append)
    have new: "key x \<notin> key ` set us" using None index by simp
    have "map (wins (us @ [x])) ?G = map (wins us) ?F @ [x]"
    proof -
      have "wins (us @ [x]) f = wins us f" if "f \<in> set ?F" for f
      proof -
        have "f \<in> set us" using that set_firsts [of key "[]" us] by blast
        then have "key x \<noteq> key f" using new by (metis image_eqI)
        then show ?thesis by (simp add: wins_def)
      qed
      moreover have "wins (us @ [x]) x = x"
      proof -
        have "(\<exists>y \<in> set (us @ [x]). key y = key x \<and> prim y) = prim x"
          using new by (auto simp: image_iff)
        then show ?thesis by (simp add: wins_def)
      qed
      ultimately show ?thesis using G by simp
    qed
    moreover have "map_of ((key x, length ?F) # seen) k = Some i \<longleftrightarrow> i < length ?G \<and> key (?G ! i) = k" for k i
    proof -
      have "\<not> (i < length ?F \<and> key (?F ! i) = key x)" for i using Cons.prems [of "key x" i] None by simp
      then show ?thesis using Cons.prems [of k i] G by (auto simp: nth_append)
    qed
    ultimately show ?thesis
      using Cons.IH [of "(key x, length ?F) # seen" "us @ [x]"] None by simp
  next
    case (Some i)
    with Cons.prems have i: "i < length ?F" "key (?F ! i) = key x" by blast+
    have G: "?G = ?F" using Some index by (auto simp: firsts_append)
    have uniq: "f < length ?F \<Longrightarrow> key (?F ! f) = key x \<Longrightarrow> f = i" for f
      using distinct_firsts [of key "[]" us] i by (metis distinct_conv_nth length_map nth_map)
    have "map (wins (us @ [x])) ?G =
        (if prim x then (map (wins us) ?F)[i := setp True (map (wins us) ?F ! i)] else map (wins us) ?F)"
    proof (rule nth_equalityI)
      fix f
      assume "f < length (map (wins (us @ [x])) ?G)"
      then have f: "f < length ?F" using G by simp
      have "wins (us @ [x]) (?F ! f) = (if prim x \<and> f = i then setp True (wins us (?F ! i)) else wins us (?F ! f))"
      proof (cases "f = i")
        case True
        then show ?thesis using i by (auto simp: wins_def)
      next
        case False
        then have "key x \<noteq> key (?F ! f)" using uniq [OF f] by metis
        then show ?thesis using False by (simp add: wins_def)
      qed
      then show "map (wins (us @ [x])) ?G ! f = (if prim x
          then (map (wins us) ?F)[i := setp True (map (wins us) ?F ! i)] else map (wins us) ?F) ! f"
        using f i G by (auto simp: nth_list_update)
    qed (use G in simp)
    moreover have "map_of seen k = Some j \<longleftrightarrow> j < length ?G \<and> key (?G ! j) = k" for k j
      using Cons.prems G by simp
    then have "dedupLoop key prim setp (map (wins (us @ [x])) ?G) seen xs =
        map (wins ((us @ [x]) @ xs)) (firsts key [] ((us @ [x]) @ xs))"
      by (rule Cons.IH)
    moreover have "dedupLoop key prim setp (map (wins us) ?F) seen (x # xs) =
        dedupLoop key prim setp (if prim x
          then (map (wins us) ?F)[i := setp True (map (wins us) ?F ! i)] else map (wins us) ?F) seen xs"
      using Some by simp
    ultimately show ?thesis by (simp only: append_assoc append_Cons append_Nil)
  qed
qed

text \<open>Deduplication keeps the first entry of each key, in order, and makes it primary if any
  entry with its key was.\<close>

lemma deduplicate_spec: "deduplicate key prim setp us = map (wins us) (firsts key [] us)"
proof (cases "length us \<le> 1")
  case True
  then show ?thesis
    by (cases us) (auto simp: deduplicate_def wins_def)
next
  case False
  then show ?thesis
    using dedupLoop_spec [of "[]" "[]" us] by (simp add: deduplicate_def)
qed

lemma dedup_distinct: "distinct (map key (deduplicate key prim setp us))"
  using distinct_firsts [of key "[]" us] by (simp only: deduplicate_spec keys_wins)

lemma dedup_keys: "key ` set (deduplicate key prim setp us) = key ` set us"
  by (simp add: deduplicate_spec image_image keys_firsts)

lemma dedup_single: "single_primary prim us \<Longrightarrow> single_primary prim (deduplicate key prim setp us)"
proof -
  assume single: "single_primary prim us"
  let ?D = "deduplicate key prim setp us"
  have "distinct (map key (filter prim ?D))"
    using dedup_distinct by (rule distinct_map_filter)
  then have "length (filter prim ?D) = card (key ` set (filter prim ?D))"
    using distinct_card by fastforce
  also have "key ` set (filter prim ?D) \<subseteq> key ` set (filter prim us)"
    by (auto simp: deduplicate_spec wins_def) (metis (mono_tags) image_eqI mem_Collect_eq)
  then have "card (key ` set (filter prim ?D)) \<le> card (key ` set (filter prim us))"
    by (intro card_mono) auto
  also have "\<dots> \<le> length (filter prim us)"
    by (metis card_length card_image_le List.finite_set le_trans)
  finally show ?thesis using single by (simp add: single_primary_def)
qed

lemma dedup_idem: "deduplicate key prim setp (deduplicate key prim setp us) = deduplicate key prim setp us"
proof -
  let ?D = "deduplicate key prim setp us"
  have "firsts key [] ?D = ?D" by (rule firsts_distinct) (simp_all add: dedup_distinct)
  moreover have "wins ?D x = x" if "x \<in> set ?D" for x
  proof -
    have "(\<exists>y \<in> set ?D. key y = key x \<and> prim y) = prim x"
      using that dedup_distinct [of us] by (metis distinct_map inj_onD)
    then show ?thesis by (simp add: wins_def)
  qed
  ultimately show ?thesis by (simp add: deduplicate_spec [of ?D] map_idI)
qed

section \<open>Adding entries\<close>

lemma filter_demoted [simp]: "filter prim (map (setp False) us) = []"
  by (induction us) auto

lemma demoted_id: "filter prim us = [] \<Longrightarrow> map (setp False) us = us"
proof (induction us)
  case (Cons x us)
  then have "\<not> prim x" "filter prim us = []" by (auto split: if_splits)
  then show ?case using Cons.IH set_prim [of x] by simp
qed simp

lemma addItems_single:
  assumes "addItems prim setp build us items = Inr vs" and "single_primary prim us"
  shows "single_primary prim vs"
  using assms unfolding addItems_def
  proof (rule rfold_invariant)
  fix u x v
  assume u: "single_primary prim u" and "rbind (build x) (\<lambda>built.
      Inr ((if prim built then map (setp False) u else u) @ [built])) = Inr v"
  then obtain b where v: "v = (if prim b then map (setp False) u else u) @ [b]"
    by (auto simp: rbind_eq_Inr)
  show "single_primary prim v"
  proof (cases "prim b")
    case True
    then have "filter prim v = [b]" by (simp add: v)
    then show ?thesis by (simp add: single_primary_def)
  next
    case False
    then show ?thesis using u by (simp add: single_primary_def v)
  qed
qed

text \<open>Entries that leave at most one primary are appended in order.\<close>

lemma addItems_append:
  assumes "rmap build items = Inr bs" and "single_primary prim (us @ bs)"
  shows "addItems prim setp build us items = Inr (us @ bs)"
  using assms
proof (induction items arbitrary: us bs)
  case Nil
  then show ?case by (simp add: addItems_def)
next
  case (Cons item items)
  then obtain b bs' where b: "build item = Inr b" "rmap build items = Inr bs'" "bs = b # bs'"
    by (auto simp: rbind_eq_Inr)
  let ?us = "if prim b then map (setp False) us else us"
  have us: "?us = us" using Cons.prems(2) b(3) by (auto simp: single_primary_def intro: demoted_id)
  have "addItems prim setp build ((if prim b then map (setp False) us else us) @ [b]) items = Inr ((us @ [b]) @ bs')"
    unfolding us by (rule Cons.IH) (use Cons.prems(2) b in simp_all)
  then show ?case using b by (simp add: addItems_def)
qed

lemma addItems_error: "rmap build items = Inl e \<Longrightarrow> addItems prim setp build us items = Inl e"
proof (induction items arbitrary: us)
  case (Cons item items)
  then show ?case by (auto simp: addItems_def rbind_eq_Inl)
qed simp

text \<open>Adding to a list demotes it if one of the new entries is primary.\<close>

lemma addItems_demote:
  assumes "rmap build items = Inr bs" and "single_primary prim bs"
  shows "addItems prim setp build us items =
    Inr ((if filter prim bs = [] then us else map (setp False) us) @ bs)"
  using assms
proof (induction items arbitrary: us bs)
  case Nil
  then show ?case by (simp add: addItems_def)
next
  case (Cons item items)
  then obtain b bs' where b: "build item = Inr b" "rmap build items = Inr bs'" "bs = b # bs'"
    by (auto simp: rbind_eq_Inr)
  let ?us = "if prim b then map (setp False) us else us"
  have single: "single_primary prim bs'" using Cons.prems(2) b(3) by (simp add: single_primary_def split: if_splits)
  have "addItems prim setp build (?us @ [b]) items =
      Inr ((if filter prim bs' = [] then ?us @ [b] else map (setp False) (?us @ [b])) @ bs')"
    by (rule Cons.IH [OF b(2) single])
  moreover have "\<not> prim b \<Longrightarrow> setp False b = b" using set_prim [of b] by simp
  ultimately show ?case
    using b Cons.prems(2) by (auto simp: addItems_def single_primary_def split: if_splits)
qed

text \<open>Adding the same entries a second time changes nothing.\<close>

lemma add_idem:
  assumes built: "rmap build items = Inr bs" and single: "single_primary prim bs"
    and once: "addItems prim setp build us items = Inr vs"
    and again: "addItems prim setp build (deduplicate key prim setp vs) items = Inr ws"
  shows "deduplicate key prim setp ws = deduplicate key prim setp vs"
proof -
  let ?D = "deduplicate key prim setp vs"
  define dem where "dem xs = (if filter prim bs = [] then xs else map (setp False) xs)" for xs
  have vs: "vs = dem us @ bs" and ws: "ws = dem ?D @ bs"
    using once again addItems_demote [OF built single] by (simp_all add: dem_def)
  have keys: "map key (dem ?D) = map key ?D" by (simp add: dem_def comp_def)
  have "firsts key [] (dem ?D) = dem ?D"
    by (rule firsts_distinct) (simp_all add: keys dedup_distinct)
  moreover have "firsts key (map key (dem ?D) @ []) bs = []"
    by (rule firsts_covered) (simp only: keys, auto simp: dedup_keys vs)
  ultimately have F: "firsts key [] ws = dem ?D" by (simp add: ws firsts_append)
  have "map (wins ws) (dem ?D) = ?D"
  proof (cases "filter prim bs = []")
    case True
    have "wins ws x = wins ?D x" for x
    proof -
      have "(\<exists>y \<in> set ws. key y = key x \<and> prim y) \<longleftrightarrow> (\<exists>y \<in> set ?D. key y = key x \<and> prim y)"
        using True by (auto simp: ws dem_def filter_empty_conv)
      then show ?thesis by (simp add: wins_def)
    qed
    then have "map (wins ws) (dem ?D) = map (wins ?D) (firsts key [] ?D)"
      using True by (simp add: dem_def firsts_distinct dedup_distinct)
    also have "\<dots> = ?D" by (simp only: deduplicate_spec [of ?D, symmetric] dedup_idem)
    finally show ?thesis .
  next
    case False
    have no: "\<not> prim y" if "y \<in> set (dem xs)" for y xs using that False by (auto simp: dem_def)
    have "wins ws (setp False x) = x" if x: "x \<in> set ?D" for x
    proof -
      from x obtain f where f: "x = wins vs f" by (auto simp: deduplicate_spec)
      then have "prim x \<longleftrightarrow> (\<exists>y \<in> set bs. key y = key x \<and> prim y)" using no by (auto simp: wins_def vs)
      moreover have "(\<exists>y \<in> set ws. key y = key x \<and> prim y) \<longleftrightarrow> (\<exists>y \<in> set bs. key y = key x \<and> prim y)"
        using no by (auto simp: ws)
      ultimately show ?thesis using set_prim [of x] by (simp add: wins_def)
    qed
    then show ?thesis using False by (simp add: dem_def map_idI)
  qed
  with F show ?thesis by (simp add: deduplicate_spec [of ws])
qed

section \<open>Updating the matching entries\<close>

lemma length_demoteOthers [simp]: "length (demoteOthers setp i us) = length us"
  by (simp add: demoteOthers_def)

lemma nth_demoteOthers [simp]:
  "j < length us \<Longrightarrow> demoteOthers setp i us ! j = (if j \<noteq> i then setp False (us ! j) else us ! j)"
  by (simp add: demoteOthers_def)

lemma single_nth:
  "single_primary prim us \<longleftrightarrow> (\<forall>i j. i < j \<and> j < length us \<longrightarrow> \<not> (prim (us ! i) \<and> prim (us ! j)))"
proof (induction us)
  case (Cons x us)
  have "(\<forall>i j. i < j \<and> j < length (x # us) \<longrightarrow> \<not> (prim ((x # us) ! i) \<and> prim ((x # us) ! j))) \<longleftrightarrow>
      (\<forall>j < length us. \<not> (prim x \<and> prim (us ! j)))
      \<and> (\<forall>i j. i < j \<and> j < length us \<longrightarrow> \<not> (prim (us ! i) \<and> prim (us ! j)))"
    (is "?L \<longleftrightarrow> ?A \<and> ?B")
  proof
    assume ?L
    then show "?A \<and> ?B" by (metis Suc_less_eq length_Cons nth_Cons_0 nth_Cons_Suc zero_less_Suc)
  next
    assume ab: "?A \<and> ?B"
    show ?L
    proof (intro allI impI)
      fix i j
      assume "i < j \<and> j < length (x # us)"
      then show "\<not> (prim ((x # us) ! i) \<and> prim ((x # us) ! j))"
        using ab by (cases i; cases j) auto
    qed
  qed
  moreover have "single_primary prim (x # us) \<longleftrightarrow> (\<forall>j < length us. \<not> (prim x \<and> prim (us ! j))) \<and> single_primary prim us"
    by (auto simp: single_primary_def filter_empty_conv all_set_conv_all_nth)
  ultimately show ?case using Cons.IH by simp
qed simp

lemma updateAt_single:
  assumes "updateAt setp matches upd demote (us, found) i = Inr (vs, found')" "i < length us"
    and "single_primary prim us"
    and keep: "\<And>x y. \<not> demote \<Longrightarrow> upd x = Inr y \<Longrightarrow> prim y \<Longrightarrow> prim x"
  shows "single_primary prim vs"
proof -
  from assms(1) consider "vs = us"
    | x where "upd (us ! i) = Inr x" "vs = (if demote then demoteOthers setp i (us[i := x]) else us[i := x])"
    by (auto simp: updateAt_def rbind_eq_Inr split: if_splits)
  then show ?thesis
  proof cases
    case 1
    then show ?thesis using assms by simp
  next
    case (2 x)
    show ?thesis
    proof (cases demote)
      case True
      then show ?thesis using 2 by (auto simp: single_nth)
    next
      case False
      then have "prim x \<Longrightarrow> prim (us ! i)" using keep 2 by blast
      then show ?thesis
        using 2 False assms(2,3) by (auto simp: single_nth nth_list_update)
    qed
  qed
qed

lemma updateAt_length:
  "updateAt setp matches upd demote st i = Inr st' \<Longrightarrow> length (fst st') = length (fst st)"
  by (auto simp: updateAt_def rbind_eq_Inr split: if_splits prod.splits)

lemma updateMatching_single:
  assumes run: "updateMatching setp matches upd demote us = Inr (vs, found)"
    and "single_primary prim us"
    and keep: "\<And>x y. \<not> demote \<Longrightarrow> upd x = Inr y \<Longrightarrow> prim y \<Longrightarrow> prim x"
  shows "single_primary prim vs"
proof -
  let ?P = "\<lambda>st. length (fst st) = length us \<and> single_primary prim (fst st)"
  have "?P (vs, found)"
  proof (rule rfold_invariant [OF run [unfolded updateMatching_def], of ?P])
    show "?P (us, False)" using assms(2) by simp
  next
    fix st i st'
    assume i: "i \<in> set [0..<length us]" and "?P st" and "updateAt setp matches upd demote st i = Inr st'"
    moreover obtain a f b g where "st = (a, f)" "st' = (b, g)" by (metis surj_pair)
    ultimately show "?P st'"
      using updateAt_single [OF _ _ _ keep] updateAt_length by fastforce
  qed
  then show ?thesis by simp
qed

text \<open>Without a demotion every entry is updated by itself.\<close>

lemma updateMatching_pointwise:
  "updateMatching setp matches upd False us =
     rbind (rmap (\<lambda>x. if matches x then upd x else Inr x) us) (\<lambda>vs. Inr (vs, list_ex matches us))"
proof -
  have "rfold (updateAt setp matches upd False) (ds @ us, found) [length ds..<length ds + length us] =
      rbind (rmap (\<lambda>x. if matches x then upd x else Inr x) us)
        (\<lambda>vs. Inr (ds @ vs, found \<or> list_ex matches us))" for ds found
  proof (induction us arbitrary: ds found)
    case Nil
    show ?case by simp
  next
    case (Cons x us)
    have range: "[length ds..<length ds + length (x # us)] = length ds # [length (ds @ [z])..<length (ds @ [z]) + length us]" for z
      by (simp add: upt_conv_Cons del: upt_Suc)
    show ?case
    proof (cases "matches x")
      case False
      then show ?thesis
        unfolding range [of x] using Cons.IH [of "ds @ [x]" found]
        by (simp add: updateAt_def split: sum.splits)
    next
      case True
      show ?thesis
      proof (cases "upd x")
        case (Inl e)
        then show ?thesis unfolding range [of x] using True by (simp add: updateAt_def)
      next
        case (Inr y)
        then show ?thesis
          unfolding range [of y] using True Cons.IH [of "ds @ [y]" True]
          by (simp add: updateAt_def split: sum.splits)
      qed
    qed
  qed
  from this [of "[]" False] show ?thesis
    by (cases "rmap (\<lambda>x. if matches x then upd x else Inr x) us") (simp_all add: updateMatching_def)
qed

lemma removeMatching_single: "single_primary prim us \<Longrightarrow> single_primary prim (removeMatching us matches)"
proof -
  assume "single_primary prim us"
  moreover have "filter prim (filter (\<lambda>x. \<not> matches x) us) = filter (\<lambda>x. \<not> matches x) (filter prim us)"
    by (simp add: conj_commute)
  then have "length (filter prim (filter (\<lambda>x. \<not> matches x) us)) \<le> length (filter prim us)"
    by (simp only: length_filter_le)
  ultimately show ?thesis by (simp add: single_primary_def removeMatching_def)
qed

end
section \<open>Adding and replacing whole attributes\<close>

definition addAll :: "('a \<Rightarrow> string) \<Rightarrow> ('a \<Rightarrow> bool) \<Rightarrow> (bool \<Rightarrow> 'a \<Rightarrow> 'a) \<Rightarrow> (json_object \<Rightarrow> 'a res)
    \<Rightarrow> 'a list \<Rightarrow> json_object list \<Rightarrow> 'a list res" where
  "addAll key prim setp build cur items =
     rbind (addItems prim setp build cur items) (\<lambda>us. Inr (deduplicate key prim setp us))"

definition replaceItems :: "('a list \<Rightarrow> 'a list) \<Rightarrow> (json_object \<Rightarrow> 'a res) \<Rightarrow> string \<Rightarrow> json \<Rightarrow> 'a list res" where
  "replaceItems dedup build name v =
     rbind (extractMapSlice v name) (\<lambda>items.
     rbind (ValidateSinglePrimary items) (\<lambda>_.
     rbind (rmap build items) (\<lambda>result. Inr (dedup result))))"

lemma countStep_Inr: "countStep n m = Inr k \<Longrightarrow> k = (if jget m ''primary'' = JBool True then n + 1 else n)"
  by (auto simp: countStep_def split: json.splits if_splits)

lemma countPrimary_Inr:
  assumes "countPrimary items = Inr n"
  shows "n = length (filter (\<lambda>m. jget m ''primary'' = JBool True) items)"
proof -
  have "rfold countStep k items = Inr n \<Longrightarrow>
      n = k + length (filter (\<lambda>m. jget m ''primary'' = JBool True) items)" for k
  proof (induction items arbitrary: k)
    case (Cons m items)
    then obtain k' where k': "countStep k m = Inr k'" "rfold countStep k' items = Inr n"
      by (auto simp: rbind_eq_Inr)
    from countStep_Inr [OF k'(1)] Cons.IH [OF k'(2)] show ?case by simp
  qed simp
  then show ?thesis using assms by (fastforce simp: countPrimary_def)
qed

locale collection = multi_valued key prim setp
  for key :: "'a \<Rightarrow> string" and prim :: "'a \<Rightarrow> bool" and setp :: "bool \<Rightarrow> 'a \<Rightarrow> 'a" +
  fixes build :: "json_object \<Rightarrow> 'a res"
  assumes build_prim: "build m = Inr b \<Longrightarrow> prim b \<longleftrightarrow> jget m ''primary'' = JBool True"
begin

lemma built_single:
  assumes "ValidateSinglePrimary items = Inr ()" and "rmap build items = Inr bs"
  shows "single_primary prim bs"
proof -
  have "length (filter prim bs) = length (filter (\<lambda>m. jget m ''primary'' = JBool True) items)"
    using assms(2) [unfolded rmap_Inr_iff]
    by (induction rule: list_all2_induct) (auto simp: build_prim)
  moreover obtain n where "countPrimary items = Inr n" "n \<le> 1"
    using assms(1) by (auto simp: ValidateSinglePrimary_def rbind_eq_Inr split: if_splits)
  ultimately show ?thesis using countPrimary_Inr by (auto simp: single_primary_def)
qed

lemma addAll_single:
  assumes "addAll key prim setp build us items = Inr vs" and "single_primary prim us"
  shows "single_primary prim vs"
  using assms addItems_single by (auto simp: addAll_def rbind_eq_Inr intro: dedup_single)

lemma replaceItems_single:
  assumes "replaceItems (deduplicate key prim setp) build name v = Inr vs"
  shows "single_primary prim vs"
  using assms built_single by (fastforce simp: replaceItems_def rbind_eq_Inr intro: dedup_single)

lemma replaceItems_distinct:
  assumes "replaceItems (deduplicate key prim setp) build name v = Inr vs"
  shows "distinct (map key vs)"
  using assms by (auto simp: replaceItems_def rbind_eq_Inr dedup_distinct)

lemma addAll_distinct: "addAll key prim setp build us items = Inr vs \<Longrightarrow> distinct (map key vs)"
  by (auto simp: addAll_def rbind_eq_Inr dedup_distinct)

text \<open>Replacing by PUT and replacing by PATCH (clear, then add) store the same entries.\<close>

lemma items_same: "toItemList (JArr xs) = Inr items \<longleftrightarrow> extractMapSlice (JArr xs) name = Inr items"
  by (auto simp: toItemList_def extractMapSlice_def rmap_Inr_iff elim!: list_all2_mono split: json.splits)

lemma replace_is_clear_add:
  "replaceItems (deduplicate key prim setp) build name (JArr xs) = Inr us \<longleftrightarrow>
     (\<exists>items. toItemList (JArr xs) = Inr items \<and> ValidateSinglePrimary items = Inr ()
       \<and> addAll key prim setp build [] items = Inr us)"
proof -
  have "addAll key prim setp build [] items = Inr us \<longleftrightarrow>
      (\<exists>bs. rmap build items = Inr bs \<and> us = deduplicate key prim setp bs)"
    if "ValidateSinglePrimary items = Inr ()" for items
  proof (cases "rmap build items")
    case (Inl e)
    then show ?thesis by (simp add: addAll_def addItems_error)
  next
    case (Inr bs)
    then show ?thesis
      using addItems_append [of build items bs "[]"] built_single [OF that Inr] by (auto simp: addAll_def)
  qed
  then show ?thesis
    by (auto simp: replaceItems_def rbind_eq_Inr items_same [of xs _ name])
qed

text \<open>Adding the same items a second time changes nothing.\<close>

lemma addAll_idem:
  assumes "ValidateSinglePrimary items = Inr ()"
    and once: "addAll key prim setp build us items = Inr vs"
  shows "addAll key prim setp build vs items = Inr vs"
proof (cases "rmap build items")
  case (Inl e)
  then show ?thesis using once by (simp add: addAll_def addItems_error)
next
  case (Inr bs)
  have single: "single_primary prim bs" by (rule built_single [OF assms(1) Inr])
  note add = addItems_demote [OF Inr single]
  from once obtain ws where ws: "addItems prim setp build us items = Inr ws"
    and vs: "vs = deduplicate key prim setp ws"
    by (auto simp: addAll_def rbind_eq_Inr)
  show ?thesis
    using add_idem [OF Inr single ws add] by (simp add: addAll_def vs add)
qed

end

end
