(* ===== verification/User.thy ===== *)
theory User
  imports MultiValue
begin

text \<open>
  The user resource of \<^verbatim>\<open>internal/model/model.go\<close> and, for each of its eight multi-valued
  attributes, the functions of \<^verbatim>\<open>patch.go\<close> and \<^verbatim>\<open>mapper.go\<close> that build, edit, match,
  deduplicate, replace and print its entries.

  A Go slice is a list; \<^verbatim>\<open>nil\<close> and the empty slice are both the empty list, since the code only
  asks for lengths. A string pointer is an option. Identifiers are their canonical text and
  times are instants.
\<close>

section \<open>Resources\<close>

text \<open>The seven entry types with the same four fields share one record.\<close>

record multi_value =
  Value :: string
  Type :: string
  Display :: string
  PrimaryFlag :: bool

type_synonym ScimUserEmail = multi_value
type_synonym ScimUserPhoneNumber = multi_value
type_synonym ScimUserEntitlement = multi_value
type_synonym ScimUserRole = multi_value
type_synonym ScimUserIm = multi_value
type_synonym ScimUserPhoto = multi_value
type_synonym ScimUserX509Certificate = multi_value

record ScimUserAddress =
  Formatted :: string
  StreetAddress :: string
  Locality :: string
  Region :: string
  PostalCode :: string
  Country :: string
  AddressType :: string
  AddressPrimary :: bool

record ScimUser =
  ID :: string
  WorkspaceID :: string
  UserName :: string
  ExternalID :: "string option"
  NameFormatted :: "string option"
  NameFamilyName :: "string option"
  NameGivenName :: "string option"
  NameMiddleName :: "string option"
  NameHonorificPrefix :: "string option"
  NameHonorificSuffix :: "string option"
  DisplayName :: "string option"
  NickName :: "string option"
  ProfileUrl :: "string option"
  Title :: "string option"
  UserType :: "string option"
  PreferredLanguage :: "string option"
  Locale :: "string option"
  Timezone :: "string option"
  Active :: bool
  Password :: "string option"
  EnterpriseEmployeeNumber :: "string option"
  EnterpriseCostCenter :: "string option"
  EnterpriseOrganization :: "string option"
  EnterpriseDivision :: "string option"
  EnterpriseDepartment :: "string option"
  EnterpriseManagerValue :: "string option"
  EnterpriseManagerRef :: "string option"
  EnterpriseManagerDisplay :: "string option"
  CreatedAt :: int
  LastModified :: int
  Version :: int
  Emails :: "ScimUserEmail list"
  PhoneNumbers :: "ScimUserPhoneNumber list"
  Addresses :: "ScimUserAddress list"
  Entitlements :: "ScimUserEntitlement list"
  Roles :: "ScimUserRole list"
  Ims :: "ScimUserIm list"
  Photos :: "ScimUserPhoto list"
  X509Certificates :: "ScimUserX509Certificate list"

definition setPrimary :: "bool \<Rightarrow> multi_value \<Rightarrow> multi_value" where
  "setPrimary b e = e\<lparr>PrimaryFlag := b\<rparr>"

definition setAddressPrimary :: "bool \<Rightarrow> ScimUserAddress \<Rightarrow> ScimUserAddress" where
  "setAddressPrimary b a = a\<lparr>AddressPrimary := b\<rparr>"

section \<open>Deduplication\<close>

definition fold_trim :: "ext \<Rightarrow> string \<Rightarrow> string" where
  "fold_trim L s = ToLower L (TrimSpace s)"

text \<open>The key of an entry: type and value, in lower case; photo references and certificates
  are compared as they are.\<close>

definition valueKey :: "ext \<Rightarrow> multi_value \<Rightarrow> string" where
  "valueKey L e = fold_trim L (Type e) @ [CHR 0x00] @ fold_trim L (Value e)"

definition exactKey :: "ext \<Rightarrow> multi_value \<Rightarrow> string" where
  "exactKey L e = fold_trim L (Type e) @ [CHR 0x00] @ TrimSpace (Value e)"

definition addressKey :: "ext \<Rightarrow> ScimUserAddress \<Rightarrow> string" where
  "addressKey L a = Join (map (fold_trim L)
     [AddressType a, Formatted a, StreetAddress a, Locality a, Region a, PostalCode a, Country a]) [CHR 0x00]"

definition DeduplicateEmails :: "ext \<Rightarrow> ScimUserEmail list \<Rightarrow> ScimUserEmail list" where
  "DeduplicateEmails L = deduplicate (valueKey L) PrimaryFlag setPrimary"

definition DeduplicatePhoneNumbers :: "ext \<Rightarrow> ScimUserPhoneNumber list \<Rightarrow> ScimUserPhoneNumber list" where
  "DeduplicatePhoneNumbers L = deduplicate (valueKey L) PrimaryFlag setPrimary"

definition DeduplicateIms :: "ext \<Rightarrow> ScimUserIm list \<Rightarrow> ScimUserIm list" where
  "DeduplicateIms L = deduplicate (valueKey L) PrimaryFlag setPrimary"

definition DeduplicatePhotos :: "ext \<Rightarrow> ScimUserPhoto list \<Rightarrow> ScimUserPhoto list" where
  "DeduplicatePhotos L = deduplicate (exactKey L) PrimaryFlag setPrimary"

definition DeduplicateEntitlements :: "ext \<Rightarrow> ScimUserEntitlement list \<Rightarrow> ScimUserEntitlement list" where
  "DeduplicateEntitlements L = deduplicate (valueKey L) PrimaryFlag setPrimary"

definition DeduplicateRoles :: "ext \<Rightarrow> ScimUserRole list \<Rightarrow> ScimUserRole list" where
  "DeduplicateRoles L = deduplicate (valueKey L) PrimaryFlag setPrimary"

definition DeduplicateX509Certificates :: "ext \<Rightarrow> ScimUserX509Certificate list \<Rightarrow> ScimUserX509Certificate list" where
  "DeduplicateX509Certificates L = deduplicate (exactKey L) PrimaryFlag setPrimary"

definition DeduplicateAddresses :: "ext \<Rightarrow> ScimUserAddress list \<Rightarrow> ScimUserAddress list" where
  "DeduplicateAddresses L = deduplicate (addressKey L) AddressPrimary setAddressPrimary"

lemmas Deduplicate_defs = DeduplicateEmails_def DeduplicatePhoneNumbers_def DeduplicateIms_def
  DeduplicatePhotos_def DeduplicateEntitlements_def DeduplicateRoles_def
  DeduplicateX509Certificates_def DeduplicateAddresses_def

section \<open>Builders\<close>

text \<open>What a builder and a setter do with the value and the type of an entry.\<close>

definition emailValue :: "ext \<Rightarrow> json \<Rightarrow> string res" where
  "emailValue L v = rbind (parseStrictString L v ''emails.value'') (\<lambda>s. Inr (CanonicalizeEmail L s))"

definition emailType :: "ext \<Rightarrow> json \<Rightarrow> string res" where
  "emailType L v = rbind (parseStrictString L v ''emails.type'') (\<lambda>s.
     Inr (let ct = normalizeCanonical L (TrimSpace s) emailTypes in if ct = [] then ''work'' else ct))"

definition phoneValue :: "ext \<Rightarrow> json \<Rightarrow> string res" where
  "phoneValue L v = rbind (parseStrictString L v ''phoneNumbers.value'') (\<lambda>s. Inr (CanonicalizePhoneNumber L s))"

definition imValue :: "ext \<Rightarrow> json \<Rightarrow> string res" where
  "imValue L v = rbind (parseStrictString L v ''ims.value'') (\<lambda>s. Inr (CanonicalizeIM L s))"

definition photoValue :: "ext \<Rightarrow> json \<Rightarrow> string res" where
  "photoValue L v = rbind (parseStrictString L v ''photos.value'') (\<lambda>s.
     if s \<noteq> [] then rbind (validateReference L s) (\<lambda>_. Inr s) else Inr s)"

definition labelType :: "ext \<Rightarrow> string \<Rightarrow> string list \<Rightarrow> json \<Rightarrow> string res" where
  "labelType L name types v = rbind (parseStrictString L v (name @ ''.type'')) (\<lambda>s.
     Inr (normalizeCanonical L s types))"

definition rawCertificate :: "json \<Rightarrow> string res" where
  "rawCertificate v = rbind (parseRawStringPtr v ''x509Certificates.value'') (\<lambda>p.
     Inr (case p of None \<Rightarrow> [] | Some s \<Rightarrow> s))"

definition certificateValue :: "ext \<Rightarrow> json \<Rightarrow> string res" where
  "certificateValue L v = rbind (rawCertificate v) (\<lambda>s.
     rbind (ValidateX509CertificateValue L s) (\<lambda>_. Inr s))"

text \<open>The readers run in the order value, type, display, primary.\<close>

definition buildEntry :: "ext \<Rightarrow> string \<Rightarrow> string res \<Rightarrow> string res \<Rightarrow> json_object \<Rightarrow> multi_value res" where
  "buildEntry L name value typ m =
     rbind value (\<lambda>v. rbind typ (\<lambda>t.
     rbind (parseStrictString L (jget m ''display'') (name @ ''.display'')) (\<lambda>d.
     rbind (parseStrictOptionalBool (jget m ''primary'') (name @ ''.primary'')) (\<lambda>p.
       Inr \<lparr>Value = v, Type = t, Display = d, PrimaryFlag = p\<rparr>))))"

definition buildEmail :: "ext \<Rightarrow> json_object \<Rightarrow> ScimUserEmail res" where
  "buildEmail L m = buildEntry L ''emails'' (emailValue L (jget m ''value'')) (emailType L (jget m ''type'')) m"

definition buildPhoneNumber :: "ext \<Rightarrow> json_object \<Rightarrow> ScimUserPhoneNumber res" where
  "buildPhoneNumber L m = buildEntry L ''phoneNumbers'' (phoneValue L (jget m ''value''))
     (labelType L ''phoneNumbers'' phoneTypes (jget m ''type'')) m"

definition buildIm :: "ext \<Rightarrow> json_object \<Rightarrow> ScimUserIm res" where
  "buildIm L m = buildEntry L ''ims'' (imValue L (jget m ''value''))
     (labelType L ''ims'' imTypes (jget m ''type'')) m"

definition buildPhoto :: "ext \<Rightarrow> json_object \<Rightarrow> ScimUserPhoto res" where
  "buildPhoto L m = buildEntry L ''photos'' (photoValue L (jget m ''value''))
     (labelType L ''photos'' photoTypes (jget m ''type'')) m"

definition buildEntitlement :: "ext \<Rightarrow> json_object \<Rightarrow> ScimUserEntitlement res" where
  "buildEntitlement L m = buildEntry L ''entitlements''
     (parseStrictString L (jget m ''value'') ''entitlements.value'')
     (parseStrictString L (jget m ''type'') ''entitlements.type'') m"

definition buildRole :: "ext \<Rightarrow> json_object \<Rightarrow> ScimUserRole res" where
  "buildRole L m = buildEntry L ''roles'' (parseStrictString L (jget m ''value'') ''roles.value'')
     (parseStrictString L (jget m ''type'') ''roles.type'') m"

text \<open>A certificate entry without a \<^verbatim>\<open>value\<close> key is built with an empty value, unchecked.\<close>

definition buildX509Certificate :: "ext \<Rightarrow> json_object \<Rightarrow> ScimUserX509Certificate res" where
  "buildX509Certificate L m = buildEntry L ''x509Certificates''
     (rbind (rawCertificate (jget m ''value'')) (\<lambda>s.
        if map_of m ''value'' \<noteq> None \<or> s \<noteq> [] then certificateValue L (jget m ''value'') else Inr s))
     (parseStrictString L (jget m ''type'') ''x509Certificates.type'') m"

definition buildAddress :: "ext \<Rightarrow> json_object \<Rightarrow> ScimUserAddress res" where
  "buildAddress L m =
     rbind (parseStrictString L (jget m ''formatted'') ''addresses.formatted'') (\<lambda>formatted.
     rbind (parseStrictString L (jget m ''streetAddress'') ''addresses.streetAddress'') (\<lambda>street.
     rbind (parseStrictString L (jget m ''locality'') ''addresses.locality'') (\<lambda>locality.
     rbind (parseStrictString L (jget m ''region'') ''addresses.region'') (\<lambda>region.
     rbind (parseStrictString L (jget m ''postalCode'') ''addresses.postalCode'') (\<lambda>postal.
     rbind (parseStrictString L (jget m ''country'') ''addresses.country'') (\<lambda>country.
     rbind (parseStrictString L (jget m ''type'') ''addresses.type'') (\<lambda>rawType.
     rbind (parseStrictOptionalBool (jget m ''primary'') ''addresses.primary'') (\<lambda>prim.
       Inr \<lparr>Formatted = formatted, StreetAddress = street, Locality = locality, Region = region,
            PostalCode = postal, Country = normalizeCountry L country,
            AddressType = normalizeCanonical L rawType addressTypes, AddressPrimary = prim\<rparr>))))))))"

lemmas build_defs = buildEmail_def buildPhoneNumber_def buildIm_def buildPhoto_def
  buildEntitlement_def buildRole_def buildX509Certificate_def

lemma buildEntry_prim: "buildEntry L name v t m = Inr e \<Longrightarrow> PrimaryFlag e \<longleftrightarrow> jget m ''primary'' = JBool True"
  by (auto simp: buildEntry_def rbind_eq_Inr parseStrictOptionalBool_Inr)

lemma buildAddress_prim: "buildAddress L m = Inr a \<Longrightarrow> AddressPrimary a \<longleftrightarrow> jget m ''primary'' = JBool True"
  by (auto simp: buildAddress_def rbind_eq_Inr parseStrictOptionalBool_Inr)

end
