(* ===== verification/Collections.thy ===== *)
theory Collections
  imports User
begin

text \<open>
  The multi-valued attributes of a user, second part: sub-attribute setters, the filters of
  PATCH paths, whole-attribute replacement (PUT) and conversion to JSON, and the
  interpretation of the locales of \<open>MultiValue\<close> for all eight attributes.
\<close>

section \<open>Sub-attribute setters\<close>

text \<open>An empty sub-attribute stands for the whole entry: each key of the object is set in turn,
  by the same function. \<open>leaf\<close> is the \<^verbatim>\<open>switch\<close> over the lower-case sub-attribute.\<close>

fun setSub :: "('a \<Rightarrow> string \<Rightarrow> json \<Rightarrow> 'a res) \<Rightarrow> string \<Rightarrow> 'a \<Rightarrow> string \<Rightarrow> json \<Rightarrow> 'a res" where
  "setSub leaf name x sub v =
     (if sub = [] then
        (case v of
           JObj kvs \<Rightarrow> rfold (\<lambda>y (k, w). setSub leaf name y k w) x kvs
         | _ \<Rightarrow> invalidValue (''Expected object value for '' @ name @ '' item''))
      else leaf x sub v)"

declare setSub.simps [simp del]

definition entryLeaf :: "ext \<Rightarrow> string \<Rightarrow> (json \<Rightarrow> string res) \<Rightarrow> (json \<Rightarrow> string res)
    \<Rightarrow> multi_value \<Rightarrow> string \<Rightarrow> json \<Rightarrow> multi_value res" where
  "entryLeaf L name readValue readType e sub v =
     (let s = ToLower L sub in
      if s = ''value'' then rbind (readValue v) (\<lambda>t. Inr (e\<lparr>Value := t\<rparr>))
      else if s = ''type'' then rbind (readType v) (\<lambda>t. Inr (e\<lparr>Type := t\<rparr>))
      else if s = ''display'' then
        rbind (parseStrictString L v (name @ ''.display'')) (\<lambda>t. Inr (e\<lparr>Display := t\<rparr>))
      else if s = ''primary'' then
        rbind (parseStrictBool v (name @ ''.primary'')) (\<lambda>b. Inr (setPrimary b e))
      else invalidPath (''Unknown '' @ name @ '' sub-attribute: '' @ sub))"

definition setEmailSubAttribute :: "ext \<Rightarrow> ScimUserEmail \<Rightarrow> string \<Rightarrow> json \<Rightarrow> ScimUserEmail res" where
  "setEmailSubAttribute L = setSub (entryLeaf L ''emails'' (emailValue L) (emailType L)) ''emails''"

definition setPhoneSubAttribute :: "ext \<Rightarrow> ScimUserPhoneNumber \<Rightarrow> string \<Rightarrow> json \<Rightarrow> ScimUserPhoneNumber res" where
  "setPhoneSubAttribute L = setSub (entryLeaf L ''phoneNumbers'' (phoneValue L)
     (labelType L ''phoneNumbers'' phoneTypes)) ''phoneNumbers''"

definition setImSubAttribute :: "ext \<Rightarrow> ScimUserIm \<Rightarrow> string \<Rightarrow> json \<Rightarrow> ScimUserIm res" where
  "setImSubAttribute L = setSub (entryLeaf L ''ims'' (imValue L) (labelType L ''ims'' imTypes)) ''ims''"

definition setPhotoSubAttribute :: "ext \<Rightarrow> ScimUserPhoto \<Rightarrow> string \<Rightarrow> json \<Rightarrow> ScimUserPhoto res" where
  "setPhotoSubAttribute L = setSub (entryLeaf L ''photos'' (photoValue L)
     (labelType L ''photos'' photoTypes)) ''photos''"

definition setEntitlementSubAttribute :: "ext \<Rightarrow> ScimUserEntitlement \<Rightarrow> string \<Rightarrow> json \<Rightarrow> ScimUserEntitlement res" where
  "setEntitlementSubAttribute L = setSub (entryLeaf L ''entitlements''
     (\<lambda>v. parseStrictString L v ''entitlements.value'')
     (\<lambda>v. parseStrictString L v ''entitlements.type'')) ''entitlements''"

definition setRoleSubAttribute :: "ext \<Rightarrow> ScimUserRole \<Rightarrow> string \<Rightarrow> json \<Rightarrow> ScimUserRole res" where
  "setRoleSubAttribute L = setSub (entryLeaf L ''roles''
     (\<lambda>v. parseStrictString L v ''roles.value'') (\<lambda>v. parseStrictString L v ''roles.type'')) ''roles''"

definition setCertSubAttribute :: "ext \<Rightarrow> ScimUserX509Certificate \<Rightarrow> string \<Rightarrow> json \<Rightarrow> ScimUserX509Certificate res" where
  "setCertSubAttribute L = setSub (entryLeaf L ''x509Certificates'' (certificateValue L)
     (\<lambda>v. parseStrictString L v ''x509Certificates.type'')) ''x509Certificates''"

definition addressLeaf :: "ext \<Rightarrow> ScimUserAddress \<Rightarrow> string \<Rightarrow> json \<Rightarrow> ScimUserAddress res" where
  "addressLeaf L a sub v =
     (let s = ToLower L sub in
      if s = ''formatted'' then
        rbind (parseStrictString L v ''addresses.formatted'') (\<lambda>t. Inr (a\<lparr>Formatted := t\<rparr>))
      else if s = ''streetaddress'' then
        rbind (parseStrictString L v ''addresses.streetAddress'') (\<lambda>t. Inr (a\<lparr>StreetAddress := t\<rparr>))
      else if s = ''locality'' then
        rbind (parseStrictString L v ''addresses.locality'') (\<lambda>t. Inr (a\<lparr>Locality := t\<rparr>))
      else if s = ''region'' then
        rbind (parseStrictString L v ''addresses.region'') (\<lambda>t. Inr (a\<lparr>Region := t\<rparr>))
      else if s = ''postalcode'' then
        rbind (parseStrictString L v ''addresses.postalCode'') (\<lambda>t. Inr (a\<lparr>PostalCode := t\<rparr>))
      else if s = ''country'' then
        rbind (parseStrictString L v ''addresses.country'') (\<lambda>t. Inr (a\<lparr>Country := normalizeCountry L t\<rparr>))
      else if s = ''type'' then
        rbind (parseStrictString L v ''addresses.type'') (\<lambda>t.
          Inr (a\<lparr>AddressType := normalizeCanonical L t addressTypes\<rparr>))
      else if s = ''primary'' then
        rbind (parseStrictBool v ''addresses.primary'') (\<lambda>b. Inr (setAddressPrimary b a))
      else invalidPath (''Unknown addresses sub-attribute: '' @ sub))"

definition setAddressSubAttribute :: "ext \<Rightarrow> ScimUserAddress \<Rightarrow> string \<Rightarrow> json \<Rightarrow> ScimUserAddress res" where
  "setAddressSubAttribute L = setSub (addressLeaf L) ''addresses''"

lemmas setSub_defs = setEmailSubAttribute_def setPhoneSubAttribute_def setImSubAttribute_def
  setPhotoSubAttribute_def setEntitlementSubAttribute_def setRoleSubAttribute_def
  setCertSubAttribute_def setAddressSubAttribute_def

section \<open>Filters of PATCH paths\<close>

text \<open>
  \<^verbatim>\<open>(?i)(\w+)\s+eq\s+"([^"]*)"\<close>, searched from the left. Under \<^verbatim>\<open>(?i)\<close> the class \<^verbatim>\<open>\w\<close> also has
  the runes that fold to \<^verbatim>\<open>s\<close> and \<^verbatim>\<open>k\<close>, U+017F and U+212A. The parts of the expression start
  with disjoint classes, so every repetition takes the longest run.
\<close>

definition isWord :: "char \<Rightarrow> bool" where
  "isWord c \<longleftrightarrow> is_digit c \<or> is_upper c \<or> is_lower c \<or> c = CHR ''_''"

definition wordLen :: "string \<Rightarrow> nat" where
  "wordLen s =
     (if s \<noteq> [] \<and> isWord (hd s) then 1
      else if prefix [CHR 0xC5, CHR 0xBF] s then 2
      else if prefix [CHR 0xE2, CHR 0x84, CHR 0xAA] s then 3 else 0)"

function wordRun :: "string \<Rightarrow> string \<times> string" where
  "wordRun s =
     (if wordLen s = 0 then ([], s)
      else (let (w, rest) = wordRun (drop (wordLen s) s) in (take (wordLen s) s @ w, rest)))"
  by pat_completeness auto
termination
  by (relation "measure length") (auto simp: wordLen_def prefix_def split: if_splits)

declare wordRun.simps [simp del]

definition eqMatchAt :: "string \<Rightarrow> (string \<times> string) option" where
  "eqMatchAt s =
     (let (w, r1) = wordRun s; r2 = dropWhile regex_space r1 in
      if w = [] \<or> r2 = r1 \<or> length r2 < 2 \<or> map ascii_lower (take 2 r2) \<noteq> ''eq'' then None
      else
       (let r3 = drop 2 r2; r4 = dropWhile regex_space r3 in
        if r4 = r3 \<or> r4 = [] \<or> hd r4 \<noteq> dquote then None
        else
         (let body = takeWhile (\<lambda>c. c \<noteq> dquote) (tl r4) in
          if length body = length (tl r4) then None else Some (w, body))))"

fun eqSearch :: "string \<Rightarrow> (string \<times> string) option" where
  "eqSearch [] = None"
| "eqSearch (c # cs) = (case eqMatchAt (c # cs) of None \<Rightarrow> eqSearch cs | Some m \<Rightarrow> Some m)"

record filterClause =
  fc_attr :: string
  fc_value :: string

definition parseEqFilter :: "ext \<Rightarrow> string \<Rightarrow> filterClause option" where
  "parseEqFilter L expr = map_option (\<lambda>(a, v). \<lparr>fc_attr = ToLower L a, fc_value = NormalizeNFC L v\<rparr>)
     (eqSearch expr)"

definition show_bool :: "bool \<Rightarrow> string" where
  "show_bool b = (if b then ''true'' else ''false'')"

definition matchesGenericFilter :: "ext \<Rightarrow> string \<Rightarrow> string \<Rightarrow> string \<Rightarrow> string \<Rightarrow> bool \<Rightarrow> bool" where
  "matchesGenericFilter L filterExpr value typ display primary =
     (case parseEqFilter L filterExpr of
        None \<Rightarrow> False
      | Some fc \<Rightarrow>
          if fc_attr fc = ''value'' then EqualFold L value (fc_value fc)
          else if fc_attr fc = ''type'' then EqualFold L typ (fc_value fc)
          else if fc_attr fc = ''display'' then EqualFold L display (fc_value fc)
          else if fc_attr fc = ''primary'' then EqualFold L (show_bool primary) (fc_value fc)
          else False)"

definition matchesEntry :: "ext \<Rightarrow> string \<Rightarrow> multi_value \<Rightarrow> bool" where
  "matchesEntry L flt e = matchesGenericFilter L flt (Value e) (Type e) (Display e) (PrimaryFlag e)"

definition matchesEmailFilter :: "ext \<Rightarrow> string \<Rightarrow> ScimUserEmail \<Rightarrow> bool" where
  "matchesEmailFilter L flt e = matchesEntry L flt e"

definition matchesPhoneFilter :: "ext \<Rightarrow> string \<Rightarrow> ScimUserPhoneNumber \<Rightarrow> bool" where
  "matchesPhoneFilter L flt e = matchesEntry L flt e"

definition matchesImFilter :: "ext \<Rightarrow> string \<Rightarrow> ScimUserIm \<Rightarrow> bool" where
  "matchesImFilter L flt e = matchesEntry L flt e"

definition matchesPhotoFilter :: "ext \<Rightarrow> string \<Rightarrow> ScimUserPhoto \<Rightarrow> bool" where
  "matchesPhotoFilter L flt e = matchesEntry L flt e"

definition matchesEntitlementFilter :: "ext \<Rightarrow> string \<Rightarrow> ScimUserEntitlement \<Rightarrow> bool" where
  "matchesEntitlementFilter L flt e = matchesEntry L flt e"

definition matchesRoleFilter :: "ext \<Rightarrow> string \<Rightarrow> ScimUserRole \<Rightarrow> bool" where
  "matchesRoleFilter L flt e = matchesEntry L flt e"

definition matchesCertFilter :: "ext \<Rightarrow> string \<Rightarrow> ScimUserX509Certificate \<Rightarrow> bool" where
  "matchesCertFilter L flt e = matchesEntry L flt e"

definition matchesAddressFilter :: "ext \<Rightarrow> string \<Rightarrow> ScimUserAddress \<Rightarrow> bool" where
  "matchesAddressFilter L flt a =
     (case parseEqFilter L flt of
        None \<Rightarrow> False
      | Some fc \<Rightarrow>
          if fc_attr fc = ''type'' then EqualFold L (AddressType a) (fc_value fc)
          else if fc_attr fc = ''formatted'' then EqualFold L (Formatted a) (fc_value fc)
          else if fc_attr fc = ''streetaddress'' then EqualFold L (StreetAddress a) (fc_value fc)
          else if fc_attr fc = ''locality'' then EqualFold L (Locality a) (fc_value fc)
          else if fc_attr fc = ''region'' then EqualFold L (Region a) (fc_value fc)
          else if fc_attr fc = ''postalcode'' then EqualFold L (PostalCode a) (fc_value fc)
          else if fc_attr fc = ''country'' then EqualFold L (Country a) (fc_value fc)
          else if fc_attr fc = ''primary'' then EqualFold L (show_bool (AddressPrimary a)) (fc_value fc)
          else False)"

section \<open>Replacing a whole attribute\<close>

definition replaceCollectionEmails :: "ext \<Rightarrow> json \<Rightarrow> ScimUserEmail list res" where
  "replaceCollectionEmails L v = replaceItems (DeduplicateEmails L) (buildEmail L) ''emails'' v"

definition replaceCollectionPhoneNumbers :: "ext \<Rightarrow> json \<Rightarrow> ScimUserPhoneNumber list res" where
  "replaceCollectionPhoneNumbers L v =
     replaceItems (DeduplicatePhoneNumbers L) (buildPhoneNumber L) ''phoneNumbers'' v"

definition replaceCollectionAddresses :: "ext \<Rightarrow> json \<Rightarrow> ScimUserAddress list res" where
  "replaceCollectionAddresses L v =
     replaceItems (DeduplicateAddresses L) (buildAddress L) ''addresses'' v"

definition replaceCollectionIms :: "ext \<Rightarrow> json \<Rightarrow> ScimUserIm list res" where
  "replaceCollectionIms L v = replaceItems (DeduplicateIms L) (buildIm L) ''ims'' v"

definition replaceCollectionPhotos :: "ext \<Rightarrow> json \<Rightarrow> ScimUserPhoto list res" where
  "replaceCollectionPhotos L v = replaceItems (DeduplicatePhotos L) (buildPhoto L) ''photos'' v"

definition replaceCollectionEntitlements :: "ext \<Rightarrow> json \<Rightarrow> ScimUserEntitlement list res" where
  "replaceCollectionEntitlements L v =
     replaceItems (DeduplicateEntitlements L) (buildEntitlement L) ''entitlements'' v"

definition replaceCollectionRoles :: "ext \<Rightarrow> json \<Rightarrow> ScimUserRole list res" where
  "replaceCollectionRoles L v = replaceItems (DeduplicateRoles L) (buildRole L) ''roles'' v"

definition replaceCollectionX509Certificates :: "ext \<Rightarrow> json \<Rightarrow> ScimUserX509Certificate list res" where
  "replaceCollectionX509Certificates L v =
     replaceItems (DeduplicateX509Certificates L) (buildX509Certificate L) ''x509Certificates'' v"

lemmas replaceCollection_defs = replaceCollectionEmails_def replaceCollectionPhoneNumbers_def
  replaceCollectionAddresses_def replaceCollectionIms_def replaceCollectionPhotos_def
  replaceCollectionEntitlements_def replaceCollectionRoles_def replaceCollectionX509Certificates_def

section \<open>Conversion to JSON\<close>

definition textField :: "string \<Rightarrow> string \<Rightarrow> json_object" where
  "textField k s = (if s \<noteq> [] then [(k, JStr s)] else [])"

definition entryToMap :: "multi_value \<Rightarrow> json_object" where
  "entryToMap e = textField ''value'' (Value e) @ textField ''type'' (Type e)
     @ textField ''display'' (Display e) @ [(''primary'', JBool (PrimaryFlag e))]"

definition addressToMap :: "ScimUserAddress \<Rightarrow> json_object" where
  "addressToMap a = textField ''formatted'' (Formatted a) @ textField ''streetAddress'' (StreetAddress a)
     @ textField ''locality'' (Locality a) @ textField ''region'' (Region a)
     @ textField ''postalCode'' (PostalCode a) @ textField ''country'' (Country a)
     @ textField ''type'' (AddressType a) @ [(''primary'', JBool (AddressPrimary a))]"

definition emailsToMaps :: "ScimUserEmail list \<Rightarrow> json_object list" where
  "emailsToMaps = map entryToMap"

definition phoneNumbersToMaps :: "ScimUserPhoneNumber list \<Rightarrow> json_object list" where
  "phoneNumbersToMaps = map entryToMap"

definition imsToMaps :: "ScimUserIm list \<Rightarrow> json_object list" where
  "imsToMaps = map entryToMap"

definition photosToMaps :: "ScimUserPhoto list \<Rightarrow> json_object list" where
  "photosToMaps = map entryToMap"

definition addressesToMaps :: "ScimUserAddress list \<Rightarrow> json_object list" where
  "addressesToMaps = map addressToMap"

definition entitlementsToMaps :: "ScimUserEntitlement list \<Rightarrow> json_object list" where
  "entitlementsToMaps = map entryToMap"

definition rolesToMaps :: "ScimUserRole list \<Rightarrow> json_object list" where
  "rolesToMaps = map entryToMap"

definition x509CertificatesToMaps :: "ScimUserX509Certificate list \<Rightarrow> json_object list" where
  "x509CertificatesToMaps = map entryToMap"

lemmas toMaps_defs = emailsToMaps_def phoneNumbersToMaps_def imsToMaps_def photosToMaps_def
  addressesToMaps_def entitlementsToMaps_def rolesToMaps_def x509CertificatesToMaps_def

section \<open>The eight attributes\<close>

lemma primary_laws [simp]:
  "PrimaryFlag (setPrimary b e) = b" "setPrimary (PrimaryFlag e) e = e"
  "setPrimary b (setPrimary c e) = setPrimary b e" "valueKey L (setPrimary b e) = valueKey L e"
  "exactKey L (setPrimary b e) = exactKey L e"
  by (simp_all add: setPrimary_def valueKey_def exactKey_def)

lemma address_primary_laws [simp]:
  "AddressPrimary (setAddressPrimary b a) = b" "setAddressPrimary (AddressPrimary a) a = a"
  "setAddressPrimary b (setAddressPrimary c a) = setAddressPrimary b a"
  "addressKey L (setAddressPrimary b a) = addressKey L a"
  by (simp_all add: setAddressPrimary_def addressKey_def)

interpretation emails: collection "valueKey L" PrimaryFlag setPrimary "buildEmail L" for L
  by unfold_locales (auto simp: buildEmail_def dest: buildEntry_prim)

interpretation phoneNumbers: collection "valueKey L" PrimaryFlag setPrimary "buildPhoneNumber L" for L
  by unfold_locales (auto simp: buildPhoneNumber_def dest: buildEntry_prim)

interpretation addresses: collection "addressKey L" AddressPrimary setAddressPrimary "buildAddress L" for L
  by unfold_locales (auto dest: buildAddress_prim)

interpretation ims: collection "valueKey L" PrimaryFlag setPrimary "buildIm L" for L
  by unfold_locales (auto simp: buildIm_def dest: buildEntry_prim)

interpretation photos: collection "exactKey L" PrimaryFlag setPrimary "buildPhoto L" for L
  by unfold_locales (auto simp: buildPhoto_def dest: buildEntry_prim)

interpretation entitlements: collection "valueKey L" PrimaryFlag setPrimary "buildEntitlement L" for L
  by unfold_locales (auto simp: buildEntitlement_def dest: buildEntry_prim)

interpretation roles: collection "valueKey L" PrimaryFlag setPrimary "buildRole L" for L
  by unfold_locales (auto simp: buildRole_def dest: buildEntry_prim)

interpretation x509Certificates: collection "exactKey L" PrimaryFlag setPrimary "buildX509Certificate L" for L
  by unfold_locales (auto simp: buildX509Certificate_def dest: buildEntry_prim)

end
