(* ===== verification/Patch.thy ===== *)
theory Patch
  imports Collections FilterBuild
begin

text \<open>
  \<^verbatim>\<open>internal/scim/patch.go\<close>: PATCH operations on a user (RFC 7644 section 3.5.2). A function
  that changes the user in place and may fail returns the changed user or the error; the
  callers drop the user on an error. Values are decoded JSON, objects are lists of entries in
  the order in which the loops visit them.
\<close>

section \<open>Paths\<close>

definition readOnlyAttrs :: "string list" where
  "readOnlyAttrs = [''id'', ''meta'', ''meta.created'', ''meta.lastmodified'', ''meta.location'',
     ''meta.resourcetype'', ''meta.version'', ''groups'', ''manager.displayname'']"

definition multiValuedAttrs :: "string list" where
  "multiValuedAttrs = [''emails'', ''phonenumbers'', ''addresses'', ''ims'', ''photos'',
     ''entitlements'', ''roles'', ''x509certificates'']"

definition enterpriseSchemaURN :: string where
  "enterpriseSchemaURN = ''urn:ietf:params:scim:schemas:extension:enterprise:2.0:User''"

definition coreUserPrefix :: string where
  "coreUserPrefix = ''urn:ietf:params:scim:schemas:core:2.0:User:''"

text \<open>\<^verbatim>\<open>^(\w+)\[(.+)\](?:\.(\w+))?$\<close>: a collection, a filter in brackets, a sub-attribute. The
  filter extends to the last closing bracket, since nothing after it may contain one.\<close>

definition filteredPath :: "string \<Rightarrow> (string \<times> string \<times> string) option" where
  "filteredPath path =
     (let coll = takeWhile isWord path; rest = dropWhile isWord path in
      if coll = [] \<or> rest = [] \<or> hd rest \<noteq> CHR ''['' then None
      else (case LastIndexByte (tl rest) CHR '']'' of
          None \<Rightarrow> None
        | Some i \<Rightarrow>
            let body = take i (tl rest); after = drop (i + 1) (tl rest) in
            if body = [] \<or> CHR 0x0A \<in> set body then None
            else if after = [] then Some (coll, body, [])
            else if hd after = CHR ''.'' \<and> tl after \<noteq> [] \<and> list_all isWord (tl after)
              then Some (coll, body, tl after)
            else None))"

definition stripPatchURNPrefix :: "ext \<Rightarrow> string \<Rightarrow> string" where
  "stripPatchURNPrefix L path =
     (if path = [] then path
      else if HasPrefix (ToLower L path) (ToLower L coreUserPrefix) then drop (length coreUserPrefix) path
      else if HasPrefix (ToLower L path) (ToLower L (enterpriseSchemaURN @ '':''))
        then drop (length (enterpriseSchemaURN @ '':'')) path
      else if EqualFold L path enterpriseSchemaURN then enterpriseSchemaURN
      else path)"

definition isEnterpriseAttr :: "ext \<Rightarrow> string \<Rightarrow> bool" where
  "isEnterpriseAttr L path \<longleftrightarrow>
     (let lower = ToLower L path in
      lower \<in> set [''employeenumber'', ''costcenter'', ''organization'', ''division'', ''department'', ''manager'']
      \<or> HasPrefix lower ''manager.'')"

text \<open>The condition under which a path goes to the enterprise extension.\<close>

definition toEnterprise :: "ext \<Rightarrow> string \<Rightarrow> bool" where
  "toEnterprise L path \<longleftrightarrow> EqualFold L path enterpriseSchemaURN
     \<or> HasPrefix (ToLower L path) (ToLower L enterpriseSchemaURN @ '':'') \<or> isEnterpriseAttr L path"

section \<open>Single-valued attributes\<close>

abbreviation setText :: "ext \<Rightarrow> json \<Rightarrow> string \<Rightarrow> (string option \<Rightarrow> ScimUser) \<Rightarrow> ScimUser res" where
  "setText L v name f \<equiv> rbind (parseStrictStringPtr L v name) (\<lambda>s. Inr (f s))"

definition readOnlyError :: "string \<Rightarrow> 'a res" where
  "readOnlyError path = mutability (''Attribute '' @ quoted path @ '' is read-only'')"

definition setUserName :: "ext \<Rightarrow> ScimUser \<Rightarrow> json \<Rightarrow> ScimUser res" where
  "setUserName L user value =
     rbind (parseStrictStringPtr L value ''userName'') (\<lambda>s.
       case s of
         None \<Rightarrow> invalidValue ''userName cannot be null''
       | Some t \<Rightarrow> if t = [] then invalidValue ''userName is required'' else Inr (user\<lparr>UserName := t\<rparr>))"

definition setProfileUrl :: "ext \<Rightarrow> ScimUser \<Rightarrow> json \<Rightarrow> ScimUser res" where
  "setProfileUrl L user value =
     rbind (parseStrictStringPtr L value ''profileUrl'') (\<lambda>s.
       rbind (case s of None \<Rightarrow> Inr () | Some t \<Rightarrow> if t = [] then Inr () else validateReference L t)
         (\<lambda>_. Inr (user\<lparr>ProfileUrl := s\<rparr>)))"

text \<open>A password that matches the stored hash is left alone, any other one is hashed.\<close>

definition setPassword :: "ext \<Rightarrow> ScimUser \<Rightarrow> json \<Rightarrow> ScimUser res" where
  "setPassword L user value =
     rbind (parseRawStringPtr value ''password'') (\<lambda>rawPw.
       if (case (Password user, rawPw) of
             (Some h, Some pw) \<Rightarrow> pw \<noteq> [] \<and> bcrypt_compare L h pw | _ \<Rightarrow> False)
       then Inr user
       else rbind (HashPassword L rawPw) (\<lambda>pw. Inr (user\<lparr>Password := pw\<rparr>)))"

definition setSingleAttribute :: "ext \<Rightarrow> ScimUser \<Rightarrow> string \<Rightarrow> json \<Rightarrow> ScimUser res" where
  "setSingleAttribute L user path value =
     (let lower = ToLower L path in
      if lower \<in> set readOnlyAttrs \<or> HasPrefix lower ''meta.'' then readOnlyError path
      else if lower = ''username'' then setUserName L user value
      else if lower = ''externalid'' then setText L value ''externalId'' (\<lambda>s. user\<lparr>ExternalID := s\<rparr>)
      else if lower = ''displayname'' then setText L value ''displayName'' (\<lambda>s. user\<lparr>DisplayName := s\<rparr>)
      else if lower = ''nickname'' then setText L value ''nickName'' (\<lambda>s. user\<lparr>NickName := s\<rparr>)
      else if lower = ''profileurl'' then setProfileUrl L user value
      else if lower = ''title'' then setText L value ''title'' (\<lambda>s. user\<lparr>Title := s\<rparr>)
      else if lower = ''usertype'' then setText L value ''userType'' (\<lambda>s. user\<lparr>UserType := s\<rparr>)
      else if lower = ''preferredlanguage'' then
        setText L value ''preferredLanguage'' (\<lambda>s. user\<lparr>PreferredLanguage := s\<rparr>)
      else if lower = ''locale'' then setText L value ''locale'' (\<lambda>s. user\<lparr>Locale := s\<rparr>)
      else if lower = ''timezone'' then setText L value ''timezone'' (\<lambda>s. user\<lparr>Timezone := s\<rparr>)
      else if lower = ''active'' then
        rbind (parseStrictBool value ''active'') (\<lambda>b. Inr (user\<lparr>Active := b\<rparr>))
      else if lower = ''password'' then setPassword L user value
      else invalidPath (''Unknown attribute: '' @ path))"

section \<open>Names\<close>

text \<open>The \<^verbatim>\<open>switch\<close> that \<^verbatim>\<open>setSubAttribute\<close> and \<^verbatim>\<open>setNameAttribute\<close> share.\<close>

definition setNamePart :: "ext \<Rightarrow> ScimUser \<Rightarrow> string \<Rightarrow> string option \<Rightarrow> ScimUser res" where
  "setNamePart L user sub s =
     (let lower = ToLower L sub in
      if lower = ''formatted'' then Inr (user\<lparr>NameFormatted := s\<rparr>)
      else if lower = ''familyname'' then Inr (user\<lparr>NameFamilyName := s\<rparr>)
      else if lower = ''givenname'' then Inr (user\<lparr>NameGivenName := s\<rparr>)
      else if lower = ''middlename'' then Inr (user\<lparr>NameMiddleName := s\<rparr>)
      else if lower = ''honorificprefix'' then Inr (user\<lparr>NameHonorificPrefix := s\<rparr>)
      else if lower = ''honorificsuffix'' then Inr (user\<lparr>NameHonorificSuffix := s\<rparr>)
      else invalidPath (''Unknown name sub-attribute: '' @ sub))"

definition setSubAttribute :: "ext \<Rightarrow> ScimUser \<Rightarrow> string \<Rightarrow> json \<Rightarrow> ScimUser res" where
  "setSubAttribute L user path value =
     (case SplitN2 path CHR ''.'' of
        [p, sub] \<Rightarrow>
          if ToLower L p = ''meta'' then readOnlyError path
          else if ToLower L p \<noteq> ''name'' then invalidPath (''Unknown complex attribute: '' @ p)
          else rbind (parseStrictStringPtr L value path) (\<lambda>s. setNamePart L user sub s)
      | _ \<Rightarrow> invalidPath (''Invalid sub-attribute path: '' @ path))"

definition setNameAttribute :: "ext \<Rightarrow> ScimUser \<Rightarrow> json \<Rightarrow> ScimUser res" where
  "setNameAttribute L user value =
     (case value of
        JNull \<Rightarrow> Inr (user\<lparr>NameFormatted := None, NameFamilyName := None, NameGivenName := None,
                       NameMiddleName := None, NameHonorificPrefix := None, NameHonorificSuffix := None\<rparr>)
      | JObj m \<Rightarrow> rfold (\<lambda>u (subAttr, subVal).
          rbind (parseStrictStringPtr L subVal (''name.'' @ subAttr)) (\<lambda>s. setNamePart L u subAttr s)) user m
      | _ \<Rightarrow> invalidValue (''Attribute '' @ quoted ''name'' @ '' must be an object''))"

section \<open>Enterprise extension\<close>

definition clearManager :: "ScimUser \<Rightarrow> ScimUser" where
  "clearManager user = user\<lparr>EnterpriseManagerValue := None, EnterpriseManagerRef := None,
     EnterpriseManagerDisplay := None\<rparr>"

definition clearEnterprise :: "ScimUser \<Rightarrow> ScimUser" where
  "clearEnterprise user = clearManager (user\<lparr>EnterpriseEmployeeNumber := None,
     EnterpriseCostCenter := None, EnterpriseOrganization := None, EnterpriseDivision := None,
     EnterpriseDepartment := None\<rparr>)"

text \<open>The manager object: \<open>value\<close> is stored as given, then \<open>$ref\<close>; a reference with a UUID must
  agree with a given value and supplies a missing one. \<open>parsed\<close> is \<^verbatim>\<open>parsedVal\<close> if \<^verbatim>\<open>valProvided\<close>.\<close>

definition blank :: "string option \<Rightarrow> bool" where
  "blank s \<longleftrightarrow> (case s of None \<Rightarrow> True | Some t \<Rightarrow> TrimSpace t = [])"

definition managerRef :: "ext \<Rightarrow> ScimUser \<Rightarrow> string option option \<Rightarrow> json \<Rightarrow> ScimUser res" where
  "managerRef L user parsed ref =
     rbind (parseStrictStringPtr L ref ''manager.$ref'') (\<lambda>s.
       let u = user\<lparr>EnterpriseManagerRef := s\<rparr> in
       if blank s then Inr u
       else
        (let refUUID = ExtractUUIDFromRef L (the s) in
         if parsed \<noteq> None \<and> \<not> blank (the parsed) then
           (if refUUID \<noteq> [] \<and> \<not> EqualFold L refUUID (TrimSpace (the (the parsed))) then
              invalidValue ''manager.value and manager.$ref refer to different resource IDs''
            else Inr u)
         else if refUUID \<noteq> [] then Inr (u\<lparr>EnterpriseManagerValue := Some refUUID\<rparr>)
         else Inr u))"

definition managerObject :: "ext \<Rightarrow> ScimUser \<Rightarrow> json_object \<Rightarrow> ScimUser res" where
  "managerObject L user m =
     rbind (case map_of m ''value'' of
         None \<Rightarrow> Inr (user, None)
       | Some v \<Rightarrow> rbind (parseStrictStringPtr L v ''manager.value'') (\<lambda>s.
           Inr (user\<lparr>EnterpriseManagerValue := s\<rparr>, Some s))) (\<lambda>(u1, parsed).
     rbind (case map_of m ''$ref'' of None \<Rightarrow> Inr u1 | Some ref \<Rightarrow> managerRef L u1 parsed ref) (\<lambda>u2.
       Inr (u2\<lparr>EnterpriseManagerDisplay := None\<rparr>)))"

definition setEnterpriseManager :: "ext \<Rightarrow> ScimUser \<Rightarrow> json \<Rightarrow> ScimUser res" where
  "setEnterpriseManager L user value =
     (case value of
        JNull \<Rightarrow> Inr (clearManager user)
      | JStr s \<Rightarrow> Inr (user\<lparr>EnterpriseManagerValue := Some (NormalizeNFC L s), EnterpriseManagerDisplay := None\<rparr>)
      | JObj m \<Rightarrow> managerObject L user m
      | _ \<Rightarrow> invalidValue (''Attribute '' @ quoted ''manager'' @ '' must be an object or string''))"

definition setManagerRef :: "ext \<Rightarrow> ScimUser \<Rightarrow> json \<Rightarrow> ScimUser res" where
  "setManagerRef L user value =
     rbind (parseStrictStringPtr L value ''manager.$ref'') (\<lambda>s.
       let u = user\<lparr>EnterpriseManagerRef := s\<rparr> in
       if blank s \<or> ExtractUUIDFromRef L (the s) = [] then Inr u
       else Inr (u\<lparr>EnterpriseManagerValue := Some (ExtractUUIDFromRef L (the s)),
                  EnterpriseManagerDisplay := None\<rparr>))"

definition enterpriseLeaf :: "ext \<Rightarrow> ScimUser \<Rightarrow> string \<Rightarrow> json \<Rightarrow> ScimUser res" where
  "enterpriseLeaf L user attr value =
     (let a = ToLower L attr in
      if a = ''employeenumber'' then
        setText L value ''employeeNumber'' (\<lambda>s. user\<lparr>EnterpriseEmployeeNumber := s\<rparr>)
      else if a = ''costcenter'' then setText L value ''costCenter'' (\<lambda>s. user\<lparr>EnterpriseCostCenter := s\<rparr>)
      else if a = ''organization'' then setText L value ''organization'' (\<lambda>s. user\<lparr>EnterpriseOrganization := s\<rparr>)
      else if a = ''division'' then setText L value ''division'' (\<lambda>s. user\<lparr>EnterpriseDivision := s\<rparr>)
      else if a = ''department'' then setText L value ''department'' (\<lambda>s. user\<lparr>EnterpriseDepartment := s\<rparr>)
      else if a = ''manager'' then setEnterpriseManager L user value
      else if a = ''manager.value'' then setText L value ''manager.value''
        (\<lambda>s. user\<lparr>EnterpriseManagerValue := s, EnterpriseManagerDisplay := None\<rparr>)
      else if a = ''manager.$ref'' then setManagerRef L user value
      else if a = ''manager.displayname'' then
        mutability (''Attribute '' @ quoted ''manager.displayName'' @ '' is readOnly and cannot be modified'')
      else invalidPath (''Unknown enterprise attribute: '' @ attr))"

definition lowerEnt :: "ext \<Rightarrow> string" where
  "lowerEnt L = ToLower L enterpriseSchemaURN"

fun setEnterpriseAttribute :: "ext \<Rightarrow> ScimUser \<Rightarrow> string \<Rightarrow> json \<Rightarrow> ScimUser res"
and applyEnterpriseValueMap :: "ext \<Rightarrow> ScimUser \<Rightarrow> json \<Rightarrow> ScimUser res" where
  "setEnterpriseAttribute L user path value =
     (if HasPrefix (ToLower L path) (lowerEnt L @ '':'') then
        enterpriseLeaf L user (drop (length enterpriseSchemaURN + 1) path) value
      else if ToLower L path = lowerEnt L then applyEnterpriseValueMap L user value
      else enterpriseLeaf L user path value)"
| "applyEnterpriseValueMap L user value =
     (case value of
        JNull \<Rightarrow> Inr (clearEnterprise user)
      | JObj m \<Rightarrow> rfold (\<lambda>u (k, v). setEnterpriseAttribute L u k v) user m
      | _ \<Rightarrow> invalidValue ''Enterprise extension value must be an object'')"

declare setEnterpriseAttribute.simps [simp del] applyEnterpriseValueMap.simps [simp del]

definition clearEnterpriseAttribute :: "ext \<Rightarrow> ScimUser \<Rightarrow> string \<Rightarrow> ScimUser res" where
  "clearEnterpriseAttribute L user path =
     (if HasPrefix (ToLower L path) (lowerEnt L @ '':'') then
        setEnterpriseAttribute L user (drop (length enterpriseSchemaURN + 1) path) JNull
      else if ToLower L path = lowerEnt L then Inr (clearEnterprise user)
      else setEnterpriseAttribute L user path JNull)"

section \<open>Multi-valued attributes\<close>

text \<open>An attribute name that is none of the eight falls through the Go \<^verbatim>\<open>switch\<close>: no error.\<close>

definition addToMultiValued :: "ext \<Rightarrow> ScimUser \<Rightarrow> string \<Rightarrow> json \<Rightarrow> ScimUser res" where
  "addToMultiValued L user attr value =
     rbind (toItemList value) (\<lambda>items.
     rbind (ValidateSinglePrimary items) (\<lambda>_.
       if attr = ''emails'' then
         rbind (addItems PrimaryFlag setPrimary (buildEmail L) (Emails user) items) (\<lambda>us.
           Inr (user\<lparr>Emails := DeduplicateEmails L us\<rparr>))
       else if attr = ''phonenumbers'' then
         rbind (addItems PrimaryFlag setPrimary (buildPhoneNumber L) (PhoneNumbers user) items) (\<lambda>us.
           Inr (user\<lparr>PhoneNumbers := DeduplicatePhoneNumbers L us\<rparr>))
       else if attr = ''addresses'' then
         rbind (addItems AddressPrimary setAddressPrimary (buildAddress L) (Addresses user) items) (\<lambda>us.
           Inr (user\<lparr>Addresses := DeduplicateAddresses L us\<rparr>))
       else if attr = ''ims'' then
         rbind (addItems PrimaryFlag setPrimary (buildIm L) (Ims user) items) (\<lambda>us.
           Inr (user\<lparr>Ims := DeduplicateIms L us\<rparr>))
       else if attr = ''photos'' then
         rbind (addItems PrimaryFlag setPrimary (buildPhoto L) (Photos user) items) (\<lambda>us.
           Inr (user\<lparr>Photos := DeduplicatePhotos L us\<rparr>))
       else if attr = ''entitlements'' then
         rbind (addItems PrimaryFlag setPrimary (buildEntitlement L) (Entitlements user) items) (\<lambda>us.
           Inr (user\<lparr>Entitlements := DeduplicateEntitlements L us\<rparr>))
       else if attr = ''roles'' then
         rbind (addItems PrimaryFlag setPrimary (buildRole L) (Roles user) items) (\<lambda>us.
           Inr (user\<lparr>Roles := DeduplicateRoles L us\<rparr>))
       else if attr = ''x509certificates'' then
         rbind (addItems PrimaryFlag setPrimary (buildX509Certificate L) (X509Certificates user) items) (\<lambda>us.
           Inr (user\<lparr>X509Certificates := DeduplicateX509Certificates L us\<rparr>))
       else Inr user))"

definition clearAttribute :: "ext \<Rightarrow> ScimUser \<Rightarrow> string \<Rightarrow> ScimUser res" where
  "clearAttribute L user attr =
     (let a = ToLower L attr in
      if a = ''username'' then mutability (''Required attribute '' @ quoted ''userName'' @ '' cannot be removed'')
      else if a \<in> set [''id'', ''meta'', ''groups''] then
        mutability (''Attribute '' @ quoted attr @ '' is read-only and cannot be removed'')
      else if a = ''name'' then setNameAttribute L user JNull
      else if a = ''externalid'' then Inr (user\<lparr>ExternalID := None\<rparr>)
      else if a = ''displayname'' then Inr (user\<lparr>DisplayName := None\<rparr>)
      else if a = ''nickname'' then Inr (user\<lparr>NickName := None\<rparr>)
      else if a = ''profileurl'' then Inr (user\<lparr>ProfileUrl := None\<rparr>)
      else if a = ''title'' then Inr (user\<lparr>Title := None\<rparr>)
      else if a = ''usertype'' then Inr (user\<lparr>UserType := None\<rparr>)
      else if a = ''preferredlanguage'' then Inr (user\<lparr>PreferredLanguage := None\<rparr>)
      else if a = ''locale'' then Inr (user\<lparr>Locale := None\<rparr>)
      else if a = ''timezone'' then Inr (user\<lparr>Timezone := None\<rparr>)
      else if a = ''active'' then Inr (user\<lparr>Active := False\<rparr>)
      else if a = ''password'' then Inr (user\<lparr>Password := None\<rparr>)
      else if a = ''emails'' then Inr (user\<lparr>Emails := []\<rparr>)
      else if a = ''phonenumbers'' then Inr (user\<lparr>PhoneNumbers := []\<rparr>)
      else if a = ''addresses'' then Inr (user\<lparr>Addresses := []\<rparr>)
      else if a = ''ims'' then Inr (user\<lparr>Ims := []\<rparr>)
      else if a = ''photos'' then Inr (user\<lparr>Photos := []\<rparr>)
      else if a = ''entitlements'' then Inr (user\<lparr>Entitlements := []\<rparr>)
      else if a = ''roles'' then Inr (user\<lparr>Roles := []\<rparr>)
      else if a = ''x509certificates'' then Inr (user\<lparr>X509Certificates := []\<rparr>)
      else invalidPath (''Cannot remove attribute: '' @ attr))"

definition replaceMultiValued :: "ext \<Rightarrow> ScimUser \<Rightarrow> string \<Rightarrow> json \<Rightarrow> ScimUser res" where
  "replaceMultiValued L user attr value =
     rbind (clearAttribute L user attr) (\<lambda>u.
       if value = JNull then Inr u else addToMultiValued L u attr value)"

section \<open>Filtered operations\<close>

definition applyFilteredRemove :: "ext \<Rightarrow> ScimUser \<Rightarrow> string \<Rightarrow> string \<Rightarrow> ScimUser res" where
  "applyFilteredRemove L user coll flt =
     (let a = ToLower L coll in
      if a = ''emails'' then Inr (user\<lparr>Emails := removeMatching (Emails user) (matchesEmailFilter L flt)\<rparr>)
      else if a = ''phonenumbers'' then
        Inr (user\<lparr>PhoneNumbers := removeMatching (PhoneNumbers user) (matchesPhoneFilter L flt)\<rparr>)
      else if a = ''addresses'' then
        Inr (user\<lparr>Addresses := removeMatching (Addresses user) (matchesAddressFilter L flt)\<rparr>)
      else if a = ''ims'' then Inr (user\<lparr>Ims := removeMatching (Ims user) (matchesImFilter L flt)\<rparr>)
      else if a = ''photos'' then
        Inr (user\<lparr>Photos := removeMatching (Photos user) (matchesPhotoFilter L flt)\<rparr>)
      else if a = ''entitlements'' then
        Inr (user\<lparr>Entitlements := removeMatching (Entitlements user) (matchesEntitlementFilter L flt)\<rparr>)
      else if a = ''roles'' then Inr (user\<lparr>Roles := removeMatching (Roles user) (matchesRoleFilter L flt)\<rparr>)
      else if a = ''x509certificates'' then
        Inr (user\<lparr>X509Certificates := removeMatching (X509Certificates user) (matchesCertFilter L flt)\<rparr>)
      else invalidPath (''Unknown collection: '' @ coll))"

definition setsPrimaryTrue :: "ext \<Rightarrow> string \<Rightarrow> json \<Rightarrow> bool" where
  "setsPrimaryTrue L subAttr value =
     (if EqualFold L subAttr ''primary'' then value = JBool True
      else subAttr = [] \<and>
        (case value of JObj m \<Rightarrow> list_ex (\<lambda>(k, v). EqualFold L k ''primary'' \<and> v = JBool True) m
         | _ \<Rightarrow> False))"

text \<open>The end of \<^verbatim>\<open>applyFilteredUpdate\<close>: duplicates are merged if an entry matched, otherwise
  there was no target.\<close>

definition finishUpdate :: "string \<Rightarrow> ('a list \<times> bool) res \<Rightarrow> ('a list \<Rightarrow> ScimUser) \<Rightarrow> ScimUser res" where
  "finishUpdate filterExpr run store =
     rbind run (\<lambda>(us, found).
       if found then Inr (store us)
       else Inl (NewScimError 400 ''noTarget'' (''No matching item found for filter: '' @ filterExpr)))"

definition applyFilteredUpdate :: "ext \<Rightarrow> ScimUser \<Rightarrow> string \<Rightarrow> string \<Rightarrow> string \<Rightarrow> json \<Rightarrow> ScimUser res" where
  "applyFilteredUpdate L user coll flt sub value =
     (let demote = setsPrimaryTrue L sub value in
      if parseEqFilter L flt = None then
        Inl (NewScimError 400 ''invalidFilter'' (''Cannot parse filter: '' @ flt))
      else if coll = ''emails'' then
        finishUpdate flt (updateMatching setPrimary (matchesEmailFilter L flt)
            (\<lambda>e. setEmailSubAttribute L e sub value) demote (Emails user))
          (\<lambda>us. user\<lparr>Emails := DeduplicateEmails L us\<rparr>)
      else if coll = ''phonenumbers'' then
        finishUpdate flt (updateMatching setPrimary (matchesPhoneFilter L flt)
            (\<lambda>e. setPhoneSubAttribute L e sub value) demote (PhoneNumbers user))
          (\<lambda>us. user\<lparr>PhoneNumbers := DeduplicatePhoneNumbers L us\<rparr>)
      else if coll = ''addresses'' then
        finishUpdate flt (updateMatching setAddressPrimary (matchesAddressFilter L flt)
            (\<lambda>e. setAddressSubAttribute L e sub value) demote (Addresses user))
          (\<lambda>us. user\<lparr>Addresses := DeduplicateAddresses L us\<rparr>)
      else if coll = ''ims'' then
        finishUpdate flt (updateMatching setPrimary (matchesImFilter L flt)
            (\<lambda>e. setImSubAttribute L e sub value) demote (Ims user))
          (\<lambda>us. user\<lparr>Ims := DeduplicateIms L us\<rparr>)
      else if coll = ''photos'' then
        finishUpdate flt (updateMatching setPrimary (matchesPhotoFilter L flt)
            (\<lambda>e. setPhotoSubAttribute L e sub value) demote (Photos user))
          (\<lambda>us. user\<lparr>Photos := DeduplicatePhotos L us\<rparr>)
      else if coll = ''entitlements'' then
        finishUpdate flt (updateMatching setPrimary (matchesEntitlementFilter L flt)
            (\<lambda>e. setEntitlementSubAttribute L e sub value) demote (Entitlements user))
          (\<lambda>us. user\<lparr>Entitlements := DeduplicateEntitlements L us\<rparr>)
      else if coll = ''roles'' then
        finishUpdate flt (updateMatching setPrimary (matchesRoleFilter L flt)
            (\<lambda>e. setRoleSubAttribute L e sub value) demote (Roles user))
          (\<lambda>us. user\<lparr>Roles := DeduplicateRoles L us\<rparr>)
      else if coll = ''x509certificates'' then
        finishUpdate flt (updateMatching setPrimary (matchesCertFilter L flt)
            (\<lambda>e. setCertSubAttribute L e sub value) demote (X509Certificates user))
          (\<lambda>us. user\<lparr>X509Certificates := DeduplicateX509Certificates L us\<rparr>)
      else invalidPath (''Unknown collection: '' @ coll))"

definition applyFilteredAdd :: "ext \<Rightarrow> ScimUser \<Rightarrow> string \<Rightarrow> string \<Rightarrow> string \<Rightarrow> json \<Rightarrow> ScimUser res" where
  "applyFilteredAdd L user coll flt sub value =
     (if sub = [] then addToMultiValued L user (ToLower L coll) value
      else applyFilteredUpdate L user (ToLower L coll) flt sub value)"

definition applyFilteredReplace :: "ext \<Rightarrow> ScimUser \<Rightarrow> string \<Rightarrow> string \<Rightarrow> string \<Rightarrow> json \<Rightarrow> ScimUser res" where
  "applyFilteredReplace L user coll flt sub value =
     applyFilteredUpdate L user (ToLower L coll) flt sub value"

section \<open>Operations\<close>

definition valueMapEntry :: "ext \<Rightarrow> bool \<Rightarrow> ScimUser \<Rightarrow> string \<Rightarrow> json \<Rightarrow> ScimUser res" where
  "valueMapEntry L isReplace user k v =
     (let key = stripPatchURNPrefix L k; lower = ToLower L key in
      if lower \<in> set readOnlyAttrs \<or> HasPrefix lower ''meta.'' then readOnlyError k
      else if lower = ''name'' then setNameAttribute L user v
      else if toEnterprise L key then setEnterpriseAttribute L user key v
      else if Contains key ''.'' then setSubAttribute L user key v
      else if lower \<in> set multiValuedAttrs then
        (if isReplace then replaceMultiValued L user lower v else addToMultiValued L user lower v)
      else setSingleAttribute L user key v)"

definition applyValueMap :: "ext \<Rightarrow> ScimUser \<Rightarrow> json \<Rightarrow> bool \<Rightarrow> ScimUser res" where
  "applyValueMap L user value isReplace =
     (case value of
        JObj m \<Rightarrow> rfold (\<lambda>u (k, v). valueMapEntry L isReplace u k v) user m
      | _ \<Rightarrow> invalidValue ''PATCH add/replace without path requires a value object'')"

definition applyAdd :: "ext \<Rightarrow> ScimUser \<Rightarrow> string \<Rightarrow> json \<Rightarrow> ScimUser res" where
  "applyAdd L user path value =
     (if path = [] then applyValueMap L user value False
      else (case filteredPath path of
          Some (coll, flt, sub) \<Rightarrow> applyFilteredAdd L user coll flt sub value
        | None \<Rightarrow>
            let lower = ToLower L path in
            if lower = ''name'' then setNameAttribute L user value
            else if toEnterprise L path then setEnterpriseAttribute L user path value
            else if Contains path ''.'' then setSubAttribute L user path value
            else if lower \<in> set multiValuedAttrs then addToMultiValued L user lower value
            else setSingleAttribute L user path value))"

definition applyReplace :: "ext \<Rightarrow> ScimUser \<Rightarrow> string \<Rightarrow> json \<Rightarrow> ScimUser res" where
  "applyReplace L user path value =
     (if path = [] then applyValueMap L user value True
      else (case filteredPath path of
          Some (coll, flt, sub) \<Rightarrow> applyFilteredReplace L user coll flt sub value
        | None \<Rightarrow>
            let lower = ToLower L path in
            if lower = ''name'' then setNameAttribute L user value
            else if toEnterprise L path then setEnterpriseAttribute L user path value
            else if Contains path ''.'' then setSubAttribute L user path value
            else if lower \<in> set multiValuedAttrs then replaceMultiValued L user lower value
            else setSingleAttribute L user path value))"

definition applyRemove :: "ext \<Rightarrow> ScimUser \<Rightarrow> string \<Rightarrow> ScimUser res" where
  "applyRemove L user path =
     (if path = [] then Inl (NewScimError 400 ''noTarget'' ''PATCH remove requires a path'')
      else (case filteredPath path of
          Some (coll, flt, sub) \<Rightarrow> applyFilteredRemove L user coll flt
        | None \<Rightarrow>
            let lower = ToLower L path in
            if lower = ''name'' then setNameAttribute L user JNull
            else if toEnterprise L path then clearEnterpriseAttribute L user path
            else if Contains path ''.'' then setSubAttribute L user path JNull
            else clearAttribute L user lower))"

text \<open>One turn of the loop of \<^verbatim>\<open>ApplyPatchOperations\<close>. A type assertion \<^verbatim>\<open>op["op"].(string)\<close>
  that fails gives the empty string.\<close>

definition textMember :: "json_object \<Rightarrow> string \<Rightarrow> string" where
  "textMember m k = (case jget m k of JStr s \<Rightarrow> s | _ \<Rightarrow> [])"

definition applyPatchOperation :: "ext \<Rightarrow> ScimUser \<Rightarrow> json_object \<Rightarrow> ScimUser res" where
  "applyPatchOperation L user op =
     (let rawOp = textMember op ''op''; opType = ToLower L rawOp;
          path = stripPatchURNPrefix L (textMember op ''path''); value = jget op ''value'' in
      if rawOp = [] then invalidValue ''PATCH op is required''
      else if path \<noteq> [] \<and> ToLower L path \<in> set readOnlyAttrs then readOnlyError path
      else if opType = ''add'' then
        (if value = JNull then
           invalidValue (''PATCH add operation must contain a '' @ quoted ''value'' @ '' member'')
         else applyAdd L user path value)
      else if opType = ''replace'' then applyReplace L user path value
      else if opType = ''remove'' then applyRemove L user path
      else invalidValue (''Unsupported PATCH op: '' @ opType))"

definition ApplyPatchOperations :: "ext \<Rightarrow> ScimUser \<Rightarrow> json_object list \<Rightarrow> ScimUser res" where
  "ApplyPatchOperations L user operations =
     (if operations = [] then invalidValue ''PATCH operations required''
      else rfold (applyPatchOperation L) user operations)"

end
