(* ===== verification/PatchInv.thy ===== *)
theory PatchInv
  imports Patch
begin

text \<open>
  What PATCH keeps: the identity and the bookkeeping fields of a user, a user name, a hashed
  password, the read-only manager name, and at most one primary entry per attribute.
\<close>

section \<open>What no operation breaks\<close>

definition same_identity :: "ScimUser \<Rightarrow> ScimUser \<Rightarrow> bool" where
  "same_identity u v \<longleftrightarrow> ID v = ID u \<and> WorkspaceID v = WorkspaceID u \<and> CreatedAt v = CreatedAt u
     \<and> LastModified v = LastModified u \<and> Version v = Version u"

definition keeps :: "ext \<Rightarrow> ScimUser \<Rightarrow> ScimUser \<Rightarrow> bool" where
  "keeps L u v \<longleftrightarrow> same_identity u v
     \<and> (UserName v = UserName u \<or> UserName v \<noteq> [])
     \<and> (Password v = Password u \<or> hashed L (Password v))
     \<and> (EnterpriseManagerDisplay v = EnterpriseManagerDisplay u \<or> EnterpriseManagerDisplay v = None)"

lemma keeps_refl [simp]: "keeps L u u"
  by (simp add: keeps_def same_identity_def)

lemma keeps_trans: "keeps L u v \<Longrightarrow> keeps L v w \<Longrightarrow> keeps L u w"
  by (auto simp: keeps_def same_identity_def)

lemma keeps_rfold:
  assumes "rfold f u xs = Inr v" and "\<And>w x w'. x \<in> set xs \<Longrightarrow> f w x = Inr w' \<Longrightarrow> keeps L w w'"
  shows "keeps L u v"
proof (rule rfold_invariant [OF assms(1), of "keeps L u"])
  show "keeps L u w'" if "x \<in> set xs" "keeps L u w" "f w x = Inr w'" for w x w'
    using that assms(2) keeps_trans by blast
qed simp

text \<open>Fields outside the guarded ones may change freely.\<close>

lemma keeps_free [simp]:
  "keeps L u (u\<lparr>ExternalID := s\<rparr>)" "keeps L u (u\<lparr>NameFormatted := s\<rparr>)"
  "keeps L u (u\<lparr>NameFamilyName := s\<rparr>)" "keeps L u (u\<lparr>NameGivenName := s\<rparr>)"
  "keeps L u (u\<lparr>NameMiddleName := s\<rparr>)" "keeps L u (u\<lparr>NameHonorificPrefix := s\<rparr>)"
  "keeps L u (u\<lparr>NameHonorificSuffix := s\<rparr>)" "keeps L u (u\<lparr>DisplayName := s\<rparr>)"
  "keeps L u (u\<lparr>NickName := s\<rparr>)" "keeps L u (u\<lparr>ProfileUrl := s\<rparr>)" "keeps L u (u\<lparr>Title := s\<rparr>)"
  "keeps L u (u\<lparr>UserType := s\<rparr>)" "keeps L u (u\<lparr>PreferredLanguage := s\<rparr>)"
  "keeps L u (u\<lparr>Locale := s\<rparr>)" "keeps L u (u\<lparr>Timezone := s\<rparr>)" "keeps L u (u\<lparr>Active := b\<rparr>)"
  "keeps L u (u\<lparr>EnterpriseEmployeeNumber := s\<rparr>)" "keeps L u (u\<lparr>EnterpriseCostCenter := s\<rparr>)"
  "keeps L u (u\<lparr>EnterpriseOrganization := s\<rparr>)" "keeps L u (u\<lparr>EnterpriseDivision := s\<rparr>)"
  "keeps L u (u\<lparr>EnterpriseDepartment := s\<rparr>)" "keeps L u (u\<lparr>EnterpriseManagerRef := s\<rparr>)"
  "keeps L u (u\<lparr>EnterpriseManagerValue := s\<rparr>)" "keeps L u (u\<lparr>EnterpriseManagerDisplay := None\<rparr>)"
  "keeps L u (u\<lparr>Password := None\<rparr>)"
  "keeps L u (u\<lparr>Emails := es\<rparr>)" "keeps L u (u\<lparr>PhoneNumbers := es\<rparr>)" "keeps L u (u\<lparr>Addresses := as\<rparr>)"
  "keeps L u (u\<lparr>Entitlements := es\<rparr>)" "keeps L u (u\<lparr>Roles := es\<rparr>)" "keeps L u (u\<lparr>Ims := es\<rparr>)"
  "keeps L u (u\<lparr>Photos := es\<rparr>)" "keeps L u (u\<lparr>X509Certificates := es\<rparr>)"
  by (simp_all add: keeps_def same_identity_def hashed_def)

lemma setUserName_keeps: "setUserName L u v = Inr w \<Longrightarrow> keeps L u w"
  by (auto simp: setUserName_def keeps_def same_identity_def elim!: rbind_InrE split: option.splits if_splits)

lemma setProfileUrl_keeps: "setProfileUrl L u v = Inr w \<Longrightarrow> keeps L u w"
  by (auto simp: setProfileUrl_def elim!: rbind_InrE)

lemma setPassword_keeps: "setPassword L u v = Inr w \<Longrightarrow> keeps L u w"
  by (auto simp: setPassword_def keeps_def same_identity_def dest!: HashPassword_hashed
      elim!: rbind_InrE split: if_splits)

lemma setSingleAttribute_keeps: "setSingleAttribute L u path v = Inr w \<Longrightarrow> keeps L u w"
  by (simp add: setSingleAttribute_def Let_def readOnlyError_def split: if_splits)
     (auto elim!: rbind_InrE intro: setUserName_keeps setProfileUrl_keeps setPassword_keeps)

lemma setNamePart_keeps: "setNamePart L u sub s = Inr w \<Longrightarrow> keeps L u w"
  by (simp add: setNamePart_def Let_def split: if_splits) auto

lemma setSubAttribute_keeps: "setSubAttribute L u path v = Inr w \<Longrightarrow> keeps L u w"
  by (auto simp: setSubAttribute_def readOnlyError_def elim!: rbind_InrE split: list.splits if_splits
      intro: setNamePart_keeps)

lemma setNameAttribute_keeps: "setNameAttribute L u v = Inr w \<Longrightarrow> keeps L u w"
proof (cases v)
  case (JObj m)
  assume "setNameAttribute L u v = Inr w"
  with JObj have "rfold (\<lambda>u (subAttr, subVal).
      rbind (parseStrictStringPtr L subVal (''name.'' @ subAttr)) (\<lambda>s. setNamePart L u subAttr s)) u m = Inr w"
    by (simp add: setNameAttribute_def)
  then show ?thesis by (rule keeps_rfold) (auto elim!: rbind_InrE intro: setNamePart_keeps)
qed (auto simp: setNameAttribute_def keeps_def same_identity_def)

lemma clearManager_keeps [simp]: "keeps L u (clearManager u)"
  by (simp add: clearManager_def keeps_def same_identity_def)

lemma clearEnterprise_keeps [simp]: "keeps L u (clearEnterprise u)"
  by (simp add: clearEnterprise_def clearManager_def keeps_def same_identity_def)

lemma keeps_manager [simp]:
  "keeps L u (u\<lparr>EnterpriseManagerRef := r, EnterpriseManagerValue := s\<rparr>)"
  "keeps L u (u\<lparr>EnterpriseManagerValue := s, EnterpriseManagerDisplay := None\<rparr>)"
  "keeps L u (u\<lparr>EnterpriseManagerRef := r, EnterpriseManagerValue := s, EnterpriseManagerDisplay := None\<rparr>)"
  by (simp_all add: keeps_def same_identity_def)

lemma managerRef_keeps: "managerRef L u p r = Inr w \<Longrightarrow> keeps L u w"
  by (auto simp: managerRef_def Let_def elim!: rbind_InrE split: if_splits)

lemma managerObject_keeps: "managerObject L u m = Inr w \<Longrightarrow> keeps L u w"
proof -
  assume "managerObject L u m = Inr w"
  then obtain u1 p u2 where
    1: "(case map_of m ''value'' of None \<Rightarrow> Inr (u, None)
       | Some v \<Rightarrow> rbind (parseStrictStringPtr L v ''manager.value'') (\<lambda>s.
           Inr (u\<lparr>EnterpriseManagerValue := s\<rparr>, Some s))) = Inr (u1, p)"
    and 2: "(case map_of m ''$ref'' of None \<Rightarrow> Inr u1 | Some ref \<Rightarrow> managerRef L u1 p ref) = Inr u2"
    and w: "w = u2\<lparr>EnterpriseManagerDisplay := None\<rparr>"
    by (auto simp: managerObject_def rbind_eq_Inr)
  from 1 have "keeps L u u1" by (auto elim!: rbind_InrE split: option.splits)
  moreover from 2 have "keeps L u1 u2" by (auto intro: managerRef_keeps split: option.splits)
  moreover have "keeps L u2 w" by (simp add: w)
  ultimately show ?thesis by (blast intro: keeps_trans)
qed

lemma setEnterpriseManager_keeps: "setEnterpriseManager L u v = Inr w \<Longrightarrow> keeps L u w"
  by (auto simp: setEnterpriseManager_def intro: managerObject_keeps split: json.splits)

lemma setManagerRef_keeps: "setManagerRef L u v = Inr w \<Longrightarrow> keeps L u w"
  by (auto simp: setManagerRef_def Let_def elim!: rbind_InrE split: if_splits)

lemma enterpriseLeaf_keeps: "enterpriseLeaf L u a v = Inr w \<Longrightarrow> keeps L u w"
  by (simp add: enterpriseLeaf_def Let_def split: if_splits)
     (auto elim!: rbind_InrE intro: setEnterpriseManager_keeps setManagerRef_keeps)

lemma setEnterpriseAttribute_keeps:
  "setEnterpriseAttribute L u path v = Inr w \<Longrightarrow> keeps L u w"
  "applyEnterpriseValueMap L u v = Inr w \<Longrightarrow> keeps L u w"
proof (induction L u path v and L u v arbitrary: w and w
    rule: setEnterpriseAttribute_applyEnterpriseValueMap.induct)
  case (1 L u path v)
  then show ?case
    by (simp add: setEnterpriseAttribute.simps [of L u path v] split: if_splits) (auto intro: enterpriseLeaf_keeps)
next
  case (2 L u v)
  show ?case
  proof (cases v)
    case (JObj m)
    with 2(2) have "rfold (\<lambda>u (k, v). setEnterpriseAttribute L u k v) u m = Inr w"
      by (simp add: applyEnterpriseValueMap.simps)
    then show ?thesis by (rule keeps_rfold) (use 2(1) [OF JObj] in auto)
  qed (use 2(2) in \<open>auto simp: applyEnterpriseValueMap.simps\<close>)
qed

lemma clearEnterpriseAttribute_keeps: "clearEnterpriseAttribute L u path = Inr w \<Longrightarrow> keeps L u w"
  by (simp add: clearEnterpriseAttribute_def split: if_splits) (auto intro: setEnterpriseAttribute_keeps)

lemma addToMultiValued_keeps: "addToMultiValued L u a v = Inr w \<Longrightarrow> keeps L u w"
  unfolding addToMultiValued_def
  by (elim rbind_InrE) (simp split: if_splits; auto elim!: rbind_InrE)

lemma clearAttribute_keeps: "clearAttribute L u a = Inr w \<Longrightarrow> keeps L u w"
  by (simp add: clearAttribute_def Let_def split: if_splits) (auto intro: setNameAttribute_keeps)

lemma replaceMultiValued_keeps: "replaceMultiValued L u a v = Inr w \<Longrightarrow> keeps L u w"
  unfolding replaceMultiValued_def
  by (elim rbind_InrE) (auto split: if_splits intro: clearAttribute_keeps addToMultiValued_keeps keeps_trans)

lemma applyFilteredRemove_keeps: "applyFilteredRemove L u c f = Inr w \<Longrightarrow> keeps L u w"
  by (simp add: applyFilteredRemove_def Let_def split: if_splits) auto

lemma finishUpdate_Inr: "finishUpdate f run store = Inr w \<longleftrightarrow> (\<exists>us. run = Inr (us, True) \<and> w = store us)"
  by (auto simp: finishUpdate_def rbind_eq_Inr split: if_split_asm)

lemma applyFilteredUpdate_keeps: "applyFilteredUpdate L u c f s v = Inr w \<Longrightarrow> keeps L u w"
  by (simp add: applyFilteredUpdate_def Let_def finishUpdate_Inr split: if_splits) auto

lemma valueMapEntry_keeps: "valueMapEntry L r u k v = Inr w \<Longrightarrow> keeps L u w"
  by (simp add: valueMapEntry_def Let_def readOnlyError_def split: if_splits)
     (auto intro: setNameAttribute_keeps setEnterpriseAttribute_keeps setSubAttribute_keeps
        replaceMultiValued_keeps addToMultiValued_keeps setSingleAttribute_keeps)

lemma applyValueMap_keeps: "applyValueMap L u v r = Inr w \<Longrightarrow> keeps L u w"
  by (auto simp: applyValueMap_def intro: keeps_rfold valueMapEntry_keeps split: json.splits)

lemma applyAdd_keeps: "applyAdd L u path v = Inr w \<Longrightarrow> keeps L u w"
  by (simp add: applyAdd_def applyFilteredAdd_def Let_def split: if_splits option.splits prod.splits)
     (auto intro: applyValueMap_keeps addToMultiValued_keeps applyFilteredUpdate_keeps setNameAttribute_keeps
        setEnterpriseAttribute_keeps setSubAttribute_keeps setSingleAttribute_keeps)

lemma applyReplace_keeps: "applyReplace L u path v = Inr w \<Longrightarrow> keeps L u w"
  by (simp add: applyReplace_def applyFilteredReplace_def Let_def split: if_splits option.splits prod.splits)
     (auto intro: applyValueMap_keeps replaceMultiValued_keeps applyFilteredUpdate_keeps setNameAttribute_keeps
        setEnterpriseAttribute_keeps setSubAttribute_keeps setSingleAttribute_keeps)

lemma applyRemove_keeps: "applyRemove L u path = Inr w \<Longrightarrow> keeps L u w"
  by (simp add: applyRemove_def Let_def split: if_splits option.splits prod.splits)
     (auto intro: applyFilteredRemove_keeps clearEnterpriseAttribute_keeps setNameAttribute_keeps
        setSubAttribute_keeps clearAttribute_keeps)

lemma applyPatchOperation_keeps: "applyPatchOperation L u op = Inr w \<Longrightarrow> keeps L u w"
  by (simp add: applyPatchOperation_def Let_def readOnlyError_def split: if_splits)
     (auto intro: applyAdd_keeps applyReplace_keeps applyRemove_keeps)

lemma ApplyPatchOperations_keeps: "ApplyPatchOperations L u ops = Inr w \<Longrightarrow> keeps L u w"
  by (simp add: ApplyPatchOperations_def split: if_splits) (blast intro: keeps_rfold applyPatchOperation_keeps)

section \<open>At most one primary entry\<close>

definition single_primaries :: "ScimUser \<Rightarrow> bool" where
  "single_primaries u \<longleftrightarrow>
     single_primary PrimaryFlag (Emails u) \<and> single_primary PrimaryFlag (PhoneNumbers u)
     \<and> single_primary AddressPrimary (Addresses u) \<and> single_primary PrimaryFlag (Entitlements u)
     \<and> single_primary PrimaryFlag (Roles u) \<and> single_primary PrimaryFlag (Ims u)
     \<and> single_primary PrimaryFlag (Photos u) \<and> single_primary PrimaryFlag (X509Certificates u)"

text \<open>The operations on single-valued attributes leave the eight lists alone.\<close>

definition same_lists :: "ScimUser \<Rightarrow> ScimUser \<Rightarrow> bool" where
  "same_lists u v \<longleftrightarrow> Emails v = Emails u \<and> PhoneNumbers v = PhoneNumbers u \<and> Addresses v = Addresses u
     \<and> Entitlements v = Entitlements u \<and> Roles v = Roles u \<and> Ims v = Ims u \<and> Photos v = Photos u
     \<and> X509Certificates v = X509Certificates u"

lemma same_lists_refl [simp]: "same_lists u u"
  by (simp add: same_lists_def)

lemma same_lists_trans: "same_lists u v \<Longrightarrow> same_lists v w \<Longrightarrow> same_lists u w"
  by (simp add: same_lists_def)

lemma same_lists_single: "same_lists u v \<Longrightarrow> single_primaries u \<Longrightarrow> single_primaries v"
  by (simp add: same_lists_def single_primaries_def)

lemma same_lists_rfold:
  assumes "rfold f u xs = Inr v" and "\<And>w x w'. x \<in> set xs \<Longrightarrow> f w x = Inr w' \<Longrightarrow> same_lists w w'"
  shows "same_lists u v"
proof (rule rfold_invariant [OF assms(1), of "same_lists u"])
  show "same_lists u w'" if "x \<in> set xs" "same_lists u w" "f w x = Inr w'" for w x w'
    using that assms(2) same_lists_trans by blast
qed simp

lemma setUserName_lists: "setUserName L u v = Inr w \<Longrightarrow> same_lists u w"
  by (auto simp: setUserName_def same_lists_def elim!: rbind_InrE split: option.splits if_splits)

lemma setProfileUrl_lists: "setProfileUrl L u v = Inr w \<Longrightarrow> same_lists u w"
  by (auto simp: setProfileUrl_def same_lists_def elim!: rbind_InrE)

lemma setPassword_lists: "setPassword L u v = Inr w \<Longrightarrow> same_lists u w"
  by (auto simp: setPassword_def same_lists_def elim!: rbind_InrE split: if_splits)

lemma setSingleAttribute_lists: "setSingleAttribute L u path v = Inr w \<Longrightarrow> same_lists u w"
  by (simp add: setSingleAttribute_def Let_def readOnlyError_def split: if_splits)
     (auto simp: same_lists_def elim!: rbind_InrE
       dest!: setUserName_lists setProfileUrl_lists setPassword_lists)

lemma setNamePart_lists: "setNamePart L u sub s = Inr w \<Longrightarrow> same_lists u w"
  by (simp add: setNamePart_def Let_def split: if_splits) (auto simp: same_lists_def)

lemma setSubAttribute_lists: "setSubAttribute L u path v = Inr w \<Longrightarrow> same_lists u w"
  by (auto simp: setSubAttribute_def readOnlyError_def elim!: rbind_InrE split: list.splits if_splits
      intro: setNamePart_lists)

lemma setNameAttribute_lists: "setNameAttribute L u v = Inr w \<Longrightarrow> same_lists u w"
proof (cases v)
  case (JObj m)
  assume "setNameAttribute L u v = Inr w"
  with JObj have "rfold (\<lambda>u (subAttr, subVal).
      rbind (parseStrictStringPtr L subVal (''name.'' @ subAttr)) (\<lambda>s. setNamePart L u subAttr s)) u m = Inr w"
    by (simp add: setNameAttribute_def)
  then show ?thesis by (rule same_lists_rfold) (auto elim!: rbind_InrE intro: setNamePart_lists)
qed (auto simp: setNameAttribute_def same_lists_def)

lemma clearManager_lists [simp]: "same_lists u (clearManager u)"
  by (simp add: clearManager_def same_lists_def)

lemma clearEnterprise_lists [simp]: "same_lists u (clearEnterprise u)"
  by (simp add: clearEnterprise_def clearManager_def same_lists_def)

lemma managerRef_lists: "managerRef L u p r = Inr w \<Longrightarrow> same_lists u w"
  by (auto simp: managerRef_def Let_def same_lists_def elim!: rbind_InrE split: if_splits)

lemma managerObject_lists: "managerObject L u m = Inr w \<Longrightarrow> same_lists u w"
  by (auto simp: managerObject_def same_lists_def elim!: rbind_InrE split: option.splits
      dest!: managerRef_lists)

lemma setEnterpriseManager_lists: "setEnterpriseManager L u v = Inr w \<Longrightarrow> same_lists u w"
  by (auto simp: setEnterpriseManager_def intro: managerObject_lists split: json.splits)
     (simp add: same_lists_def)

lemma setManagerRef_lists: "setManagerRef L u v = Inr w \<Longrightarrow> same_lists u w"
  by (auto simp: setManagerRef_def Let_def same_lists_def elim!: rbind_InrE split: if_splits)

lemma enterpriseLeaf_lists: "enterpriseLeaf L u a v = Inr w \<Longrightarrow> same_lists u w"
  by (simp add: enterpriseLeaf_def Let_def split: if_splits)
     (auto simp: same_lists_def elim!: rbind_InrE dest!: setEnterpriseManager_lists setManagerRef_lists)

lemma setEnterpriseAttribute_lists:
  "setEnterpriseAttribute L u path v = Inr w \<Longrightarrow> same_lists u w"
  "applyEnterpriseValueMap L u v = Inr w \<Longrightarrow> same_lists u w"
proof (induction L u path v and L u v arbitrary: w and w
    rule: setEnterpriseAttribute_applyEnterpriseValueMap.induct)
  case (1 L u path v)
  then show ?case
    by (simp add: setEnterpriseAttribute.simps [of L u path v] split: if_splits) (auto intro: enterpriseLeaf_lists)
next
  case (2 L u v)
  show ?case
  proof (cases v)
    case (JObj m)
    with 2(2) have "rfold (\<lambda>u (k, v). setEnterpriseAttribute L u k v) u m = Inr w"
      by (simp add: applyEnterpriseValueMap.simps)
    then show ?thesis by (rule same_lists_rfold) (use 2(1) [OF JObj] in auto)
  qed (use 2(2) in \<open>auto simp: applyEnterpriseValueMap.simps\<close>)
qed

lemma clearEnterpriseAttribute_lists: "clearEnterpriseAttribute L u path = Inr w \<Longrightarrow> same_lists u w"
  by (simp add: clearEnterpriseAttribute_def split: if_splits) (auto intro: setEnterpriseAttribute_lists)

lemmas single_valued_lists = setSingleAttribute_lists setSubAttribute_lists setNameAttribute_lists
  setEnterpriseAttribute_lists clearEnterpriseAttribute_lists

text \<open>The operations on the lists.\<close>

lemma addItems_dedup_single:
  assumes "addItems prim setp build us items = Inr vs" "single_primary prim us"
    and "multi_valued key prim setp"
  shows "single_primary prim (deduplicate key prim setp vs)"
  by (rule multi_valued.dedup_single [OF assms(3)]) (rule multi_valued.addItems_single [OF assms(3,1,2)])

lemma addToMultiValued_single:
  assumes "addToMultiValued L u a v = Inr w" and "single_primaries u"
  shows "single_primaries w"
proof -
  note single = addItems_dedup_single [OF _ _ emails.multi_valued_axioms]
    addItems_dedup_single [OF _ _ photos.multi_valued_axioms]
    addItems_dedup_single [OF _ _ addresses.multi_valued_axioms]
  from assms(1) show ?thesis
    unfolding addToMultiValued_def
    by (elim rbind_InrE)
       (simp split: if_splits; (elim rbind_InrE)?; use assms(2) single in \<open>auto simp: single_primaries_def Deduplicate_defs\<close>)
qed

lemma clearAttribute_single:
  assumes "clearAttribute L u a = Inr w" and "single_primaries u"
  shows "single_primaries w"
proof -
  from assms(1) have "setNameAttribute L u JNull = Inr w \<or> single_primaries w"
    using assms(2) by (simp add: clearAttribute_def Let_def split: if_splits)
      (auto simp: single_primaries_def)
  then show ?thesis using assms(2) setNameAttribute_lists same_lists_single by blast
qed

lemma replaceMultiValued_single:
  "replaceMultiValued L u a v = Inr w \<Longrightarrow> single_primaries u \<Longrightarrow> single_primaries w"
  unfolding replaceMultiValued_def
  by (elim rbind_InrE) (auto split: if_splits intro: clearAttribute_single addToMultiValued_single)

lemma applyFilteredRemove_single:
  assumes "applyFilteredRemove L u c f = Inr w" and "single_primaries u"
  shows "single_primaries w"
  using assms by (simp add: applyFilteredRemove_def Let_def split: if_splits)
    (auto simp: single_primaries_def intro: emails.removeMatching_single addresses.removeMatching_single)


text \<open>The keys for which lower-casing and case folding agree on \<^verbatim>\<open>primary\<close>: nonempty ASCII ones.\<close>

definition plain_key :: "string \<Rightarrow> bool" where
  "plain_key k \<longleftrightarrow> k \<noteq> [] \<and> (\<forall>c \<in> set k. code c < 128)"

definition plain_value :: "json \<Rightarrow> bool" where
  "plain_value v \<longleftrightarrow> (case v of JObj m \<Rightarrow> list_all (\<lambda>(k, w). plain_key k) m | _ \<Rightarrow> True)"

lemma EqualFold_ascii:
  assumes "\<forall>c \<in> set s. code c < 128" "\<forall>c \<in> set t. code c < 128"
  shows "EqualFold L s t \<longleftrightarrow> map ascii_lower s = map ascii_lower t"
proof -
  have "map (fold_rune L) (runes s) = map (\<lambda>c. [c]) (map ascii_lower s)"
    if "\<forall>c \<in> set s. code c < 128" for s
    using that by (simp add: runes_ascii)
  then have "EqualFold L s t \<longleftrightarrow> map (\<lambda>c. [c]) (map ascii_lower s) = map (\<lambda>c. [c]) (map ascii_lower t)"
    using assms by (simp only: EqualFold_def)
  also have "\<dots> \<longleftrightarrow> map ascii_lower s = map ascii_lower t"
    by (rule inj_eq) (simp add: inj_on_def)
  finally show ?thesis .
qed

lemma plain_primary: "plain_key k \<Longrightarrow> EqualFold L k ''primary'' \<longleftrightarrow> ToLower L k = ''primary''"
proof -
  assume k: "plain_key k"
  then have ascii: "\<forall>c \<in> set k. code c < 128" by (simp add: plain_key_def)
  have p: "\<forall>c \<in> set ''primary''. code c < 128" "map ascii_lower ''primary'' = ''primary''" by code_simp+
  show ?thesis by (simp only: EqualFold_ascii [OF ascii p(1)] ToLower_ascii [OF ascii] p(2))
qed

text \<open>A setter that is not told to set the flag does not set it.\<close>

lemma setSub_keep:
  assumes leaf: "\<And>x k w y. leaf x k w = Inr y \<Longrightarrow> \<not> (ToLower L k = ''primary'' \<and> w = JBool True) \<Longrightarrow> prim y \<Longrightarrow> prim x"
    and sub: "sub = [] \<or> plain_key sub" and plain: "plain_value v"
    and no: "\<not> setsPrimaryTrue L sub v" and run: "setSub leaf name x sub v = Inr y" and "prim y"
  shows "prim x"
proof (cases "sub = []")
  case False
  then have "plain_key sub" using sub by simp
  moreover have "leaf x sub v = Inr y" using run False by (simp add: setSub.simps)
  moreover have "\<not> (ToLower L sub = ''primary'' \<and> v = JBool True)"
    using no calculation(1) by (auto simp: setsPrimaryTrue_def plain_primary)
  ultimately show ?thesis using leaf \<open>prim y\<close> by blast
next
  case True
  then obtain m where m: "v = JObj m" "rfold (\<lambda>y (k, w). setSub leaf name y k w) x m = Inr y"
    using run True by (auto simp: setSub.simps [of leaf name x "[]" v] split: json.splits)
  have "\<not> EqualFold L [] ''primary''" by (simp add: EqualFold_def)
  then have entries: "plain_key k \<and> \<not> (ToLower L k = ''primary'' \<and> w = JBool True)" if "(k, w) \<in> set m" for k w
    using that plain no True m(1) plain_primary
    by (fastforce simp: plain_value_def setsPrimaryTrue_def list_all_iff list_ex_iff)
  have "prim y \<longrightarrow> prim x"
  proof (rule rfold_invariant [OF m(2), of "\<lambda>z. prim z \<longrightarrow> prim x"])
    fix z and e :: "string \<times> json" and z'
    assume e: "e \<in> set m" "prim z \<longrightarrow> prim x" "(case e of (k, w) \<Rightarrow> setSub leaf name z k w) = Inr z'"
    obtain k w where kw: "e = (k, w)" by fastforce
    with e entries have "plain_key k" "\<not> (ToLower L k = ''primary'' \<and> w = JBool True)" by blast+
    moreover from this e kw have "leaf z k w = Inr z'" by (simp add: setSub.simps plain_key_def)
    ultimately show "prim z' \<longrightarrow> prim x" using leaf e(2) by blast
  qed simp
  then show ?thesis using \<open>prim y\<close> by blast
qed

lemma entryLeaf_keep:
  "entryLeaf L name rv rt e k w = Inr f \<Longrightarrow> \<not> (ToLower L k = ''primary'' \<and> w = JBool True) \<Longrightarrow>
     PrimaryFlag f \<Longrightarrow> PrimaryFlag e"
  by (auto simp: entryLeaf_def Let_def setPrimary_def parseStrictBool_Inr elim!: rbind_InrE split: if_splits)

lemma addressLeaf_keep:
  "addressLeaf L e k w = Inr f \<Longrightarrow> \<not> (ToLower L k = ''primary'' \<and> w = JBool True) \<Longrightarrow>
     AddressPrimary f \<Longrightarrow> AddressPrimary e"
  by (simp add: addressLeaf_def Let_def split: if_splits)
     (auto simp: setAddressPrimary_def parseStrictBool_Inr elim!: rbind_InrE)

lemmas setSub_keeps = setSub_keep [of "entryLeaf L n rv rt" L PrimaryFlag, OF entryLeaf_keep]
  setSub_keep [of "addressLeaf L" L AddressPrimary, OF addressLeaf_keep] for L n rv rt

lemma updateMatching_dedup_single:
  assumes "updateMatching setp matches upd demote us = Inr (vs, found)" "single_primary prim us"
    and "\<And>x y. \<not> demote \<Longrightarrow> upd x = Inr y \<Longrightarrow> prim y \<Longrightarrow> prim x"
    and "multi_valued key prim setp"
  shows "single_primary prim (deduplicate key prim setp vs)"
  by (rule multi_valued.dedup_single [OF assms(4)], rule multi_valued.updateMatching_single [OF assms(4,1,2)])
     (rule assms(3))

lemma applyFilteredUpdate_single:
  assumes run: "applyFilteredUpdate L u c f sub v = Inr w" and single: "single_primaries u"
    and sub: "sub = [] \<or> plain_key sub" and plain: "plain_value v"
  shows "single_primaries w"
proof -
  note keep = setSub_keeps [OF _ _ _ sub plain]
  note entry = updateMatching_dedup_single [OF _ _ _ emails.multi_valued_axioms]
    updateMatching_dedup_single [OF _ _ _ photos.multi_valued_axioms]
  note address = updateMatching_dedup_single [OF _ _ _ addresses.multi_valued_axioms]
  have upd: "\<not> setsPrimaryTrue L sub v \<Longrightarrow> setSub (entryLeaf L n rv rt) n x sub v = Inr y \<Longrightarrow>
      PrimaryFlag y \<Longrightarrow> PrimaryFlag x" for n rv rt x y
    by (rule setSub_keep [OF entryLeaf_keep sub plain])
  have updA: "\<not> setsPrimaryTrue L sub v \<Longrightarrow> setSub (addressLeaf L) n x sub v = Inr y \<Longrightarrow>
      AddressPrimary y \<Longrightarrow> AddressPrimary x" for n x y
    by (rule setSub_keep [OF addressLeaf_keep sub plain])
  from run single show ?thesis
    by (simp add: applyFilteredUpdate_def Let_def finishUpdate_Inr setSub_defs Deduplicate_defs split: if_splits)
      (auto simp: single_primaries_def intro: entry [OF _ _ upd] address [OF _ _ updA])
qed

lemma filteredPath_sub: "filteredPath path = Some (c, f, s) \<Longrightarrow> s = [] \<or> plain_key s"
proof -
  assume "filteredPath path = Some (c, f, s)"
  then have "s = [] \<or> s \<noteq> [] \<and> list_all isWord s"
    by (auto simp: filteredPath_def Let_def split: if_splits option.splits)
  moreover have "code d < 128" if "isWord d" for d
  proof (cases "d = CHR ''_''")
    case True
    then show ?thesis by (simp add: code_def)
  next
    case False
    then show ?thesis using that by (auto simp: isWord_def is_digit_def is_upper_def is_lower_def)
  qed
  ultimately show ?thesis by (auto simp: plain_key_def list_all_iff)
qed

lemma valueMapEntry_single: "valueMapEntry L r u k v = Inr w \<Longrightarrow> single_primaries u \<Longrightarrow> single_primaries w"
  by (simp add: valueMapEntry_def Let_def readOnlyError_def split: if_splits)
     (auto intro: replaceMultiValued_single addToMultiValued_single same_lists_single [OF single_valued_lists(1)]
       same_lists_single [OF single_valued_lists(2)] same_lists_single [OF single_valued_lists(3)]
       same_lists_single [OF single_valued_lists(4)])

lemma applyValueMap_single: "applyValueMap L u v r = Inr w \<Longrightarrow> single_primaries u \<Longrightarrow> single_primaries w"
  by (auto simp: applyValueMap_def intro: rfold_invariant valueMapEntry_single split: json.splits)

lemmas single_steps = applyValueMap_single addToMultiValued_single replaceMultiValued_single
  applyFilteredUpdate_single applyFilteredRemove_single clearAttribute_single
  single_valued_lists [THEN same_lists_single]

lemma applyAdd_single:
  "applyAdd L u path v = Inr w \<Longrightarrow> plain_value v \<Longrightarrow> single_primaries u \<Longrightarrow> single_primaries w"
  by (simp add: applyAdd_def applyFilteredAdd_def Let_def split: if_splits option.splits prod.splits)
     (auto intro: single_steps dest: filteredPath_sub)

lemma applyReplace_single:
  "applyReplace L u path v = Inr w \<Longrightarrow> plain_value v \<Longrightarrow> single_primaries u \<Longrightarrow> single_primaries w"
  by (simp add: applyReplace_def applyFilteredReplace_def Let_def split: if_splits option.splits prod.splits)
     (auto intro: single_steps dest: filteredPath_sub)

lemma applyRemove_single: "applyRemove L u path = Inr w \<Longrightarrow> single_primaries u \<Longrightarrow> single_primaries w"
  by (simp add: applyRemove_def Let_def split: if_splits option.splits prod.splits)
     (auto intro: single_steps)

lemma applyPatchOperation_single:
  "applyPatchOperation L u op = Inr w \<Longrightarrow> plain_value (jget op ''value'') \<Longrightarrow> single_primaries u
    \<Longrightarrow> single_primaries w"
  by (simp add: applyPatchOperation_def Let_def readOnlyError_def split: if_splits)
     (auto intro: applyAdd_single applyReplace_single applyRemove_single)

end
