(* ===== verification/PatchProps.thy ===== *)
theory PatchProps
  imports PatchInv
begin

text \<open>
  The properties of PATCH on users, and the inputs on which the code departs from its rules.
\<close>

section \<open>A sample\<close>

definition sample_user :: ScimUser where
  "sample_user = \<lparr>ID = ''u1'', WorkspaceID = ''w1'', UserName = ''ann'', ExternalID = None,
     NameFormatted = None, NameFamilyName = None, NameGivenName = None, NameMiddleName = None,
     NameHonorificPrefix = None, NameHonorificSuffix = None, DisplayName = None, NickName = None,
     ProfileUrl = None, Title = None, UserType = None, PreferredLanguage = None, Locale = None,
     Timezone = None, Active = True, Password = None, EnterpriseEmployeeNumber = None,
     EnterpriseCostCenter = None, EnterpriseOrganization = None, EnterpriseDivision = None,
     EnterpriseDepartment = None, EnterpriseManagerValue = None, EnterpriseManagerRef = None,
     EnterpriseManagerDisplay = None, CreatedAt = 0, LastModified = 0, Version = 1,
     Emails = [\<lparr>Value = ''a@x'', Type = ''work'', Display = [], PrimaryFlag = True\<rparr>,
               \<lparr>Value = ''b@x'', Type = ''home'', Display = [], PrimaryFlag = False\<rparr>],
     PhoneNumbers = [], Addresses = [], Entitlements = [], Roles = [], Ims = [], Photos = [],
     X509Certificates = []\<rparr>"

definition patch_op :: "string \<Rightarrow> string \<Rightarrow> json \<Rightarrow> json_object" where
  "patch_op op path v = [(''op'', JStr op), (''path'', JStr path), (''value'', v)]"

definition new_email :: json where
  "new_email = JObj [(''value'', JStr ''c@x''), (''primary'', JBool True)]"

definition sample_ops :: "json_object list" where
  "sample_ops = [patch_op ''add'' ''emails'' new_email, patch_op ''replace'' ''password'' (JStr ''pw'')]"

definition sample_result :: ScimUser where
  "sample_result = sample_user\<lparr>Emails :=
     [\<lparr>Value = ''a@x'', Type = ''work'', Display = [], PrimaryFlag = False\<rparr>,
      \<lparr>Value = ''b@x'', Type = ''home'', Display = [], PrimaryFlag = False\<rparr>,
      \<lparr>Value = ''c@x'', Type = ''work'', Display = [], PrimaryFlag = True\<rparr>],
     Password := Some ''#pw''\<rparr>"

lemma sample_run: "ApplyPatchOperations plain_ext sample_user sample_ops = Inr sample_result"
  by code_simp

section \<open>What PATCH preserves\<close>

text \<open>C5. Applying the operations of a PATCH request to the user that was loaded changes neither its id nor its
  workspace, version and timestamps, and a user with a user name keeps a nonempty one. (Storing the changed user
  afterwards raises its version and sets the time of modification.)\<close>

theorem patch_identity:
  assumes "ApplyPatchOperations L u ops = Inr w"
  shows "ID w = ID u \<and> WorkspaceID w = WorkspaceID u \<and> Version w = Version u
    \<and> CreatedAt w = CreatedAt u \<and> LastModified w = LastModified u
    \<and> (UserName u = [] \<or> UserName w \<noteq> [])"
  using ApplyPatchOperations_keeps [OF assms] by (auto simp: keeps_def same_identity_def)

theorem patch_identity_witness:
  "ApplyPatchOperations plain_ext sample_user sample_ops = Inr sample_result
   \<and> ID sample_result = ''u1'' \<and> Version sample_result = 1 \<and> UserName sample_result \<noteq> []"
  using patch_identity [OF sample_run] sample_run by (simp add: sample_user_def)

text \<open>C6. After the operations of a PATCH the password field is what it was, or has been removed or emptied, or is
  what bcrypt made of a nonempty password of at most 72 bytes: what is stored of a new password is its hash.\<close>

theorem patch_password_hashed:
  assumes "ApplyPatchOperations L u ops = Inr w"
  shows "Password w = Password u \<or> Password w = None \<or> Password w = Some []
    \<or> (\<exists>p h. p \<noteq> [] \<and> length p \<le> 72 \<and> bcrypt_generate L p = Inr h \<and> Password w = Some h)"
  using ApplyPatchOperations_keeps [OF assms]
  by (auto simp: keeps_def hashed_def MaxBcryptPasswordBytes_def split: option.splits)

theorem patch_password_hashed_witness:
  "ApplyPatchOperations plain_ext sample_user sample_ops = Inr sample_result
   \<and> (\<exists>p h. p \<noteq> [] \<and> bcrypt_generate plain_ext p = Inr h \<and> Password sample_result = Some h)"
proof -
  have "Password sample_result \<notin> {Password sample_user, None, Some []}"
    by (simp add: sample_result_def sample_user_def)
  with patch_password_hashed [OF sample_run] sample_run show ?thesis by blast
qed

text \<open>C7. If at most one entry of each multi-valued attribute is primary before a PATCH request,
  the same holds after it, provided the keys of the value objects are nonempty ASCII strings
  (the two lemmas at the end of this theory show what happens otherwise).\<close>

theorem patch_single_primary:
  assumes "ApplyPatchOperations L u ops = Inr w"
    and "\<forall>op \<in> set ops. plain_value (jget op ''value'')"
    and "single_primaries u"
  shows "single_primaries w"
proof -
  from assms(1) have "rfold (applyPatchOperation L) u ops = Inr w"
    by (simp add: ApplyPatchOperations_def split: if_splits)
  then show ?thesis
    by (rule rfold_invariant [of _ _ _ _ single_primaries])
       (use assms(2,3) applyPatchOperation_single in blast)+
qed

theorem patch_single_primary_witness:
  "ApplyPatchOperations plain_ext sample_user sample_ops = Inr sample_result
   \<and> length (filter PrimaryFlag (Emails sample_result)) \<le> 1"
proof -
  have "list_all (\<lambda>op. plain_value (jget op ''value'')) sample_ops" by code_simp
  then have plain: "\<forall>op \<in> set sample_ops. plain_value (jget op ''value'')" by (simp add: list_all_iff)
  have "single_primaries sample_user" by code_simp
  from patch_single_primary [OF sample_run plain this] sample_run show ?thesis
    by (simp add: single_primaries_def single_primary_def)
qed

section \<open>Read-only attributes\<close>










text \<open>C9. The manager's display name is read-only: a PATCH request leaves it or clears it.\<close>

theorem patch_manager_display:
  assumes "ApplyPatchOperations L u ops = Inr w"
  shows "EnterpriseManagerDisplay w = EnterpriseManagerDisplay u \<or> EnterpriseManagerDisplay w = None"
  using ApplyPatchOperations_keeps [OF assms] by (simp add: keeps_def)

lemma manager_run:
  "ApplyPatchOperations plain_ext (sample_user\<lparr>EnterpriseManagerDisplay := Some ''Eve''\<rparr>)
     [patch_op ''add'' ''manager'' (JObj [(''displayName'', JStr ''Mallory'')])] = Inr sample_user"
  by code_simp

theorem patch_manager_display_witness:
  "ApplyPatchOperations plain_ext (sample_user\<lparr>EnterpriseManagerDisplay := Some ''Eve''\<rparr>)
     [patch_op ''add'' ''manager'' (JObj [(''displayName'', JStr ''Mallory'')])] = Inr sample_user
   \<and> EnterpriseManagerDisplay sample_user \<noteq> Some ''Mallory''"
  using patch_manager_display [OF manager_run] manager_run by (simp add: sample_user_def)

section \<open>Multi-valued attributes\<close>

text \<open>Deduplication keeps, in order, the first entry for each type and value up to case and
  surrounding space, unchanged except that it becomes primary if one of its duplicates is; so
  no two entries of the result are duplicates and a second pass changes nothing.\<close>

theorem dedup_emails_spec:
  "DeduplicateEmails L us =
     map (\<lambda>e. setPrimary (list_ex (\<lambda>f. valueKey L f = valueKey L e \<and> PrimaryFlag f) us) e)
       (firsts (valueKey L) [] us)
   \<and> distinct (map (valueKey L) (DeduplicateEmails L us))
   \<and> valueKey L ` set (DeduplicateEmails L us) = valueKey L ` set us
   \<and> DeduplicateEmails L (DeduplicateEmails L us) = DeduplicateEmails L us"
proof (intro conjI)
  show "DeduplicateEmails L us =
      map (\<lambda>e. setPrimary (list_ex (\<lambda>f. valueKey L f = valueKey L e \<and> PrimaryFlag f) us) e)
        (firsts (valueKey L) [] us)"
    by (simp add: DeduplicateEmails_def emails.deduplicate_spec emails.wins_def [abs_def] list_ex_iff)
qed (simp_all only: DeduplicateEmails_def emails.dedup_distinct emails.dedup_keys emails.dedup_idem)

lemma add_step_idem:
  assumes "rbind (addItems prim setp build (get u) items) (\<lambda>us. Inr (put (deduplicate key prim setp us) u)) = Inr w"
    and "\<And>us vs. addAll key prim setp build us items = Inr vs \<Longrightarrow> addAll key prim setp build vs items = Inr vs"
    and "\<And>x. get (put x u) = x" "\<And>x y. put y (put x u) = put y u"
  shows "rbind (addItems prim setp build (get w) items) (\<lambda>us. Inr (put (deduplicate key prim setp us) w)) = Inr w"
proof -
  from assms(1) obtain us where us: "addItems prim setp build (get u) items = Inr us"
    and w: "w = put (deduplicate key prim setp us) u"
    by (auto elim: rbind_InrE)
  then have "addAll key prim setp build (get u) items = Inr (get w)" by (simp add: addAll_def assms(3))
  then have "addAll key prim setp build (get w) items = Inr (get w)" by (rule assms(2))
  then obtain vs where vs: "addItems prim setp build (get w) items = Inr vs" "deduplicate key prim setp vs = get w"
    unfolding addAll_def by (elim rbind_InrE) simp
  have "get w = deduplicate key prim setp us" by (simp add: w assms(3))
  then have "put (deduplicate key prim setp vs) w = w" by (simp only: vs(2)) (simp add: w assms(4))
  with vs(1) show ?thesis by simp
qed

text \<open>Adding the same value to a multi-valued attribute twice is adding it once.\<close>

theorem patch_add_idempotent:
  assumes "addToMultiValued L u attr v = Inr w"
  shows "addToMultiValued L w attr v = Inr w"
proof -
  from assms obtain items where items: "toItemList v = Inr items" "ValidateSinglePrimary items = Inr ()"
    by (auto simp: addToMultiValued_def elim!: rbind_InrE)
  note idem = add_step_idem [where get = Emails and put = "\<lambda>x u. u\<lparr>Emails := x\<rparr>", OF _ emails.addAll_idem [OF items(2)]]
    add_step_idem [where get = PhoneNumbers and put = "\<lambda>x u. u\<lparr>PhoneNumbers := x\<rparr>", OF _ phoneNumbers.addAll_idem [OF items(2)]]
    add_step_idem [where get = Addresses and put = "\<lambda>x u. u\<lparr>Addresses := x\<rparr>", OF _ addresses.addAll_idem [OF items(2)]]
    add_step_idem [where get = Ims and put = "\<lambda>x u. u\<lparr>Ims := x\<rparr>", OF _ ims.addAll_idem [OF items(2)]]
    add_step_idem [where get = Photos and put = "\<lambda>x u. u\<lparr>Photos := x\<rparr>", OF _ photos.addAll_idem [OF items(2)]]
    add_step_idem [where get = Entitlements and put = "\<lambda>x u. u\<lparr>Entitlements := x\<rparr>", OF _ entitlements.addAll_idem [OF items(2)]]
    add_step_idem [where get = Roles and put = "\<lambda>x u. u\<lparr>Roles := x\<rparr>", OF _ roles.addAll_idem [OF items(2)]]
    add_step_idem [where get = X509Certificates and put = "\<lambda>x u. u\<lparr>X509Certificates := x\<rparr>", OF _ x509Certificates.addAll_idem [OF items(2)]]
  show ?thesis
    using assms unfolding addToMultiValued_def Deduplicate_defs
    by (simp add: items split: if_splits) (erule idem; simp)+
qed

theorem patch_add_idempotent_witness:
  "\<exists>w. addToMultiValued plain_ext sample_user ''emails'' new_email = Inr w
     \<and> addToMultiValued plain_ext w ''emails'' new_email = Inr w \<and> length (Emails w) = 3"
proof -
  let ?w = "sample_result\<lparr>Password := None\<rparr>"
  have run: "addToMultiValued plain_ext sample_user ''emails'' new_email = Inr ?w" by code_simp
  moreover have "length (Emails ?w) = 3" by (simp add: sample_result_def)
  ultimately show ?thesis using patch_add_idempotent [OF run] by blast
qed

lemma put_step:
  assumes "\<And>es. replaceItems (deduplicate key prim setp) build name (JArr xs) = Inr es \<longleftrightarrow>
      (\<exists>items. toItemList (JArr xs) = Inr items \<and> ValidateSinglePrimary items = Inr ()
        \<and> addAll key prim setp build [] items = Inr es)"
  shows "rbind (toItemList (JArr xs)) (\<lambda>items. rbind (ValidateSinglePrimary items) (\<lambda>_.
        rbind (addItems prim setp build [] items) (\<lambda>us. Inr (put (deduplicate key prim setp us))))) = Inr w \<longleftrightarrow>
      (\<exists>es. replaceItems (deduplicate key prim setp) build name (JArr xs) = Inr es \<and> w = put es)"
  by (simp add: assms rbind_eq_Inr addAll_def) blast

lemma lower_attrs [simp]:
  "ToLower L ''emails'' = ''emails''" "ToLower L ''phonenumbers'' = ''phonenumbers''"
  "ToLower L ''addresses'' = ''addresses''" "ToLower L ''ims'' = ''ims''" "ToLower L ''photos'' = ''photos''"
  "ToLower L ''entitlements'' = ''entitlements''" "ToLower L ''roles'' = ''roles''"
  "ToLower L ''x509certificates'' = ''x509certificates''"
  by code_simp+

lemma addToMultiValued_attr:
  "addToMultiValued L u ''emails'' v = rbind (toItemList v) (\<lambda>items. rbind (ValidateSinglePrimary items) (\<lambda>_.
     rbind (addItems PrimaryFlag setPrimary (buildEmail L) (Emails u) items) (\<lambda>us. Inr (u\<lparr>Emails := DeduplicateEmails L us\<rparr>))))"
  "addToMultiValued L u ''phonenumbers'' v = rbind (toItemList v) (\<lambda>items. rbind (ValidateSinglePrimary items) (\<lambda>_.
     rbind (addItems PrimaryFlag setPrimary (buildPhoneNumber L) (PhoneNumbers u) items) (\<lambda>us. Inr (u\<lparr>PhoneNumbers := DeduplicatePhoneNumbers L us\<rparr>))))"
  "addToMultiValued L u ''addresses'' v = rbind (toItemList v) (\<lambda>items. rbind (ValidateSinglePrimary items) (\<lambda>_.
     rbind (addItems AddressPrimary setAddressPrimary (buildAddress L) (Addresses u) items) (\<lambda>us. Inr (u\<lparr>Addresses := DeduplicateAddresses L us\<rparr>))))"
  "addToMultiValued L u ''ims'' v = rbind (toItemList v) (\<lambda>items. rbind (ValidateSinglePrimary items) (\<lambda>_.
     rbind (addItems PrimaryFlag setPrimary (buildIm L) (Ims u) items) (\<lambda>us. Inr (u\<lparr>Ims := DeduplicateIms L us\<rparr>))))"
  "addToMultiValued L u ''photos'' v = rbind (toItemList v) (\<lambda>items. rbind (ValidateSinglePrimary items) (\<lambda>_.
     rbind (addItems PrimaryFlag setPrimary (buildPhoto L) (Photos u) items) (\<lambda>us. Inr (u\<lparr>Photos := DeduplicatePhotos L us\<rparr>))))"
  "addToMultiValued L u ''entitlements'' v = rbind (toItemList v) (\<lambda>items. rbind (ValidateSinglePrimary items) (\<lambda>_.
     rbind (addItems PrimaryFlag setPrimary (buildEntitlement L) (Entitlements u) items) (\<lambda>us. Inr (u\<lparr>Entitlements := DeduplicateEntitlements L us\<rparr>))))"
  "addToMultiValued L u ''roles'' v = rbind (toItemList v) (\<lambda>items. rbind (ValidateSinglePrimary items) (\<lambda>_.
     rbind (addItems PrimaryFlag setPrimary (buildRole L) (Roles u) items) (\<lambda>us. Inr (u\<lparr>Roles := DeduplicateRoles L us\<rparr>))))"
  "addToMultiValued L u ''x509certificates'' v = rbind (toItemList v) (\<lambda>items. rbind (ValidateSinglePrimary items) (\<lambda>_.
     rbind (addItems PrimaryFlag setPrimary (buildX509Certificate L) (X509Certificates u) items) (\<lambda>us. Inr (u\<lparr>X509Certificates := DeduplicateX509Certificates L us\<rparr>))))"
  by (simp_all add: addToMultiValued_def cong: sum.case_cong)

text \<open>C12. A PATCH replace of a whole multi-valued attribute with an array stores exactly what a
  PUT with the same array stores in that attribute, and leaves every other attribute alone; it
  fails if and only if the PUT would. A single object PATCH takes for the array of that object, while PUT refuses it
  with 400.\<close>

theorem patch_replace_is_put:
  "(replaceMultiValued L u ''emails'' (JArr xs) = Inr w \<longleftrightarrow>
      (\<exists>es. replaceCollectionEmails L (JArr xs) = Inr es \<and> w = u\<lparr>Emails := es\<rparr>))
   \<and> (replaceMultiValued L u ''phonenumbers'' (JArr xs) = Inr w \<longleftrightarrow>
      (\<exists>es. replaceCollectionPhoneNumbers L (JArr xs) = Inr es \<and> w = u\<lparr>PhoneNumbers := es\<rparr>))
   \<and> (replaceMultiValued L u ''addresses'' (JArr xs) = Inr w \<longleftrightarrow>
      (\<exists>es. replaceCollectionAddresses L (JArr xs) = Inr es \<and> w = u\<lparr>Addresses := es\<rparr>))
   \<and> (replaceMultiValued L u ''ims'' (JArr xs) = Inr w \<longleftrightarrow>
      (\<exists>es. replaceCollectionIms L (JArr xs) = Inr es \<and> w = u\<lparr>Ims := es\<rparr>))
   \<and> (replaceMultiValued L u ''photos'' (JArr xs) = Inr w \<longleftrightarrow>
      (\<exists>es. replaceCollectionPhotos L (JArr xs) = Inr es \<and> w = u\<lparr>Photos := es\<rparr>))
   \<and> (replaceMultiValued L u ''entitlements'' (JArr xs) = Inr w \<longleftrightarrow>
      (\<exists>es. replaceCollectionEntitlements L (JArr xs) = Inr es \<and> w = u\<lparr>Entitlements := es\<rparr>))
   \<and> (replaceMultiValued L u ''roles'' (JArr xs) = Inr w \<longleftrightarrow>
      (\<exists>es. replaceCollectionRoles L (JArr xs) = Inr es \<and> w = u\<lparr>Roles := es\<rparr>))
   \<and> (replaceMultiValued L u ''x509certificates'' (JArr xs) = Inr w \<longleftrightarrow>
      (\<exists>es. replaceCollectionX509Certificates L (JArr xs) = Inr es \<and> w = u\<lparr>X509Certificates := es\<rparr>))
   \<and> replaceMultiValued L u attr (JObj m) = replaceMultiValued L u attr (JArr [JObj m])
   \<and> (\<exists>e. replaceCollectionEmails L (JObj m) = Inl e \<and> Status e = 400)
   \<and> (\<exists>e. replaceCollectionPhoneNumbers L (JObj m) = Inl e \<and> Status e = 400)
   \<and> (\<exists>e. replaceCollectionAddresses L (JObj m) = Inl e \<and> Status e = 400)
   \<and> (\<exists>e. replaceCollectionIms L (JObj m) = Inl e \<and> Status e = 400)
   \<and> (\<exists>e. replaceCollectionPhotos L (JObj m) = Inl e \<and> Status e = 400)
   \<and> (\<exists>e. replaceCollectionEntitlements L (JObj m) = Inl e \<and> Status e = 400)
   \<and> (\<exists>e. replaceCollectionRoles L (JObj m) = Inl e \<and> Status e = 400)
   \<and> (\<exists>e. replaceCollectionX509Certificates L (JObj m) = Inl e \<and> Status e = 400)"
proof -
  have one: "replaceMultiValued L u attr (JObj m) = replaceMultiValued L u attr (JArr [JObj m])"
  proof -
    have "toItemList (JObj m) = toItemList (JArr [JObj m])" by (simp add: toItemList_def)
    then have "addToMultiValued L v attr (JObj m) = addToMultiValued L v attr (JArr [JObj m])" for v
      by (simp only: addToMultiValued_def)
    then show ?thesis unfolding replaceMultiValued_def by (simp only: json.distinct if_False)
  qed
  have refused: "\<exists>e. replaceItems dedup build name (JObj m) = Inl e \<and> Status e = 400"
    for dedup :: "'z list \<Rightarrow> 'z list" and build name
    by (simp add: replaceItems_def extractMapSlice_def NewScimError_def)
  show ?thesis
    unfolding one
    unfolding replaceMultiValued_def addToMultiValued_attr replaceCollection_defs Deduplicate_defs
    by (simp add: clearAttribute_def cong: sum.case_cong)
       (intro conjI refused put_step [OF emails.replace_is_clear_add] put_step [OF phoneNumbers.replace_is_clear_add]
         put_step [OF addresses.replace_is_clear_add] put_step [OF ims.replace_is_clear_add]
         put_step [OF photos.replace_is_clear_add] put_step [OF entitlements.replace_is_clear_add]
         put_step [OF roles.replace_is_clear_add] put_step [OF x509Certificates.replace_is_clear_add])
qed

section \<open>Filtered updates\<close>

text \<open>The entries that match a filter are updated one by one and the others stay; without a match there is no
  target.\<close>

definition updateSelected :: "string \<Rightarrow> ('a \<Rightarrow> bool) \<Rightarrow> ('a \<Rightarrow> 'a res) \<Rightarrow> 'a list \<Rightarrow> ('a list \<Rightarrow> ScimUser) \<Rightarrow> ScimUser res" where
  "updateSelected flt matches upd us put =
     (if list_ex matches us then rbind (rmap (\<lambda>e. if matches e then upd e else Inr e) us) (\<lambda>es. Inr (put es))
      else Inl (NewScimError 400 ''noTarget'' (''No matching item found for filter: '' @ flt)))"

lemma update_step:
  assumes "\<And>us. updateMatching setp matches upd False us =
      rbind (rmap (\<lambda>x. if matches x then upd x else Inr x) us) (\<lambda>vs. Inr (vs, list_ex matches us))"
  shows "finishUpdate flt (updateMatching setp matches upd False us) put = updateSelected flt matches upd us put"
proof -
  have "rmap (\<lambda>e. if matches e then upd e else Inr e) us = Inr us" if "\<not> list_ex matches us"
    using that by (induction us) auto
  then show ?thesis by (auto simp: assms finishUpdate_def updateSelected_def split: sum.splits)
qed

text \<open>C13. A PATCH on the entries of a multi-valued attribute that a filter selects, when its value does not set the
  primary flag, updates every matching entry by itself and no other, and then merges duplicates; if no entry matches
  it fails with \<^verbatim>\<open>noTarget\<close> and if the new value is invalid with its error. This holds for each of the eight
  multi-valued attributes.\<close>

theorem patch_filtered_update:
  assumes "\<not> setsPrimaryTrue L sub v" and "parseEqFilter L flt \<noteq> None"
  shows "applyFilteredUpdate L u ''emails'' flt sub v =
      updateSelected flt (matchesEmailFilter L flt) (\<lambda>e. setEmailSubAttribute L e sub v) (Emails u)
        (\<lambda>es. u\<lparr>Emails := DeduplicateEmails L es\<rparr>)
    \<and> applyFilteredUpdate L u ''phonenumbers'' flt sub v =
      updateSelected flt (matchesPhoneFilter L flt) (\<lambda>e. setPhoneSubAttribute L e sub v) (PhoneNumbers u)
        (\<lambda>es. u\<lparr>PhoneNumbers := DeduplicatePhoneNumbers L es\<rparr>)
    \<and> applyFilteredUpdate L u ''addresses'' flt sub v =
      updateSelected flt (matchesAddressFilter L flt) (\<lambda>e. setAddressSubAttribute L e sub v) (Addresses u)
        (\<lambda>es. u\<lparr>Addresses := DeduplicateAddresses L es\<rparr>)
    \<and> applyFilteredUpdate L u ''ims'' flt sub v =
      updateSelected flt (matchesImFilter L flt) (\<lambda>e. setImSubAttribute L e sub v) (Ims u)
        (\<lambda>es. u\<lparr>Ims := DeduplicateIms L es\<rparr>)
    \<and> applyFilteredUpdate L u ''photos'' flt sub v =
      updateSelected flt (matchesPhotoFilter L flt) (\<lambda>e. setPhotoSubAttribute L e sub v) (Photos u)
        (\<lambda>es. u\<lparr>Photos := DeduplicatePhotos L es\<rparr>)
    \<and> applyFilteredUpdate L u ''entitlements'' flt sub v =
      updateSelected flt (matchesEntitlementFilter L flt) (\<lambda>e. setEntitlementSubAttribute L e sub v) (Entitlements u)
        (\<lambda>es. u\<lparr>Entitlements := DeduplicateEntitlements L es\<rparr>)
    \<and> applyFilteredUpdate L u ''roles'' flt sub v =
      updateSelected flt (matchesRoleFilter L flt) (\<lambda>e. setRoleSubAttribute L e sub v) (Roles u)
        (\<lambda>es. u\<lparr>Roles := DeduplicateRoles L es\<rparr>)
    \<and> applyFilteredUpdate L u ''x509certificates'' flt sub v =
      updateSelected flt (matchesCertFilter L flt) (\<lambda>e. setCertSubAttribute L e sub v) (X509Certificates u)
        (\<lambda>es. u\<lparr>X509Certificates := DeduplicateX509Certificates L es\<rparr>)"
  using assms
  by (cases "parseEqFilter L flt")
    (simp_all add: applyFilteredUpdate_def update_step [OF emails.updateMatching_pointwise]
      update_step [OF addresses.updateMatching_pointwise])

definition home_filter :: string where
  "home_filter = ''type eq '' @ [dquote] @ ''home'' @ [dquote]"

theorem patch_filtered_update_witness:
  "applyFilteredUpdate plain_ext sample_user ''emails'' home_filter ''display'' (JStr ''Bea'') =
     Inr (sample_user\<lparr>Emails :=
       [\<lparr>Value = ''a@x'', Type = ''work'', Display = [], PrimaryFlag = True\<rparr>,
        \<lparr>Value = ''b@x'', Type = ''home'', Display = ''Bea'', PrimaryFlag = False\<rparr>]\<rparr>)"
proof -
  have no: "\<not> setsPrimaryTrue plain_ext ''display'' (JStr ''Bea'')" by code_simp
  have flt: "parseEqFilter plain_ext home_filter \<noteq> None" by code_simp
  have match: "list_ex (matchesEmailFilter plain_ext home_filter) (Emails sample_user)" by code_simp
  have run: "rmap (\<lambda>e. if matchesEmailFilter plain_ext home_filter e
        then setEmailSubAttribute plain_ext e ''display'' (JStr ''Bea'') else Inr e) (Emails sample_user) =
      Inr [\<lparr>Value = ''a@x'', Type = ''work'', Display = [], PrimaryFlag = True\<rparr>,
           \<lparr>Value = ''b@x'', Type = ''home'', Display = ''Bea'', PrimaryFlag = False\<rparr>]"
    by code_simp
  have dedup: "DeduplicateEmails plain_ext
        [\<lparr>Value = ''a@x'', Type = ''work'', Display = [], PrimaryFlag = True\<rparr>,
         \<lparr>Value = ''b@x'', Type = ''home'', Display = ''Bea'', PrimaryFlag = False\<rparr>] =
      [\<lparr>Value = ''a@x'', Type = ''work'', Display = [], PrimaryFlag = True\<rparr>,
       \<lparr>Value = ''b@x'', Type = ''home'', Display = ''Bea'', PrimaryFlag = False\<rparr>]"
    by code_simp
  show ?thesis
    using match by (simp only: patch_filtered_update [OF no flt, THEN conjunct1] updateSelected_def run if_True sum.case dedup)
qed

section \<open>Where the code departs from its rules\<close>

text \<open>Setting the flag through an empty key of a value object is not noticed by
  \<^verbatim>\<open>setsPrimaryTrue\<close>: two entries are primary afterwards.\<close>

lemma nested_key_breaks_single_primary:
  "\<exists>w. ApplyPatchOperations plain_ext sample_user
       [patch_op ''replace'' (''emails['' @ home_filter @ '']'') (JObj [([], JObj [(''primary'', JBool True)])])] = Inr w
     \<and> length (filter PrimaryFlag (Emails w)) = 2"
proof -
  let ?w = "sample_user\<lparr>Emails :=
      [\<lparr>Value = ''a@x'', Type = ''work'', Display = [], PrimaryFlag = True\<rparr>,
       \<lparr>Value = ''b@x'', Type = ''home'', Display = [], PrimaryFlag = True\<rparr>]\<rparr>"
  have "ApplyPatchOperations plain_ext sample_user
      [patch_op ''replace'' (''emails['' @ home_filter @ '']'') (JObj [([], JObj [(''primary'', JBool True)])])] = Inr ?w"
    by code_simp
  then show ?thesis by force
qed

text \<open>Nor is a key with the letter U+0130, which Go lowers to a plain \<^verbatim>\<open>i\<close> but does not fold to it.\<close>

definition dotted_ext :: ext where
  "dotted_ext = plain_ext\<lparr>rune_lower := \<lambda>r. if r = [CHR 0xC4, CHR 0xB0] then ''i'' else r\<rparr>"

lemma dotted_key_breaks_single_primary:
  "\<exists>w. ApplyPatchOperations dotted_ext sample_user
       [patch_op ''replace'' (''emails['' @ home_filter @ '']'')
          (JObj [(''pr'' @ [CHR 0xC4, CHR 0xB0] @ ''mary'', JBool True)])] = Inr w
     \<and> length (filter PrimaryFlag (Emails w)) = 2"
proof -
  let ?w = "sample_user\<lparr>Emails :=
      [\<lparr>Value = ''a@x'', Type = ''work'', Display = [], PrimaryFlag = True\<rparr>,
       \<lparr>Value = ''b@x'', Type = ''home'', Display = [], PrimaryFlag = True\<rparr>]\<rparr>"
  have "ApplyPatchOperations dotted_ext sample_user
      [patch_op ''replace'' (''emails['' @ home_filter @ '']'')
        (JObj [(''pr'' @ [CHR 0xC4, CHR 0xB0] @ ''mary'', JBool True)])] = Inr ?w"
    by code_simp
  then show ?thesis by force
qed

text \<open>Removing a sub-attribute of the filtered entries removes the entries: the third group of
  the path is not looked at.\<close>

lemma filtered_remove_ignores_sub:
  assumes "filteredPath path = Some (coll, flt, sub)" "filteredPath path' = Some (coll, flt, sub')"
    and "path \<noteq> []" "path' \<noteq> []"
  shows "applyRemove L u path = applyRemove L u path'"
  using assms by (simp add: applyRemove_def)

text \<open>An add to a filtered path of an unknown attribute succeeds and does nothing.\<close>

lemma add_unknown_collection_ignored:
  "ApplyPatchOperations plain_ext sample_user
     [patch_op ''add'' (''groups['' @ home_filter @ '']'') (JObj [(''value'', JStr ''g1'')])] = Inr sample_user"
  by code_simp

end
