(* ===== verification/Mapper.thy ===== *)
theory Mapper
  imports Patch
begin

text \<open>
  \<^verbatim>\<open>internal/scim/mapper.go\<close>: users and groups from and to SCIM JSON. A response object is the
  list of its members in the order in which the code puts them; a later put of a member replaces it.
\<close>

section \<open>Reading a user (POST and PUT)\<close>

text \<open>The block \<^verbatim>\<open>if v, ok := input[key]; ok\<close> for an attribute that is a string.\<close>

definition applyText :: "ext \<Rightarrow> json_object \<Rightarrow> string \<Rightarrow> string \<Rightarrow> (string option \<Rightarrow> ScimUser) \<Rightarrow> ScimUser
    \<Rightarrow> ScimUser res" where
  "applyText L input key name f user =
     (case map_of input key of
        None \<Rightarrow> Inr user
      | Some v \<Rightarrow> rbind (parseStrictStringPtr L v name) (\<lambda>s. Inr (f s)))"

definition applyUserName :: "ext \<Rightarrow> json_object \<Rightarrow> ScimUser \<Rightarrow> ScimUser res" where
  "applyUserName L input user =
     (case map_of input ''userName'' of
        None \<Rightarrow> Inr user
      | Some v \<Rightarrow>
          if v = JNull then invalidValue ''userName is required''
          else rbind (parseStrictStringPtr L v ''userName'') (\<lambda>s.
            if s = None \<or> s = Some [] then invalidValue ''userName is required''
            else Inr (user\<lparr>UserName := the s\<rparr>)))"

definition applyProfileUrl :: "ext \<Rightarrow> json_object \<Rightarrow> ScimUser \<Rightarrow> ScimUser res" where
  "applyProfileUrl L input user =
     (case map_of input ''profileUrl'' of None \<Rightarrow> Inr user | Some v \<Rightarrow> setProfileUrl L user v)"

definition applyActive :: "json_object \<Rightarrow> ScimUser \<Rightarrow> ScimUser res" where
  "applyActive input user =
     (if jget input ''active'' = JNull then Inr (user\<lparr>Active := True\<rparr>)
      else rbind (parseStrictBool (jget input ''active'') ''active'') (\<lambda>b. Inr (user\<lparr>Active := b\<rparr>)))"

definition applyPassword :: "ext \<Rightarrow> json_object \<Rightarrow> ScimUser \<Rightarrow> ScimUser res" where
  "applyPassword L input user =
     (case map_of input ''password'' of
        None \<Rightarrow> Inr user
      | Some v \<Rightarrow> rbind (parseRawStringPtr v ''password'') (\<lambda>rawPw.
          rbind (HashPassword L rawPw) (\<lambda>pw. Inr (user\<lparr>Password := pw\<rparr>))))"

definition applySimpleAttributes :: "ext \<Rightarrow> ScimUser \<Rightarrow> json_object \<Rightarrow> ScimUser res" where
  "applySimpleAttributes L user input =
     rbind (applyUserName L input user) (\<lambda>u.
     rbind (applyText L input ''externalId'' ''externalId'' (\<lambda>s. u\<lparr>ExternalID := s\<rparr>) u) (\<lambda>u.
     rbind (applyText L input ''displayName'' ''displayName'' (\<lambda>s. u\<lparr>DisplayName := s\<rparr>) u) (\<lambda>u.
     rbind (applyText L input ''nickName'' ''nickName'' (\<lambda>s. u\<lparr>NickName := s\<rparr>) u) (\<lambda>u.
     rbind (applyProfileUrl L input u) (\<lambda>u.
     rbind (applyText L input ''title'' ''title'' (\<lambda>s. u\<lparr>Title := s\<rparr>) u) (\<lambda>u.
     rbind (applyText L input ''userType'' ''userType'' (\<lambda>s. u\<lparr>UserType := s\<rparr>) u) (\<lambda>u.
     rbind (applyText L input ''preferredLanguage'' ''preferredLanguage''
       (\<lambda>s. u\<lparr>PreferredLanguage := s\<rparr>) u) (\<lambda>u.
     rbind (applyText L input ''locale'' ''locale'' (\<lambda>s. u\<lparr>Locale := s\<rparr>) u) (\<lambda>u.
     rbind (applyText L input ''timezone'' ''timezone'' (\<lambda>s. u\<lparr>Timezone := s\<rparr>) u) (\<lambda>u.
     rbind (applyActive input u) (\<lambda>u. applyPassword L input u)))))))))))"

definition applyNameAttribute :: "ext \<Rightarrow> ScimUser \<Rightarrow> json_object \<Rightarrow> ScimUser res" where
  "applyNameAttribute L user input =
     (case jget input ''name'' of
        JNull \<Rightarrow> Inr user
      | JObj m \<Rightarrow>
          rbind (applyText L m ''formatted'' ''name.formatted'' (\<lambda>s. user\<lparr>NameFormatted := s\<rparr>) user) (\<lambda>u.
          rbind (applyText L m ''familyName'' ''name.familyName'' (\<lambda>s. u\<lparr>NameFamilyName := s\<rparr>) u) (\<lambda>u.
          rbind (applyText L m ''givenName'' ''name.givenName'' (\<lambda>s. u\<lparr>NameGivenName := s\<rparr>) u) (\<lambda>u.
          rbind (applyText L m ''middleName'' ''name.middleName'' (\<lambda>s. u\<lparr>NameMiddleName := s\<rparr>) u) (\<lambda>u.
          rbind (applyText L m ''honorificPrefix'' ''name.honorificPrefix'' (\<lambda>s. u\<lparr>NameHonorificPrefix := s\<rparr>) u) (\<lambda>u.
          applyText L m ''honorificSuffix'' ''name.honorificSuffix'' (\<lambda>s. u\<lparr>NameHonorificSuffix := s\<rparr>) u)))))
      | _ \<Rightarrow> invalidValue (''Attribute '' @ quoted ''name'' @ '' must be an object''))"

text \<open>\<^verbatim>\<open>applyEnterpriseManager\<close>; its test on the stored value looks at what was just stored.\<close>

definition enterpriseManagerRef :: "ext \<Rightarrow> ScimUser \<Rightarrow> string option option \<Rightarrow> json \<Rightarrow> ScimUser res" where
  "enterpriseManagerRef L user parsed ref =
     rbind (parseStrictStringPtr L ref ''manager.$ref'') (\<lambda>s.
       let u = user\<lparr>EnterpriseManagerRef := s\<rparr> in
       if blank s then Inr u
       else
        (let refUUID = ExtractUUIDFromRef L (the s) in
         if parsed \<noteq> None \<and> \<not> blank (the parsed) then
           (if refUUID \<noteq> [] \<and> \<not> EqualFold L refUUID (TrimSpace (the (the parsed))) then
              invalidValue ''manager.value and manager.$ref refer to different resource IDs''
            else Inr u)
         else if refUUID \<noteq> [] \<and> (parsed = None \<or> blank (EnterpriseManagerValue u)) then
           Inr (u\<lparr>EnterpriseManagerValue := Some refUUID\<rparr>)
         else Inr u))"

definition applyEnterpriseManager :: "ext \<Rightarrow> ScimUser \<Rightarrow> json \<Rightarrow> ScimUser res" where
  "applyEnterpriseManager L user mgrRaw =
     (case mgrRaw of
        JNull \<Rightarrow> Inr (clearManager user)
      | JStr s \<Rightarrow> Inr (user\<lparr>EnterpriseManagerValue := Some (NormalizeNFC L s), EnterpriseManagerDisplay := None\<rparr>)
      | JObj m \<Rightarrow>
          rbind (case map_of m ''value'' of
              None \<Rightarrow> Inr (user, None)
            | Some v \<Rightarrow> rbind (parseStrictStringPtr L v ''manager.value'') (\<lambda>s.
                Inr (user\<lparr>EnterpriseManagerValue := s\<rparr>, Some s))) (\<lambda>(u1, parsed).
          rbind (case map_of m ''$ref'' of None \<Rightarrow> Inr u1 | Some ref \<Rightarrow> enterpriseManagerRef L u1 parsed ref)
            (\<lambda>u2. Inr (u2\<lparr>EnterpriseManagerDisplay := None\<rparr>)))
      | _ \<Rightarrow> invalidValue (''Attribute '' @ quoted ''manager'' @ '' must be an object or string''))"

text \<open>The extension is the first member whose name folds to the schema URN.\<close>

definition EnterpriseSchemaURN :: string where
  "EnterpriseSchemaURN = ''urn:ietf:params:scim:schemas:extension:enterprise:2.0:User''"

definition UserSchemaURN :: string where
  "UserSchemaURN = ''urn:ietf:params:scim:schemas:core:2.0:User''"

definition GroupSchemaURN :: string where
  "GroupSchemaURN = ''urn:ietf:params:scim:schemas:core:2.0:Group''"

definition applyEnterpriseExtension :: "ext \<Rightarrow> ScimUser \<Rightarrow> json_object \<Rightarrow> ScimUser res" where
  "applyEnterpriseExtension L user input =
     (case find (\<lambda>(k, v). EqualFold L k EnterpriseSchemaURN) input of
        None \<Rightarrow> Inr user
      | Some (k, JNull) \<Rightarrow> Inr user
      | Some (k, JObj m) \<Rightarrow>
          rbind (applyText L m ''employeeNumber'' ''employeeNumber'' (\<lambda>s. user\<lparr>EnterpriseEmployeeNumber := s\<rparr>) user) (\<lambda>u.
          rbind (applyText L m ''costCenter'' ''costCenter'' (\<lambda>s. u\<lparr>EnterpriseCostCenter := s\<rparr>) u) (\<lambda>u.
          rbind (applyText L m ''organization'' ''organization'' (\<lambda>s. u\<lparr>EnterpriseOrganization := s\<rparr>) u) (\<lambda>u.
          rbind (applyText L m ''division'' ''division'' (\<lambda>s. u\<lparr>EnterpriseDivision := s\<rparr>) u) (\<lambda>u.
          rbind (applyText L m ''department'' ''department'' (\<lambda>s. u\<lparr>EnterpriseDepartment := s\<rparr>) u) (\<lambda>u.
          case map_of m ''manager'' of None \<Rightarrow> Inr u | Some mgr \<Rightarrow> applyEnterpriseManager L u mgr)))))
      | Some _ \<Rightarrow> invalidValue ''Enterprise extension must be an object'')"

definition applyList :: "json_object \<Rightarrow> string \<Rightarrow> (json \<Rightarrow> 'a list res) \<Rightarrow> ('a list \<Rightarrow> ScimUser) \<Rightarrow> ScimUser
    \<Rightarrow> ScimUser res" where
  "applyList input key replace f user =
     (case map_of input key of None \<Rightarrow> Inr user | Some v \<Rightarrow> rbind (replace v) (\<lambda>col. Inr (f col)))"

definition applyCollections :: "ext \<Rightarrow> ScimUser \<Rightarrow> json_object \<Rightarrow> ScimUser res" where
  "applyCollections L user input =
     rbind (applyList input ''emails'' (replaceCollectionEmails L) (\<lambda>c. user\<lparr>Emails := c\<rparr>) user) (\<lambda>u.
     rbind (applyList input ''phoneNumbers'' (replaceCollectionPhoneNumbers L) (\<lambda>c. u\<lparr>PhoneNumbers := c\<rparr>) u) (\<lambda>u.
     rbind (applyList input ''addresses'' (replaceCollectionAddresses L) (\<lambda>c. u\<lparr>Addresses := c\<rparr>) u) (\<lambda>u.
     rbind (applyList input ''ims'' (replaceCollectionIms L) (\<lambda>c. u\<lparr>Ims := c\<rparr>) u) (\<lambda>u.
     rbind (applyList input ''photos'' (replaceCollectionPhotos L) (\<lambda>c. u\<lparr>Photos := c\<rparr>) u) (\<lambda>u.
     rbind (applyList input ''entitlements'' (replaceCollectionEntitlements L) (\<lambda>c. u\<lparr>Entitlements := c\<rparr>) u) (\<lambda>u.
     rbind (applyList input ''roles'' (replaceCollectionRoles L) (\<lambda>c. u\<lparr>Roles := c\<rparr>) u) (\<lambda>u.
     applyList input ''x509Certificates'' (replaceCollectionX509Certificates L) (\<lambda>c. u\<lparr>X509Certificates := c\<rparr>) u)))))))"

definition ApplyFromScimInput :: "ext \<Rightarrow> ScimUser \<Rightarrow> json_object \<Rightarrow> ScimUser res" where
  "ApplyFromScimInput L user input =
     rbind (applySimpleAttributes L user input) (\<lambda>u.
     rbind (applyNameAttribute L u input) (\<lambda>u.
     rbind (applyCollections L u input) (\<lambda>u. applyEnterpriseExtension L u input)))"

definition ClearMutableAttributes :: "ScimUser \<Rightarrow> ScimUser" where
  "ClearMutableAttributes user = user\<lparr>ExternalID := None, NameFormatted := None, NameFamilyName := None,
     NameGivenName := None, NameMiddleName := None, NameHonorificPrefix := None,
     NameHonorificSuffix := None, DisplayName := None, NickName := None, ProfileUrl := None,
     Title := None, UserType := None, PreferredLanguage := None, Locale := None, Timezone := None,
     Active := True, Password := None, Emails := [], PhoneNumbers := [], Addresses := [], Ims := [],
     Photos := [], Entitlements := [], Roles := [], X509Certificates := [],
     EnterpriseEmployeeNumber := None, EnterpriseCostCenter := None, EnterpriseOrganization := None,
     EnterpriseDivision := None, EnterpriseDepartment := None, EnterpriseManagerValue := None,
     EnterpriseManagerRef := None, EnterpriseManagerDisplay := None\<rparr>"

section \<open>Copies and comparison\<close>

text \<open>Values are not shared in the model, so a deep copy is the value; a nil pointer has no copy.\<close>

definition cloneStrPtr :: "string option \<Rightarrow> string option" where
  "cloneStrPtr s = (case s of None \<Rightarrow> None | Some v \<Rightarrow> Some v)"

definition CloneScimUser :: "ScimUser \<Rightarrow> ScimUser" where
  "CloneScimUser u = u\<lparr>ExternalID := cloneStrPtr (ExternalID u),
     NameFormatted := cloneStrPtr (NameFormatted u), NameFamilyName := cloneStrPtr (NameFamilyName u),
     NameGivenName := cloneStrPtr (NameGivenName u), NameMiddleName := cloneStrPtr (NameMiddleName u),
     NameHonorificPrefix := cloneStrPtr (NameHonorificPrefix u),
     NameHonorificSuffix := cloneStrPtr (NameHonorificSuffix u),
     DisplayName := cloneStrPtr (DisplayName u), NickName := cloneStrPtr (NickName u),
     ProfileUrl := cloneStrPtr (ProfileUrl u), Title := cloneStrPtr (Title u),
     UserType := cloneStrPtr (UserType u), PreferredLanguage := cloneStrPtr (PreferredLanguage u),
     Locale := cloneStrPtr (Locale u), Timezone := cloneStrPtr (Timezone u),
     Password := cloneStrPtr (Password u),
     EnterpriseEmployeeNumber := cloneStrPtr (EnterpriseEmployeeNumber u),
     EnterpriseCostCenter := cloneStrPtr (EnterpriseCostCenter u),
     EnterpriseOrganization := cloneStrPtr (EnterpriseOrganization u),
     EnterpriseDivision := cloneStrPtr (EnterpriseDivision u),
     EnterpriseDepartment := cloneStrPtr (EnterpriseDepartment u),
     EnterpriseManagerValue := cloneStrPtr (EnterpriseManagerValue u),
     EnterpriseManagerRef := cloneStrPtr (EnterpriseManagerRef u),
     EnterpriseManagerDisplay := cloneStrPtr (EnterpriseManagerDisplay u),
     Emails := [] @ Emails u, PhoneNumbers := [] @ PhoneNumbers u, Addresses := [] @ Addresses u,
     Entitlements := [] @ Entitlements u, Roles := [] @ Roles u, Ims := [] @ Ims u,
     Photos := [] @ Photos u, X509Certificates := [] @ X509Certificates u\<rparr>"

definition strPtrEqual :: "string option \<Rightarrow> string option \<Rightarrow> bool" where
  "strPtrEqual a b =
     (if a = None \<and> b = None then True else if a = None \<or> b = None then False else the a = the b)"

definition sliceEqual :: "'a list \<Rightarrow> 'a list \<Rightarrow> bool" where
  "sliceEqual a b = (if length a = 0 \<and> length b = 0 then True else a = b)"

definition ScimUserMutableEqual :: "ScimUser \<Rightarrow> ScimUser \<Rightarrow> bool" where
  "ScimUserMutableEqual a b \<longleftrightarrow>
     UserName a = UserName b \<and> strPtrEqual (ExternalID a) (ExternalID b)
     \<and> strPtrEqual (NameFormatted a) (NameFormatted b) \<and> strPtrEqual (NameFamilyName a) (NameFamilyName b)
     \<and> strPtrEqual (NameGivenName a) (NameGivenName b) \<and> strPtrEqual (NameMiddleName a) (NameMiddleName b)
     \<and> strPtrEqual (NameHonorificPrefix a) (NameHonorificPrefix b)
     \<and> strPtrEqual (NameHonorificSuffix a) (NameHonorificSuffix b)
     \<and> strPtrEqual (DisplayName a) (DisplayName b) \<and> strPtrEqual (NickName a) (NickName b)
     \<and> strPtrEqual (ProfileUrl a) (ProfileUrl b) \<and> strPtrEqual (Title a) (Title b)
     \<and> strPtrEqual (UserType a) (UserType b) \<and> strPtrEqual (PreferredLanguage a) (PreferredLanguage b)
     \<and> strPtrEqual (Locale a) (Locale b) \<and> strPtrEqual (Timezone a) (Timezone b)
     \<and> Active a = Active b \<and> strPtrEqual (Password a) (Password b)
     \<and> strPtrEqual (EnterpriseEmployeeNumber a) (EnterpriseEmployeeNumber b)
     \<and> strPtrEqual (EnterpriseCostCenter a) (EnterpriseCostCenter b)
     \<and> strPtrEqual (EnterpriseOrganization a) (EnterpriseOrganization b)
     \<and> strPtrEqual (EnterpriseDivision a) (EnterpriseDivision b)
     \<and> strPtrEqual (EnterpriseDepartment a) (EnterpriseDepartment b)
     \<and> strPtrEqual (EnterpriseManagerValue a) (EnterpriseManagerValue b)
     \<and> strPtrEqual (EnterpriseManagerRef a) (EnterpriseManagerRef b)
     \<and> strPtrEqual (EnterpriseManagerDisplay a) (EnterpriseManagerDisplay b)
     \<and> sliceEqual (Emails a) (Emails b) \<and> sliceEqual (PhoneNumbers a) (PhoneNumbers b)
     \<and> sliceEqual (Addresses a) (Addresses b) \<and> sliceEqual (Entitlements a) (Entitlements b)
     \<and> sliceEqual (Roles a) (Roles b) \<and> sliceEqual (Ims a) (Ims b) \<and> sliceEqual (Photos a) (Photos b)
     \<and> sliceEqual (X509Certificates a) (X509Certificates b)"

section \<open>Responses\<close>

definition putIfNotNull :: "json_object \<Rightarrow> string \<Rightarrow> string option \<Rightarrow> json_object" where
  "putIfNotNull m key v = (case v of None \<Rightarrow> m | Some s \<Rightarrow> jput m key (JStr s))"

definition putCollection :: "json_object \<Rightarrow> string \<Rightarrow> json_object list \<Rightarrow> json_object" where
  "putCollection m key items = (if items \<noteq> [] then jput m key (JArr (map JObj items)) else m)"

definition hasEnterpriseData :: "ScimUser \<Rightarrow> bool" where
  "hasEnterpriseData user \<longleftrightarrow> EnterpriseEmployeeNumber user \<noteq> None \<or> EnterpriseCostCenter user \<noteq> None
     \<or> EnterpriseOrganization user \<noteq> None \<or> EnterpriseDivision user \<noteq> None
     \<or> EnterpriseDepartment user \<noteq> None \<or> EnterpriseManagerValue user \<noteq> None"

definition buildNameMap :: "ScimUser \<Rightarrow> json_object" where
  "buildNameMap user =
     (let nm = putIfNotNull [] ''formatted'' (NameFormatted user);
          nm = putIfNotNull nm ''familyName'' (NameFamilyName user);
          nm = putIfNotNull nm ''givenName'' (NameGivenName user);
          nm = putIfNotNull nm ''middleName'' (NameMiddleName user);
          nm = putIfNotNull nm ''honorificPrefix'' (NameHonorificPrefix user)
      in putIfNotNull nm ''honorificSuffix'' (NameHonorificSuffix user))"

definition buildManagerMap :: "ScimUser \<Rightarrow> json_object" where
  "buildManagerMap user =
     (let mm = putIfNotNull [] ''value'' (EnterpriseManagerValue user);
          mm = putIfNotNull mm ''$ref'' (EnterpriseManagerRef user)
      in putIfNotNull mm ''displayName'' (EnterpriseManagerDisplay user))"

definition buildUserMeta :: "ext \<Rightarrow> ScimUser \<Rightarrow> string \<Rightarrow> json_object" where
  "buildUserMeta L user baseURL =
     [(''resourceType'', JStr ''User''),
      (''created'', JStr (time_format L TimeRFC3339 (CreatedAt user))),
      (''lastModified'', JStr (time_format L TimeRFC3339 (LastModified user))),
      (''location'', JStr (baseURL @ ''/Users/'' @ ID user)),
      (''version'', JStr (''W/'' @ [dquote] @ itoa_int (Version user) @ [dquote]))]"

definition enterpriseMap :: "ScimUser \<Rightarrow> json_object" where
  "enterpriseMap user =
     (let e = putIfNotNull [] ''employeeNumber'' (EnterpriseEmployeeNumber user);
          e = putIfNotNull e ''costCenter'' (EnterpriseCostCenter user);
          e = putIfNotNull e ''organization'' (EnterpriseOrganization user);
          e = putIfNotNull e ''division'' (EnterpriseDivision user);
          e = putIfNotNull e ''department'' (EnterpriseDepartment user)
      in if buildManagerMap user \<noteq> [] then jput e ''manager'' (JObj (buildManagerMap user)) else e)"

definition UserToScimResponse :: "ext \<Rightarrow> ScimUser \<Rightarrow> string \<Rightarrow> json_object list \<Rightarrow> json_object" where
  "UserToScimResponse L user baseURL groups =
     (let r = [(''schemas'', JArr ([JStr UserSchemaURN] @
                  (if hasEnterpriseData user then [JStr EnterpriseSchemaURN] else []))),
               (''id'', JStr (ID user))];
          r = putIfNotNull r ''externalId'' (ExternalID user);
          r = jput r ''userName'' (JStr (UserName user));
          r = (if buildNameMap user \<noteq> [] then jput r ''name'' (JObj (buildNameMap user)) else r);
          r = putIfNotNull r ''displayName'' (DisplayName user);
          r = putIfNotNull r ''nickName'' (NickName user);
          r = putIfNotNull r ''profileUrl'' (ProfileUrl user);
          r = putIfNotNull r ''title'' (Title user);
          r = putIfNotNull r ''userType'' (UserType user);
          r = putIfNotNull r ''preferredLanguage'' (PreferredLanguage user);
          r = putIfNotNull r ''locale'' (Locale user);
          r = putIfNotNull r ''timezone'' (Timezone user);
          r = jput r ''active'' (JBool (Active user));
          r = putCollection r ''emails'' (emailsToMaps (Emails user));
          r = putCollection r ''phoneNumbers'' (phoneNumbersToMaps (PhoneNumbers user));
          r = putCollection r ''ims'' (imsToMaps (Ims user));
          r = putCollection r ''photos'' (photosToMaps (Photos user));
          r = putCollection r ''addresses'' (addressesToMaps (Addresses user));
          r = putCollection r ''entitlements'' (entitlementsToMaps (Entitlements user));
          r = putCollection r ''roles'' (rolesToMaps (Roles user));
          r = putCollection r ''x509Certificates'' (x509CertificatesToMaps (X509Certificates user));
          r = putCollection r ''groups'' groups;
          r = (if hasEnterpriseData user then jput r EnterpriseSchemaURN (JObj (enterpriseMap user)) else r)
      in jput r ''meta'' (JObj (buildUserMeta L user baseURL)))"

section \<open>Groups\<close>

record ScimGroupMembership =
  MembershipID :: string
  MemberGroupID :: string
  MemberWorkspaceID :: string
  MemberValue :: string
  MemberType :: "string option"
  MemberDisplay :: "string option"

record ScimGroup =
  GroupID :: string
  GroupWorkspaceID :: string
  GroupExternalID :: "string option"
  GroupDisplayName :: string
  GroupCreatedAt :: int
  GroupLastModified :: int
  GroupVersion :: int
  Members :: "ScimGroupMembership list"

definition memberToMap :: "ScimGroupMembership \<Rightarrow> string \<Rightarrow> json_object" where
  "memberToMap m baseURL =
     (let group = (MemberType m = Some ''Group'');
          r = [(''value'', JStr (MemberValue m)),
               (''$ref'', JStr (baseURL @ ''/'' @ (if group then ''Groups'' else ''Users'') @ ''/'' @ MemberValue m))];
          r = putIfNotNull r ''display'' (MemberDisplay m)
      in jput r ''type'' (JStr (if group then ''Group'' else ''User'')))"

definition GroupToScimResponse :: "ext \<Rightarrow> ScimGroup \<Rightarrow> string \<Rightarrow> json_object" where
  "GroupToScimResponse L grp baseURL =
     (let r = [(''schemas'', JArr [JStr GroupSchemaURN]), (''id'', JStr (GroupID grp))];
          r = putIfNotNull r ''externalId'' (GroupExternalID grp);
          r = jput r ''displayName'' (JStr (GroupDisplayName grp));
          r = putCollection r ''members'' (map (\<lambda>m. memberToMap m baseURL) (Members grp))
      in jput r ''meta'' (JObj
           [(''resourceType'', JStr ''Group''),
            (''created'', JStr (time_format L TimeRFC3339 (GroupCreatedAt grp))),
            (''lastModified'', JStr (time_format L TimeRFC3339 (GroupLastModified grp))),
            (''location'', JStr (baseURL @ ''/Groups/'' @ GroupID grp)),
            (''version'', JStr (''W/'' @ [dquote] @ itoa_int (GroupVersion grp) @ [dquote]))]))"

definition BuildUserGroupRef :: "string \<Rightarrow> string \<Rightarrow> string \<Rightarrow> json_object" where
  "BuildUserGroupRef groupID displayName baseURL =
     [(''value'', JStr groupID), (''$ref'', JStr (baseURL @ ''/Groups/'' @ groupID)),
      (''display'', JStr displayName), (''type'', JStr ''direct'')]"

section \<open>Microsoft compatibility\<close>

text \<open>\<^verbatim>\<open>response[key].([]map[string]any)\<close> holds for the arrays that \<^verbatim>\<open>putCollection\<close> stored.\<close>

definition convertPrimaryToString :: "json_object \<Rightarrow> string \<Rightarrow> json_object" where
  "convertPrimaryToString response key =
     (case jget response key of
        JArr items \<Rightarrow> jput response key (JArr (map (\<lambda>item. case item of
            JObj m \<Rightarrow> JObj (case map_of m ''primary'' of
                Some (JBool b) \<Rightarrow> jput m ''primary'' (JStr (show_bool b)) | _ \<Rightarrow> m)
          | _ \<Rightarrow> item) items))
      | _ \<Rightarrow> response)"

definition addManagerAlias :: "json_object \<Rightarrow> json_object" where
  "addManagerAlias response =
     (case jget response EnterpriseSchemaURN of
        JObj e \<Rightarrow>
          (case jget e ''manager'' of
             JObj mgr \<Rightarrow>
               (case map_of mgr ''value'' of
                  Some v \<Rightarrow> jput response (EnterpriseSchemaURN @ '':manager'') v
                | None \<Rightarrow> response)
           | _ \<Rightarrow> response)
      | _ \<Rightarrow> response)"

definition ApplyMsCompat :: "json_object \<Rightarrow> json_object" where
  "ApplyMsCompat response =
     addManagerAlias (convertPrimaryToString (convertPrimaryToString
       (convertPrimaryToString response ''entitlements'') ''roles'') ''x509Certificates'')"

end
