(* ===== verification/MapperInv.thy ===== *)
theory MapperInv
  imports Mapper PatchInv
begin

text \<open>
  Lemmas on reading and writing users: what each block of \<^verbatim>\<open>ApplyFromScimInput\<close> keeps, the
  members of a response, and copies.
\<close>

section \<open>Comparison\<close>

lemma strPtrEqual_eq [simp]: "strPtrEqual a b \<longleftrightarrow> a = b"
  by (auto simp: strPtrEqual_def)

lemma sliceEqual_eq [simp]: "sliceEqual a b \<longleftrightarrow> a = b"
  by (auto simp: sliceEqual_def)

lemma cloneStrPtr_id [simp]: "cloneStrPtr s = s"
  by (simp add: cloneStrPtr_def split: option.splits)

lemma CloneScimUser_id [simp]: "CloneScimUser u = u"
  by (cases u) (simp add: CloneScimUser_def)

text \<open>Users compare equal if they differ at most in the fields that are no SCIM attributes.\<close>

lemma ScimUserMutableEqual_iff:
  "ScimUserMutableEqual a b \<longleftrightarrow> b = a\<lparr>ID := ID b, WorkspaceID := WorkspaceID b, CreatedAt := CreatedAt b,
     LastModified := LastModified b, Version := Version b\<rparr>"
  unfolding ScimUserMutableEqual_def strPtrEqual_eq sliceEqual_eq by (cases a, cases b) auto

lemma same_identity_mutable_equal: "same_identity u w \<Longrightarrow> ScimUserMutableEqual u w \<longleftrightarrow> w = u"
  by (cases u, cases w) (auto simp: ScimUserMutableEqual_def same_identity_def)

section \<open>Manager\<close>

lemma enterpriseManagerRef_eq:
  "parsed = None \<or> EnterpriseManagerValue user = the parsed \<Longrightarrow>
     enterpriseManagerRef L user parsed ref = managerRef L user parsed ref"
  by (cases "parseStrictStringPtr L ref ''manager.$ref''")
     (auto simp: enterpriseManagerRef_def managerRef_def Let_def)

lemma applyEnterpriseManager_eq: "applyEnterpriseManager L user v = setEnterpriseManager L user v"
proof (cases v)
  case (JObj m)
  show ?thesis
  proof (cases "map_of m ''value''")
    case None
    then show ?thesis
      using JObj by (cases "map_of m ''$ref''")
        (simp_all add: applyEnterpriseManager_def setEnterpriseManager_def managerObject_def enterpriseManagerRef_eq)
  next
    case (Some w)
    then show ?thesis
      using JObj by (cases "parseStrictStringPtr L w ''manager.value''"; cases "map_of m ''$ref''")
        (simp_all add: applyEnterpriseManager_def setEnterpriseManager_def managerObject_def enterpriseManagerRef_eq)
  qed
qed (simp_all add: applyEnterpriseManager_def setEnterpriseManager_def)

section \<open>What reading keeps\<close>

lemma applyText_keeps:
  "applyText L input key name f u = Inr w \<Longrightarrow> (\<And>s. keeps L u (f s)) \<Longrightarrow> keeps L u w"
  by (auto simp: applyText_def elim!: rbind_InrE split: option.splits)

lemma applyList_keeps:
  "applyList input key replace f u = Inr w \<Longrightarrow> (\<And>c. keeps L u (f c)) \<Longrightarrow> keeps L u w"
  by (auto simp: applyList_def elim!: rbind_InrE split: option.splits)

lemma applyUserName_keeps: "applyUserName L input u = Inr w \<Longrightarrow> keeps L u w"
  by (auto simp: applyUserName_def keeps_def same_identity_def elim!: rbind_InrE split: option.splits if_splits)

lemma applyProfileUrl_keeps: "applyProfileUrl L input u = Inr w \<Longrightarrow> keeps L u w"
  by (auto simp: applyProfileUrl_def intro: setProfileUrl_keeps split: option.splits)

lemma applyActive_keeps: "applyActive input u = Inr w \<Longrightarrow> keeps L u w"
  by (auto simp: applyActive_def elim!: rbind_InrE split: if_splits)

lemma applyPassword_keeps: "applyPassword L input u = Inr w \<Longrightarrow> keeps L u w"
  by (auto simp: applyPassword_def keeps_def same_identity_def elim!: rbind_InrE dest!: HashPassword_hashed
      split: option.splits)

lemma keeps_bind:
  "rbind m f = Inr w \<Longrightarrow> (\<And>x. m = Inr x \<Longrightarrow> keeps L u x) \<Longrightarrow> (\<And>x. f x = Inr w \<Longrightarrow> keeps L x w)
    \<Longrightarrow> keeps L u w"
  by (cases m) (auto intro: keeps_trans)

lemma applySimpleAttributes_keeps: "applySimpleAttributes L u input = Inr w \<Longrightarrow> keeps L u w"
  unfolding applySimpleAttributes_def
  by (elim keeps_bind applyUserName_keeps applyProfileUrl_keeps applyActive_keeps applyPassword_keeps
      applyText_keeps) simp_all

lemma applyNameAttribute_keeps: "applyNameAttribute L u input = Inr w \<Longrightarrow> keeps L u w"
proof (cases "jget input ''name''")
  case (JObj m)
  assume "applyNameAttribute L u input = Inr w"
  then show ?thesis
    unfolding applyNameAttribute_def JObj json.case
    by (elim keeps_bind applyText_keeps) simp_all
qed (auto simp: applyNameAttribute_def)

lemma applyCollections_keeps: "applyCollections L u input = Inr w \<Longrightarrow> keeps L u w"
  unfolding applyCollections_def by (elim keeps_bind applyList_keeps) simp_all

lemma applyEnterpriseExtension_keeps: "applyEnterpriseExtension L u input = Inr w \<Longrightarrow> keeps L u w"
proof (cases "find (\<lambda>(k, v). EqualFold L k EnterpriseSchemaURN) input")
  case (Some kv)
  assume run: "applyEnterpriseExtension L u input = Inr w"
  obtain k v where kv: "kv = (k, v)" by fastforce
  show ?thesis
  proof (cases v)
    case (JObj m)
    have mgr: "(case map_of m ''manager'' of None \<Rightarrow> Inr y | Some r \<Rightarrow> applyEnterpriseManager L y r) = Inr w
        \<Longrightarrow> keeps L y w" for y
      by (auto simp: applyEnterpriseManager_eq intro: setEnterpriseManager_keeps split: option.splits)
    from run show ?thesis
      unfolding applyEnterpriseExtension_def Some kv JObj option.case prod.case json.case
      by (elim keeps_bind applyText_keeps mgr) simp_all
  qed (use run in \<open>auto simp: applyEnterpriseExtension_def Some kv\<close>)
qed (simp add: applyEnterpriseExtension_def)

lemma ApplyFromScimInput_keeps: "ApplyFromScimInput L u input = Inr w \<Longrightarrow> keeps L u w"
  unfolding ApplyFromScimInput_def
  by (elim keeps_bind applySimpleAttributes_keeps applyNameAttribute_keeps applyCollections_keeps
      applyEnterpriseExtension_keeps)

section \<open>Lists after a PUT\<close>

text \<open>The eight lists are in order: one primary entry at most, no duplicates.\<close>

definition distinct_entries :: "ext \<Rightarrow> ScimUser \<Rightarrow> bool" where
  "distinct_entries L u \<longleftrightarrow> distinct (map (valueKey L) (Emails u))
     \<and> distinct (map (valueKey L) (PhoneNumbers u)) \<and> distinct (map (addressKey L) (Addresses u))
     \<and> distinct (map (valueKey L) (Entitlements u)) \<and> distinct (map (valueKey L) (Roles u))
     \<and> distinct (map (valueKey L) (Ims u)) \<and> distinct (map (exactKey L) (Photos u))
     \<and> distinct (map (exactKey L) (X509Certificates u))"

definition lists_ok :: "ext \<Rightarrow> ScimUser \<Rightarrow> bool" where
  "lists_ok L u \<longleftrightarrow> single_primaries u \<and> distinct_entries L u"

lemma same_lists_ok: "same_lists u v \<Longrightarrow> lists_ok L u \<Longrightarrow> lists_ok L v"
  by (simp add: same_lists_def lists_ok_def single_primaries_def distinct_entries_def)

definition keeps_lists :: "ext \<Rightarrow> ScimUser \<Rightarrow> ScimUser \<Rightarrow> bool" where
  "keeps_lists L u v \<longleftrightarrow> (lists_ok L u \<longrightarrow> lists_ok L v)"

lemma keeps_lists_bind:
  "rbind m f = Inr w \<Longrightarrow> (\<And>x. m = Inr x \<Longrightarrow> keeps_lists L u x) \<Longrightarrow> (\<And>x. f x = Inr w \<Longrightarrow> keeps_lists L x w)
    \<Longrightarrow> keeps_lists L u w"
  by (cases m) (auto simp: keeps_lists_def)

lemma keeps_lists_same: "same_lists u v \<Longrightarrow> keeps_lists L u v"
  by (simp add: keeps_lists_def same_lists_ok)

lemma applyText_lists:
  "applyText L input key name f u = Inr w \<Longrightarrow> (\<And>s. same_lists u (f s)) \<Longrightarrow> keeps_lists L u w"
  by (rule keeps_lists_same) (auto simp: applyText_def elim!: rbind_InrE split: option.splits)

lemma applyUserName_lists: "applyUserName L input u = Inr w \<Longrightarrow> keeps_lists L u w"
  by (rule keeps_lists_same)
     (auto simp: applyUserName_def same_lists_def elim!: rbind_InrE split: option.splits if_splits)

lemma applyProfileUrl_lists: "applyProfileUrl L input u = Inr w \<Longrightarrow> keeps_lists L u w"
  by (rule keeps_lists_same) (auto simp: applyProfileUrl_def intro: setProfileUrl_lists split: option.splits)

lemma applyActive_lists: "applyActive input u = Inr w \<Longrightarrow> keeps_lists L u w"
  by (rule keeps_lists_same) (auto simp: applyActive_def same_lists_def elim!: rbind_InrE split: if_splits)

lemma applyPassword_lists: "applyPassword L input u = Inr w \<Longrightarrow> keeps_lists L u w"
  by (rule keeps_lists_same) (auto simp: applyPassword_def same_lists_def elim!: rbind_InrE split: option.splits)

lemma applySimpleAttributes_lists: "applySimpleAttributes L u input = Inr w \<Longrightarrow> keeps_lists L u w"
  unfolding applySimpleAttributes_def
  by (elim keeps_lists_bind applyUserName_lists applyProfileUrl_lists applyActive_lists applyPassword_lists
      applyText_lists) (simp_all add: same_lists_def)

lemma applyNameAttribute_lists: "applyNameAttribute L u input = Inr w \<Longrightarrow> keeps_lists L u w"
proof (cases "jget input ''name''")
  case (JObj m)
  assume "applyNameAttribute L u input = Inr w"
  then show ?thesis
    unfolding applyNameAttribute_def JObj json.case
    by (elim keeps_lists_bind applyText_lists) (simp_all add: same_lists_def)
qed (auto simp: applyNameAttribute_def keeps_lists_def)

lemma applyEnterpriseExtension_lists: "applyEnterpriseExtension L u input = Inr w \<Longrightarrow> keeps_lists L u w"
proof (cases "find (\<lambda>(k, v). EqualFold L k EnterpriseSchemaURN) input")
  case (Some kv)
  assume run: "applyEnterpriseExtension L u input = Inr w"
  obtain k v where kv: "kv = (k, v)" by fastforce
  show ?thesis
  proof (cases v)
    case (JObj m)
    have mgr: "(case map_of m ''manager'' of None \<Rightarrow> Inr y | Some r \<Rightarrow> applyEnterpriseManager L y r) = Inr w
        \<Longrightarrow> keeps_lists L y w" for y
      by (rule keeps_lists_same)
         (auto simp: applyEnterpriseManager_eq intro: setEnterpriseManager_lists split: option.splits)
    from run show ?thesis
      unfolding applyEnterpriseExtension_def Some kv JObj option.case prod.case json.case
      by (elim keeps_lists_bind applyText_lists mgr) (simp_all add: same_lists_def)
  qed (use run in \<open>auto simp: applyEnterpriseExtension_def Some kv keeps_lists_def\<close>)
qed (simp add: applyEnterpriseExtension_def keeps_lists_def)

lemma applyList_lists:
  "applyList input key replace f u = Inr w \<Longrightarrow> (\<And>v c. replace v = Inr c \<Longrightarrow> keeps_lists L u (f c))
    \<Longrightarrow> keeps_lists L u w"
  by (auto simp: applyList_def keeps_lists_def elim!: rbind_InrE split: option.splits)

lemma replace_ok:
  "replaceCollectionEmails L v = Inr c \<Longrightarrow> single_primary PrimaryFlag c \<and> distinct (map (valueKey L) c)"
  "replaceCollectionPhoneNumbers L v = Inr c \<Longrightarrow> single_primary PrimaryFlag c \<and> distinct (map (valueKey L) c)"
  "replaceCollectionAddresses L v = Inr a \<Longrightarrow> single_primary AddressPrimary a \<and> distinct (map (addressKey L) a)"
  "replaceCollectionIms L v = Inr c \<Longrightarrow> single_primary PrimaryFlag c \<and> distinct (map (valueKey L) c)"
  "replaceCollectionPhotos L v = Inr c \<Longrightarrow> single_primary PrimaryFlag c \<and> distinct (map (exactKey L) c)"
  "replaceCollectionEntitlements L v = Inr c \<Longrightarrow> single_primary PrimaryFlag c \<and> distinct (map (valueKey L) c)"
  "replaceCollectionRoles L v = Inr c \<Longrightarrow> single_primary PrimaryFlag c \<and> distinct (map (valueKey L) c)"
  "replaceCollectionX509Certificates L v = Inr c \<Longrightarrow> single_primary PrimaryFlag c \<and> distinct (map (exactKey L) c)"
  unfolding replaceCollection_defs Deduplicate_defs
  by (rule conjI, erule emails.replaceItems_single phoneNumbers.replaceItems_single addresses.replaceItems_single ims.replaceItems_single photos.replaceItems_single entitlements.replaceItems_single roles.replaceItems_single x509Certificates.replaceItems_single,
      erule emails.replaceItems_distinct phoneNumbers.replaceItems_distinct addresses.replaceItems_distinct ims.replaceItems_distinct photos.replaceItems_distinct entitlements.replaceItems_distinct roles.replaceItems_distinct x509Certificates.replaceItems_distinct)+

lemma store_lists:
  "replaceCollectionEmails L v = Inr c \<Longrightarrow> keeps_lists L u (u\<lparr>Emails := c\<rparr>)"
  "replaceCollectionPhoneNumbers L v = Inr c \<Longrightarrow> keeps_lists L u (u\<lparr>PhoneNumbers := c\<rparr>)"
  "replaceCollectionAddresses L v = Inr a \<Longrightarrow> keeps_lists L u (u\<lparr>Addresses := a\<rparr>)"
  "replaceCollectionIms L v = Inr c \<Longrightarrow> keeps_lists L u (u\<lparr>Ims := c\<rparr>)"
  "replaceCollectionPhotos L v = Inr c \<Longrightarrow> keeps_lists L u (u\<lparr>Photos := c\<rparr>)"
  "replaceCollectionEntitlements L v = Inr c \<Longrightarrow> keeps_lists L u (u\<lparr>Entitlements := c\<rparr>)"
  "replaceCollectionRoles L v = Inr c \<Longrightarrow> keeps_lists L u (u\<lparr>Roles := c\<rparr>)"
  "replaceCollectionX509Certificates L v = Inr c \<Longrightarrow> keeps_lists L u (u\<lparr>X509Certificates := c\<rparr>)"
  by (drule replace_ok, simp add: keeps_lists_def lists_ok_def single_primaries_def distinct_entries_def)+

lemma applyCollections_lists: "applyCollections L u input = Inr w \<Longrightarrow> keeps_lists L u w"
  unfolding applyCollections_def by (elim keeps_lists_bind applyList_lists store_lists)

lemma ApplyFromScimInput_lists: "ApplyFromScimInput L u input = Inr w \<Longrightarrow> lists_ok L u \<Longrightarrow> lists_ok L w"
proof -
  assume "ApplyFromScimInput L u input = Inr w"
  then have "keeps_lists L u w"
    unfolding ApplyFromScimInput_def
    by (elim keeps_lists_bind applySimpleAttributes_lists applyNameAttribute_lists applyCollections_lists
        applyEnterpriseExtension_lists)
  then show "lists_ok L u \<Longrightarrow> lists_ok L w" by (simp add: keeps_lists_def)
qed

lemma ClearMutableAttributes_lists [simp]: "lists_ok L (ClearMutableAttributes u)"
  by (simp add: lists_ok_def single_primaries_def distinct_entries_def ClearMutableAttributes_def)

section \<open>Members of a response\<close>

lemma map_of_putIfNotNull [simp]:
  "map_of (putIfNotNull m k v) k' = (if k' = k \<and> v \<noteq> None then map_option JStr v else map_of m k')"
  by (simp add: putIfNotNull_def split: option.splits)

lemma keys_putIfNotNull [simp]:
  "fst ` set (putIfNotNull m k v) = (if v = None then {} else {k}) \<union> fst ` set m"
  by (auto simp: putIfNotNull_def split: option.splits)

lemma map_of_putCollection [simp]:
  "map_of (putCollection m k items) k' = (if k' = k \<and> items \<noteq> [] then Some (JArr (map JObj items)) else map_of m k')"
  by (simp add: putCollection_def)

lemma keys_putCollection [simp]:
  "fst ` set (putCollection m k items) = (if items = [] then {} else {k}) \<union> fst ` set m"
  by (simp add: putCollection_def)

section \<open>The members of a response\<close>

lemma map_of_if: "map_of (if c then x else y) k = (if c then map_of x k else map_of y k)"
  by simp

lemma keys_le:
  "fst ` set m \<subseteq> K \<Longrightarrow> k \<in> K \<Longrightarrow> fst ` set (jput m k v) \<subseteq> K"
  "fst ` set m \<subseteq> K \<Longrightarrow> k \<in> K \<Longrightarrow> fst ` set (putIfNotNull m k t) \<subseteq> K"
  "fst ` set m \<subseteq> K \<Longrightarrow> k \<in> K \<Longrightarrow> fst ` set (putCollection m k items) \<subseteq> K"
  "fst ` set m \<subseteq> K \<Longrightarrow> k \<in> K \<Longrightarrow> fst ` set (if c then jput m k v else m) \<subseteq> K"
  by auto

definition responseKeys :: "string list" where
  "responseKeys = [''schemas'', ''id'', ''externalId'', ''userName'', ''name'', ''displayName'', ''nickName'',
     ''profileUrl'', ''title'', ''userType'', ''preferredLanguage'', ''locale'', ''timezone'', ''active'',
     ''emails'', ''phoneNumbers'', ''ims'', ''photos'', ''addresses'', ''entitlements'', ''roles'',
     ''x509Certificates'', ''groups'', EnterpriseSchemaURN, ''meta'']"

lemma keys_response: "fst ` set (UserToScimResponse L u b g) \<subseteq> set responseKeys"
  unfolding UserToScimResponse_def Let_def
  by (intro keys_le) (simp_all add: responseKeys_def)

end
