(* ===== verification/MapperProps.thy ===== *)
theory MapperProps
  imports MapperInv PatchProps
begin

text \<open>
  The properties of reading and writing users: PUT, the comparison that decides whether a PATCH
  changed anything, and the responses.
\<close>

section \<open>PUT\<close>

text \<open>C14. A PUT (all attributes cleared, then read from the request) never changes identity,
  version or timestamps, leaves a nonempty user name if there was one, stores a password only
  as a bcrypt hash, and whatever was stored before ends with at most one primary entry and no
  duplicate entries in each multi-valued attribute.\<close>

theorem put_user_ok:
  assumes "ApplyFromScimInput L (ClearMutableAttributes u) input = Inr w"
  shows "same_identity u w \<and> (UserName u = [] \<or> UserName w \<noteq> []) \<and> hashed L (Password w)
    \<and> EnterpriseManagerDisplay w = None \<and> single_primaries w \<and> distinct_entries L w"
proof -
  have "keeps L (ClearMutableAttributes u) w" by (rule ApplyFromScimInput_keeps [OF assms])
  moreover have "lists_ok L w" by (rule ApplyFromScimInput_lists [OF assms ClearMutableAttributes_lists])
  ultimately show ?thesis
    by (auto simp: keeps_def same_identity_def ClearMutableAttributes_def lists_ok_def hashed_def)
qed

definition put_body :: json_object where
  "put_body = [(''userName'', JStr ''bob''), (''password'', JStr ''pw''),
     (''emails'', JArr [JObj [(''value'', JStr ''b@X''), (''primary'', JBool True)], JObj [(''value'', JStr ''B@x'')]])]"

definition put_result :: ScimUser where
  "put_result = (ClearMutableAttributes sample_user)\<lparr>UserName := ''bob'', Password := Some ''#pw'',
     Emails := [\<lparr>Value = ''b@x'', Type = ''work'', Display = [], PrimaryFlag = True\<rparr>]\<rparr>"

lemma put_run: "ApplyFromScimInput plain_ext (ClearMutableAttributes sample_user) put_body = Inr put_result"
  by code_simp

theorem put_user_ok_witness:
  "ApplyFromScimInput plain_ext (ClearMutableAttributes sample_user) put_body = Inr put_result
   \<and> hashed plain_ext (Password put_result) \<and> single_primaries put_result \<and> ID put_result = ''u1''"
  using put_user_ok [OF put_run] put_run by (simp add: same_identity_def sample_user_def)

text \<open>PUT and PATCH treat the manager attribute alike, errors included.\<close>

theorem manager_put_is_patch:
  "applyEnterpriseManager L u v = enterpriseLeaf L u ''manager'' v"
proof -
  have "ToLower L ''manager'' = ''manager''" by code_simp
  then show ?thesis by (simp add: enterpriseLeaf_def applyEnterpriseManager_eq)
qed

section \<open>Detecting changes\<close>

text \<open>C16. After a successful PATCH the comparison with the copy taken before it says "equal" if
  and only if the user is unchanged, so a version is kept exactly for requests without effect.\<close>

theorem patch_change_detected:
  assumes "ApplyPatchOperations L u ops = Inr w"
  shows "ScimUserMutableEqual (CloneScimUser u) w \<longleftrightarrow> w = u"
  using ApplyPatchOperations_keeps [OF assms]
  by (simp add: keeps_def same_identity_mutable_equal)

theorem patch_change_detected_witness:
  "ApplyPatchOperations plain_ext sample_user sample_ops = Inr sample_result
   \<and> \<not> ScimUserMutableEqual (CloneScimUser sample_user) sample_result"
proof -
  have "sample_result \<noteq> sample_user"
  proof
    assume "sample_result = sample_user"
    then have "Password sample_result = Password sample_user" by simp
    then show False by (simp add: sample_result_def sample_user_def)
  qed
  with patch_change_detected [OF sample_run] sample_run show ?thesis by blast
qed

section \<open>Responses\<close>

text \<open>The response for a user does not depend on the stored password and has no member of
  that name.\<close>

theorem response_hides_password:
  "UserToScimResponse L (u\<lparr>Password := p\<rparr>) baseURL groups = UserToScimResponse L u baseURL groups
   \<and> map_of (UserToScimResponse L u baseURL groups) ''password'' = None"
proof
  show "UserToScimResponse L (u\<lparr>Password := p\<rparr>) baseURL groups = UserToScimResponse L u baseURL groups"
  proof -
    have "buildNameMap (u\<lparr>Password := p\<rparr>) = buildNameMap u" "enterpriseMap (u\<lparr>Password := p\<rparr>) = enterpriseMap u"
      "buildUserMeta L (u\<lparr>Password := p\<rparr>) baseURL = buildUserMeta L u baseURL"
      "hasEnterpriseData (u\<lparr>Password := p\<rparr>) = hasEnterpriseData u"
      by (simp_all add: buildNameMap_def buildManagerMap_def buildUserMeta_def enterpriseMap_def hasEnterpriseData_def Let_def)
    then show ?thesis by (simp add: UserToScimResponse_def Let_def)
  qed
  have "''password'' \<notin> set responseKeys" by (simp add: responseKeys_def EnterpriseSchemaURN_def)
  then show "map_of (UserToScimResponse L u baseURL groups) ''password'' = None"
    using keys_response [of L u baseURL groups] by (auto simp: map_of_eq_None_iff)
qed

text \<open>A response names the enterprise schema if and only if it carries the extension.\<close>

theorem response_schemas:
  "map_of (UserToScimResponse L u baseURL groups) ''schemas'' =
     Some (JArr (if map_of (UserToScimResponse L u baseURL groups) EnterpriseSchemaURN \<noteq> None
       then [JStr UserSchemaURN, JStr EnterpriseSchemaURN] else [JStr UserSchemaURN]))"
  by (simp add: UserToScimResponse_def Let_def map_of_if EnterpriseSchemaURN_def)

end
