(* ===== verification/MapperRound.thy ===== *)
theory MapperRound
  imports MapperInv PatchProps
begin

text \<open>
  Round trip of a user through its response: a client that sends back with PUT what it got with
  GET changes nothing, as long as what is stored is canonical.
\<close>

section \<open>Canonical users\<close>

definition stable :: "ext \<Rightarrow> string \<Rightarrow> bool" where
  "stable L s \<longleftrightarrow> NormalizeNFC L s = s"

definition stable_opt :: "ext \<Rightarrow> string option \<Rightarrow> bool" where
  "stable_opt L s \<longleftrightarrow> (case s of None \<Rightarrow> True | Some t \<Rightarrow> stable L t)"

text \<open>An empty field is not printed and is read as a missing member.\<close>

definition textJson :: "string \<Rightarrow> json" where
  "textJson s = (if s = [] then JNull else JStr s)"

definition entry_ok :: "ext \<Rightarrow> (json \<Rightarrow> string res) \<Rightarrow> (json \<Rightarrow> string res) \<Rightarrow> multi_value \<Rightarrow> bool" where
  "entry_ok L readValue readType e \<longleftrightarrow> readValue (textJson (Value e)) = Inr (Value e)
     \<and> readType (textJson (Type e)) = Inr (Type e) \<and> stable L (Display e)"

definition address_ok :: "ext \<Rightarrow> ScimUserAddress \<Rightarrow> bool" where
  "address_ok L a \<longleftrightarrow> list_all (stable L) [Formatted a, StreetAddress a, Locality a, Region a, PostalCode a,
       Country a, AddressType a]
     \<and> normalizeCountry L (Country a) = Country a \<and> normalizeCanonical L (AddressType a) addressTypes = AddressType a"

definition certificate_ok :: "ext \<Rightarrow> multi_value \<Rightarrow> bool" where
  "certificate_ok L e \<longleftrightarrow> (Value e = [] \<or> ValidateX509CertificateValue L (Value e) = Inr ())
     \<and> stable L (Type e) \<and> stable L (Display e)"

definition entries_ok :: "ext \<Rightarrow> ScimUser \<Rightarrow> bool" where
  "entries_ok L u \<longleftrightarrow>
     list_all (entry_ok L (emailValue L) (emailType L)) (Emails u)
     \<and> list_all (entry_ok L (phoneValue L) (labelType L ''phoneNumbers'' phoneTypes)) (PhoneNumbers u)
     \<and> list_all (address_ok L) (Addresses u)
     \<and> list_all (entry_ok L (imValue L) (labelType L ''ims'' imTypes)) (Ims u)
     \<and> list_all (entry_ok L (photoValue L) (labelType L ''photos'' photoTypes)) (Photos u)
     \<and> list_all (entry_ok L (\<lambda>v. parseStrictString L v ''entitlements.value'')
         (\<lambda>v. parseStrictString L v ''entitlements.type'')) (Entitlements u)
     \<and> list_all (entry_ok L (\<lambda>v. parseStrictString L v ''roles.value'')
         (\<lambda>v. parseStrictString L v ''roles.type'')) (Roles u)
     \<and> list_all (certificate_ok L) (X509Certificates u)"

text \<open>The manager's reference agrees with the stored value, and a reference alone is not enough to
  have the enterprise extension printed.\<close>

definition manager_ok :: "ext \<Rightarrow> ScimUser \<Rightarrow> bool" where
  "manager_ok L u \<longleftrightarrow>
     (case EnterpriseManagerRef u of None \<Rightarrow> True
      | Some r \<Rightarrow> TrimSpace r = [] \<or> ExtractUUIDFromRef L r = []
          \<or> (\<not> blank (EnterpriseManagerValue u)
             \<and> EqualFold L (ExtractUUIDFromRef L r) (TrimSpace (the (EnterpriseManagerValue u)))))
     \<and> (hasEnterpriseData u \<or> EnterpriseManagerRef u = None)"

definition canonical_user :: "ext \<Rightarrow> ScimUser \<Rightarrow> bool" where
  "canonical_user L u \<longleftrightarrow>
     UserName u \<noteq> [] \<and> stable L (UserName u)
     \<and> list_all (stable_opt L) [ExternalID u, NameFormatted u, NameFamilyName u, NameGivenName u,
          NameMiddleName u, NameHonorificPrefix u, NameHonorificSuffix u, DisplayName u, NickName u,
          ProfileUrl u, Title u, UserType u, PreferredLanguage u, Locale u, Timezone u,
          EnterpriseEmployeeNumber u, EnterpriseCostCenter u, EnterpriseOrganization u,
          EnterpriseDivision u, EnterpriseDepartment u, EnterpriseManagerValue u, EnterpriseManagerRef u]
     \<and> (case ProfileUrl u of None \<Rightarrow> True | Some p \<Rightarrow> p = [] \<or> validateReference L p = Inr ())
     \<and> entries_ok L u \<and> lists_ok L u \<and> manager_ok L u"

section \<open>Entries\<close>

lemma jget_entry [simp]:
  "jget (entryToMap e) ''value'' = textJson (Value e)" "jget (entryToMap e) ''type'' = textJson (Type e)"
  "jget (entryToMap e) ''display'' = textJson (Display e)" "jget (entryToMap e) ''primary'' = JBool (PrimaryFlag e)"
  "map_of (entryToMap e) ''value'' = (if Value e = [] then None else Some (JStr (Value e)))"
  by (simp_all add: jget_def entryToMap_def textField_def textJson_def)

lemma jget_address [simp]:
  "jget (addressToMap a) ''formatted'' = textJson (Formatted a)"
  "jget (addressToMap a) ''streetAddress'' = textJson (StreetAddress a)"
  "jget (addressToMap a) ''locality'' = textJson (Locality a)" "jget (addressToMap a) ''region'' = textJson (Region a)"
  "jget (addressToMap a) ''postalCode'' = textJson (PostalCode a)" "jget (addressToMap a) ''country'' = textJson (Country a)"
  "jget (addressToMap a) ''type'' = textJson (AddressType a)" "jget (addressToMap a) ''primary'' = JBool (AddressPrimary a)"
  by (simp_all add: jget_def addressToMap_def textField_def textJson_def)

lemma parse_textJson [simp]: "stable L s \<Longrightarrow> parseStrictString L (textJson s) n = Inr s"
  by (simp add: parseStrictString_def textJson_def stable_def)

lemma parse_bool [simp]: "parseStrictOptionalBool (JBool b) n = Inr b"
  by (simp add: parseStrictOptionalBool_Inr)

lemma buildEntry_entry:
  "entry_ok L rv rt e \<Longrightarrow> buildEntry L n (rv (textJson (Value e))) (rt (textJson (Type e))) (entryToMap e) = Inr e"
  by (simp add: entry_ok_def buildEntry_def)

lemma buildAddress_address: "address_ok L a \<Longrightarrow> buildAddress L (addressToMap a) = Inr a"
  by (simp add: address_ok_def buildAddress_def)

lemma buildCertificate_certificate: "certificate_ok L e \<Longrightarrow> buildX509Certificate L (entryToMap e) = Inr e"
  by (auto simp: certificate_ok_def buildX509Certificate_def buildEntry_def certificateValue_def
      rawCertificate_def parseRawStringPtr_def textJson_def stable_def parseStrictString_def)

lemma buildEntitlement_entry:
  "entry_ok L (\<lambda>v. parseStrictString L v ''entitlements.value'') (\<lambda>v. parseStrictString L v ''entitlements.type'') e
    \<Longrightarrow> buildEntitlement L (entryToMap e) = Inr e"
  by (simp add: buildEntitlement_def entry_ok_def buildEntry_def)

lemma buildRole_entry:
  "entry_ok L (\<lambda>v. parseStrictString L v ''roles.value'') (\<lambda>v. parseStrictString L v ''roles.type'') e
    \<Longrightarrow> buildRole L (entryToMap e) = Inr e"
  by (simp add: buildRole_def entry_ok_def buildEntry_def)

lemma countPrimary_map:
  "(\<And>x. jget (pr x) ''primary'' = JBool (prim x)) \<Longrightarrow>
     countPrimary (map pr us) = Inr (length (filter prim us))"
proof -
  assume pr: "\<And>x. jget (pr x) ''primary'' = JBool (prim x)"
  have "rfold countStep n (map pr us) = Inr (n + length (filter prim us))" for n
    by (induction us arbitrary: n) (simp_all add: countStep_def pr)
  then show ?thesis by (simp add: countPrimary_def)
qed

context multi_valued
begin

lemma dedup_id: "distinct (map key us) \<Longrightarrow> deduplicate key prim setp us = us"
proof -
  assume d: "distinct (map key us)"
  then have "firsts key [] us = us" by (simp add: firsts_distinct)
  moreover have "wins us x = x" if "x \<in> set us" for x
  proof -
    have "(\<exists>y \<in> set us. key y = key x \<and> prim y) = prim x"
      using that d by (metis distinct_map inj_onD)
    then show ?thesis by (simp add: wins_def)
  qed
  ultimately show ?thesis by (simp add: deduplicate_spec map_idI)
qed

end

context collection
begin

lemma print_read:
  assumes "\<And>x. x \<in> set us \<Longrightarrow> build (pr x) = Inr x" and "\<And>x. jget (pr x) ''primary'' = JBool (prim x)"
    and "single_primary prim us" and "distinct (map key us)"
  shows "replaceItems (deduplicate key prim setp) build name (JArr (map JObj (map pr us))) = Inr us"
proof -
  have "extractMapSlice (JArr (map JObj (map pr us))) name = Inr (map pr us)"
    by (simp add: extractMapSlice_def rmap_Inr_iff list_all2_conv_all_nth)
  moreover have "ValidateSinglePrimary (map pr us) = Inr ()"
    using countPrimary_map [of pr prim us, OF assms(2)] assms(3)
    by (simp add: ValidateSinglePrimary_def single_primary_def)
  moreover have "rmap build (map pr us) = Inr us"
    using assms(1) by (simp add: rmap_Inr_iff list_all2_conv_all_nth)
  ultimately show ?thesis by (simp add: replaceItems_def dedup_id assms(4))
qed

end

lemma collections_print_read:
  assumes "entries_ok L u" and "lists_ok L u"
  shows "replaceCollectionEmails L (JArr (map JObj (emailsToMaps (Emails u)))) = Inr (Emails u)"
    "replaceCollectionPhoneNumbers L (JArr (map JObj (phoneNumbersToMaps (PhoneNumbers u)))) = Inr (PhoneNumbers u)"
    "replaceCollectionAddresses L (JArr (map JObj (addressesToMaps (Addresses u)))) = Inr (Addresses u)"
    "replaceCollectionIms L (JArr (map JObj (imsToMaps (Ims u)))) = Inr (Ims u)"
    "replaceCollectionPhotos L (JArr (map JObj (photosToMaps (Photos u)))) = Inr (Photos u)"
    "replaceCollectionEntitlements L (JArr (map JObj (entitlementsToMaps (Entitlements u)))) = Inr (Entitlements u)"
    "replaceCollectionRoles L (JArr (map JObj (rolesToMaps (Roles u)))) = Inr (Roles u)"
    "replaceCollectionX509Certificates L (JArr (map JObj (x509CertificatesToMaps (X509Certificates u)))) = Inr (X509Certificates u)"
  using assms unfolding replaceCollection_defs Deduplicate_defs toMaps_defs entries_ok_def lists_ok_def
    single_primaries_def distinct_entries_def list_all_iff
  by (auto intro!: emails.print_read phoneNumbers.print_read addresses.print_read ims.print_read photos.print_read
      entitlements.print_read roles.print_read x509Certificates.print_read
      simp: build_defs(1-4) buildEntry_entry buildEntitlement_entry buildRole_entry buildAddress_address buildCertificate_certificate
      simp del: map_map)

section \<open>The members of the request\<close>

text \<open>What each block of \<^verbatim>\<open>ApplyFromScimInput\<close> does with a member that was printed.\<close>

lemma text_step:
  assumes "map_of input key = map_option JStr s" and "stable_opt L s" and "s = None \<Longrightarrow> f None = user"
  shows "applyText L input key name f user = Inr (f s)"
  using assms by (cases s) (simp_all add: applyText_def parseStrictStringPtr_def stable_opt_def stable_def)

lemma list_step:
  assumes "map_of input key = (if items \<noteq> [] then Some (JArr (map JObj items)) else None)"
    and "replace (JArr (map JObj items)) = Inr c" and "items = [] \<longrightarrow> c = []" and "f [] = user"
  shows "applyList input key replace f user = Inr (f c)"
  using assms by (auto simp: applyList_def)

lemma response_members:
  fixes L u b g
  defines "r \<equiv> UserToScimResponse L u b g"
  shows "map_of r ''userName'' = Some (JStr (UserName u))"
    "map_of r ''externalId'' = map_option JStr (ExternalID u)"
    "map_of r ''displayName'' = map_option JStr (DisplayName u)"
    "map_of r ''nickName'' = map_option JStr (NickName u)"
    "map_of r ''profileUrl'' = map_option JStr (ProfileUrl u)"
    "map_of r ''title'' = map_option JStr (Title u)"
    "map_of r ''userType'' = map_option JStr (UserType u)"
    "map_of r ''preferredLanguage'' = map_option JStr (PreferredLanguage u)"
    "map_of r ''locale'' = map_option JStr (Locale u)"
    "map_of r ''timezone'' = map_option JStr (Timezone u)"
    "map_of r ''active'' = Some (JBool (Active u))"
    "map_of r ''password'' = None"
    "map_of r ''name'' = (if buildNameMap u \<noteq> [] then Some (JObj (buildNameMap u)) else None)"
    "map_of r EnterpriseSchemaURN = (if hasEnterpriseData u then Some (JObj (enterpriseMap u)) else None)"
  unfolding r_def UserToScimResponse_def Let_def
  by (simp_all add: map_of_if EnterpriseSchemaURN_def del: not_None_eq)

lemma response_lists:
  fixes L u b g
  defines "r \<equiv> UserToScimResponse L u b g"
  shows "map_of r ''emails'' = (if emailsToMaps (Emails u) \<noteq> [] then Some (JArr (map JObj (emailsToMaps (Emails u)))) else None)"
    "map_of r ''phoneNumbers'' = (if phoneNumbersToMaps (PhoneNumbers u) \<noteq> []
       then Some (JArr (map JObj (phoneNumbersToMaps (PhoneNumbers u)))) else None)"
    "map_of r ''addresses'' = (if addressesToMaps (Addresses u) \<noteq> []
       then Some (JArr (map JObj (addressesToMaps (Addresses u)))) else None)"
    "map_of r ''ims'' = (if imsToMaps (Ims u) \<noteq> [] then Some (JArr (map JObj (imsToMaps (Ims u)))) else None)"
    "map_of r ''photos'' = (if photosToMaps (Photos u) \<noteq> [] then Some (JArr (map JObj (photosToMaps (Photos u)))) else None)"
    "map_of r ''entitlements'' = (if entitlementsToMaps (Entitlements u) \<noteq> []
       then Some (JArr (map JObj (entitlementsToMaps (Entitlements u)))) else None)"
    "map_of r ''roles'' = (if rolesToMaps (Roles u) \<noteq> [] then Some (JArr (map JObj (rolesToMaps (Roles u)))) else None)"
    "map_of r ''x509Certificates'' = (if x509CertificatesToMaps (X509Certificates u) \<noteq> []
       then Some (JArr (map JObj (x509CertificatesToMaps (X509Certificates u)))) else None)"
  unfolding r_def UserToScimResponse_def Let_def
  by (simp_all add: map_of_if EnterpriseSchemaURN_def)

section \<open>The round trip\<close>

lemma readSimple:
  assumes "canonical_user L u"
  shows "applySimpleAttributes L (ClearMutableAttributes u) (UserToScimResponse L u b g) =
    Inr ((ClearMutableAttributes u)\<lparr>ExternalID := ExternalID u, DisplayName := DisplayName u,
      NickName := NickName u, ProfileUrl := ProfileUrl u, Title := Title u, UserType := UserType u,
      PreferredLanguage := PreferredLanguage u, Locale := Locale u, Timezone := Timezone u, Active := Active u\<rparr>)"
proof -
  note members = response_members [of L u b g]
  have st: "stable_opt L (ExternalID u)" "stable_opt L (DisplayName u)" "stable_opt L (NickName u)"
    "stable_opt L (Title u)" "stable_opt L (UserType u)" "stable_opt L (PreferredLanguage u)"
    "stable_opt L (Locale u)" "stable_opt L (Timezone u)" "stable_opt L (ProfileUrl u)" "stable L (UserName u)"
    using assms by (simp_all add: canonical_user_def)
  let ?r = "UserToScimResponse L u b g"
  have name: "applyUserName L ?r (ClearMutableAttributes u) = Inr (ClearMutableAttributes u)"
    using assms st(10) by (simp add: applyUserName_def members parseStrictStringPtr_def stable_def canonical_user_def
        ClearMutableAttributes_def)
  have url: "applyProfileUrl L ?r v = Inr (v\<lparr>ProfileUrl := ProfileUrl u\<rparr>)" if "ProfileUrl v = None" for v
    using assms st(9) that
    by (cases "ProfileUrl u") (auto simp: applyProfileUrl_def members setProfileUrl_def parseStrictStringPtr_def
        stable_opt_def stable_def canonical_user_def)
  have active: "applyActive ?r v = Inr (v\<lparr>Active := Active u\<rparr>)" for v
    by (simp add: applyActive_def jget_def members parseStrictBool_def)
  have pw: "applyPassword L ?r v = Inr v" for v
    by (simp add: applyPassword_def members)
  show ?thesis
    unfolding applySimpleAttributes_def name sum.case
    by (simp add: ClearMutableAttributes_def url active pw text_step [OF members(2) st(1)] text_step [OF members(3) st(2)]
      text_step [OF members(4) st(3)] text_step [OF members(6) st(4)] text_step [OF members(7) st(5)]
      text_step [OF members(8) st(6)] text_step [OF members(9) st(7)] text_step [OF members(10) st(8)])
qed

lemma readName:
  assumes "canonical_user L u" and "NameFormatted v = None" "NameFamilyName v = None" "NameGivenName v = None"
    "NameMiddleName v = None" "NameHonorificPrefix v = None" "NameHonorificSuffix v = None"
  shows "applyNameAttribute L v (UserToScimResponse L u b g) =
    Inr (v\<lparr>NameFormatted := NameFormatted u, NameFamilyName := NameFamilyName u, NameGivenName := NameGivenName u,
      NameMiddleName := NameMiddleName u, NameHonorificPrefix := NameHonorificPrefix u,
      NameHonorificSuffix := NameHonorificSuffix u\<rparr>)"
proof -
  have st: "stable_opt L (NameFormatted u)" "stable_opt L (NameFamilyName u)" "stable_opt L (NameGivenName u)"
    "stable_opt L (NameMiddleName u)" "stable_opt L (NameHonorificPrefix u)" "stable_opt L (NameHonorificSuffix u)"
    using assms(1) by (simp_all add: canonical_user_def)
  let ?m = "buildNameMap u"
  have members: "map_of ?m ''formatted'' = map_option JStr (NameFormatted u)"
    "map_of ?m ''familyName'' = map_option JStr (NameFamilyName u)"
    "map_of ?m ''givenName'' = map_option JStr (NameGivenName u)"
    "map_of ?m ''middleName'' = map_option JStr (NameMiddleName u)"
    "map_of ?m ''honorificPrefix'' = map_option JStr (NameHonorificPrefix u)"
    "map_of ?m ''honorificSuffix'' = map_option JStr (NameHonorificSuffix u)"
    by (simp_all add: buildNameMap_def Let_def del: not_None_eq)
  show ?thesis
  proof (cases "?m = []")
    case True
    then have "NameFormatted u = None" "NameFamilyName u = None" "NameGivenName u = None"
      "NameMiddleName u = None" "NameHonorificPrefix u = None" "NameHonorificSuffix u = None"
      using members by simp_all
    then show ?thesis
      using True assms(2-) by (simp add: applyNameAttribute_def jget_def response_members)
  next
    case False
    then show ?thesis
      using assms(2-)
      by (simp add: applyNameAttribute_def jget_def response_members(13) text_step [OF members(1) st(1)]
        text_step [OF members(2) st(2)] text_step [OF members(3) st(3)] text_step [OF members(4) st(4)]
        text_step [OF members(5) st(5)] text_step [OF members(6) st(6)])
  qed
qed

lemma no_entries:
  "Emails v = [] \<Longrightarrow> v\<lparr>Emails := []\<rparr> = v" "PhoneNumbers v = [] \<Longrightarrow> v\<lparr>PhoneNumbers := []\<rparr> = v"
  "Addresses v = [] \<Longrightarrow> v\<lparr>Addresses := []\<rparr> = v" "Ims v = [] \<Longrightarrow> v\<lparr>Ims := []\<rparr> = v"
  "Photos v = [] \<Longrightarrow> v\<lparr>Photos := []\<rparr> = v" "Entitlements v = [] \<Longrightarrow> v\<lparr>Entitlements := []\<rparr> = v"
  "Roles v = [] \<Longrightarrow> v\<lparr>Roles := []\<rparr> = v" "X509Certificates v = [] \<Longrightarrow> v\<lparr>X509Certificates := []\<rparr> = v"
  for v :: ScimUser
  by (cases v; simp)+

lemma readCollections:
  assumes "canonical_user L u" and "Emails v = []" "PhoneNumbers v = []" "Addresses v = []" "Ims v = []"
    "Photos v = []" "Entitlements v = []" "Roles v = []" "X509Certificates v = []"
  shows "applyCollections L v (UserToScimResponse L u b g) =
    Inr (v\<lparr>Emails := Emails u, PhoneNumbers := PhoneNumbers u, Addresses := Addresses u, Ims := Ims u,
      Photos := Photos u, Entitlements := Entitlements u, Roles := Roles u, X509Certificates := X509Certificates u\<rparr>)"
proof -
  have ok: "entries_ok L u" "lists_ok L u" using assms(1) by (simp_all add: canonical_user_def)
  note cols = collections_print_read [OF ok] and lists = response_lists [of L u b g]
  note steps = list_step [OF lists(1), of "replaceCollectionEmails L", OF cols(1)]
    list_step [OF lists(2), of "replaceCollectionPhoneNumbers L", OF cols(2)]
    list_step [OF lists(3), of "replaceCollectionAddresses L", OF cols(3)]
    list_step [OF lists(4), of "replaceCollectionIms L", OF cols(4)]
    list_step [OF lists(5), of "replaceCollectionPhotos L", OF cols(5)]
    list_step [OF lists(6), of "replaceCollectionEntitlements L", OF cols(6)]
    list_step [OF lists(7), of "replaceCollectionRoles L", OF cols(7)]
    list_step [OF lists(8), of "replaceCollectionX509Certificates L", OF cols(8)]
  show ?thesis
    unfolding applyCollections_def
    using assms(2-) by (simp add: steps toMaps_defs no_entries)
qed

lemma find_folded:
  assumes "\<And>k. k \<in> fst ` set m \<Longrightarrow> P k \<longleftrightarrow> k = K"
  shows "find (\<lambda>(k, v). P k) m = map_option (Pair K) (map_of m K)"
  using assms
proof (induction m)
  case (Cons x m)
  obtain k v where x: "x = (k, v)" by fastforce
  have "P k \<longleftrightarrow> k = K" using Cons.prems [of k] x by simp
  then show ?case using Cons x by simp
qed simp

lemma find_enterprise:
  "find (\<lambda>(k, v). EqualFold L k EnterpriseSchemaURN) (UserToScimResponse L u b g) =
     map_option (Pair EnterpriseSchemaURN) (map_of (UserToScimResponse L u b g) EnterpriseSchemaURN)"
proof (rule find_folded)
  fix k
  assume "k \<in> fst ` set (UserToScimResponse L u b g)"
  then have k: "k \<in> set responseKeys" using keys_response [of L u b g] by blast
  have "\<forall>k \<in> set responseKeys. (\<forall>c \<in> set k. code c < 128) \<and>
    (map ascii_lower k = map ascii_lower EnterpriseSchemaURN \<longleftrightarrow> k = EnterpriseSchemaURN)"
    by code_simp
  moreover have "\<forall>c \<in> set EnterpriseSchemaURN. code c < 128" by code_simp
  ultimately show "EqualFold L k EnterpriseSchemaURN \<longleftrightarrow> k = EnterpriseSchemaURN"
    using k EqualFold_ascii [of k EnterpriseSchemaURN L] by blast
qed

lemma no_fields:
  "EnterpriseManagerDisplay v = None \<Longrightarrow> v\<lparr>EnterpriseManagerDisplay := None\<rparr> = v"
  "EnterpriseManagerRef v = None \<Longrightarrow> v\<lparr>EnterpriseManagerRef := None\<rparr> = v"
  "EnterpriseManagerValue v = None \<Longrightarrow> v\<lparr>EnterpriseManagerValue := None\<rparr> = v"
  for v :: ScimUser
  by (cases v; simp)+

lemma readManager:
  assumes "canonical_user L u" and "EnterpriseManagerValue v = None" "EnterpriseManagerRef v = None"
    "EnterpriseManagerDisplay v = None"
  shows "applyEnterpriseManager L v (JObj (buildManagerMap u)) =
    Inr (v\<lparr>EnterpriseManagerValue := EnterpriseManagerValue u, EnterpriseManagerRef := EnterpriseManagerRef u\<rparr>)"
proof -
  let ?m = "buildManagerMap u"
  have members: "map_of ?m ''value'' = map_option JStr (EnterpriseManagerValue u)"
    "map_of ?m ''$ref'' = map_option JStr (EnterpriseManagerRef u)"
    by (simp_all add: buildManagerMap_def Let_def del: not_None_eq)
  have st: "stable_opt L (EnterpriseManagerValue u)" "stable_opt L (EnterpriseManagerRef u)"
    and mgr: "manager_ok L u"
    using assms(1) by (simp_all add: canonical_user_def)
  show ?thesis
  proof (cases "EnterpriseManagerRef u")
    case None
    then show ?thesis
      using st assms(2-)
      by (cases "EnterpriseManagerValue u")
        (simp_all add: applyEnterpriseManager_def members parseStrictStringPtr_def stable_opt_def stable_def no_fields)
  next
    case (Some r)
    have agree: "TrimSpace r = [] \<or> ExtractUUIDFromRef L r = [] \<or> (\<not> blank (EnterpriseManagerValue u)
       \<and> EqualFold L (ExtractUUIDFromRef L r) (TrimSpace (the (EnterpriseManagerValue u))))"
      using mgr Some by (simp add: manager_ok_def)
    show ?thesis
      using st assms(2-) Some agree
      by (cases "EnterpriseManagerValue u")
        (auto simp: applyEnterpriseManager_def members parseStrictStringPtr_def stable_opt_def stable_def
          enterpriseManagerRef_def blank_def no_fields Let_def)
  qed
qed

lemma readEnterprise:
  assumes "canonical_user L u" and "EnterpriseEmployeeNumber v = None" "EnterpriseCostCenter v = None"
    "EnterpriseOrganization v = None" "EnterpriseDivision v = None" "EnterpriseDepartment v = None"
    "EnterpriseManagerValue v = None" "EnterpriseManagerRef v = None" "EnterpriseManagerDisplay v = None"
  shows "applyEnterpriseExtension L v (UserToScimResponse L u b g) =
    Inr (v\<lparr>EnterpriseEmployeeNumber := EnterpriseEmployeeNumber u, EnterpriseCostCenter := EnterpriseCostCenter u,
      EnterpriseOrganization := EnterpriseOrganization u, EnterpriseDivision := EnterpriseDivision u,
      EnterpriseDepartment := EnterpriseDepartment u, EnterpriseManagerValue := EnterpriseManagerValue u,
      EnterpriseManagerRef := EnterpriseManagerRef u\<rparr>)"
proof (cases "hasEnterpriseData u")
  case False
  moreover have "EnterpriseManagerRef u = None"
    using assms(1) False by (simp add: canonical_user_def manager_ok_def)
  ultimately show ?thesis
    using assms(2-) by (simp add: applyEnterpriseExtension_def find_enterprise response_members(14) hasEnterpriseData_def)
next
  case True
  have st: "stable_opt L (EnterpriseEmployeeNumber u)" "stable_opt L (EnterpriseCostCenter u)"
    "stable_opt L (EnterpriseOrganization u)" "stable_opt L (EnterpriseDivision u)" "stable_opt L (EnterpriseDepartment u)"
    using assms(1) by (simp_all add: canonical_user_def)
  let ?m = "enterpriseMap u"
  have members: "map_of ?m ''employeeNumber'' = map_option JStr (EnterpriseEmployeeNumber u)"
    "map_of ?m ''costCenter'' = map_option JStr (EnterpriseCostCenter u)"
    "map_of ?m ''organization'' = map_option JStr (EnterpriseOrganization u)"
    "map_of ?m ''division'' = map_option JStr (EnterpriseDivision u)"
    "map_of ?m ''department'' = map_option JStr (EnterpriseDepartment u)"
    "map_of ?m ''manager'' = (if buildManagerMap u \<noteq> [] then Some (JObj (buildManagerMap u)) else None)"
    by (simp_all add: enterpriseMap_def Let_def map_of_if del: not_None_eq)
  have none: "EnterpriseManagerValue u = None" "EnterpriseManagerRef u = None" if "buildManagerMap u = []"
    using that by (simp_all add: buildManagerMap_def Let_def putIfNotNull_def jput_def split: option.splits if_splits)
  show ?thesis
    using assms(2-) True readManager [OF assms(1)] none
    by (simp add: applyEnterpriseExtension_def find_enterprise response_members(14) text_step [OF members(1) st(1)]
      text_step [OF members(2) st(2)] text_step [OF members(3) st(3)] text_step [OF members(4) st(4)]
      text_step [OF members(5) st(5)] members(6))
qed

text \<open>C19. For a user whose stored values are canonical, writing the response back with PUT
  restores every attribute: only the password, which is never returned, and the manager's display
  name, which clients may not write, are dropped.\<close>

theorem get_put_roundtrip:
  assumes "canonical_user L u"
  shows "ApplyFromScimInput L (ClearMutableAttributes u) (UserToScimResponse L u baseURL groups) =
    Inr (u\<lparr>Password := None, EnterpriseManagerDisplay := None\<rparr>)"
  unfolding ApplyFromScimInput_def readSimple [OF assms] sum.case
  by (simp add: readName [OF assms] readCollections [OF assms] readEnterprise [OF assms] ClearMutableAttributes_def)

definition round_user :: ScimUser where
  "round_user = (ClearMutableAttributes sample_user)\<lparr>UserName := ''bob'', Active := False, Password := Some ''#pw'',
     NameFamilyName := Some ''Hill'', Title := Some [], EnterpriseDepartment := Some ''R1'',
     EnterpriseManagerValue := Some ''m1'',
     Emails := [\<lparr>Value = ''b@x'', Type = ''work'', Display = [], PrimaryFlag = True\<rparr>,
       \<lparr>Value = ''b@y'', Type = ''home'', Display = ''B'', PrimaryFlag = False\<rparr>]\<rparr>"

lemma round_user_canonical: "canonical_user plain_ext round_user"
  by code_simp

theorem get_put_roundtrip_witness:
  "ApplyFromScimInput plain_ext (ClearMutableAttributes round_user) (UserToScimResponse plain_ext round_user ''https://h'' []) =
    Inr (round_user\<lparr>Password := None\<rparr>)"
  using get_put_roundtrip [OF round_user_canonical, of "''https://h''" "[]"]
  by (simp add: round_user_def ClearMutableAttributes_def)

end
