(* ===== verification/JsonText.thy ===== *)
theory JsonText
  imports Json
begin

text \<open>
  Go's encoding/json on text: \<^verbatim>\<open>json.Unmarshal\<close> into an \<^verbatim>\<open>any\<close>, which the request bodies and
  the cursors go through, and the quoting and numbers of \<^verbatim>\<open>json.Marshal\<close>. Input is taken to be
  valid UTF-8; a number keeps its literal.
\<close>

section \<open>Strings\<close>

fun hex_value :: "char \<Rightarrow> nat option" where
  "hex_value c =
     (if is_digit c then Some (code c - 48)
      else if 65 \<le> code c \<and> code c \<le> 70 then Some (code c - 55)
      else if 97 \<le> code c \<and> code c \<le> 102 then Some (code c - 87) else None)"

text \<open>\<^verbatim>\<open>getu4\<close> on the four digits after \<^verbatim>\<open>\u\<close>.\<close>

definition hex4 :: "string \<Rightarrow> nat option" where
  "hex4 s = (case s of
      a # b # c # d # _ \<Rightarrow>
        (case (hex_value a, hex_value b, hex_value c, hex_value d) of
           (Some w, Some x, Some y, Some z) \<Rightarrow> Some (4096 * w + 256 * x + 16 * y + z)
         | _ \<Rightarrow> None)
    | _ \<Rightarrow> None)"

definition utf8 :: "nat \<Rightarrow> string" where
  "utf8 n = map char_of
     (if n < 128 then [n]
      else if n < 2048 then [192 + n div 64, 128 + n mod 64]
      else if n < 65536 then [224 + n div 4096, 128 + n div 64 mod 64, 128 + n mod 64]
      else [240 + n div 262144, 128 + n div 4096 mod 64, 128 + n div 64 mod 64, 128 + n mod 64])"

text \<open>The rune of an escape \<^verbatim>\<open>\u\<close> and the number of characters after the \<^verbatim>\<open>u\<close> it takes: a pair
  of surrogates is one rune, a lone surrogate is U+FFFD.\<close>

definition unicodeEscape :: "string \<Rightarrow> (nat \<times> nat) option" where
  "unicodeEscape s =
     (case hex4 s of
        None \<Rightarrow> None
      | Some r \<Rightarrow>
          if r < 55296 \<or> 57343 < r then Some (r, 4)
          else (case (if prefix [bslash, CHR ''u''] (drop 4 s) then hex4 (drop 6 s) else None) of
              Some r1 \<Rightarrow>
                if r < 56320 \<and> 56320 \<le> r1 \<and> r1 \<le> 57343
                then Some (65536 + (r - 55296) * 1024 + (r1 - 56320), 10) else Some (65533, 4)
            | None \<Rightarrow> Some (65533, 4)))"

definition simpleEscape :: "char \<Rightarrow> char option" where
  "simpleEscape c = map_of [(dquote, dquote), (bslash, bslash), (CHR ''/'', CHR ''/''),
     (CHR ''b'', CHR 0x08), (CHR ''f'', CHR 0x0C), (CHR ''n'', CHR 0x0A), (CHR ''r'', CHR 0x0D),
     (CHR ''t'', CHR 0x09)] c"

text \<open>The rest of a string after its opening quote.\<close>

fun jstring :: "string \<Rightarrow> (string \<times> string) option" where
  "jstring [] = None"
| "jstring (c # cs) =
     (if c = dquote then Some ([], cs)
      else if c = bslash then
        (case cs of
           [] \<Rightarrow> None
         | e # rest \<Rightarrow>
             if e = CHR ''u'' then
               (case unicodeEscape rest of
                  None \<Rightarrow> None
                | Some (r, k) \<Rightarrow> map_option (apfst (append (utf8 r))) (jstring (drop k rest)))
             else
               (case simpleEscape e of
                  None \<Rightarrow> None
                | Some b \<Rightarrow> map_option (apfst (Cons b)) (jstring rest)))
      else if code c < 32 then None
      else map_option (apfst (Cons c)) (jstring cs))"

text \<open>\<^verbatim>\<open>json.Marshal\<close> of a string: quotes, backslashes and control characters are escaped, and
  so are the characters of HTML and the two line separators of JavaScript.\<close>

definition hex_digit :: "nat \<Rightarrow> char" where
  "hex_digit n = (if n < 10 then char_of (48 + n) else char_of (87 + n))"

definition quoteChar :: "char \<Rightarrow> string" where
  "quoteChar c =
     (if c = dquote \<or> c = bslash then [bslash, c]
      else if c = CHR 0x08 then [bslash, CHR ''b''] else if c = CHR 0x0C then [bslash, CHR ''f'']
      else if c = CHR 0x0A then [bslash, CHR ''n''] else if c = CHR 0x0D then [bslash, CHR ''r'']
      else if c = CHR 0x09 then [bslash, CHR ''t'']
      else if code c < 32 \<or> c \<in> set ''<>&'' then
        [bslash] @ ''u00'' @ [hex_digit (code c div 16), hex_digit (code c mod 16)]
      else [c])"

fun quoteChars :: "string \<Rightarrow> string" where
  "quoteChars [] = []"
| "quoteChars (c # cs) =
     (if c = CHR 0xE2 \<and> take 1 cs = [CHR 0x80] \<and> take 1 (drop 1 cs) \<in> {[CHR 0xA8], [CHR 0xA9]}
      then [bslash] @ ''u202'' @ (if cs ! 1 = CHR 0xA8 then ''8'' else ''9'') @ quoteChars (drop 2 cs)
      else quoteChar c @ quoteChars cs)"

definition jsonQuote :: "string \<Rightarrow> string" where
  "jsonQuote s = [dquote] @ quoteChars s @ [dquote]"

section \<open>Numbers\<close>

definition digits :: "string \<Rightarrow> (string \<times> string) option" where
  "digits s = (if takeWhile is_digit s = [] then None else Some (takeWhile is_digit s, dropWhile is_digit s))"

definition intPart :: "string \<Rightarrow> (string \<times> string) option" where
  "intPart s = (case s of
      [] \<Rightarrow> None
    | c # cs \<Rightarrow> if c = CHR ''0'' then Some (''0'', cs) else digits s)"

definition fracPart :: "string \<Rightarrow> (string \<times> string) option" where
  "fracPart s = (case s of
      c # cs \<Rightarrow> if c = CHR ''.'' then map_option (apfst (Cons c)) (digits cs) else Some ([], s)
    | [] \<Rightarrow> Some ([], s))"

definition expPart :: "string \<Rightarrow> (string \<times> string) option" where
  "expPart s = (case s of
      c # cs \<Rightarrow>
        if c = CHR ''e'' \<or> c = CHR ''E'' then
          (case cs of
             d # ds \<Rightarrow>
               if d = CHR ''+'' \<or> d = CHR ''-'' then map_option (apfst (\<lambda>t. c # d # t)) (digits ds)
               else map_option (apfst (Cons c)) (digits cs)
           | [] \<Rightarrow> None)
        else Some ([], s)
    | [] \<Rightarrow> Some ([], s))"

definition jnumber :: "string \<Rightarrow> (string \<times> string) option" where
  "jnumber s =
     (let (sign, s0) = (case s of c # cs \<Rightarrow> if c = CHR ''-'' then ([c], cs) else ([], s) | [] \<Rightarrow> ([], s)) in
      case intPart s0 of
        None \<Rightarrow> None
      | Some (i, s1) \<Rightarrow>
          (case fracPart s1 of
             None \<Rightarrow> None
           | Some (f, s2) \<Rightarrow>
               (case expPart s2 of None \<Rightarrow> None | Some (e, s3) \<Rightarrow> Some (sign @ i @ f @ e, s3))))"

section \<open>Values\<close>

definition skipSpace :: "string \<Rightarrow> string" where
  "skipSpace = dropWhile (\<lambda>c. c \<in> set [CHR '' '', CHR 0x09, CHR 0x0A, CHR 0x0D])"

definition literal :: "string \<Rightarrow> json \<Rightarrow> string \<Rightarrow> (json \<times> string) option" where
  "literal word v s = (if prefix word s then Some (v, drop (length word) s) else None)"

text \<open>The parser of values, with the depth that Go allows and fuel; every call consumes a
  character or goes from the elements of an array or object to a value, so twice the length of
  the input is enough fuel. The members of an object keep their order and repetitions.\<close>

fun jvalue :: "nat \<Rightarrow> nat \<Rightarrow> string \<Rightarrow> (json \<times> string) option"
  and jelements :: "nat \<Rightarrow> nat \<Rightarrow> json list \<Rightarrow> string \<Rightarrow> (json \<times> string) option"
  and jmembers :: "nat \<Rightarrow> nat \<Rightarrow> json_object \<Rightarrow> string \<Rightarrow> (json \<times> string) option" where
  "jvalue 0 depth s = None"
| "jvalue (Suc n) depth s =
     (case skipSpace s of
        [] \<Rightarrow> None
      | c # cs \<Rightarrow>
          if c = CHR ''{'' then
            (if depth = 0 then None
             else (case skipSpace cs of
                 d # ds \<Rightarrow> if d = CHR ''}'' then Some (JObj [], ds) else jmembers n (depth - 1) [] cs
               | [] \<Rightarrow> None))
          else if c = CHR ''['' then
            (if depth = 0 then None
             else (case skipSpace cs of
                 d # ds \<Rightarrow> if d = CHR '']'' then Some (JArr [], ds) else jelements n (depth - 1) [] cs
               | [] \<Rightarrow> None))
          else if c = dquote then map_option (apfst JStr) (jstring cs)
          else if c = CHR ''t'' then literal ''true'' (JBool True) (c # cs)
          else if c = CHR ''f'' then literal ''false'' (JBool False) (c # cs)
          else if c = CHR ''n'' then literal ''null'' JNull (c # cs)
          else map_option (apfst JNum) (jnumber (c # cs)))"
| "jelements 0 depth acc s = None"
| "jelements (Suc n) depth acc s =
     (case jvalue n depth s of
        None \<Rightarrow> None
      | Some (v, s') \<Rightarrow>
          (case skipSpace s' of
             d # ds \<Rightarrow>
               if d = CHR '','' then jelements n depth (acc @ [v]) ds
               else if d = CHR '']'' then Some (JArr (acc @ [v]), ds) else None
           | [] \<Rightarrow> None))"
| "jmembers 0 depth acc s = None"
| "jmembers (Suc n) depth acc s =
     (case skipSpace s of
        [] \<Rightarrow> None
      | q # qs \<Rightarrow>
          if q \<noteq> dquote then None
          else (case jstring qs of
              None \<Rightarrow> None
            | Some (k, s1) \<Rightarrow>
                (case skipSpace s1 of
                   [] \<Rightarrow> None
                 | e # es \<Rightarrow>
                     if e \<noteq> CHR '':'' then None
                     else (case jvalue n depth es of
                         None \<Rightarrow> None
                       | Some (v, s2) \<Rightarrow>
                           (case skipSpace s2 of
                              d # ds \<Rightarrow>
                                if d = CHR '','' then jmembers n depth (acc @ [(k, v)]) ds
                                else if d = CHR ''}'' then Some (JObj (acc @ [(k, v)]), ds) else None
                            | [] \<Rightarrow> None)))))"

definition maxNestingDepth :: nat where
  "maxNestingDepth = 10000"

definition parseJSON :: "string \<Rightarrow> json option" where
  "parseJSON s =
     (case jvalue (2 * length s + 2) maxNestingDepth s of
        Some (v, rest) \<Rightarrow> if skipSpace rest = [] then Some v else None
      | None \<Rightarrow> None)"

text \<open>Decoding into an \<^verbatim>\<open>any\<close>: of a repeated key the last value counts.\<close>

fun lastValues :: "json \<Rightarrow> json" where
  "lastValues (JArr vs) = JArr (map lastValues vs)"
| "lastValues (JObj kvs) = JObj (fold (\<lambda>(k, v) m. jput m k v) (map (\<lambda>(k, v). (k, lastValues v)) kvs) [])"
| "lastValues v = v"

definition jsonUnmarshal :: "string \<Rightarrow> json option" where
  "jsonUnmarshal s = map_option lastValues (parseJSON s)"

section \<open>More fuel does not change a result\<close>

declare jvalue.simps [simp del] jelements.simps [simp del] jmembers.simps [simp del]

lemma fuel_Suc:
  "jvalue n d s = Some r \<Longrightarrow> jvalue (Suc n) d s = Some r"
  "jelements n d vs s = Some r \<Longrightarrow> jelements (Suc n) d vs s = Some r"
  "jmembers n d kvs s = Some r \<Longrightarrow> jmembers (Suc n) d kvs s = Some r"
proof (induction n arbitrary: d s vs kvs r)
  case 0
  {
    case 1 then show ?case by (simp add: jvalue.simps)
  next
    case 2 then show ?case by (simp add: jelements.simps)
  next
    case 3 then show ?case by (simp add: jmembers.simps)
  }
next
  case (Suc n)
  {
    case 1
    then obtain c cs where s: "skipSpace s = c # cs" by (cases "skipSpace s") (auto simp: jvalue.simps)
    show ?case
    proof (cases "c = CHR ''{'' \<or> c = CHR ''[''")
      case True
      with 1 s obtain e es where e: "skipSpace cs = e # es"
        by (cases "skipSpace cs") (auto simp: jvalue.simps(2) [of n] split: if_splits)
      from True show ?thesis
        using 1 s e Suc.IH(2,3)
        by (elim disjE) (simp_all add: jvalue.simps(2) [of n] jvalue.simps(2) [of "Suc n"] split: if_split_asm)
    next
      case False
      then show ?thesis using 1 s by (simp add: jvalue.simps(2) [of n] jvalue.simps(2) [of "Suc n"])
    qed
  next
    case 2
    then obtain v s' where v: "jvalue n d s = Some (v, s')"
      by (auto simp: jelements.simps split: option.splits)
    then show ?case
      using 2 Suc.IH(1) [OF v] Suc.IH(2)
      by (cases "skipSpace s'")
        (simp_all add: jelements.simps(2) [of n] jelements.simps(2) [of "Suc n"] split: if_split_asm)
  next
    case 3
    then obtain qs k s1 es v s2 where p: "skipSpace s = dquote # qs" "jstring qs = Some (k, s1)"
      "skipSpace s1 = CHR '':'' # es" "jvalue n d es = Some (v, s2)"
      by (auto simp: jmembers.simps split: option.splits list.splits if_split_asm)
    then show ?case
      using 3 Suc.IH(1) [OF p(4)] Suc.IH(3)
      by (cases "skipSpace s2")
        (simp_all add: jmembers.simps(2) [of n] jmembers.simps(2) [of "Suc n"] split: if_split_asm)
  }
qed

lemma jvalue_fuel: "jvalue n d s = Some r \<Longrightarrow> n \<le> m \<Longrightarrow> jvalue m d s = Some r"
proof (induction m)
  case (Suc m)
  then show ?case using fuel_Suc(1) by (cases "n = Suc m") auto
qed (simp add: jvalue.simps)

lemma parseJSONI:
  assumes "jvalue n maxNestingDepth s = Some (v, rest)" and "n \<le> 2 * length s + 2" and "skipSpace rest = []"
  shows "parseJSON s = Some v"
  using jvalue_fuel [OF assms(1,2)] assms(3) by (simp add: parseJSON_def)

section \<open>Strings and integers are read back\<close>

lemma jstring_plain: "c \<noteq> dquote \<Longrightarrow> c \<noteq> bslash \<Longrightarrow> 32 \<le> code c \<Longrightarrow>
    jstring (c # cs) = map_option (apfst (Cons c)) (jstring cs)"
  by (subst jstring.simps) simp

lemma jstring_simple: "e \<noteq> CHR ''u'' \<Longrightarrow> simpleEscape e = Some b \<Longrightarrow>
    jstring (bslash # e # cs) = map_option (apfst (Cons b)) (jstring cs)"
  by (subst jstring.simps) simp

lemma jstring_unicode: "unicodeEscape cs = Some (r, k) \<Longrightarrow>
    jstring (bslash # CHR ''u'' # cs) = map_option (apfst (append (utf8 r))) (jstring (drop k cs))"
  by (subst jstring.simps) simp

lemma hex_value_digit: "n < 16 \<Longrightarrow> hex_value (hex_digit n) = Some n"
proof -
  assume "n < 16"
  then have "n \<in> set [0..<16]" by simp
  moreover have "list_all (\<lambda>n. hex_value (hex_digit n) = Some n) [0..<16]"
    by code_simp
  ultimately show ?thesis by (simp only: list_all_iff)
qed

lemma unicode_small:
  assumes "code c < 128"
  shows "jstring (bslash # CHR ''u'' # CHR ''0'' # CHR ''0'' # hex_digit (code c div 16) # hex_digit (code c mod 16) # cs)
    = map_option (apfst (Cons c)) (jstring cs)"
proof -
  have "unicodeEscape (CHR ''0'' # CHR ''0'' # hex_digit (code c div 16) # hex_digit (code c mod 16) # cs) = Some (code c, 4)"
  proof -
    have z: "hex_value CHR ''0'' = Some 0" by code_simp
    have "code c div 16 < 16" "code c mod 16 < 16" using assms by auto
    then have "hex4 (CHR ''0'' # CHR ''0'' # hex_digit (code c div 16) # hex_digit (code c mod 16) # cs) = Some (code c)"
      by (simp add: hex4_def z hex_value_digit del: hex_value.simps)
    then show ?thesis using assms by (simp add: unicodeEscape_def)
  qed
  moreover have "utf8 (code c) = [c]"
    using assms by (simp add: utf8_def code_def)
  moreover have "(@) [c] = (#) c" by (rule ext) simp
  ultimately show ?thesis by (simp add: jstring_unicode del: jstring.simps)
qed

lemma jstring_quoteChar: "jstring (quoteChar c @ cs) = map_option (apfst (Cons c)) (jstring cs)"
proof -
  consider (esc) "c \<in> {dquote, bslash, CHR 0x08, CHR 0x0C, CHR 0x0A, CHR 0x0D, CHR 0x09}"
    | (uni) "c \<notin> {dquote, bslash, CHR 0x08, CHR 0x0C, CHR 0x0A, CHR 0x0D, CHR 0x09}" "code c < 32 \<or> c \<in> set ''<>&''"
    | (plain) "c \<notin> {dquote, bslash, CHR 0x08, CHR 0x0C, CHR 0x0A, CHR 0x0D, CHR 0x09}" "\<not> (code c < 32 \<or> c \<in> set ''<>&'')"
    by blast
  then show ?thesis
  proof cases
    case esc
    then have "\<exists>e. quoteChar c = [bslash, e] \<and> e \<noteq> CHR ''u'' \<and> simpleEscape e = Some c"
      by (elim insertE emptyE) (simp_all add: quoteChar_def simpleEscape_def)
    then show ?thesis by (auto simp: jstring_simple simp del: jstring.simps)
  next
    case uni
    then have q: "quoteChar c = [bslash] @ ''u00'' @ [hex_digit (code c div 16), hex_digit (code c mod 16)]"
      by (simp only: quoteChar_def insert_iff empty_iff de_Morgan_disj simp_thms if_False if_True)
    have "code c < 128" using uni(2) by (auto simp: code_def)
    then show ?thesis by (simp add: q unicode_small del: jstring.simps)
  next
    case plain
    then have q: "quoteChar c = [c]"
      by (simp only: quoteChar_def insert_iff empty_iff de_Morgan_disj simp_thms if_False if_True)
    show ?thesis using plain by (simp add: q jstring_plain del: jstring.simps)
  qed
qed

lemma jstring_separator:
  assumes "d = CHR 0xA8 \<or> d = CHR 0xA9"
  shows "jstring (bslash # CHR ''u'' # CHR ''2'' # CHR ''0'' # CHR ''2'' # (if d = CHR 0xA8 then CHR ''8'' else CHR ''9'') # cs)
    = map_option (apfst (append [CHR 0xE2, CHR 0x80, d])) (jstring cs)"
proof -
  have h: "hex4 (CHR ''2'' # CHR ''0'' # CHR ''2'' # CHR ''8'' # cs) = Some 8232"
    "hex4 (CHR ''2'' # CHR ''0'' # CHR ''2'' # CHR ''9'' # cs) = Some 8233"
    by (simp_all add: hex4_def is_digit_def code_def)
  have u: "utf8 8232 = [CHR 0xE2, CHR 0x80, CHR 0xA8]" "utf8 8233 = [CHR 0xE2, CHR 0x80, CHR 0xA9]"
    using char_of_char [of "CHR 0xE2"] char_of_char [of "CHR 0x80"] char_of_char [of "CHR 0xA8"] char_of_char [of "CHR 0xA9"]
    by (simp_all add: utf8_def)
  have e: "unicodeEscape (CHR ''2'' # CHR ''0'' # CHR ''2'' # CHR ''8'' # cs) = Some (8232, 4)"
    "unicodeEscape (CHR ''2'' # CHR ''0'' # CHR ''2'' # CHR ''9'' # cs) = Some (8233, 4)"
    by (simp_all add: unicodeEscape_def h)
  show ?thesis
    using assms jstring_unicode [OF e(1)] jstring_unicode [OF e(2)] by (elim disjE) (simp_all add: u del: jstring.simps)
qed

lemma jstring_quoteChars: "jstring (quoteChars s @ dquote # rest) = Some (s, rest)"
proof (induction s rule: quoteChars.induct)
  case (2 c cs)
  show ?case
  proof (cases "c = CHR 0xE2 \<and> take 1 cs = [CHR 0x80] \<and> take 1 (drop 1 cs) \<in> {[CHR 0xA8], [CHR 0xA9]}")
    case True
    then obtain d ds where cs: "cs = CHR 0x80 # d # ds" "d = CHR 0xA8 \<or> d = CHR 0xA9"
      by (cases cs; cases "tl cs") auto
    have "quoteChars (c # cs) = bslash # CHR ''u'' # CHR ''2'' # CHR ''0'' # CHR ''2''
        # (if d = CHR 0xA8 then CHR ''8'' else CHR ''9'') # quoteChars ds"
      using True cs by auto
    then show ?thesis
      using "2.IH"(1) [OF True] True cs jstring_separator [OF cs(2), of "quoteChars ds @ dquote # rest"] by auto
  next
    case False
    have "quoteChars (c # cs) = quoteChar c @ quoteChars cs"
      by (simp only: quoteChars.simps(2) False if_False)
    then show ?thesis using "2.IH"(2) [OF False] by (simp add: jstring_quoteChar del: jstring.simps)
  qed
qed simp

lemma jstring_jsonQuote: "jvalue (Suc n) d (jsonQuote s @ rest) = Some (JStr s, rest)"
  by (simp add: jsonQuote_def jvalue.simps skipSpace_def jstring_quoteChars del: jstring.simps)

text \<open>\<^verbatim>\<open>strconv.ParseInt(s, 10, 64)\<close>, which \<^verbatim>\<open>strconv.Atoi\<close> is on a 64-bit machine.\<close>

definition ParseInt64 :: "string \<Rightarrow> int option" where
  "ParseInt64 s =
     (let (neg, ds) = (case s of
          c # cs \<Rightarrow> if c = CHR ''-'' then (True, cs) else if c = CHR ''+'' then (False, cs) else (False, s)
        | [] \<Rightarrow> (False, [])) in
      if ds = [] \<or> \<not> list_all is_digit ds then None
      else
        (let v = (if neg then - int (atoi_from 0 ds) else int (atoi_from 0 ds)) in
         if - (2 ^ 63) \<le> v \<and> v < 2 ^ 63 then Some v else None))"

lemma itoa_head: "itoa n = c # cs \<Longrightarrow> is_digit c"
  using itoa_digits [of c n] by simp

lemma sign_not_digit [simp]: "\<not> is_digit CHR ''-''" "\<not> is_digit CHR ''+''" "\<not> is_digit CHR ''.''"
    "\<not> is_digit CHR ''e''" "\<not> is_digit CHR ''E''" "\<not> is_digit CHR '',''" "\<not> is_digit CHR ''}''"
  by code_simp+

lemma itoa_all_digits [simp]: "list_all is_digit (itoa n)"
  using itoa_digits by (simp add: list_all_iff)

lemma ParseInt64_itoa:
  assumes "- (2 ^ 63) \<le> n" and "n < 2 ^ 63"
  shows "ParseInt64 (itoa_int n) = Some n"
proof (cases "n < 0")
  case True
  then show ?thesis using assms by (simp add: ParseInt64_def itoa_int_def atoi_itoa)
next
  case False
  obtain c cs where c: "itoa (nat n) = c # cs" by (cases "itoa (nat n)") auto
  then have "is_digit c" by (rule itoa_head)
  then have "c \<noteq> CHR ''-''" "c \<noteq> CHR ''+''" by (metis sign_not_digit(1), metis sign_not_digit(2))
  then show ?thesis
    using False assms c atoi_itoa [of "nat n"] itoa_all_digits [of "nat n"]
    by (simp add: ParseInt64_def itoa_int_def)
qed

lemma itoa_zero: "itoa n = CHR ''0'' # cs \<Longrightarrow> n = 0 \<and> cs = []"
proof (induction n arbitrary: cs rule: itoa.induct)
  case (1 n)
  show ?case
  proof (cases "n < 10")
    case True
    then have "code (digit_char n) = code CHR ''0''" "cs = []"
      using "1.prems" by (simp_all add: itoa.simps [of n])
    moreover have "code CHR ''0'' = 48" by (simp add: code_def)
    ultimately show ?thesis using True by simp
  next
    case False
    then have eq: "itoa (n div 10) @ [digit_char (n mod 10)] = CHR ''0'' # cs"
      using "1.prems" by (simp add: itoa.simps [of n])
    then obtain ds where "itoa (n div 10) = CHR ''0'' # ds"
      by (cases "itoa (n div 10)") auto
    then have "n div 10 = 0" using "1.IH" [OF False] by blast
    with False show ?thesis by simp
  qed
qed

definition numberEnds :: "string \<Rightarrow> bool" where
  "numberEnds rest \<longleftrightarrow> rest = [] \<or> (\<not> is_digit (hd rest) \<and> hd rest \<notin> set ''.eE'')"

lemma takeWhile_itoa_ends:
  "numberEnds rest \<Longrightarrow> takeWhile is_digit (itoa n @ rest) = itoa n \<and> dropWhile is_digit (itoa n @ rest) = rest"
proof -
  assume "numberEnds rest"
  then have "takeWhile is_digit rest = []" "dropWhile is_digit rest = rest"
    by (cases rest; simp add: numberEnds_def)+
  then show ?thesis using itoa_digits [of _ n] by (simp add: takeWhile_append2 dropWhile_append2)
qed

lemma intPart_itoa:
  assumes "numberEnds rest"
  shows "intPart (itoa n @ rest) = Some (itoa n, rest)"
proof -
  obtain c cs where c: "itoa n = c # cs" by (cases "itoa n") auto
  show ?thesis
  proof (cases "c = CHR ''0''")
    case True
    then have "cs = []" using itoa_zero c by blast
    with True c show ?thesis by (simp add: intPart_def)
  next
    case False
    have "digits (itoa n @ rest) = Some (itoa n, rest)"
      using takeWhile_itoa_ends [OF assms] by (simp add: digits_def)
    then show ?thesis using False c by (simp add: intPart_def)
  qed
qed

lemma jnumber_itoa:
  assumes "numberEnds rest"
  shows "jnumber (itoa_int n @ rest) = Some (itoa_int n, rest)"
proof -
  have tail: "fracPart rest = Some ([], rest)" "expPart rest = Some ([], rest)"
    using assms by (cases rest; simp add: numberEnds_def fracPart_def expPart_def)+
  show ?thesis
  proof (cases "n < 0")
    case True
    then show ?thesis using tail intPart_itoa [OF assms] by (simp add: jnumber_def itoa_int_def)
  next
    case False
    obtain c cs where c: "itoa (nat n) = c # cs" by (cases "itoa (nat n)") auto
    then have "is_digit c" by (rule itoa_head)
    then have "c \<noteq> CHR ''-''" by (metis sign_not_digit(1))
    then show ?thesis
      using False tail intPart_itoa [OF assms, of "nat n"] c by (simp add: jnumber_def itoa_int_def)
  qed
qed

lemma is_digit_range: "is_digit c \<Longrightarrow> c \<in> set ''0123456789''"
proof -
  assume "is_digit c"
  then have "code c \<in> set [48..<58]" by (simp only: is_digit_def set_upt atLeastLessThan_iff) presburger
  moreover have "c = char_of (code c)" by (simp add: code_def)
  ultimately have "c \<in> char_of ` set [48..<58]" by (metis imageI)
  moreover have "map char_of [48..<58 :: nat] = ''0123456789''" by code_simp
  ultimately show ?thesis by (metis list.set_map)
qed

lemma number_start: "is_digit c \<or> c = CHR ''-'' \<Longrightarrow>
    c \<notin> set [CHR '' '', CHR 0x09, CHR 0x0A, CHR 0x0D] \<and> c \<notin> set [CHR ''{'', CHR ''['', dquote, CHR ''t'', CHR ''f'', CHR ''n'']"
  using is_digit_range [of c] by auto

lemma jvalue_itoa:
  assumes "numberEnds rest"
  shows "jvalue (Suc n) d (itoa_int i @ rest) = Some (JNum (itoa_int i), rest)"
proof -
  obtain c cs where c: "itoa_int i = c # cs" by (cases "itoa_int i") (auto simp: itoa_int_def split: if_splits)
  then have "is_digit c \<or> c = CHR ''-''"
    using itoa_head [of "nat i" c cs] by (auto simp: itoa_int_def split: if_splits)
  from number_start [OF this] show ?thesis
    using jnumber_itoa [OF assms, of i] c by (simp add: jvalue.simps skipSpace_def)
qed

section \<open>Members of an object\<close>

lemma jmembers_next:
  assumes "jvalue n d (t @ CHR '','' # r) = Some (v, CHR '','' # r)"
  shows "jmembers (Suc n) d acc (jsonQuote k @ CHR '':'' # t @ CHR '','' # r) = jmembers n d (acc @ [(k, v)]) r"
  using assms by (simp add: jmembers.simps skipSpace_def jsonQuote_def jstring_quoteChars del: jstring.simps)

lemma jmembers_last:
  assumes "jvalue n d (t @ CHR ''}'' # r) = Some (v, CHR ''}'' # r)"
  shows "jmembers (Suc n) d acc (jsonQuote k @ CHR '':'' # t @ CHR ''}'' # r) = Some (JObj (acc @ [(k, v)]), r)"
  using assms by (simp add: jmembers.simps skipSpace_def jsonQuote_def jstring_quoteChars del: jstring.simps)

lemma jobject_step:
  "0 < d \<Longrightarrow> jvalue (Suc n) d (CHR ''{'' # jsonQuote k @ s) = jmembers n (d - 1) [] (jsonQuote k @ s)"
  by (simp add: jvalue.simps skipSpace_def jsonQuote_def)

lemma numberEnds_simps [simp]: "numberEnds []" "numberEnds (CHR '','' # s)" "numberEnds (CHR ''}'' # s)"
  by (simp_all add: numberEnds_def)

end
