(* ===== verification/Cursor.thy ===== *)
theory Cursor
  imports JsonText Base64
begin

text \<open>
  \<^verbatim>\<open>internal/scim/cursor.go\<close>: the stateless cursors of RFC 9865. The signing key is the state of
  the package; SHA-256 and HMAC-SHA-256 are parameters, times are nanoseconds since the epoch.
\<close>

section \<open>Parameters\<close>

record crypto =
  sha256 :: "string \<Rightarrow> string"
  hmac_sha256 :: "string \<Rightarrow> string \<Rightarrow> string"

text \<open>Both have digests of 32 bytes.\<close>

definition digests :: "crypto \<Rightarrow> bool" where
  "digests C \<longleftrightarrow> (\<forall>s. length (sha256 C s) = 32) \<and> (\<forall>k m. length (hmac_sha256 C k m) = 32)"

text \<open>Multiplication of a \<^verbatim>\<open>time.Duration\<close> wraps around at 64 bits.\<close>

definition wrap64 :: "int \<Rightarrow> int" where
  "wrap64 i = (i + 2 ^ 63) mod 2 ^ 64 - 2 ^ 63"

definition Unix :: "int \<Rightarrow> int" where
  "Unix ns = ns div 1000000000"

section \<open>Signatures\<close>

definition CursorPrefix :: string where
  "CursorPrefix = ''scim_cur_''"

definition DefaultCursorTimeoutSeconds :: int where
  "DefaultCursorTimeoutSeconds = 3600"

definition invalidCursor :: "string \<Rightarrow> 'a res" where
  "invalidCursor detail = Inl (NewScimError 400 ''invalidCursor'' detail)"

text \<open>The secret of the process: from the environment, or 32 random bytes.\<close>

definition initialCursorSecret :: "crypto \<Rightarrow> string \<Rightarrow> string \<Rightarrow> string" where
  "initialCursorSecret C env random = (if env \<noteq> [] then sha256 C env else random)"

definition SetCursorSecret :: "crypto \<Rightarrow> string \<Rightarrow> string \<Rightarrow> string" where
  "SetCursorSecret C secret key = (if secret = [] then key else sha256 C secret)"

definition cursorMessage :: "string \<Rightarrow> int \<Rightarrow> int \<Rightarrow> int \<Rightarrow> string" where
  "cursorMessage wsID offset exp pageSize =
     Join ([wsID, itoa_int offset, itoa_int exp] @ (if 0 < pageSize then [itoa_int pageSize] else [])) ''|''"

definition computeCursorHMAC :: "crypto \<Rightarrow> string \<Rightarrow> string \<Rightarrow> int \<Rightarrow> int \<Rightarrow> int \<Rightarrow> string" where
  "computeCursorHMAC C key wsID offset exp pageSize =
     b64_encode url_alphabet False (take 16 (hmac_sha256 C key (cursorMessage wsID offset exp pageSize)))"

section \<open>Payloads\<close>

record CursorPayload =
  PayloadWorkspace :: string
  PayloadOffset :: "int option"
  PayloadExpiresAt :: "int option"
  PayloadPageSize :: int
  PayloadSig :: string

text \<open>\<^verbatim>\<open>json.Marshal\<close> and \<^verbatim>\<open>json.Unmarshal\<close> with the field tags of the struct: a page size of 0 and
  an empty signature are omitted, keys are compared under case folding, numbers must be integers
  of 64 bits, and \<^verbatim>\<open>null\<close> resets a pointer and leaves any other field alone.\<close>

definition optionalInt :: "int option \<Rightarrow> string" where
  "optionalInt i = (case i of None \<Rightarrow> ''null'' | Some n \<Rightarrow> itoa_int n)"

definition marshalPayload :: "CursorPayload \<Rightarrow> string" where
  "marshalPayload p =
     ''{'' @ jsonQuote ''w'' @ '':'' @ jsonQuote (PayloadWorkspace p)
     @ '','' @ jsonQuote ''o'' @ '':'' @ optionalInt (PayloadOffset p)
     @ '','' @ jsonQuote ''exp'' @ '':'' @ optionalInt (PayloadExpiresAt p)
     @ (if PayloadPageSize p = 0 then [] else '','' @ jsonQuote ''p'' @ '':'' @ itoa_int (PayloadPageSize p))
     @ (if PayloadSig p = [] then [] else '','' @ jsonQuote ''s'' @ '':'' @ jsonQuote (PayloadSig p)) @ ''}''"

definition intField :: "json \<Rightarrow> int option" where
  "intField v = (case v of JNum lit \<Rightarrow> ParseInt64 lit | _ \<Rightarrow> None)"

definition payloadField :: "ext \<Rightarrow> CursorPayload \<Rightarrow> string \<times> json \<Rightarrow> unit + CursorPayload" where
  "payloadField L p kv =
     (let (k, v) = kv in
      if EqualFold L k ''w'' then
        (case v of JNull \<Rightarrow> Inr p | JStr s \<Rightarrow> Inr (p\<lparr>PayloadWorkspace := s\<rparr>) | _ \<Rightarrow> Inl ())
      else if EqualFold L k ''o'' then
        (if v = JNull then Inr (p\<lparr>PayloadOffset := None\<rparr>)
         else (case intField v of Some i \<Rightarrow> Inr (p\<lparr>PayloadOffset := Some i\<rparr>) | None \<Rightarrow> Inl ()))
      else if EqualFold L k ''exp'' then
        (if v = JNull then Inr (p\<lparr>PayloadExpiresAt := None\<rparr>)
         else (case intField v of Some i \<Rightarrow> Inr (p\<lparr>PayloadExpiresAt := Some i\<rparr>) | None \<Rightarrow> Inl ()))
      else if EqualFold L k ''p'' then
        (if v = JNull then Inr p
         else (case intField v of Some i \<Rightarrow> Inr (p\<lparr>PayloadPageSize := i\<rparr>) | None \<Rightarrow> Inl ()))
      else if EqualFold L k ''s'' then
        (case v of JNull \<Rightarrow> Inr p | JStr s \<Rightarrow> Inr (p\<lparr>PayloadSig := s\<rparr>) | _ \<Rightarrow> Inl ())
      else Inr p)"

definition emptyPayload :: CursorPayload where
  "emptyPayload = \<lparr>PayloadWorkspace = [], PayloadOffset = None, PayloadExpiresAt = None, PayloadPageSize = 0,
     PayloadSig = []\<rparr>"

definition unmarshalPayload :: "ext \<Rightarrow> string \<Rightarrow> CursorPayload option" where
  "unmarshalPayload L data =
     (case parseJSON data of
        Some JNull \<Rightarrow> Some emptyPayload
      | Some (JObj kvs) \<Rightarrow> (case rfold (payloadField L) emptyPayload kvs of Inr p \<Rightarrow> Some p | Inl _ \<Rightarrow> None)
      | _ \<Rightarrow> None)"

section \<open>Cursors\<close>

definition cursorExpiry :: "int \<Rightarrow> int \<Rightarrow> int" where
  "cursorExpiry now timeoutSeconds =
     Unix (now + wrap64 ((if timeoutSeconds \<le> 0 then DefaultCursorTimeoutSeconds else timeoutSeconds) * 1000000000))"

definition cursorPayload :: "crypto \<Rightarrow> string \<Rightarrow> int \<Rightarrow> string \<Rightarrow> int \<Rightarrow> int \<Rightarrow> int \<Rightarrow> CursorPayload" where
  "cursorPayload C key now workspaceID offset pageSize timeoutSeconds =
     (let exp = cursorExpiry now timeoutSeconds; size = (if pageSize < 0 then 0 else pageSize) in
      \<lparr>PayloadWorkspace = workspaceID, PayloadOffset = Some offset, PayloadExpiresAt = Some exp,
       PayloadPageSize = size, PayloadSig = computeCursorHMAC C key workspaceID offset exp size\<rparr>)"

definition EncodeCursorWithPageSize :: "crypto \<Rightarrow> string \<Rightarrow> int \<Rightarrow> string \<Rightarrow> int \<Rightarrow> int \<Rightarrow> int \<Rightarrow> string res" where
  "EncodeCursorWithPageSize C key now workspaceID offset pageSize timeoutSeconds =
     (if offset < 0 then invalidCursor ''Invalid cursor: offset must be non-negative''
      else Inr (CursorPrefix @ b64_encode url_alphabet False
        (marshalPayload (cursorPayload C key now workspaceID offset pageSize timeoutSeconds))))"

definition EncodeCursor :: "crypto \<Rightarrow> string \<Rightarrow> int \<Rightarrow> string \<Rightarrow> int \<Rightarrow> int \<Rightarrow> string res" where
  "EncodeCursor C key now workspaceID offset timeoutSeconds =
     EncodeCursorWithPageSize C key now workspaceID offset 0 timeoutSeconds"

text \<open>The checks on a decoded payload, in the order of the code.\<close>

definition checkPayload :: "crypto \<Rightarrow> ext \<Rightarrow> string \<Rightarrow> int \<Rightarrow> string \<Rightarrow> CursorPayload \<Rightarrow> (int \<times> int) res" where
  "checkPayload C L key now workspaceID p =
     (if uuid_parse L (PayloadWorkspace p) \<noteq> Some workspaceID then
        invalidCursor ''Cursor does not belong to the target workspace''
      else (case PayloadOffset p of
          None \<Rightarrow> invalidCursor ''Invalid cursor: missing offset parameter''
        | Some offset \<Rightarrow>
            (case PayloadExpiresAt p of
               None \<Rightarrow> invalidCursor ''Invalid cursor: missing expiration timestamp''
             | Some exp \<Rightarrow>
                 if offset < 0 then invalidCursor ''Invalid cursor: negative offset''
                 else if exp \<le> Unix now then invalidCursor ''Cursor has expired''
                 else if PayloadSig p = []
                     \<or> PayloadSig p \<noteq> computeCursorHMAC C key (PayloadWorkspace p) offset exp (PayloadPageSize p) then
                   invalidCursor ''Invalid cursor: integrity check failed''
                 else Inr (offset, PayloadPageSize p))))"

definition DecodeCursorWithPageSize :: "crypto \<Rightarrow> ext \<Rightarrow> string \<Rightarrow> int \<Rightarrow> string \<Rightarrow> string \<Rightarrow> (int \<times> int) res" where
  "DecodeCursorWithPageSize C L key now token workspaceID =
     (if token = [] then Inr (0, 0)
      else if \<not> HasPrefix token CursorPrefix then
        invalidCursor (''Invalid cursor: missing '' @ quoted CursorPrefix @ '' prefix'')
      else (case b64_decode_strict url_alphabet False (TrimPrefix token CursorPrefix) of
          None \<Rightarrow> invalidCursor ''Invalid cursor: malformed base64url encoding''
        | Some data \<Rightarrow>
            (case unmarshalPayload L data of
               None \<Rightarrow> invalidCursor ''Invalid cursor: malformed payload JSON''
             | Some p \<Rightarrow> checkPayload C L key now workspaceID p)))"

definition DecodeCursor :: "crypto \<Rightarrow> ext \<Rightarrow> string \<Rightarrow> int \<Rightarrow> string \<Rightarrow> string \<Rightarrow> int res" where
  "DecodeCursor C L key now token workspaceID =
     rbind (DecodeCursorWithPageSize C L key now token workspaceID) (\<lambda>(offset, _). Inr offset)"

section \<open>Payloads are read back\<close>

lemma jvalue_optionalInt:
  assumes "numberEnds rest"
  shows "jvalue (Suc n) d (optionalInt i @ rest) =
    Some (case i of None \<Rightarrow> JNull | Some k \<Rightarrow> JNum (itoa_int k), rest)"
  using jvalue_itoa [OF assms]
  by (cases i) (simp_all add: optionalInt_def jvalue.simps skipSpace_def literal_def)

definition payloadMembers :: "CursorPayload \<Rightarrow> json_object" where
  "payloadMembers p =
     [(''w'', JStr (PayloadWorkspace p)),
      (''o'', case PayloadOffset p of None \<Rightarrow> JNull | Some i \<Rightarrow> JNum (itoa_int i)),
      (''exp'', case PayloadExpiresAt p of None \<Rightarrow> JNull | Some i \<Rightarrow> JNum (itoa_int i))]
     @ (if PayloadPageSize p = 0 then [] else [(''p'', JNum (itoa_int (PayloadPageSize p)))])
     @ (if PayloadSig p = [] then [] else [(''s'', JStr (PayloadSig p))])"

lemma parse_marshalPayload: "parseJSON (marshalPayload p) = Some (JObj (payloadMembers p))"
proof (rule parseJSONI [where n = "Suc (Suc (Suc (Suc (Suc (Suc (Suc 0))))))" and rest = "[]"])
  have "0 < maxNestingDepth" by (simp add: maxNestingDepth_def)
  then show "jvalue (Suc (Suc (Suc (Suc (Suc (Suc (Suc 0))))))) maxNestingDepth (marshalPayload p) = Some (JObj (payloadMembers p), [])"
    by (cases "PayloadPageSize p = 0"; cases "PayloadSig p = []")
      (simp_all add: marshalPayload_def payloadMembers_def jobject_step jmembers_next jmembers_last
        jvalue_optionalInt jvalue_itoa jstring_jsonQuote)
  show "Suc (Suc (Suc (Suc (Suc (Suc (Suc 0)))))) \<le> 2 * length (marshalPayload p) + 2"
    by (simp add: marshalPayload_def jsonQuote_def)
  show "skipSpace [] = []" by (simp add: skipSpace_def)
qed

definition int64 :: "int \<Rightarrow> bool" where
  "int64 i \<longleftrightarrow> - (2 ^ 63) \<le> i \<and> i < 2 ^ 63"

lemma payload_keys:
  "EqualFold L ''w'' ''w''" "\<not> EqualFold L ''o'' ''w''" "\<not> EqualFold L ''exp'' ''w''" "\<not> EqualFold L ''exp'' ''o''"
  "\<not> EqualFold L ''p'' ''w''" "\<not> EqualFold L ''p'' ''o''" "\<not> EqualFold L ''p'' ''exp''"
  "\<not> EqualFold L ''s'' ''w''" "\<not> EqualFold L ''s'' ''o''" "\<not> EqualFold L ''s'' ''exp''" "\<not> EqualFold L ''s'' ''p''"
  by (simp_all add: EqualFold_def rune_len_def code_def ascii_lower_def is_upper_def)

lemma unmarshal_marshal:
  assumes "\<forall>i \<in> set_option (PayloadOffset p). int64 i" "\<forall>i \<in> set_option (PayloadExpiresAt p). int64 i"
    and "int64 (PayloadPageSize p)"
  shows "unmarshalPayload L (marshalPayload p) = Some p"
proof -
  have int: "intField (JNum (itoa_int i)) = Some i" if "int64 i" for i
    using that ParseInt64_itoa [of i] by (simp add: intField_def int64_def)
  have "rfold (payloadField L) emptyPayload (payloadMembers p) = Inr p"
    using assms
    by (cases p; cases "PayloadOffset p"; cases "PayloadExpiresAt p"; cases "PayloadPageSize p = 0"; cases "PayloadSig p = []")
      (simp_all add: payloadMembers_def payloadField_def emptyPayload_def payload_keys int)
  then show ?thesis by (simp add: unmarshalPayload_def parse_marshalPayload)
qed

lemma cursor_bytes:
  "b64_decode_strict url_alphabet False (TrimPrefix (CursorPrefix @ b64_encode url_alphabet False s) CursorPrefix) = Some s"
  by (simp add: TrimPrefix_def HasPrefix_def b64_roundtrip alphabet_url)

lemma wrap64_range: "- (2 ^ 63) \<le> wrap64 i" "wrap64 i < 2 ^ 63"
  by (simp_all add: wrap64_def)

lemma three_long: "3 \<le> length s \<Longrightarrow> \<exists>a b c t. s = a # b # c # t"
  by (cases s; cases "tl s"; cases "tl (tl s)") auto

lemma signature_nonempty: "digests C \<Longrightarrow> computeCursorHMAC C key ws off e p \<noteq> []"
  using three_long [of "take 16 (hmac_sha256 C key (cursorMessage ws off e p))"]
  by (auto simp: computeCursorHMAC_def digests_def)

section \<open>Properties\<close>

lemma cursor_read_back:
  assumes "digests C" and "uuid_parse L ws = Some ws"
    and "0 \<le> offset" "int64 offset" "int64 pageSize" "0 \<le> now" "now < 2 ^ 63"
    and "EncodeCursorWithPageSize C key now ws offset pageSize timeout = Inr token"
    and "Unix later < cursorExpiry now timeout"
  shows "DecodeCursorWithPageSize C L key later token ws = Inr (offset, max 0 pageSize)"
proof -
  let ?p = "cursorPayload C key now ws offset pageSize timeout"
  have token: "token = CursorPrefix @ b64_encode url_alphabet False (marshalPayload ?p)"
    using assms(3,8) by (simp add: EncodeCursorWithPageSize_def)
  have "int64 (cursorExpiry now timeout)"
    using wrap64_range [of "(if timeout \<le> 0 then DefaultCursorTimeoutSeconds else timeout) * 1000000000"] assms(6,7)
    unfolding cursorExpiry_def Unix_def int64_def by auto
  moreover have "int64 (if pageSize < 0 then 0 else pageSize)" using assms(5) by (simp add: int64_def)
  ultimately have "unmarshalPayload L (marshalPayload ?p) = Some ?p"
    using assms(4) by (intro unmarshal_marshal) (simp_all add: cursorPayload_def Let_def)
  moreover have "checkPayload C L key later ws ?p = Inr (offset, max 0 pageSize)"
    using assms(1,2,3,9) signature_nonempty [OF assms(1)]
    by (auto simp: checkPayload_def cursorPayload_def Let_def)
  ultimately show ?thesis
    unfolding token DecodeCursorWithPageSize_def cursor_bytes
    by (simp add: CursorPrefix_def HasPrefix_def)
qed

text \<open>C20. A cursor is read back: as long as it has not expired, in the workspace and under the key
  it was made for, it decodes to the offset and the page size it was made from.\<close>

theorem cursor_roundtrip:
  assumes "digests C" and "uuid_parse L ws = Some ws"
    and "0 \<le> offset" "int64 offset" "int64 pageSize" "0 \<le> now" "now < 2 ^ 63"
    and "EncodeCursorWithPageSize C key now ws offset pageSize timeout = Inr token"
    and "Unix later < cursorExpiry now timeout"
  shows "DecodeCursorWithPageSize C L key later token ws = Inr (offset, max 0 pageSize)"
  by (rule cursor_read_back [OF assms])

definition toy_crypto :: crypto where
  "toy_crypto = \<lparr>sha256 = (\<lambda>s. take 32 (s @ replicate 32 CHR ''#'')),
     hmac_sha256 = (\<lambda>k m. take 32 (k @ m @ replicate 32 CHR ''#''))\<rparr>"

definition sample_ws :: string where
  "sample_ws = ''7d444840-9dc0-11d1-b245-5ffdce74fad2''"

lemma toy_digests: "digests toy_crypto"
  by (auto simp: digests_def toy_crypto_def min_def)

lemma sample_ws_parse: "uuid_parse plain_ext sample_ws = Some sample_ws"
  by (simp add: plain_ext_def sample_ws_def)

theorem cursor_roundtrip_witness:
  "\<exists>token. EncodeCursorWithPageSize toy_crypto ''k'' 0 sample_ws 20 10 60 = Inr token
     \<and> DecodeCursorWithPageSize toy_crypto plain_ext ''k'' 59000000000 token sample_ws = Inr (20, 10)"
proof -
  obtain token where t: "EncodeCursorWithPageSize toy_crypto ''k'' 0 sample_ws 20 10 60 = Inr token"
    by (simp add: EncodeCursorWithPageSize_def)
  have "Unix 59000000000 < cursorExpiry 0 60" by (simp add: Unix_def cursorExpiry_def wrap64_def)
  with cursor_roundtrip [OF toy_digests sample_ws_parse _ _ _ _ _ t] t show ?thesis
    by (auto simp: int64_def)
qed

text \<open>C21. Only signed cursors are accepted: a nonempty token that decodes to an offset and a page
  size carries the prefix and a payload for the workspace of the request that has not expired,
  whose signature is that of its workspace text, offset, expiry and page size under the key.\<close>

theorem cursor_accepted:
  assumes "DecodeCursorWithPageSize C L key now token ws = Inr (offset, pageSize)" and "token \<noteq> []"
  shows "\<exists>data p wsText exp. prefix CursorPrefix token
     \<and> b64_decode_strict url_alphabet False (drop (length CursorPrefix) token) = Some data
     \<and> unmarshalPayload L data = Some p \<and> p = \<lparr>PayloadWorkspace = wsText, PayloadOffset = Some offset,
         PayloadExpiresAt = Some exp, PayloadPageSize = pageSize,
         PayloadSig = computeCursorHMAC C key wsText offset exp pageSize\<rparr>
     \<and> uuid_parse L wsText = Some ws \<and> 0 \<le> offset \<and> Unix now < exp"
proof -
  obtain data p where d: "prefix CursorPrefix token"
    "b64_decode_strict url_alphabet False (drop (length CursorPrefix) token) = Some data"
    "unmarshalPayload L data = Some p" "checkPayload C L key now ws p = Inr (offset, pageSize)"
    using assms
    by (auto simp: DecodeCursorWithPageSize_def invalidCursor_def HasPrefix_def TrimPrefix_def
        split: if_split_asm option.splits)
  from d(4) obtain exp where "uuid_parse L (PayloadWorkspace p) = Some ws" "PayloadOffset p = Some offset"
    "PayloadExpiresAt p = Some exp" "0 \<le> offset" "Unix now < exp" "PayloadPageSize p = pageSize"
    "PayloadSig p = computeCursorHMAC C key (PayloadWorkspace p) offset exp pageSize"
    by (auto simp: checkPayload_def invalidCursor_def split: if_split_asm option.splits)
  moreover from this have "p = \<lparr>PayloadWorkspace = PayloadWorkspace p, PayloadOffset = Some offset,
      PayloadExpiresAt = Some exp, PayloadPageSize = pageSize,
      PayloadSig = computeCursorHMAC C key (PayloadWorkspace p) offset exp pageSize\<rparr>"
    by (cases p) simp
  ultimately show ?thesis using d(1-3) by blast
qed

theorem cursor_accepted_witness:
  "\<exists>token data p. DecodeCursorWithPageSize toy_crypto plain_ext ''k'' 0 token sample_ws = Inr (3, 0)
     \<and> unmarshalPayload plain_ext data = Some p \<and> PayloadOffset p = Some 3"
proof -
  obtain token where t: "EncodeCursorWithPageSize toy_crypto ''k'' 0 sample_ws 3 0 60 = Inr token" and n: "token \<noteq> []"
    by (simp add: EncodeCursorWithPageSize_def CursorPrefix_def)
  have "Unix 0 < cursorExpiry 0 60" by (simp add: Unix_def cursorExpiry_def wrap64_def)
  with cursor_read_back [OF toy_digests sample_ws_parse _ _ _ _ _ t]
  have "DecodeCursorWithPageSize toy_crypto plain_ext ''k'' 0 token sample_ws = Inr (3, 0)"
    by (simp add: int64_def)
  with cursor_accepted [OF this n] show ?thesis by fastforce
qed

section \<open>What a signature covers\<close>

lemma itoa_no_bar: "CHR ''|'' \<notin> set (itoa_int i)"
proof -
  have "\<not> is_digit CHR ''|''" by code_simp
  then show ?thesis using itoa_digits [of "CHR ''|''"] by (auto simp: itoa_int_def)
qed

lemma itoa_int_inject: "itoa_int i = itoa_int j \<longleftrightarrow> i = j"
proof
  have sign: "itoa m \<noteq> CHR ''-'' # cs" for m cs
    using itoa_head [of m "CHR ''-''" cs] by auto
  assume "itoa_int i = itoa_int j"
  then show "i = j"
    using sign [of "nat j", symmetric] sign [of "nat i"]
    by (cases "i < 0"; cases "j < 0") (auto simp: itoa_int_def itoa_inject)
qed simp

lemma bar_split:
  "CHR ''|'' \<notin> set a \<Longrightarrow> CHR ''|'' \<notin> set b \<Longrightarrow> a @ CHR ''|'' # s = b @ CHR ''|'' # t \<longleftrightarrow> a = b \<and> s = t"
  by (induction a arbitrary: b; case_tac b) auto

lemma bar_end: "CHR ''|'' \<notin> set a \<Longrightarrow> a \<noteq> b @ CHR ''|'' # t"
  by auto

text \<open>The signed message determines what it signs: the same message means the same workspace,
  offset, expiry, and the same page size up to page sizes that are not positive, which all sign alike.\<close>

theorem cursor_message_determines:
  assumes "CHR ''|'' \<notin> set ws" "CHR ''|'' \<notin> set ws'"
  shows "cursorMessage ws off e s = cursorMessage ws' off' e' s' \<longleftrightarrow>
    ws = ws' \<and> off = off' \<and> e = e' \<and> max 0 s = max 0 s'"
proof -
  have e: "itoa_int e' \<noteq> itoa_int e @ CHR ''|'' # t" "itoa_int e \<noteq> itoa_int e' @ CHR ''|'' # t" for t
    by (rule bar_end [OF itoa_no_bar])+
  then show ?thesis
    using e [symmetric] assms
    by (cases "0 < s"; cases "0 < s'")
      (auto simp: cursorMessage_def bar_split itoa_no_bar itoa_int_inject)
qed

theorem cursor_message_determines_witness:
  "cursorMessage sample_ws 3 60 0 \<noteq> cursorMessage sample_ws 4 60 0
   \<and> cursorMessage sample_ws 3 60 0 = cursorMessage sample_ws 3 60 (-1)"
proof -
  have "CHR ''|'' \<notin> set sample_ws" by (simp add: sample_ws_def)
  from cursor_message_determines [OF this this] show ?thesis by simp
qed

end
