(* ===== verification/Pagination.thy ===== *)
theory Pagination
  imports Cursor "HOL-Library.Log_Nat"
begin

text \<open>
  \<^verbatim>\<open>internal/handler/pagination.go\<close>: the parameters of list requests, from the query string and,
  for POST \<^verbatim>\<open>.search\<close>, from the body, and the list response with its cursors.
\<close>

section \<open>Numbers of a body\<close>

text \<open>The \<^verbatim>\<open>float64\<close> nearest to a JSON number, as an integer multiple of a power of two: 53 bits of
  mantissa, ties to even, exponents from -1074. The sign is kept apart.\<close>

definition splitExp :: "string \<Rightarrow> string \<times> string" where
  "splitExp lit = (takeWhile (\<lambda>c. c \<noteq> CHR ''e'' \<and> c \<noteq> CHR ''E'') lit,
     drop 1 (dropWhile (\<lambda>c. c \<noteq> CHR ''e'' \<and> c \<noteq> CHR ''E'') lit))"

definition signedDigits :: "string \<Rightarrow> int" where
  "signedDigits s = (case s of
      c # cs \<Rightarrow> if c = CHR ''-'' then - int (atoi_from 0 cs)
        else if c = CHR ''+'' then int (atoi_from 0 cs) else int (atoi_from 0 s)
    | [] \<Rightarrow> 0)"

text \<open>The digits of the mantissa and the decimal exponent.\<close>

definition decimal :: "string \<Rightarrow> bool \<times> nat \<times> int" where
  "decimal lit =
     (let (m, e) = splitExp lit;
          neg = (take 1 m = ''-'');
          u = (if neg then drop 1 m else m);
          i = takeWhile (\<lambda>c. c \<noteq> CHR ''.'') u;
          f = drop 1 (dropWhile (\<lambda>c. c \<noteq> CHR ''.'') u)
      in (neg, atoi_from 0 (i @ f), signedDigits e - int (length f)))"

definition roundHalfEven :: "nat \<Rightarrow> nat \<Rightarrow> nat" where
  "roundHalfEven n d =
     (let q = n div d; r = n mod d in
      if 2 * r < d \<or> (2 * r = d \<and> even q) then q else q + 1)"

text \<open>\<open>n / (d * 2 ^ k)\<close> rounded, for any sign of \<open>k\<close>.\<close>

definition scaled :: "nat \<Rightarrow> nat \<Rightarrow> int \<Rightarrow> nat" where
  "scaled n d k = (if 0 \<le> k then roundHalfEven n (d * 2 ^ nat k) else roundHalfEven (n * 2 ^ nat (- k)) d)"

definition binaryExp :: "nat \<Rightarrow> nat \<Rightarrow> int" where
  "binaryExp n d =
     (let k = int (floorlog 2 n) - int (floorlog 2 d) - 53 in
      max (- 1074) (if n * 2 ^ nat (- k) < 2 ^ 53 * d * 2 ^ nat k then k else k + 1))"

definition float64 :: "string \<Rightarrow> (bool \<times> nat \<times> int) option" where
  "float64 lit =
     (let (neg, m, x) = decimal lit in
      if m = 0 then Some (neg, 0, 0)
      else
        (let n = m * 10 ^ nat x; d = 10 ^ nat (- x); k = binaryExp n d; q = scaled n d k in
         if 0 \<le> k \<and> 2 ^ 1024 \<le> q * 2 ^ nat k then None else Some (neg, q, k)))"

text \<open>\<^verbatim>\<open>num == math.Trunc(num)\<close>, with the value; \<open>None\<close> for a fraction.\<close>

definition integral :: "bool \<times> nat \<times> int \<Rightarrow> int option" where
  "integral v =
     (let (neg, q, k) = v; m = (if 0 \<le> k then q * 2 ^ nat k else q div 2 ^ nat (- k)) in
      if k < 0 \<and> q mod 2 ^ nat (- k) \<noteq> 0 then None else Some (if neg then - int m else int m))"

text \<open>\<^verbatim>\<open>int(num)\<close>; for a value that is no 64-bit integer the result is left to the platform
  (\<open>conv\<close>).\<close>

definition bodyInt :: "(int \<Rightarrow> int) \<Rightarrow> json \<Rightarrow> int option" where
  "bodyInt conv v =
     (case v of
        JNum lit \<Rightarrow>
          (case Option.bind (float64 lit) integral of
             None \<Rightarrow> None | Some i \<Rightarrow> Some (if int64 i then i else conv i))
      | _ \<Rightarrow> None)"

section \<open>Parameters of a list request\<close>

type_synonym url_values = "(string \<times> string list) list"

definition Has :: "url_values \<Rightarrow> string \<Rightarrow> bool" where
  "Has q k \<longleftrightarrow> map_of q k \<noteq> None"

definition Get :: "url_values \<Rightarrow> string \<Rightarrow> string" where
  "Get q k = (case map_of q k of Some (v # vs) \<Rightarrow> v | _ \<Rightarrow> [])"

record PaginationRequest =
  IsCursor :: bool
  PageOffset :: int
  PageCount :: int
  StartIndex :: int
  PrevPageSize :: int

text \<open>\<^verbatim>\<open>startIndex\<close> and \<^verbatim>\<open>count\<close> of the query: absent or blank (\<open>None\<close>), an integer, or an error.\<close>

definition queryInt :: "url_values \<Rightarrow> string \<Rightarrow> int option res" where
  "queryInt query key =
     (let raw = TrimSpace (Get query key) in
      if \<not> Has query key \<or> raw = [] then Inr None
      else (case ParseInt64 raw of
          None \<Rightarrow> invalidValue (''Invalid '' @ key @ '' parameter: must be an integer'')
        | Some i \<Rightarrow> Inr (Some i)))"

definition bodyCursor :: "json_object option \<Rightarrow> string option res" where
  "bodyCursor body =
     (case body of
        None \<Rightarrow> Inr None
      | Some b \<Rightarrow>
          (case jget b ''cursor'' of
             JNull \<Rightarrow> Inr None
           | JStr s \<Rightarrow> Inr (Some s)
           | _ \<Rightarrow> invalidCursor ''cursor must be a string''))"

definition bodyNumber :: "(int \<Rightarrow> int) \<Rightarrow> json_object option \<Rightarrow> string \<Rightarrow> int option res" where
  "bodyNumber conv body key =
     (case body of
        None \<Rightarrow> Inr None
      | Some b \<Rightarrow>
          if jget b key = JNull then Inr None
          else (case bodyInt conv (jget b key) of
              None \<Rightarrow> invalidValue (key @ '' must be an integer'') | Some i \<Rightarrow> Inr (Some i)))"

definition orElse :: "'a option \<Rightarrow> 'a option \<Rightarrow> 'a option" where
  "orElse a b = (case a of None \<Rightarrow> b | Some x \<Rightarrow> Some x)"

definition resolvePagination :: "crypto \<Rightarrow> ext \<Rightarrow> string \<Rightarrow> int \<Rightarrow> string \<Rightarrow> int \<Rightarrow> string option \<Rightarrow> int option
    \<Rightarrow> int option \<Rightarrow> PaginationRequest res" where
  "resolvePagination C L key now wsID defaultCount cursor startIndex explicitCount =
     (let startIndexVal = (case startIndex of None \<Rightarrow> 1 | Some i \<Rightarrow> max 1 i);
          count = (case explicitCount of None \<Rightarrow> defaultCount | Some i \<Rightarrow> max 0 (min 200 i))
      in case cursor of
           Some cursorVal \<Rightarrow>
             if startIndex \<noteq> None then
               invalidValue ''Cannot specify both cursor and startIndex in the same request''
             else rbind (DecodeCursorWithPageSize C L key now cursorVal wsID) (\<lambda>(offset, prevPageSize).
               if (case explicitCount of None \<Rightarrow> False | Some i \<Rightarrow> 200 < i) then
                 Inl (NewScimError 400 ''tooMany'' ''Requested count exceeds maxPageSize (200)'')
               else Inr \<lparr>IsCursor = True, PageOffset = offset, PageCount = count, StartIndex = 0,
                 PrevPageSize = prevPageSize\<rparr>)
         | None \<Rightarrow> Inr \<lparr>IsCursor = False, PageOffset = max 0 (startIndexVal - 1), PageCount = count,
             StartIndex = startIndexVal, PrevPageSize = 0\<rparr>)"

definition parsePagination :: "crypto \<Rightarrow> ext \<Rightarrow> string \<Rightarrow> int \<Rightarrow> (int \<Rightarrow> int) \<Rightarrow> url_values \<Rightarrow> json_object option
    \<Rightarrow> string \<Rightarrow> int \<Rightarrow> PaginationRequest res" where
  "parsePagination C L key now conv query body wsID defaultCount =
     rbind (queryInt query ''startIndex'') (\<lambda>qsi.
     rbind (queryInt query ''count'') (\<lambda>qc.
     rbind (bodyCursor body) (\<lambda>bcur.
     rbind (bodyNumber conv body ''startIndex'') (\<lambda>bsi.
     rbind (bodyNumber conv body ''count'') (\<lambda>bc.
       resolvePagination C L key now wsID defaultCount
         (orElse bcur (if Has query ''cursor'' then Some (Get query ''cursor'') else None))
         (orElse bsi qsi) (orElse bc qc))))))"

section \<open>List responses\<close>

definition listSchema :: string where
  "listSchema = ''urn:ietf:params:scim:api:messages:2.0:ListResponse''"

definition putCursor :: "json_object \<Rightarrow> string \<Rightarrow> string res \<Rightarrow> json_object" where
  "putCursor resp k c = (case c of Inl _ \<Rightarrow> resp | Inr t \<Rightarrow> jput resp k (JStr t))"

definition buildListResponse :: "crypto \<Rightarrow> string \<Rightarrow> int \<Rightarrow> PaginationRequest \<Rightarrow> string \<Rightarrow> int \<Rightarrow> json_object list
    \<Rightarrow> json_object" where
  "buildListResponse C key now pag wsID totalResults resources =
     (let resp = [(''schemas'', JArr [JStr listSchema]), (''totalResults'', JNum (itoa_int totalResults)),
             (''itemsPerPage'', JNum (itoa (length resources))), (''Resources'', JArr (map JObj resources))] in
      if \<not> IsCursor pag then jput resp ''startIndex'' (JNum (itoa_int (StartIndex pag)))
      else
       (let step = (if PrevPageSize pag \<le> 0 then PageCount pag else PrevPageSize pag);
            prevOffset = (if PageOffset pag - step < 0 \<or> step \<le> 0 then 0 else PageOffset pag - step);
            resp = (if 0 < PageOffset pag
              then putCursor resp ''previousCursor''
                (EncodeCursorWithPageSize C key now wsID prevOffset step DefaultCursorTimeoutSeconds)
              else resp);
            nextOffset = PageOffset pag + int (length resources)
        in if 0 < length resources \<and> nextOffset < totalResults
           then putCursor resp ''nextCursor''
             (EncodeCursorWithPageSize C key now wsID nextOffset (int (length resources)) DefaultCursorTimeoutSeconds)
           else resp))"

end
