(* ===== verification/PagProps.thy ===== *)
theory PagProps
  imports Pagination
begin

section \<open>Bounds\<close>

lemma DecodeCursor_nonneg:
  "DecodeCursorWithPageSize C L key now token ws = Inr (off, p) \<Longrightarrow> 0 \<le> off"
  by (auto simp: DecodeCursorWithPageSize_def checkPayload_def invalidCursor_def split: if_split_asm option.splits)

lemma orElse_None: "orElse a b = None \<longleftrightarrow> a = None \<and> b = None"
  by (simp add: orElse_def split: option.split)

text \<open>C23. Whatever a client asks for, an accepted list request has an offset that is not negative and
  a count from 0 to 200; without a cursor the offset is one less than the start index, which is at
  least 1, and a cursor is never combined with a start index in the query.\<close>

theorem pagination_bounds:
  assumes "parsePagination C L key now conv query body ws defaultCount = Inr pag" and "0 \<le> defaultCount" "defaultCount \<le> 200"
  shows "0 \<le> PageOffset pag \<and> 0 \<le> PageCount pag \<and> PageCount pag \<le> 200
    \<and> (\<not> IsCursor pag \<longrightarrow> 1 \<le> StartIndex pag \<and> PageOffset pag = StartIndex pag - 1)
    \<and> (IsCursor pag \<longrightarrow> queryInt query ''startIndex'' = Inr None)"
proof -
  from assms(1) obtain qsi cursor startIndex explicitCount where q: "queryInt query ''startIndex'' = Inr qsi"
    and r: "resolvePagination C L key now ws defaultCount cursor startIndex explicitCount = Inr pag"
    and s: "startIndex = None \<Longrightarrow> qsi = None"
    unfolding parsePagination_def by (elim rbind_InrE) (metis orElse_None)
  show ?thesis
  proof (cases cursor)
    case (Some cursorVal)
    with r obtain off p where "DecodeCursorWithPageSize C L key now cursorVal ws = Inr (off, p)" "startIndex = None"
      "pag = \<lparr>IsCursor = True, PageOffset = off, PageCount = (case explicitCount of None \<Rightarrow> defaultCount | Some i \<Rightarrow> max 0 (min 200 i)),
         StartIndex = 0, PrevPageSize = p\<rparr>"
      by (auto simp: resolvePagination_def Let_def elim!: rbind_InrE split: if_split_asm)
    then show ?thesis using assms(2,3) q s DecodeCursor_nonneg by (auto split: option.split)
  next
    case None
    with r show ?thesis using assms(2,3) by (auto simp: resolvePagination_def Let_def split: option.split)
  qed
qed

lemma pagination_run:
  "parsePagination toy_crypto plain_ext [] 0 (\<lambda>i. i) [(''startIndex'', [''-3'']), (''count'', [''1000''])] None sample_ws 10
   = Inr \<lparr>IsCursor = False, PageOffset = 0, PageCount = 200, StartIndex = 1, PrevPageSize = 0\<rparr>"
proof -
  have "TrimSpace ''-3'' = ''-3''" "TrimSpace ''1000'' = ''1000''" by code_simp+
  moreover have "ParseInt64 ''-3'' = Some (-3)" "ParseInt64 ''1000'' = Some 1000"
    by (simp_all add: ParseInt64_def is_digit_def code_def)
  ultimately show ?thesis
    by (simp add: parsePagination_def queryInt_def Has_def Get_def bodyCursor_def bodyNumber_def orElse_def
        resolvePagination_def)
qed

theorem pagination_bounds_witness:
  "parsePagination toy_crypto plain_ext [] 0 (\<lambda>i. i) [(''startIndex'', [''-3'']), (''count'', [''1000''])] None sample_ws 10
   = Inr \<lparr>IsCursor = False, PageOffset = 0, PageCount = 200, StartIndex = 1, PrevPageSize = 0\<rparr> \<and> (200 :: int) \<le> 200"
  using pagination_bounds [OF pagination_run] pagination_run by simp

section \<open>Following the cursors\<close>

text \<open>A client that starts with an empty cursor and follows \<^verbatim>\<open>nextCursor\<close>, with a page size of its
  own; the list query returns the rows that \<^verbatim>\<open>LIMIT\<close> and \<^verbatim>\<open>OFFSET\<close> select.\<close>

definition page :: "'a list \<Rightarrow> PaginationRequest \<Rightarrow> 'a list" where
  "page rows pag = take (nat (PageCount pag)) (drop (nat (PageOffset pag)) rows)"

fun followCursors :: "crypto \<Rightarrow> ext \<Rightarrow> string \<Rightarrow> int \<Rightarrow> string \<Rightarrow> json_object list \<Rightarrow> nat \<Rightarrow> nat \<Rightarrow> string
    \<Rightarrow> json_object list res" where
  "followCursors C L key now ws rows count 0 token = Inr []"
| "followCursors C L key now ws rows count (Suc requests) token =
     rbind (parsePagination C L key now (\<lambda>i. i) [(''cursor'', [token]), (''count'', [itoa count])] None ws 10) (\<lambda>pag.
       case jget (buildListResponse C key now pag ws (int (length rows)) (page rows pag)) ''nextCursor'' of
         JStr next \<Rightarrow> rbind (followCursors C L key now ws rows count requests next) (\<lambda>rest. Inr (page rows pag @ rest))
       | _ \<Rightarrow> Inr (page rows pag))"

lemma runes_digits: "list_all is_digit s \<Longrightarrow> TrimSpace s = s"
proof -
  assume d: "list_all is_digit s"
  have lt: "is_digit c \<Longrightarrow> code c < 128" for c by (simp add: is_digit_def)
  have sp: "is_digit c \<Longrightarrow> \<not> IsSpace [c]" for c
    using is_digit_range [of c] by (auto simp: IsSpace_def)
  have "runes s = map (\<lambda>c. [c]) s" using d lt by (intro runes_ascii) (auto simp: list_all_iff)
  moreover have "dropWhile IsSpace (map (\<lambda>c. [c]) t) = map (\<lambda>c. [c]) t" if "list_all is_digit t" for t
    using that sp by (cases t) auto
  moreover have "concat (map (\<lambda>c. [c]) t) = t" for t :: string by (induction t) auto
  ultimately show ?thesis
    using d by (simp add: TrimSpace_def rev_map)
qed

lemma queryInt_itoa:
  assumes "int64 (int n)" and "map_of q key = Some [itoa n]"
  shows "queryInt q key = Inr (Some (int n))"
  using assms ParseInt64_itoa [of "int n"]
  by (simp add: queryInt_def Get_def Has_def runes_digits int64_def itoa_int_def)

lemma cursor_request:
  assumes "DecodeCursorWithPageSize C L key now token ws = Inr (off, p)" and "1 \<le> count" "count \<le> 200"
  shows "parsePagination C L key now (\<lambda>i. i) [(''cursor'', [token]), (''count'', [itoa count])] None ws 10 =
    Inr \<lparr>IsCursor = True, PageOffset = off, PageCount = int count, StartIndex = 0, PrevPageSize = p\<rparr>"
proof -
  have c: "queryInt [(''cursor'', [token]), (''count'', [itoa count])] ''count'' = Inr (Some (int count))"
    using assms(2,3) by (intro queryInt_itoa) (simp_all add: int64_def)
  have s: "queryInt [(''cursor'', [token]), (''count'', [itoa count])] ''startIndex'' = Inr None"
    by (simp add: queryInt_def Has_def)
  show ?thesis
    using assms by (simp add: parsePagination_def c s bodyCursor_def bodyNumber_def orElse_def Has_def Get_def Let_def resolvePagination_def)
qed

lemma next_cursor:
  assumes "0 \<le> off" "IsCursor pag" "PageOffset pag = off" and "items \<noteq> []" "off + int (length items) < tot"
  shows "\<exists>t. jget (buildListResponse C key now pag ws tot items) ''nextCursor'' = JStr t
    \<and> EncodeCursorWithPageSize C key now ws (off + int (length items)) (int (length items)) DefaultCursorTimeoutSeconds = Inr t"
proof -
  obtain t where "EncodeCursorWithPageSize C key now ws (off + int (length items)) (int (length items))
      DefaultCursorTimeoutSeconds = Inr t"
    using assms(1) by (simp add: EncodeCursorWithPageSize_def)
  then show ?thesis
    using assms by (simp add: buildListResponse_def putCursor_def jget_def Let_def)
qed

lemma no_next_cursor:
  assumes "IsCursor pag" and "items = [] \<or> tot \<le> PageOffset pag + int (length items)"
  shows "jget (buildListResponse C key now pag ws tot items) ''nextCursor'' = JNull"
proof -
  have c: "(0 < length items \<and> PageOffset pag + int (length items) < tot) = False" using assms(2) by auto
  show ?thesis
    using assms(1) unfolding buildListResponse_def Let_def c if_False
    by (simp add: putCursor_def jget_def split: sum.split)
qed

lemma followCursors_rest:
  assumes "digests C" "uuid_parse L ws = Some ws" "0 \<le> now" "now < 2 ^ 62" "1 \<le> count" "count \<le> 200"
    and "length rows < 2 ^ 62"
  shows "DecodeCursorWithPageSize C L key now token ws = Inr (int k, p) \<Longrightarrow> k \<le> length rows \<Longrightarrow>
    length rows - k < requests \<Longrightarrow> followCursors C L key now ws rows count requests token = Inr (drop k rows)"
proof (induction requests arbitrary: token k p)
  case (Suc requests)
  define pag where "pag = \<lparr>IsCursor = True, PageOffset = int k, PageCount = int count, StartIndex = 0, PrevPageSize = p\<rparr>"
  have parse: "parsePagination C L key now (\<lambda>i. i) [(''cursor'', [token]), (''count'', [itoa count])] None ws 10 = Inr pag"
    unfolding pag_def by (rule cursor_request [OF Suc.prems(1) assms(5,6)])
  have items: "page rows pag = take count (drop k rows)" by (simp add: page_def pag_def)
  show ?case
  proof (cases "k + count < length rows")
    case True
    let ?n = "k + count"
    have len: "length (page rows pag) = count" using True by (simp add: items)
    have "\<exists>t. jget (buildListResponse C key now pag ws (int (length rows)) (page rows pag)) ''nextCursor'' = JStr t
      \<and> EncodeCursorWithPageSize C key now ws (int k + int (length (page rows pag))) (int (length (page rows pag)))
          DefaultCursorTimeoutSeconds = Inr t"
      using len assms(5) True by (intro next_cursor) (auto simp: pag_def simp del: of_nat_add)
    then obtain t where
      t: "jget (buildListResponse C key now pag ws (int (length rows)) (page rows pag)) ''nextCursor'' = JStr t"
      "EncodeCursorWithPageSize C key now ws (int ?n) (int count) DefaultCursorTimeoutSeconds = Inr t"
      unfolding len by auto
    have "Unix now < cursorExpiry now DefaultCursorTimeoutSeconds"
      using assms(3) by (simp add: Unix_def cursorExpiry_def DefaultCursorTimeoutSeconds_def wrap64_def)
    with cursor_read_back [OF assms(1,2) _ _ _ assms(3) _ t(2)] assms(4,6,7) True
    have "DecodeCursorWithPageSize C L key now t ws = Inr (int ?n, int count)"
      by (simp add: int64_def)
    then have "followCursors C L key now ws rows count requests t = Inr (drop ?n rows)"
      using True Suc.prems(3) assms(5) by (intro Suc.IH) auto
    moreover have "take count (drop k rows) @ drop ?n rows = drop k rows"
      by (metis add.commute append_take_drop_id drop_drop)
    ultimately show ?thesis by (simp add: parse t(1) [unfolded items] items)
  next
    case False
    then have len: "length (page rows pag) = length rows - k" and all: "page rows pag = drop k rows"
      by (simp_all add: items)
    have "jget (buildListResponse C key now pag ws (int (length rows)) (page rows pag)) ''nextCursor'' = JNull"
      by (rule no_next_cursor) (use Suc.prems(2) len in \<open>simp_all add: pag_def\<close>)
    then show ?thesis by (simp add: parse all)
  qed
qed simp

text \<open>C24. Following the cursors of a list response reads every row once and in order: a client that
  starts with the empty cursor and asks for pages of \<open>count\<close> rows ends, after at most one request
  per row and one more, with all the rows.\<close>

theorem cursors_read_all:
  assumes "digests C" "uuid_parse L ws = Some ws" "0 \<le> now" "now < 2 ^ 62" "1 \<le> count" "count \<le> 200"
    and "length rows < 2 ^ 62"
  shows "followCursors C L key now ws rows count (length rows + 1) [] = Inr rows"
  using followCursors_rest [OF assms, of key "[]" 0 0 "length rows + 1"] by (simp add: DecodeCursorWithPageSize_def del: followCursors.simps)

definition sample_rows :: "json_object list" where
  "sample_rows = [[(''id'', JStr ''1'')], [(''id'', JStr ''2'')], [(''id'', JStr ''3'')]]"

theorem cursors_read_all_witness:
  "followCursors toy_crypto plain_ext ''k'' 0 sample_ws sample_rows 2 (length sample_rows + 1) [] = Inr sample_rows"
  by (rule cursors_read_all [OF toy_digests sample_ws_parse]) (simp_all add: sample_rows_def)

end
