(* ===== verification/Http.thy ===== *)
theory Http
  imports Mapper
begin

text \<open>
  \<^verbatim>\<open>internal/handler/base.go\<close>, \<^verbatim>\<open>me.go\<close> and \<^verbatim>\<open>internal/scim/compat.go\<close>: what the handlers share. The
  base URL of a response, the projection of a response to the attributes a client asks for, and
  entity tags.
\<close>

section \<open>Base URL\<close>

text \<open>A request as far as the base URL needs it: the forwarded scheme, whether it came over TLS, the
  \<^verbatim>\<open>Host\<close>, and the two path parameters.\<close>

record base_request =
  ForwardedProto :: string
  TLS :: bool
  Host :: string
  WorkspaceParam :: string
  CompatParam :: string

definition sanitizeHeaderValue :: "string \<Rightarrow> string" where
  "sanitizeHeaderValue v = filter (\<lambda>c. c \<noteq> CHR 0x0D \<and> c \<noteq> CHR 0x0A) v"

definition stripDefaultPort :: "string \<Rightarrow> string \<Rightarrow> string" where
  "stripDefaultPort scheme host =
     (if scheme = ''http'' then TrimSuffix host '':80''
      else if scheme = ''https'' then TrimSuffix host '':443''
      else host)"

definition requestScheme :: "base_request \<Rightarrow> string" where
  "requestScheme r =
     (let scheme = sanitizeHeaderValue (ForwardedProto r);
          scheme = (case Index scheme '','' of Some idx \<Rightarrow> take idx scheme | None \<Rightarrow> scheme);
          scheme = TrimSpace scheme
      in if scheme = [] then (if TLS r then ''https'' else ''http'') else scheme)"

definition buildBaseURL :: "base_request \<Rightarrow> string" where
  "buildBaseURL r =
     (let scheme = requestScheme r;
          base = scheme @ ''://'' @ stripDefaultPort scheme (sanitizeHeaderValue (Host r));
          base = base @ ''/ws/'' @ WorkspaceParam r @ ''/scim/v2''
      in if CompatParam r \<noteq> [] then base @ ''/'' @ CompatParam r else base)"

datatype CompatMode = CompatNone | CompatMS

definition ParseCompatMode :: "ext \<Rightarrow> string \<Rightarrow> CompatMode" where
  "ParseCompatMode L s = (if EqualFold L s ''ms'' then CompatMS else CompatNone)"

section \<open>Projection\<close>

text \<open>The attributes of a list, in lower case: \<open>specWhole\<close> those named alone, \<open>specSubs\<close> those named with a
  sub-attribute; the same for the enterprise extension, and whether it is named itself.\<close>

record projectionSpec =
  specWhole :: "string list"
  specSubs :: "(string \<times> string) list"
  entAll :: bool
  entWhole :: "string list"
  entSubs :: "(string \<times> string) list"

definition parseAttrList :: "string \<Rightarrow> string list" where
  "parseAttrList s = filter (\<lambda>p. p \<noteq> []) (map TrimSpace (SplitByte s CHR '',''))"

text \<open>What \<^verbatim>\<open>addPathToMaps\<close> adds: nothing, a whole attribute, or a sub-attribute.\<close>

definition attrPath :: "ext \<Rightarrow> string \<Rightarrow> (string \<times> string option) option" where
  "attrPath L path =
     (if path = [] then None
      else
        (let parts = SplitN2 path CHR ''.'';
             parent = ToLower L (TrimSpace (hd parts));
             sub = ToLower L (TrimSpace (hd (tl parts)))
         in if parent = [] then None
            else if length parts = 1 \<or> sub = [] then Some (parent, None)
            else Some (parent, Some sub)))"

definition addPathToMaps :: "ext \<Rightarrow> string \<Rightarrow> string list \<times> (string \<times> string) list
    \<Rightarrow> string list \<times> (string \<times> string) list" where
  "addPathToMaps L path maps =
     (let (w, s) = maps in
      case attrPath L path of
        None \<Rightarrow> (w, s)
      | Some (parent, None) \<Rightarrow> (parent # w, s)
      | Some (parent, Some sub) \<Rightarrow> (w, (parent, sub) # s))"

definition projectionToken :: "ext \<Rightarrow> string \<Rightarrow> projectionSpec \<Rightarrow> projectionSpec" where
  "projectionToken L tok spec =
     (let lower = ToLower L tok;
          entURN = ToLower L EnterpriseSchemaURN;
          userPrefix = ToLower L UserSchemaURN @ '':'';
          groupPrefix = ToLower L GroupSchemaURN @ '':''
      in if lower = entURN then spec\<lparr>entAll := True\<rparr>
         else if HasPrefix lower (entURN @ '':'') then
           (let (w, s) = addPathToMaps L (TrimSpace (drop (length entURN + 1) tok)) (entWhole spec, entSubs spec)
            in spec\<lparr>entWhole := w, entSubs := s\<rparr>)
         else
           (let corePath = (if HasPrefix lower userPrefix then TrimSpace (drop (length userPrefix) tok)
                  else if HasPrefix lower groupPrefix then TrimSpace (drop (length groupPrefix) tok)
                  else tok);
                (w, s) = addPathToMaps L corePath (specWhole spec, specSubs spec)
            in spec\<lparr>specWhole := w, specSubs := s\<rparr>))"

definition emptyProjection :: projectionSpec where
  "emptyProjection = \<lparr>specWhole = [], specSubs = [], entAll = False, entWhole = [], entSubs = []\<rparr>"

definition parseProjectionSpec :: "ext \<Rightarrow> string \<Rightarrow> projectionSpec" where
  "parseProjectionSpec L raw = fold (projectionToken L) (parseAttrList raw) emptyProjection"

text \<open>\<^verbatim>\<open>toMapSlice\<close>: an array all of whose elements are objects.\<close>

definition toMapSlice :: "json \<Rightarrow> json_object list option" where
  "toMapSlice v =
     (case v of
        JArr xs \<Rightarrow>
          if list_all (\<lambda>x. case x of JObj _ \<Rightarrow> True | _ \<Rightarrow> False) xs
          then Some (map (\<lambda>x. case x of JObj m \<Rightarrow> m | _ \<Rightarrow> []) xs) else None
      | _ \<Rightarrow> None)"

text \<open>The members of an object that are, or are not, selected.\<close>

definition selectMembers :: "ext \<Rightarrow> (string \<Rightarrow> bool) \<Rightarrow> json_object \<Rightarrow> json_object" where
  "selectMembers L keep m = filter (\<lambda>(k, v). keep (ToLower L k)) m"

definition projectElements :: "ext \<Rightarrow> (string \<Rightarrow> bool) \<Rightarrow> json_object list \<Rightarrow> json_object list" where
  "projectElements L keep ms = filter (\<lambda>m. m \<noteq> []) (map (selectMembers L keep) ms)"

text \<open>What the two loops make of one member; \<open>None\<close> deletes it.\<close>

definition whitelistMember :: "ext \<Rightarrow> string list \<Rightarrow> (string \<times> string) list \<Rightarrow> string list \<Rightarrow> string \<times> json
    \<Rightarrow> (string \<times> json) option" where
  "whitelistMember L whole subs defaultKeep kv =
     (let (k, v) = kv; kl = ToLower L k; keep = (\<lambda>sk. (kl, sk) \<in> set subs);
          rest = (if kl \<in> set defaultKeep then Some (k, v) else None) in
      if kl \<in> set whole then Some (k, v)
      else if kl \<in> set (map fst subs) then
        (case v of
           JObj m \<Rightarrow>
             (let filtered = selectMembers L keep m in
              if filtered \<noteq> [] then Some (k, JObj filtered) else rest)
         | _ \<Rightarrow>
             (case toMapSlice v of
                Some ms \<Rightarrow>
                  (let projected = projectElements L keep ms in
                   if projected \<noteq> [] then Some (k, JArr (map JObj projected)) else None)
              | None \<Rightarrow> rest))
      else rest)"

definition projectObjectMapWhitelist :: "ext \<Rightarrow> json_object \<Rightarrow> string list \<Rightarrow> (string \<times> string) list \<Rightarrow> string list
    \<Rightarrow> json_object" where
  "projectObjectMapWhitelist L m whole subs defaultKeep =
     List.map_filter (whitelistMember L whole subs defaultKeep) m"

definition blacklistMember :: "ext \<Rightarrow> string list \<Rightarrow> (string \<times> string) list \<Rightarrow> string list \<Rightarrow> string \<times> json
    \<Rightarrow> (string \<times> json) option" where
  "blacklistMember L whole subs protected kv =
     (let (k, v) = kv; kl = ToLower L k; keep = (\<lambda>sk. (kl, sk) \<notin> set subs) in
      if kl \<in> set protected then Some (k, v)
      else if kl \<in> set whole then None
      else if kl \<in> set (map fst subs) then
        (case v of
           JObj m \<Rightarrow>
             (let filtered = selectMembers L keep m in
              if filtered \<noteq> [] then Some (k, JObj filtered) else None)
         | _ \<Rightarrow>
             (case toMapSlice v of
                Some ms \<Rightarrow>
                  (let projected = projectElements L keep ms in
                   if projected \<noteq> [] then Some (k, JArr (map JObj projected)) else None)
              | None \<Rightarrow> Some (k, v)))
      else Some (k, v))"

definition projectObjectMapBlacklist :: "ext \<Rightarrow> json_object \<Rightarrow> string list \<Rightarrow> (string \<times> string) list \<Rightarrow> string list
    \<Rightarrow> json_object" where
  "projectObjectMapBlacklist L m whole subs protected =
     List.map_filter (blacklistMember L whole subs protected) m"

definition findKeyCaseInsensitive :: "ext \<Rightarrow> json_object \<Rightarrow> string \<Rightarrow> string option" where
  "findKeyCaseInsensitive L m target = map_option fst (find (\<lambda>(k, v). EqualFold L k target) m)"

definition jdelete :: "json_object \<Rightarrow> string \<Rightarrow> json_object" where
  "jdelete m k = filter (\<lambda>(k', v). k' \<noteq> k) m"

text \<open>The enterprise extension is projected first: the response and the attributes to keep whole
  (for \<^verbatim>\<open>attributes\<close>), or the response (for \<^verbatim>\<open>excludedAttributes\<close>).\<close>

definition includeEnterprise :: "ext \<Rightarrow> projectionSpec \<Rightarrow> json_object \<Rightarrow> json_object \<times> string list" where
  "includeEnterprise L spec response =
     (case findKeyCaseInsensitive L response EnterpriseSchemaURN of
        None \<Rightarrow> (response, specWhole spec)
      | Some entKey \<Rightarrow>
          if entAll spec then (response, ToLower L entKey # specWhole spec)
          else if entWhole spec \<noteq> [] \<or> entSubs spec \<noteq> [] then
            (case jget response entKey of
               JObj entMap \<Rightarrow>
                 (let entCopy = projectObjectMapWhitelist L entMap (entWhole spec) (entSubs spec) [] in
                  if entCopy \<noteq> [] then (jput response entKey (JObj entCopy), ToLower L entKey # specWhole spec)
                  else (jdelete response entKey, specWhole spec))
             | _ \<Rightarrow> (jdelete response entKey, specWhole spec))
          else (jdelete response entKey, specWhole spec))"

definition excludeEnterprise :: "ext \<Rightarrow> projectionSpec \<Rightarrow> json_object \<Rightarrow> json_object" where
  "excludeEnterprise L spec response =
     (case findKeyCaseInsensitive L response EnterpriseSchemaURN of
        None \<Rightarrow> response
      | Some entKey \<Rightarrow>
          if entAll spec then jdelete response entKey
          else if entWhole spec \<noteq> [] \<or> entSubs spec \<noteq> [] then
            (case jget response entKey of
               JObj entMap \<Rightarrow>
                 (let entCopy = projectObjectMapBlacklist L entMap (entWhole spec) (entSubs spec) [] in
                  if entCopy \<noteq> [] then jput response entKey (JObj entCopy) else jdelete response entKey)
             | _ \<Rightarrow> response)
          else response)"

definition alwaysKeep :: "string list" where
  "alwaysKeep = [''schemas'', ''id'', ''meta'']"

definition protectedKeys :: "ext \<Rightarrow> string list" where
  "protectedKeys L = [''schemas'', ''id'', ToLower L EnterpriseSchemaURN]"

definition applyAttributeProjection :: "ext \<Rightarrow> json_object \<Rightarrow> string \<Rightarrow> string \<Rightarrow> json_object" where
  "applyAttributeProjection L response attributes excludedAttributes =
     (let response = jdelete response ''password'' in
      if TrimSpace attributes \<noteq> [] then
        (let spec = parseProjectionSpec L attributes;
             (response, whole) = includeEnterprise L spec response;
             subs = filter (\<lambda>(p, s). p \<noteq> ''schemas'' \<and> p \<noteq> ''id'') (specSubs spec)
         in projectObjectMapWhitelist L response whole subs alwaysKeep)
      else if TrimSpace excludedAttributes \<noteq> [] then
        (let spec = parseProjectionSpec L excludedAttributes in
         projectObjectMapBlacklist L (excludeEnterprise L spec response) (specWhole spec) (specSubs spec) (protectedKeys L))
      else response)"

section \<open>Entity tags\<close>

definition etag :: "int \<Rightarrow> string" where
  "etag version = ''W/'' @ [dquote] @ itoa_int version @ [dquote]"

definition checkETagMatch :: "string \<Rightarrow> int \<Rightarrow> bool" where
  "checkETagMatch ifMatch version =
     (let trimmed = TrimSpace ifMatch in
      if trimmed = [] \<or> trimmed = ''*'' then True
      else list_ex (\<lambda>part. TrimSpace part = ''*'' \<or> TrimSpace part = etag version) (SplitByte trimmed CHR '',''))"

definition MeHandle :: "nat \<times> json_object" where
  "MeHandle = WriteScimError (NewScimError 501 [] ''The /Me endpoint is not implemented'')"

end
