(* ===== verification/HttpProps.thy ===== *)
theory HttpProps
  imports Http Cursor MapperRound
begin

section \<open>Parts of a JSON value\<close>

text \<open>A part of a value leaves out members of objects and elements of arrays, at any depth.\<close>

inductive json_part :: "json \<Rightarrow> json \<Rightarrow> bool" where
  same: "json_part v v"
| object: "(\<And>k v'. (k, v') \<in> set m' \<Longrightarrow> \<exists>v. (k, v) \<in> set m \<and> json_part v' v) \<Longrightarrow> json_part (JObj m') (JObj m)"
| array: "(\<And>x'. x' \<in> set xs' \<Longrightarrow> \<exists>x. x \<in> set xs \<and> json_part x' x) \<Longrightarrow> json_part (JArr xs') (JArr xs)"

inductive_cases part_objE: "json_part v (JObj m)"
inductive_cases part_arrE: "json_part v (JArr xs)"
inductive_cases part_strE: "json_part v (JStr s)"

lemma part_subset: "set m' \<subseteq> set m \<Longrightarrow> json_part (JObj m') (JObj m)"
  by (rule json_part.object) (auto intro: json_part.same)

lemma part_trans: "json_part u v \<Longrightarrow> json_part v w \<Longrightarrow> json_part u w"
proof (induction arbitrary: w rule: json_part.induct)
  case (object m' m)
  from object.prems show ?case
  proof cases
    case same
    then show ?thesis using object.IH by (auto intro!: json_part.object) (metis json_part.same)
  next
    case (object m2)
    show ?thesis
      unfolding object(1)
    proof (rule json_part.object)
      fix k v'
      assume "(k, v') \<in> set m'"
      then obtain v where v: "(k, v) \<in> set m" "\<And>w. json_part v w \<Longrightarrow> json_part v' w"
        using \<open>\<And>k v'. (k, v') \<in> set m' \<Longrightarrow> _\<close> by blast
      from object(2) [OF v(1)] v(2) show "\<exists>v. (k, v) \<in> set m2 \<and> json_part v' v" by blast
    qed
  qed
next
  case (array xs' xs)
  from array.prems show ?case
  proof cases
    case same
    then show ?thesis using array.IH by (auto intro!: json_part.array)
  next
    case (array ys)
    show ?thesis
      unfolding array(1)
    proof (rule json_part.array)
      fix x'
      assume "x' \<in> set xs'"
      then obtain x where x: "x \<in> set xs" "\<And>w. json_part x w \<Longrightarrow> json_part x' w"
        using \<open>\<And>x'. x' \<in> set xs' \<Longrightarrow> _\<close> by blast
      from array(2) [OF x(1)] x(2) show "\<exists>x. x \<in> set ys \<and> json_part x' x" by blast
    qed
  qed
qed simp

lemma part_keys: "json_part (JObj m') (JObj m) \<Longrightarrow> fst ` set m' \<subseteq> fst ` set m"
  by (erule part_objE) force+

section \<open>A projection is a part of the response\<close>

lemma toMapSlice_Some: "toMapSlice v = Some ms \<Longrightarrow> v = JArr (map JObj ms)"
proof (cases v)
  case (JArr xs)
  assume "toMapSlice v = Some ms"
  with JArr have all: "list_all (\<lambda>x. case x of JObj _ \<Rightarrow> True | _ \<Rightarrow> False) xs"
    and ms: "ms = map (\<lambda>x. case x of JObj m \<Rightarrow> m | _ \<Rightarrow> []) xs"
    by (auto simp: toMapSlice_def split: if_split_asm)
  from all have "map JObj (map (\<lambda>x. case x of JObj m \<Rightarrow> m | _ \<Rightarrow> []) xs) = xs"
    by (induction xs) (auto split: json.splits)
  with JArr ms show ?thesis by simp
qed (simp_all add: toMapSlice_def)

lemma selectMembers_part: "json_part (JObj (selectMembers L keep m)) (JObj m)"
  by (rule part_subset) (auto simp: selectMembers_def)

lemma projectElements_part: "json_part (JArr (map JObj (projectElements L keep ms))) (JArr (map JObj ms))"
  by (rule json_part.array) (auto simp: projectElements_def intro: selectMembers_part)

text \<open>The step of both loops keeps the name of a member and a part of its value.\<close>

definition member_step :: "(string \<times> json \<Rightarrow> (string \<times> json) option) \<Rightarrow> bool" where
  "member_step f \<longleftrightarrow> (\<forall>k v k' v'. f (k, v) = Some (k', v') \<longrightarrow> k' = k \<and> json_part v' v)"

lemma whitelist_step: "member_step (whitelistMember L w s d)"
  unfolding member_step_def
proof (intro allI impI)
  fix k v k' v'
  assume "whitelistMember L w s d (k, v) = Some (k', v')"
  then show "k' = k \<and> json_part v' v"
    by (cases v; cases "toMapSlice v")
      (auto simp: whitelistMember_def Let_def selectMembers_part projectElements_part json_part.same
        dest!: toMapSlice_Some split: if_split_asm)
qed

lemma blacklist_step: "member_step (blacklistMember L w s p)"
  unfolding member_step_def
proof (intro allI impI)
  fix k v k' v'
  assume "blacklistMember L w s p (k, v) = Some (k', v')"
  then show "k' = k \<and> json_part v' v"
    by (cases v; cases "toMapSlice v")
      (auto simp: blacklistMember_def Let_def selectMembers_part projectElements_part json_part.same
        dest!: toMapSlice_Some split: if_split_asm)
qed

lemma map_filter_part: "member_step f \<Longrightarrow> json_part (JObj (List.map_filter f m)) (JObj m)"
proof (rule json_part.object)
  fix k v'
  assume f: "member_step f" and "(k, v') \<in> set (List.map_filter f m)"
  then obtain k0 v0 where "(k0, v0) \<in> set m" "f (k0, v0) = Some (k, v')"
    by (auto simp: map_filter_def)
  with f show "\<exists>v. (k, v) \<in> set m \<and> json_part v' v" unfolding member_step_def by blast
qed

lemma map_of_map_filter:
  assumes "member_step f" and "\<And>v. f (k, v) = Some (k, v)"
  shows "map_of (List.map_filter f m) k = map_of m k"
proof (induction m)
  case (Cons e m)
  obtain k0 v0 where e: "e = (k0, v0)" by fastforce
  show ?case
  proof (cases "f (k0, v0)")
    case None
    then have "k0 \<noteq> k" using assms(2) [of v0] by auto
    then show ?thesis using Cons None e by (simp add: map_filter_simps)
  next
    case (Some kv)
    obtain k1 v1 where kv: "kv = (k1, v1)" by fastforce
    have "k1 = k0" using assms(1) Some kv unfolding member_step_def by blast
    moreover have "v1 = v0" if "k0 = k" using that assms(2) [of v0] Some kv by simp
    ultimately show ?thesis using Cons Some e kv by (simp add: map_filter_simps)
  qed
qed (simp add: map_filter_simps)

lemma jdelete_part: "json_part (JObj (jdelete m k)) (JObj m)"
  by (rule part_subset) (auto simp: jdelete_def)

lemma map_of_jdelete [simp]: "map_of (jdelete m k) k' = (if k' = k then None else map_of m k')"
  by (induction m) (auto simp: jdelete_def)

lemma jput_part:
  assumes "jget m k = v" "v \<noteq> JNull" "json_part v' v"
  shows "json_part (JObj (jput m k v')) (JObj m)"
proof -
  have "map_of m k = Some v" using assms(1,2) by (cases "map_of m k") (auto simp: jget_def)
  then have kv: "(k, v) \<in> set m" by (rule map_of_SomeD)
  then have eq: "jput m k v' = map (\<lambda>(k', w). if k' = k then (k', v') else (k', w)) m"
    by (force simp: jput_def)
  show ?thesis
  proof (rule json_part.object)
    fix k1 w
    assume "(k1, w) \<in> set (jput m k v')"
    then have "(k1 = k \<and> w = v') \<or> (k1, w) \<in> set m" by (auto simp: eq split: if_split_asm)
    then show "\<exists>v. (k1, v) \<in> set m \<and> json_part w v" using kv assms(3) json_part.same by blast
  qed
qed

lemma includeEnterprise_part: "json_part (JObj (fst (includeEnterprise L spec m))) (JObj m)"
  by (auto simp: includeEnterprise_def Let_def projectObjectMapWhitelist_def json_part.same jdelete_part
      intro!: jput_part map_filter_part whitelist_step split: option.split json.split)

lemma excludeEnterprise_part: "json_part (JObj (excludeEnterprise L spec m)) (JObj m)"
  by (auto simp: excludeEnterprise_def Let_def projectObjectMapBlacklist_def json_part.same jdelete_part
      intro!: jput_part map_filter_part blacklist_step split: option.split json.split)

lemma projection_part: "json_part (JObj (applyAttributeProjection L r a e)) (JObj (jdelete r ''password''))"
  unfolding applyAttributeProjection_def Let_def projectObjectMapWhitelist_def projectObjectMapBlacklist_def
  using includeEnterprise_part [of L "parseProjectionSpec L a" "jdelete r ''password''"]
  by (auto simp: json_part.same split_beta
      intro!: part_trans [OF map_filter_part [OF whitelist_step]] part_trans [OF map_filter_part [OF blacklist_step]]
        excludeEnterprise_part)

section \<open>Members that stay\<close>

lemma map_of_includeEnterprise:
  "\<not> EqualFold L k EnterpriseSchemaURN \<Longrightarrow> map_of (fst (includeEnterprise L spec m)) k = map_of m k"
  by (auto simp: includeEnterprise_def Let_def findKeyCaseInsensitive_def find_Some_iff
      split: option.split json.split)

lemma map_of_excludeEnterprise:
  "\<not> EqualFold L k EnterpriseSchemaURN \<Longrightarrow> map_of (excludeEnterprise L spec m) k = map_of m k"
  by (auto simp: excludeEnterprise_def Let_def findKeyCaseInsensitive_def find_Some_iff
      split: option.split json.split)

lemma not_enterprise:
  assumes "\<forall>c \<in> set k. code c < 128" "map ascii_lower k \<noteq> map ascii_lower EnterpriseSchemaURN"
  shows "\<not> EqualFold L k EnterpriseSchemaURN"
proof -
  have "\<forall>c \<in> set EnterpriseSchemaURN. code c < 128" by code_simp
  then show ?thesis using EqualFold_ascii [OF assms(1)] assms(2) by simp
qed

lemma fixed_keys:
  "\<not> EqualFold L ''id'' EnterpriseSchemaURN" "\<not> EqualFold L ''schemas'' EnterpriseSchemaURN"
  "ToLower L ''id'' = ''id''" "ToLower L ''schemas'' = ''schemas''"
proof -
  have a: "\<forall>c \<in> set ''id''. code c < 128" "\<forall>c \<in> set ''schemas''. code c < 128" by code_simp+
  have b: "map ascii_lower ''id'' = ''id''" "map ascii_lower ''schemas'' = ''schemas''" by code_simp+
  have c: "''id'' \<noteq> map ascii_lower EnterpriseSchemaURN" "''schemas'' \<noteq> map ascii_lower EnterpriseSchemaURN" by code_simp+
  show "\<not> EqualFold L ''id'' EnterpriseSchemaURN" "\<not> EqualFold L ''schemas'' EnterpriseSchemaURN"
    using not_enterprise a b c by metis+
  show "ToLower L ''id'' = ''id''" "ToLower L ''schemas'' = ''schemas''"
    using ToLower_ascii a b by metis+
qed

lemma kept_key:
  assumes "k = ''id'' \<or> k = ''schemas''"
  shows "map_of (applyAttributeProjection L r a e) k = map_of r k"
proof -
  have k: "\<not> EqualFold L k EnterpriseSchemaURN" "ToLower L k = k" "k \<noteq> ''password''"
    using assms fixed_keys by auto
  have w: "whitelistMember L w (filter (\<lambda>(p, s). p \<noteq> ''schemas'' \<and> p \<noteq> ''id'') s) alwaysKeep (k, v) = Some (k, v)" for w s v
    using assms k(2) by (auto simp: whitelistMember_def Let_def alwaysKeep_def split: json.split)
  have b: "blacklistMember L w s (protectedKeys L) (k, v) = Some (k, v)" for w s v
    using assms k(2) by (auto simp: blacklistMember_def protectedKeys_def)
  show ?thesis
    using k(1,3) map_of_includeEnterprise [OF k(1), of "parseProjectionSpec L a" "jdelete r ''password''"]
    by (simp add: applyAttributeProjection_def Let_def split_beta projectObjectMapWhitelist_def
        projectObjectMapBlacklist_def map_of_map_filter [OF whitelist_step w] map_of_map_filter [OF blacklist_step b]
        map_of_excludeEnterprise)
qed

text \<open>C25. Whatever attributes a client includes or excludes, the projected response is a part of the
  response: it only leaves out members, sub-attributes and entries. It never has a password, and
  always has the id and the schemas of the response, unchanged.\<close>

theorem projection_sound:
  "json_part (JObj (applyAttributeProjection L r a e)) (JObj r)
   \<and> map_of (applyAttributeProjection L r a e) ''password'' = None
   \<and> map_of (applyAttributeProjection L r a e) ''id'' = map_of r ''id''
   \<and> map_of (applyAttributeProjection L r a e) ''schemas'' = map_of r ''schemas''"
proof (intro conjI)
  show "json_part (JObj (applyAttributeProjection L r a e)) (JObj r)"
    by (rule part_trans [OF projection_part jdelete_part])
  have "''password'' \<notin> fst ` set (jdelete r ''password'')" by (auto simp: jdelete_def)
  then show "map_of (applyAttributeProjection L r a e) ''password'' = None"
    using part_keys [OF projection_part [of L r a e]] by (auto simp: map_of_eq_None_iff)
qed (simp_all add: kept_key)

section \<open>Members that are asked for\<close>

lemma token_mono: "set (specWhole spec) \<subseteq> set (specWhole (projectionToken L tok spec))"
  by (auto simp: projectionToken_def addPathToMaps_def Let_def split: option.split prod.splits)

lemma fold_mono: "set (specWhole spec) \<subseteq> set (specWhole (fold (projectionToken L) toks spec))"
proof (induction toks arbitrary: spec)
  case (Cons tok toks)
  then show ?case using token_mono [of spec L tok] by (force)
qed simp

text \<open>The name of a core attribute, as a path of one part.\<close>

definition core_name :: "string \<Rightarrow> bool" where
  "core_name k \<longleftrightarrow> k \<noteq> [] \<and> (\<forall>c \<in> set k. code c < 128) \<and> TrimSpace k = k \<and> CHR ''.'' \<notin> set k \<and> CHR '':'' \<notin> set k"

lemma URN_colons:
  "CHR '':'' \<in> set (map ascii_lower EnterpriseSchemaURN)"
  "\<forall>c \<in> set EnterpriseSchemaURN. code c < 128" "\<forall>c \<in> set UserSchemaURN. code c < 128" "\<forall>c \<in> set GroupSchemaURN. code c < 128"
  by code_simp+

lemma lower_colon: "CHR '':'' \<notin> set k \<Longrightarrow> CHR '':'' \<notin> set (map ascii_lower k)"
proof
  assume "CHR '':'' \<notin> set k" and "CHR '':'' \<in> set (map ascii_lower k)"
  then obtain c where c: "c \<in> set k" "ascii_lower c = CHR '':''" by auto
  have "code (ascii_lower c) \<noteq> 58" if "is_upper c"
    using that by (simp add: ascii_lower_def is_upper_def code_def)
  moreover have "code CHR '':'' = 58" by (simp add: code_def)
  ultimately have "\<not> is_upper c" using c(2) by metis
  then show False using c \<open>CHR '':'' \<notin> set k\<close> by (simp add: ascii_lower_def)
qed

lemma core_token:
  assumes "core_name k"
  shows "ToLower L k \<in> set (specWhole (projectionToken L k spec))"
proof -
  have low: "ToLower L k = map ascii_lower k" using assms by (simp add: core_name_def ToLower_ascii)
  have no: "CHR '':'' \<notin> set (ToLower L k)" using assms lower_colon low by (simp add: core_name_def)
  have "ToLower L k \<noteq> ToLower L EnterpriseSchemaURN"
    using no URN_colons(1) ToLower_ascii [OF URN_colons(2)] by metis
  moreover have "\<not> HasPrefix (ToLower L k) (p @ '':'')" "\<not> HasPrefix (ToLower L k) (p @ '':'' @ q)" for p q
    using no by (auto simp: HasPrefix_def prefix_def)
  moreover have "attrPath L k = Some (ToLower L k, None)"
    using assms low by (auto simp: attrPath_def core_name_def SplitN2_def Let_def)
  ultimately show ?thesis by (simp add: projectionToken_def addPathToMaps_def Let_def)
qed

lemma core_parsed:
  assumes "core_name k" and "k \<in> set (parseAttrList s)"
  shows "ToLower L k \<in> set (specWhole (parseProjectionSpec L s))"
proof -
  from assms(2) obtain xs ys where s: "parseAttrList s = xs @ k # ys" by (meson split_list)
  show ?thesis
    using core_token [OF assms(1)] fold_mono by (simp add: parseProjectionSpec_def s) blast
qed

lemma map_of_map_filter_None:
  assumes "member_step f" and "\<And>v. f (k, v) = None"
  shows "map_of (List.map_filter f m) k = None"
proof -
  have "k \<notin> fst ` set (List.map_filter f m)"
  proof
    assume "k \<in> fst ` set (List.map_filter f m)"
    then obtain k0 v0 v where "f (k0, v0) = Some (k, v)" by (auto simp: map_filter_def)
    moreover from this have "k0 = k" using assms(1) unfolding member_step_def by blast
    ultimately show False using assms(2) [of v0] by simp
  qed
  then show ?thesis by (simp add: map_of_eq_None_iff)
qed

lemma core_not_enterprise: "core_name k \<Longrightarrow> \<not> EqualFold L k EnterpriseSchemaURN"
  using not_enterprise [of k] lower_colon [of k] URN_colons(1) by (metis core_name_def)

text \<open>A list of plain paths: attributes and sub-attributes of the core schemas, \<^verbatim>\<open>name\<close> or \<^verbatim>\<open>name.givenName\<close>.\<close>

definition topName :: "string \<Rightarrow> string" where
  "topName path = takeWhile (\<lambda>c. c \<noteq> CHR ''.'') path"

definition plainPath :: "string \<Rightarrow> bool" where
  "plainPath path \<longleftrightarrow> core_name (topName path) \<and> CHR '':'' \<notin> set path \<and> (\<forall>c \<in> set path. code c < 128)"

definition named :: "ext \<Rightarrow> string \<Rightarrow> string \<Rightarrow> bool" where
  "named L k names \<longleftrightarrow> ToLower L k \<in> (\<lambda>path. ToLower L (topName path)) ` set (parseAttrList names)"

lemma hd_SplitN2: "hd (SplitN2 path c) = takeWhile (\<lambda>x. x \<noteq> c) path"
proof (cases "c \<in> set path")
  case False
  then have "hd (SplitN2 path c) = path" by (auto simp: SplitN2_def Let_def)
  also have "path = takeWhile (\<lambda>x. x \<noteq> c) path" using False by (intro takeWhile_eq_all_conv [THEN iffD2, symmetric]) auto
  finally show ?thesis .
qed (auto simp: SplitN2_def Let_def)

definition specNames :: "projectionSpec \<Rightarrow> string set" where
  "specNames spec = set (specWhole spec) \<union> fst ` set (specSubs spec)"

lemma plain_token:
  assumes "plainPath path"
  shows "specNames (projectionToken L path spec) \<subseteq> insert (ToLower L (topName path)) (specNames spec)"
proof -
  have low: "ToLower L path = map ascii_lower path" using assms by (simp add: plainPath_def ToLower_ascii)
  have no: "CHR '':'' \<notin> set (ToLower L path)" using assms lower_colon low by (simp add: plainPath_def)
  have "ToLower L path \<noteq> ToLower L EnterpriseSchemaURN"
    using no URN_colons(1) ToLower_ascii [OF URN_colons(2)] by metis
  moreover have "\<not> HasPrefix (ToLower L path) (p @ '':'')" "\<not> HasPrefix (ToLower L path) (p @ '':'' @ q)" for p q
    using no by (auto simp: HasPrefix_def prefix_def)
  moreover have "TrimSpace (hd (SplitN2 path CHR ''.'')) = topName path"
    using assms by (simp add: hd_SplitN2 topName_def plainPath_def core_name_def)
  ultimately show ?thesis
    by (auto simp: projectionToken_def addPathToMaps_def attrPath_def Let_def specNames_def split: if_splits)
qed

lemma plain_tokens:
  "list_all plainPath toks \<Longrightarrow>
    specNames (fold (projectionToken L) toks spec) \<subseteq> (\<lambda>path. ToLower L (topName path)) ` set toks \<union> specNames spec"
proof (induction toks arbitrary: spec)
  case (Cons tok toks)
  then have "specNames (fold (projectionToken L) (tok # toks) spec)
      \<subseteq> (\<lambda>path. ToLower L (topName path)) ` set toks \<union> specNames (projectionToken L tok spec)"
    by simp
  moreover have "specNames (projectionToken L tok spec) \<subseteq> insert (ToLower L (topName tok)) (specNames spec)"
    using Cons.prems by (simp add: plain_token)
  ultimately show ?case by auto
qed simp

lemma plain_list:
  assumes "list_all plainPath (parseAttrList names)" and "\<not> named L k names"
  shows "ToLower L k \<notin> set (specWhole (parseProjectionSpec L names))"
    "ToLower L k \<notin> fst ` set (specSubs (parseProjectionSpec L names))"
proof -
  have "specNames (parseProjectionSpec L names) \<subseteq> (\<lambda>path. ToLower L (topName path)) ` set (parseAttrList names)"
    using plain_tokens [OF assms(1), of L emptyProjection]
    by (simp add: parseProjectionSpec_def emptyProjection_def specNames_def)
  then have "ToLower L k \<notin> specNames (parseProjectionSpec L names)"
    using assms(2) by (auto simp: named_def)
  then show "ToLower L k \<notin> set (specWhole (parseProjectionSpec L names))"
    "ToLower L k \<notin> fst ` set (specSubs (parseProjectionSpec L names))"
    by (simp_all add: specNames_def)
qed

lemma folded_key: "findKeyCaseInsensitive L m k = Some e \<Longrightarrow> e \<in> fst ` set m \<and> EqualFold L e k"
  unfolding findKeyCaseInsensitive_def by (force simp: find_Some_iff in_set_conv_nth)

lemma whole_includeEnterprise:
  assumes "ToLower L k \<noteq> ToLower L EnterpriseSchemaURN" and "ToLower L k \<notin> set (specWhole spec)"
    and "\<And>e. e \<in> fst ` set m \<Longrightarrow> EqualFold L e EnterpriseSchemaURN \<Longrightarrow> ToLower L e \<noteq> ToLower L k"
  shows "ToLower L k \<notin> set (snd (includeEnterprise L spec m))"
proof -
  have "ToLower L e \<noteq> ToLower L k" if "findKeyCaseInsensitive L m EnterpriseSchemaURN = Some e" for e
    using folded_key [OF that] assms(3) by blast
  then show ?thesis
    using assms(1,2) by (auto simp: includeEnterprise_def Let_def split: option.split json.split)
qed

text \<open>C26. With a list \<^verbatim>\<open>attributes\<close> a core attribute that is asked for is returned as it is in the response. If the
  list has plain paths only, the response has besides, of the core attributes, only those of which a sub-attribute is
  asked for, and \<^verbatim>\<open>schemas\<close>, \<^verbatim>\<open>id\<close> and \<^verbatim>\<open>meta\<close>, which it always has (the members of a response have ASCII names). With a list \<^verbatim>\<open>excludedAttributes\<close> a core attribute
  that is named is not returned, unless it is the id or the schemas; and of plain paths those that are not named are
  returned as they are.\<close>

theorem projection_selects:
  assumes "core_name k" "k \<noteq> ''password''" and "TrimSpace names \<noteq> []" and "TrimSpace a = []"
  shows "(k \<in> set (parseAttrList names) \<longrightarrow> map_of (applyAttributeProjection L r names e) k = map_of r k)
    \<and> (list_all plainPath (parseAttrList names) \<longrightarrow> \<not> named L k names \<longrightarrow> (\<forall>m \<in> fst ` set r. \<forall>c \<in> set m. code c < 128) \<longrightarrow>
        map_of (applyAttributeProjection L r names e) k = (if ToLower L k \<in> {''id'', ''schemas'', ''meta''} then map_of r k else None))
    \<and> (k \<in> set (parseAttrList names) \<longrightarrow> ToLower L k \<notin> {''id'', ''schemas''} \<longrightarrow>
        map_of (applyAttributeProjection L r a names) k = None)
    \<and> (list_all plainPath (parseAttrList names) \<longrightarrow> \<not> named L k names \<longrightarrow>
        map_of (applyAttributeProjection L r a names) k = map_of r k)"
proof (intro conjI impI)
  note k = core_not_enterprise [OF assms(1), of L]
  let ?spec = "parseProjectionSpec L names"
  let ?r = "jdelete r ''password''"
  let ?inc = "includeEnterprise L ?spec ?r"
  have ent: "ToLower L k \<noteq> ToLower L EnterpriseSchemaURN"
    using assms(1) lower_colon [of k] URN_colons(1) ToLower_ascii [OF URN_colons(2)] ToLower_ascii [of k]
    by (metis core_name_def)
  show "map_of (applyAttributeProjection L r names e) k = map_of r k" if "k \<in> set (parseAttrList names)"
  proof -
    have "set (specWhole ?spec) \<subseteq> set (snd ?inc)"
      by (auto simp: includeEnterprise_def Let_def split: option.split json.split)
    then have w: "whitelistMember L (snd ?inc) s d (k, v) = Some (k, v)" for s d v
      using core_parsed [OF assms(1) that, of L] by (auto simp: whitelistMember_def)
    show ?thesis
      using assms(2,3) map_of_includeEnterprise [OF k, of ?spec ?r]
      by (simp add: applyAttributeProjection_def Let_def split_beta projectObjectMapWhitelist_def
          map_of_map_filter [OF whitelist_step w])
  qed
  show "map_of (applyAttributeProjection L r a names) k = None"
    if n: "k \<in> set (parseAttrList names)" "ToLower L k \<notin> {''id'', ''schemas''}"
  proof -
    have b: "blacklistMember L (specWhole ?spec) s (protectedKeys L) (k, v) = None" for s v
      using n(2) ent core_parsed [OF assms(1) n(1), of L] by (simp add: blacklistMember_def protectedKeys_def)
    show ?thesis
      using assms(3,4) by (simp add: applyAttributeProjection_def Let_def projectObjectMapBlacklist_def
          map_of_map_filter_None [OF blacklist_step b])
  qed
  assume plain: "list_all plainPath (parseAttrList names)" and n: "\<not> named L k names"
  note none = plain_list [OF plain n]
  let ?subs = "filter (\<lambda>(p, s). p \<noteq> ''schemas'' \<and> p \<noteq> ''id'') (specSubs ?spec)"
  have s: "ToLower L k \<notin> fst ` set ?subs" using none(2) by auto
  show "map_of (applyAttributeProjection L r names e) k = (if ToLower L k \<in> {''id'', ''schemas'', ''meta''} then map_of r k else None)"
    if ascii: "\<forall>m \<in> fst ` set r. \<forall>c \<in> set m. code c < 128"
  proof -
    have "ToLower L m \<noteq> ToLower L k" if "m \<in> fst ` set ?r" "EqualFold L m EnterpriseSchemaURN" for m
    proof -
      have "\<forall>c \<in> set m. code c < 128" using that(1) ascii by (auto simp: jdelete_def)
      then have "ToLower L m = ToLower L EnterpriseSchemaURN"
        using that(2) EqualFold_ascii [of m EnterpriseSchemaURN L] URN_colons(2) ToLower_ascii by metis
      then show ?thesis using ent by simp
    qed
    then have w: "whitelistMember L (snd ?inc) ?subs alwaysKeep (k, v) = (if ToLower L k \<in> {''id'', ''schemas'', ''meta''} then Some (k, v) else None)" for v
      using whole_includeEnterprise [OF ent none(1), of ?r] s by (auto simp: whitelistMember_def Let_def alwaysKeep_def)
    show ?thesis
    proof (cases "ToLower L k \<in> {''id'', ''schemas'', ''meta''}")
      case True
      have w': "whitelistMember L (snd ?inc) ?subs alwaysKeep (k, v) = Some (k, v)" for v unfolding w if_P [OF True] ..
      show ?thesis unfolding if_P [OF True]
        using assms(2,3) map_of_includeEnterprise [OF k, of ?spec ?r]
        by (simp add: applyAttributeProjection_def Let_def split_beta projectObjectMapWhitelist_def
            map_of_map_filter [OF whitelist_step w'])
    next
      case False
      have w': "whitelistMember L (snd ?inc) ?subs alwaysKeep (k, v) = None" for v unfolding w if_not_P [OF False] ..
      show ?thesis unfolding if_not_P [OF False]
        using assms(3) by (simp add: applyAttributeProjection_def Let_def split_beta projectObjectMapWhitelist_def
            map_of_map_filter_None [OF whitelist_step w'])
    qed
  qed
  have b: "blacklistMember L (specWhole ?spec) (specSubs ?spec) (protectedKeys L) (k, v) = Some (k, v)" for v
    using none by (auto simp: blacklistMember_def Let_def)
  show "map_of (applyAttributeProjection L r a names) k = map_of r k"
    using assms(2-4) map_of_excludeEnterprise [OF k, of ?spec ?r]
    by (simp add: applyAttributeProjection_def Let_def projectObjectMapBlacklist_def map_of_map_filter [OF blacklist_step b])
qed

theorem projection_selects_witness:
  "map_of (applyAttributeProjection plain_ext [(''userName'', JStr ''u''), (''title'', JStr ''t'')] ''emails, title'' []) ''title''
     = Some (JStr ''t'')
   \<and> map_of (applyAttributeProjection plain_ext [(''userName'', JStr ''u''), (''title'', JStr ''t'')] ''emails, title'' []) ''userName'' = None"
proof -
  let ?r = "[(''userName'', JStr ''u''), (''title'', JStr ''t'')]" and ?names = "''emails, title''"
  have t: "core_name ''title''" "''title'' \<in> set (parseAttrList ?names)" "TrimSpace ?names \<noteq> []" "TrimSpace [] = []"
    by code_simp+
  have n: "core_name ''userName''" "list_all plainPath (parseAttrList ?names)" "\<not> named plain_ext ''userName'' ?names"
    "ToLower plain_ext ''userName'' \<notin> {''id'', ''schemas'', ''meta''}"
    by code_simp+
  have ascii: "\<forall>m \<in> fst ` set ?r. \<forall>c \<in> set m. code c < 128" by code_simp
  have "map_of (applyAttributeProjection plain_ext ?r ?names []) ''title'' = map_of ?r ''title''"
    by (rule projection_selects [OF t(1) _ t(3,4), THEN conjunct1, THEN mp, OF _ t(2)]) simp
  moreover have "map_of (applyAttributeProjection plain_ext ?r ?names []) ''userName''
      = (if ToLower plain_ext ''userName'' \<in> {''id'', ''schemas'', ''meta''} then map_of ?r ''userName'' else None)"
    using projection_selects [OF n(1) _ t(3,4), THEN conjunct2, THEN conjunct1, THEN mp, OF _ n(2), THEN mp, OF _ n(3), THEN mp, OF _ ascii]
    by simp
  ultimately show ?thesis using n(4) by simp
qed

section \<open>Entity tags\<close>

lemma TrimSpace_ends:
  assumes "s \<noteq> []" "\<forall>c \<in> set s. code c < 128" "\<not> IsSpace [hd s]" "\<not> IsSpace [last s]"
  shows "TrimSpace s = s"
proof -
  have r: "runes s = map (\<lambda>c. [c]) s" by (rule runes_ascii [OF assms(2)])
  have "dropWhile IsSpace (map (\<lambda>c. [c]) t) = map (\<lambda>c. [c]) t" if "t \<noteq> []" "\<not> IsSpace [hd t]" for t
    using that by (cases t) auto
  moreover have "concat (map (\<lambda>c. [c]) t) = t" for t :: string by (induction t) auto
  ultimately show ?thesis using assms(1,3,4) by (simp add: TrimSpace_def r rev_map hd_rev)
qed

lemma etag_chars: "c \<in> set (etag v) \<Longrightarrow> c \<in> set [CHR ''W'', CHR ''/'', dquote, CHR ''-''] \<or> is_digit c"
  using itoa_digits [of c] by (auto simp: etag_def itoa_int_def split: if_splits)

lemma etag_trim: "TrimSpace (etag v) = etag v"
proof (rule TrimSpace_ends)
  show "\<forall>c \<in> set (etag v). code c < 128"
  proof
    fix c assume "c \<in> set (etag v)"
    then show "code c < 128" using etag_chars [of c v] by (auto simp: is_digit_def code_def)
  qed
qed (simp_all add: etag_def IsSpace_def)

lemma SplitByte_none: "c \<notin> set s \<Longrightarrow> SplitByte s c = [s]"
  by (induction s) auto

lemma etag_split: "SplitByte (etag v) CHR '','' = [etag v]"
proof (rule SplitByte_none)
  have "\<not> is_digit CHR '',''" by code_simp
  then show "CHR '','' \<notin> set (etag v)" using etag_chars [of "CHR '',''" v] by auto
qed

lemma etag_match: "checkETagMatch (etag v) w \<longleftrightarrow> v = w"
proof -
  have "etag v \<noteq> []" "etag v \<noteq> ''*''" by (simp_all add: etag_def)
  moreover have "etag v = etag w \<longleftrightarrow> v = w" by (simp add: etag_def itoa_int_inject)
  ultimately show ?thesis by (simp add: checkETagMatch_def etag_trim etag_split)
qed

end
