(* ===== verification/Store.thy ===== *)
theory Store
  imports Mapper FilterBuild "HOL-Library.Char_ord" "HOL-Library.List_Lexorder"
begin

text \<open>
  The repositories (\<^verbatim>\<open>internal/repository/user.go\<close>, \<^verbatim>\<open>group.go\<close>, \<^verbatim>\<open>async_event.go\<close>,
  \<^verbatim>\<open>workspace.go\<close>) over the database tables.

  A handler is a program of statements: \<open>Ask q k\<close> sends the statement \<open>q\<close> and goes on with \<open>k\<close>
  of the answer, so that a program can be run alone (\<open>run\<close>) or its statements interleaved with those
  of other requests. What an SQL statement of the repositories does to the rows is \<open>exec\<close>. What the
  repository leaves to PostgreSQL is a parameter (\<open>database\<close>): \<^verbatim>\<open>LOWER\<close>, the \<^verbatim>\<open>WHERE\<close> text of a
  filter, the order of a \<^verbatim>\<open>SELECT\<close>, the unique constraints, and the identifiers of \<^verbatim>\<open>uuid.New\<close>.
\<close>

section \<open>Tables\<close>

record ScimAsyncEvent =
  TxnID :: string
  EventWorkspaceID :: string
  Operation :: string
  ResourceType :: string
  ResourceID :: "string option"
  EventStatus :: string
  SetPayload :: "string option"
  EventCreatedAt :: int
  CompletedAt :: "int option"

definition AsyncStatusPending :: string where
  "AsyncStatusPending = ''PENDING''"

definition AsyncStatusCompleted :: string where
  "AsyncStatusCompleted = ''COMPLETED''"

definition AsyncStatusFailed :: string where
  "AsyncStatusFailed = ''FAILED''"

text \<open>\<open>workspace_rows\<close> has the identifier and the time of the last update of each workspace.\<close>

record tables =
  user_rows :: "ScimUser list"
  group_rows :: "ScimGroup list"
  member_rows :: "ScimGroupMembership list"
  event_rows :: "ScimAsyncEvent list"
  workspace_rows :: "(string \<times> int) list"

text \<open>The state of the server: the tables, what a transaction goes back to, the clock, the
  identifiers given out and the worker slots in use. A transaction that is taken back gives back every table but that
  of the events, whose repository sends each of its statements outside of any transaction.\<close>

record store = tables +
  backup :: "tables option"
  clock :: int
  issued :: "string list"
  workers :: nat

record database =
  sql_lower :: "string \<Rightarrow> string"
  user_where :: "string \<Rightarrow> sql_arg list \<Rightarrow> ScimUser \<Rightarrow> bool"
  user_order :: "string \<Rightarrow> ScimUser list \<Rightarrow> ScimUser list"
  group_where :: "string \<Rightarrow> sql_arg list \<Rightarrow> ScimGroup \<Rightarrow> bool"
  group_order :: "string \<Rightarrow> ScimGroup list \<Rightarrow> ScimGroup list"
  user_conflict :: "ScimUser list \<Rightarrow> ScimUser \<Rightarrow> string option"
  group_conflict :: "ScimGroup list \<Rightarrow> ScimGroup \<Rightarrow> string option"
  member_conflict :: "ScimGroupMembership list \<Rightarrow> ScimGroupMembership \<Rightarrow> string option"
  fresh_uuid :: "string list \<Rightarrow> string"

section \<open>Statements\<close>

datatype db_error = UniqueViolation string | OptimisticLock | Fault

datatype query =
    TimeNow | NewUUID | TryAcquire | Release
  | Begin | Commit | Rollback
  | SelectUser string string | UserNameExists string string
  | InsertUser ScimUser | UpdateUser ScimUser int | DeleteUserRow string string
  | CountUsers string string "sql_arg list"
  | SelectUsers string string "sql_arg list" string int int
  | SelectGroup string string | SelectGroupByName string string
  | InsertGroup ScimGroup | UpdateGroup ScimGroup int | DeleteGroupRow string string
  | CountGroups string string "sql_arg list"
  | SelectGroups string string "sql_arg list" string int int
  | SelectMembers string | SelectGroupRefs "string list"
  | InsertMember ScimGroupMembership | DeleteMembersOfGroup string | DeleteMembersByValue string
  | DeleteMembers string "string list" | SetMemberType string string string
  | InsertEvent ScimAsyncEvent | SelectEvent string string
  | UpdateEvent string string "string option" "string option" int
  | SelectStaleEvents int int | SelectFullWorkspaces int | PruneEvents string int int
  | TouchWorkspace string int

datatype answer =
    Clock int | Uuid string | Flag bool | Affected nat
  | UserRow "ScimUser option" | UserRows "ScimUser list"
  | GroupRow "ScimGroup option" | GroupRows "ScimGroup list"
  | MemberRows "ScimGroupMembership list" | GroupRefs "(ScimGroupMembership \<times> string) list"
  | EventRow "ScimAsyncEvent option" | EventRows "ScimAsyncEvent list" | WorkspaceIDs "string list"
  | Failed db_error

section \<open>What the statements do\<close>

text \<open>The columns an \<^verbatim>\<open>UPDATE\<close> of a user or group does not set stay as they are in the row.\<close>

definition setUserColumns :: "ScimUser \<Rightarrow> ScimUser \<Rightarrow> ScimUser" where
  "setUserColumns row u = u\<lparr>ID := ID row, WorkspaceID := WorkspaceID row, CreatedAt := CreatedAt row\<rparr>"

definition setGroupColumns :: "ScimGroup \<Rightarrow> ScimGroup \<Rightarrow> ScimGroup" where
  "setGroupColumns row g = row\<lparr>GroupExternalID := GroupExternalID g, GroupDisplayName := GroupDisplayName g,
     GroupLastModified := GroupLastModified g, GroupVersion := GroupVersion g\<rparr>"

text \<open>\<^verbatim>\<open>INSERT\<close> and \<^verbatim>\<open>UPDATE\<close> under unique constraints: the constraint violated, or the new rows.\<close>

definition insertRow :: "('r list \<Rightarrow> 'r \<Rightarrow> string option) \<Rightarrow> 'r list \<Rightarrow> 'r \<Rightarrow> db_error + 'r list" where
  "insertRow conflict rows r = (case conflict rows r of Some c \<Rightarrow> Inl (UniqueViolation c) | None \<Rightarrow> Inr (rows @ [r]))"

definition updateRows :: "('r list \<Rightarrow> 'r \<Rightarrow> string option) \<Rightarrow> ('r \<Rightarrow> bool) \<Rightarrow> ('r \<Rightarrow> 'r) \<Rightarrow> 'r list \<Rightarrow> db_error + 'r list" where
  "updateRows conflict hit f rows =
     (case List.map_filter (\<lambda>r. if hit r then conflict (filter (\<lambda>r. \<not> hit r) rows) (f r) else None) rows of
        c # _ \<Rightarrow> Inl (UniqueViolation c)
      | [] \<Rightarrow> Inr (map (\<lambda>r. if hit r then f r else r) rows))"

definition userHit :: "string \<Rightarrow> int \<Rightarrow> ScimUser \<Rightarrow> bool" where
  "userHit rid v r \<longleftrightarrow> ID r = rid \<and> Version r = v"

definition groupHit :: "string \<Rightarrow> int \<Rightarrow> ScimGroup \<Rightarrow> bool" where
  "groupHit rid v g \<longleftrightarrow> GroupID g = rid \<and> GroupVersion g = v"

definition limitOffset :: "int \<Rightarrow> int \<Rightarrow> 'r list \<Rightarrow> 'r list" where
  "limitOffset limit offset rows = take (nat limit) (drop (nat offset) rows)"

text \<open>The columns of a group row; its members are other rows.\<close>

definition groupRow :: "ScimGroup \<Rightarrow> ScimGroup" where
  "groupRow g = g\<lparr>Members := []\<rparr>"

definition eventTransition :: "string \<Rightarrow> string option \<Rightarrow> string option \<Rightarrow> int \<Rightarrow> ScimAsyncEvent \<Rightarrow> ScimAsyncEvent" where
  "eventTransition status resourceID payload completedAt e =
     e\<lparr>EventStatus := status, ResourceID := (case resourceID of None \<Rightarrow> ResourceID e | Some r \<Rightarrow> Some r),
       SetPayload := payload, CompletedAt := Some completedAt\<rparr>"

text \<open>Events that have come to an end, those of one workspace with the newest first, and the workspaces that have too
  many of them.\<close>

definition terminal :: "ScimAsyncEvent \<Rightarrow> bool" where
  "terminal e \<longleftrightarrow> EventStatus e \<in> {AsyncStatusCompleted, AsyncStatusFailed}"

definition newestEvents :: "string \<Rightarrow> ScimAsyncEvent list \<Rightarrow> ScimAsyncEvent list" where
  "newestEvents ws rows =
     rev (sort_key EventCreatedAt (sort_key TxnID (filter (\<lambda>e. EventWorkspaceID e = ws \<and> terminal e) rows)))"

definition fullWorkspaces :: "int \<Rightarrow> ScimAsyncEvent list \<Rightarrow> string list" where
  "fullWorkspaces maxCount rows =
     filter (\<lambda>ws. maxCount < int (length (newestEvents ws rows))) (remdups (map EventWorkspaceID (filter terminal rows)))"

definition staleEvents :: "int \<Rightarrow> ScimAsyncEvent list \<Rightarrow> ScimAsyncEvent list" where
  "staleEvents olderThan rows =
     sort_key EventCreatedAt (filter (\<lambda>e. EventStatus e = AsyncStatusPending \<and> EventCreatedAt e < olderThan) rows)"

primrec exec :: "database \<Rightarrow> query \<Rightarrow> store \<Rightarrow> answer \<times> store" where
  "exec D TimeNow s = (Clock (clock s), s)"
| "exec D NewUUID s =
     (let u = fresh_uuid D (issued s) in (Uuid u, s\<lparr>issued := u # issued s\<rparr>))"
| "exec D TryAcquire s =
     (if workers s < 64 then (Flag True, s\<lparr>workers := workers s + 1\<rparr>) else (Flag False, s))"
| "exec D Release s = (Affected 0, s\<lparr>workers := workers s - 1\<rparr>)"
| "exec D Begin s = (Affected 0, s\<lparr>backup := Some (tables.truncate s)\<rparr>)"
| "exec D Commit s = (Affected 0, s\<lparr>backup := None\<rparr>)"
| "exec D Rollback s =
     (Affected 0, case backup s of None \<Rightarrow> s
       | Some b \<Rightarrow> s\<lparr>user_rows := user_rows b, group_rows := group_rows b, member_rows := member_rows b,
           workspace_rows := workspace_rows b, backup := None\<rparr>)"
| "exec D (SelectUser rid ws) s = (UserRow (find (\<lambda>u. ID u = rid \<and> WorkspaceID u = ws) (user_rows s)), s)"
| "exec D (UserNameExists name ws) s =
     (Flag (list_ex (\<lambda>u. sql_lower D (UserName u) = sql_lower D name \<and> WorkspaceID u = ws) (user_rows s)), s)"
| "exec D (InsertUser u) s =
     (case insertRow (user_conflict D) (user_rows s) u of
        Inl e \<Rightarrow> (Failed e, s) | Inr rows \<Rightarrow> (Affected 1, s\<lparr>user_rows := rows\<rparr>))"
| "exec D (UpdateUser u oldVersion) s =
     (case updateRows (user_conflict D) (userHit (ID u) oldVersion) (\<lambda>r. setUserColumns r u) (user_rows s) of
        Inl e \<Rightarrow> (Failed e, s)
      | Inr rows \<Rightarrow> (Affected (length (filter (userHit (ID u) oldVersion) (user_rows s))), s\<lparr>user_rows := rows\<rparr>))"
| "exec D (DeleteUserRow rid ws) s =
     (Affected (length (filter (\<lambda>u. ID u = rid \<and> WorkspaceID u = ws) (user_rows s))),
      s\<lparr>user_rows := filter (\<lambda>u. \<not> (ID u = rid \<and> WorkspaceID u = ws)) (user_rows s)\<rparr>)"
| "exec D (CountUsers ws whereClause args) s =
     (Affected (length (filter (\<lambda>u. WorkspaceID u = ws \<and> user_where D whereClause args u) (user_rows s))), s)"
| "exec D (SelectUsers ws whereClause args order limit offset) s =
     (UserRows (limitOffset limit offset
        (user_order D order (filter (\<lambda>u. WorkspaceID u = ws \<and> user_where D whereClause args u) (user_rows s)))), s)"
| "exec D (SelectGroup rid ws) s = (GroupRow (find (\<lambda>g. GroupID g = rid \<and> GroupWorkspaceID g = ws) (group_rows s)), s)"
| "exec D (SelectGroupByName name ws) s =
     (GroupRow (find (\<lambda>g. GroupDisplayName g = name \<and> GroupWorkspaceID g = ws) (group_rows s)), s)"
| "exec D (InsertGroup g) s =
     (case insertRow (group_conflict D) (group_rows s) (groupRow g) of
        Inl e \<Rightarrow> (Failed e, s) | Inr rows \<Rightarrow> (Affected 1, s\<lparr>group_rows := rows\<rparr>))"
| "exec D (UpdateGroup g oldVersion) s =
     (case updateRows (group_conflict D) (groupHit (GroupID g) oldVersion) (\<lambda>r. setGroupColumns r g) (group_rows s) of
        Inl e \<Rightarrow> (Failed e, s)
      | Inr rows \<Rightarrow> (Affected (length (filter (groupHit (GroupID g) oldVersion) (group_rows s))), s\<lparr>group_rows := rows\<rparr>))"
| "exec D (DeleteGroupRow rid ws) s =
     (Affected (length (filter (\<lambda>g. GroupID g = rid \<and> GroupWorkspaceID g = ws) (group_rows s))),
      s\<lparr>group_rows := filter (\<lambda>g. \<not> (GroupID g = rid \<and> GroupWorkspaceID g = ws)) (group_rows s)\<rparr>)"
| "exec D (CountGroups ws whereClause args) s =
     (Affected (length (filter (\<lambda>g. GroupWorkspaceID g = ws \<and> group_where D whereClause args g) (group_rows s))), s)"
| "exec D (SelectGroups ws whereClause args order limit offset) s =
     (GroupRows (limitOffset limit offset
        (group_order D order (filter (\<lambda>g. GroupWorkspaceID g = ws \<and> group_where D whereClause args g) (group_rows s)))), s)"
| "exec D (SelectMembers gid) s = (MemberRows (filter (\<lambda>m. MemberGroupID m = gid) (member_rows s)), s)"
| "exec D (SelectGroupRefs values) s =
     (GroupRefs [(m, GroupDisplayName g). m \<leftarrow> member_rows s, MemberValue m \<in> set values,
                   g \<leftarrow> group_rows s, GroupID g = MemberGroupID m], s)"
| "exec D (InsertMember m) s =
     (case insertRow (member_conflict D) (member_rows s) m of
        Inl e \<Rightarrow> (Failed e, s) | Inr rows \<Rightarrow> (Affected 1, s\<lparr>member_rows := rows\<rparr>))"
| "exec D (DeleteMembersOfGroup gid) s =
     (Affected (length (filter (\<lambda>m. MemberGroupID m = gid) (member_rows s))),
      s\<lparr>member_rows := filter (\<lambda>m. MemberGroupID m \<noteq> gid) (member_rows s)\<rparr>)"
| "exec D (DeleteMembersByValue v) s =
     (Affected (length (filter (\<lambda>m. MemberValue m = v) (member_rows s))),
      s\<lparr>member_rows := filter (\<lambda>m. MemberValue m \<noteq> v) (member_rows s)\<rparr>)"
| "exec D (DeleteMembers gid values) s =
     (Affected (length (filter (\<lambda>m. MemberGroupID m = gid \<and> MemberValue m \<in> set values) (member_rows s))),
      s\<lparr>member_rows := filter (\<lambda>m. \<not> (MemberGroupID m = gid \<and> MemberValue m \<in> set values)) (member_rows s)\<rparr>)"
| "exec D (SetMemberType mid ws t) s =
     (Affected (length (filter (\<lambda>m. MembershipID m = mid \<and> MemberWorkspaceID m = ws) (member_rows s))),
      s\<lparr>member_rows := map (\<lambda>m. if MembershipID m = mid \<and> MemberWorkspaceID m = ws
          then m\<lparr>MemberType := Some t\<rparr> else m) (member_rows s)\<rparr>)"
| "exec D (InsertEvent e) s = (Affected 1, s\<lparr>event_rows := event_rows s @ [e]\<rparr>)"
| "exec D (SelectEvent txn ws) s = (EventRow (find (\<lambda>e. TxnID e = txn \<and> EventWorkspaceID e = ws) (event_rows s)), s)"
| "exec D (UpdateEvent txn status resourceID payload completedAt) s =
     (Affected (length (filter (\<lambda>e. TxnID e = txn \<and> EventStatus e = AsyncStatusPending) (event_rows s))),
      s\<lparr>event_rows := map (\<lambda>e. if TxnID e = txn \<and> EventStatus e = AsyncStatusPending
          then eventTransition status resourceID payload completedAt e else e) (event_rows s)\<rparr>)"
| "exec D (SelectStaleEvents olderThan limit) s = (EventRows (limitOffset limit 0 (staleEvents olderThan (event_rows s))), s)"
| "exec D (SelectFullWorkspaces maxCount) s = (WorkspaceIDs (fullWorkspaces maxCount (event_rows s)), s)"
| "exec D (PruneEvents ws offset limit) s =
     (let old = TxnID ` set (limitOffset limit offset (newestEvents ws (event_rows s))) in
      (Affected (length (filter (\<lambda>e. EventWorkspaceID e = ws \<and> TxnID e \<in> old) (event_rows s))),
       s\<lparr>event_rows := filter (\<lambda>e. \<not> (EventWorkspaceID e = ws \<and> TxnID e \<in> old)) (event_rows s)\<rparr>))"
| "exec D (TouchWorkspace ws t) s =
     (Affected (length (filter (\<lambda>(i, _). i = ws) (workspace_rows s))),
      s\<lparr>workspace_rows := map (\<lambda>(i, u). if i = ws then (i, t) else (i, u)) (workspace_rows s)\<rparr>)"

section \<open>Programs\<close>

datatype 'a prog = Ret 'a | Ask query "answer \<Rightarrow> 'a prog"

primrec run :: "database \<Rightarrow> 'a prog \<Rightarrow> store \<Rightarrow> 'a \<times> store" where
  "run D (Ret x) s = (x, s)"
| "run D (Ask q k) s = (case exec D q s of (a, s') \<Rightarrow> run D (k a) s')"

primrec pbind :: "'a prog \<Rightarrow> ('a \<Rightarrow> 'b prog) \<Rightarrow> 'b prog" where
  "pbind (Ret x) f = f x"
| "pbind (Ask q k) f = Ask q (\<lambda>a. pbind (k a) f)"

lemma run_pbind: "run D (pbind p f) s = (case run D p s of (x, s') \<Rightarrow> run D (f x) s')"
  by (induction p arbitrary: s) (auto split: prod.split)

text \<open>An answer that is no answer to the statement is a failure of the driver.\<close>

definition failure :: "answer \<Rightarrow> db_error" where
  "failure a = (case a of Failed e \<Rightarrow> e | _ \<Rightarrow> Fault)"

definition affected :: "answer \<Rightarrow> db_error + nat" where
  "affected a = (case a of Affected n \<Rightarrow> Inr n | _ \<Rightarrow> Inl (failure a))"

lemma affected_simps [simp]: "affected (Affected n) = Inr n" "affected (Failed e) = Inl e"
  by (simp_all add: affected_def failure_def)

definition timeNow :: "(int \<Rightarrow> 'b prog) \<Rightarrow> 'b prog" where
  "timeNow k = Ask TimeNow (\<lambda>a. k (case a of Clock t \<Rightarrow> t | _ \<Rightarrow> 0))"

definition newUUID :: "(string \<Rightarrow> 'b prog) \<Rightarrow> 'b prog" where
  "newUUID k = Ask NewUUID (\<lambda>a. k (case a of Uuid u \<Rightarrow> u | _ \<Rightarrow> []))"

end
