(* ===== verification/UserRepo.thy ===== *)
theory UserRepo
  imports Store
begin

text \<open>
  The functions of \<^verbatim>\<open>internal/repository/user.go\<close> and those of \<^verbatim>\<open>group.go\<close> and
  \<^verbatim>\<open>workspace.go\<close> the user handler calls. A function that returns an error or a value takes the
  rest of the program, which gets one of them.
\<close>

section \<open>Users\<close>

definition findUser :: "string \<Rightarrow> string \<Rightarrow> (db_error + ScimUser option \<Rightarrow> 'b prog) \<Rightarrow> 'b prog" where
  "findUser uid ws k = Ask (SelectUser uid ws) (\<lambda>a. k (case a of UserRow r \<Rightarrow> Inr r | _ \<Rightarrow> Inl (failure a)))"

definition existsByUserName :: "string \<Rightarrow> string \<Rightarrow> (db_error + bool \<Rightarrow> 'b prog) \<Rightarrow> 'b prog" where
  "existsByUserName name ws k =
     Ask (UserNameExists name ws) (\<lambda>a. k (case a of Flag b \<Rightarrow> Inr b | _ \<Rightarrow> Inl (failure a)))"

text \<open>\<^verbatim>\<open>Create\<close> gives the user a new identifier, the current time and version 0; \<^verbatim>\<open>Update\<close> raises the
  version and asks for the row with the old one. Both return the user they wrote.\<close>

definition createRow :: "ext \<Rightarrow> string \<Rightarrow> int \<Rightarrow> ScimUser \<Rightarrow> ScimUser" where
  "createRow L uid t u = u\<lparr>ID := uid, CreatedAt := t, LastModified := t, Version := 0,
     Emails := DeduplicateEmails L (Emails u)\<rparr>"

definition updateRow :: "ext \<Rightarrow> int \<Rightarrow> ScimUser \<Rightarrow> ScimUser" where
  "updateRow L t u = u\<lparr>LastModified := t, Version := Version u + 1, Emails := DeduplicateEmails L (Emails u)\<rparr>"

lemma updateRow_simps [simp]:
  "ID (updateRow L t u) = ID u" "WorkspaceID (updateRow L t u) = WorkspaceID u"
  "CreatedAt (updateRow L t u) = CreatedAt u" "Version (updateRow L t u) = Version u + 1"
  "UserName (updateRow L t u) = UserName u" "Password (updateRow L t u) = Password u"
  by (simp_all add: updateRow_def)

lemma createRow_simps [simp]:
  "ID (createRow L uid t u) = uid" "WorkspaceID (createRow L uid t u) = WorkspaceID u"
  "Version (createRow L uid t u) = 0" "UserName (createRow L uid t u) = UserName u"
  by (simp_all add: createRow_def)

definition createUserRow :: "ext \<Rightarrow> ScimUser \<Rightarrow> (db_error + ScimUser \<Rightarrow> 'b prog) \<Rightarrow> 'b prog" where
  "createUserRow L u k =
     newUUID (\<lambda>uid. timeNow (\<lambda>t.
       Ask (InsertUser (createRow L uid t u)) (\<lambda>a.
         k (rbind (affected a) (\<lambda>_. Inr (createRow L uid t u))))))"

definition updateUserRow :: "ext \<Rightarrow> ScimUser \<Rightarrow> (db_error + ScimUser \<Rightarrow> 'b prog) \<Rightarrow> 'b prog" where
  "updateUserRow L u k =
     timeNow (\<lambda>t.
       Ask (UpdateUser (updateRow L t u) (Version u)) (\<lambda>a.
         k (rbind (affected a) (\<lambda>n. if n = 0 then Inl OptimisticLock else Inr (updateRow L t u)))))"

definition deleteUserRow :: "string \<Rightarrow> string \<Rightarrow> (db_error + unit \<Rightarrow> 'b prog) \<Rightarrow> 'b prog" where
  "deleteUserRow uid ws k = Ask (DeleteUserRow uid ws) (\<lambda>a. k (rbind (affected a) (\<lambda>_. Inr ())))"

definition countUsers :: "string \<Rightarrow> string \<Rightarrow> sql_arg list \<Rightarrow> (db_error + nat \<Rightarrow> 'b prog) \<Rightarrow> 'b prog" where
  "countUsers ws whereClause args k = Ask (CountUsers ws whereClause args) (\<lambda>a. k (affected a))"

section \<open>Order of a list\<close>

definition userSortEmailsExpression :: string where
  "userSortEmailsExpression = ''COALESCE((SELECT elem->>'' @ quoted ''value'' @
     '' FROM jsonb_array_elements(emails::jsonb) elem WHERE (COALESCE(elem->>'' @ quoted ''primaryFlag'' @
     '', elem->>'' @ quoted ''primary'' @ ''))::boolean IS TRUE LIMIT 1), emails::jsonb->0->>'' @ quoted ''value'' @ '')''"

definition sortColumnTable :: "(string \<times> string) list" where
  "sortColumnTable =
    [(''id'', ''id''), (''username'', ''user_name''), (''user_name'', ''user_name''),
     (''name.formatted'', ''name_formatted''), (''name_formatted'', ''name_formatted''),
     (''name.familyname'', ''name_family_name''), (''name_family_name'', ''name_family_name''),
     (''name.givenname'', ''name_given_name''), (''name_given_name'', ''name_given_name''),
     (''name.middlename'', ''name_middle_name''), (''name_middle_name'', ''name_middle_name''),
     (''name.honorificprefix'', ''name_honorific_prefix''), (''name_honorific_prefix'', ''name_honorific_prefix''),
     (''name.honorificsuffix'', ''name_honorific_suffix''), (''name_honorific_suffix'', ''name_honorific_suffix''),
     (''displayname'', ''display_name''), (''display_name'', ''display_name''),
     (''nickname'', ''nick_name''), (''nick_name'', ''nick_name''),
     (''profileurl'', ''profile_url''), (''profile_url'', ''profile_url''), (''title'', ''title''),
     (''usertype'', ''user_type''), (''user_type'', ''user_type''),
     (''preferredlanguage'', ''preferred_language''), (''preferred_language'', ''preferred_language''),
     (''locale'', ''locale''), (''timezone'', ''timezone''),
     (''emails'', userSortEmailsExpression), (''emails.value'', userSortEmailsExpression),
     (''email'', userSortEmailsExpression),
     (''meta.created'', ''created_at''), (''created_at'', ''created_at''),
     (''meta.lastmodified'', ''last_modified''), (''last_modified'', ''last_modified''),
     (''externalid'', ''external_id''), (''external_id'', ''external_id''), (''active'', ''active''),
     (''employeenumber'', ''enterprise_employee_number''),
     (''enterprise_employee_number'', ''enterprise_employee_number''),
     (''costcenter'', ''enterprise_cost_center''), (''enterprise_cost_center'', ''enterprise_cost_center''),
     (''organization'', ''enterprise_organization''), (''enterprise_organization'', ''enterprise_organization''),
     (''division'', ''enterprise_division''), (''enterprise_division'', ''enterprise_division''),
     (''department'', ''enterprise_department''), (''enterprise_department'', ''enterprise_department''),
     (''manager'', ''enterprise_manager_value''), (''manager.value'', ''enterprise_manager_value''),
     (''enterprise_manager_value'', ''enterprise_manager_value''),
     (''manager.displayname'', ''enterprise_manager_display''),
     (''enterprise_manager_display'', ''enterprise_manager_display'')]"

definition resolveUserSortColumn :: "ext \<Rightarrow> string \<Rightarrow> string" where
  "resolveUserSortColumn L sortBy =
     (case map_of sortColumnTable (ToLower L sortBy) of Some col \<Rightarrow> col | None \<Rightarrow> ''user_name'')"

definition buildOrderClause :: "ext \<Rightarrow> string \<Rightarrow> string \<Rightarrow> string" where
  "buildOrderClause L sortCol sortDir =
     (let desc = EqualFold L sortDir ''descending'' \<or> EqualFold L sortDir ''desc'';
          direction = (if desc then ''DESC'' else ''ASC'');
          nullsOrder = (if desc then ''NULLS FIRST'' else ''NULLS LAST'');
          collate = '' COLLATE '' @ [dquote] @ ''C'' @ [dquote] @ '' '' in
      if sortCol = ''id'' then ''ORDER BY id::text'' @ collate @ direction
      else if sortCol \<in> set [''external_id'', ''profile_url'', ''enterprise_manager_value'', ''enterprise_manager_ref''] then
        ''ORDER BY '' @ sortCol @ collate @ direction @ '' '' @ nullsOrder @ '', id ASC''
      else if sortCol \<in> set [''active'', ''created_at'', ''last_modified''] then
        ''ORDER BY '' @ sortCol @ '' '' @ direction @ '' '' @ nullsOrder @ '', id ASC''
      else if sortCol = userSortEmailsExpression then
        ''ORDER BY LOWER('' @ sortCol @ '') '' @ direction @ '' '' @ nullsOrder @ '', id ASC''
      else
        ''ORDER BY LOWER('' @ sortCol @ '') '' @ direction @ '' '' @ nullsOrder @ '', '' @ sortCol @ collate
          @ direction @ '' '' @ nullsOrder @ '', id ASC'')"

definition listUsers :: "ext \<Rightarrow> string \<Rightarrow> string \<Rightarrow> sql_arg list \<Rightarrow> string \<Rightarrow> string \<Rightarrow> int \<Rightarrow> int
    \<Rightarrow> (db_error + ScimUser list \<Rightarrow> 'b prog) \<Rightarrow> 'b prog" where
  "listUsers L ws whereClause args sortAttr sortDir offset limit k =
     Ask (SelectUsers ws whereClause args (buildOrderClause L (resolveUserSortColumn L sortAttr) sortDir) limit offset)
       (\<lambda>a. k (case a of UserRows rows \<Rightarrow> Inr rows | _ \<Rightarrow> Inl (failure a)))"

section \<open>Memberships and workspaces\<close>

definition findGroupRefs :: "string list \<Rightarrow> (db_error + (ScimGroupMembership \<times> string) list \<Rightarrow> 'b prog) \<Rightarrow> 'b prog" where
  "findGroupRefs values k = Ask (SelectGroupRefs values) (\<lambda>a. k (case a of GroupRefs rs \<Rightarrow> Inr rs | _ \<Rightarrow> Inl (failure a)))"

definition deleteByMemberValue :: "string \<Rightarrow> (db_error + unit \<Rightarrow> 'b prog) \<Rightarrow> 'b prog" where
  "deleteByMemberValue v k = Ask (DeleteMembersByValue v) (\<lambda>a. k (rbind (affected a) (\<lambda>_. Inr ())))"

text \<open>The error of \<^verbatim>\<open>TouchUpdatedAt\<close> is logged and dropped.\<close>

definition touchWorkspace :: "string \<Rightarrow> 'b prog \<Rightarrow> 'b prog" where
  "touchWorkspace ws k = timeNow (\<lambda>t. Ask (TouchWorkspace ws t) (\<lambda>_. k))"

end
