(* ===== verification/UserHandler.thy ===== *)
theory UserHandler
  imports UserRepo Http
begin

text \<open>
  \<^verbatim>\<open>internal/handler/user.go\<close>: what creating, replacing, patching and deleting a user do with the
  database. The repositories are wired, as \<^verbatim>\<open>internal/app\<close> does it, so the branches for a missing
  repository are left out.
\<close>

text \<open>\<^verbatim>\<open>m[k].([]any)\<close>, and the objects among its elements.\<close>

definition arrayMember :: "json_object \<Rightarrow> string \<Rightarrow> json list" where
  "arrayMember m k = (case jget m k of JArr xs \<Rightarrow> xs | _ \<Rightarrow> [])"

definition objects :: "json list \<Rightarrow> json_object list" where
  "objects = List.map_filter (\<lambda>v. case v of JObj m \<Rightarrow> Some m | _ \<Rightarrow> None)"

definition internalError :: "string \<Rightarrow> 'a res" where
  "internalError detail = Inl (NewScimError 500 [] detail)"

definition userNameTaken :: "string \<Rightarrow> 'a res" where
  "userNameTaken name = Inl (NewScimError 409 ''uniqueness''
     (''User with userName '' @ quoted name @ '' already exists''))"

definition userNameConstraints :: "string list" where
  "userNameConstraints = [''uk_scim_users_workspace_user_name'', ''uk_scim_users_workspace_user_name_ci'']"

definition isUserNameConflict :: "db_error \<Rightarrow> bool" where
  "isUserNameConflict e = (case e of UniqueViolation c \<Rightarrow> c \<in> set userNameConstraints | _ \<Rightarrow> False)"

text \<open>The user a manager attribute refers to gives its display name and \<^verbatim>\<open>$ref\<close>.\<close>

definition managerMetadata :: "string \<Rightarrow> ScimUser \<Rightarrow> ScimUser \<Rightarrow> ScimUser" where
  "managerMetadata baseURL user mgr =
     user\<lparr>EnterpriseManagerDisplay :=
            (case DisplayName mgr of
               Some dn \<Rightarrow> if dn \<noteq> [] then Some dn else if UserName mgr \<noteq> [] then Some (UserName mgr) else None
             | None \<Rightarrow> if UserName mgr \<noteq> [] then Some (UserName mgr) else None),
          EnterpriseManagerRef := Some (baseURL @ ''/Users/'' @ ID mgr)\<rparr>"

definition resolveManagerMetadata :: "ext \<Rightarrow> ScimUser \<Rightarrow> string \<Rightarrow> string \<Rightarrow> (ScimUser \<Rightarrow> 'b prog) \<Rightarrow> 'b prog" where
  "resolveManagerMetadata L user wsID baseURL k =
     (let value = (case EnterpriseManagerValue user of None \<Rightarrow> [] | Some v \<Rightarrow> TrimSpace v);
          cleared = user\<lparr>EnterpriseManagerDisplay := None\<rparr> in
      if value = [] then k (cleared\<lparr>EnterpriseManagerRef := None\<rparr>)
      else (case uuid_parse L value of
          None \<Rightarrow> k cleared
        | Some mgrID \<Rightarrow> findUser mgrID wsID (\<lambda>r. case r of
              Inr (Some mgr) \<Rightarrow> k (managerMetadata baseURL cleared mgr)
            | _ \<Rightarrow> k cleared)))"

section \<open>Create\<close>

definition newUser :: "string \<Rightarrow> string \<Rightarrow> int \<Rightarrow> int \<Rightarrow> ScimUser" where
  "newUser uid wsID created modified = \<lparr>ID = uid, WorkspaceID = wsID, UserName = [], ExternalID = None,
     NameFormatted = None, NameFamilyName = None, NameGivenName = None, NameMiddleName = None,
     NameHonorificPrefix = None, NameHonorificSuffix = None, DisplayName = None, NickName = None,
     ProfileUrl = None, Title = None, UserType = None, PreferredLanguage = None, Locale = None,
     Timezone = None, Active = True, Password = None, EnterpriseEmployeeNumber = None,
     EnterpriseCostCenter = None, EnterpriseOrganization = None, EnterpriseDivision = None,
     EnterpriseDepartment = None, EnterpriseManagerValue = None, EnterpriseManagerRef = None,
     EnterpriseManagerDisplay = None, CreatedAt = created, LastModified = modified, Version = 0,
     Emails = [], PhoneNumbers = [], Addresses = [], Entitlements = [], Roles = [], Ims = [], Photos = [],
     X509Certificates = []\<rparr>"

definition storeNewUser :: "ext \<Rightarrow> string \<Rightarrow> ScimUser \<Rightarrow> ScimUser res prog" where
  "storeNewUser L wsID user =
     createUserRow L user (\<lambda>r. case r of
         Inl e \<Rightarrow> Ret (if isUserNameConflict e then userNameTaken (UserName user)
           else internalError ''Failed to create user'')
       | Inr created \<Rightarrow> touchWorkspace wsID (Ret (Inr created)))"

definition executeCreateUser :: "ext \<Rightarrow> string \<Rightarrow> string \<Rightarrow> json_object \<Rightarrow> ScimUser res prog" where
  "executeCreateUser L wsID baseURL body =
     (let userName = NormalizeNFC L (textMember body ''userName'') in
      if userName = [] then Ret (invalidValue ''userName is required'')
      else existsByUserName userName wsID (\<lambda>r. case r of
          Inl _ \<Rightarrow> Ret (internalError ''Internal error'')
        | Inr True \<Rightarrow> Ret (userNameTaken userName)
        | Inr False \<Rightarrow>
            newUUID (\<lambda>uid. timeNow (\<lambda>created. timeNow (\<lambda>modified.
              case ApplyFromScimInput L (newUser uid wsID created modified) body of
                Inl e \<Rightarrow> Ret (Inl e)
              | Inr user \<Rightarrow> resolveManagerMetadata L user wsID baseURL (storeNewUser L wsID))))))"

section \<open>Replace and patch\<close>

text \<open>Both look the user up and check \<^verbatim>\<open>If-Match\<close> first.\<close>

definition loadUser :: "string \<Rightarrow> string \<Rightarrow> string \<Rightarrow> (ScimUser \<Rightarrow> 'a res prog) \<Rightarrow> 'a res prog" where
  "loadUser wsID userID ifMatch k =
     findUser userID wsID (\<lambda>r. case r of
         Inr (Some user) \<Rightarrow>
           if checkETagMatch ifMatch (Version user) then k user
           else Ret (Inl (NewScimError 412 [] ''ETag mismatch''))
       | _ \<Rightarrow> Ret (Inl (NewScimError 404 [] ''User not found'')))"

text \<open>Both store the user the same way: the time of the change, the update, and its errors.\<close>

definition storeUser :: "ext \<Rightarrow> string \<Rightarrow> ScimUser \<Rightarrow> ScimUser res prog" where
  "storeUser L wsID user =
     timeNow (\<lambda>modified.
     updateUserRow L (user\<lparr>LastModified := modified\<rparr>) (\<lambda>r. case r of
         Inl e \<Rightarrow> Ret (if e = OptimisticLock then Inl (NewScimError 412 [] ''Resource changed'')
           else if isUserNameConflict e then userNameTaken (UserName user)
           else internalError ''Failed to update user'')
       | Inr stored \<Rightarrow> touchWorkspace wsID (Ret (Inr stored))))"

text \<open>A new user name has to be free, unless it is the old one up to case.\<close>

definition checkUserName :: "ext \<Rightarrow> string \<Rightarrow> string \<Rightarrow> string \<Rightarrow> 'a res prog \<Rightarrow> 'a res prog" where
  "checkUserName L wsID old new k =
     (if EqualFold L new old then k
      else existsByUserName new wsID (\<lambda>r. case r of
          Inl _ \<Rightarrow> Ret (internalError ''Internal error'')
        | Inr True \<Rightarrow> Ret (userNameTaken new)
        | Inr False \<Rightarrow> k))"

definition executeReplaceUser :: "ext \<Rightarrow> string \<Rightarrow> string \<Rightarrow> string \<Rightarrow> json_object \<Rightarrow> string \<Rightarrow> ScimUser res prog" where
  "executeReplaceUser L wsID userID baseURL body ifMatch =
     loadUser wsID userID ifMatch (\<lambda>user.
       let newUserName = NormalizeNFC L (textMember body ''userName'');
           replace = (case ApplyFromScimInput L (ClearMutableAttributes user) body of
               Inl e \<Rightarrow> Ret (Inl e)
             | Inr replaced \<Rightarrow> resolveManagerMetadata L replaced wsID baseURL (storeUser L wsID))
       in if newUserName = [] then replace
          else checkUserName L wsID (UserName user) newUserName replace)"

definition executePatchUser :: "ext \<Rightarrow> string \<Rightarrow> string \<Rightarrow> string \<Rightarrow> json_object list \<Rightarrow> string \<Rightarrow> ScimUser res prog" where
  "executePatchUser L wsID userID baseURL ops ifMatch =
     loadUser wsID userID ifMatch (\<lambda>user.
       let before = CloneScimUser user in
       case ApplyPatchOperations L user ops of
         Inl e \<Rightarrow> Ret (Inl e)
       | Inr patched \<Rightarrow> resolveManagerMetadata L patched wsID baseURL (\<lambda>resolved.
           if ScimUserMutableEqual before resolved then Ret (Inr resolved)
           else checkUserName L wsID (UserName before) (UserName resolved) (storeUser L wsID resolved)))"

section \<open>Delete\<close>

text \<open>A failure to delete the memberships is logged and dropped.\<close>

definition executeDeleteUser :: "string \<Rightarrow> string \<Rightarrow> string \<Rightarrow> unit res prog" where
  "executeDeleteUser wsID userID ifMatch =
     loadUser wsID userID ifMatch (\<lambda>user.
       deleteByMemberValue userID (\<lambda>_.
       deleteUserRow userID wsID (\<lambda>r. case r of
           Inl _ \<Rightarrow> Ret (internalError ''Failed to delete user'')
         | Inr _ \<Rightarrow> touchWorkspace wsID (Ret (Inr ())))))"

section \<open>Groups of a user\<close>

definition getUserGroups :: "string \<Rightarrow> string \<Rightarrow> (json_object list \<Rightarrow> 'b prog) \<Rightarrow> 'b prog" where
  "getUserGroups userID baseURL k =
     findGroupRefs [userID] (\<lambda>r. k (case r of
         Inl _ \<Rightarrow> []
       | Inr refs \<Rightarrow> map (\<lambda>(m, name). BuildUserGroupRef (MemberGroupID m) name baseURL) refs))"

text \<open>For a list of users, the groups of each.\<close>

definition getUserGroupsBatch :: "ScimUser list \<Rightarrow> string \<Rightarrow> ((string \<Rightarrow> json_object list) \<Rightarrow> 'b prog) \<Rightarrow> 'b prog" where
  "getUserGroupsBatch users baseURL k =
     (if users = [] then k (\<lambda>_. [])
      else findGroupRefs (map ID users) (\<lambda>r. case r of
          Inl _ \<Rightarrow> k (\<lambda>_. [])
        | Inr refs \<Rightarrow> k (\<lambda>uid. map (\<lambda>(m, name). BuildUserGroupRef (MemberGroupID m) name baseURL)
            (filter (\<lambda>(m, name). MemberValue m = uid) refs))))"

end
