(* ===== verification/Async.thy ===== *)
theory Async
  imports UserHandler Pagination "HOL-Library.Char_ord" "HOL-Library.List_Lexorder"
begin

text \<open>
  \<^verbatim>\<open>internal/handler/async_event.go\<close>: the \<^verbatim>\<open>Prefer\<close> header, dispatching a request to a worker, the
  security event tokens it leaves, and their retrieval. The worker is the second part of the result
  of a handler; its slot is one of 64.
\<close>

section \<open>Requests and responses\<close>

text \<open>What the handlers read of a request. \<open>Body\<close> is the first JSON value of the body, if there is one;
  \<open>BodyEOF\<close> says that the body ends before any value begins.\<close>

record http_request = base_request +
  WorkspaceCtx :: "string option"
  PathID :: string
  IfMatch :: string
  IfNoneMatch :: string
  Prefer :: "string list"
  Query :: url_values
  Body :: "json option"
  BodyEOF :: bool

record http_response =
  HttpStatus :: nat
  Headers :: "(string \<times> string) list"
  Content :: "json_object option"
  RawContent :: string

definition jsonResponse :: "nat \<Rightarrow> (string \<times> string) list \<Rightarrow> json_object \<Rightarrow> http_response" where
  "jsonResponse status headers body =
     \<lparr>HttpStatus = status, Headers = headers @ [(''Content-Type'', ''application/scim+json'')], Content = Some body, RawContent = []\<rparr>"

definition emptyResponse :: "nat \<Rightarrow> (string \<times> string) list \<Rightarrow> http_response" where
  "emptyResponse status headers = \<lparr>HttpStatus = status, Headers = headers, Content = None, RawContent = []\<rparr>"

definition errorResponse :: "ScimError \<Rightarrow> http_response" where
  "errorResponse e = (case WriteScimError e of (status, body) \<Rightarrow> jsonResponse status [] body)"

type_synonym worker = "unit prog"
type_synonym reply = "(http_response \<times> worker option) prog"

abbreviation respond :: "http_response \<Rightarrow> reply" where
  "respond r \<equiv> Ret (r, None)"

abbreviation fail :: "nat \<Rightarrow> string \<Rightarrow> string \<Rightarrow> reply" where
  "fail status scimType detail \<equiv> respond (errorResponse (NewScimError status scimType detail))"

text \<open>\<^verbatim>\<open>readJSON\<close> into a map: an object, or \<^verbatim>\<open>null\<close> for the nil map.\<close>

definition readJSON :: "http_request \<Rightarrow> json_object option" where
  "readJSON r = (case Body r of Some (JObj m) \<Rightarrow> Some m | Some JNull \<Rightarrow> Some [] | _ \<Rightarrow> None)"

section \<open>The Prefer header\<close>

definition isAsyncPreferred :: "ext \<Rightarrow> string list \<Rightarrow> bool" where
  "isAsyncPreferred L prefer \<longleftrightarrow>
     list_ex (\<lambda>val. list_ex (\<lambda>part. EqualFold L (TrimSpace (hd (SplitByte part CHR '';''))) ''respond-async'')
       (SplitByte val CHR '','')) prefer"

text \<open>The seconds of one \<^verbatim>\<open>wait=N\<close> segment.\<close>

definition waitSegment :: "ext \<Rightarrow> string \<Rightarrow> int option" where
  "waitSegment L part =
     (let seg = TrimSpace part in
      case Index seg ''='' of
        None \<Rightarrow> None
      | Some eqIdx \<Rightarrow>
          if eqIdx = 0 then None
          else
            (let k = TrimSpace (take eqIdx seg); v = TrimByte (TrimSpace (drop (eqIdx + 1) seg)) dquote in
             if EqualFold L k ''wait'' then
               (case ParseInt64 v of Some n \<Rightarrow> if 0 \<le> n then Some n else None | None \<Rightarrow> None)
             else None))"

definition parseWaitPreference :: "ext \<Rightarrow> string list \<Rightarrow> int option" where
  "parseWaitPreference L prefer =
     (case List.map_filter (waitSegment L)
        [semiPart. val \<leftarrow> prefer, commaPart \<leftarrow> SplitByte val CHR '','', semiPart \<leftarrow> SplitByte commaPart CHR '';''] of
        [] \<Rightarrow> None | n # _ \<Rightarrow> Some n)"

text \<open>The text of \<^verbatim>\<open>Preference-Applied\<close> if the request goes to a worker.\<close>

definition shouldExecuteAsync :: "ext \<Rightarrow> string list \<Rightarrow> string option" where
  "shouldExecuteAsync L prefer =
     (if \<not> isAsyncPreferred L prefer then None
      else (case parseWaitPreference L prefer of
          Some waitSec \<Rightarrow> if 0 < waitSec then None else Some ''respond-async, wait=0''
        | None \<Rightarrow> Some ''respond-async''))"

section \<open>JSON text\<close>

text \<open>\<^verbatim>\<open>json.Marshal\<close> of a map: the keys in byte order.\<close>

fun marshal :: "json \<Rightarrow> string" where
  "marshal JNull = ''null''"
| "marshal (JBool b) = (if b then ''true'' else ''false'')"
| "marshal (JNum n) = n"
| "marshal (JStr s) = jsonQuote s"
| "marshal (JArr xs) = ''['' @ Join (map marshal xs) '','' @ '']''"
| "marshal (JObj kvs) =
     ''{'' @ Join (map (\<lambda>(k, t). jsonQuote k @ '':'' @ t) (sort_key fst (map (\<lambda>(k, v). (k, marshal v)) kvs))) '','' @ ''}''"

section \<open>Security event tokens\<close>

definition AsyncRespEventURN :: string where
  "AsyncRespEventURN = ''urn:ietf:params:scim:event:misc:asyncresp''"

definition ProvCreateFullURN :: string where
  "ProvCreateFullURN = ''urn:ietf:params:scim:event:prov:create:full''"

definition ProvPutFullURN :: string where
  "ProvPutFullURN = ''urn:ietf:params:scim:event:prov:put:full''"

definition ProvPatchNoticeURN :: string where
  "ProvPatchNoticeURN = ''urn:ietf:params:scim:event:prov:patch:notice''"

definition ProvDeleteURN :: string where
  "ProvDeleteURN = ''urn:ietf:params:scim:event:prov:delete''"

definition resourceURI :: "ext \<Rightarrow> string \<Rightarrow> string \<Rightarrow> string \<Rightarrow> string" where
  "resourceURI L baseURL resourceType resourceID =
     baseURL @ ''/'' @ (if EqualFold L resourceType ''group'' then ''Groups'' else ''Users'') @ ''/'' @ resourceID"

definition optMember :: "string \<Rightarrow> json_object option \<Rightarrow> json_object" where
  "optMember k m = (case m of None \<Rightarrow> [] | Some r \<Rightarrow> [(k, JObj r)])"

text \<open>For each method the status, the members of the response event and the provisioning event.\<close>

definition setEvent :: "string \<Rightarrow> json_object option \<Rightarrow> string list \<Rightarrow> string \<times> json_object \<times> string \<times> json_object" where
  "setEvent method resource patchPaths =
     (let response = optMember ''response'' resource; data = optMember ''data'' resource in
      if method = ''PUT'' then (''200'', response, ProvPutFullURN, data)
      else if method = ''PATCH'' then
        (''200'', response, ProvPatchNoticeURN,
         [(''attributes'', JArr (map JStr (if patchPaths = [] then [''displayName''] else patchPaths)))])
      else if method = ''DELETE'' then (''204'', [], ProvDeleteURN, [])
      else (''201'', response, ProvCreateFullURN, data))"

definition metaVersion :: "json_object option \<Rightarrow> json_object" where
  "metaVersion resource =
     (case resource of
        None \<Rightarrow> []
      | Some r \<Rightarrow> (case jget r ''meta'' of
            JObj meta \<Rightarrow> (case jget meta ''version'' of JStr ver \<Rightarrow> if ver \<noteq> [] then [(''version'', JStr ver)] else [] | _ \<Rightarrow> [])
          | _ \<Rightarrow> []))"

definition buildSETJson :: "ext \<Rightarrow> string \<Rightarrow> string \<Rightarrow> string \<Rightarrow> string \<Rightarrow> string \<Rightarrow> json_object option \<Rightarrow> string list
    \<Rightarrow> (string \<Rightarrow> 'b prog) \<Rightarrow> 'b prog" where
  "buildSETJson L baseURL txnID resourceType resourceID method resource patchPaths k =
     (let upperMethod = ToUpper L method; uri = resourceURI L baseURL resourceType resourceID;
          (status, response, provURN, prov) = setEvent upperMethod resource patchPaths;
          asyncResp = [(''method'', JStr upperMethod), (''location'', JStr uri), (''status'', JStr status)]
            @ response @ metaVersion resource in
      timeNow (\<lambda>iat. newUUID (\<lambda>jti.
        k (marshal (JObj
          [(''iss'', JStr baseURL), (''iat'', JNum (itoa_int (Unix iat))), (''jti'', JStr jti), (''txn'', JStr txnID),
           (''sub_id'', JObj [(''format'', JStr ''uri''), (''uri'', JStr uri)]),
           (''events'', JObj [(AsyncRespEventURN, JObj asyncResp), (provURN, JObj prov)])])))))"

definition buildErrorSETJson :: "ext \<Rightarrow> string \<Rightarrow> string \<Rightarrow> string \<Rightarrow> string option \<Rightarrow> string \<Rightarrow> ScimError
    \<Rightarrow> (string \<Rightarrow> 'b prog) \<Rightarrow> 'b prog" where
  "buildErrorSETJson L baseURL txnID resourceType resourceID method e k =
     (let statusStr = itoa (Status e);
          errResp = [(''schemas'', JArr [JStr ''urn:ietf:params:scim:api:messages:2.0:Error'']),
             (''status'', JStr statusStr), (''detail'', JStr (Detail e))]
             @ (if ScimType e \<noteq> [] then [(''scimType'', JStr (ScimType e))] else []);
          (location, sub) = (case resourceID of
              None \<Rightarrow> ([], [])
            | Some rid \<Rightarrow> let uri = resourceURI L baseURL resourceType rid in
                ([(''location'', JStr uri)], [(''sub_id'', JObj [(''format'', JStr ''uri''), (''uri'', JStr uri)])]));
          asyncResp = [(''status'', JStr statusStr), (''method'', JStr (ToUpper L method)), (''response'', JObj errResp)] @ location in
      timeNow (\<lambda>iat. newUUID (\<lambda>jti.
        k (marshal (JObj
          ([(''iss'', JStr baseURL), (''iat'', JNum (itoa_int (Unix iat))), (''jti'', JStr jti), (''txn'', JStr txnID),
            (''events'', JObj [(AsyncRespEventURN, JObj asyncResp)])] @ sub))))))"

section \<open>Workers\<close>

text \<open>What a worker does: its operation gets the transaction, and returns the identifier of the resource it
  knows of and an error or the token. The end of the event is recorded and the slot freed. \<open>recordFailure\<close>
  falls back to the identifier known at the start.\<close>

definition updateEvent :: "string \<Rightarrow> string \<Rightarrow> string option \<Rightarrow> string \<Rightarrow> worker \<Rightarrow> worker" where
  "updateEvent txnID status resourceID payload k =
     timeNow (\<lambda>t. Ask (UpdateEvent txnID status resourceID (Some payload) t) (\<lambda>_. k))"

definition release :: worker where
  "release = Ask Release (\<lambda>_. Ret ())"

definition recordFailure :: "ext \<Rightarrow> string \<Rightarrow> string \<Rightarrow> string \<Rightarrow> string option \<Rightarrow> string \<Rightarrow> string option \<Rightarrow> ScimError \<Rightarrow> worker" where
  "recordFailure L baseURL txnID resourceType initialResID method resID e =
     (let rid = (case resID of None \<Rightarrow> initialResID | Some r \<Rightarrow> Some r) in
      buildErrorSETJson L baseURL txnID resourceType rid method e (\<lambda>errSet.
        updateEvent txnID AsyncStatusFailed rid errSet release))"

definition asyncWorker :: "ext \<Rightarrow> string \<Rightarrow> string \<Rightarrow> string \<Rightarrow> string \<Rightarrow> string option \<Rightarrow> string
    \<Rightarrow> (string option \<times> string res) prog \<Rightarrow> worker" where
  "asyncWorker L wsID baseURL txnID resourceType initialResID method op' =
     Ask (SelectEvent txnID wsID) (\<lambda>a.
       if (case a of EventRow (Some ev) \<Rightarrow> EventStatus ev \<noteq> AsyncStatusPending | _ \<Rightarrow> False) then release
       else pbind op' (\<lambda>(resID, result).
         case result of
           Inl e \<Rightarrow> recordFailure L baseURL txnID resourceType initialResID method resID e
         | Inr setJSON \<Rightarrow> updateEvent txnID AsyncStatusCompleted resID setJSON release))"

definition dispatchAsyncOperation :: "ext \<Rightarrow> string \<Rightarrow> string \<Rightarrow> string \<Rightarrow> string \<Rightarrow> string \<Rightarrow> string option
    \<Rightarrow> (string \<Rightarrow> (string option \<times> string res) prog) \<Rightarrow> reply" where
  "dispatchAsyncOperation L wsID baseURL prefHeader method resourceType initialResID op' =
     Ask TryAcquire (\<lambda>a.
       if a \<noteq> Flag True then fail 503 ''tooMany'' ''Too many concurrent asynchronous operations''
       else newUUID (\<lambda>txnID. timeNow (\<lambda>t.
         Ask (InsertEvent \<lparr>TxnID = txnID, EventWorkspaceID = wsID, Operation = method, ResourceType = resourceType,
             ResourceID = initialResID, EventStatus = AsyncStatusPending, SetPayload = None, EventCreatedAt = t,
             CompletedAt = None\<rparr>) (\<lambda>a.
           if isl (affected a) then Ask Release (\<lambda>_. fail 500 [] ''Failed to create async event'')
           else Ret (emptyResponse 202 [(''Set-Txn'', txnID), (''Preference-Applied'', prefHeader),
               (''Location'', baseURL @ ''/Events/'' @ txnID)],
             Some (asyncWorker L wsID baseURL txnID resourceType initialResID method (op' txnID)))))))"

section \<open>Retrieval\<close>

definition findEvent :: "string \<Rightarrow> string \<Rightarrow> (db_error + ScimAsyncEvent option \<Rightarrow> 'b prog) \<Rightarrow> 'b prog" where
  "findEvent txnID ws k = Ask (SelectEvent txnID ws) (\<lambda>a. k (case a of EventRow e \<Rightarrow> Inr e | _ \<Rightarrow> Inl (failure a)))"

definition rawJSON :: "string \<Rightarrow> http_response" where
  "rawJSON text = \<lparr>HttpStatus = 200, Headers = [(''Content-Type'', ''application/json'')], Content = None, RawContent = text\<rparr>"

definition eventResponse :: "string \<Rightarrow> ScimAsyncEvent \<Rightarrow> http_response" where
  "eventResponse eventURL ev =
     (let payload = (case SetPayload ev of Some p \<Rightarrow> if TrimSpace p \<noteq> [] then Some p else None | None \<Rightarrow> None);
          missing = (\<lambda>detail. errorResponse (NewScimError 500 [] detail)) in
      if EventStatus ev = AsyncStatusPending then
        emptyResponse 202 [(''Set-Txn'', TxnID ev), (''Location'', eventURL)]
      else if EventStatus ev = AsyncStatusCompleted then
        (case payload of None \<Rightarrow> missing ''Asynchronous event payload missing'' | Some p \<Rightarrow> rawJSON p)
      else if EventStatus ev = AsyncStatusFailed then
        (case payload of Some p \<Rightarrow> rawJSON p | None \<Rightarrow> missing ''Asynchronous operation failed'')
      else missing ''Unknown event status'')"

definition GetEvent :: "ext \<Rightarrow> http_request \<Rightarrow> reply" where
  "GetEvent L r =
     (case WorkspaceCtx r of
        None \<Rightarrow> fail 404 [] ''Workspace not found''
      | Some wsID \<Rightarrow> (case uuid_parse L (PathID r) of
            None \<Rightarrow> fail 404 [] ''Invalid event transaction ID''
          | Some txnID \<Rightarrow> findEvent txnID wsID (\<lambda>e. case e of
                Inl _ \<Rightarrow> fail 500 [] ''Failed to retrieve event''
              | Inr None \<Rightarrow> fail 404 [] (''Event with txnId '' @ quoted (PathID r) @ '' not found'')
              | Inr (Some ev) \<Rightarrow>
                  respond (eventResponse (buildBaseURL (base_request.truncate r) @ ''/Events/'' @ txnID) ev))))"

end
