(* ===== verification/UserHttp.thy ===== *)
theory UserHttp
  imports Async FilterParse
begin

text \<open>
  \<^verbatim>\<open>internal/handler/user.go\<close>: the HTTP handlers of users. A reply has the response and, for a request
  that prefers it, the worker that runs the operation.
\<close>

section \<open>What the handlers share\<close>

abbreviation baseOf :: "http_request \<Rightarrow> string" where
  "baseOf r \<equiv> buildBaseURL (base_request.truncate r)"

definition msCompat :: "ext \<Rightarrow> http_request \<Rightarrow> bool" where
  "msCompat L r \<longleftrightarrow> ParseCompatMode L (CompatParam r) = CompatMS"

definition compatible :: "ext \<Rightarrow> http_request \<Rightarrow> json_object \<Rightarrow> json_object" where
  "compatible L r response = (if msCompat L r then ApplyMsCompat response else response)"

definition presented :: "ext \<Rightarrow> http_request \<Rightarrow> json_object \<Rightarrow> json_object" where
  "presented L r response =
     compatible L r (applyAttributeProjection L response (Get (Query r) ''attributes'') (Get (Query r) ''excludedAttributes''))"

definition userURL :: "string \<Rightarrow> ScimUser \<Rightarrow> string" where
  "userURL baseURL user = baseURL @ ''/Users/'' @ ID user"

text \<open>The workspace of the request and the user its path names.\<close>

definition inWorkspace :: "http_request \<Rightarrow> (string \<Rightarrow> reply) \<Rightarrow> reply" where
  "inWorkspace r k = (case WorkspaceCtx r of None \<Rightarrow> fail 404 [] ''Workspace not found'' | Some wsID \<Rightarrow> k wsID)"

definition withUserID :: "ext \<Rightarrow> http_request \<Rightarrow> (string \<Rightarrow> reply) \<Rightarrow> reply" where
  "withUserID L r k = (case uuid_parse L (PathID r) of None \<Rightarrow> fail 404 [] ''User not found'' | Some userID \<Rightarrow> k userID)"

definition withJSON :: "http_request \<Rightarrow> (json_object \<Rightarrow> reply) \<Rightarrow> reply" where
  "withJSON r k = (case readJSON r of None \<Rightarrow> fail 400 ''invalidSyntax'' ''Invalid JSON'' | Some input \<Rightarrow> k input)"

section \<open>POST\<close>

definition createToken :: "ext \<Rightarrow> http_request \<Rightarrow> string \<Rightarrow> json_object \<Rightarrow> string \<Rightarrow> (string option \<times> string res) prog" where
  "createToken L r wsID input txnID =
     pbind (executeCreateUser L wsID (baseOf r) input) (\<lambda>result. case result of
         Inl e \<Rightarrow> Ret (None, Inl e)
       | Inr user \<Rightarrow>
           buildSETJson L (baseOf r) txnID ''User'' (ID user) ''POST''
             (Some (compatible L r (UserToScimResponse L user (baseOf r) []))) []
             (\<lambda>setStr. Ret (Some (ID user), Inr setStr)))"

definition handleCreateUser :: "ext \<Rightarrow> http_request \<Rightarrow> reply" where
  "handleCreateUser L r =
     inWorkspace r (\<lambda>wsID. withJSON r (\<lambda>input.
       if NormalizeNFC L (textMember input ''userName'') = [] then fail 400 ''invalidValue'' ''userName is required''
       else (case shouldExecuteAsync L (Prefer r) of
           Some prefHeader \<Rightarrow>
             dispatchAsyncOperation L wsID (baseOf r) prefHeader ''POST'' ''User'' None (createToken L r wsID input)
         | None \<Rightarrow>
             pbind (executeCreateUser L wsID (baseOf r) input) (\<lambda>result. case result of
                 Inl e \<Rightarrow> respond (errorResponse e)
               | Inr user \<Rightarrow> respond (jsonResponse 201
                   [(''Location'', userURL (baseOf r) user), (''Content-Location'', userURL (baseOf r) user),
                    (''ETag'', etag (Version user))]
                   (presented L r (UserToScimResponse L user (baseOf r) [])))))))"

section \<open>GET\<close>

text \<open>A user with its groups, as GET, PUT and PATCH answer it.\<close>

definition userReply :: "ext \<Rightarrow> http_request \<Rightarrow> ScimUser \<Rightarrow> reply" where
  "userReply L r user =
     getUserGroups (ID user) (baseOf r) (\<lambda>groups.
       respond (jsonResponse 200 [(''Content-Location'', userURL (baseOf r) user), (''ETag'', etag (Version user))]
         (presented L r (UserToScimResponse L user (baseOf r) groups))))"

definition handleGetUser :: "ext \<Rightarrow> http_request \<Rightarrow> reply" where
  "handleGetUser L r =
     inWorkspace r (\<lambda>wsID. withUserID L r (\<lambda>userID.
       findUser userID wsID (\<lambda>found. case found of
           Inr (Some user) \<Rightarrow>
             (let ifNoneMatch = TrimSpace (IfNoneMatch r) in
              if ifNoneMatch \<noteq> [] \<and> checkETagMatch ifNoneMatch (Version user) then respond (emptyResponse 304 [])
              else userReply L r user)
         | _ \<Rightarrow> fail 404 [] ''User not found'')))"

section \<open>Lists\<close>

definition listResources :: "ext \<Rightarrow> http_request \<Rightarrow> (string \<Rightarrow> json_object list) \<Rightarrow> ScimUser list \<Rightarrow> json_object list" where
  "listResources L r groups users =
     map (\<lambda>user. presented L r (UserToScimResponse L user (baseOf r) (groups (ID user)))) users"

text \<open>\<^verbatim>\<open>filter\<close> of the query as an SQL condition with its arguments; no filter is no condition.\<close>

definition perr_text :: "perr \<Rightarrow> string" where
  "perr_text e = (case e of ParseError m \<Rightarrow> m | OutOfFuel \<Rightarrow> [])"

definition userFilter :: "ext \<Rightarrow> string \<Rightarrow> (string \<times> sql_arg list) res" where
  "userFilter L filterStr =
     (if filterStr = [] then Inr ([], [])
      else (case ParseUserFilter L filterStr 2 of
          Inl e \<Rightarrow> Inl (NewScimError 400 ''invalidFilter'' (perr_text e))
        | Inr None \<Rightarrow> Inr ([], [])
        | Inr (Some fr) \<Rightarrow> Inr (SQL fr, Args fr)))"

definition userSort :: "ext \<Rightarrow> string \<Rightarrow> string res" where
  "userSort L sortBy =
     (if sortBy = [] then Inr []
      else (let col = ResolveUserSortAttribute L sortBy in
        if col = [] then invalidValue (''Unsupported sortBy attribute: '' @ sortBy) else Inr col))"

definition sortDirection :: "ext \<Rightarrow> string \<Rightarrow> string" where
  "sortDirection L sortOrder = (if EqualFold L sortOrder ''descending'' then ''DESC'' else ''ASC'')"

definition handleListUsers :: "crypto \<Rightarrow> ext \<Rightarrow> string \<Rightarrow> http_request \<Rightarrow> reply" where
  "handleListUsers C L key r =
     inWorkspace r (\<lambda>wsID. timeNow (\<lambda>now.
       case rbind (parsePagination C L key now (\<lambda>i. i) (Query r) None wsID 10) (\<lambda>pag.
            rbind (userFilter L (Get (Query r) ''filter'')) (\<lambda>(whereClause, args).
            rbind (userSort L (Get (Query r) ''sortBy'')) (\<lambda>col. Inr (pag, whereClause, args, col)))) of
         Inl e \<Rightarrow> respond (errorResponse e)
       | Inr (pag, whereClause, args, col) \<Rightarrow>
           countUsers wsID whereClause args (\<lambda>count. case count of
               Inl _ \<Rightarrow> fail 500 [] ''Internal error''
             | Inr totalCount \<Rightarrow>
                 (let answer = (\<lambda>users. getUserGroupsBatch users (baseOf r) (\<lambda>groups. timeNow (\<lambda>now.
                        respond (jsonResponse 200 [] (buildListResponse C key now pag wsID (int totalCount)
                          (listResources L r groups users))))))
                  in if 0 < PageCount pag then
                       listUsers L wsID whereClause args col (sortDirection L (Get (Query r) ''sortOrder''))
                         (PageOffset pag) (PageCount pag) (\<lambda>rows. case rows of
                           Inl _ \<Rightarrow> fail 500 [] ''Internal error'' | Inr users \<Rightarrow> answer users)
                     else answer []))))"

section \<open>PUT, PATCH and DELETE\<close>

definition userToken :: "ext \<Rightarrow> http_request \<Rightarrow> string \<Rightarrow> string \<Rightarrow> string list \<Rightarrow> ScimUser res prog \<Rightarrow> string
    \<Rightarrow> (string option \<times> string res) prog" where
  "userToken L r userID method paths p txnID =
     pbind p (\<lambda>result. case result of
         Inl e \<Rightarrow> Ret (Some userID, Inl e)
       | Inr user \<Rightarrow> getUserGroups (ID user) (baseOf r) (\<lambda>groups.
           buildSETJson L (baseOf r) txnID ''User'' (ID user) method
             (Some (compatible L r (UserToScimResponse L user (baseOf r) groups))) paths
             (\<lambda>setStr. Ret (Some userID, Inr setStr))))"

definition handleReplaceUser :: "ext \<Rightarrow> http_request \<Rightarrow> reply" where
  "handleReplaceUser L r =
     inWorkspace r (\<lambda>wsID. withUserID L r (\<lambda>userID. withJSON r (\<lambda>input.
       let replace = executeReplaceUser L wsID userID (baseOf r) input (IfMatch r) in
       case shouldExecuteAsync L (Prefer r) of
         Some prefHeader \<Rightarrow>
           dispatchAsyncOperation L wsID (baseOf r) prefHeader ''PUT'' ''User'' (Some userID)
             (userToken L r userID ''PUT'' [] replace)
       | None \<Rightarrow> pbind replace (\<lambda>result. case result of
             Inl e \<Rightarrow> respond (errorResponse e) | Inr user \<Rightarrow> userReply L r user))))"

definition patchSchema :: string where
  "patchSchema = ''urn:ietf:params:scim:api:messages:2.0:PatchOp''"

definition pathsOfMap :: "ext \<Rightarrow> json_object \<Rightarrow> string list" where
  "pathsOfMap L m = map (\<lambda>(subK, _). EnterpriseSchemaURN @ '':'' @ subK) m"

definition patchPaths :: "ext \<Rightarrow> json_object \<Rightarrow> string list" where
  "patchPaths L op' =
     (let trimmed = TrimSpace (textMember op' ''path''); value = jget op' ''value'' in
      if trimmed \<noteq> [] then
        (case value of
           JObj (e # es) \<Rightarrow> if EqualFold L trimmed EnterpriseSchemaURN then pathsOfMap L (e # es) else [trimmed]
         | _ \<Rightarrow> [trimmed])
      else (case value of
          JObj m \<Rightarrow> concat (map (\<lambda>(k, v).
            if EqualFold L k ''schemas'' then []
            else if EqualFold L k EnterpriseSchemaURN then (case v of JObj (e # es) \<Rightarrow> pathsOfMap L (e # es) | _ \<Rightarrow> [k])
            else [k]) m)
        | _ \<Rightarrow> []))"

definition extractModifiedPatchPaths :: "ext \<Rightarrow> json_object list \<Rightarrow> string list" where
  "extractModifiedPatchPaths L operations =
     (let paths = fold (\<lambda>p paths. let p = TrimSpace p in if p = [] \<or> p \<in> set paths then paths else paths @ [p])
        (concat (map (patchPaths L) operations)) []
      in if paths = [] then [''displayName''] else paths)"

definition handlePatchUser :: "ext \<Rightarrow> http_request \<Rightarrow> reply" where
  "handlePatchUser L r =
     inWorkspace r (\<lambda>wsID. withUserID L r (\<lambda>userID. withJSON r (\<lambda>patchReq.
       if JStr patchSchema \<notin> set (arrayMember patchReq ''schemas'') then
         fail 400 ''invalidValue'' (''Missing or invalid schema: '' @ patchSchema)
       else if arrayMember patchReq ''Operations'' = [] then fail 400 ''invalidValue'' ''No operations provided''
       else
        (let operations = objects (arrayMember patchReq ''Operations'');
             patch = executePatchUser L wsID userID (baseOf r) operations (IfMatch r) in
         case shouldExecuteAsync L (Prefer r) of
           Some prefHeader \<Rightarrow>
             dispatchAsyncOperation L wsID (baseOf r) prefHeader ''PATCH'' ''User'' (Some userID)
               (userToken L r userID ''PATCH'' (extractModifiedPatchPaths L operations) patch)
         | None \<Rightarrow> pbind patch (\<lambda>result. case result of
               Inl e \<Rightarrow> respond (errorResponse e) | Inr user \<Rightarrow> userReply L r user)))))"

definition handleDeleteUser :: "ext \<Rightarrow> http_request \<Rightarrow> reply" where
  "handleDeleteUser L r =
     inWorkspace r (\<lambda>wsID. withUserID L r (\<lambda>userID.
       let delete = executeDeleteUser wsID userID (IfMatch r) in
       case shouldExecuteAsync L (Prefer r) of
         Some prefHeader \<Rightarrow>
           dispatchAsyncOperation L wsID (baseOf r) prefHeader ''DELETE'' ''User'' (Some userID) (\<lambda>txnID.
             pbind delete (\<lambda>result. case result of
                 Inl e \<Rightarrow> Ret (Some userID, Inl e)
               | Inr _ \<Rightarrow> buildSETJson L (baseOf r) txnID ''User'' userID ''DELETE'' None []
                   (\<lambda>setStr. Ret (Some userID, Inr setStr))))
       | None \<Rightarrow> pbind delete (\<lambda>result. case result of
             Inl e \<Rightarrow> respond (errorResponse e) | Inr _ \<Rightarrow> respond (emptyResponse 204 []))))"

section \<open>Search\<close>

text \<open>\<^verbatim>\<open>POST /.search\<close> writes the members of its body into the query of a list.\<close>

definition setQuery :: "string \<Rightarrow> string \<Rightarrow> url_values \<Rightarrow> url_values" where
  "setQuery k v q = (k, [v]) # filter (\<lambda>(k', _). k' \<noteq> k) q"

definition queryText :: "json_object \<Rightarrow> string \<Rightarrow> url_values \<Rightarrow> url_values" where
  "queryText body k q = (case jget body k of JStr s \<Rightarrow> setQuery k s q | _ \<Rightarrow> q)"

definition setNames :: "json_object \<Rightarrow> string \<Rightarrow> url_values \<Rightarrow> url_values" where
  "setNames body k q =
     (case jget body k of
        JArr a \<Rightarrow> setQuery k (Join (List.map_filter (\<lambda>v. case v of JStr s \<Rightarrow> Some s | _ \<Rightarrow> None) a) '','') q
      | _ \<Rightarrow> q)"

definition setNumber :: "(int \<Rightarrow> int) \<Rightarrow> json_object \<Rightarrow> string \<Rightarrow> url_values \<Rightarrow> url_values res" where
  "setNumber conv body k q =
     rbind (bodyNumber conv (Some body) k) (\<lambda>n.
       Inr (case n of None \<Rightarrow> q | Some i \<Rightarrow> setQuery k (itoa_int i) q))"

definition searchCursor :: "json_object \<Rightarrow> url_values \<Rightarrow> url_values res" where
  "searchCursor body q =
     (case map_of body ''cursor'' of
        None \<Rightarrow> Inr q
      | Some (JStr cur) \<Rightarrow> Inr (setQuery ''cursor'' cur q)
      | _ \<Rightarrow> invalidCursor ''cursor must be a string'')"

definition searchQuery :: "(int \<Rightarrow> int) \<Rightarrow> json_object \<Rightarrow> url_values \<Rightarrow> url_values res" where
  "searchQuery conv body q =
     rbind (searchCursor body q) (\<lambda>q.
     rbind (setNumber conv body ''startIndex'' q) (\<lambda>q.
     rbind (setNumber conv body ''count'' (queryText body ''filter'' q)) (\<lambda>q.
       Inr (setNames body ''excludedAttributes'' (setNames body ''attributes''
         (queryText body ''sortOrder'' (queryText body ''sortBy'' q)))))))"

definition handleSearchUsers :: "crypto \<Rightarrow> ext \<Rightarrow> string \<Rightarrow> (int \<Rightarrow> int) \<Rightarrow> http_request \<Rightarrow> reply" where
  "handleSearchUsers C L key conv r =
     withJSON r (\<lambda>body. case searchQuery conv body (Query r) of
         Inl e \<Rightarrow> respond (errorResponse e)
       | Inr q \<Rightarrow> handleListUsers C L key (r\<lparr>Query := q\<rparr>))"

end
