(* ===== verification/Interleave.thy ===== *)
theory Interleave
  imports Store
begin

text \<open>
  Requests that run at the same time: their statements reach the database in any order, and any
  statement may fail, with or without its effect. A thread is the statements a request has sent with
  their answers, and the program that is left.
\<close>

section \<open>Steps\<close>

type_synonym log = "(query \<times> answer) list"
type_synonym 'a thread = "log \<times> 'a prog"
type_synonym 'a system = "store \<times> 'a thread list"

definition is_sql :: "query \<Rightarrow> bool" where
  "is_sql q \<longleftrightarrow> q \<notin> {TimeNow, NewUUID, TryAcquire, Release}"

inductive sys_step :: "database \<Rightarrow> ('r \<Rightarrow> 'a prog) \<Rightarrow> 'a system \<Rightarrow> 'a system \<Rightarrow> bool" for D P where
  start: "sys_step D P (s, ts) (s, ts @ [([], P r)])"
| tick: "clock s \<le> t \<Longrightarrow> sys_step D P (s, ts) (s\<lparr>clock := t\<rparr>, ts)"
| answer: "i < length ts \<Longrightarrow> ts ! i = (l, Ask q k) \<Longrightarrow> exec D q s = (a, s') \<Longrightarrow>
    sys_step D P (s, ts) (s', ts[i := (l @ [(q, a)], k a)])"
| broken: "i < length ts \<Longrightarrow> ts ! i = (l, Ask q k) \<Longrightarrow> is_sql q \<Longrightarrow>
    sys_step D P (s, ts) (s, ts[i := (l @ [(q, Failed Fault)], k (Failed Fault))])"
| lost: "i < length ts \<Longrightarrow> ts ! i = (l, Ask q k) \<Longrightarrow> is_sql q \<Longrightarrow> exec D q s = (a, s') \<Longrightarrow>
    sys_step D P (s, ts) (s', ts[i := (l @ [(q, Failed Fault)], k (Failed Fault))])"

abbreviation sys_steps :: "database \<Rightarrow> ('r \<Rightarrow> 'a prog) \<Rightarrow> 'a system \<Rightarrow> 'a system \<Rightarrow> bool" where
  "sys_steps D P \<equiv> (sys_step D P)\<^sup>*\<^sup>*"

text \<open>All failures are one kind of step: the statement has its effect or none, the program goes on with
  the answer or a failure.\<close>

lemma sys_step_cases:
  assumes "sys_step D P (s, ts) (s', ts')"
  obtains (start) r where "s' = s" "ts' = ts @ [([], P r)]"
  | (tick) t where "s' = s\<lparr>clock := t\<rparr>" "ts' = ts"
  | (ask) i l q k a where "i < length ts" "ts ! i = (l, Ask q k)" "ts' = ts[i := (l @ [(q, a)], k a)]"
      "exec D q s = (a, s') \<or> is_sql q \<and> a = Failed Fault \<and> (s' = s \<or> s' = snd (exec D q s))"
  using assms by (cases rule: sys_step.cases) force+

text \<open>Running a request alone is one of the interleavings.\<close>

lemma run_steps:
  "i < length ts \<Longrightarrow> ts ! i = (l, p) \<Longrightarrow> run D p s = (x, s') \<Longrightarrow>
    \<exists>l'. sys_steps D P (s, ts) (s', ts[i := (l', Ret x)])"
proof (induction p arbitrary: s ts l)
  case (Ret y)
  then show ?case by (metis list_update_id rtranclp.rtrancl_refl run.simps(1) prod.inject)
next
  case (Ask q k)
  obtain a s1 where e: "exec D q s = (a, s1)" by fastforce
  have "sys_step D P (s, ts) (s1, ts[i := (l @ [(q, a)], k a)])"
    using Ask.prems(1,2) e by (rule sys_step.answer)
  moreover have "\<exists>l'. sys_steps D P (s1, ts[i := (l @ [(q, a)], k a)]) (s', (ts[i := (l @ [(q, a)], k a)])[i := (l', Ret x)])"
    using Ask.prems e by (intro Ask.IH [OF rangeI [of k a]]) auto
  ultimately show ?case by (auto intro: converse_rtranclp_into_rtranclp)
qed

section \<open>What a program asks\<close>

text \<open>\<open>issues G A l p\<close>: after the log \<open>l\<close>, every statement \<open>q\<close> that \<open>p\<close> sends satisfies \<open>G\<close> with the log
  before it, as long as the answers satisfy \<open>A\<close>.\<close>

primrec issues :: "(log \<Rightarrow> query \<Rightarrow> bool) \<Rightarrow> (query \<Rightarrow> answer \<Rightarrow> bool) \<Rightarrow> 'a prog \<Rightarrow> log \<Rightarrow> bool" where
  "issues G A (Ret x) l \<longleftrightarrow> True"
| "issues G A (Ask q k) l \<longleftrightarrow> G l q \<and> (\<forall>a. A q a \<longrightarrow> issues G A (k a) (l @ [(q, a)]))"

lemma issues_pbind:
  "issues G A p l \<Longrightarrow> (\<And>x l'. prefix l l' \<Longrightarrow> issues G A (f x) l') \<Longrightarrow> issues G A (pbind p f) l"
proof (induction p arbitrary: l)
  case (Ask q k)
  have "issues G A (pbind (k a) f) (l @ [(q, a)])" if "A q a" for a
    using that Ask.prems(1) by (intro Ask.IH [OF rangeI [of k a]] Ask.prems(2)) (auto dest: append_prefixD)
  then show ?case using Ask.prems(1) by simp
qed simp

end
