(* ===== verification/UserSystem.thy ===== *)
theory UserSystem
  imports Interleave UserHandler MapperInv
begin

text \<open>
  The user requests as a system of interleaved threads: what their statements are, what holds of the
  user rows in every reachable state, and that no update is lost.
\<close>

section \<open>Requests\<close>

datatype user_request =
    CreateUser string string json_object
  | ReplaceUser string string string json_object string
  | PatchUser string string string "json_object list" string
  | DeleteUser string string string

primrec userProgram :: "ext \<Rightarrow> user_request \<Rightarrow> ScimUser option res prog" where
  "userProgram L (CreateUser ws base body) = pbind (executeCreateUser L ws base body) (\<lambda>r. Ret (map_sum (\<lambda>e. e) Some r))"
| "userProgram L (ReplaceUser ws uid base body ifMatch) =
     pbind (executeReplaceUser L ws uid base body ifMatch) (\<lambda>r. Ret (map_sum (\<lambda>e. e) Some r))"
| "userProgram L (PatchUser ws uid base ops ifMatch) =
     pbind (executePatchUser L ws uid base ops ifMatch) (\<lambda>r. Ret (map_sum (\<lambda>e. e) Some r))"
| "userProgram L (DeleteUser ws uid ifMatch) =
     pbind (executeDeleteUser ws uid ifMatch) (\<lambda>r. Ret (map_sum (\<lambda>e. e) (\<lambda>_. None) r))"

section \<open>Rows\<close>

text \<open>What every stored user is like.\<close>

definition row_ok :: "ext \<Rightarrow> ScimUser \<Rightarrow> bool" where
  "row_ok L u \<longleftrightarrow> UserName u \<noteq> [] \<and> hashed L (Password u) \<and> distinct (map (valueKey L) (Emails u))"

lemma stored_emails_distinct: "distinct (map (valueKey L) (DeduplicateEmails L es))"
  by (simp add: DeduplicateEmails_def emails.dedup_distinct)

text \<open>A user about to be stored: what is stored of it will be in order.\<close>

definition user_ok :: "ext \<Rightarrow> ScimUser \<Rightarrow> bool" where
  "user_ok L u \<longleftrightarrow> UserName u \<noteq> [] \<and> hashed L (Password u)"

lemma row_user_ok: "row_ok L u \<Longrightarrow> user_ok L u"
  by (simp add: row_ok_def user_ok_def)

lemma createRow_ok: "user_ok L u \<Longrightarrow> row_ok L (createRow L uid t u)"
  by (simp add: row_ok_def user_ok_def createRow_def stored_emails_distinct)

lemma updateRow_ok: "user_ok L u \<Longrightarrow> row_ok L (updateRow L t u)"
  by (simp add: row_ok_def user_ok_def updateRow_def stored_emails_distinct)

lemma setUserColumns_ok: "row_ok L u \<Longrightarrow> row_ok L (setUserColumns r u)"
  by (simp add: row_ok_def setUserColumns_def)

lemma applyUserName_ignores:
  "NormalizeNFC L (textMember body ''userName'') \<noteq> [] \<Longrightarrow>
    applyUserName L body (u\<lparr>UserName := n\<rparr>) = applyUserName L body u"
proof -
  assume n: "NormalizeNFC L (textMember body ''userName'') \<noteq> []"
  have upd: "u\<lparr>UserName := n, UserName := t\<rparr> = u\<lparr>UserName := t\<rparr>" for t by simp
  have "map_of body ''userName'' \<noteq> None"
    using n by (cases "map_of body ''userName''") (simp_all add: textMember_def jget_def NormalizeNFC_def)
  then show ?thesis unfolding applyUserName_def upd by (auto split: option.split)
qed

lemma ApplyFromScimInput_user_ok:
  assumes "ApplyFromScimInput L u body = Inr w" and "hashed L (Password u)"
    and "UserName u \<noteq> [] \<or> NormalizeNFC L (textMember body ''userName'') \<noteq> []"
  shows "user_ok L w \<and> same_identity u w"
proof (cases "UserName u \<noteq> []")
  case True
  then show ?thesis
    using ApplyFromScimInput_keeps [OF assms(1)] assms(2) by (auto simp: keeps_def user_ok_def)
next
  case False
  then have "ApplyFromScimInput L (u\<lparr>UserName := ''x''\<rparr>) body = Inr w"
    using assms by (simp add: ApplyFromScimInput_def applySimpleAttributes_def applyUserName_ignores)
  from ApplyFromScimInput_keeps [OF this] assms(2) show ?thesis
    by (auto simp: keeps_def user_ok_def same_identity_def)
qed

lemma ApplyPatchOperations_user_ok:
  "ApplyPatchOperations L u ops = Inr w \<Longrightarrow> user_ok L u \<Longrightarrow> user_ok L w \<and> same_identity u w"
  by (drule ApplyPatchOperations_keeps) (auto simp: keeps_def user_ok_def)

section \<open>What the requests ask\<close>

text \<open>Rows a request has read, identifiers it was given, and whether it has inserted.\<close>

definition seen :: "log \<Rightarrow> ScimUser set" where
  "seen l = {r. \<exists>uid ws. (SelectUser uid ws, UserRow (Some r)) \<in> set l}"

definition given :: "log \<Rightarrow> string set" where
  "given l = {x. (NewUUID, Uuid x) \<in> set l}"

definition inserted :: "log \<Rightarrow> bool" where
  "inserted l \<longleftrightarrow> (\<exists>u a. (InsertUser u, a) \<in> set l)"

text \<open>A user is inserted once and under an identifier given to the request; a user is updated only after
  its row was read, to the next version, and with the identity of that row.\<close>

definition asks :: "ext \<Rightarrow> log \<Rightarrow> query \<Rightarrow> bool" where
  "asks L l q = (case q of
       InsertUser u \<Rightarrow> row_ok L u \<and> Version u = 0 \<and> ID u \<in> given l \<and> \<not> inserted l
     | UpdateUser u v \<Rightarrow> row_ok L u \<and> Version u = v + 1
         \<and> (\<exists>r \<in> seen l. ID r = ID u \<and> WorkspaceID r = WorkspaceID u \<and> CreatedAt r = CreatedAt u \<and> Version r = v)
     | Begin \<Rightarrow> False | Commit \<Rightarrow> False | Rollback \<Rightarrow> False
     | _ \<Rightarrow> True)"

definition answers :: "ext \<Rightarrow> query \<Rightarrow> answer \<Rightarrow> bool" where
  "answers L q a = (case q of
       SelectUser uid ws \<Rightarrow> (\<forall>r. a = UserRow (Some r) \<longrightarrow> ID r = uid \<and> WorkspaceID r = ws \<and> row_ok L r)
     | NewUUID \<Rightarrow> (\<exists>x. a = Uuid x)
     | _ \<Rightarrow> True)"

abbreviation asking :: "ext \<Rightarrow> 'a prog \<Rightarrow> log \<Rightarrow> bool" where
  "asking L \<equiv> issues (asks L) (answers L)"

lemma seen_snoc: "seen (l @ [(q, a)]) = seen l \<union>
    (case (q, a) of (SelectUser _ _, UserRow (Some r)) \<Rightarrow> {r} | _ \<Rightarrow> {})"
  by (auto simp: seen_def split: query.split answer.split option.split)

lemma given_snoc: "given (l @ [(q, a)]) = given l \<union> (case (q, a) of (NewUUID, Uuid x) \<Rightarrow> {x} | _ \<Rightarrow> {})"
  by (auto simp: given_def split: query.split answer.split)

lemma inserted_snoc: "inserted (l @ [(q, a)]) \<longleftrightarrow> inserted l \<or> (case q of InsertUser _ \<Rightarrow> True | _ \<Rightarrow> False)"
  by (auto simp: inserted_def split: query.split)

lemmas log_simps = seen_snoc given_snoc inserted_snoc

lemma log_Nil [simp]: "seen [] = {}" "given [] = {}" "\<not> inserted []"
  by (simp_all add: seen_def given_def inserted_def)

lemma asking_timeNow: "(\<And>t a. asking L (k t) (l @ [(TimeNow, a)])) \<Longrightarrow> asking L (timeNow k) l"
  by (simp add: timeNow_def asks_def)

lemma asking_newUUID: "(\<And>x. asking L (k x) (l @ [(NewUUID, Uuid x)])) \<Longrightarrow> asking L (newUUID k) l"
  by (auto simp: newUUID_def asks_def answers_def)

lemma asking_touchWorkspace: "(\<And>a t b. asking L k (l @ [(TimeNow, a), (TouchWorkspace ws t, b)])) \<Longrightarrow> asking L (touchWorkspace ws k) l"
  by (simp add: touchWorkspace_def timeNow_def asks_def)

lemma asking_existsByUserName:
  "(\<And>r a. asking L (k r) (l @ [(UserNameExists name ws, a)])) \<Longrightarrow> asking L (existsByUserName name ws k) l"
  by (simp add: existsByUserName_def asks_def)

text \<open>A row that is found is the row asked for, and is in the log.\<close>

lemma asking_findUser:
  assumes "\<And>e a. asking L (k (Inl e)) (l @ [(SelectUser uid ws, a)])"
    and "\<And>a. asking L (k (Inr None)) (l @ [(SelectUser uid ws, a)])"
    and "\<And>r. ID r = uid \<Longrightarrow> WorkspaceID r = ws \<Longrightarrow> row_ok L r \<Longrightarrow>
      asking L (k (Inr (Some r))) (l @ [(SelectUser uid ws, UserRow (Some r))])"
  shows "asking L (findUser uid ws k) l"
proof -
  have "asking L (k (case a of UserRow r \<Rightarrow> Inr r | _ \<Rightarrow> Inl (failure a))) (l @ [(SelectUser uid ws, a)])"
    if "answers L (SelectUser uid ws) a" for a
  proof (cases a)
    case (UserRow r)
    then show ?thesis using that assms(2,3) by (cases r) (auto simp: answers_def)
  qed (use assms(1) in auto)
  then show ?thesis by (simp add: findUser_def asks_def)
qed

text \<open>What a request may rely on later: rows it has read, identifiers it was given.\<close>

definition extends :: "log \<Rightarrow> log \<Rightarrow> bool" where
  "extends l l' \<longleftrightarrow> seen l \<subseteq> seen l' \<and> given l \<subseteq> given l' \<and> inserted l' = inserted l"

lemma extends_append [simp]: "extends l (l @ m) \<longleftrightarrow> inserted l \<or> \<not> inserted m"
  by (auto simp: extends_def seen_def given_def inserted_def)

lemma inserted_Cons [simp]: "inserted ((q, a) # m) \<longleftrightarrow> (\<exists>u. q = InsertUser u) \<or> inserted m"
  by (auto simp: inserted_def)

lemma extends_refl [simp]: "extends l l"
  by (simp add: extends_def)

lemma extends_trans: "extends l l' \<Longrightarrow> extends l' l'' \<Longrightarrow> extends l l''"
  by (auto simp: extends_def)

lemma same_ref: "u\<lparr>EnterpriseManagerDisplay := d, EnterpriseManagerRef := EnterpriseManagerRef u\<rparr> = u\<lparr>EnterpriseManagerDisplay := d\<rparr>"
  by (cases u) simp

lemma asking_resolveManagerMetadata:
  assumes "\<And>l' disp ref. extends l l' \<Longrightarrow>
    asking L (k (user\<lparr>EnterpriseManagerDisplay := disp, EnterpriseManagerRef := ref\<rparr>)) l'"
  shows "asking L (resolveManagerMetadata L user wsID baseURL k) l"
proof -
  have c: "asking L (k (user\<lparr>EnterpriseManagerDisplay := disp\<rparr>)) l'" if "extends l l'" for l' disp
    using assms [OF that, of "EnterpriseManagerRef user" disp] by (simp only: same_ref)
  show ?thesis
    by (auto simp: resolveManagerMetadata_def managerMetadata_def Let_def split: option.split
        intro!: assms c asking_findUser)
qed

lemma asking_storeUser:
  assumes "user_ok L user" and "r \<in> seen l" "ID r = ID user" "WorkspaceID r = WorkspaceID user"
    "CreatedAt r = CreatedAt user" "Version r = Version user"
  shows "asking L (storeUser L wsID user) l"
proof -
  have u: "asks L l' (UpdateUser (updateRow L t (user\<lparr>LastModified := m\<rparr>)) (Version user))" if "extends l l'" for l' t m
  proof -
    have "row_ok L (updateRow L t (user\<lparr>LastModified := m\<rparr>))"
      using assms(1) by (intro updateRow_ok) (simp add: user_ok_def)
    moreover have "r \<in> seen l'" using that assms(2) by (auto simp: extends_def)
    ultimately show ?thesis using assms(3-) by (auto simp: asks_def)
  qed
  show ?thesis
    unfolding storeUser_def updateUserRow_def
    by (intro asking_timeNow) (auto simp: u split: sum.split intro!: asking_touchWorkspace)
qed

lemma asking_loadUser:
  assumes "\<And>r. ID r = userID \<Longrightarrow> WorkspaceID r = wsID \<Longrightarrow> row_ok L r \<Longrightarrow>
    asking L (k r) (l @ [(SelectUser userID wsID, UserRow (Some r))])"
  shows "asking L (loadUser wsID userID ifMatch k) l"
  using assms by (auto simp: loadUser_def intro!: asking_findUser)

lemma asking_checkUserName:
  assumes "\<And>l'. extends l l' \<Longrightarrow> asking L k l'"
  shows "asking L (checkUserName L wsID old new k) l"
  using assms by (auto simp: checkUserName_def intro!: asking_existsByUserName split: sum.split bool.split)

lemma asking_storeNewUser:
  assumes "user_ok L user" and "\<not> inserted l"
  shows "asking L (storeNewUser L wsID user) l"
proof -
  have "asks L (l @ [(NewUUID, Uuid x), (TimeNow, a)]) (InsertUser (createRow L x t user))" for x a t
    using assms createRow_ok [OF assms(1), of x t] by (auto simp: asks_def given_def inserted_def)
  then show ?thesis
    unfolding storeNewUser_def createUserRow_def
    by (intro asking_newUUID asking_timeNow) (auto split: sum.split intro!: asking_touchWorkspace)
qed

lemma asking_create: "asking L (executeCreateUser L wsID baseURL body) []"
proof -
  have store: "asking L (case ApplyFromScimInput L (newUser uid wsID c m) body of Inl e \<Rightarrow> Ret (Inl e)
      | Inr user \<Rightarrow> resolveManagerMetadata L user wsID baseURL (storeNewUser L wsID)) l"
    if "NormalizeNFC L (textMember body ''userName'') \<noteq> []" "\<not> inserted l" for uid c m l
  proof (cases "ApplyFromScimInput L (newUser uid wsID c m) body")
    case (Inr user)
    have "hashed L (Password (newUser uid wsID c m))" by (simp add: newUser_def hashed_def)
    then have "user_ok L user" using ApplyFromScimInput_user_ok [OF Inr] that(1) by blast
    then show ?thesis
      using that(2) Inr by (auto simp: user_ok_def extends_def intro!: asking_resolveManagerMetadata asking_storeNewUser)
  qed simp
  show ?thesis
    unfolding executeCreateUser_def Let_def
    by (auto intro!: asking_existsByUserName asking_newUUID asking_timeNow store split: sum.split bool.split)
qed

lemma asking_update:
  assumes "user_ok L user" "row_ok L r" "same_identity r user" "r \<in> seen l"
  shows "asking L (resolveManagerMetadata L user wsID baseURL (storeUser L wsID)) l"
  using assms
  by (auto simp: user_ok_def same_identity_def extends_def intro!: asking_resolveManagerMetadata asking_storeUser [of _ _ r])

lemma ClearMutableAttributes_user_ok:
  "user_ok L u \<Longrightarrow> user_ok L (ClearMutableAttributes u) \<and> same_identity u (ClearMutableAttributes u)"
  by (simp add: user_ok_def same_identity_def ClearMutableAttributes_def hashed_def)

lemma asking_replace: "asking L (executeReplaceUser L wsID userID baseURL body ifMatch) []"
  unfolding executeReplaceUser_def
proof (rule asking_loadUser)
  fix r assume r: "row_ok L r"
  have upd: "asking L (case ApplyFromScimInput L (ClearMutableAttributes r) body of Inl e \<Rightarrow> Ret (Inl e)
      | Inr user \<Rightarrow> resolveManagerMetadata L user wsID baseURL (storeUser L wsID)) l"
    if "r \<in> seen l" for l
  proof (cases "ApplyFromScimInput L (ClearMutableAttributes r) body")
    case (Inr user)
    have c: "user_ok L (ClearMutableAttributes r)" "same_identity r (ClearMutableAttributes r)"
      using ClearMutableAttributes_user_ok [OF row_user_ok [OF r]] by blast+
    then have "user_ok L user \<and> same_identity (ClearMutableAttributes r) user"
      by (intro ApplyFromScimInput_user_ok [OF Inr]) (auto simp: user_ok_def)
    then show ?thesis
      using Inr c(2) that r by (auto simp: same_identity_def intro!: asking_update)
  qed simp
  show "asking L (let newUserName = NormalizeNFC L (textMember body ''userName'');
        replace = (case ApplyFromScimInput L (ClearMutableAttributes r) body of Inl e \<Rightarrow> Ret (Inl e)
          | Inr replaced \<Rightarrow> resolveManagerMetadata L replaced wsID baseURL (storeUser L wsID))
      in if newUserName = [] then replace else checkUserName L wsID (UserName r) newUserName replace)
    ([] @ [(SelectUser userID wsID, UserRow (Some r))])"
    by (auto simp: Let_def extends_def seen_def intro!: upd asking_checkUserName)
qed

lemma asking_patch: "asking L (executePatchUser L wsID userID baseURL ops ifMatch) []"
  unfolding executePatchUser_def
proof (rule asking_loadUser)
  fix r assume r: "row_ok L r"
  have upd: "asking L (checkUserName L wsID old new (storeUser L wsID user)) l"
    if "user_ok L user" "same_identity r user" "r \<in> seen l" for user old new l
    using that by (auto simp: same_identity_def extends_def intro!: asking_checkUserName asking_storeUser [of _ _ r])
  show "asking L (let before = CloneScimUser r in case ApplyPatchOperations L r ops of Inl e \<Rightarrow> Ret (Inl e)
      | Inr patched \<Rightarrow> resolveManagerMetadata L patched wsID baseURL (\<lambda>resolved.
          if ScimUserMutableEqual before resolved then Ret (Inr resolved)
          else checkUserName L wsID (UserName before) (UserName resolved) (storeUser L wsID resolved)))
    ([] @ [(SelectUser userID wsID, UserRow (Some r))])"
  proof (cases "ApplyPatchOperations L r ops")
    case (Inr w)
    have "user_ok L w \<and> same_identity r w"
      using ApplyPatchOperations_user_ok [OF Inr] row_user_ok [OF r] by blast
    moreover have "r \<in> seen [(SelectUser userID wsID, UserRow (Some r))]" by (auto simp: seen_def)
    ultimately show ?thesis
      by (auto simp: Inr Let_def user_ok_def same_identity_def extends_def intro!: asking_resolveManagerMetadata upd)
  qed (simp add: Let_def)
qed

lemma asking_delete: "asking L (executeDeleteUser wsID userID ifMatch) []"
  unfolding executeDeleteUser_def
  by (rule asking_loadUser)
     (auto simp: deleteByMemberValue_def deleteUserRow_def asks_def intro!: asking_touchWorkspace split: sum.split)

lemma asking_userProgram: "asking L (userProgram L r) []"
  by (cases r) (auto intro!: issues_pbind asking_create asking_replace asking_patch asking_delete)

end
