(* ===== verification/UserInv.thy ===== *)
theory UserInv
  imports UserSystem
begin

text \<open>
  The invariant of the user rows under interleaved requests. It is stated on what matters of a state: the
  rows, the identifiers given out, the rows some request has read, and for each request the identifiers it
  was given and whether it has inserted.
\<close>

section \<open>Rows, reads and identifiers\<close>

definition rows_inv :: "ext \<Rightarrow> ScimUser list \<Rightarrow> string list \<Rightarrow> ScimUser set \<Rightarrow> (nat \<Rightarrow> string set) \<Rightarrow> (nat \<Rightarrow> bool) \<Rightarrow> bool" where
  "rows_inv L rows ids S G J \<longleftrightarrow>
     distinct (map ID rows) \<and> (\<forall>r \<in> set rows. row_ok L r)
     \<and> ID ` (set rows \<union> S) \<subseteq> set ids \<and> (\<forall>i. G i \<subseteq> set ids)
     \<and> (\<forall>i j. i \<noteq> j \<longrightarrow> G i \<inter> G j = {})
     \<and> (\<forall>i. G i \<inter> ID ` (set rows \<union> S) \<noteq> {} \<longrightarrow> J i)
     \<and> (\<forall>r0 \<in> S. \<forall>r \<in> set rows. ID r0 = ID r \<longrightarrow> Version r0 \<le> Version r \<and> (Version r0 = Version r \<longrightarrow> r0 = r))"

lemma rows_invI:
  assumes "distinct (map ID rows)" "\<And>r. r \<in> set rows \<Longrightarrow> row_ok L r"
    and "ID ` (set rows \<union> S) \<subseteq> set ids" "\<And>i. G i \<subseteq> set ids" "\<And>i j x. i \<noteq> j \<Longrightarrow> x \<in> G i \<Longrightarrow> x \<notin> G j"
    and "\<And>i x. x \<in> G i \<Longrightarrow> x \<in> ID ` (set rows \<union> S) \<Longrightarrow> J i"
    and "\<And>r0 r. r0 \<in> S \<Longrightarrow> r \<in> set rows \<Longrightarrow> ID r0 = ID r \<Longrightarrow> Version r0 \<le> Version r \<and> (Version r0 = Version r \<longrightarrow> r0 = r)"
  shows "rows_inv L rows ids S G J"
  unfolding rows_inv_def
proof (intro conjI ballI allI)
  show "i \<noteq> j \<longrightarrow> G i \<inter> G j = {}" for i j using assms(5) [of i j] by blast
  show "G i \<inter> ID ` (set rows \<union> S) \<noteq> {} \<longrightarrow> J i" for i using assms(6) [of _ i] by blast
qed (use assms in \<open>simp_all\<close>)

lemma rows_invD:
  assumes "rows_inv L rows ids S G J"
  shows "distinct (map ID rows)" and "r \<in> set rows \<Longrightarrow> row_ok L r" and "ID ` (set rows \<union> S) \<subseteq> set ids" and "G i \<subseteq> set ids"
    and "i \<noteq> j \<Longrightarrow> x \<in> G i \<Longrightarrow> x \<notin> G j" and "x \<in> G i \<Longrightarrow> x \<in> ID ` (set rows \<union> S) \<Longrightarrow> J i"
    and "r0 \<in> S \<Longrightarrow> r \<in> set rows \<Longrightarrow> ID r0 = ID r \<Longrightarrow> Version r0 \<le> Version r \<and> (Version r0 = Version r \<longrightarrow> r0 = r)"
proof -
  note I = assms [unfolded rows_inv_def]
  show "distinct (map ID rows)" using I by simp
  show "r \<in> set rows \<Longrightarrow> row_ok L r" using I by simp
  show "ID ` (set rows \<union> S) \<subseteq> set ids" using I by simp
  show "G i \<subseteq> set ids" using I by simp
  have "i \<noteq> j \<longrightarrow> G i \<inter> G j = {}" using I by simp
  then show "i \<noteq> j \<Longrightarrow> x \<in> G i \<Longrightarrow> x \<notin> G j" by blast
  have "G i \<inter> ID ` (set rows \<union> S) \<noteq> {} \<longrightarrow> J i" using I by simp
  then show "x \<in> G i \<Longrightarrow> x \<in> ID ` (set rows \<union> S) \<Longrightarrow> J i" by blast
  show "r0 \<in> S \<Longrightarrow> r \<in> set rows \<Longrightarrow> ID r0 = ID r \<Longrightarrow> Version r0 \<le> Version r \<and> (Version r0 = Version r \<longrightarrow> r0 = r)"
    using I by simp
qed

lemma distinct_ID: "distinct (map ID rows) \<Longrightarrow> r \<in> set rows \<Longrightarrow> r' \<in> set rows \<Longrightarrow> ID r = ID r' \<Longrightarrow> r = r'"
  by (auto simp: distinct_map dest: inj_onD)

lemma rows_inv_inserted:
  assumes "rows_inv L rows ids S G J" and "\<And>i. J i \<Longrightarrow> J' i"
  shows "rows_inv L rows ids S G J'"
proof (rule rows_invI)
  show "J' i" if "x \<in> G i" "x \<in> ID ` (set rows \<union> S)" for i x
    using rows_invD(6) [OF assms(1) that] by (rule assms(2))
qed (fact rows_invD [OF assms(1)])+

lemma rows_inv_given:
  assumes I: "rows_inv L rows ids S G J" and x: "x \<notin> set ids"
  shows "rows_inv L rows (x # ids) S (G(i := insert x (G i))) J"
proof (rule rows_invI)
  have no: "x \<notin> ID ` (set rows \<union> S)" "x \<notin> G j" for j
    using rows_invD(3,4) [OF I] x by blast+
  show "y \<notin> (G(i := insert x (G i))) k" if "j \<noteq> k" "y \<in> (G(i := insert x (G i))) j" for j k y
    using that no(2) rows_invD(5) [OF I] by (auto split: if_splits)
  show "J j" if "y \<in> (G(i := insert x (G i))) j" "y \<in> ID ` (set rows \<union> S)" for j y
    using that no(1) rows_invD(6) [OF I] by (auto split: if_splits)
  show "(G(i := insert x (G i))) j \<subseteq> set (x # ids)" for j
    using rows_invD(4) [OF I, of j] rows_invD(4) [OF I, of i] by auto
  show "ID ` (set rows \<union> S) \<subseteq> set (x # ids)" using rows_invD(3) [OF I] by auto
qed (fact rows_invD(1,2,7) [OF I])+

lemma rows_inv_seen:
  assumes I: "rows_inv L rows ids S G J" and N: "N \<subseteq> set rows"
  shows "rows_inv L rows ids (S \<union> N) G J"
proof (rule rows_invI)
  have same: "set rows \<union> (S \<union> N) = set rows \<union> S" using N by auto
  show "ID ` (set rows \<union> (S \<union> N)) \<subseteq> set ids" unfolding same by (rule rows_invD(3) [OF I])
  show "J i" if "x \<in> G i" "x \<in> ID ` (set rows \<union> (S \<union> N))" for i x
    by (rule rows_invD(6) [OF I that(1) that(2) [unfolded same]])
  show "Version r0 \<le> Version r' \<and> (Version r0 = Version r' \<longrightarrow> r0 = r')"
    if "r0 \<in> S \<union> N" "r' \<in> set rows" "ID r0 = ID r'" for r0 r'
    using that N rows_invD(7) [OF I] distinct_ID [OF rows_invD(1) [OF I]] by blast
qed (fact rows_invD(1,2,4,5) [OF I])+

lemma rows_inv_insert:
  assumes I: "rows_inv L rows ids S G J" and u: "row_ok L u" "ID u \<in> G i" "\<not> J i"
  shows "rows_inv L (rows @ [u]) ids S G (J(i := True))"
proof (rule rows_invI)
  have new: "ID u \<notin> ID ` (set rows \<union> S)" using u rows_invD(6) [OF I] by blast
  show "distinct (map ID (rows @ [u]))" using rows_invD(1) [OF I] new by auto
  show "ID ` (set (rows @ [u]) \<union> S) \<subseteq> set ids" using rows_invD(3,4) [OF I] u(2) by auto
  show "(J(i := True)) j" if "x \<in> G j" "x \<in> ID ` (set (rows @ [u]) \<union> S)" for j x
    using that rows_invD(5,6) [OF I] u(2) by (cases "j = i") auto
  show "Version r0 \<le> Version r \<and> (Version r0 = Version r \<longrightarrow> r0 = r)"
    if "r0 \<in> S" "r \<in> set (rows @ [u])" "ID r0 = ID r" for r0 r
  proof (cases "r = u")
    case True
    then have "ID u \<in> ID ` (set rows \<union> S)" using that(1) unfolding that(3) [symmetric] True [symmetric] by simp
    then show ?thesis using new by contradiction
  next
    case False
    then show ?thesis using that rows_invD(7) [OF I that(1)] by simp
  qed
  show "row_ok L r" if "r \<in> set (rows @ [u])" for r using that rows_invD(2) [OF I] u(1) by auto
qed (fact rows_invD(4,5) [OF I])+

text \<open>An update of the version a request has read: a row of that version becomes the next version.\<close>

lemma rows_inv_update:
  assumes I: "rows_inv L rows ids S G J" and u: "row_ok L u" "Version u = v + 1"
  shows "rows_inv L (map (\<lambda>r. if userHit (ID u) v r then setUserColumns r u else r) rows) ids S G J"
proof (rule rows_invI)
  let ?f = "\<lambda>r. if userHit (ID u) v r then setUserColumns r u else r"
  have ids: "map ID (map ?f rows) = map ID rows" by (simp add: setUserColumns_def)
  have "ID ` set (map ?f rows) = set (map ID rows)" unfolding set_map [symmetric] ids ..
  then have img: "ID ` (set (map ?f rows) \<union> S) = ID ` (set rows \<union> S)" by (simp only: image_Un set_map)
  show "distinct (map ID (map ?f rows))" unfolding ids by (rule rows_invD(1) [OF I])
  show "row_ok L r" if "r \<in> set (map ?f rows)" for r
    using that rows_invD(2) [OF I] setUserColumns_ok [OF u(1)] by auto
  show "ID ` (set (map ?f rows) \<union> S) \<subseteq> set ids" unfolding img by (rule rows_invD(3) [OF I])
  show "J i" if "x \<in> G i" "x \<in> ID ` (set (map ?f rows) \<union> S)" for i x
    by (rule rows_invD(6) [OF I that(1) that(2) [unfolded img]])
  show "Version r0 \<le> Version r \<and> (Version r0 = Version r \<longrightarrow> r0 = r)"
    if r0: "r0 \<in> S" and r: "r \<in> set (map ?f rows)" "ID r0 = ID r" for r0 r
  proof -
    obtain r1 where r1: "r1 \<in> set rows" "r = ?f r1" using r(1) by auto
    then have "ID r0 = ID r1" using r(2) by (simp add: setUserColumns_def split: if_splits)
    from rows_invD(7) [OF I r0 r1(1) this] show ?thesis
      using r1(2) u(2) by (auto simp: setUserColumns_def userHit_def split: if_splits)
  qed
qed (fact rows_invD(4,5) [OF I])+

lemma rows_inv_filter:
  assumes I: "rows_inv L rows ids S G J"
  shows "rows_inv L (filter P rows) ids S G J"
proof (rule rows_invI)
  have sub: "ID ` (set (filter P rows) \<union> S) \<subseteq> ID ` (set rows \<union> S)" by auto
  show "distinct (map ID (filter P rows))" using rows_invD(1) [OF I] by (simp add: distinct_map_filter)
  show "ID ` (set (filter P rows) \<union> S) \<subseteq> set ids" using sub rows_invD(3) [OF I] by blast
  show "J i" if "x \<in> G i" "x \<in> ID ` (set (filter P rows) \<union> S)" for i x
    using that sub rows_invD(6) [OF I] by blast
  show "row_ok L r" if "r \<in> set (filter P rows)" for r using that rows_invD(2) [OF I] by simp
  show "Version r0 \<le> Version r \<and> (Version r0 = Version r \<longrightarrow> r0 = r)"
    if "r0 \<in> S" "r \<in> set (filter P rows)" "ID r0 = ID r" for r0 r
    using that rows_invD(7) [OF I that(1)] by simp
qed (fact rows_invD(4,5) [OF I])+

section \<open>The invariant of the system\<close>

definition reads :: "'a thread list \<Rightarrow> ScimUser set" where
  "reads ts = (\<Union>(l, p) \<in> set ts. seen l)"

definition gives :: "'a thread list \<Rightarrow> nat \<Rightarrow> string set" where
  "gives ts i = (if i < length ts then given (fst (ts ! i)) else {})"

definition inserts :: "'a thread list \<Rightarrow> nat \<Rightarrow> bool" where
  "inserts ts i \<longleftrightarrow> i < length ts \<and> inserted (fst (ts ! i))"

fun system_inv :: "ext \<Rightarrow> 'a system \<Rightarrow> bool" where
  "system_inv L (s, ts) \<longleftrightarrow> rows_inv L (user_rows s) (issued s) (reads ts) (gives ts) (inserts ts)
     \<and> (\<forall>(l, p) \<in> set ts. asking L p l)"

definition fresh :: "database \<Rightarrow> bool" where
  "fresh D \<longleftrightarrow> (\<forall>ids. fresh_uuid D ids \<notin> set ids)"

lemma reads_update:
  assumes "i < length ts" "ts ! i = (l, p)" and "seen l' = seen l \<union> N"
  shows "reads (ts[i := (l', p')]) = reads ts \<union> N"
proof -
  have "set ts = insert (l, p) (set (take i ts) \<union> set (drop (Suc i) ts))"
    using assms(1,2) by (metis Un_insert_right id_take_nth_drop list.simps(15) set_append)
  moreover have "set (ts[i := (l', p')]) = insert (l', p') (set (take i ts) \<union> set (drop (Suc i) ts))"
    using assms(1) by (simp add: upd_conv_take_nth_drop)
  ultimately show ?thesis using assms(3) by (auto simp: reads_def)
qed

lemma gives_update: "i < length ts \<Longrightarrow> gives (ts[i := (l', p')]) = (gives ts)(i := given l')"
  by (auto simp: gives_def fun_eq_iff nth_list_update)

lemma inserts_update: "i < length ts \<Longrightarrow> inserts (ts[i := (l', p')]) = (inserts ts)(i := inserted l')"
  by (auto simp: inserts_def fun_eq_iff nth_list_update)

lemma reads_start: "reads (ts @ [([], p)]) = reads ts"
  by (simp add: reads_def)

lemma gives_start: "gives (ts @ [([], p)]) = gives ts"
  by (auto simp: gives_def fun_eq_iff nth_append)

lemma inserts_start: "inserts (ts @ [([], p)]) = inserts ts"
  by (auto simp: inserts_def fun_eq_iff nth_append)

section \<open>Every step keeps it\<close>

lemma updateRows_hit:
  "updateRows conflict hit f rows = Inr rows' \<Longrightarrow> rows' = map (\<lambda>r. if hit r then f r else r) rows"
  by (auto simp: updateRows_def split: list.splits)

lemma insertRow_Inr: "insertRow conflict rows r = Inr rows' \<Longrightarrow> rows' = rows @ [r] \<and> conflict rows r = None"
  by (auto simp: insertRow_def split: option.splits)

text \<open>The effect of a statement on the rows, when the request was allowed to send it.\<close>

lemma exec_rows_inv:
  assumes I: "rows_inv L (user_rows s) (issued s) S G J" and asks: "asks L l q" and e: "exec D q s = (a, s')"
    and q: "\<forall>u. q \<noteq> InsertUser u" "q \<noteq> NewUUID"
  shows "rows_inv L (user_rows s') (issued s') S G J"
proof (cases q)
  case (UpdateUser u v)
  have u: "row_ok L u" "Version u = v + 1" using asks by (auto simp: asks_def UpdateUser)
  from e show ?thesis
    using I rows_inv_update [OF I u] by (auto simp: UpdateUser split: sum.splits dest!: updateRows_hit)
next
  case (DeleteUserRow uid ws)
  then show ?thesis using e rows_inv_filter [OF I] by auto
qed (use I asks e q in \<open>auto simp: asks_def Let_def split: if_splits sum.splits\<close>)

lemma exec_answers:
  assumes "rows_inv L (user_rows s) (issued s) S G J" and "exec D q s = (a, s')"
  shows "answers L q a"
  using assms by (auto simp: answers_def Let_def find_Some_iff rows_inv_def split: query.split)

text \<open>A row that was read is a row of the table.\<close>

lemma exec_seen:
  assumes "exec D q s = (a, s')" and "a' = a \<or> a' = Failed Fault"
  shows "\<exists>N. seen (l @ [(q, a')]) = seen l \<union> N \<and> N \<subseteq> set (user_rows s) \<and> (N \<noteq> {} \<longrightarrow> s' = s)"
proof (cases "\<exists>uid ws r. q = SelectUser uid ws \<and> a' = UserRow (Some r)")
  case True
  then obtain uid ws r where q: "q = SelectUser uid ws" "a' = UserRow (Some r)" by blast
  then have "r \<in> set (user_rows s)" using assms by (auto simp: find_Some_iff)
  then show ?thesis using q assms(1) by (intro exI [of _ "{r}"]) (auto simp: seen_def)
next
  case False
  then show ?thesis by (intro exI [of _ "{}"]) (auto simp: seen_def)
qed

text \<open>The system after a thread has gone on, whatever its statement did.\<close>

lemma system_inv_thread:
  assumes ts: "i < length ts" "ts ! i = (l, Ask q k)" "\<forall>(l, p) \<in> set ts. asking L p l"
    and a: "answers L q a"
    and R: "rows_inv L (user_rows s') (issued s') (reads ts \<union> N) ((gives ts)(i := given (l @ [(q, a)])))
      ((inserts ts)(i := inserted (l @ [(q, a)])))"
    and N: "seen (l @ [(q, a)]) = seen l \<union> N"
  shows "system_inv L (s', ts[i := (l @ [(q, a)], k a)])"
proof -
  have "asking L (Ask q k) l" using ts nth_mem by fastforce
  then have "asking L (k a) (l @ [(q, a)])" using a by simp
  then have "\<forall>(l, p) \<in> set (ts[i := (l @ [(q, a)], k a)]). asking L p l"
    using ts(3) set_update_subset_insert [of ts i] by fastforce
  then show ?thesis
    using R reads_update [OF ts(1,2) N] by (simp add: gives_update [OF ts(1)] inserts_update [OF ts(1)])
qed

lemma system_inv_step:
  assumes F: "fresh D" and I: "system_inv L c" and step: "sys_step D (userProgram L) c c'"
  shows "system_inv L c'"
proof -
  obtain s ts s' ts' where c: "c = (s, ts)" "c' = (s', ts')" by (cases c, cases c')
  have R: "rows_inv L (user_rows s) (issued s) (reads ts) (gives ts) (inserts ts)"
    and P: "\<forall>(l, p) \<in> set ts. asking L p l" using I c by simp_all
  from step [unfolded c] show ?thesis
  proof (cases rule: sys_step_cases)
    case (start r)
    then show ?thesis using R P asking_userProgram [of L r] c by (auto simp: reads_start gives_start inserts_start)
  next
    case (tick t)
    then show ?thesis using R P c by auto
  next
    case (ask i l q k a)
    obtain b s1 where e: "exec D q s = (b, s1)" by fastforce
    have a: "a = b \<and> s' = s1 \<or> is_sql q \<and> a = Failed Fault \<and> (s' = s \<or> s' = s1)"
      using ask(4) e by auto
    have asks: "asks L l q" using ask(1,2) P nth_mem by fastforce
    have ans: "answers L q a"
      using a exec_answers [OF R e] by (auto simp: answers_def is_sql_def split: query.splits)
    obtain N where N: "seen (l @ [(q, a)]) = seen l \<union> N" "N \<subseteq> set (user_rows s)" "N \<noteq> {} \<longrightarrow> s1 = s"
      using exec_seen [OF e, of a l] a by blast
    have G: "gives ts i = given l" and J: "inserts ts i = inserted l" using ask(1,2) by (simp_all add: gives_def inserts_def)
    note R' = rows_inv_seen [OF R N(2)]
    have same: "(gives ts)(i := given l) = gives ts" "(inserts ts)(i := inserted l) = inserts ts"
      by (simp_all add: G [symmetric] J [symmetric])
    have "rows_inv L (user_rows s') (issued s') (reads ts \<union> N) ((gives ts)(i := given (l @ [(q, a)])))
      ((inserts ts)(i := inserted (l @ [(q, a)])))"
    proof (cases "q = NewUUID \<or> (\<exists>u. q = InsertUser u)")
      case True
      then show ?thesis
      proof
        assume q: "q = NewUUID"
        then have "a = Uuid (fresh_uuid D (issued s))" "s' = s\<lparr>issued := fresh_uuid D (issued s) # issued s\<rparr>"
          using a e by (auto simp: is_sql_def Let_def)
        then show ?thesis
          using rows_inv_given [OF R', of "fresh_uuid D (issued s)" i] F q same
          by (simp add: fresh_def given_snoc inserted_snoc G J)
      next
        assume "\<exists>u. q = InsertUser u"
        then obtain u where q: "q = InsertUser u" by blast
        then have u: "row_ok L u" "ID u \<in> gives ts i" "\<not> inserts ts i" using asks by (auto simp: asks_def G J)
        have "user_rows s' = user_rows s \<or> user_rows s' = user_rows s @ [u]" "issued s' = issued s"
          using a e q by (auto split: sum.splits dest!: insertRow_Inr)
        then show ?thesis
          using rows_inv_insert [OF R' u] rows_inv_inserted [OF R', of "(inserts ts)(i := True)"] q same
          by (auto simp: given_snoc inserted_snoc G)
      qed
    next
      case False
      then have "rows_inv L (user_rows s') (issued s') (reads ts \<union> N) (gives ts) (inserts ts)"
        using a R' exec_rows_inv [OF R' asks e] by auto
      moreover have "given (l @ [(q, a)]) = given l" "inserted (l @ [(q, a)]) = inserted l"
        using False by (auto simp: given_def inserted_def)
      ultimately show ?thesis by (simp only: same)
    qed
    then show ?thesis
      unfolding c ask(3) by (rule system_inv_thread [OF ask(1,2) P ans _ N(1)])
  qed
qed

section \<open>User names\<close>

text \<open>The unique index on lower-case user names that user.go names: it lets no row beside another of the same
  workspace with the same name.\<close>

definition ci_index :: "database \<Rightarrow> bool" where
  "ci_index D \<longleftrightarrow> (\<forall>rows u. user_conflict D rows u = None \<longrightarrow>
     (\<forall>r \<in> set rows. WorkspaceID r = WorkspaceID u \<longrightarrow> sql_lower D (UserName r) \<noteq> sql_lower D (UserName u)))"

definition same_name :: "database \<Rightarrow> ScimUser \<Rightarrow> ScimUser \<Rightarrow> bool" where
  "same_name D r r' \<longleftrightarrow> WorkspaceID r = WorkspaceID r' \<and> sql_lower D (UserName r) = sql_lower D (UserName r')"

definition names_unique :: "database \<Rightarrow> ScimUser list \<Rightarrow> bool" where
  "names_unique D rows \<longleftrightarrow> (\<forall>r \<in> set rows. \<forall>r' \<in> set rows. same_name D r r' \<longrightarrow> ID r = ID r')"

lemma same_name_sym: "same_name D r r' \<longleftrightarrow> same_name D r' r"
  by (auto simp: same_name_def)

lemma conflict_free:
  assumes "ci_index D" "user_conflict D rows u = None" "r \<in> set rows"
  shows "\<not> same_name D r u"
  using assms(1) [unfolded ci_index_def, rule_format, OF assms(2,3)] by (auto simp: same_name_def)

lemma names_unique_insert:
  assumes "names_unique D rows" "ci_index D" "user_conflict D rows u = None"
  shows "names_unique D (rows @ [u])"
proof -
  have "\<not> same_name D r u \<and> \<not> same_name D u r" if "r \<in> set rows" for r
    using conflict_free [OF assms(2,3) that] same_name_sym [of D r u] by simp
  then show ?thesis using assms(1) by (auto simp: names_unique_def)
qed

lemma names_unique_filter: "names_unique D rows \<Longrightarrow> names_unique D (filter P rows)"
  by (auto simp: names_unique_def)

lemma map_filter_Nil: "List.map_filter g xs = [] \<longleftrightarrow> (\<forall>x \<in> set xs. g x = None)"
  by (induction xs) (auto simp: map_filter_simps split: option.split)

lemma updateRows_no_conflict:
  assumes "updateRows conflict hit f rows = Inr rows'" and "r \<in> set rows" "hit r"
  shows "conflict (filter (\<lambda>r. \<not> hit r) rows) (f r) = None"
  using assms by (fastforce simp: updateRows_def map_filter_Nil split: list.splits)

lemma names_unique_update:
  assumes "names_unique D rows" "ci_index D"
    and "updateRows (user_conflict D) (userHit uid v) (\<lambda>r. setUserColumns r u) rows = Inr rows'"
  shows "names_unique D rows'"
proof -
  have free: "\<not> same_name D r' (setUserColumns r u)"
    if "r \<in> set rows" "userHit uid v r" "r' \<in> set rows" "\<not> userHit uid v r'" for r r'
    using conflict_free [OF assms(2) updateRows_no_conflict [OF assms(3) that(1,2)]] that(3,4) by simp
  have hit: "ID (setUserColumns r u) = uid" if "userHit uid v r" for r
    using that by (simp add: setUserColumns_def userHit_def)
  show ?thesis
    unfolding names_unique_def
  proof (intro ballI impI)
    fix x y assume "x \<in> set rows'" "y \<in> set rows'" and same: "same_name D x y"
    then obtain r r' where r: "r \<in> set rows" "x = (if userHit uid v r then setUserColumns r u else r)"
      and r': "r' \<in> set rows" "y = (if userHit uid v r' then setUserColumns r' u else r')"
      using updateRows_hit [OF assms(3)] by auto
    show "ID x = ID y"
    proof (cases "userHit uid v r"; cases "userHit uid v r'")
      assume h: "userHit uid v r" "\<not> userHit uid v r'"
      then have "same_name D r' (setUserColumns r u)"
        using same r(2) r'(2) same_name_sym [of D r' "setUserColumns r u"] by simp
      then show ?thesis using free [OF r(1) h(1) r'(1) h(2)] by contradiction
    next
      assume h: "\<not> userHit uid v r" "userHit uid v r'"
      then show ?thesis using free [OF r'(1) h(2) r(1) h(1)] same r(2) r'(2) by simp
    next
      assume "\<not> userHit uid v r" "\<not> userHit uid v r'"
      then show ?thesis using assms(1) same r r' unfolding names_unique_def by simp
    qed (simp add: r(2) r'(2) hit)
  qed
qed

lemma exec_names_unique:
  assumes "names_unique D (user_rows s)" "ci_index D" "q \<noteq> Rollback" and "exec D q s = (a, s')"
  shows "names_unique D (user_rows s')"
proof (cases q)
  case (InsertUser u)
  then show ?thesis
    using assms names_unique_insert [OF assms(1,2)] by (auto split: sum.splits dest!: insertRow_Inr)
next
  case (UpdateUser u v)
  then show ?thesis
    using assms names_unique_update [OF assms(1,2)] by (auto split: sum.splits)
next
  case (DeleteUserRow uid ws)
  then show ?thesis using assms names_unique_filter [OF assms(1)] by auto
qed (use assms in \<open>auto simp: Let_def split: if_splits sum.splits\<close>)

lemma names_unique_step:
  assumes "ci_index D" "system_inv L (s, ts)" "names_unique D (user_rows s)"
    and "sys_step D (userProgram L) (s, ts) (s', ts')"
  shows "names_unique D (user_rows s')"
  using assms(4)
proof (cases rule: sys_step_cases)
  case (ask i l q k a)
  have "asks L l q" using ask(1,2) assms(2) nth_mem by fastforce
  then have q: "q \<noteq> Rollback" by (auto simp: asks_def)
  show ?thesis
    using ask(4) exec_names_unique [OF assms(3,1) q] assms(3) by (metis prod.collapse)
qed (use assms(3) in auto)

section \<open>Reachable states\<close>

text \<open>Requests start on an empty database, or on one in order whose identifiers are given out.\<close>

definition initial :: "ext \<Rightarrow> database \<Rightarrow> store \<Rightarrow> bool" where
  "initial L D s \<longleftrightarrow> distinct (map ID (user_rows s)) \<and> (\<forall>r \<in> set (user_rows s). row_ok L r)
     \<and> ID ` set (user_rows s) \<subseteq> set (issued s) \<and> names_unique D (user_rows s)"

definition reachable :: "ext \<Rightarrow> database \<Rightarrow> store \<Rightarrow> ScimUser option res system \<Rightarrow> bool" where
  "reachable L D s c \<longleftrightarrow> sys_steps D (userProgram L) (s, []) c"

lemma initial_inv: "initial L D s \<Longrightarrow> system_inv L (s, [])"
  by (auto simp: initial_def reads_def gives_def inserts_def intro!: rows_invI)

lemma reachable_inv:
  assumes "fresh D" "ci_index D" "initial L D s0" and "reachable L D s0 c"
  shows "system_inv L c \<and> names_unique D (user_rows (fst c))"
  using assms(4) unfolding reachable_def
proof (induction rule: rtranclp_induct)
  case base
  then show ?case using initial_inv [OF assms(3)] assms(3) by (simp add: initial_def)
next
  case (step c c')
  then show ?case
    using system_inv_step [OF assms(1)] names_unique_step [OF assms(2)]
    by (metis prod.collapse)
qed

end
