(* ===== verification/UserRun.thy ===== *)
theory UserRun
  imports UserInv
begin

text \<open>
  The user requests one at a time, against an abstract directory: a map from workspace and identifier to
  users. What a request may do to the directory is \<open>directory_step\<close>; running its program on the tables is
  such a step.
\<close>

section \<open>The directory\<close>

type_synonym directory = "string \<times> string \<Rightarrow> ScimUser option"

definition directory :: "store \<Rightarrow> directory" where
  "directory s = (\<lambda>(ws, uid). find (\<lambda>u. ID u = uid \<and> WorkspaceID u = ws) (user_rows s))"

text \<open>What the manager attribute of a user becomes, given the directory.\<close>

definition managed :: "ext \<Rightarrow> directory \<Rightarrow> string \<Rightarrow> string \<Rightarrow> ScimUser \<Rightarrow> ScimUser" where
  "managed L d ws baseURL user =
     (let value = (case EnterpriseManagerValue user of None \<Rightarrow> [] | Some v \<Rightarrow> TrimSpace v);
          cleared = user\<lparr>EnterpriseManagerDisplay := None\<rparr> in
      if value = [] then cleared\<lparr>EnterpriseManagerRef := None\<rparr>
      else (case uuid_parse L value of
          None \<Rightarrow> cleared
        | Some mgrID \<Rightarrow> (case d (ws, mgrID) of
              None \<Rightarrow> cleared | Some mgr \<Rightarrow> managerMetadata baseURL cleared mgr)))"

text \<open>A request that fails changes nothing. A created user has a new identifier and version 0; a stored user
  takes the place of the one it was made from, which had to match \<^verbatim>\<open>If-Match\<close>, with the next version.\<close>

inductive directory_step :: "ext \<Rightarrow> user_request \<Rightarrow> directory \<Rightarrow> ScimUser option res \<Rightarrow> directory \<Rightarrow> bool" for L where
  failed: "directory_step L req d (Inl e) d"
| created: "ApplyFromScimInput L (newUser uid0 ws t0 t1) body = Inr w \<Longrightarrow>
    u = createRow L uid t (managed L d ws baseURL w) \<Longrightarrow> (\<forall>ws'. d (ws', uid) = None) \<Longrightarrow>
    directory_step L (CreateUser ws baseURL body) d (Inr (Some u)) (d((ws, uid) \<mapsto> u))"
| replaced: "d (ws, uid) = Some old \<Longrightarrow> checkETagMatch ifMatch (Version old) \<Longrightarrow>
    ApplyFromScimInput L (ClearMutableAttributes old) body = Inr w \<Longrightarrow>
    u = updateRow L t (managed L d ws baseURL w) \<Longrightarrow>
    directory_step L (ReplaceUser ws uid baseURL body ifMatch) d (Inr (Some u)) (d((ws, uid) \<mapsto> u))"
| unchanged: "d (ws, uid) = Some old \<Longrightarrow> checkETagMatch ifMatch (Version old) \<Longrightarrow>
    ApplyPatchOperations L old ops = Inr w \<Longrightarrow> managed L d ws baseURL w = old \<Longrightarrow>
    directory_step L (PatchUser ws uid baseURL ops ifMatch) d (Inr (Some old)) d"
| patched: "d (ws, uid) = Some old \<Longrightarrow> checkETagMatch ifMatch (Version old) \<Longrightarrow>
    ApplyPatchOperations L old ops = Inr w \<Longrightarrow> managed L d ws baseURL w \<noteq> old \<Longrightarrow>
    u = updateRow L t (managed L d ws baseURL w) \<Longrightarrow>
    directory_step L (PatchUser ws uid baseURL ops ifMatch) d (Inr (Some u)) (d((ws, uid) \<mapsto> u))"
| deleted: "d (ws, uid) = Some old \<Longrightarrow> checkETagMatch ifMatch (Version old) \<Longrightarrow>
    directory_step L (DeleteUser ws uid ifMatch) d (Inr None) (d((ws, uid) := None))"

section \<open>Running a program\<close>

named_theorems run_simps \<open>running the repository functions\<close>

lemma errors_isl [run_simps]:
  "isl (userNameTaken name)" "isl (internalError detail)" "userNameTaken name \<noteq> Inr x" "internalError detail \<noteq> Inr x"
  "Inr x \<noteq> userNameTaken name" "Inr x \<noteq> internalError detail"
  by (simp_all add: userNameTaken_def internalError_def)

lemma run_findUser [run_simps]: "run D (findUser uid ws k) s = run D (k (Inr (directory s (ws, uid)))) s"
  by (simp add: findUser_def directory_def)

lemma run_timeNow [run_simps]: "run D (timeNow k) s = run D (k (clock s)) s"
  by (simp add: timeNow_def)

lemma run_newUUID [run_simps]:
  "run D (newUUID k) s = run D (k (fresh_uuid D (issued s))) (s\<lparr>issued := fresh_uuid D (issued s) # issued s\<rparr>)"
  by (simp add: newUUID_def Let_def)

lemma run_existsByUserName [run_simps]:
  "run D (existsByUserName name ws k) s =
    run D (k (Inr (list_ex (\<lambda>u. sql_lower D (UserName u) = sql_lower D name \<and> WorkspaceID u = ws) (user_rows s)))) s"
  by (simp add: existsByUserName_def)

definition touched :: "string \<Rightarrow> store \<Rightarrow> store" where
  "touched ws s = s\<lparr>workspace_rows := map (\<lambda>(i, u). if i = ws then (i, clock s) else (i, u)) (workspace_rows s)\<rparr>"

lemma run_touchWorkspace [run_simps]: "run D (touchWorkspace ws k) s = run D k (touched ws s)"
  by (simp add: touchWorkspace_def run_timeNow touched_def)

lemma directory_frame [simp]:
  "directory (touched ws s) = directory s" "directory (s\<lparr>issued := ids\<rparr>) = directory s"
  "directory (s\<lparr>member_rows := ms\<rparr>) = directory s"
  by (simp_all add: directory_def touched_def)

lemma run_resolveManagerMetadata [run_simps]:
  "run D (resolveManagerMetadata L user ws baseURL k) s = run D (k (managed L (directory s) ws baseURL user)) s"
  by (simp add: resolveManagerMetadata_def managed_def run_findUser Let_def split: option.split)

lemma managed_frame [simp]:
  "ID (managed L d ws b u) = ID u" "WorkspaceID (managed L d ws b u) = WorkspaceID u"
  "CreatedAt (managed L d ws b u) = CreatedAt u" "Version (managed L d ws b u) = Version u"
  "LastModified (managed L d ws b u) = LastModified u"
  by (simp_all add: managed_def managerMetadata_def Let_def split: option.split)

section \<open>What the writes do to the directory\<close>

lemma find_None_ID: "uid \<notin> ID ` set rows \<Longrightarrow> find (\<lambda>u. ID u = uid \<and> WorkspaceID u = ws) rows = None"
  by (auto simp: find_None_iff)

lemma directory_insert:
  assumes "ID u \<notin> ID ` set (user_rows s)"
  shows "directory (s\<lparr>user_rows := user_rows s @ [u]\<rparr>) = (directory s)((WorkspaceID u, ID u) \<mapsto> u)"
proof (rule ext, clarify)
  fix ws uid
  have "find P (rows @ [u]) = (case find P rows of None \<Rightarrow> if P u then Some u else None | Some r \<Rightarrow> Some r)" for P rows
    by (induction rows) auto
  then show "directory (s\<lparr>user_rows := user_rows s @ [u]\<rparr>) (ws, uid) = ((directory s)((WorkspaceID u, ID u) \<mapsto> u)) (ws, uid)"
    using find_None_ID [OF assms] by (auto simp: directory_def split: option.split)
qed

lemma find_filter_hit: "(\<And>r. P r \<Longrightarrow> \<not> Q r) \<Longrightarrow> find P (filter Q rows) = None"
  by (induction rows) auto

lemma find_filter_miss: "(\<And>r. P r \<Longrightarrow> Q r) \<Longrightarrow> find P (filter Q rows) = find P rows"
  by (induction rows) auto

lemma directory_delete:
  "directory (s\<lparr>user_rows := filter (\<lambda>u. \<not> (ID u = uid \<and> WorkspaceID u = ws)) (user_rows s)\<rparr>) = (directory s)((ws, uid) := None)"
proof (rule ext, clarify)
  fix ws' uid'
  let ?rows = "filter (\<lambda>u. \<not> (ID u = uid \<and> WorkspaceID u = ws)) (user_rows s)"
  show "directory (s\<lparr>user_rows := ?rows\<rparr>) (ws', uid') = ((directory s)((ws, uid) := None)) (ws', uid')"
  proof (cases "(ws', uid') = (ws, uid)")
    case True
    then have "find (\<lambda>u. ID u = uid' \<and> WorkspaceID u = ws') ?rows = None" by (intro find_filter_hit) auto
    then show ?thesis using True by (simp add: directory_def)
  next
    case False
    then have "find (\<lambda>u. ID u = uid' \<and> WorkspaceID u = ws') ?rows = find (\<lambda>u. ID u = uid' \<and> WorkspaceID u = ws') (user_rows s)"
      by (intro find_filter_miss) auto
    then show ?thesis using False by (auto simp: directory_def)
  qed
qed

lemma find_map: "(\<And>r. P (f r) = P r) \<Longrightarrow> find P (map f rows) = map_option f (find P rows)"
  by (induction rows) auto

lemma directory_update:
  assumes "distinct (map ID (user_rows s))" and "directory s (ws, uid) = Some old"
    and u: "ID u = uid" "WorkspaceID u = ws" "CreatedAt u = CreatedAt old"
  shows "directory (s\<lparr>user_rows := map (\<lambda>r. if userHit uid (Version old) r then setUserColumns r u else r) (user_rows s)\<rparr>)
    = (directory s)((ws, uid) \<mapsto> u)"
proof (rule ext, clarify)
  fix ws' uid'
  let ?f = "\<lambda>r. if userHit uid (Version old) r then setUserColumns r u else r"
  have old: "old \<in> set (user_rows s)" "ID old = uid" "WorkspaceID old = ws"
    using assms(2) by (auto simp: directory_def find_Some_iff)
  have "setUserColumns old u = u" using u old by (cases u) (simp add: setUserColumns_def)
  then have f: "?f old = u" using old(2) by (simp add: userHit_def)
  have new: "directory (s\<lparr>user_rows := map ?f (user_rows s)\<rparr>) k = map_option ?f (directory s k)" for k
    by (cases k) (simp add: directory_def find_map setUserColumns_def)
  show "directory (s\<lparr>user_rows := map ?f (user_rows s)\<rparr>) (ws', uid') = ((directory s)((ws, uid) \<mapsto> u)) (ws', uid')"
  proof (cases "(ws', uid') = (ws, uid)")
    case True
    then show ?thesis unfolding new using assms(2) f by simp
  next
    case False
    have "?f r = r" if "directory s (ws', uid') = Some r" for r
    proof -
      have r: "r \<in> set (user_rows s)" "ID r = uid'" "WorkspaceID r = ws'"
        using that by (auto simp: directory_def find_Some_iff)
      have "ID r \<noteq> uid"
      proof
        assume "ID r = uid"
        then have "r = old" using distinct_ID [OF assms(1) r(1) old(1)] old(2) by simp
        then show False using r old False by simp
      qed
      then show ?thesis by (simp add: userHit_def)
    qed
    then show ?thesis unfolding new using False by (cases "directory s (ws', uid')") auto
  qed
qed

section \<open>Requests are steps of the directory\<close>

text \<open>A store in order: identifiers are unique and given out.\<close>

definition in_order :: "store \<Rightarrow> bool" where
  "in_order s \<longleftrightarrow> distinct (map ID (user_rows s)) \<and> ID ` set (user_rows s) \<subseteq> set (issued s)"

definition stores :: "directory \<Rightarrow> 'a res \<Rightarrow> directory \<Rightarrow> ('a \<Rightarrow> directory \<Rightarrow> bool) \<Rightarrow> bool" where
  "stores d r d' P \<longleftrightarrow> (case r of Inl e \<Rightarrow> d' = d | Inr u \<Rightarrow> P u d')"

lemma stores_Inl [simp]: "stores d (Inl e) d' P \<longleftrightarrow> d' = d"
  by (simp add: stores_def)

lemma stores_isl: "isl r \<Longrightarrow> stores d r d' P \<longleftrightarrow> d' = d"
  by (auto simp: isl_def)

lemma stores_Inr [simp]: "stores d (Inr u) d' P \<longleftrightarrow> P u d'"
  by (simp add: stores_def)

lemma run_storeNewUser:
  assumes "fresh D" "ID ` set (user_rows s) \<subseteq> set (issued s)" and "run D (storeNewUser L ws user) s = (r, s')"
  shows "stores (directory s) r (directory s') (\<lambda>u d'. \<exists>uid t. u = createRow L uid t user
    \<and> (\<forall>ws'. directory s (ws', uid) = None) \<and> d' = (directory s)((WorkspaceID user, uid) \<mapsto> u))"
proof -
  let ?uid = "fresh_uuid D (issued s)"
  let ?s = "s\<lparr>issued := ?uid # issued s\<rparr>"
  let ?u = "createRow L ?uid (clock s) user"
  have new: "?uid \<notin> ID ` set (user_rows s)" using assms(1,2) unfolding fresh_def by blast
  then have none: "directory s (ws', ?uid) = None" for ws' by (simp add: directory_def find_None_ID)
  have ins: "directory (?s\<lparr>user_rows := user_rows s @ [?u]\<rparr>) = (directory s)((WorkspaceID user, ?uid) \<mapsto> ?u)"
    using directory_insert [of ?u ?s] new by simp
  show ?thesis
  proof (cases "user_conflict D (user_rows s) ?u")
    case None
    then have "r = Inr ?u" "s' = touched ws (?s\<lparr>user_rows := user_rows s @ [?u]\<rparr>)"
      using assms(3) by (auto simp: storeNewUser_def createUserRow_def run_simps insertRow_def)
    then show ?thesis using ins none by (simp del: fun_upd_apply) blast
  next
    case (Some c)
    then show ?thesis
      using assms(3) by (auto simp: storeNewUser_def createUserRow_def run_simps insertRow_def stores_isl split: if_splits)
  qed
qed

lemma run_storeUser:
  assumes "distinct (map ID (user_rows s))" "directory s (ws, uid) = Some old"
    and u: "ID user = uid" "WorkspaceID user = ws" "CreatedAt user = CreatedAt old" "Version user = Version old"
    and run: "run D (storeUser L ws user) s = (r, s')"
  shows "stores (directory s) r (directory s') (\<lambda>u d'. \<exists>t. u = updateRow L t user \<and> d' = (directory s)((ws, uid) \<mapsto> u))"
proof -
  let ?u = "updateRow L (clock s) (user\<lparr>LastModified := clock s\<rparr>)"
  let ?rows = "map (\<lambda>r. if userHit uid (Version old) r then setUserColumns r ?u else r) (user_rows s)"
  have same: "?u = updateRow L (clock s) user" by (simp add: updateRow_def)
  have old: "old \<in> set (user_rows s)" "userHit uid (Version old) old"
    using assms(2) by (auto simp: directory_def find_Some_iff userHit_def)
  then have hits: "filter (userHit uid (Version old)) (user_rows s) \<noteq> []" by (auto simp: filter_empty_conv)
  have upd: "directory (s\<lparr>user_rows := ?rows\<rparr>) = (directory s)((ws, uid) \<mapsto> ?u)"
    by (rule directory_update [OF assms(1,2)]) (simp_all add: u)
  show ?thesis
  proof (cases "updateRows (user_conflict D) (userHit uid (Version old)) (\<lambda>r. setUserColumns r ?u) (user_rows s)")
    case (Inl e)
    then show ?thesis
      using run u by (auto simp: storeUser_def updateUserRow_def run_simps stores_isl split: if_splits)
  next
    case (Inr rows)
    then have "rows = ?rows" by (rule updateRows_hit)
    then show ?thesis
      using run u hits upd Inr same by (auto simp: storeUser_def updateUserRow_def run_simps)
  qed
qed

lemma run_loadUser:
  "run D (loadUser wsID userID ifMatch k) s =
    (case directory s (wsID, userID) of
       None \<Rightarrow> (Inl (NewScimError 404 [] ''User not found''), s)
     | Some user \<Rightarrow> if checkETagMatch ifMatch (Version user) then run D (k user) s
         else (Inl (NewScimError 412 [] ''ETag mismatch''), s))"
  by (auto simp: loadUser_def run_simps split: option.split)

lemma run_checkUserName:
  assumes "run D (checkUserName L wsID old new k) s = (r, s')"
  shows "run D k s = (r, s') \<or> isl r \<and> s' = s"
  using assms by (auto simp: checkUserName_def run_simps split: if_splits bool.splits)

lemma Inl_sym: "Inl e = r \<Longrightarrow> r = Inl e"
  by simp

lemma ApplyFromScimInput_identity: "ApplyFromScimInput L u body = Inr w \<Longrightarrow> same_identity u w"
  using ApplyFromScimInput_keeps by (auto simp: keeps_def)

lemma create_step:
  assumes "fresh D" "in_order s" and "run D (executeCreateUser L ws baseURL body) s = (r, s')"
  shows "directory_step L (CreateUser ws baseURL body) (directory s) (map_sum (\<lambda>e. e) Some r) (directory s')"
proof -
  let ?uid = "fresh_uuid D (issued s)"
  let ?s = "s\<lparr>issued := ?uid # issued s\<rparr>"
  show ?thesis
  proof (cases "isl r \<and> directory s' = directory s")
    case True
    then show ?thesis by (auto simp: isl_def intro: directory_step.failed)
  next
    case False
    then obtain w where w: "ApplyFromScimInput L (newUser ?uid ws (clock s) (clock s)) body = Inr w"
      and run: "run D (storeNewUser L ws (managed L (directory s) ws baseURL w)) ?s = (r, s')"
      using assms(3)
      by (auto simp: executeCreateUser_def Let_def run_simps split: if_splits sum.splits bool.splits dest!: Inl_sym)
    have ws: "WorkspaceID w = ws" using ApplyFromScimInput_identity [OF w] by (simp add: same_identity_def newUser_def)
    have "ID ` set (user_rows ?s) \<subseteq> set (issued ?s)" using assms(2) by (auto simp: in_order_def)
    from run_storeNewUser [OF assms(1) this run] show ?thesis
      using False ws w by (cases r) (auto intro: directory_step.created)
  qed
qed

lemma replace_step:
  assumes "in_order s" and "run D (executeReplaceUser L ws uid baseURL body ifMatch) s = (r, s')"
  shows "directory_step L (ReplaceUser ws uid baseURL body ifMatch) (directory s) (map_sum (\<lambda>e. e) Some r) (directory s')"
proof (cases "isl r \<and> s' = s")
  case True
  then show ?thesis by (auto simp: isl_def intro: directory_step.failed)
next
  case False
  then obtain old w where old: "directory s (ws, uid) = Some old" "checkETagMatch ifMatch (Version old)"
    and w: "ApplyFromScimInput L (ClearMutableAttributes old) body = Inr w"
    and run: "run D (storeUser L ws (managed L (directory s) ws baseURL w)) s = (r, s')"
    using assms(2)
    by (auto simp: executeReplaceUser_def run_loadUser Let_def run_simps split: if_splits option.splits sum.splits
        dest!: run_checkUserName Inl_sym)
  have "ID old = uid" "WorkspaceID old = ws" using old(1) by (auto simp: directory_def find_Some_iff)
  then have "ID w = uid" "WorkspaceID w = ws" "CreatedAt w = CreatedAt old" "Version w = Version old"
    using ApplyFromScimInput_identity [OF w] by (simp_all add: same_identity_def ClearMutableAttributes_def)
  then have "stores (directory s) r (directory s') (\<lambda>u d'. \<exists>t. u = updateRow L t (managed L (directory s) ws baseURL w)
      \<and> d' = (directory s)((ws, uid) \<mapsto> u))"
    using assms(1) by (intro run_storeUser [OF _ old(1) _ _ _ _ run]) (simp_all add: in_order_def)
  then show ?thesis
    using old w by (cases r) (auto intro: directory_step.failed directory_step.replaced)
qed

lemma patch_step:
  assumes "in_order s" and "run D (executePatchUser L ws uid baseURL ops ifMatch) s = (r, s')"
  shows "directory_step L (PatchUser ws uid baseURL ops ifMatch) (directory s) (map_sum (\<lambda>e. e) Some r) (directory s')"
proof (cases "isl r \<and> s' = s")
  case True
  then show ?thesis by (auto simp: isl_def intro: directory_step.failed)
next
  case False
  let ?m = "managed L (directory s) ws baseURL"
  from False obtain old w where old: "directory s (ws, uid) = Some old" "checkETagMatch ifMatch (Version old)"
    and w: "ApplyPatchOperations L old ops = Inr w"
    and run: "if ScimUserMutableEqual old (?m w) then r = Inr (?m w) \<and> s' = s
      else run D (checkUserName L ws (UserName old) (UserName (?m w)) (storeUser L ws (?m w))) s = (r, s')"
    using assms(2)
    by (auto simp: executePatchUser_def run_loadUser Let_def run_simps split: if_splits option.splits sum.splits dest!: Inl_sym)
  have ids: "ID old = uid" "WorkspaceID old = ws" using old(1) by (auto simp: directory_def find_Some_iff)
  have same: "same_identity old w" using ApplyPatchOperations_keeps [OF w] by (simp add: keeps_def)
  then have "same_identity old (?m w)" by (simp add: same_identity_def)
  then have eq: "ScimUserMutableEqual old (?m w) \<longleftrightarrow> ?m w = old" by (rule same_identity_mutable_equal)
  show ?thesis
  proof (cases "?m w = old")
    case True
    then show ?thesis using run eq old w by (auto intro: directory_step.unchanged)
  next
    case changed: False
    then have run': "run D (storeUser L ws (?m w)) s = (r, s')"
      using run eq False by (auto dest!: run_checkUserName)
    have "stores (directory s) r (directory s') (\<lambda>u d'. \<exists>t. u = updateRow L t (?m w) \<and> d' = (directory s)((ws, uid) \<mapsto> u))"
      using assms(1) same ids by (intro run_storeUser [OF _ old(1) _ _ _ _ run']) (simp_all add: in_order_def same_identity_def)
    then show ?thesis
      using old w changed by (cases r) (auto intro: directory_step.failed directory_step.patched)
  qed
qed

lemma delete_step:
  assumes "run D (executeDeleteUser ws uid ifMatch) s = (r, s')"
  shows "directory_step L (DeleteUser ws uid ifMatch) (directory s) (map_sum (\<lambda>e. e) (\<lambda>_. None) r) (directory s')"
proof (cases "isl r \<and> s' = s")
  case True
  then show ?thesis by (auto simp: isl_def intro: directory_step.failed)
next
  case False
  let ?s = "s\<lparr>member_rows := filter (\<lambda>m. MemberValue m \<noteq> uid) (member_rows s)\<rparr>"
  from False obtain old where old: "directory s (ws, uid) = Some old" "checkETagMatch ifMatch (Version old)"
    and r: "r = Inr ()" "s' = touched ws (?s\<lparr>user_rows := filter (\<lambda>u. \<not> (ID u = uid \<and> WorkspaceID u = ws)) (user_rows ?s)\<rparr>)"
    using assms
    by (auto simp: executeDeleteUser_def run_loadUser deleteByMemberValue_def deleteUserRow_def run_simps
        split: if_splits option.splits)
  have "directory s' = (directory s)((ws, uid) := None)"
    unfolding r(2) directory_frame(1) directory_delete by simp
  then show ?thesis using old r(1) by (auto intro: directory_step.deleted)
qed

end
