(* ===== verification/UserProps.thy ===== *)
theory UserProps
  imports UserRun HttpProps
begin

text \<open>
  The properties of the user requests: what holds of the rows in every state that interleaved requests and
  failures can reach, that no update is lost, and what a request does to the directory.
\<close>

section \<open>A sample\<close>

definition sample_database :: database where
  "sample_database = \<lparr>sql_lower = map ascii_lower,
     user_where = (\<lambda>w args u. True), user_order = (\<lambda>o' rows. rows),
     group_where = (\<lambda>w args g. True), group_order = (\<lambda>o' rows. rows),
     user_conflict = (\<lambda>rows u. if list_ex (\<lambda>r. WorkspaceID r = WorkspaceID u
         \<and> map ascii_lower (UserName r) = map ascii_lower (UserName u)) rows
       then Some ''uk_scim_users_workspace_user_name_ci'' else None),
     group_conflict = (\<lambda>rows g. None), member_conflict = (\<lambda>rows m. None),
     fresh_uuid = (\<lambda>ids. CHR ''u'' # concat ids)\<rparr>"

lemma sample_fresh: "fresh sample_database"
proof -
  have "length x \<le> length (concat ids)" if "x \<in> set ids" for x and ids :: "string list"
    using that by (induction ids) auto
  then have "CHR ''u'' # concat ids \<notin> set ids" for ids
    by (metis Suc_n_not_le_n length_Cons)
  then show ?thesis by (simp add: fresh_def sample_database_def)
qed

lemma sample_ci_index: "ci_index sample_database"
  by (auto simp: ci_index_def sample_database_def list_ex_iff)

definition empty_store :: store where
  "empty_store = \<lparr>user_rows = [], group_rows = [], member_rows = [], event_rows = [],
     workspace_rows = [(''w1'', 0)], backup = None, clock = 7, issued = [], workers = 0\<rparr>"

lemma empty_initial: "initial L D empty_store"
  by (simp add: initial_def empty_store_def names_unique_def)

definition create_ann :: user_request where
  "create_ann = CreateUser ''w1'' ''http://h'' [(''userName'', JStr ''Ann''), (''password'', JStr ''pw'')]"

definition ann :: ScimUser where
  "ann = (newUser ''uu'' ''w1'' 7 7)\<lparr>UserName := ''Ann'', Password := Some ''#pw''\<rparr>"

definition ann_store :: store where
  "ann_store = empty_store\<lparr>user_rows := [ann], workspace_rows := [(''w1'', 7)], issued := [''uu'', ''u'']\<rparr>"

lemma create_ann_run: "run sample_database (userProgram plain_ext create_ann) empty_store = (Inr (Some ann), ann_store)"
  by code_simp

section \<open>Interleaved requests\<close>

text \<open>A request that starts now and runs to its end.\<close>

lemma reachable_run:
  assumes "reachable L D s0 (s, ts)" and "run D (userProgram L r) s = (x, s')"
  shows "\<exists>l. reachable L D s0 (s', ts @ [(l, Ret x)])"
proof -
  have "sys_step D (userProgram L) (s, ts) (s, ts @ [([], userProgram L r)])" by (rule sys_step.start)
  moreover obtain l where "sys_steps D (userProgram L) (s, ts @ [([], userProgram L r)]) (s', (ts @ [([], userProgram L r)])[length ts := (l, Ret x)])"
    using run_steps [of "length ts" "ts @ [([], userProgram L r)]" "[]" "userProgram L r" D s x s' "userProgram L"] assms(2) by auto
  ultimately show ?thesis
    using assms(1) unfolding reachable_def
    by (metis (no_types) list_update_length rtranclp.rtrancl_into_rtrancl rtranclp_trans)
qed

text \<open>C27. However the statements of user requests interleave and fail, every stored user has a user name, a
  hashed password and no duplicate e-mail addresses; identifiers are unique; and under the unique index of
  the database no two users of a workspace have the same name up to case. The identifiers of \<^verbatim>\<open>uuid.New\<close> are
  taken to be new.\<close>

theorem user_rows_ok:
  assumes "fresh D" "ci_index D" "initial L D s0" and "reachable L D s0 (s, ts)"
  shows "(\<forall>u \<in> set (user_rows s). UserName u \<noteq> [] \<and> hashed L (Password u) \<and> distinct (map (valueKey L) (Emails u)))
    \<and> distinct (map ID (user_rows s))
    \<and> (\<forall>u \<in> set (user_rows s). \<forall>v \<in> set (user_rows s). WorkspaceID u = WorkspaceID v
        \<and> sql_lower D (UserName u) = sql_lower D (UserName v) \<longrightarrow> u = v)"
proof -
  have inv: "rows_inv L (user_rows s) (issued s) (reads ts) (gives ts) (inserts ts)"
    and names: "names_unique D (user_rows s)"
    using reachable_inv [OF assms] by auto
  note d = rows_invD(1) [OF inv]
  have "u = v" if "u \<in> set (user_rows s)" "v \<in> set (user_rows s)" "same_name D u v" for u v
  proof -
    have "ID u = ID v" using that names unfolding names_unique_def by blast
    then show ?thesis by (rule distinct_ID [OF d that(1,2)])
  qed
  moreover have "\<forall>u \<in> set (user_rows s). row_ok L u" using rows_invD(2) [OF inv] by blast
  ultimately show ?thesis using d unfolding row_ok_def same_name_def by blast
qed

lemma ann_reachable: "\<exists>ts. reachable plain_ext sample_database empty_store (ann_store, ts)"
  using reachable_run [of plain_ext sample_database empty_store empty_store "[]", OF _ create_ann_run]
  by (auto simp: reachable_def)

theorem user_rows_ok_witness:
  "(\<exists>ts. reachable plain_ext sample_database empty_store (ann_store, ts)) \<and> user_rows ann_store = [ann]
   \<and> hashed plain_ext (Password ann) \<and> UserName ann \<noteq> []"
proof -
  obtain ts where ts: "reachable plain_ext sample_database empty_store (ann_store, ts)" using ann_reachable by blast
  have "user_rows ann_store = [ann]" by (simp add: ann_store_def)
  then show ?thesis
    using user_rows_ok [OF sample_fresh sample_ci_index empty_initial ts] ts by auto
qed

text \<open>C28. No update is lost: when a request is about to update a row, whatever ran since it read, the row
  the update will replace is exactly the row the request read, and the update raises its version by one.
  If the row has changed meanwhile the update finds no row.\<close>

theorem no_lost_update:
  assumes "fresh D" "ci_index D" "initial L D s0" and "reachable L D s0 (s, ts)"
    and "i < length ts" "ts ! i = (l, Ask (UpdateUser u v) k)"
    and "r \<in> set (user_rows s)" "ID r = ID u" "Version r = v"
  shows "(\<exists>uid ws. (SelectUser uid ws, UserRow (Some r)) \<in> set l) \<and> Version u = Version r + 1
    \<and> WorkspaceID u = WorkspaceID r \<and> CreatedAt u = CreatedAt r"
proof -
  have inv: "rows_inv L (user_rows s) (issued s) (reads ts) (gives ts) (inserts ts)"
    and P: "\<forall>(l, p) \<in> set ts. asking L p l"
    using reachable_inv [OF assms(1-4)] by auto
  have mem: "(l, Ask (UpdateUser u v) k) \<in> set ts" using assms(5,6) by (metis nth_mem)
  then have "asks L l (UpdateUser u v)" using P by fastforce
  then obtain r0 where r0: "r0 \<in> seen l" "ID r0 = ID u" "WorkspaceID r0 = WorkspaceID u" "CreatedAt r0 = CreatedAt u"
    "Version r0 = v" and u: "Version u = v + 1"
    by (auto simp: asks_def)
  have "r0 \<in> reads ts" using r0(1) mem by (force simp: reads_def)
  then have "r0 = r" using rows_invD(7) [OF inv _ assms(7)] r0(2,5) assms(8,9) by simp
  then show ?thesis using r0 u by (auto simp: seen_def)
qed

text \<open>A thread that runs for some statements while the others wait.\<close>

primrec advance :: "database \<Rightarrow> nat \<Rightarrow> store \<times> 'a thread \<Rightarrow> store \<times> 'a thread" where
  "advance D 0 c = c"
| "advance D (Suc n) c = (case c of (s, l, p) \<Rightarrow> (case p of
       Ret x \<Rightarrow> c
     | Ask q k \<Rightarrow> (case exec D q s of (a, s') \<Rightarrow> advance D n (s', l @ [(q, a)], k a))))"

lemma advance_reachable:
  "reachable L D s0 (s, ts @ [t]) \<Longrightarrow> advance D n (s, t) = (s', t') \<Longrightarrow> reachable L D s0 (s', ts @ [t'])"
proof (induction n arbitrary: s t)
  case (Suc n)
  obtain l p where t: "t = (l, p)" by fastforce
  show ?case
  proof (cases p)
    case (Ask q k)
    obtain a s1 where e: "exec D q s = (a, s1)" by fastforce
    have "sys_step D (userProgram L) (s, ts @ [t]) (s1, (ts @ [t])[length ts := (l @ [(q, a)], k a)])"
      using e by (intro sys_step.answer) (simp_all add: t Ask)
    then have "reachable L D s0 (s1, ts @ [(l @ [(q, a)], k a)])"
      using Suc.prems(1) unfolding reachable_def by (simp add: rtranclp.rtrancl_into_rtrancl)
    then show ?thesis using Suc.IH Suc.prems(2) by (simp add: t Ask e)
  qed (use Suc.prems t in simp)
qed simp

definition patch_ann :: user_request where
  "patch_ann = PatchUser ''w1'' ''uu'' ''http://h'' [[(''op'', JStr ''replace''), (''path'', JStr ''title''), (''value'', JStr ''Dr'')]] []"

definition ann_titled :: ScimUser where
  "ann_titled = ann\<lparr>Title := Some ''Dr'', Version := 1\<rparr>"

definition ann_log :: log where
  "ann_log = [(SelectUser ''uu'' ''w1'', UserRow (Some ann)), (TimeNow, Clock 7), (TimeNow, Clock 7)]"

lemma patch_ann_advance:
  "\<exists>k. advance sample_database 3 (ann_store, [], userProgram plain_ext patch_ann)
     = (ann_store, ann_log, Ask (UpdateUser ann_titled 0) k)"
proof -
  have "case advance sample_database 3 (ann_store, [], userProgram plain_ext patch_ann) of (s, l, p) \<Rightarrow>
      s = ann_store \<and> l = ann_log \<and> (case p of Ask q k \<Rightarrow> q = UpdateUser ann_titled 0 | _ \<Rightarrow> False)"
    by code_simp
  moreover obtain s l p where "advance sample_database 3 (ann_store, [], userProgram plain_ext patch_ann) = (s, l, p)"
    by (metis prod_cases3)
  ultimately show ?thesis by (cases p) auto
qed

theorem no_lost_update_witness:
  "\<exists>k ts. reachable plain_ext sample_database empty_store (ann_store, ts @ [(ann_log, Ask (UpdateUser ann_titled 0) k)])
    \<and> (\<exists>uid ws. (SelectUser uid ws, UserRow (Some ann)) \<in> set ann_log) \<and> Version ann_titled = Version ann + 1"
proof -
  obtain ts where "reachable plain_ext sample_database empty_store (ann_store, ts)" using ann_reachable by blast
  then have "reachable plain_ext sample_database empty_store (ann_store, ts @ [([], userProgram plain_ext patch_ann)])"
    unfolding reachable_def by (auto intro: rtranclp.rtrancl_into_rtrancl sys_step.start)
  moreover obtain k where "advance sample_database 3 (ann_store, [], userProgram plain_ext patch_ann)
      = (ann_store, ann_log, Ask (UpdateUser ann_titled 0) k)" using patch_ann_advance by blast
  ultimately have r: "reachable plain_ext sample_database empty_store (ann_store, ts @ [(ann_log, Ask (UpdateUser ann_titled 0) k)])"
    by (rule advance_reachable)
  have "ann \<in> set (user_rows ann_store)" "ID ann = ID ann_titled" "Version ann = 0"
    by (simp_all add: ann_store_def ann_titled_def ann_def newUser_def)
  from no_lost_update [OF sample_fresh sample_ci_index empty_initial r _ _ this, of "length ts"] r
  show ?thesis by auto
qed

section \<open>One request\<close>

lemma request_step:
  assumes "fresh D" "in_order s" and "run D (userProgram L req) s = (r, s')"
  shows "directory_step L req (directory s) r (directory s')"
  using assms
  by (cases req) (auto simp: run_pbind split: prod.splits dest: create_step replace_step patch_step delete_step)

lemma initial_in_order: "initial L D s \<Longrightarrow> in_order s"
  by (simp add: initial_def in_order_def)

text \<open>C29. A user request run on the tables is a step of the abstract directory, a map from workspace and
  identifier to users: it fails and changes nothing, or adds, replaces or removes the one entry it names, with
  the user that the request's body or operations make of it; and the tables stay in order.\<close>

theorem user_requests_refine:
  assumes "fresh D" "ci_index D" "initial L D s" and "run D (userProgram L req) s = (r, s')"
  shows "directory_step L req (directory s) r (directory s') \<and> initial L D s'"
proof
  show "directory_step L req (directory s) r (directory s')"
    by (rule request_step [OF assms(1) initial_in_order [OF assms(3)] assms(4)])
  obtain l where "reachable L D s (s', [] @ [(l, Ret r)])"
    using reachable_run [of L D s s "[]", OF _ assms(4)] by (auto simp: reachable_def)
  from reachable_inv [OF assms(1-3) this] show "initial L D s'"
    by (auto simp: initial_def rows_inv_def)
qed

theorem user_requests_refine_witness:
  "run sample_database (userProgram plain_ext create_ann) empty_store = (Inr (Some ann), ann_store)
   \<and> directory_step plain_ext create_ann (\<lambda>_. None) (Inr (Some ann)) (directory ann_store)
   \<and> directory ann_store (''w1'', ''uu'') = Some ann"
proof -
  have "directory empty_store = (\<lambda>_. None)" by (auto simp: directory_def empty_store_def)
  moreover have "directory ann_store (''w1'', ''uu'') = Some ann"
    by (simp add: directory_def ann_store_def ann_def newUser_def)
  ultimately show ?thesis
    using user_requests_refine [OF sample_fresh sample_ci_index empty_initial create_ann_run] create_ann_run by simp
qed

text \<open>C30. A PUT with \<^verbatim>\<open>If-Match\<close> succeeds only on the version it names, and leaves the next one, so that
  a second PUT with the same tag fails with 412 and changes nothing: of two clients that read the same
  version one is told to read again.\<close>

lemma replace_result:
  assumes "directory_step L (ReplaceUser ws uid baseURL body ifMatch) d (Inr (Some u)) d'"
  obtains old where "d (ws, uid) = Some old" "checkETagMatch ifMatch (Version old)" "Version u = Version old + 1"
    "d' (ws, uid) = Some u"
  using assms
proof (cases rule: directory_step.cases)
  case (replaced old w t)
  then have "Version w = Version old"
    using ApplyFromScimInput_identity by (fastforce simp: same_identity_def ClearMutableAttributes_def)
  then show ?thesis using replaced that by simp
qed

theorem if_match_guards_replace:
  assumes "fresh D" "in_order s"
    and "run D (userProgram L (ReplaceUser ws uid baseURL body (etag v))) s = (Inr (Some u), s')"
  shows "(\<exists>old. directory s (ws, uid) = Some old \<and> Version old = v) \<and> Version u = v + 1
    \<and> directory s' (ws, uid) = Some u
    \<and> run D (userProgram L (ReplaceUser ws uid baseURL body' (etag v))) s' = (Inl (NewScimError 412 [] ''ETag mismatch''), s')"
proof -
  obtain old where "directory s (ws, uid) = Some old" "checkETagMatch (etag v) (Version old)" "Version u = Version old + 1"
    "directory s' (ws, uid) = Some u"
    using request_step [OF assms] by (rule replace_result)
  then show ?thesis by (auto simp: etag_match run_pbind executeReplaceUser_def run_loadUser)
qed

lemma ann_in_order: "in_order ann_store"
  by (simp add: in_order_def ann_store_def ann_def newUser_def)

definition put_ann :: json_object where
  "put_ann = [(''userName'', JStr ''ann''), (''title'', JStr ''Dr'')]"

definition ann_put :: ScimUser where
  "ann_put = (newUser ''uu'' ''w1'' 7 7)\<lparr>UserName := ''ann'', Title := Some ''Dr'', Version := 1\<rparr>"

definition put_store :: store where
  "put_store = ann_store\<lparr>user_rows := [ann_put]\<rparr>"

lemma put_ann_run:
  "run sample_database (userProgram plain_ext (ReplaceUser ''w1'' ''uu'' ''http://h'' put_ann (etag 0))) ann_store
   = (Inr (Some ann_put), put_store)"
  by code_simp

theorem if_match_guards_replace_witness:
  "run sample_database (userProgram plain_ext (ReplaceUser ''w1'' ''uu'' ''http://h'' put_ann (etag 0))) ann_store
   = (Inr (Some ann_put), put_store)
   \<and> run sample_database (userProgram plain_ext (ReplaceUser ''w1'' ''uu'' ''http://h'' [] (etag 0))) put_store
   = (Inl (NewScimError 412 [] ''ETag mismatch''), put_store)"
  using if_match_guards_replace [OF sample_fresh ann_in_order put_ann_run] put_ann_run by blast

text \<open>C31. A request in one workspace leaves the users of every other workspace as they are.\<close>

primrec request_workspace :: "user_request \<Rightarrow> string" where
  "request_workspace (CreateUser ws base body) = ws"
| "request_workspace (ReplaceUser ws uid base body ifMatch) = ws"
| "request_workspace (PatchUser ws uid base ops ifMatch) = ws"
| "request_workspace (DeleteUser ws uid ifMatch) = ws"

theorem workspaces_isolated:
  assumes "fresh D" "in_order s" and "run D (userProgram L req) s = (r, s')" and "ws \<noteq> request_workspace req"
  shows "directory s' (ws, uid) = directory s (ws, uid)"
  using request_step [OF assms(1-3)] assms(4) by (cases rule: directory_step.cases) auto

theorem workspaces_isolated_witness:
  "run sample_database (userProgram plain_ext create_ann) empty_store = (Inr (Some ann), ann_store)
   \<and> directory ann_store (''w2'', ''uu'') = None"
proof -
  have "in_order empty_store" "''w2'' \<noteq> request_workspace create_ann" "directory empty_store (''w2'', ''uu'') = None"
    by (simp_all add: in_order_def empty_store_def create_ann_def directory_def)
  then show ?thesis using workspaces_isolated [OF sample_fresh _ create_ann_run] create_ann_run by metis
qed

text \<open>C32. In every store a POST without a user name fails with 400 and one whose user name is taken in its workspace, up to
  the case folding of the database, fails with 409; neither changes anything.\<close>

theorem create_errors:
  shows "let name = NormalizeNFC L (textMember body ''userName'') in
    (name = [] \<longrightarrow> (\<exists>e. run D (executeCreateUser L ws baseURL body) s = (Inl e, s) \<and> Status e = 400 \<and> ScimType e = ''invalidValue''))
    \<and> (name \<noteq> [] \<longrightarrow> (\<exists>row \<in> set (user_rows s). WorkspaceID row = ws \<and> sql_lower D (UserName row) = sql_lower D name) \<longrightarrow>
        (\<exists>e. run D (executeCreateUser L ws baseURL body) s = (Inl e, s) \<and> Status e = 409 \<and> ScimType e = ''uniqueness''))"
proof (cases "NormalizeNFC L (textMember body ''userName'') = []")
  case False
  let ?name = "NormalizeNFC L (textMember body ''userName'')"
  have "run D (executeCreateUser L ws baseURL body) s = (userNameTaken ?name, s)"
    if "\<exists>row \<in> set (user_rows s). WorkspaceID row = ws \<and> sql_lower D (UserName row) = sql_lower D ?name"
  proof -
    have "list_ex (\<lambda>u. sql_lower D (UserName u) = sql_lower D ?name \<and> WorkspaceID u = ws) (user_rows s)"
      using that by (auto simp: list_ex_iff)
    then show ?thesis using False by (simp add: executeCreateUser_def Let_def run_existsByUserName)
  qed
  moreover have "\<exists>e. userNameTaken ?name = Inl e \<and> Status e = 409 \<and> ScimType e = ''uniqueness''"
    by (simp add: userNameTaken_def NewScimError_def)
  ultimately show ?thesis using False unfolding Let_def by metis
qed (simp add: executeCreateUser_def NewScimError_def)

theorem create_errors_witness:
  "(\<exists>e. run sample_database (executeCreateUser plain_ext ''w1'' ''http://h'' [(''userName'', JStr ''ANN'')]) ann_store = (Inl e, ann_store)
      \<and> Status e = 409)
   \<and> (\<exists>e. run sample_database (executeCreateUser plain_ext ''w1'' ''http://h'' []) ann_store = (Inl e, ann_store) \<and> Status e = 400)"
proof -
  have n: "NormalizeNFC plain_ext (textMember [(''userName'', JStr ''ANN'')] ''userName'') = ''ANN''"
    "NormalizeNFC plain_ext (textMember [] ''userName'') = []" by code_simp+
  have "ann \<in> set (user_rows ann_store)" "WorkspaceID ann = ''w1''" by (simp_all add: ann_store_def ann_def newUser_def)
  moreover have "sql_lower sample_database (UserName ann) = sql_lower sample_database ''ANN''" by code_simp
  ultimately have "\<exists>row \<in> set (user_rows ann_store). WorkspaceID row = ''w1'' \<and> sql_lower sample_database (UserName row) = sql_lower sample_database ''ANN''"
    by blast
  then show ?thesis
    using create_errors [of plain_ext "[(''userName'', JStr ''ANN'')]" sample_database "''w1''" "''http://h''" ann_store]
      create_errors [of plain_ext "[]" sample_database "''w1''" "''http://h''" ann_store]
    unfolding n Let_def by auto
qed

end
