(* ===== verification/UserHttpProps.thy ===== *)
theory UserHttpProps
  imports UserHttp UserProps
begin

text \<open>
  The properties of the HTTP handlers of users and of their workers.
\<close>

section \<open>Results of a program\<close>

text \<open>\<open>results P p\<close>: whatever the statements of \<open>p\<close> are answered, its result satisfies \<open>P\<close>.\<close>

primrec results :: "('a \<Rightarrow> bool) \<Rightarrow> 'a prog \<Rightarrow> bool" where
  "results P (Ret x) \<longleftrightarrow> P x"
| "results P (Ask q k) \<longleftrightarrow> (\<forall>a. results P (k a))"

lemma results_pbind: "(\<And>x. results P (f x)) \<Longrightarrow> results P (pbind p f)"
  by (induction p) auto

lemma results_timeNow: "(\<And>t. results P (k t)) \<Longrightarrow> results P (timeNow k)"
  by (simp add: timeNow_def)

lemma results_newUUID: "(\<And>t. results P (k t)) \<Longrightarrow> results P (newUUID k)"
  by (simp add: newUUID_def)

lemma results_findUser: "(\<And>r. results P (k r)) \<Longrightarrow> results P (findUser uid ws k)"
  by (simp add: findUser_def)

lemma results_getUserGroups: "(\<And>g. results P (k g)) \<Longrightarrow> results P (getUserGroups uid base k)"
  by (simp add: getUserGroups_def findGroupRefs_def)

lemma results_getUserGroupsBatch: "(\<And>g. results P (k g)) \<Longrightarrow> results P (getUserGroupsBatch users base k)"
  by (auto simp: getUserGroupsBatch_def findGroupRefs_def split: sum.split)

lemma results_countUsers: "(\<And>n. results P (k n)) \<Longrightarrow> results P (countUsers ws w args k)"
  by (simp add: countUsers_def)

lemma results_listUsers: "(\<And>n. results P (k n)) \<Longrightarrow> results P (listUsers L ws w args col dir off m k)"
  by (simp add: listUsers_def)

lemmas results_intros = results_pbind results_timeNow results_newUUID results_findUser results_getUserGroups
  results_getUserGroupsBatch results_countUsers results_listUsers

lemma results_dispatch:
  assumes "\<And>e. P (errorResponse e, None)" and "\<And>hs w. P (emptyResponse 202 hs, Some w)"
  shows "results P (dispatchAsyncOperation L ws base pref method rtype init op')"
  using assms by (auto simp: dispatchAsyncOperation_def intro!: results_intros)

section \<open>Passwords\<close>

abbreviation keys :: "json_object \<Rightarrow> string set" where
  "keys m \<equiv> fst ` set m"

lemma map_of_keys: "map_of m k = Some v \<Longrightarrow> k \<in> keys m"
  by (force dest: map_of_SomeD)

lemma jget_keys: "jget m k \<noteq> JNull \<Longrightarrow> k \<in> keys m"
  by (auto simp: jget_def dest: map_of_keys split: option.splits)

lemma keys_convertPrimary: "keys (convertPrimaryToString m k) = keys m"
proof (cases "jget m k")
  case (JArr xs)
  then have "k \<in> keys m" by (intro jget_keys) simp
  then show ?thesis by (auto simp: convertPrimaryToString_def JArr)
qed (simp_all add: convertPrimaryToString_def)

lemma keys_ApplyMsCompat: "keys (ApplyMsCompat m) \<subseteq> insert (EnterpriseSchemaURN @ '':manager'') (keys m)"
proof -
  have "keys (addManagerAlias m) \<subseteq> insert (EnterpriseSchemaURN @ '':manager'') (keys m)" for m
    by (auto simp: addManagerAlias_def split: json.splits option.splits)
  then show ?thesis unfolding ApplyMsCompat_def by (metis keys_convertPrimary)
qed

lemma keys_compatible: "keys (compatible L r m) \<subseteq> insert (EnterpriseSchemaURN @ '':manager'') (keys m)"
  using keys_ApplyMsCompat by (auto simp: compatible_def)

lemma keys_presented: "keys (presented L r m) \<subseteq> insert (EnterpriseSchemaURN @ '':manager'') (keys m - {''password''})"
proof -
  have "keys (jdelete m ''password'') = keys m - {''password''}" by (auto simp: jdelete_def)
  then have "keys (applyAttributeProjection L m a e) \<subseteq> keys m - {''password''}" for a e
    using part_keys [OF projection_part [of L m a e]] by simp
  then show ?thesis
    unfolding presented_def by (intro subset_trans [OF keys_compatible] insert_mono)
qed

text \<open>A body without a password, for a list also in each of its resources.\<close>

definition secret_free :: "json_object \<Rightarrow> bool" where
  "secret_free body \<longleftrightarrow> map_of body ''password'' = None
     \<and> (case jget body ''Resources'' of JArr rs \<Rightarrow> (\<forall>m. JObj m \<in> set rs \<longrightarrow> map_of m ''password'' = None) | _ \<Rightarrow> True)"

definition serves_no_secret :: "http_response \<times> worker option \<Rightarrow> bool" where
  "serves_no_secret reply \<longleftrightarrow> (\<forall>body. Content (fst reply) = Some body \<longrightarrow> secret_free body)"

lemma user_keys:
  "''password'' \<notin> keys (presented L r (UserToScimResponse L u b g))" "''Resources'' \<notin> keys (presented L r (UserToScimResponse L u b g))"
proof -
  have "''Resources'' \<notin> set responseKeys" by (simp add: responseKeys_def EnterpriseSchemaURN_def)
  then have k: "''Resources'' \<notin> keys (UserToScimResponse L u b g)" using keys_response by blast
  have e: "''Resources'' \<noteq> EnterpriseSchemaURN @ '':manager''" "''password'' \<noteq> EnterpriseSchemaURN @ '':manager''"
    by (simp_all add: EnterpriseSchemaURN_def)
  show "''password'' \<notin> keys (presented L r (UserToScimResponse L u b g))" using keys_presented e by blast
  show "''Resources'' \<notin> keys (presented L r (UserToScimResponse L u b g))" using keys_presented e k by blast
qed

lemma not_keys: "k \<notin> keys m \<Longrightarrow> map_of m k = None"
  by (simp add: map_of_eq_None_iff)

lemma user_secret_free: "secret_free (presented L r (UserToScimResponse L u b g))"
  using not_keys [OF user_keys(1)] not_keys [OF user_keys(2)] by (simp add: secret_free_def jget_def)

lemma error_secret_free: "serves_no_secret (errorResponse e, w)"
  by (simp add: serves_no_secret_def errorResponse_def WriteScimError_def jsonResponse_def secret_free_def jget_def)

lemma empty_secret_free: "serves_no_secret (emptyResponse st hs, w)"
  by (simp add: serves_no_secret_def emptyResponse_def)

lemma json_secret_free: "secret_free body \<Longrightarrow> serves_no_secret (jsonResponse st hs body, w)"
  by (simp add: serves_no_secret_def jsonResponse_def)

lemma putCursor_other: "k' \<noteq> k \<Longrightarrow> map_of (putCursor m k c) k' = map_of m k'"
  by (simp add: putCursor_def split: sum.split)

lemma list_members:
  "map_of (buildListResponse C key now pag wsID n resources) ''password'' = None"
  "map_of (buildListResponse C key now pag wsID n resources) ''Resources'' = Some (JArr (map JObj resources))"
  by (simp_all add: buildListResponse_def Let_def putCursor_other)

lemma list_secret_free:
  assumes "\<forall>m \<in> set resources. map_of m ''password'' = None"
  shows "secret_free (buildListResponse C key now pag wsID n resources)"
  using assms by (auto simp: secret_free_def jget_def list_members)

lemma userReply_secret_free: "results serves_no_secret (userReply L r user)"
  by (auto simp: userReply_def intro!: results_intros json_secret_free user_secret_free)

lemmas secret_free_intros = results_intros error_secret_free empty_secret_free json_secret_free user_secret_free
  userReply_secret_free results_dispatch

lemma list_reply_secret_free: "results serves_no_secret (handleListUsers C L key r)"
  by (auto simp: handleListUsers_def inWorkspace_def Let_def listResources_def not_keys user_keys
      intro!: secret_free_intros list_secret_free split: option.split sum.split)

text \<open>C33. Whatever the database answers, no response of a user handler has a member \<^verbatim>\<open>password\<close>, nor has any
  resource of a list: not for POST, GET, PUT, PATCH, DELETE, a list or a search, with any projection.\<close>

theorem no_password_served:
  "results serves_no_secret (handleCreateUser L r) \<and> results serves_no_secret (handleGetUser L r)
   \<and> results serves_no_secret (handleReplaceUser L r) \<and> results serves_no_secret (handlePatchUser L r)
   \<and> results serves_no_secret (handleDeleteUser L r) \<and> results serves_no_secret (handleListUsers C L key r)
   \<and> results serves_no_secret (handleSearchUsers C L key conv r)"
proof (intro conjI)
  show "results serves_no_secret (handleCreateUser L r)"
    by (auto simp: handleCreateUser_def inWorkspace_def withJSON_def intro!: secret_free_intros split: option.split sum.split)
  show "results serves_no_secret (handleGetUser L r)"
    by (auto simp: handleGetUser_def inWorkspace_def withUserID_def Let_def intro!: secret_free_intros split: option.split sum.split)
  show "results serves_no_secret (handleReplaceUser L r)"
    by (auto simp: handleReplaceUser_def inWorkspace_def withUserID_def withJSON_def Let_def
        intro!: secret_free_intros split: option.split sum.split)
  show "results serves_no_secret (handlePatchUser L r)"
    by (auto simp: handlePatchUser_def inWorkspace_def withUserID_def withJSON_def Let_def
        intro!: secret_free_intros split: option.split sum.split)
  show "results serves_no_secret (handleDeleteUser L r)"
    by (auto simp: handleDeleteUser_def inWorkspace_def withUserID_def Let_def intro!: secret_free_intros split: option.split sum.split)
  show "results serves_no_secret (handleListUsers C L key r)" by (rule list_reply_secret_free)
  show "results serves_no_secret (handleSearchUsers C L key conv r)"
    by (auto simp: handleSearchUsers_def withJSON_def intro!: error_secret_free list_reply_secret_free split: option.split sum.split)
qed

end
