(* ===== verification/GroupRepo.thy ===== *)
theory GroupRepo
  imports UserRepo
begin

text \<open>
  The functions of \<^verbatim>\<open>internal/repository/group.go\<close> as programs of statements, and
  \<^verbatim>\<open>jdbc.InTransaction\<close>. A function that gets a transaction sends the same statements as its twin
  without one, so both are one definition here.
\<close>

section \<open>Errors\<close>

text \<open>A Go \<^verbatim>\<open>error\<close> of the group handler: one for the client, or one of the database.\<close>

datatype go_error = ScimErr ScimError | DbErr db_error

type_synonym 'a attempt = "(go_error + 'a) prog"

definition andThen :: "('e + 'a) prog \<Rightarrow> ('a \<Rightarrow> ('e + 'b) prog) \<Rightarrow> ('e + 'b) prog" where
  "andThen p f = pbind p (\<lambda>r. case r of Inl e \<Rightarrow> Ret (Inl e) | Inr x \<Rightarrow> f x)"

definition returnErr :: "ScimError \<Rightarrow> 'a attempt" where
  "returnErr e = Ret (Inl (ScimErr e))"

abbreviation reject :: "nat \<Rightarrow> string \<Rightarrow> string \<Rightarrow> 'a attempt" where
  "reject status scimType detail \<equiv> returnErr (NewScimError status scimType detail)"

text \<open>\<^verbatim>\<open>if err != nil { return err }\<close> for an error of the database and for one of a check.\<close>

definition fromDb :: "(db_error + 'a) prog \<Rightarrow> 'a attempt" where
  "fromDb p = pbind p (\<lambda>r. Ret (case r of Inl e \<Rightarrow> Inl (DbErr e) | Inr x \<Rightarrow> Inr x))"

definition checked :: "'a res \<Rightarrow> 'a attempt" where
  "checked r = Ret (case r of Inl e \<Rightarrow> Inl (ScimErr e) | Inr x \<Rightarrow> Inr x)"

text \<open>\<^verbatim>\<open>WriteErrorFromAny\<close>: the client sees an error of the database as an internal one.\<close>

definition errorOf :: "go_error \<Rightarrow> ScimError" where
  "errorOf e = (case e of ScimErr s \<Rightarrow> s | DbErr _ \<Rightarrow> NewScimError 500 [] ''Internal server error'')"

primrec forEach :: "('a \<Rightarrow> 'b \<Rightarrow> ('e + 'b) prog) \<Rightarrow> 'b \<Rightarrow> 'a list \<Rightarrow> ('e + 'b) prog" where
  "forEach f st [] = Ret (Inr st)"
| "forEach f st (x # xs) = andThen (f x st) (\<lambda>st. forEach f st xs)"

section \<open>Transactions\<close>

definition command :: "query \<Rightarrow> (db_error + unit) prog" where
  "command q = Ask q (\<lambda>a. Ret (rbind (affected a) (\<lambda>_. Inr ())))"

definition inTransaction :: "'a attempt \<Rightarrow> 'a attempt" where
  "inTransaction body =
     andThen (fromDb (command Begin)) (\<lambda>_. pbind body (\<lambda>r. case r of
         Inl e \<Rightarrow> Ask Rollback (\<lambda>_. Ret (Inl e))
       | Inr x \<Rightarrow> andThen (fromDb (command Commit)) (\<lambda>_. Ret (Inr x))))"

section \<open>Groups\<close>

definition findGroup :: "string \<Rightarrow> string \<Rightarrow> (db_error + ScimGroup option) prog" where
  "findGroup gid ws = Ask (SelectGroup gid ws) (\<lambda>a. Ret (case a of GroupRow r \<Rightarrow> Inr r | _ \<Rightarrow> Inl (failure a)))"

definition findGroupByName :: "string \<Rightarrow> string \<Rightarrow> (db_error + ScimGroup option) prog" where
  "findGroupByName name ws =
     Ask (SelectGroupByName name ws) (\<lambda>a. Ret (case a of GroupRow r \<Rightarrow> Inr r | _ \<Rightarrow> Inl (failure a)))"

definition createGroupRow :: "ScimGroup \<Rightarrow> (db_error + ScimGroup) prog" where
  "createGroupRow g =
     timeNow (\<lambda>t.
       let g = g\<lparr>GroupCreatedAt := t, GroupLastModified := t, GroupVersion := 0\<rparr> in
       andThen (command (InsertGroup g)) (\<lambda>_. Ret (Inr g)))"

definition updateGroupRow :: "ScimGroup \<Rightarrow> (db_error + ScimGroup) prog" where
  "updateGroupRow g =
     timeNow (\<lambda>t.
       let g' = g\<lparr>GroupLastModified := t, GroupVersion := GroupVersion g + 1\<rparr> in
       Ask (UpdateGroup g' (GroupVersion g)) (\<lambda>a.
         Ret (rbind (affected a) (\<lambda>n. if n = 0 then Inl OptimisticLock else Inr g'))))"

definition deleteGroupRow :: "string \<Rightarrow> string \<Rightarrow> (db_error + unit) prog" where
  "deleteGroupRow gid ws = command (DeleteGroupRow gid ws)"

definition countGroups :: "string \<Rightarrow> string \<Rightarrow> sql_arg list \<Rightarrow> (db_error + nat) prog" where
  "countGroups ws whereClause args = Ask (CountGroups ws whereClause args) (\<lambda>a. Ret (affected a))"

definition groupSortColumnTable :: "(string \<times> string) list" where
  "groupSortColumnTable =
    [(''id'', ''id''), (''displayname'', ''display_name''), (''display_name'', ''display_name''),
     (''meta.created'', ''created_at''), (''created_at'', ''created_at''),
     (''meta.lastmodified'', ''last_modified''), (''last_modified'', ''last_modified''),
     (''externalid'', ''external_id''), (''external_id'', ''external_id'')]"

definition resolveGroupSortColumn :: "ext \<Rightarrow> string \<Rightarrow> string" where
  "resolveGroupSortColumn L sortBy =
     (case map_of groupSortColumnTable (ToLower L sortBy) of Some col \<Rightarrow> col | None \<Rightarrow> ''display_name'')"

definition listGroups :: "ext \<Rightarrow> string \<Rightarrow> string \<Rightarrow> sql_arg list \<Rightarrow> string \<Rightarrow> string \<Rightarrow> int \<Rightarrow> int
    \<Rightarrow> (db_error + ScimGroup list) prog" where
  "listGroups L ws whereClause args sortAttr sortDir offset limit =
     Ask (SelectGroups ws whereClause args (buildOrderClause L (resolveGroupSortColumn L sortAttr) sortDir) limit offset)
       (\<lambda>a. Ret (case a of GroupRows rows \<Rightarrow> Inr rows | _ \<Rightarrow> Inl (failure a)))"

section \<open>Memberships\<close>

definition findMembers :: "string \<Rightarrow> (db_error + ScimGroupMembership list) prog" where
  "findMembers gid = Ask (SelectMembers gid) (\<lambda>a. Ret (case a of MemberRows ms \<Rightarrow> Inr ms | _ \<Rightarrow> Inl (failure a)))"

definition createMembers :: "ScimGroupMembership list \<Rightarrow> (db_error + unit) prog" where
  "createMembers ms = forEach (\<lambda>m _. command (InsertMember m)) () ms"

definition deleteMembersOfGroup :: "string \<Rightarrow> (db_error + unit) prog" where
  "deleteMembersOfGroup gid = command (DeleteMembersOfGroup gid)"

definition deleteMembersByValue :: "string \<Rightarrow> (db_error + unit) prog" where
  "deleteMembersByValue v = command (DeleteMembersByValue v)"

definition deleteMembers :: "string \<Rightarrow> string list \<Rightarrow> (db_error + unit) prog" where
  "deleteMembers gid values = (if values = [] then Ret (Inr ()) else command (DeleteMembers gid values))"

definition updateMemberType :: "string \<Rightarrow> string \<Rightarrow> string \<Rightarrow> (db_error + unit) prog" where
  "updateMemberType mid ws t = command (SetMemberType mid ws t)"

end
