(* ===== verification/GroupHandler.thy ===== *)
theory GroupHandler
  imports GroupRepo UserHandler
begin

text \<open>
  \<^verbatim>\<open>internal/handler/group.go\<close>: members of groups, and what creating, replacing, patching and deleting a
  group do with the database. A transaction gets and returns the group that Go changes in place. The
  repositories are wired and a transaction is given, as \<^verbatim>\<open>internal/app\<close> and the callers do it.
\<close>

section \<open>Members of a request\<close>

definition resolveMemberID :: "ext \<Rightarrow> json_object \<Rightarrow> string" where
  "resolveMemberID L m =
     (let mv = TrimSpace (textMember m ''value''); ref = textMember m ''$ref'' in
      if mv \<noteq> [] then (case uuid_parse L mv of Some u \<Rightarrow> u | None \<Rightarrow> mv)
      else if TrimSpace ref \<noteq> [] then ExtractUUIDFromRef L ref else [])"

text \<open>The trimmed text of a member of the object, which has to be a string if it is there.\<close>

definition stringMember :: "json_object \<Rightarrow> string \<Rightarrow> string \<Rightarrow> string res" where
  "stringMember m k what =
     (case jget m k of JNull \<Rightarrow> Inr [] | JStr s \<Rightarrow> Inr (TrimSpace s)
      | _ \<Rightarrow> invalidValue (''Member '' @ what @ '' must be a string''))"

definition checkMemberValueRefConflict :: "ext \<Rightarrow> json_object \<Rightarrow> unit res" where
  "checkMemberValueRefConflict L m =
     rbind (stringMember m ''value'' ''value'') (\<lambda>memberValue.
     rbind (stringMember m ''$ref'' ''$ref'') (\<lambda>refStr.
       let refUUID = ExtractUUIDFromRef L refStr in
       if memberValue \<noteq> [] \<and> refStr \<noteq> [] \<and> refUUID \<noteq> [] \<and> \<not> EqualFold L memberValue refUUID
       then invalidValue ''Member value and $ref refer to different resource IDs'' else Inr ()))"

text \<open>\<^verbatim>\<open>value.([]map[string]any)\<close> or the objects of an array; with the envelope also \<^verbatim>\<open>value.members\<close>.\<close>

definition membersPayload :: "json \<Rightarrow> json_object list" where
  "membersPayload v = (case v of JArr xs \<Rightarrow> objects xs | JObj m \<Rightarrow> [m] | _ \<Rightarrow> [])"

definition extractMembersPayload :: "json \<Rightarrow> bool \<Rightarrow> json_object list" where
  "extractMembersPayload v allowEnvelope =
     (case v of
        JObj m \<Rightarrow> if allowEnvelope \<and> ''members'' \<in> fst ` set m then membersPayload (jget m ''members'') else [m]
      | _ \<Rightarrow> membersPayload v)"

section \<open>Filters of a members path\<close>

definition word_char :: "char \<Rightarrow> bool" where
  "word_char c \<longleftrightarrow> is_digit c \<or> is_upper c \<or> is_lower c \<or> c = CHR ''_''"

text \<open>\<^verbatim>\<open>\s+eq\s+"([^"]+)"\<close> at the start of a string, letters in either case: the text in quotes.\<close>

definition eqText :: "string \<Rightarrow> string option" where
  "eqText s =
     (let t = dropWhile regex_space s; u = drop 2 t; v = dropWhile regex_space u;
          m = takeWhile (\<lambda>c. c \<noteq> dquote) (drop 1 v) in
      if t \<noteq> s \<and> map ascii_lower (take 2 t) = ''eq'' \<and> v \<noteq> u \<and> take 1 v = [dquote]
         \<and> m \<noteq> [] \<and> length m < length (drop 1 v) then Some m else None)"

text \<open>The leftmost match of a keyword followed by \<open>eqText\<close>; \<open>bound\<close> says that \<^verbatim>\<open>\b\<close> comes first.\<close>

fun findEq :: "bool \<Rightarrow> string \<Rightarrow> bool \<Rightarrow> string \<Rightarrow> string option" where
  "findEq bound kw afterWord [] = None"
| "findEq bound kw afterWord (c # cs) =
     (case (if map ascii_lower (take (length kw) (c # cs)) = kw \<and> (bound \<longrightarrow> \<not> afterWord)
            then eqText (drop (length kw) (c # cs)) else None) of
        Some m \<Rightarrow> Some m
      | None \<Rightarrow> findEq bound kw (word_char c) cs)"

definition memberValueFilter :: "string \<Rightarrow> string option" where
  "memberValueFilter = findEq True ''value'' False"

definition memberRefFilter :: "string \<Rightarrow> string option" where
  "memberRefFilter = findEq False ''$ref'' False"

definition extractFilterValue :: "ext \<Rightarrow> string \<Rightarrow> string" where
  "extractFilterValue L filterExpr =
     (case memberValueFilter filterExpr of
        Some v \<Rightarrow> TrimSpace v
      | None \<Rightarrow> (case memberRefFilter filterExpr of Some v \<Rightarrow> ExtractUUIDFromRef L v | None \<Rightarrow> []))"

text \<open>\<^verbatim>\<open>members[filter]rest\<close>: the filter and, in lower case, the rest.\<close>

definition splitMembersPath :: "ext \<Rightarrow> string \<Rightarrow> (string \<times> string) res" where
  "splitMembersPath L path =
     (case Index path '']'' of
        Some closeIdx \<Rightarrow>
          if closeIdx < 8 then Inl (NewScimError 400 ''invalidFilter'' (''Invalid member filter in path: '' @ path))
          else (let filterExpr = TrimSpace (drop 8 (take closeIdx path)) in
            if filterExpr = [] then Inl (NewScimError 400 ''invalidFilter'' (''Empty valuePath filter in path: '' @ path))
            else Inr (filterExpr, ToLower L (TrimSpace (drop (closeIdx + 1) path))))
      | None \<Rightarrow> Inl (NewScimError 400 ''invalidFilter'' (''Invalid member filter in path: '' @ path)))"

section \<open>Attributes\<close>

definition parseGroupExternalID :: "ext \<Rightarrow> json \<Rightarrow> string option res" where
  "parseGroupExternalID L raw =
     (case raw of JNull \<Rightarrow> Inr None | JStr s \<Rightarrow> Inr (Some (NormalizeNFC L s))
      | _ \<Rightarrow> invalidValue (''Attribute '' @ quoted ''externalId'' @ '' must be a string''))"

definition requiredDisplayName :: "ext \<Rightarrow> json_object \<Rightarrow> string res" where
  "requiredDisplayName L input =
     (let displayName = NormalizeNFC L (textMember input ''displayName'') in
      if displayName = [] then invalidValue ''displayName is required'' else Inr displayName)"

text \<open>A new \<^verbatim>\<open>displayName\<close> of a PATCH, a string that is not empty, and a new \<^verbatim>\<open>externalId\<close>.\<close>

definition patchDisplayName :: "ext \<Rightarrow> json \<Rightarrow> string res" where
  "patchDisplayName L v =
     (let s = (case v of JStr s \<Rightarrow> NormalizeNFC L s | _ \<Rightarrow> []) in
      if s = [] then invalidValue (''Attribute '' @ quoted ''displayName'' @ '' must be a non-empty string'') else Inr s)"

definition patchExternalID :: "ext \<Rightarrow> json \<Rightarrow> ScimGroup \<Rightarrow> ScimGroup res" where
  "patchExternalID L v g =
     (case v of JStr s \<Rightarrow> Inr (g\<lparr>GroupExternalID := Some (NormalizeNFC L s)\<rparr>)
      | _ \<Rightarrow> invalidValue (''Attribute '' @ quoted ''externalId'' @ '' must be a string''))"

definition cleanGroupPatchPath :: "ext \<Rightarrow> string \<Rightarrow> string" where
  "cleanGroupPatchPath L rawPath =
     (let p = TrimSpace rawPath; pre = ToLower L GroupSchemaURN @ '':'' in
      if HasPrefix (ToLower L p) pre then TrimSpace (drop (length pre) p) else p)"

definition isGroupReadOnlyAttr :: "ext \<Rightarrow> string \<Rightarrow> bool" where
  "isGroupReadOnlyAttr L cleanPath \<longleftrightarrow>
     (let lp = ToLower L (TrimSpace cleanPath) in lp = ''id'' \<or> lp = ''meta'' \<or> HasPrefix lp ''meta.'')"

definition readOnlyGroupAttr :: "string \<Rightarrow> 'a attempt" where
  "readOnlyGroupAttr p = reject 400 ''mutability'' (''Attribute '' @ quoted p @ '' is readOnly and cannot be modified'')"

definition groupNameTaken :: "string \<Rightarrow> 'a attempt" where
  "groupNameTaken name = reject 409 ''uniqueness'' (''Group with displayName '' @ quoted name @ '' already exists'')"

definition isGroupDisplayNameConflict :: "ext \<Rightarrow> db_error \<Rightarrow> bool" where
  "isGroupDisplayNameConflict L e =
     (case e of UniqueViolation c \<Rightarrow> Contains (ToLower L c) ''display_name'' | _ \<Rightarrow> False)"

text \<open>The groups before and after a PATCH are compared by their members' values and types, in any order.\<close>

definition memberKey :: "ext \<Rightarrow> ScimGroupMembership \<Rightarrow> string" where
  "memberKey L m = MemberValue m @ ''|'' @ (case MemberType m of None \<Rightarrow> [] | Some t \<Rightarrow> ToLower L t)"

primrec takeKeys :: "string list \<Rightarrow> string list \<Rightarrow> bool" where
  "takeKeys setA [] = True"
| "takeKeys setA (k # ks) = (k \<in> set setA \<and> takeKeys (remove1 k setA) ks)"

definition groupMembersEqual :: "ext \<Rightarrow> ScimGroupMembership list \<Rightarrow> ScimGroupMembership list \<Rightarrow> bool" where
  "groupMembersEqual L a b \<longleftrightarrow> length a = length b \<and> takeKeys (map (memberKey L) a) (map (memberKey L) b)"

section \<open>The type of a member\<close>

definition validateMemberTypeImmutability :: "ext \<Rightarrow> ScimGroupMembership list \<Rightarrow> json_object list \<Rightarrow> unit res" where
  "validateMemberTypeImmutability L existing members =
     (let types = List.map_filter (\<lambda>m. case MemberType m of
              Some t \<Rightarrow> if t \<noteq> [] then Some (MemberValue m, t) else None | None \<Rightarrow> None) (rev existing);
          bad = filter (\<lambda>m. case uuid_parse L (resolveMemberID L m) of
              None \<Rightarrow> False
            | Some u \<Rightarrow> (case map_of types u of
                None \<Rightarrow> False
              | Some t \<Rightarrow> (let newType = textMember m ''type'' in newType \<noteq> [] \<and> \<not> EqualFold L t newType)))
            (filter (\<lambda>m. resolveMemberID L m \<noteq> []) members) in
      case bad of [] \<Rightarrow> Inr ()
      | m # _ \<Rightarrow> Inl (NewScimError 400 ''mutability''
          (''Group member type is immutable and cannot be changed for member: '' @ resolveMemberID L m)))"

text \<open>\<^verbatim>\<open>rawMembers.([]any)\<close> of a PUT.\<close>

definition checkMemberTypeImmutability :: "ext \<Rightarrow> string \<Rightarrow> json \<Rightarrow> unit attempt" where
  "checkMemberTypeImmutability L groupID rawMembers =
     (if rawMembers = JNull then Ret (Inr ())
      else andThen (fromDb (findMembers groupID)) (\<lambda>existing.
        checked (validateMemberTypeImmutability L existing
          (case rawMembers of JArr xs \<Rightarrow> objects xs | _ \<Rightarrow> []))))"

section \<open>Adding members\<close>

definition explicitMemberType :: "ext \<Rightarrow> json_object \<Rightarrow> string res" where
  "explicitMemberType L m =
     (case jget m ''type'' of
        JNull \<Rightarrow> Inr []
      | JStr t \<Rightarrow>
          if t = [] then Inr []
          else if EqualFold L t ''Group'' then Inr ''Group''
          else if EqualFold L t ''User'' then Inr ''User''
          else invalidValue (''Invalid member type: '' @ t)
      | _ \<Rightarrow> invalidValue ''Member type must be a string'')"

definition userDisplay :: "ScimUser \<Rightarrow> string" where
  "userDisplay u = (case DisplayName u of Some d \<Rightarrow> if d \<noteq> [] then d else UserName u | None \<Rightarrow> UserName u)"

text \<open>\<^verbatim>\<open>FindByIDAndWorkspaceIDTx\<close> with a failure taken for no row.\<close>

definition memberUser :: "string \<Rightarrow> string \<Rightarrow> (ScimUser option \<Rightarrow> 'b prog) \<Rightarrow> 'b prog" where
  "memberUser u wsID k = findUser u wsID (\<lambda>r. k (case r of Inr (Some user) \<Rightarrow> Some user | _ \<Rightarrow> None))"

definition memberGroup :: "string \<Rightarrow> string \<Rightarrow> (ScimGroup option \<Rightarrow> 'b prog) \<Rightarrow> 'b prog" where
  "memberGroup u wsID k = pbind (findGroup u wsID) (\<lambda>r. k (case r of Inr (Some g) \<Rightarrow> Some g | _ \<Rightarrow> None))"

text \<open>The resource a member refers to: its type and display name. An omitted type is looked up.\<close>

definition resolveMember :: "string \<Rightarrow> string \<Rightarrow> string \<Rightarrow> string \<Rightarrow> (string \<times> string) attempt" where
  "resolveMember wsID memberValue u explicitType =
     (let missing = (\<lambda>what. reject 404 ''invalidValue'' (what @ '' not found: '' @ memberValue));
          group = (\<lambda>what. memberGroup u wsID (\<lambda>g. case g of
            Some g \<Rightarrow> Ret (Inr (''Group'', GroupDisplayName g)) | None \<Rightarrow> missing what));
          user = (\<lambda>other. memberUser u wsID (\<lambda>r. case r of
            Some r \<Rightarrow> Ret (Inr (''User'', userDisplay r)) | None \<Rightarrow> other)) in
      if explicitType = ''User'' then user (missing ''User'')
      else if explicitType = ''Group'' then group ''Group''
      else user (group ''Member resource''))"

definition addMember :: "ext \<Rightarrow> string \<Rightarrow> string \<Rightarrow> json_object \<Rightarrow> unit attempt" where
  "addMember L groupID wsID m =
     andThen (checked (checkMemberValueRefConflict L m)) (\<lambda>_.
       let memberValue = resolveMemberID L m in
       if memberValue = [] then reject 400 ''invalidValue'' ''Member value is required''
       else (case uuid_parse L memberValue of
           None \<Rightarrow> reject 400 ''invalidValue'' (''Invalid member value (must be UUID): '' @ memberValue)
         | Some u \<Rightarrow>
             andThen (checked (explicitMemberType L m)) (\<lambda>explicitType.
             andThen (resolveMember wsID memberValue u explicitType) (\<lambda>(memberType, found).
               let given = NormalizeNFC L (textMember m ''display'');
                   display = (if given = [] then found else given) in
               newUUID (\<lambda>mid. fromDb (createMembers
                 [\<lparr>MembershipID = mid, MemberGroupID = groupID, MemberWorkspaceID = wsID, MemberValue = u,
                   MemberType = Some memberType, MemberDisplay = Some display\<rparr>]))))))"

text \<open>The members of a whole list; an entry for a member seen before is skipped.\<close>

definition addDistinct :: "ext \<Rightarrow> string \<Rightarrow> string \<Rightarrow> json_object list \<Rightarrow> unit attempt" where
  "addDistinct L groupID wsID members =
     andThen (forEach (\<lambda>m seen.
         andThen (checked (checkMemberValueRefConflict L m)) (\<lambda>_.
           let mv = resolveMemberID L m in
           if mv \<noteq> [] \<and> mv \<in> set seen then Ret (Inr seen)
           else andThen (addMember L groupID wsID m) (\<lambda>_. Ret (Inr (if mv = [] then seen else mv # seen))))) [] members)
       (\<lambda>_. Ret (Inr ()))"

definition inputMembers :: "json_object \<Rightarrow> json_object list" where
  "inputMembers input = objects (arrayMember input ''members'')"

section \<open>PATCH operations\<close>

text \<open>The result of a change of memberships is the group with its members read again.\<close>

definition reloadMembers :: "ScimGroup \<Rightarrow> ScimGroup attempt" where
  "reloadMembers g = andThen (fromDb (findMembers (GroupID g))) (\<lambda>ms. Ret (Inr (g\<lparr>Members := ms\<rparr>)))"

definition replaceMembers :: "ext \<Rightarrow> ScimGroup \<Rightarrow> string \<Rightarrow> json_object list \<Rightarrow> ScimGroup attempt" where
  "replaceMembers L g wsID members =
     andThen (checked (validateMemberTypeImmutability L (Members g) members)) (\<lambda>_.
     andThen (fromDb (deleteMembersOfGroup (GroupID g))) (\<lambda>_.
     andThen (addDistinct L (GroupID g) wsID members) (\<lambda>_. reloadMembers g)))"

text \<open>The loop of \<^verbatim>\<open>addMissingMembersTx\<close>: \<open>known\<close> has the members of the group and those added so far. Its
  result says whether the members have to be read again.\<close>

primrec addMissing :: "ext \<Rightarrow> string \<Rightarrow> string \<Rightarrow> json_object list \<Rightarrow> string list \<Rightarrow> bool \<Rightarrow> bool attempt" where
  "addMissing L groupID wsID [] known addedAny = Ret (Inr addedAny)"
| "addMissing L groupID wsID (m # ms) known addedAny =
     andThen (checked (checkMemberValueRefConflict L m)) (\<lambda>_.
       let mv = resolveMemberID L m; key = (case uuid_parse L mv of Some u \<Rightarrow> u | None \<Rightarrow> mv) in
       if mv = [] then
         (if TrimSpace (textMember m ''$ref'') \<noteq> [] then andThen (addMember L groupID wsID m) (\<lambda>_. Ret (Inr False))
          else addMissing L groupID wsID ms known addedAny)
       else if key \<in> set known then addMissing L groupID wsID ms known addedAny
       else andThen (addMember L groupID wsID m) (\<lambda>_. addMissing L groupID wsID ms (key # known) True))"

definition addMissingMembers :: "ext \<Rightarrow> ScimGroup \<Rightarrow> string \<Rightarrow> json_object list \<Rightarrow> ScimGroup attempt" where
  "addMissingMembers L g wsID members =
     andThen (addMissing L (GroupID g) wsID members (map MemberValue (Members g)) False) (\<lambda>added.
       if added then reloadMembers g else Ret (Inr g))"

definition updateDisplayName :: "ext \<Rightarrow> ScimGroup \<Rightarrow> string \<Rightarrow> string \<Rightarrow> ScimGroup attempt" where
  "updateDisplayName L g wsID name =
     (let newName = NormalizeNFC L name; renamed = Ret (Inr (g\<lparr>GroupDisplayName := newName\<rparr>)) in
      if GroupDisplayName g = newName then renamed
      else andThen (fromDb (findGroupByName newName wsID)) (\<lambda>existing. case existing of
          Some other \<Rightarrow> if GroupID other \<noteq> GroupID g then groupNameTaken newName else renamed
        | None \<Rightarrow> renamed))"

definition patchName :: "ext \<Rightarrow> ScimGroup \<Rightarrow> string \<Rightarrow> json \<Rightarrow> ScimGroup attempt" where
  "patchName L g wsID v = andThen (checked (patchDisplayName L v)) (updateDisplayName L g wsID)"

text \<open>The members of the value of an operation without a path; the keys have the URN of the group schema
  removed and any case. \<open>ext\<close> and \<open>mem\<close> are what \<^verbatim>\<open>add\<close> and \<^verbatim>\<open>replace\<close> do to the attributes they differ on.\<close>

definition groupValueMap :: "ext \<Rightarrow> (json \<Rightarrow> ScimGroup \<Rightarrow> ScimGroup res)
    \<Rightarrow> (ScimGroup \<Rightarrow> json_object list \<Rightarrow> ScimGroup attempt) \<Rightarrow> ScimGroup \<Rightarrow> string \<Rightarrow> json_object \<Rightarrow> ScimGroup attempt" where
  "groupValueMap L ext mem g wsID valueMap =
     forEach (\<lambda>(rawKey, v) g.
       let cleanKey = cleanGroupPatchPath L rawKey; key = ToLower L cleanKey in
       if EqualFold L rawKey ''schemas'' then Ret (Inr g)
       else if isGroupReadOnlyAttr L cleanKey then readOnlyGroupAttr cleanKey
       else if key = ''displayname'' then patchName L g wsID v
       else if key = ''externalid'' then checked (ext v g)
       else if key = ''members'' then mem g (extractMembersPayload v False)
       else reject 400 ''invalidPath'' (''Unknown Group attribute: '' @ cleanKey)) g valueMap"

definition applyAddValueMap :: "ext \<Rightarrow> ScimGroup \<Rightarrow> string \<Rightarrow> json_object \<Rightarrow> ScimGroup attempt" where
  "applyAddValueMap L g wsID =
     groupValueMap L (\<lambda>v g. if v = JNull then Inr g else patchExternalID L v g)
       (\<lambda>g members. addMissingMembers L g wsID members) g wsID"

text \<open>\<^verbatim>\<open>null\<close> removes the \<^verbatim>\<open>externalId\<close>.\<close>

definition replaceExternalID :: "ext \<Rightarrow> json \<Rightarrow> ScimGroup \<Rightarrow> ScimGroup res" where
  "replaceExternalID L v g = (if v = JNull then Inr (g\<lparr>GroupExternalID := None\<rparr>) else patchExternalID L v g)"

definition applyReplaceValueMap :: "ext \<Rightarrow> ScimGroup \<Rightarrow> string \<Rightarrow> json_object \<Rightarrow> ScimGroup attempt" where
  "applyReplaceValueMap L g wsID =
     groupValueMap L (replaceExternalID L) (\<lambda>g members. replaceMembers L g wsID members) g wsID"

text \<open>\<^verbatim>\<open>add\<close> with a sub-attribute of a member: only a type can be added, if there is none.\<close>

definition canonicalMemberType :: "ext \<Rightarrow> json \<Rightarrow> string res" where
  "canonicalMemberType L v =
     (case v of
        JStr rawType \<Rightarrow> (let t = TrimSpace rawType in
          if t = [] then invalidValue (''Member type must be '' @ quoted ''User'' @ '' or '' @ quoted ''Group'')
          else if EqualFold L t ''User'' then Inr ''User''
          else if EqualFold L t ''Group'' then Inr ''Group''
          else invalidValue (''Invalid member type: '' @ rawType))
      | _ \<Rightarrow> invalidValue (''Member type must be '' @ quoted ''User'' @ '' or '' @ quoted ''Group''))"

definition nilUUID :: string where
  "nilUUID = ''00000000-0000-0000-0000-000000000000''"

text \<open>The first member with the value gets the type.\<close>

fun setTypeAt :: "string \<Rightarrow> string \<Rightarrow> ScimGroupMembership list \<Rightarrow> ScimGroupMembership list" where
  "setTypeAt u t [] = []"
| "setTypeAt u t (m # ms) = (if MemberValue m = u then m\<lparr>MemberType := Some t\<rparr> # ms else m # setTypeAt u t ms)"

definition setMemberType :: "ScimGroup \<Rightarrow> string \<Rightarrow> string \<Rightarrow> ScimGroupMembership \<Rightarrow> string \<Rightarrow> ScimGroup attempt" where
  "setMemberType g wsID u m t =
     (let missing = reject 400 ''invalidValue'' (''Referenced '' @ t @ '' member not found: '' @ u);
          store = andThen (if MembershipID m \<noteq> nilUUID then fromDb (updateMemberType (MembershipID m) wsID t)
              else Ret (Inr ())) (\<lambda>_. Ret (Inr (g\<lparr>Members := setTypeAt u t (Members g)\<rparr>))) in
      if t = ''User'' then memberUser u wsID (\<lambda>r. if r = None then missing else store)
      else memberGroup u wsID (\<lambda>r. if r = None then missing else store))"

definition applyMemberSubAttrAdd :: "ext \<Rightarrow> ScimGroup \<Rightarrow> string \<Rightarrow> string \<Rightarrow> json \<Rightarrow> ScimGroup attempt" where
  "applyMemberSubAttrAdd L g wsID path value =
     andThen (checked (splitMembersPath L path)) (\<lambda>(filterExpr, rest).
       if rest = ''.value'' \<or> rest = ''.$ref'' then reject 400 ''mutability'' ''Group member attribute is immutable''
       else if rest = ''.display'' then Ret (Inr g)
       else if rest \<noteq> ''.type'' then reject 400 ''invalidPath'' (''Unsupported PATCH path: '' @ path)
       else andThen (checked (canonicalMemberType L value)) (\<lambda>t.
         let noTarget = reject 400 ''noTarget'' (''No matching member found for path: '' @ path);
             targetValue = extractFilterValue L filterExpr in
         case uuid_parse L targetValue of
           None \<Rightarrow> noTarget
         | Some u \<Rightarrow>
             if targetValue = [] then noTarget
             else (case find (\<lambda>m. MemberValue m = u) (Members g) of
                 None \<Rightarrow> noTarget
               | Some m \<Rightarrow> (let existing = (case MemberType m of None \<Rightarrow> [] | Some e \<Rightarrow> TrimSpace e) in
                   if existing \<noteq> [] then
                     (if EqualFold L existing t then Ret (Inr g)
                      else reject 400 ''mutability'' ''Group member attribute is immutable'')
                   else setMemberType g wsID u m t))))"

definition applyGroupAdd :: "ext \<Rightarrow> ScimGroup \<Rightarrow> string \<Rightarrow> string \<Rightarrow> json \<Rightarrow> ScimGroup attempt" where
  "applyGroupAdd L g wsID path value =
     (let lp = ToLower L path in
      if lp = ''members'' then addMissingMembers L g wsID (extractMembersPayload value True)
      else if lp = ''displayname'' then patchName L g wsID value
      else if lp = ''externalid'' then checked (patchExternalID L value g)
      else if path = [] then
        (case value of
           JObj m \<Rightarrow> (let ks = fst ` set m in
             if (''value'' \<in> ks \<or> ''$ref'' \<in> ks) \<and> length m \<le> 4 \<and> ''displayName'' \<notin> ks \<and> ''members'' \<notin> ks
             then addMissingMembers L g wsID [m]
             else applyAddValueMap L g wsID m)
         | JArr xs \<Rightarrow> addMissingMembers L g wsID (extractMembersPayload (JArr xs) False)
         | _ \<Rightarrow> reject 400 ''invalidSyntax'' ''Pathless PATCH add requires an object value'')
      else if HasPrefix lp ''members['' then applyMemberSubAttrAdd L g wsID path value
      else reject 400 ''invalidPath'' (''Unsupported PATCH path: '' @ path))"

definition applyGroupReplace :: "ext \<Rightarrow> ScimGroup \<Rightarrow> string \<Rightarrow> string \<Rightarrow> json \<Rightarrow> ScimGroup attempt" where
  "applyGroupReplace L g wsID path value =
     (let lp = ToLower L path in
      if lp = ''members'' then replaceMembers L g wsID (extractMembersPayload value False)
      else if lp = ''displayname'' then patchName L g wsID value
      else if lp = ''externalid'' then checked (replaceExternalID L value g)
      else if path = [] then
        (case value of JObj m \<Rightarrow> applyReplaceValueMap L g wsID m
         | _ \<Rightarrow> reject 400 ''invalidSyntax'' ''Pathless PATCH replace requires an object value'')
      else if HasPrefix lp ''members['' \<and> (HasSuffix lp ''.type'' \<or> HasSuffix lp ''.value'' \<or> HasSuffix lp ''.$ref'') then
        reject 400 ''mutability'' ''Group member attribute is immutable''
      else if HasPrefix lp ''members['' \<and> HasSuffix lp ''.display'' then Ret (Inr g)
      else reject 400 ''invalidPath'' (''Unsupported PATCH path: '' @ path))"

definition dropMember :: "string \<Rightarrow> ScimGroup \<Rightarrow> ScimGroup" where
  "dropMember u g = g\<lparr>Members := filter (\<lambda>m. MemberValue m \<noteq> u) (Members g)\<rparr>"

text \<open>A failure to delete a member of the list is logged and dropped.\<close>

definition removeMembersByValueList :: "ext \<Rightarrow> ScimGroup \<Rightarrow> json list \<Rightarrow> ScimGroup attempt" where
  "removeMembersByValueList L g rawList =
     forEach (\<lambda>m g.
       andThen (checked (checkMemberValueRefConflict L m)) (\<lambda>_.
         case (if resolveMemberID L m = [] then None else uuid_parse L (resolveMemberID L m)) of
           None \<Rightarrow> Ret (Inr g)
         | Some u \<Rightarrow> pbind (deleteMembers (GroupID g) [u]) (\<lambda>_. Ret (Inr (dropMember u g))))) g (objects rawList)"

definition applyGroupRemove :: "ext \<Rightarrow> ScimGroup \<Rightarrow> string \<Rightarrow> json \<Rightarrow> ScimGroup attempt" where
  "applyGroupRemove L g path value =
     (let lp = ToLower L path in
      if lp = ''displayname'' then
        reject 400 ''mutability'' (''Required attribute '' @ quoted ''displayName'' @ '' cannot be removed'')
      else if lp = ''externalid'' then Ret (Inr (g\<lparr>GroupExternalID := None\<rparr>))
      else if lp = ''members'' then
        (case value of
           JArr (x # xs) \<Rightarrow> removeMembersByValueList L g (x # xs)
         | _ \<Rightarrow> andThen (fromDb (deleteMembersOfGroup (GroupID g))) (\<lambda>_. Ret (Inr (g\<lparr>Members := []\<rparr>))))
      else if HasPrefix lp ''members['' then
        andThen (checked (splitMembersPath L path)) (\<lambda>(filterExpr, rest).
          if rest = ''.value'' \<or> rest = ''.type'' \<or> rest = ''.$ref'' then
            reject 400 ''mutability'' ''Group member attribute is immutable and cannot be removed''
          else (let targetValue = extractFilterValue L filterExpr in
            case (if targetValue = [] then None else uuid_parse L targetValue) of
              None \<Rightarrow> Ret (Inr g)
            | Some u \<Rightarrow> andThen (fromDb (deleteMembers (GroupID g) [u])) (\<lambda>_. Ret (Inr (dropMember u g)))))
      else if path = [] then
        (case value of JArr xs \<Rightarrow> removeMembersByValueList L g xs
         | _ \<Rightarrow> reject 400 ''noTarget'' (''PATCH remove operation requires a '' @ quoted ''path''))
      else reject 400 ''invalidPath'' (''Unsupported PATCH remove path: '' @ path))"

text \<open>\<^verbatim>\<open>fmt.Sprintf("%v", op["op"])\<close>. Only a string can be an operation, so of the other values, which end in
  the text of an error, numbers are printed as they were sent.\<close>

fun printValue :: "json \<Rightarrow> string" where
  "printValue JNull = ''<nil>''"
| "printValue (JBool b) = (if b then ''true'' else ''false'')"
| "printValue (JNum n) = n"
| "printValue (JStr s) = s"
| "printValue (JArr xs) = ''['' @ Join (map printValue xs) '' '' @ '']''"
| "printValue (JObj kvs) = ''map['' @ Join (map (\<lambda>(k, v). k @ '':'' @ printValue v) kvs) '' '' @ '']''"

definition applyGroupPatchOp :: "ext \<Rightarrow> string \<Rightarrow> json_object \<Rightarrow> ScimGroup \<Rightarrow> ScimGroup attempt" where
  "applyGroupPatchOp L wsID op g =
     (let opType = ToLower L (printValue (jget op ''op''));
          path = cleanGroupPatchPath L (textMember op ''path''); value = jget op ''value'' in
      if isGroupReadOnlyAttr L path then readOnlyGroupAttr path
      else if opType = ''add'' then
        (if value = JNull then
           reject 400 ''invalidValue'' (''PATCH add operation must contain a '' @ quoted ''value'' @ '' member'')
         else applyGroupAdd L g wsID path value)
      else if opType = ''replace'' then applyGroupReplace L g wsID path value
      else if opType = ''remove'' then applyGroupRemove L g path value
      else reject 400 ''invalidValue'' (''Unsupported PATCH op: '' @ opType))"

section \<open>Create\<close>

definition newGroup :: "string \<Rightarrow> string \<Rightarrow> string \<Rightarrow> string option \<Rightarrow> int \<Rightarrow> int \<Rightarrow> ScimGroup" where
  "newGroup gid wsID displayName extID created modified =
     \<lparr>GroupID = gid, GroupWorkspaceID = wsID, GroupExternalID = extID, GroupDisplayName = displayName,
      GroupCreatedAt = created, GroupLastModified = modified, GroupVersion = 0, Members = []\<rparr>"

definition createGroupTx :: "ext \<Rightarrow> string \<Rightarrow> string \<Rightarrow> string option \<Rightarrow> json_object list \<Rightarrow> ScimGroup attempt" where
  "createGroupTx L wsID displayName extID members =
     pbind (findGroupByName displayName wsID) (\<lambda>r. case r of
         Inl _ \<Rightarrow> reject 500 [] ''Internal error''
       | Inr (Some _) \<Rightarrow> groupNameTaken displayName
       | Inr None \<Rightarrow>
           newUUID (\<lambda>gid. timeNow (\<lambda>created. timeNow (\<lambda>modified.
             pbind (createGroupRow (newGroup gid wsID displayName extID created modified)) (\<lambda>r. case r of
                 Inl e \<Rightarrow> if isGroupDisplayNameConflict L e then groupNameTaken displayName
                   else reject 500 [] ''Failed to create group''
               | Inr g \<Rightarrow>
                   andThen (addDistinct L (GroupID g) wsID members) (\<lambda>_.
                   pbind (findMembers (GroupID g)) (\<lambda>r.
                     Ret (Inr (g\<lparr>Members := (case r of Inl _ \<Rightarrow> [] | Inr ms \<Rightarrow> ms)\<rparr>)))))))))"

definition executeCreateGroup :: "ext \<Rightarrow> string \<Rightarrow> json_object \<Rightarrow> ScimGroup attempt" where
  "executeCreateGroup L wsID input =
     andThen (checked (requiredDisplayName L input)) (\<lambda>displayName.
     andThen (checked (parseGroupExternalID L (jget input ''externalId''))) (\<lambda>extID.
     andThen (inTransaction (createGroupTx L wsID displayName extID (inputMembers input))) (\<lambda>g.
       touchWorkspace wsID (Ret (Inr g)))))"

section \<open>Replace and patch\<close>

definition loadGroup :: "string \<Rightarrow> string \<Rightarrow> string \<Rightarrow> ScimGroup attempt" where
  "loadGroup wsID groupID ifMatch =
     memberGroup groupID wsID (\<lambda>r. case r of
         None \<Rightarrow> reject 404 [] ''Group not found''
       | Some g \<Rightarrow> if checkETagMatch ifMatch (GroupVersion g) then Ret (Inr g) else reject 412 [] ''ETag mismatch'')"

definition replaceGroupTx :: "ext \<Rightarrow> string \<Rightarrow> string \<Rightarrow> json_object \<Rightarrow> string \<Rightarrow> ScimGroup attempt" where
  "replaceGroupTx L wsID groupID input ifMatch =
     andThen (loadGroup wsID groupID ifMatch) (\<lambda>g.
     andThen (checked (requiredDisplayName L input)) (\<lambda>displayName.
     andThen (checked (parseGroupExternalID L (jget input ''externalId''))) (\<lambda>extID.
     andThen (if displayName \<noteq> GroupDisplayName g then fromDb (findGroupByName displayName wsID) else Ret (Inr None))
       (\<lambda>existing.
     if (case existing of Some other \<Rightarrow> GroupID other \<noteq> GroupID g | None \<Rightarrow> False) then groupNameTaken displayName
     else andThen (checkMemberTypeImmutability L (GroupID g) (jget input ''members'')) (\<lambda>_.
     andThen (fromDb (deleteMembersOfGroup (GroupID g))) (\<lambda>_.
     andThen (addDistinct L (GroupID g) wsID (inputMembers input)) (\<lambda>_.
     timeNow (\<lambda>modified.
     andThen (fromDb (updateGroupRow
         (g\<lparr>GroupDisplayName := displayName, GroupExternalID := extID, GroupLastModified := modified\<rparr>))) (\<lambda>g.
     reloadMembers g)))))))))"

text \<open>How an error of the transaction is shown: the name is the one the conflict is reported for.\<close>

definition groupStoreError :: "ext \<Rightarrow> string \<Rightarrow> go_error \<Rightarrow> ScimError" where
  "groupStoreError L conflict e =
     (case e of
        ScimErr s \<Rightarrow> s
      | DbErr d \<Rightarrow>
          if d = OptimisticLock then NewScimError 412 [] ''Resource changed''
          else if isGroupDisplayNameConflict L d then NewScimError 409 ''uniqueness'' conflict
          else NewScimError 500 [] ''Failed to update group'')"

definition executeReplaceGroup :: "ext \<Rightarrow> string \<Rightarrow> string \<Rightarrow> json_object \<Rightarrow> string \<Rightarrow> ScimGroup attempt" where
  "executeReplaceGroup L wsID groupID input ifMatch =
     pbind (inTransaction (replaceGroupTx L wsID groupID input ifMatch)) (\<lambda>r. case r of
         Inl e \<Rightarrow> returnErr (groupStoreError L
           (''Group with displayName '' @ quoted (NormalizeNFC L (textMember input ''displayName'')) @ '' already exists'') e)
       | Inr g \<Rightarrow> touchWorkspace wsID (Ret (Inr g)))"

text \<open>The group after the operations is stored only if it differs from the one before; the flag says so.\<close>

definition storeChanged :: "ext \<Rightarrow> ScimGroup \<Rightarrow> ScimGroup \<Rightarrow> (ScimGroup \<times> bool) attempt" where
  "storeChanged L before g =
     andThen (fromDb (findMembers (GroupID g))) (\<lambda>afterMembers.
       if GroupDisplayName g \<noteq> GroupDisplayName before \<or> GroupExternalID g \<noteq> GroupExternalID before
          \<or> \<not> groupMembersEqual L (Members before) afterMembers then
         timeNow (\<lambda>modified.
         andThen (fromDb (updateGroupRow (g\<lparr>GroupLastModified := modified\<rparr>))) (\<lambda>g.
         Ret (Inr (g\<lparr>Members := afterMembers\<rparr>, True))))
       else Ret (Inr (g\<lparr>Members := afterMembers\<rparr>, False)))"

definition patchGroupTx :: "ext \<Rightarrow> string \<Rightarrow> string \<Rightarrow> json_object list \<Rightarrow> string \<Rightarrow> (ScimGroup \<times> bool) attempt" where
  "patchGroupTx L wsID groupID ops ifMatch =
     andThen (loadGroup wsID groupID ifMatch) (\<lambda>found.
     andThen (reloadMembers found) (\<lambda>before.
     andThen (forEach (applyGroupPatchOp L wsID) before ops) (storeChanged L before)))"

definition executePatchGroup :: "ext \<Rightarrow> string \<Rightarrow> string \<Rightarrow> json_object list \<Rightarrow> string \<Rightarrow> ScimGroup attempt" where
  "executePatchGroup L wsID groupID ops ifMatch =
     pbind (inTransaction (patchGroupTx L wsID groupID ops ifMatch)) (\<lambda>r. case r of
         Inl e \<Rightarrow> returnErr (groupStoreError L ''Group displayName already exists'' e)
       | Inr (g, changed) \<Rightarrow> if changed then touchWorkspace wsID (Ret (Inr g)) else Ret (Inr g))"

section \<open>Delete\<close>

text \<open>Not a transaction; failures to delete memberships are logged and dropped.\<close>

definition executeDeleteGroup :: "string \<Rightarrow> string \<Rightarrow> string \<Rightarrow> unit attempt" where
  "executeDeleteGroup wsID groupID ifMatch =
     andThen (loadGroup wsID groupID ifMatch) (\<lambda>_.
     pbind (deleteMembersByValue groupID) (\<lambda>_.
     pbind (deleteMembersOfGroup groupID) (\<lambda>_.
     pbind (deleteGroupRow groupID wsID) (\<lambda>r. case r of
         Inl _ \<Rightarrow> reject 500 [] ''Failed to delete group''
       | Inr _ \<Rightarrow> touchWorkspace wsID (Ret (Inr ()))))))"

end
