(* ===== verification/GroupInv.thy ===== *)
theory GroupInv
  imports GroupHandler
begin

text \<open>
  Group requests run alone: what they do to the tables, what a transaction gives back on an error, and
  the invariant of the memberships.
\<close>

section \<open>Statements of a program\<close>

text \<open>\<open>only G p\<close>: whatever it is answered, \<open>p\<close> sends statements with \<open>G\<close> alone.\<close>

primrec only :: "(query \<Rightarrow> bool) \<Rightarrow> 'a prog \<Rightarrow> bool" where
  "only G (Ret x) \<longleftrightarrow> True"
| "only G (Ask q k) \<longleftrightarrow> G q \<and> (\<forall>a. only G (k a))"

lemma only_pbind: "only G p \<Longrightarrow> (\<And>x. only G (f x)) \<Longrightarrow> only G (pbind p f)"
  by (induction p) auto

lemma only_andThen: "only G p \<Longrightarrow> (\<And>x. only G (f x)) \<Longrightarrow> only G (andThen p f)"
  unfolding andThen_def by (auto intro!: only_pbind split: sum.split)

lemma only_forEach: "(\<And>x st. only G (f x st)) \<Longrightarrow> only G (forEach f st xs)"
  by (induction xs arbitrary: st) (auto intro!: only_andThen)

lemma only_fromDb: "only G p \<Longrightarrow> only G (fromDb p)"
  by (auto simp: fromDb_def intro!: only_pbind)

lemma only_Ret: "only G (Ret x)"
  by simp

lemma only_checked [simp]: "only G (checked r)"
  by (simp add: checked_def)

lemma only_returnErr [simp]: "only G (returnErr e)"
  by (simp add: returnErr_def)

lemma only_run:
  assumes "only G p" and "P s" and "\<And>q s. G q \<Longrightarrow> P s \<Longrightarrow> P (snd (exec D q s))"
  shows "P (snd (run D p s))"
  using assms(1,2)
proof (induction p arbitrary: s)
  case (Ask q k)
  obtain a s1 where e: "exec D q s = (a, s1)" by fastforce
  have "P s1" using assms(3) [of q s] Ask.prems e by simp
  then show ?case using Ask.IH [OF rangeI [of k a]] Ask.prems e by simp
qed simp

lemma only_cases:
  "(b \<Longrightarrow> only G p) \<Longrightarrow> (\<not> b \<Longrightarrow> only G q) \<Longrightarrow> only G (if b then p else q)"
  "only G n \<Longrightarrow> (\<And>x. only G (f x)) \<Longrightarrow> only G (case z of None \<Rightarrow> n | Some x \<Rightarrow> f x)"
  "(\<And>x. only G (g x)) \<Longrightarrow> (\<And>y. only G (h y)) \<Longrightarrow> only G (case r of Inl x \<Rightarrow> g x | Inr y \<Rightarrow> h y)"
  "(\<And>a b. only G (k a b)) \<Longrightarrow> only G (case c of (a, b) \<Rightarrow> k a b)"
  by (simp_all split: option.split sum.split prod.split)

lemma only_json:
  "only G a \<Longrightarrow> (\<And>b. only G (f b)) \<Longrightarrow> (\<And>n. only G (g n)) \<Longrightarrow> (\<And>t. only G (h t)) \<Longrightarrow> (\<And>xs. only G (i xs))
   \<Longrightarrow> (\<And>m. only G (j m)) \<Longrightarrow> only G (case v of JNull \<Rightarrow> a | JBool b \<Rightarrow> f b | JNum n \<Rightarrow> g n | JStr t \<Rightarrow> h t
       | JArr xs \<Rightarrow> i xs | JObj m \<Rightarrow> j m)"
  "only G p \<Longrightarrow> (\<And>y ys. only G (q y ys)) \<Longrightarrow> only G (case ys of [] \<Rightarrow> p | y # ys \<Rightarrow> q y ys)"
  by (simp_all split: json.split list.split)

lemmas only_intros = only_pbind only_andThen only_forEach only_fromDb only_cases

section \<open>Transactions\<close>

text \<open>Statements that do not belong in a transaction: those that begin or end one, and changes of the table of events,
  which a transaction would not give back.\<close>

definition transactional :: "query \<Rightarrow> bool" where
  "transactional q \<longleftrightarrow> (case q of Begin \<Rightarrow> True | Commit \<Rightarrow> True | Rollback \<Rightarrow> True | InsertEvent _ \<Rightarrow> True
     | UpdateEvent _ _ _ _ _ \<Rightarrow> True | PruneEvents _ _ _ \<Rightarrow> True | _ \<Rightarrow> False)"

abbreviation inside :: "'a prog \<Rightarrow> bool" where
  "inside \<equiv> only (\<lambda>q. \<not> transactional q)"

lemma exec_backup: "\<not> transactional q \<Longrightarrow> backup (snd (exec D q s)) = backup s"
  by (cases q) (auto simp: transactional_def Let_def split: sum.splits)

lemma inside_backup: "inside p \<Longrightarrow> backup (snd (run D p s)) = backup s"
  using only_run [of "\<lambda>q. \<not> transactional q" p "\<lambda>t. backup t = backup s"] exec_backup by metis

lemma exec_events: "\<not> transactional q \<Longrightarrow> event_rows (snd (exec D q s)) = event_rows s"
  by (cases q) (auto simp: transactional_def Let_def split: sum.splits)

lemma inside_events: "inside p \<Longrightarrow> event_rows (snd (run D p s)) = event_rows s"
  using only_run [of "\<lambda>q. \<not> transactional q" p "\<lambda>t. event_rows t = event_rows s"] exec_events by metis

lemma exec_issued: "set (issued s) \<subseteq> set (issued (snd (exec D q s)))"
  by (cases q) (auto simp: Let_def split: sum.splits option.splits)

lemma run_issued: "set (issued s) \<subseteq> set (issued (snd (run D p s)))"
proof (induction p arbitrary: s)
  case (Ask q k)
  obtain a s1 where e: "exec D q s = (a, s1)" by fastforce
  then have "set (issued s) \<subseteq> set (issued s1)" using exec_issued [of s D q] by simp
  also have "\<dots> \<subseteq> set (issued (snd (run D (k a) s1)))" by (rule Ask.IH) simp
  finally show ?case using e by simp
qed simp

text \<open>The tables, without the clock and the identifiers given out.\<close>

abbreviation tables_of :: "store \<Rightarrow> tables" where
  "tables_of s \<equiv> tables.truncate s"

lemma tables_of_eq:
  "tables_of s = tables_of t \<longleftrightarrow> user_rows s = user_rows t \<and> group_rows s = group_rows t
     \<and> member_rows s = member_rows t \<and> event_rows s = event_rows t \<and> workspace_rows s = workspace_rows t"
  by (simp add: tables.defs)

lemma run_andThen_Inr:
  assumes "run D (andThen p f) s = (Inr y, s')"
  obtains x s1 where "run D p s = (Inr x, s1)" "run D (f x) s1 = (Inr y, s')"
  using assms by (auto simp: andThen_def run_pbind split: prod.splits sum.splits)

lemma run_andThen_Inl:
  assumes "run D (andThen p f) s = (Inl e, s')"
  obtains "run D p s = (Inl e, s')" | x s1 where "run D p s = (Inr x, s1)" "run D (f x) s1 = (Inl e, s')"
  using assms by (auto simp: andThen_def run_pbind split: prod.splits sum.splits)

text \<open>What the model's own glue does, run alone.\<close>

lemma run_glue [simp]:
  "run D (checked r) s = (case r of Inl e \<Rightarrow> (Inl (ScimErr e), s) | Inr x \<Rightarrow> (Inr x, s))"
  "run D (returnErr e) s = (Inl (ScimErr e), s)"
  by (simp_all add: checked_def returnErr_def split: sum.split)

lemma run_command: "run D (command q) s = (case exec D q s of (a, s') \<Rightarrow> (rbind (affected a) (\<lambda>_. Inr ()), s'))"
  by (simp add: command_def split: prod.split)

lemma run_fromDb: "run D (fromDb p) s = (case run D p s of (r, s') \<Rightarrow> (case r of Inl e \<Rightarrow> Inl (DbErr e) | Inr x \<Rightarrow> Inr x, s'))"
  by (simp add: fromDb_def run_pbind split: prod.split)

lemma run_transaction:
  assumes "inside body" and "run D (inTransaction body) s = (r, s')"
  obtains (ok) x s1 where "r = Inr x" "run D body (s\<lparr>backup := Some (tables_of s)\<rparr>) = (Inr x, s1)" "s' = s1\<lparr>backup := None\<rparr>"
  | (error) e s1 where "r = Inl e" "run D body (s\<lparr>backup := Some (tables_of s)\<rparr>) = (Inl e, s1)" "tables_of s' = tables_of s"
      "issued s' = issued s1" "clock s' = clock s1"
proof -
  obtain b s1 where body: "run D body (s\<lparr>backup := Some (tables_of s)\<rparr>) = (b, s1)" by fastforce
  have bk: "backup s1 = Some (tables_of s)" using inside_backup [OF assms(1), of D "s\<lparr>backup := Some (tables_of s)\<rparr>"] body by simp
  have ev: "event_rows s1 = event_rows s" using inside_events [OF assms(1), of D "s\<lparr>backup := Some (tables_of s)\<rparr>"] body by simp
  show ?thesis
  proof (cases b)
    case (Inl e)
    then have "r = Inl e" "tables_of s' = tables_of s" "issued s' = issued s1" "clock s' = clock s1"
      using assms(2) body bk ev by (auto simp: inTransaction_def andThen_def run_pbind run_fromDb run_command tables.defs)
    then show ?thesis using error body Inl by blast
  next
    case (Inr x)
    then have "r = Inr x" "s' = s1\<lparr>backup := None\<rparr>"
      using assms(2) body by (auto simp: inTransaction_def andThen_def run_pbind run_fromDb run_command)
    then show ?thesis using ok body Inr by blast
  qed
qed

text \<open>The operations on a group look up users and groups and change memberships; no function of the group
  handler begins or ends the transaction it runs in.\<close>

definition member_work :: "query \<Rightarrow> bool" where
  "member_work q \<longleftrightarrow> (case q of TimeNow \<Rightarrow> True | NewUUID \<Rightarrow> True | SelectUser _ _ \<Rightarrow> True | SelectGroup _ _ \<Rightarrow> True
     | SelectGroupByName _ _ \<Rightarrow> True | SelectMembers _ \<Rightarrow> True | InsertMember _ \<Rightarrow> True | DeleteMembersOfGroup _ \<Rightarrow> True
     | DeleteMembers _ _ \<Rightarrow> True | SetMemberType _ _ _ \<Rightarrow> True | _ \<Rightarrow> False)"

abbreviation works :: "'a prog \<Rightarrow> bool" where
  "works \<equiv> only member_work"

lemma only_mono: "only G p \<Longrightarrow> (\<And>q. G q \<Longrightarrow> H q) \<Longrightarrow> only H p"
  by (induction p) auto

lemma works_inside: "works p \<Longrightarrow> inside p"
  by (erule only_mono) (auto simp: member_work_def transactional_def split: query.splits)


lemma works_statements:
  "works (findGroup gid ws)" "works (findGroupByName nm ws)"
  "works (findMembers gid)" "works (deleteMembersOfGroup gid)" "works (deleteMembers gid vs)"
  "works (updateMemberType mid ws t)" "works (createMembers ms)"
  by (auto simp: findGroup_def findGroupByName_def findMembers_def
      deleteMembersOfGroup_def deleteMembers_def updateMemberType_def createMembers_def command_def timeNow_def
      member_work_def intro!: only_intros)

lemma works_steps:
  "(\<And>t. works (k t)) \<Longrightarrow> works (timeNow k)" "(\<And>u. works (l u)) \<Longrightarrow> works (newUUID l)"
  "(\<And>r. works (h r)) \<Longrightarrow> works (memberUser u ws h)" "(\<And>r. works (j r)) \<Longrightarrow> works (memberGroup u ws j)"
  by (auto simp: timeNow_def newUUID_def memberUser_def findUser_def memberGroup_def findGroup_def member_work_def
      intro!: only_pbind)

lemmas works_intros = only_intros works_statements works_steps

lemma works_addMember: "works (addMember L gid ws m)"
proof -
  have "works (resolveMember ws mv u t)" for mv u t
    by (auto simp: resolveMember_def Let_def intro!: works_intros)
  then show ?thesis by (auto simp: addMember_def Let_def intro!: works_intros)
qed

lemma works_addDistinct: "works (addDistinct L gid ws ms)"
  by (auto simp: addDistinct_def Let_def intro!: works_intros works_addMember)

lemma works_reload: "works (reloadMembers g)"
  by (auto simp: reloadMembers_def intro!: works_intros)

lemma works_replaceMembers: "works (replaceMembers L g ws ms)"
  by (auto simp: replaceMembers_def intro!: works_intros works_addDistinct works_reload)

lemma works_addMissing: "works (addMissing L gid ws ms known added)"
  by (induction ms arbitrary: known added) (auto simp: Let_def intro!: works_intros works_addMember)

lemma works_addMissingMembers: "works (addMissingMembers L g ws ms)"
  by (auto simp: addMissingMembers_def intro!: works_intros works_addMissing works_reload)

lemma works_patchName: "works (patchName L g ws v)"
  by (auto simp: patchName_def updateDisplayName_def groupNameTaken_def Let_def intro!: works_intros)

lemma works_groupValueMap: "(\<And>g ms. works (mem g ms)) \<Longrightarrow> works (groupValueMap L e mem g ws m)"
  by (auto simp: groupValueMap_def readOnlyGroupAttr_def Let_def intro!: works_intros works_patchName)

lemma works_subAttr: "works (applyMemberSubAttrAdd L g ws p v)"
  unfolding applyMemberSubAttrAdd_def setMemberType_def Let_def
  by (intro works_intros only_checked only_returnErr only_Ret)

lemma works_add: "works (applyGroupAdd L g ws p v)"
  unfolding applyGroupAdd_def applyAddValueMap_def Let_def
  by (intro only_cases only_json works_addMissingMembers works_patchName works_groupValueMap works_subAttr
      only_checked only_returnErr)

lemma works_replace: "works (applyGroupReplace L g ws p v)"
  unfolding applyGroupReplace_def applyReplaceValueMap_def Let_def
  by (intro only_cases only_json works_replaceMembers works_patchName works_groupValueMap only_checked only_returnErr
      only_Ret)

lemma works_remove: "works (applyGroupRemove L g p v)"
proof -
  have "works (removeMembersByValueList L g xs)" for xs
    by (auto simp: removeMembersByValueList_def intro!: works_intros)
  then show ?thesis unfolding applyGroupRemove_def Let_def
    by (intro works_intros only_json only_checked only_returnErr only_Ret)
qed

lemma works_patchOp: "works (applyGroupPatchOp L ws op g)"
  unfolding applyGroupPatchOp_def readOnlyGroupAttr_def Let_def
  by (intro only_cases works_add works_replace works_remove only_returnErr)

lemma works_loadGroup: "works (loadGroup ws gid im)"
  by (auto simp: loadGroup_def intro!: works_intros)

lemma inside_rows: "inside (createGroupRow g)" "inside (updateGroupRow g)"
  by (auto simp: createGroupRow_def updateGroupRow_def command_def timeNow_def transactional_def Let_def intro!: only_intros)

lemma inside_timeNow: "(\<And>t. inside (k t)) \<Longrightarrow> inside (timeNow k)" "(\<And>u. inside (l u)) \<Longrightarrow> inside (newUUID l)"
  by (auto simp: timeNow_def newUUID_def transactional_def)

lemmas inside_work = works_statements [THEN works_inside] works_addDistinct [THEN works_inside]
  works_reload [THEN works_inside] works_loadGroup [THEN works_inside] works_patchOp [THEN works_inside]

lemma inside_transactions:
  "inside (createGroupTx L ws nm e ms)" "inside (replaceGroupTx L ws gid input im)" "inside (patchGroupTx L ws gid ops im)"
  by (auto simp: createGroupTx_def replaceGroupTx_def patchGroupTx_def storeChanged_def checkMemberTypeImmutability_def groupNameTaken_def Let_def
      intro!: only_intros inside_rows inside_timeNow inside_work)

text \<open>Member work changes memberships and the identifiers given out, nothing else.\<close>

lemma works_frame:
  assumes "works p"
  shows "group_rows (snd (run D p s)) = group_rows s" "user_rows (snd (run D p s)) = user_rows s"
    "workspace_rows (snd (run D p s)) = workspace_rows s" "clock (snd (run D p s)) = clock s"
proof -
  have "member_work q \<Longrightarrow> group_rows (snd (exec D q t)) = group_rows t \<and> user_rows (snd (exec D q t)) = user_rows t
      \<and> workspace_rows (snd (exec D q t)) = workspace_rows t \<and> clock (snd (exec D q t)) = clock t" for q t
    by (cases q) (auto simp: member_work_def Let_def split: sum.splits)
  then have "group_rows (snd (run D p s)) = group_rows s \<and> user_rows (snd (run D p s)) = user_rows s
      \<and> workspace_rows (snd (run D p s)) = workspace_rows s \<and> clock (snd (run D p s)) = clock s"
    by (intro only_run [OF assms, where P = "\<lambda>t. group_rows t = group_rows s \<and> user_rows t = user_rows s
      \<and> workspace_rows t = workspace_rows s \<and> clock t = clock s"]) simp_all
  then show "group_rows (snd (run D p s)) = group_rows s" "user_rows (snd (run D p s)) = user_rows s"
    "workspace_rows (snd (run D p s)) = workspace_rows s" "clock (snd (run D p s)) = clock s" by simp_all
qed

end
