(* ===== verification/GroupRun.thy ===== *)
theory GroupRun
  imports GroupInv UserInv
begin

text \<open>
  The invariant of the memberships and what each step of a group request does to it: a member refers to
  a group and to a user or group of its workspace, and no group has the same member twice.
\<close>

section \<open>The invariant\<close>

definition users_of :: "store \<Rightarrow> (string \<times> string) set" where
  "users_of s = (\<lambda>u. (ID u, WorkspaceID u)) ` set (user_rows s)"

definition groups_of :: "store \<Rightarrow> (string \<times> string) set" where
  "groups_of s = (\<lambda>g. (GroupID g, GroupWorkspaceID g)) ` set (group_rows s)"

definition target :: "store \<Rightarrow> string \<Rightarrow> string \<Rightarrow> string \<Rightarrow> bool" where
  "target s t u ws \<longleftrightarrow> t = ''User'' \<and> (u, ws) \<in> users_of s \<or> t = ''Group'' \<and> (u, ws) \<in> groups_of s"

definition refers :: "store \<Rightarrow> ScimGroupMembership \<Rightarrow> bool" where
  "refers s m \<longleftrightarrow> (MemberGroupID m, MemberWorkspaceID m) \<in> groups_of s
     \<and> (\<exists>t. MemberType m = Some t \<and> target s t (MemberValue m) (MemberWorkspaceID m))"

abbreviation slot :: "ScimGroupMembership \<Rightarrow> string \<times> string" where
  "slot m \<equiv> (MemberGroupID m, MemberValue m)"

definition members_ok :: "store \<Rightarrow> bool" where
  "members_ok s \<longleftrightarrow> (\<forall>m \<in> set (member_rows s). refers s m) \<and> distinct (map slot (member_rows s))
     \<and> fst ` groups_of s \<subseteq> set (issued s)"

text \<open>What \<^verbatim>\<open>uuid.Parse\<close> and \<^verbatim>\<open>String\<close> promise: the text of a UUID is read as itself.\<close>

definition uuid_canonical :: "ext \<Rightarrow> bool" where
  "uuid_canonical L \<longleftrightarrow> (\<forall>s u. uuid_parse L s = Some u \<longrightarrow> uuid_parse L u = Some u)"

abbreviation members_of :: "string \<Rightarrow> store \<Rightarrow> ScimGroupMembership list" where
  "members_of gid s \<equiv> filter (\<lambda>m. MemberGroupID m = gid) (member_rows s)"

definition values_of :: "string \<Rightarrow> store \<Rightarrow> string set" where
  "values_of gid s = MemberValue ` set (members_of gid s)"

lemma members_okI:
  "(\<And>m. m \<in> set (member_rows s) \<Longrightarrow> refers s m) \<Longrightarrow> distinct (map slot (member_rows s))
    \<Longrightarrow> fst ` groups_of s \<subseteq> set (issued s) \<Longrightarrow> members_ok s"
  by (simp add: members_ok_def)

lemma members_okD:
  assumes "members_ok s"
  shows "\<And>m. m \<in> set (member_rows s) \<Longrightarrow> refers s m" "distinct (map slot (member_rows s))"
    "fst ` groups_of s \<subseteq> set (issued s)"
  using assms by (simp_all add: members_ok_def)

lemma refers_mono: "refers s m \<Longrightarrow> users_of s \<subseteq> users_of t \<Longrightarrow> groups_of s \<subseteq> groups_of t \<Longrightarrow> refers t m"
  unfolding refers_def target_def by blast

text \<open>Fewer rows, or other rows for the same users and groups, keep the invariant.\<close>

lemma members_ok_subset:
  assumes "members_ok s" and "users_of s \<subseteq> users_of t" and "groups_of t = groups_of s"
    and "set (member_rows t) \<subseteq> set (member_rows s)" and "distinct (map slot (member_rows t))"
    and "set (issued s) \<subseteq> set (issued t)"
  shows "members_ok t"
proof (rule members_okI)
  show "refers t m" if "m \<in> set (member_rows t)" for m
    using members_okD(1) [OF assms(1), of m] that assms(2-4) by (auto intro: refers_mono)
qed (use members_okD(3) [OF assms(1)] assms(3,5,6) in auto)

lemma members_ok_filter:
  assumes "members_ok s"
  shows "members_ok (s\<lparr>member_rows := filter P (member_rows s)\<rparr>)"
proof (rule members_ok_subset [OF assms])
  show "distinct (map slot (member_rows (s\<lparr>member_rows := filter P (member_rows s)\<rparr>)))"
    using members_okD(2) [OF assms] by (simp add: distinct_map_filter)
qed (auto simp: users_of_def groups_of_def)

lemma frame_pairs [simp]:
  "users_of (s\<lparr>member_rows := ms\<rparr>) = users_of s" "groups_of (s\<lparr>member_rows := ms\<rparr>) = groups_of s"
  "users_of (s\<lparr>issued := is\<rparr>) = users_of s" "groups_of (s\<lparr>issued := is\<rparr>) = groups_of s"
  "users_of (s\<lparr>backup := b\<rparr>) = users_of s" "groups_of (s\<lparr>backup := b\<rparr>) = groups_of s"
  "users_of (s\<lparr>workspace_rows := wr\<rparr>) = users_of s" "groups_of (s\<lparr>workspace_rows := wr\<rparr>) = groups_of s"
  "users_of (s\<lparr>event_rows := er\<rparr>) = users_of s" "groups_of (s\<lparr>event_rows := er\<rparr>) = groups_of s"
  "users_of (s\<lparr>workers := n\<rparr>) = users_of s" "groups_of (s\<lparr>workers := n\<rparr>) = groups_of s"
  by (simp_all add: users_of_def groups_of_def)

lemma members_ok_frame [simp]:
  "members_ok (s\<lparr>backup := b\<rparr>) = members_ok s" "members_ok (s\<lparr>workspace_rows := wr\<rparr>) = members_ok s"
  "members_ok (s\<lparr>event_rows := er\<rparr>) = members_ok s" "members_ok (s\<lparr>workers := n\<rparr>) = members_ok s"
  by (simp_all add: members_ok_def refers_def target_def)

lemma members_ok_issued: "members_ok s \<Longrightarrow> members_ok (s\<lparr>issued := u # issued s\<rparr>)"
  by (auto simp: members_ok_def refers_def target_def)

lemma members_ok_insert:
  assumes "members_ok s" and "refers s m" and "MemberValue m \<notin> values_of (MemberGroupID m) s"
  shows "members_ok (s\<lparr>member_rows := member_rows s @ [m]\<rparr>)"
proof (rule members_okI)
  show "distinct (map slot (member_rows (s\<lparr>member_rows := member_rows s @ [m]\<rparr>)))"
    using members_okD(2) [OF assms(1)] assms(3) by (force simp: values_of_def)
qed (use members_okD(1,3) [OF assms(1)] assms(2) in \<open>auto simp: refers_def target_def\<close>)

section \<open>Runs of the statements\<close>

lemma run_timeNow' [simp]: "run D (timeNow k) s = run D (k (clock s)) s"
  by (simp add: timeNow_def)

lemma run_newUUID' [simp]:
  "run D (newUUID k) s = (let u = fresh_uuid D (issued s) in run D (k u) (s\<lparr>issued := u # issued s\<rparr>))"
  by (simp add: newUUID_def Let_def)

lemma run_memberUser [simp]:
  "run D (memberUser u ws k) s = run D (k (find (\<lambda>r. ID r = u \<and> WorkspaceID r = ws) (user_rows s))) s"
  by (cases "find (\<lambda>r. ID r = u \<and> WorkspaceID r = ws) (user_rows s)") (simp_all add: memberUser_def findUser_def)

lemma run_memberGroup [simp]:
  "run D (memberGroup u ws k) s = run D (k (find (\<lambda>g. GroupID g = u \<and> GroupWorkspaceID g = ws) (group_rows s))) s"
  by (cases "find (\<lambda>g. GroupID g = u \<and> GroupWorkspaceID g = ws) (group_rows s)")
    (simp_all add: memberGroup_def findGroup_def)

lemma run_findMembers [simp]: "run D (fromDb (findMembers gid)) s = (Inr (members_of gid s), s)"
  by (simp add: run_fromDb findMembers_def)

lemma run_findGroupByName [simp]:
  "run D (findGroupByName nm ws) s = (Inr (find (\<lambda>g. GroupDisplayName g = nm \<and> GroupWorkspaceID g = ws) (group_rows s)), s)"
  by (simp add: findGroupByName_def)

lemma run_deleteMembersOfGroup [simp]:
  "run D (fromDb (deleteMembersOfGroup gid)) s =
    (Inr (), s\<lparr>member_rows := filter (\<lambda>m. MemberGroupID m \<noteq> gid) (member_rows s)\<rparr>)"
  by (simp add: run_fromDb deleteMembersOfGroup_def run_command)

lemma run_deleteMembers [simp]:
  "run D (deleteMembers gid [u]) s =
    (Inr (), s\<lparr>member_rows := filter (\<lambda>m. MemberGroupID m = gid \<longrightarrow> MemberValue m \<noteq> u) (member_rows s)\<rparr>)"
  "run D (fromDb (deleteMembers gid [u])) s =
    (Inr (), s\<lparr>member_rows := filter (\<lambda>m. MemberGroupID m = gid \<longrightarrow> MemberValue m \<noteq> u) (member_rows s)\<rparr>)"
  by (simp_all add: deleteMembers_def run_command run_fromDb)

lemma find_pair:
  "find (\<lambda>r. ID r = u \<and> WorkspaceID r = ws) (user_rows s) = Some r \<Longrightarrow> (u, ws) \<in> users_of s"
  "find (\<lambda>g. GroupID g = u \<and> GroupWorkspaceID g = ws) (group_rows s) = Some g \<Longrightarrow> (u, ws) \<in> groups_of s"
  by (force simp: find_Some_iff users_of_def groups_of_def)+

lemma run_resolveMember:
  "run D (resolveMember ws mv u ty) s = (Inr (t, d), s') \<Longrightarrow> s' = s \<and> target s t u ws"
  by (auto simp: resolveMember_def target_def Let_def split: if_splits option.splits dest: find_pair)

lemma run_addMember:
  assumes "run D (addMember L gid ws m) s = (Inr x, s')"
  obtains u mid t d where "resolveMemberID L m \<noteq> []" "uuid_parse L (resolveMemberID L m) = Some u" "target s t u ws"
    "s' = s\<lparr>issued := mid # issued s, member_rows := member_rows s @
      [\<lparr>MembershipID = mid, MemberGroupID = gid, MemberWorkspaceID = ws, MemberValue = u, MemberType = Some t,
        MemberDisplay = Some d\<rparr>]\<rparr>"
  using assms
  by (auto elim!: run_andThen_Inr simp: addMember_def Let_def run_fromDb createMembers_def run_command andThen_def run_pbind
      insertRow_def dest!: run_resolveMember split: if_splits option.splits sum.splits prod.splits)

lemma run_checked [simp]:
  "run D (andThen (checked r) f) s = (case r of Inl e \<Rightarrow> (Inl (ScimErr e), s) | Inr x \<Rightarrow> run D (f x) s)"
  by (simp add: andThen_def checked_def split: sum.split)

section \<open>Changes of the members of one group\<close>

definition stage :: "string \<Rightarrow> string \<Rightarrow> store \<Rightarrow> bool" where
  "stage gid ws s \<longleftrightarrow> members_ok s \<and> (gid, ws) \<in> groups_of s"

text \<open>The group that a transaction works on lists the rows that it has now.\<close>

definition working :: "string \<Rightarrow> string \<Rightarrow> int \<Rightarrow> ScimGroup \<Rightarrow> store \<Rightarrow> bool" where
  "working gid ws ver g s \<longleftrightarrow> stage gid ws s \<and> GroupID g = gid \<and> GroupWorkspaceID g = ws \<and> GroupVersion g = ver
     \<and> set (Members g) = set (members_of gid s)"

lemma forEach_Inr:
  assumes "run D (forEach f st xs) s = (Inr st', s')" and "P st s"
    and "\<And>x st s st' s'. x \<in> set xs \<Longrightarrow> P st s \<Longrightarrow> run D (f x st) s = (Inr st', s') \<Longrightarrow> P st' s'"
  shows "P st' s'"
  using assms
proof (induction xs arbitrary: st s)
  case (Cons x xs)
  from Cons.prems(1) obtain st1 s1 where r: "run D (f x st) s = (Inr st1, s1)" "run D (forEach f st1 xs) s1 = (Inr st', s')"
    by (auto elim!: run_andThen_Inr)
  have "P st1 s1" using Cons.prems(3) [OF _ Cons.prems(2) r(1)] by simp
  with r(2) show ?case by (rule Cons.IH) (use Cons.prems(3) in \<open>meson list.set_intros(2)\<close>)
qed simp

definition parsed :: "ext \<Rightarrow> string \<Rightarrow> bool" where
  "parsed L t \<longleftrightarrow> t = [] \<or> (\<exists>s. uuid_parse L s = Some t)"

lemma parsed_intros:
  "parsed L []" "uuid_parse L s = Some t \<Longrightarrow> parsed L t"
  "parsed L t \<Longrightarrow> parsed L u \<Longrightarrow> parsed L (if b then t else u)"
  "parsed L t \<Longrightarrow> (\<And>y. x = Some y \<Longrightarrow> parsed L (f y)) \<Longrightarrow> parsed L (case x of None \<Rightarrow> t | Some y \<Rightarrow> f y)"
  by (auto simp: parsed_def split: option.split)

lemma extract_parsed: "parsed L (ExtractUUIDFromRef L r)"
  unfolding ExtractUUIDFromRef_def Let_def by (intro parsed_intros) (assumption+)?

lemma resolve_canonical:
  assumes "uuid_canonical L" "uuid_parse L (resolveMemberID L m) = Some u" "resolveMemberID L m \<noteq> []"
  shows "u = resolveMemberID L m"
proof -
  have "parsed L (resolveMemberID L m) \<or> uuid_parse L (resolveMemberID L m) = None"
  proof (cases "TrimSpace (textMember m ''value'') \<noteq> []")
    case True
    then show ?thesis by (cases "uuid_parse L (TrimSpace (textMember m ''value''))") (auto simp: resolveMemberID_def Let_def parsed_def)
  next
    case False
    then show ?thesis by (simp add: resolveMemberID_def Let_def extract_parsed parsed_intros(1))
  qed
  then have "uuid_parse L (resolveMemberID L m) = Some (resolveMemberID L m)"
    using assms by (auto simp: uuid_canonical_def parsed_def)
  then show ?thesis using assms(2) by simp
qed

lemma addMember_stage:
  assumes "run D (addMember L gid ws m) s = (Inr x, s')" and "stage gid ws s" and "uuid_canonical L"
    and "resolveMemberID L m \<notin> values_of gid s"
  shows "stage gid ws s' \<and> values_of gid s' = insert (resolveMemberID L m) (values_of gid s) \<and> resolveMemberID L m \<noteq> []"
proof -
  obtain u mid t d where r: "resolveMemberID L m \<noteq> []" "uuid_parse L (resolveMemberID L m) = Some u" "target s t u ws"
    and s': "s' = s\<lparr>issued := mid # issued s, member_rows := member_rows s @
      [\<lparr>MembershipID = mid, MemberGroupID = gid, MemberWorkspaceID = ws, MemberValue = u, MemberType = Some t,
        MemberDisplay = Some d\<rparr>]\<rparr>"
    by (rule run_addMember [OF assms(1)]) (rule that)
  have u: "u = resolveMemberID L m" using resolve_canonical [OF assms(3) r(2,1)] .
  let ?i = "s\<lparr>issued := mid # issued s\<rparr>"
  have "members_ok ?i" using assms(2) by (simp add: stage_def members_ok_issued)
  then have "members_ok (?i\<lparr>member_rows := member_rows ?i @
      [\<lparr>MembershipID = mid, MemberGroupID = gid, MemberWorkspaceID = ws, MemberValue = u, MemberType = Some t,
        MemberDisplay = Some d\<rparr>]\<rparr>)"
    using r(3) assms(2,4) u by (intro members_ok_insert) (auto simp: refers_def target_def stage_def values_of_def)
  then show ?thesis using assms(2) u r(1) s' by (auto simp: stage_def values_of_def)
qed

lemma addDistinct_stage:
  assumes "run D (addDistinct L gid ws ms) s = (Inr x, s')" and "stage gid ws s" and "uuid_canonical L"
    and "values_of gid s = {}"
  shows "stage gid ws s'"
proof -
  let ?step = "\<lambda>m seen. andThen (checked (checkMemberValueRefConflict L m)) (\<lambda>_.
           let mv = resolveMemberID L m in
           if mv \<noteq> [] \<and> mv \<in> set seen then Ret (Inr seen)
           else andThen (addMember L gid ws m) (\<lambda>_. Ret (Inr (if mv = [] then seen else mv # seen))))"
  obtain seen where r: "run D (forEach ?step [] ms) s = (Inr seen, s')"
    using assms(1) by (auto simp: addDistinct_def elim!: run_andThen_Inr)
  let ?P = "\<lambda>seen s. stage gid ws s \<and> values_of gid s \<subseteq> set seen"
  have "?P seen s'"
  proof (rule forEach_Inr [OF r, where P = ?P])
    fix m seen s seen' s'
    assume P: "?P seen s" and step: "run D (?step m seen) s = (Inr seen', s')"
    let ?mv = "resolveMemberID L m"
    show "?P seen' s'"
    proof (cases "?mv \<noteq> [] \<and> ?mv \<in> set seen")
      case True
      then show ?thesis using step P by (auto elim!: run_andThen_Inr simp: Let_def split: sum.splits)
    next
      case False
      then obtain y where add: "run D (addMember L gid ws m) s = (Inr y, s')"
        and seen': "seen' = (if ?mv = [] then seen else ?mv # seen)"
        using step by (auto elim!: run_andThen_Inr simp: Let_def split: sum.splits)
      have "?mv \<noteq> []" by (rule run_addMember [OF add])
      then show ?thesis using addMember_stage [OF add _ assms(3)] False P seen' by auto
    qed
  qed (use assms(2,4) in simp)
  then show ?thesis by blast
qed

lemma run_reloadMembers [simp]:
  "run D (reloadMembers g) s = (Inr (g\<lparr>Members := members_of (GroupID g) s\<rparr>), s)"
  by (simp add: reloadMembers_def andThen_def run_pbind)

lemma working_reload:
  "stage gid ws s \<Longrightarrow> GroupID g = gid \<Longrightarrow> GroupWorkspaceID g = ws \<Longrightarrow> GroupVersion g = ver \<Longrightarrow> working gid ws ver (g\<lparr>Members := members_of gid s\<rparr>) s"
  by (simp add: working_def)

text \<open>Fields other than the members do not matter.\<close>

lemma working_frame [simp]:
  "working gid ws ver (g\<lparr>GroupDisplayName := n\<rparr>) s = working gid ws ver g s"
  "working gid ws ver (g\<lparr>GroupExternalID := e\<rparr>) s = working gid ws ver g s"
  by (simp_all add: working_def)

lemma stage_filter: "stage gid ws s \<Longrightarrow> stage gid ws (s\<lparr>member_rows := filter P (member_rows s)\<rparr>)"
  by (simp add: stage_def members_ok_filter)

lemma replaceMembers_working:
  assumes "run D (replaceMembers L g ws ms) s = (Inr g', s')" and "working gid ws ver g s" and "uuid_canonical L"
  shows "working gid ws ver g' s'"
proof -
  let ?cleared = "s\<lparr>member_rows := filter (\<lambda>m. MemberGroupID m \<noteq> gid) (member_rows s)\<rparr>"
  have g: "GroupID g = gid" "GroupWorkspaceID g = ws" "GroupVersion g = ver" and "stage gid ws s" using assms(2) by (auto simp: working_def)
  then have "stage gid ws ?cleared" by (intro stage_filter)
  moreover obtain x where "run D (addDistinct L gid ws ms) ?cleared = (Inr x, s')"
    and g': "g' = g\<lparr>Members := members_of gid s'\<rparr>"
    using assms(1) g by (auto simp: replaceMembers_def elim!: run_andThen_Inr split: sum.splits)
  moreover have "values_of gid ?cleared = {}" by (simp add: values_of_def filter_empty_conv)
  ultimately show ?thesis using addDistinct_stage [OF _ _ assms(3)] g by (auto intro: working_reload)
qed

lemma addMissing_stage:
  assumes "run D (addMissing L gid ws ms known added) s = (Inr b, s')" and "stage gid ws s" and "uuid_canonical L"
    and "values_of gid s \<subseteq> set known"
  shows "stage gid ws s' \<and> (\<not> b \<longrightarrow> \<not> added \<and> member_rows s' = member_rows s)"
  using assms
proof (induction ms arbitrary: known added s)
  case (Cons m ms)
  let ?mv = "resolveMemberID L m" and ?key = "case uuid_parse L (resolveMemberID L m) of Some u \<Rightarrow> u | None \<Rightarrow> resolveMemberID L m"
  have step: "run D (if ?mv = [] then
         (if TrimSpace (textMember m ''$ref'') \<noteq> [] then andThen (addMember L gid ws m) (\<lambda>_. Ret (Inr False))
          else addMissing L gid ws ms known added)
       else if ?key \<in> set known then addMissing L gid ws ms known added
       else andThen (addMember L gid ws m) (\<lambda>_. addMissing L gid ws ms (?key # known) True)) s = (Inr b, s')"
    using Cons.prems(1) by (simp add: Let_def split: sum.splits split del: if_split)
  have skip: ?case if "run D (addMissing L gid ws ms known added) s = (Inr b, s')"
    using Cons.IH [OF that Cons.prems(2-4)] .
  show ?case
  proof (cases "?mv = []")
    case True
    then have "run D (addMember L gid ws m) s \<noteq> (Inr x, s1)" for x s1 by (auto elim: run_addMember)
    then show ?thesis using step skip True by (auto elim!: run_andThen_Inr split: if_splits)
  next
    case mv: False
    show ?thesis
    proof (cases "?key \<in> set known")
      case True
      then show ?thesis using step skip mv by simp
    next
      case False
      then obtain x s1 where add: "run D (addMember L gid ws m) s = (Inr x, s1)"
        and rest: "run D (addMissing L gid ws ms (?key # known) True) s1 = (Inr b, s')"
        using step mv by (auto elim!: run_andThen_Inr)
      have "?key = ?mv" by (rule run_addMember [OF add]) (use resolve_canonical [OF Cons.prems(3)] mv in simp)
      then have "stage gid ws s1" "values_of gid s1 \<subseteq> set (?key # known)"
        using addMember_stage [OF add Cons.prems(2,3)] False Cons.prems(4) by auto
      then show ?thesis using Cons.IH [OF rest _ Cons.prems(3)] by blast
    qed
  qed
qed simp

lemma addMissingMembers_working:
  assumes "run D (addMissingMembers L g ws ms) s = (Inr g', s')" and "working gid ws ver g s" and "uuid_canonical L"
  shows "working gid ws ver g' s'"
proof -
  have g: "GroupID g = gid" "GroupWorkspaceID g = ws" "stage gid ws s" "set (Members g) = set (members_of gid s)"
    "GroupVersion g = ver"
    using assms(2) by (auto simp: working_def)
  obtain b where add: "run D (addMissing L gid ws ms (map MemberValue (Members g)) False) s = (Inr b, s')"
    and g': "g' = (if b then g\<lparr>Members := members_of gid s'\<rparr> else g)"
    using assms(1) g by (auto simp: addMissingMembers_def elim!: run_andThen_Inr split: if_splits)
  have "values_of gid s \<subseteq> set (map MemberValue (Members g))" using g(4) by (simp add: values_of_def)
  then show ?thesis using addMissing_stage [OF add g(3) assms(3)] g g'
    by (cases b) (auto intro: working_reload simp: working_def)
qed

section \<open>PATCH operations\<close>

lemma patchName_working:
  assumes "run D (patchName L g ws' v) s = (Inr g', s')" and "working gid ws ver g s"
  shows "working gid ws ver g' s'"
proof -
  have "s' = s \<and> (\<exists>n. g' = g\<lparr>GroupDisplayName := n\<rparr>)"
    using assms(1) by (auto simp: patchName_def updateDisplayName_def run_fromDb groupNameTaken_def Let_def
        elim!: run_andThen_Inr split: if_splits sum.splits option.splits)
  then show ?thesis using assms(2) by auto
qed

lemma groupValueMap_working:
  assumes "run D (groupValueMap L e mem g ws' m) s = (Inr g', s')" and "working gid ws ver g s"
    and "\<And>v g g'. e v g = Inr g' \<Longrightarrow> g' = g \<or> (\<exists>x. g' = g\<lparr>GroupExternalID := x\<rparr>)"
    and "\<And>g ms s g' s'. run D (mem g ms) s = (Inr g', s') \<Longrightarrow> working gid ws ver g s \<Longrightarrow> working gid ws ver g' s'"
  shows "working gid ws ver g' s'"
proof (rule forEach_Inr [OF assms(1) [unfolded groupValueMap_def], where P = "working gid ws ver"])
  fix x g s g' s'
  assume w: "working gid ws ver g s" and "run D ((\<lambda>(rawKey, v) g.
       let cleanKey = cleanGroupPatchPath L rawKey; key = ToLower L cleanKey in
       if EqualFold L rawKey ''schemas'' then Ret (Inr g)
       else if isGroupReadOnlyAttr L cleanKey then readOnlyGroupAttr cleanKey
       else if key = ''displayname'' then patchName L g ws' v
       else if key = ''externalid'' then checked (e v g)
       else if key = ''members'' then mem g (extractMembersPayload v False)
       else reject 400 ''invalidPath'' (''Unknown Group attribute: '' @ cleanKey)) x g) s = (Inr g', s')"
  then show "working gid ws ver g' s'"
    by (cases x) (auto simp: Let_def readOnlyGroupAttr_def split: if_splits sum.splits
        dest: patchName_working [OF _ w] assms(4) [OF _ w] assms(3))
qed (fact assms(2))

lemma patchExternalID_frame:
  "patchExternalID L v g = Inr g' \<Longrightarrow> \<exists>x. g' = g\<lparr>GroupExternalID := x\<rparr>"
  "replaceExternalID L v g = Inr g' \<Longrightarrow> \<exists>x. g' = g\<lparr>GroupExternalID := x\<rparr>"
  by (auto simp: patchExternalID_def replaceExternalID_def split: json.splits if_splits)

lemma working_externalID:
  "run D (checked r) s = (Inr g', s') \<Longrightarrow> working gid ws ver g s \<Longrightarrow> (\<And>g'. r = Inr g' \<Longrightarrow> \<exists>x. g' = g\<lparr>GroupExternalID := x\<rparr>)
    \<Longrightarrow> working gid ws ver g' s'"
  by (cases r) auto

lemma typed_member:
  assumes "working gid ws ver g s" and "m \<in> set (Members g)"
  shows "(case MemberType m of None \<Rightarrow> [] | Some e \<Rightarrow> TrimSpace e) \<noteq> []"
proof -
  have "refers s m" using assms by (auto simp: working_def stage_def members_ok_def)
  moreover have "TrimSpace ''User'' \<noteq> []" "TrimSpace ''Group'' \<noteq> []" by code_simp+
  ultimately show ?thesis by (auto simp: refers_def target_def)
qed

lemma subAttr_working:
  assumes "run D (applyMemberSubAttrAdd L g ws' p v) s = (Inr g', s')" and "working gid ws ver g s"
  shows "working gid ws ver g' s'"
proof -
  have typed: "(case MemberType m of None \<Rightarrow> [] | Some e \<Rightarrow> TrimSpace e) \<noteq> []" if "find P (Members g) = Some m" for P m
    using typed_member [OF assms(2)] that by (auto simp: find_Some_iff)
  have "g' = g \<and> s' = s"
    using assms(1) typed by (auto simp: applyMemberSubAttrAdd_def Let_def split: sum.splits if_splits prod.splits option.splits)
  then show ?thesis using assms(2) by simp
qed

lemma dropMember_working:
  assumes "working gid ws ver g s"
  shows "working gid ws ver (dropMember u g) (s\<lparr>member_rows := filter (\<lambda>m. MemberGroupID m = GroupID g \<longrightarrow> MemberValue m \<noteq> u) (member_rows s)\<rparr>)"
  using assms stage_filter by (auto simp: working_def dropMember_def)

lemma removeList_working:
  assumes "run D (removeMembersByValueList L g xs) s = (Inr g', s')" and "working gid ws ver g s"
  shows "working gid ws ver g' s'"
proof (rule forEach_Inr [OF assms(1) [unfolded removeMembersByValueList_def], where P = "working gid ws ver"])
  fix m g s g' s'
  assume "working gid ws ver g s" and "run D (andThen (checked (checkMemberValueRefConflict L m)) (\<lambda>_.
         case (if resolveMemberID L m = [] then None else uuid_parse L (resolveMemberID L m)) of
           None \<Rightarrow> Ret (Inr g)
         | Some u \<Rightarrow> pbind (deleteMembers (GroupID g) [u]) (\<lambda>_. Ret (Inr (dropMember u g))))) s = (Inr g', s')"
  then show "working gid ws ver g' s'"
    by (auto simp: run_pbind split: sum.splits option.splits intro: dropMember_working)
qed (fact assms(2))

lemma clear_working:
  "working gid ws ver g s \<Longrightarrow>
    working gid ws ver (g\<lparr>Members := []\<rparr>) (s\<lparr>member_rows := filter (\<lambda>m. MemberGroupID m \<noteq> GroupID g) (member_rows s)\<rparr>)"
  using stage_filter by (auto simp: working_def)

lemma applyGroupRemove_working:
  assumes "run D (applyGroupRemove L g p v) s = (Inr g', s')" and "working gid ws ver g s"
  shows "working gid ws ver g' s'"
  using assms(1) removeList_working [OF _ assms(2)] clear_working [OF assms(2)] dropMember_working [OF assms(2)] assms(2)
  by (auto simp: applyGroupRemove_def Let_def elim!: run_andThen_Inr
      split: if_splits json.splits list.splits sum.splits option.splits)

text \<open>\<open>yields D s Q p\<close>: if \<open>p\<close> ends well in \<open>s\<close>, its result and the state satisfy \<open>Q\<close>.\<close>

definition yields :: "database \<Rightarrow> store \<Rightarrow> ('a \<Rightarrow> store \<Rightarrow> bool) \<Rightarrow> ('e + 'a) prog \<Rightarrow> bool" where
  "yields D s Q p \<longleftrightarrow> (\<forall>x s'. run D p s = (Inr x, s') \<longrightarrow> Q x s')"

lemma yieldsI: "(\<And>x s'. run D p s = (Inr x, s') \<Longrightarrow> Q x s') \<Longrightarrow> yields D s Q p"
  by (simp add: yields_def)

lemma yieldsD: "yields D s Q p \<Longrightarrow> run D p s = (Inr x, s') \<Longrightarrow> Q x s'"
  by (simp add: yields_def)

lemma yields_cases:
  "(b \<Longrightarrow> yields D s Q p) \<Longrightarrow> (\<not> b \<Longrightarrow> yields D s Q q) \<Longrightarrow> yields D s Q (if b then p else q)"
  "yields D s Q a \<Longrightarrow> (\<And>b. yields D s Q (f b)) \<Longrightarrow> (\<And>n. yields D s Q (g n)) \<Longrightarrow> (\<And>t. yields D s Q (h t))
    \<Longrightarrow> (\<And>xs. yields D s Q (i xs)) \<Longrightarrow> (\<And>m. yields D s Q (j m)) \<Longrightarrow> yields D s Q (case v of JNull \<Rightarrow> a
      | JBool b \<Rightarrow> f b | JNum n \<Rightarrow> g n | JStr t \<Rightarrow> h t | JArr xs \<Rightarrow> i xs | JObj m \<Rightarrow> j m)"
  by (simp_all split: json.split)

lemma yields_returnErr: "yields D s Q (returnErr e)"
  by (simp add: yields_def)

lemma yields_Ret: "Q x s \<Longrightarrow> yields D s Q (Ret (Inr x))"
  by (simp add: yields_def)

lemma yields_checked: "(\<And>x. r = Inr x \<Longrightarrow> Q x s) \<Longrightarrow> yields D s Q (checked r)"
  by (auto simp: yields_def split: sum.splits)

lemmas yields_intros = yields_cases yields_returnErr yields_Ret yields_checked

lemma externalID_working:
  "working gid ws ver g s \<Longrightarrow> \<exists>x. g' = g\<lparr>GroupExternalID := x\<rparr> \<Longrightarrow> working gid ws ver g' s"
  by auto

lemma applyGroupAdd_working:
  assumes w: "working gid ws ver g s" and u: "uuid_canonical L"
  shows "yields D s (working gid ws ver) (applyGroupAdd L g ws p v)"
proof -
  have ext: "h' = h \<or> (\<exists>x. h' = h\<lparr>GroupExternalID := x\<rparr>)"
    if "(if e = JNull then Inr h else patchExternalID L e h) = Inr h'" for e h h'
    using that patchExternalID_frame(1) [of L e h h'] by (auto split: if_splits)
  have map: "yields D s (working gid ws ver) (applyAddValueMap L g ws m)" for m
    by (rule yieldsI, rule groupValueMap_working [OF _ w ext], unfold applyAddValueMap_def, assumption, assumption)
      (rule addMissingMembers_working [OF _ _ u])
  have mem: "yields D s (working gid ws ver) (addMissingMembers L g ws ms)" for ms
    by (rule yieldsI) (rule addMissingMembers_working [OF _ w u])
  have name: "yields D s (working gid ws ver) (patchName L g ws v)" by (rule yieldsI) (rule patchName_working [OF _ w])
  have sub: "yields D s (working gid ws ver) (applyMemberSubAttrAdd L g ws p v)" by (rule yieldsI) (rule subAttr_working [OF _ w])
  show ?thesis
    unfolding applyGroupAdd_def Let_def
    by (intro yields_intros map mem name sub externalID_working [OF w] patchExternalID_frame(1))
qed

lemma applyGroupReplace_working:
  assumes w: "working gid ws ver g s" and u: "uuid_canonical L"
  shows "yields D s (working gid ws ver) (applyGroupReplace L g ws p v)"
proof -
  have map: "yields D s (working gid ws ver) (applyReplaceValueMap L g ws m)" for m
    by (rule yieldsI, rule groupValueMap_working [OF _ w], unfold applyReplaceValueMap_def, assumption)
      (auto dest: patchExternalID_frame(2) intro: replaceMembers_working [OF _ _ u])
  have mem: "yields D s (working gid ws ver) (replaceMembers L g ws ms)" for ms
    by (rule yieldsI) (rule replaceMembers_working [OF _ w u])
  have name: "yields D s (working gid ws ver) (patchName L g ws v)" by (rule yieldsI) (rule patchName_working [OF _ w])
  show ?thesis
    unfolding applyGroupReplace_def Let_def
    by (intro yields_intros map mem name w externalID_working [OF w] patchExternalID_frame(2))
qed

lemma patchOp_working:
  assumes w: "working gid ws ver g s" and u: "uuid_canonical L"
  shows "yields D s (working gid ws ver) (applyGroupPatchOp L ws op g)"
proof -
  have remove: "yields D s (working gid ws ver) (applyGroupRemove L g p v)" for p v
    by (rule yieldsI) (rule applyGroupRemove_working [OF _ w])
  show ?thesis
    unfolding applyGroupPatchOp_def Let_def readOnlyGroupAttr_def
    by (intro yields_intros applyGroupAdd_working [OF w u] applyGroupReplace_working [OF w u] remove)
qed

section \<open>Transactions and requests\<close>

lemma members_ok_tables:
  assumes "members_ok s" and "tables_of t = tables_of s" and "set (issued s) \<subseteq> set (issued t)"
  shows "members_ok t"
  using assms by (intro members_ok_subset [OF assms(1)]) (auto simp: tables_of_eq users_of_def groups_of_def members_ok_def)

lemma yields_andThen:
  "yields D s (\<lambda>x t. yields D t Q (f x)) p \<Longrightarrow> yields D s Q (andThen p f)"
  by (auto simp: yields_def elim!: run_andThen_Inr)

lemma yields_mono: "yields D s P p \<Longrightarrow> (\<And>x t. P x t \<Longrightarrow> Q x t) \<Longrightarrow> yields D s Q p"
  by (auto simp: yields_def)

lemmas yields_step = yields_andThen [OF yields_mono]

lemma yields_timeNow: "yields D s Q (k (clock s)) \<Longrightarrow> yields D s Q (timeNow k)"
  by (simp add: yields_def)

lemma yields_andThen_run: "run D p s = (Inr x, t) \<Longrightarrow> yields D t Q (f x) \<Longrightarrow> yields D s Q (andThen p f)"
  by (auto simp: yields_def elim!: run_andThen_Inr)

lemma yields_andThen_still:
  "(\<And>x t. run D p s = (Inr x, t) \<Longrightarrow> t = s) \<Longrightarrow> (\<And>x. yields D s Q (f x)) \<Longrightarrow> yields D s Q (andThen p f)"
  by (auto simp: yields_def elim!: run_andThen_Inr)

lemma yields_andThen_checked:
  "(\<And>x. r = Inr x \<Longrightarrow> yields D s Q (f x)) \<Longrightarrow> yields D s Q (andThen (checked r) f)"
  by (auto simp: yields_def split: sum.splits)

lemma loadGroup_stage:
  assumes "members_ok s"
  shows "yields D s (\<lambda>g t. t = s \<and> GroupID g = gid \<and> GroupWorkspaceID g = ws \<and> stage gid ws s) (loadGroup ws gid im)"
proof (rule yieldsI)
  fix g t
  assume "run D (loadGroup ws gid im) s = (Inr g, t)"
  then have "t = s" and f: "find (\<lambda>g. GroupID g = gid \<and> GroupWorkspaceID g = ws) (group_rows s) = Some g"
    by (auto simp: loadGroup_def split: option.splits if_splits)
  moreover have "GroupID g = gid" "GroupWorkspaceID g = ws" using f by (auto simp: find_Some_iff)
  ultimately show "t = s \<and> GroupID g = gid \<and> GroupWorkspaceID g = ws \<and> stage gid ws s"
    using find_pair(2) [OF f] assms by (simp add: stage_def)
qed

text \<open>A stored group keeps its identifier and workspace.\<close>

lemma updateRows_Inr:
  "updateRows conflict hit f rows = Inr rows' \<Longrightarrow> rows' = map (\<lambda>r. if hit r then f r else r) rows"
  by (auto simp: updateRows_def split: list.splits)

lemma stage_groups:
  "stage gid ws s \<Longrightarrow> groups_of (s\<lparr>group_rows := rows\<rparr>) = groups_of s \<Longrightarrow> stage gid ws (s\<lparr>group_rows := rows\<rparr>)"
  by (simp add: stage_def members_ok_def refers_def target_def users_of_def)

lemma updateGroupRow_stage:
  assumes "stage gid ws s"
  shows "yields D s (\<lambda>g' t. stage gid ws t) (fromDb (updateGroupRow g))"
proof (rule yieldsI)
  fix g' t
  assume r: "run D (fromDb (updateGroupRow g)) s = (Inr g', t)"
  let ?new = "g\<lparr>GroupLastModified := clock s, GroupVersion := GroupVersion g + 1\<rparr>"
  let ?rows = "map (\<lambda>r. if groupHit (GroupID g) (GroupVersion g) r then setGroupColumns r ?new else r) (group_rows s)"
  have t: "t = s\<lparr>group_rows := ?rows\<rparr>"
    using r by (auto simp: run_fromDb updateGroupRow_def Let_def dest!: updateRows_Inr split: sum.splits if_splits)
  have gr: "groups_of (s\<lparr>group_rows := ?rows\<rparr>) = groups_of s"
  proof -
    have "map (\<lambda>g. (GroupID g, GroupWorkspaceID g)) ?rows = map (\<lambda>g. (GroupID g, GroupWorkspaceID g)) (group_rows s)"
      by (auto simp: setGroupColumns_def)
    moreover have "group_rows (s\<lparr>group_rows := rows\<rparr>) = rows" for rows by simp
    ultimately show ?thesis unfolding groups_of_def set_map [symmetric] by (simp only:)
  qed
  show "stage gid ws t" unfolding t by (rule stage_groups [OF assms gr])
qed

lemma reload_stage: "stage gid ws s \<Longrightarrow> yields D s (\<lambda>g t. stage gid ws t) (reloadMembers g)"
  by (simp add: yields_def)

lemma replaceGroupTx_stage:
  assumes ok: "members_ok s" and u: "uuid_canonical L"
  shows "yields D s (\<lambda>g t. stage gid ws t) (replaceGroupTx L ws gid input im)"
  unfolding replaceGroupTx_def
proof (rule yields_step [OF loadGroup_stage [OF ok]], elim conjE, hypsubst)
  fix g :: ScimGroup and t
  assume stage: "stage (GroupID g) (GroupWorkspaceID g) s"
  let ?cleared = "s\<lparr>member_rows := filter (\<lambda>m. MemberGroupID m \<noteq> GroupID g) (member_rows s)\<rparr>"
  have add: "yields D ?cleared (\<lambda>_ t. stage (GroupID g) (GroupWorkspaceID g) t)
      (addDistinct L (GroupID g) (GroupWorkspaceID g) ms)" for ms
    by (rule yieldsI) (rule addDistinct_stage [OF _ stage_filter [OF stage] u], assumption, simp add: values_of_def filter_empty_conv)
  have rest: "yields D ?cleared (\<lambda>g' t. stage (GroupID g) (GroupWorkspaceID g) t)
      (andThen (addDistinct L (GroupID g) (GroupWorkspaceID g) ms) (\<lambda>_. timeNow (\<lambda>m. andThen (fromDb (updateGroupRow (h m))) reloadMembers)))"
    for h ms
    by (intro yields_step [OF add] yields_timeNow yields_step [OF updateGroupRow_stage] reload_stage)
  have still1: "run D (if b then fromDb (findGroupByName nm ws') else Ret (Inr None)) s = (Inr x, t) \<Longrightarrow> t = s"
    for b nm ws' x t by (auto simp: run_fromDb split: if_splits)
  have still2: "run D (checkMemberTypeImmutability L gid' v) s = (Inr y, t) \<Longrightarrow> t = s" for t gid' v y
    by (cases "v = JNull") (simp_all add: checkMemberTypeImmutability_def andThen_def run_pbind split: sum.splits)
  show "yields D s (\<lambda>g' t. stage (GroupID g) (GroupWorkspaceID g) t) (andThen (checked (requiredDisplayName L input)) (\<lambda>displayName.
     andThen (checked (parseGroupExternalID L (jget input ''externalId''))) (\<lambda>extID.
     andThen (if displayName \<noteq> GroupDisplayName g then fromDb (findGroupByName displayName (GroupWorkspaceID g)) else Ret (Inr None))
       (\<lambda>existing.
     if (case existing of Some other \<Rightarrow> GroupID other \<noteq> GroupID g | None \<Rightarrow> False) then groupNameTaken displayName
     else andThen (checkMemberTypeImmutability L (GroupID g) (jget input ''members'')) (\<lambda>_.
     andThen (fromDb (deleteMembersOfGroup (GroupID g))) (\<lambda>_.
     andThen (addDistinct L (GroupID g) (GroupWorkspaceID g) (inputMembers input)) (\<lambda>_.
     timeNow (\<lambda>modified.
     andThen (fromDb (updateGroupRow
         (g\<lparr>GroupDisplayName := displayName, GroupExternalID := extID, GroupLastModified := modified\<rparr>))) (\<lambda>g.
     reloadMembers g)))))))))"
    unfolding groupNameTaken_def
    by (rule yields_andThen_checked, rule yields_andThen_checked, rule yields_andThen_still, erule still1,
        rule yields_cases(1), rule yields_returnErr, rule yields_andThen_still, erule still2,
        rule yields_andThen_run [OF run_deleteMembersOfGroup], rule rest)
qed

lemma patchGroupTx_stage:
  assumes ok: "members_ok s" and u: "uuid_canonical L"
  shows "yields D s (\<lambda>g t. stage gid ws t) (patchGroupTx L ws gid ops im)"
  unfolding patchGroupTx_def
proof (rule yields_step [OF loadGroup_stage [OF ok]], elim conjE, hypsubst)
  fix g :: ScimGroup and t
  assume stage: "stage (GroupID g) (GroupWorkspaceID g) s"
  let ?ws = "GroupWorkspaceID g" and ?before = "g\<lparr>Members := members_of (GroupID g) s\<rparr>"
  have ops: "yields D s (working (GroupID g) ?ws (GroupVersion g)) (forEach (applyGroupPatchOp L ?ws) ?before ops)"
    by (rule yieldsI, rule forEach_Inr [where P = "working (GroupID g) ?ws (GroupVersion g)"], assumption)
      (use stage working_reload in blast, rule yieldsD [OF patchOp_working [OF _ u]])
  have rest: "stage (GroupID g) ?ws t'" if "working (GroupID g) ?ws (GroupVersion g) h t'" for h t' using that by (simp add: working_def)
  have store: "yields D t (\<lambda>x t. stage (GroupID g) ?ws t) (storeChanged L b h)" if "stage (GroupID g) ?ws t" for t b h
    unfolding storeChanged_def using that
    by (intro yields_andThen_run [OF run_findMembers] yields_cases(1) yields_timeNow yields_step [OF updateGroupRow_stage] yields_Ret)
  show "yields D s (\<lambda>x t. stage (GroupID g) ?ws t) (andThen (reloadMembers g) (\<lambda>before.
     andThen (forEach (applyGroupPatchOp L ?ws) before ops) (storeChanged L before)))"
    by (rule yields_andThen_run [OF run_reloadMembers], rule yields_step [OF ops], drule rest, erule store)
qed

lemma stage_insert_group:
  assumes "members_ok s" and "gid \<notin> set (issued s)" and "set (issued s) \<union> {gid} \<subseteq> set (issued t)"
    and "user_rows t = user_rows s" and "member_rows t = member_rows s" and "group_rows t = group_rows s @ [g]"
    and "GroupID g = gid" and "GroupWorkspaceID g = ws"
  shows "stage gid ws t \<and> values_of gid t = {}"
proof
  have gr: "groups_of t = insert (gid, ws) (groups_of s)" using assms(6-8) by (auto simp: groups_of_def)
  have us: "users_of t = users_of s" using assms(4) by (simp add: users_of_def)
  have "members_ok t"
  proof (rule members_okI)
    show "refers t m" if "m \<in> set (member_rows t)" for m
      using members_okD(1) [OF assms(1), of m] that gr us assms(5) by (auto intro: refers_mono)
  qed (use members_okD(2,3) [OF assms(1)] assms(3,5) gr in auto)
  then show "stage gid ws t" using gr by (simp add: stage_def)
  have "MemberGroupID m \<noteq> gid" if "m \<in> set (member_rows s)" for m
    using members_okD(1) [OF assms(1) that] members_okD(3) [OF assms(1)] assms(2) by (force simp: refers_def)
  then show "values_of gid t = {}" using assms(5) by (auto simp: values_of_def filter_empty_conv)
qed

lemma run_createGroupRow:
  assumes "run D (createGroupRow g) s = (r, s1)"
  obtains e where "r = Inl e"
  | h where "r = Inr h" "GroupID h = GroupID g" "GroupWorkspaceID h = GroupWorkspaceID g"
      "s1 = s\<lparr>group_rows := group_rows s @ [groupRow h]\<rparr>"
  using assms by (auto simp: createGroupRow_def Let_def andThen_def run_pbind run_command insertRow_def split: option.splits)

lemma createGroupTx_stage:
  assumes ok: "members_ok s" and u: "uuid_canonical L" and fresh: "fresh D"
  shows "yields D s (\<lambda>g t. members_ok t) (createGroupTx L ws nm e ms)"
proof (rule yieldsI)
  fix g t
  assume r: "run D (createGroupTx L ws nm e ms) s = (Inr g, t)"
  let ?gid = "fresh_uuid D (issued s)" and ?s = "s\<lparr>issued := fresh_uuid D (issued s) # issued s\<rparr>"
  obtain c s1 where c: "run D (createGroupRow (newGroup ?gid ws nm e (clock s) (clock s))) ?s = (c, s1)" by fastforce
  show "members_ok t"
  proof (rule run_createGroupRow [OF c])
    show ?thesis if "c = Inl err" for err
      using r c that by (auto simp: createGroupTx_def run_pbind groupNameTaken_def Let_def split: option.splits if_splits)
  next
    fix h
    assume h: "c = Inr h" "GroupID h = GroupID (newGroup ?gid ws nm e (clock s) (clock s))"
      "GroupWorkspaceID h = GroupWorkspaceID (newGroup ?gid ws nm e (clock s) (clock s))"
      "s1 = ?s\<lparr>group_rows := group_rows ?s @ [groupRow h]\<rparr>"
    then have gid: "GroupID h = ?gid" "GroupWorkspaceID h = ws" by (simp_all add: newGroup_def)
    obtain x where add: "run D (addDistinct L ?gid ws ms) s1 = (Inr x, t)"
      using r c h(1) gid
      by (auto simp: createGroupTx_def run_pbind groupNameTaken_def Let_def findMembers_def elim!: run_andThen_Inr split: option.splits)
    have "stage ?gid ws s1 \<and> values_of ?gid s1 = {}"
      by (rule stage_insert_group [OF ok, where g = "groupRow h"]) (use fresh h(4) gid in \<open>auto simp: fresh_def groupRow_def\<close>)
    then show "members_ok t" using addDistinct_stage [OF add _ u] by (auto simp: stage_def)
  qed
qed

text \<open>A transaction keeps the invariant if its body does when it ends well.\<close>

lemma transaction_members_ok:
  assumes "inside body" and "run D (inTransaction body) s = (r, s')" and "members_ok s"
    and "\<And>t. members_ok t \<Longrightarrow> yields D t (\<lambda>x t. members_ok t) body"
  shows "members_ok s'"
proof (rule run_transaction [OF assms(1,2)])
  let ?s = "s\<lparr>backup := Some (tables_of s)\<rparr>"
  show ?thesis if "run D body ?s = (Inr x, s1)" "s' = s1\<lparr>backup := None\<rparr>" for x s1
    using yieldsD [OF assms(4) that(1)] assms(3) that(2) by simp
  show ?thesis if "run D body ?s = (Inl e, s1)" "tables_of s' = tables_of s" "issued s' = issued s1" for e s1
  proof -
    have "set (issued s) \<subseteq> set (issued s')" using run_issued [of ?s D body] that(1,3) by simp
    then show ?thesis using members_ok_tables [OF assms(3) that(2)] by blast
  qed
qed

lemma run_touchWorkspace' [simp]:
  "run D (touchWorkspace ws p) s = run D p (s\<lparr>workspace_rows := map (\<lambda>(i, u). if i = ws then (i, clock s) else (i, u)) (workspace_rows s)\<rparr>)"
  by (simp add: touchWorkspace_def)

lemma stage_members_ok: "yields D s (\<lambda>g t. stage gid ws t) p \<Longrightarrow> yields D s (\<lambda>g t. members_ok t) p"
  by (erule yields_mono) (simp add: stage_def)

lemma createGroup_members_ok:
  assumes "members_ok s" "uuid_canonical L" "fresh D" "run D (executeCreateGroup L ws input) s = (r, s')"
  shows "members_ok s'"
proof -
  have tx: "members_ok s1" if "run D (inTransaction (createGroupTx L ws nm e ms)) s = (x, s1)" for nm e ms x s1
    by (rule transaction_members_ok [OF inside_transactions(1) that assms(1)]) (rule createGroupTx_stage [OF _ assms(2,3)])
  show ?thesis using assms(1,4) tx
    by (auto simp: executeCreateGroup_def andThen_def run_pbind checked_def split: sum.splits prod.splits)
qed

lemma replaceGroup_members_ok:
  assumes "members_ok s" "uuid_canonical L" "run D (executeReplaceGroup L ws gid input im) s = (r, s')"
  shows "members_ok s'"
proof -
  have tx: "members_ok s1" if "run D (inTransaction (replaceGroupTx L ws gid input im)) s = (x, s1)" for x s1
    by (rule transaction_members_ok [OF inside_transactions(2) that assms(1)])
      (rule stage_members_ok [OF replaceGroupTx_stage [OF _ assms(2)]])
  show ?thesis using assms(3) tx by (auto simp: executeReplaceGroup_def run_pbind split: sum.splits prod.splits)
qed

lemma patchGroup_members_ok:
  assumes "members_ok s" "uuid_canonical L" "run D (executePatchGroup L ws gid ops im) s = (r, s')"
  shows "members_ok s'"
proof -
  have tx: "members_ok s1" if "run D (inTransaction (patchGroupTx L ws gid ops im)) s = (x, s1)" for x s1
    by (rule transaction_members_ok [OF inside_transactions(3) that assms(1)])
      (rule stage_members_ok [OF patchGroupTx_stage [OF _ assms(2)]])
  show ?thesis using assms(3) tx by (auto simp: executePatchGroup_def run_pbind split: sum.splits prod.splits if_splits)
qed

section \<open>Deletions and the requests of users\<close>

lemma members_ok_delete:
  assumes "members_ok s"
    and "groups_of t = groups_of s - {(v, ws)}" "users_of t = users_of s \<or> users_of t = users_of s - {(v, ws)}"
    and "set (member_rows t) \<subseteq> {m \<in> set (member_rows s). MemberValue m \<noteq> v \<and> MemberGroupID m \<noteq> v}"
    and "distinct (map slot (member_rows t))" and "set (issued s) \<subseteq> set (issued t)"
  shows "members_ok t"
proof (rule members_okI)
  show "refers t m" if "m \<in> set (member_rows t)" for m
    using members_okD(1) [OF assms(1), of m] that assms(2-4) by (auto simp: refers_def target_def)
qed (use members_okD(3) [OF assms(1)] assms(2,5,6) in auto)

lemma distinct_slot_filter: "members_ok s \<Longrightarrow> distinct (map slot (filter P (member_rows s)))"
  using members_okD(2) by (simp add: distinct_map_filter)

lemma deleteGroup_members_ok:
  assumes "members_ok s" "run D (executeDeleteGroup ws gid im) s = (r, s')"
  shows "members_ok s'"
proof -
  let ?t = "s\<lparr>member_rows := filter (\<lambda>m. MemberGroupID m \<noteq> gid) (filter (\<lambda>m. MemberValue m \<noteq> gid) (member_rows s)),
      group_rows := filter (\<lambda>g. \<not> (GroupID g = gid \<and> GroupWorkspaceID g = ws)) (group_rows s)\<rparr>"
  have "members_ok ?t"
    by (rule members_ok_delete [OF assms(1), where t = ?t and v = gid and ws = ws])
      (use distinct_slot_filter [OF assms(1)] in \<open>auto simp: groups_of_def users_of_def\<close>)
  moreover have "s' = s \<or> (\<exists>wr. s' = ?t\<lparr>workspace_rows := wr\<rparr>)"
    using assms(2)
    by (auto simp: executeDeleteGroup_def loadGroup_def andThen_def run_pbind deleteMembersByValue_def deleteMembersOfGroup_def
        deleteGroupRow_def run_command split: sum.splits option.splits if_splits)
  ultimately show ?thesis using assms(1) by auto
qed

text \<open>Statements that keep the invariant whenever they are sent.\<close>

definition calm :: "query \<Rightarrow> bool" where
  "calm q \<longleftrightarrow> (case q of Begin \<Rightarrow> False | Commit \<Rightarrow> False | Rollback \<Rightarrow> False | DeleteUserRow _ _ \<Rightarrow> False
     | InsertGroup _ \<Rightarrow> False | UpdateGroup _ _ \<Rightarrow> False | DeleteGroupRow _ _ \<Rightarrow> False | InsertMember _ \<Rightarrow> False
     | SetMemberType _ _ _ \<Rightarrow> False | _ \<Rightarrow> True)"

lemma users_of_update: "users_of (s\<lparr>user_rows := map (\<lambda>r. if hit r then setUserColumns r u else r) (user_rows s)\<rparr>) = users_of s"
proof -
  have "map (\<lambda>u. (ID u, WorkspaceID u)) (map (\<lambda>r. if hit r then setUserColumns r u else r) (user_rows s))
      = map (\<lambda>u. (ID u, WorkspaceID u)) (user_rows s)" by (auto simp: setUserColumns_def)
  moreover have "user_rows (s\<lparr>user_rows := rows\<rparr>) = rows" for rows by simp
  ultimately show ?thesis unfolding users_of_def set_map [symmetric] by (simp only:)
qed

lemma members_ok_users:
  "members_ok s \<Longrightarrow> users_of s \<subseteq> users_of (s\<lparr>user_rows := rows\<rparr>) \<Longrightarrow> members_ok (s\<lparr>user_rows := rows\<rparr>)"
  by (rule members_ok_subset [of s]) (auto simp: groups_of_def members_ok_def)

lemma exec_members_ok:
  assumes "calm q" and "members_ok s"
  shows "members_ok (snd (exec D q s))"
proof (cases q)
  case (InsertUser u)
  then show ?thesis using assms(2) by (auto simp: insertRow_def users_of_def intro!: members_ok_users split: option.split)
next
  case (UpdateUser u v)
  then show ?thesis using assms(2)
    by (auto intro!: members_ok_users simp: users_of_update split: sum.split dest!: updateRows_Inr)
qed (use assms members_ok_filter members_ok_issued in \<open>auto simp: calm_def Let_def\<close>)

lemma calm_run: "only calm p \<Longrightarrow> members_ok s \<Longrightarrow> members_ok (snd (run D p s))"
  by (rule only_run [of calm p members_ok]) (use exec_members_ok in auto)

lemma calm_steps:
  "(\<And>t. only calm (k t)) \<Longrightarrow> only calm (timeNow k)" "(\<And>u. only calm (l u)) \<Longrightarrow> only calm (newUUID l)"
  "(\<And>r. only calm (f r)) \<Longrightarrow> only calm (findUser u ws f)"
  "(\<And>r. only calm (e r)) \<Longrightarrow> only calm (existsByUserName nm ws e)"
  "(\<And>r. only calm (c r)) \<Longrightarrow> only calm (createUserRow L v c)"
  "(\<And>r. only calm (d r)) \<Longrightarrow> only calm (updateUserRow L v d)"
  "only calm p \<Longrightarrow> only calm (touchWorkspace ws p)"
  by (auto simp: timeNow_def newUUID_def findUser_def existsByUserName_def createUserRow_def updateUserRow_def
      touchWorkspace_def calm_def)

lemma only_bool:
  "only G p \<Longrightarrow> only G q \<Longrightarrow> only G (case b of True \<Rightarrow> p | False \<Rightarrow> q)"
  by (cases b) simp_all

lemma calm_resolveManagerMetadata: "(\<And>u. only calm (k u)) \<Longrightarrow> only calm (resolveManagerMetadata L u ws b k)"
  unfolding resolveManagerMetadata_def Let_def by (intro only_cases calm_steps) auto

lemma calm_storeUser: "only calm (storeUser L ws u)"
  unfolding storeUser_def by (intro only_cases calm_steps) auto

lemma calm_storeNewUser: "only calm (storeNewUser L ws u)"
  unfolding storeNewUser_def by (intro only_cases calm_steps) auto

lemma calm_loadUser: "(\<And>u. only calm (k u)) \<Longrightarrow> only calm (loadUser ws uid im k)"
  unfolding loadUser_def by (intro only_cases calm_steps) auto

lemma calm_checkUserName: "only calm k \<Longrightarrow> only calm (checkUserName L ws old new k)"
  unfolding checkUserName_def by (intro only_cases calm_steps only_bool) auto

lemma calm_users:
  "only calm (executeCreateUser L ws b body)" "only calm (executeReplaceUser L ws uid b body im)"
  "only calm (executePatchUser L ws uid b ops im)"
  unfolding executeCreateUser_def executeReplaceUser_def executePatchUser_def Let_def
  by (intro only_cases calm_steps only_bool calm_loadUser calm_checkUserName calm_resolveManagerMetadata calm_storeUser
      calm_storeNewUser only_Ret)+

lemma deleteUser_members_ok:
  assumes "members_ok s" "run D (executeDeleteUser ws uid im) s = (r, s')"
  shows "members_ok s'"
proof -
  let ?t = "s\<lparr>member_rows := filter (\<lambda>m. MemberValue m \<noteq> uid) (member_rows s),
      user_rows := filter (\<lambda>u. \<not> (ID u = uid \<and> WorkspaceID u = ws)) (user_rows s)\<rparr>"
  have "members_ok ?t"
  proof (rule members_okI)
    show "refers ?t m" if "m \<in> set (member_rows ?t)" for m
      using members_okD(1) [OF assms(1), of m] that by (auto simp: refers_def target_def users_of_def groups_of_def)
  qed (use members_okD(3) [OF assms(1)] distinct_slot_filter [OF assms(1)] in \<open>auto simp: groups_of_def\<close>)
  moreover have "s' = s \<or> (\<exists>wr. s' = ?t\<lparr>workspace_rows := wr\<rparr>)"
    using assms(2)
    by (auto simp: executeDeleteUser_def loadUser_def findUser_def deleteByMemberValue_def deleteUserRow_def
        split: option.splits if_splits)
  ultimately show ?thesis using assms(1) by auto
qed

end
