(* ===== verification/GroupProps.thy ===== *)
theory GroupProps
  imports GroupRun UserProps "HOL-Library.Multiset"
begin

text \<open>
  The properties of the group handler, for requests that run alone: a failed request changes no table,
  members are unique and exist, and a PATCH raises the version exactly if it changed the group.
\<close>

section \<open>Requests\<close>

datatype group_request =
    CreateGroup string json_object
  | ReplaceGroup string string json_object string
  | PatchGroup string string "json_object list" string
  | DeleteGroup string string string

primrec groupProgram :: "ext \<Rightarrow> group_request \<Rightarrow> ScimGroup option attempt" where
  "groupProgram L (CreateGroup ws input) = andThen (executeCreateGroup L ws input) (\<lambda>g. Ret (Inr (Some g)))"
| "groupProgram L (ReplaceGroup ws gid input ifMatch) =
     andThen (executeReplaceGroup L ws gid input ifMatch) (\<lambda>g. Ret (Inr (Some g)))"
| "groupProgram L (PatchGroup ws gid ops ifMatch) =
     andThen (executePatchGroup L ws gid ops ifMatch) (\<lambda>g. Ret (Inr (Some g)))"
| "groupProgram L (DeleteGroup ws gid ifMatch) = andThen (executeDeleteGroup ws gid ifMatch) (\<lambda>_. Ret (Inr None))"

text \<open>The server handles requests one after another, and time passes between them.\<close>

inductive served :: "ext \<Rightarrow> database \<Rightarrow> store \<Rightarrow> store \<Rightarrow> bool" for L D where
  user: "served L D s (snd (run D (userProgram L r) s))"
| group: "served L D s (snd (run D (groupProgram L q) s))"
| wait: "clock s \<le> t \<Longrightarrow> served L D s (s\<lparr>clock := t\<rparr>)"

lemma snd_Ret:
  "snd (run D (andThen p (\<lambda>x. Ret (Inr (f x)))) s) = snd (run D p s)"
  "snd (run D (pbind q (\<lambda>r. Ret (h r))) s) = snd (run D q s)"
  by (auto simp: andThen_def run_pbind split: prod.split sum.split)

lemma members_ok_clock [simp]: "members_ok (s\<lparr>clock := t\<rparr>) = members_ok s"
  by (simp add: members_ok_def refers_def target_def users_of_def groups_of_def)

lemma served_members_ok:
  assumes "served L D s t" and "members_ok s" and "fresh D" and "uuid_canonical L"
  shows "members_ok t"
  using assms(1)
proof cases
  case (user r)
  then show ?thesis
    by (cases r) (use assms(2) calm_run [OF calm_users(1)] calm_run [OF calm_users(2)] calm_run [OF calm_users(3)]
      in \<open>auto simp: snd_Ret intro: deleteUser_members_ok surjective_pairing\<close>)
next
  case (group q)
  then show ?thesis
    by (cases q) (use assms(2-4) in \<open>auto simp: snd_Ret intro: createGroup_members_ok replaceGroup_members_ok
      patchGroup_members_ok deleteGroup_members_ok surjective_pairing\<close>)
qed (use assms(2) in simp)

lemma transaction_Inl:
  "inside body \<Longrightarrow> run D (inTransaction body) s = (Inl e, s') \<Longrightarrow> tables_of s' = tables_of s"
  by (erule (1) run_transaction) simp_all

lemma request_Inl:
  assumes "run D (groupProgram L r) s = (Inl e, s')"
  shows "tables_of s' = tables_of s"
proof (cases r)
  case (CreateGroup ws input)
  then show ?thesis using assms transaction_Inl [OF inside_transactions(1)]
    by (auto simp: executeCreateGroup_def elim!: run_andThen_Inl split: sum.splits)
next
  case (ReplaceGroup ws gid input im)
  then show ?thesis using assms transaction_Inl [OF inside_transactions(2)]
    by (auto simp: executeReplaceGroup_def run_pbind elim!: run_andThen_Inl split: sum.splits prod.splits)
next
  case (PatchGroup ws gid ops im)
  then show ?thesis using assms transaction_Inl [OF inside_transactions(3)]
    by (auto simp: executePatchGroup_def run_pbind elim!: run_andThen_Inl split: sum.splits prod.splits if_splits)
next
  case (DeleteGroup ws gid im)
  then show ?thesis using assms
    by (auto simp: executeDeleteGroup_def loadGroup_def deleteMembersByValue_def deleteMembersOfGroup_def deleteGroupRow_def
        run_command run_pbind elim!: run_andThen_Inl split: sum.splits prod.splits if_splits option.splits)
qed

section \<open>The version of a patched group\<close>

lemma takeKeys_mset: "length as = length bs \<Longrightarrow> takeKeys as bs \<longleftrightarrow> mset as = mset bs"
proof (induction bs arbitrary: as)
  case (Cons b bs)
  show ?case
  proof (cases "b \<in> set as")
    case True
    then have "takeKeys (remove1 b as) bs \<longleftrightarrow> mset (remove1 b as) = mset bs"
      using Cons.prems by (intro Cons.IH) (simp add: length_remove1)
    moreover have "mset as = add_mset b (mset (remove1 b as))" using True by (simp add: insert_DiffM)
    ultimately show ?thesis using True by (simp del: mset_remove1)
  next
    case False
    then have "mset as \<noteq> mset (b # bs)" by (metis list.set_intros(1) set_mset_mset)
    then show ?thesis using False by simp
  qed
qed simp

lemma groupMembersEqual_mset: "groupMembersEqual L as bs \<longleftrightarrow> mset (map (memberKey L) as) = mset (map (memberKey L) bs)"
proof (cases "length as = length bs")
  case True
  then show ?thesis using takeKeys_mset [of "map (memberKey L) as" "map (memberKey L) bs"] by (simp add: groupMembersEqual_def)
next
  case False
  then have "mset (map (memberKey L) as) \<noteq> mset (map (memberKey L) bs)" by (metis length_map mset_eq_length)
  then show ?thesis using False by (simp add: groupMembersEqual_def del: mset_map)
qed

definition patched :: "ext \<Rightarrow> ScimGroup \<Rightarrow> store \<Rightarrow> ScimGroup \<Rightarrow> store \<Rightarrow> bool" where
  "patched L g s g' t \<longleftrightarrow> GroupDisplayName g' \<noteq> GroupDisplayName g \<or> GroupExternalID g' \<noteq> GroupExternalID g
     \<or> mset (map (memberKey L) (members_of (GroupID g) t)) \<noteq> mset (map (memberKey L) (members_of (GroupID g) s))"

lemma storeChanged_run:
  assumes "run D (storeChanged L before h) s = (Inr (g', changed), t)"
  shows "Members g' = members_of (GroupID h) t \<and> members_of (GroupID h) t = members_of (GroupID h) s
    \<and> GroupDisplayName g' = GroupDisplayName h \<and> GroupExternalID g' = GroupExternalID h
    \<and> workspace_rows t = workspace_rows s
    \<and> changed = (GroupDisplayName h \<noteq> GroupDisplayName before \<or> GroupExternalID h \<noteq> GroupExternalID before
        \<or> mset (map (memberKey L) (Members before)) \<noteq> mset (map (memberKey L) (members_of (GroupID h) t)))
    \<and> (if changed then GroupVersion g' = GroupVersion h + 1
         \<and> (\<forall>r \<in> set (group_rows s). groupHit (GroupID h) (GroupVersion h) r \<longrightarrow> setGroupColumns r g' \<in> set (group_rows t))
       else GroupVersion g' = GroupVersion h \<and> group_rows t = group_rows s)"
proof -
  let ?diff = "GroupDisplayName h \<noteq> GroupDisplayName before \<or> GroupExternalID h \<noteq> GroupExternalID before
      \<or> mset (map (memberKey L) (Members before)) \<noteq> mset (map (memberKey L) (members_of (GroupID h) s))"
  have split: "run D (if ?diff then timeNow (\<lambda>modified.
         andThen (fromDb (updateGroupRow (h\<lparr>GroupLastModified := modified\<rparr>))) (\<lambda>g.
         Ret (Inr (g\<lparr>Members := members_of (GroupID h) s\<rparr>, True))))
       else Ret (Inr (h\<lparr>Members := members_of (GroupID h) s\<rparr>, False))) s = (Inr (g', changed), t)"
    using assms unfolding storeChanged_def groupMembersEqual_mset andThen_def [of "fromDb (findMembers _)"] run_pbind by simp
  show ?thesis
  proof (cases ?diff)
    case True
    then obtain g1 where u: "run D (fromDb (updateGroupRow (h\<lparr>GroupLastModified := clock s\<rparr>))) s = (Inr g1, t)"
      "g' = g1\<lparr>Members := members_of (GroupID h) s\<rparr>" "changed"
      using split by (auto elim!: run_andThen_Inr)
    let ?rows = "map (\<lambda>r. if groupHit (GroupID h) (GroupVersion h) r then setGroupColumns r g1 else r) (group_rows s)"
    have t: "t = s\<lparr>group_rows := ?rows\<rparr>" and g1: "g1 = h\<lparr>GroupLastModified := clock s, GroupVersion := GroupVersion h + 1\<rparr>"
      using u(1) by (auto simp: run_fromDb updateGroupRow_def Let_def dest!: updateRows_Inr split: sum.splits if_splits)
    have "setGroupColumns r g' = setGroupColumns r g1" for r using u(2) by (simp add: setGroupColumns_def)
    then show ?thesis using True u(2,3) t g1 by auto
  next
    case False
    then have "g' = h\<lparr>Members := members_of (GroupID h) s\<rparr>" "t = s" "\<not> changed" using split by auto
    then show ?thesis using False by simp
  qed
qed

lemma patchGroupTx_version:
  assumes "members_ok s" "uuid_canonical L"
    and "find (\<lambda>g. GroupID g = gid \<and> GroupWorkspaceID g = ws) (group_rows s) = Some g"
  shows "yields D s (\<lambda>(g', changed) t. changed = patched L g s g' t \<and> Members g' = members_of gid t
      \<and> GroupVersion g' = GroupVersion g + (if changed then 1 else 0) \<and> workspace_rows t = workspace_rows s
      \<and> (if changed then setGroupColumns g g' \<in> set (group_rows t) else group_rows t = group_rows s))
    (patchGroupTx L ws gid ops im)"
proof (rule yieldsI)
  fix x t
  assume r: "run D (patchGroupTx L ws gid ops im) s = (Inr x, t)"
  obtain g' changed where x: "x = (g', changed)" by fastforce
  have g: "GroupID g = gid" "GroupWorkspaceID g = ws" "g \<in> set (group_rows s)"
    using assms(3) by (auto simp: find_Some_iff)
  let ?before = "g\<lparr>Members := members_of gid s\<rparr>"
  obtain h s1 where ops: "run D (forEach (applyGroupPatchOp L ws) ?before ops) s = (Inr h, s1)"
    and rest: "run D (storeChanged L ?before h) s1 = (Inr x, t)"
    using r assms(3) g by (auto simp: patchGroupTx_def loadGroup_def elim!: run_andThen_Inr split: if_splits)
  have "stage gid ws s" using assms(1) find_pair(2) [OF assms(3)] by (simp add: stage_def)
  then have "working gid ws (GroupVersion g) ?before s" using g by (intro working_reload) simp_all
  then have "working gid ws (GroupVersion g) h s1"
    by (rule forEach_Inr [OF ops]) (rule yieldsD [OF patchOp_working [OF _ assms(2)]])
  then have h: "GroupID h = gid" "GroupVersion h = GroupVersion g" by (simp_all add: working_def)
  have "works (forEach (applyGroupPatchOp L ws) ?before ops)" by (intro only_forEach works_patchOp)
  from works_frame [OF this, of D s] have frame: "group_rows s1 = group_rows s" "workspace_rows s1 = workspace_rows s"
    using ops by simp_all
  note stored = storeChanged_run [OF rest [unfolded x]]
  have m: "Members g' = members_of gid t" "members_of gid t = members_of gid s1" "GroupDisplayName g' = GroupDisplayName h"
    "GroupExternalID g' = GroupExternalID h"
    using stored unfolding h frame by blast+
  have w: "workspace_rows t = workspace_rows s" using stored frame(2) by simp
  have c: "changed = patched L g s g' t"
    using stored h g(1) m(3,4) unfolding patched_def by (simp del: mset_map mset_filter) metis
  have v: "if changed then GroupVersion g' = GroupVersion g + 1
      \<and> (\<forall>r \<in> set (group_rows s). groupHit gid (GroupVersion g) r \<longrightarrow> setGroupColumns r g' \<in> set (group_rows t))
    else GroupVersion g' = GroupVersion g \<and> group_rows t = group_rows s"
    using stored unfolding h frame by blast
  have "groupHit gid (GroupVersion g) g" using g(1) by (simp add: groupHit_def)
  then show "(\<lambda>(g', changed) t. changed = patched L g s g' t \<and> Members g' = members_of gid t
      \<and> GroupVersion g' = GroupVersion g + (if changed then 1 else 0) \<and> workspace_rows t = workspace_rows s
      \<and> (if changed then setGroupColumns g g' \<in> set (group_rows t) else group_rows t = group_rows s)) x t"
    using v g(3) m(1) w c unfolding x by (cases changed) auto
qed


section \<open>A group with one member\<close>

definition any_ext :: ext where
  "any_ext = plain_ext\<lparr>uuid_parse := Some\<rparr>"

definition create_club :: group_request where
  "create_club = CreateGroup ''w1'' [(''displayName'', JStr ''Club''), (''members'', JArr [JObj [(''value'', JStr ''uu'')]])]"

definition club :: ScimGroup where
  "club = newGroup ''uuuu'' ''w1'' ''Club'' None 7 7"

definition ann_member :: ScimGroupMembership where
  "ann_member = \<lparr>MembershipID = ''uuuuuuuu'', MemberGroupID = ''uuuu'', MemberWorkspaceID = ''w1'', MemberValue = ''uu'',
     MemberType = Some ''User'', MemberDisplay = Some ''Ann''\<rparr>"

definition club_store :: store where
  "club_store = ann_store\<lparr>group_rows := [club], member_rows := [ann_member], issued := [''uuuuuuuu'', ''uuuu'', ''uu'', ''u'']\<rparr>"

lemma create_club_run:
  "run sample_database (groupProgram any_ext create_club) ann_store = (Inr (Some (club\<lparr>Members := [ann_member]\<rparr>)), club_store)"
  by code_simp

lemma any_canonical: "uuid_canonical any_ext"
  by (simp add: uuid_canonical_def any_ext_def)

lemma ann_served: "served any_ext sample_database empty_store ann_store"
proof -
  have "snd (run sample_database (userProgram any_ext create_ann) empty_store) = ann_store" by code_simp
  then show ?thesis using served.user by metis
qed

lemma club_served: "(served any_ext sample_database)\<^sup>*\<^sup>* empty_store club_store"
proof -
  have "served any_ext sample_database ann_store club_store"
    using served.group [of any_ext sample_database ann_store create_club] create_club_run by simp
  then show ?thesis using ann_served by (meson r_into_rtranclp rtranclp.rtrancl_into_rtrancl)
qed

lemma club_members_ok: "members_ok club_store"
  by (simp add: members_ok_def refers_def target_def users_of_def groups_of_def club_store_def ann_store_def club_def
      ann_member_def newGroup_def ann_def newUser_def empty_store_def)

section \<open>Properties\<close>

text \<open>C34. However many requests on users and groups the server handles one after another, from a database without
  memberships: every membership refers to an existing group and to an existing user or group of the same
  workspace, of the type it says, and no group has a member twice. Deleted users and groups leave no membership
  behind. A request may be refused or fail, but the statements of the database do not fail: a DELETE only logs the failure
  to delete a membership, which then would stay. UUIDs are read as they are printed, and a new one is new.\<close>

theorem group_members_valid:
  assumes "fresh D" and "uuid_canonical L" and "member_rows s0 = []" and "GroupID ` set (group_rows s0) \<subseteq> set (issued s0)"
    and "(served L D)\<^sup>*\<^sup>* s0 s"
  shows "distinct (map (\<lambda>m. (MemberGroupID m, MemberValue m)) (member_rows s))
    \<and> (\<forall>m \<in> set (member_rows s).
         (\<exists>g \<in> set (group_rows s). GroupID g = MemberGroupID m \<and> GroupWorkspaceID g = MemberWorkspaceID m)
         \<and> (MemberType m = Some ''User''
              \<and> (\<exists>u \<in> set (user_rows s). ID u = MemberValue m \<and> WorkspaceID u = MemberWorkspaceID m)
            \<or> MemberType m = Some ''Group''
              \<and> (\<exists>g \<in> set (group_rows s). GroupID g = MemberValue m \<and> GroupWorkspaceID g = MemberWorkspaceID m)))"
proof -
  have "members_ok s0" using assms(3,4) by (auto simp: members_ok_def groups_of_def)
  with assms(5) have "members_ok s"
    by (induction rule: rtranclp_induct) (auto intro: served_members_ok [OF _ _ assms(1,2)])
  then show ?thesis unfolding members_ok_def refers_def target_def users_of_def groups_of_def by fastforce
qed

theorem group_members_valid_witness:
  "(served any_ext sample_database)\<^sup>*\<^sup>* empty_store club_store \<and> member_rows club_store = [ann_member]
   \<and> (\<exists>u \<in> set (user_rows club_store). ID u = MemberValue ann_member)"
proof -
  have "member_rows empty_store = []" "GroupID ` set (group_rows empty_store) \<subseteq> set (issued empty_store)"
    by (simp_all add: empty_store_def)
  from group_members_valid [OF sample_fresh any_canonical this club_served] club_served show ?thesis
    by (auto simp: club_store_def ann_member_def)
qed

text \<open>C35. A request on a group that fails, at whatever point, leaves every table as it was: the transaction takes
  back the memberships it has deleted and added. (Each request runs alone, and its transaction can be taken back.)\<close>

theorem group_requests_atomic:
  assumes "run D (groupProgram L r) s = (Inl e, s')"
  shows "user_rows s' = user_rows s \<and> group_rows s' = group_rows s \<and> member_rows s' = member_rows s
    \<and> event_rows s' = event_rows s \<and> workspace_rows s' = workspace_rows s"
  using request_Inl [OF assms] by (simp add: tables_of_eq)

definition put_missing :: group_request where
  "put_missing = ReplaceGroup ''w1'' ''uuuu'' [(''displayName'', JStr ''Team''),
     (''members'', JArr [JObj [(''value'', JStr ''uu'')], JObj [(''value'', JStr ''nobody'')]])] []"

theorem group_requests_atomic_witness:
  "\<exists>e s'. run sample_database (groupProgram any_ext put_missing) club_store = (Inl e, s') \<and> Status (errorOf e) = 404
    \<and> issued s' \<noteq> issued club_store \<and> member_rows s' = [ann_member]"
proof -
  obtain e s' where r: "run sample_database (groupProgram any_ext put_missing) club_store = (Inl e, s')"
    and e: "Status (errorOf e) = 404" and "issued s' = ''uuuuuuuuuuuuuuuu'' # issued club_store"
  proof -
    have "case run sample_database (groupProgram any_ext put_missing) club_store of
        (Inl e, s') \<Rightarrow> Status (errorOf e) = 404 \<and> issued s' = ''uuuuuuuuuuuuuuuu'' # issued club_store | _ \<Rightarrow> False"
      by code_simp
    then show ?thesis using that by (auto split: prod.splits sum.splits)
  qed
  then show ?thesis using group_requests_atomic [OF r] by (auto simp: club_store_def)
qed

text \<open>C36. A successful PATCH of a group raises its version by one and stores it exactly if it changed the display
  name, the external identifier or the members, compared as multisets of value and type; otherwise it changes no
  row of the groups and does not touch the workspace. The group it returns has the members it has stored. The display
  names of the members do not count, as \<open>member_display_keeps_version\<close> shows.\<close>

theorem patch_group_version:
  assumes "members_ok s" and "uuid_canonical L"
    and "find (\<lambda>g. GroupID g = gid \<and> GroupWorkspaceID g = ws) (group_rows s) = Some g"
    and "run D (executePatchGroup L ws gid ops ifMatch) s = (Inr g', s')"
  shows "Members g' = filter (\<lambda>m. MemberGroupID m = gid) (member_rows s')
    \<and> (if GroupDisplayName g' \<noteq> GroupDisplayName g \<or> GroupExternalID g' \<noteq> GroupExternalID g
         \<or> mset (map (memberKey L) (Members g')) \<noteq> mset (map (memberKey L) (filter (\<lambda>m. MemberGroupID m = gid) (member_rows s)))
       then GroupVersion g' = GroupVersion g + 1 \<and> setGroupColumns g g' \<in> set (group_rows s')
       else GroupVersion g' = GroupVersion g \<and> group_rows s' = group_rows s \<and> workspace_rows s' = workspace_rows s)"
proof -
  let ?s = "s\<lparr>backup := Some (tables_of s)\<rparr>"
  have g: "GroupID g = gid" using assms(3) by (auto simp: find_Some_iff)
  obtain r s1 where t: "run D (inTransaction (patchGroupTx L ws gid ops ifMatch)) s = (r, s1)" by fastforce
  with assms(4) obtain changed where r: "r = Inr (g', changed)"
    by (auto simp: executePatchGroup_def run_pbind split: sum.splits if_splits)
  obtain s2 where tx: "run D (patchGroupTx L ws gid ops ifMatch) ?s = (Inr (g', changed), s2)"
    and s1: "s1 = s2\<lparr>backup := None\<rparr>"
    by (rule run_transaction [OF inside_transactions(3) t]) (use r in auto)
  have v: "changed = patched L g ?s g' s2 \<and> Members g' = members_of gid s2
      \<and> GroupVersion g' = GroupVersion g + (if changed then 1 else 0) \<and> workspace_rows s2 = workspace_rows ?s
      \<and> (if changed then setGroupColumns g g' \<in> set (group_rows s2) else group_rows s2 = group_rows ?s)"
    using yieldsD [OF patchGroupTx_version [OF _ assms(2)] tx] assms(1,3) by simp
  show ?thesis
  proof (cases changed)
    case True
    then have "member_rows s' = member_rows s2" "group_rows s' = group_rows s2"
      using assms(4) t r s1 by (auto simp: executePatchGroup_def run_pbind)
    then show ?thesis using v True g by (simp add: patched_def del: mset_map mset_filter)
  next
    case False
    then have "s' = s2\<lparr>backup := None\<rparr>" using assms(4) t r s1 by (auto simp: executePatchGroup_def run_pbind)
    then show ?thesis using v False g by (simp add: patched_def del: mset_map mset_filter)
  qed
qed

definition rename_ops :: "json_object list" where
  "rename_ops = [[(''op'', JStr ''replace''), (''path'', JStr ''displayName''), (''value'', JStr ''Team'')]]"

theorem patch_group_version_witness:
  "\<exists>g' s'. run sample_database (executePatchGroup any_ext ''w1'' ''uuuu'' rename_ops []) club_store = (Inr g', s')
    \<and> GroupDisplayName g' = ''Team'' \<and> GroupVersion g' = 1 \<and> Members g' = [ann_member]"
proof -
  have "case run sample_database (executePatchGroup any_ext ''w1'' ''uuuu'' rename_ops []) club_store of
      (Inr g', s') \<Rightarrow> GroupDisplayName g' = ''Team'' \<and> member_rows s' = [ann_member] | _ \<Rightarrow> False" by code_simp
  then obtain g' s' where r: "run sample_database (executePatchGroup any_ext ''w1'' ''uuuu'' rename_ops []) club_store = (Inr g', s')"
    and n: "GroupDisplayName g' = ''Team''" "member_rows s' = [ann_member]"
    by (auto split: prod.splits sum.splits)
  have f: "find (\<lambda>g. GroupID g = ''uuuu'' \<and> GroupWorkspaceID g = ''w1'') (group_rows club_store) = Some club" by code_simp
  show ?thesis using patch_group_version [OF club_members_ok any_canonical f r] r n
    by (auto simp: club_def newGroup_def ann_member_def)
qed

text \<open>Replacing the members by the same member with another display name stores that name under the old version.\<close>

definition redisplay_ops :: "json_object list" where
  "redisplay_ops = [[(''op'', JStr ''replace''), (''path'', JStr ''members''),
     (''value'', JArr [JObj [(''value'', JStr ''uu''), (''display'', JStr ''Annie'')]])]]"

lemma member_display_keeps_version:
  "case run sample_database (executePatchGroup any_ext ''w1'' ''uuuu'' redisplay_ops []) club_store of
     (Inr g', s') \<Rightarrow> GroupVersion g' = GroupVersion club \<and> group_rows s' = group_rows club_store
       \<and> map MemberDisplay (member_rows club_store) = [Some ''Ann''] \<and> map MemberDisplay (member_rows s') = [Some ''Annie'']
   | _ \<Rightarrow> False"
  by code_simp

end
