(* ===== verification/GroupHttp.thy ===== *)
theory GroupHttp
  imports GroupHandler UserHttp
begin

text \<open>
  \<^verbatim>\<open>internal/handler/group.go\<close>: the HTTP handlers of groups.
\<close>

definition withGroupID :: "ext \<Rightarrow> http_request \<Rightarrow> (string \<Rightarrow> reply) \<Rightarrow> reply" where
  "withGroupID L r k = (case uuid_parse L (PathID r) of None \<Rightarrow> fail 404 [] ''Group not found'' | Some groupID \<Rightarrow> k groupID)"

definition groupProjected :: "ext \<Rightarrow> http_request \<Rightarrow> ScimGroup \<Rightarrow> json_object" where
  "groupProjected L r g =
     applyAttributeProjection L (GroupToScimResponse L g (baseOf r))
       (Get (Query r) ''attributes'') (Get (Query r) ''excludedAttributes'')"

definition groupURL :: "http_request \<Rightarrow> ScimGroup \<Rightarrow> string" where
  "groupURL r g = baseOf r @ ''/Groups/'' @ GroupID g"

definition groupResponse :: "ext \<Rightarrow> http_request \<Rightarrow> ScimGroup \<Rightarrow> http_response" where
  "groupResponse L r g =
     jsonResponse 200 [(''Content-Location'', groupURL r g), (''ETag'', etag (GroupVersion g))] (groupProjected L r g)"

text \<open>What a worker does for a group, and the answer to a request that is not asynchronous.\<close>

definition groupToken :: "ext \<Rightarrow> http_request \<Rightarrow> string option \<Rightarrow> string \<Rightarrow> string list \<Rightarrow> ScimGroup attempt \<Rightarrow> string
    \<Rightarrow> (string option \<times> string res) prog" where
  "groupToken L r known method paths p txnID =
     pbind p (\<lambda>result. case result of
         Inl e \<Rightarrow> Ret (known, Inl (errorOf e))
       | Inr g \<Rightarrow> buildSETJson L (baseOf r) txnID ''Group'' (GroupID g) method
           (Some (GroupToScimResponse L g (baseOf r))) paths (\<lambda>setStr. Ret (Some (GroupID g), Inr setStr)))"

definition answerGroup :: "ext \<Rightarrow> http_request \<Rightarrow> ScimGroup attempt \<Rightarrow> reply" where
  "answerGroup L r p = pbind p (\<lambda>result. case result of
       Inl e \<Rightarrow> respond (errorResponse (errorOf e)) | Inr g \<Rightarrow> respond (groupResponse L r g))"

text \<open>POST and PUT check the name and the \<^verbatim>\<open>externalId\<close> before they dispatch.\<close>

definition withGroupInput :: "ext \<Rightarrow> http_request \<Rightarrow> (json_object \<Rightarrow> reply) \<Rightarrow> reply" where
  "withGroupInput L r k =
     withJSON r (\<lambda>input.
       case rbind (requiredDisplayName L input) (\<lambda>_. parseGroupExternalID L (jget input ''externalId'')) of
         Inl e \<Rightarrow> respond (errorResponse e) | Inr _ \<Rightarrow> k input)"

definition handleCreateGroup :: "ext \<Rightarrow> http_request \<Rightarrow> reply" where
  "handleCreateGroup L r =
     inWorkspace r (\<lambda>wsID. withGroupInput L r (\<lambda>input.
       let create = executeCreateGroup L wsID input in
       case shouldExecuteAsync L (Prefer r) of
         Some prefHeader \<Rightarrow>
           dispatchAsyncOperation L wsID (baseOf r) prefHeader ''POST'' ''Group'' None (groupToken L r None ''POST'' [] create)
       | None \<Rightarrow> pbind create (\<lambda>result. case result of
             Inl e \<Rightarrow> respond (errorResponse (errorOf e))
           | Inr g \<Rightarrow> respond (jsonResponse 201
               [(''Location'', groupURL r g), (''Content-Location'', groupURL r g), (''ETag'', etag (GroupVersion g))]
               (groupProjected L r g)))))"

definition handleGetGroup :: "ext \<Rightarrow> http_request \<Rightarrow> reply" where
  "handleGetGroup L r =
     inWorkspace r (\<lambda>wsID. withGroupID L r (\<lambda>groupID.
       memberGroup groupID wsID (\<lambda>found. case found of
           None \<Rightarrow> fail 404 [] ''Group not found''
         | Some g \<Rightarrow> pbind (findMembers (GroupID g)) (\<lambda>ms.
             let g = g\<lparr>Members := (case ms of Inl _ \<Rightarrow> [] | Inr ms \<Rightarrow> ms)\<rparr>; ifNoneMatch = TrimSpace (IfNoneMatch r) in
             if ifNoneMatch \<noteq> [] \<and> checkETagMatch ifNoneMatch (GroupVersion g) then respond (emptyResponse 304 [])
             else respond (groupResponse L r g)))))"

section \<open>Lists\<close>

definition groupFilter :: "ext \<Rightarrow> string \<Rightarrow> (string \<times> sql_arg list) res" where
  "groupFilter L filterStr =
     (if filterStr = [] then Inr ([], [])
      else (case ParseGroupFilter L filterStr 2 of
          Inl e \<Rightarrow> Inl (NewScimError 400 ''invalidFilter'' (perr_text e))
        | Inr None \<Rightarrow> Inr ([], [])
        | Inr (Some fr) \<Rightarrow> Inr (SQL fr, Args fr)))"

definition groupSort :: "ext \<Rightarrow> string \<Rightarrow> string" where
  "groupSort L sortBy =
     (let col = ResolveGroupSortAttribute L (if sortBy = [] then ''displayName'' else sortBy) in
      if col = [] then ''display_name'' else col)"

text \<open>The members of each group, in the order of the list; a failure leaves a group without members.\<close>

primrec loadMembers :: "ScimGroup list \<Rightarrow> (ScimGroup list \<Rightarrow> 'b prog) \<Rightarrow> 'b prog" where
  "loadMembers [] k = k []"
| "loadMembers (g # gs) k = pbind (findMembers (GroupID g)) (\<lambda>ms.
     loadMembers gs (\<lambda>loaded. k (g\<lparr>Members := (case ms of Inl _ \<Rightarrow> [] | Inr ms \<Rightarrow> ms)\<rparr> # loaded)))"

definition handleListGroups :: "crypto \<Rightarrow> ext \<Rightarrow> string \<Rightarrow> http_request \<Rightarrow> reply" where
  "handleListGroups C L key r =
     inWorkspace r (\<lambda>wsID. timeNow (\<lambda>now.
       case rbind (parsePagination C L key now (\<lambda>i. i) (Query r) None wsID 100) (\<lambda>pag.
            rbind (groupFilter L (Get (Query r) ''filter'')) (\<lambda>(whereClause, args). Inr (pag, whereClause, args))) of
         Inl e \<Rightarrow> respond (errorResponse e)
       | Inr (pag, whereClause, args) \<Rightarrow>
           pbind (countGroups wsID whereClause args) (\<lambda>count. case count of
               Inl _ \<Rightarrow> fail 500 [] ''Internal error''
             | Inr totalCount \<Rightarrow>
                 (let answer = (\<lambda>groups. timeNow (\<lambda>now. respond (jsonResponse 200 []
                        (buildListResponse C key now pag wsID (int totalCount) (map (groupProjected L r) groups)))))
                  in if PageCount pag = 0 then answer []
                     else pbind (listGroups L wsID whereClause args (groupSort L (Get (Query r) ''sortBy''))
                       (sortDirection L (Get (Query r) ''sortOrder'')) (PageOffset pag) (PageCount pag)) (\<lambda>rows.
                         case rows of
                           Inl _ \<Rightarrow> fail 500 [] ''Internal error''
                         | Inr groups \<Rightarrow> loadMembers groups answer)))))"

text \<open>Unlike users, groups accept a search without a body.\<close>

definition handleSearchGroups :: "crypto \<Rightarrow> ext \<Rightarrow> string \<Rightarrow> (int \<Rightarrow> int) \<Rightarrow> http_request \<Rightarrow> reply" where
  "handleSearchGroups C L key conv r =
     (case readJSON r of
        None \<Rightarrow> if BodyEOF r then handleListGroups C L key r else fail 400 ''invalidSyntax'' ''Invalid JSON''
      | Some body \<Rightarrow> (case searchQuery conv body (Query r) of
            Inl e \<Rightarrow> respond (errorResponse e)
          | Inr q \<Rightarrow> handleListGroups C L key (r\<lparr>Query := q\<rparr>)))"

section \<open>PUT, PATCH and DELETE\<close>

definition handleReplaceGroup :: "ext \<Rightarrow> http_request \<Rightarrow> reply" where
  "handleReplaceGroup L r =
     inWorkspace r (\<lambda>wsID. withGroupID L r (\<lambda>groupID. withGroupInput L r (\<lambda>input.
       let replace = executeReplaceGroup L wsID groupID input (IfMatch r) in
       case shouldExecuteAsync L (Prefer r) of
         Some prefHeader \<Rightarrow>
           dispatchAsyncOperation L wsID (baseOf r) prefHeader ''PUT'' ''Group'' (Some groupID)
             (groupToken L r (Some groupID) ''PUT'' [] replace)
       | None \<Rightarrow> answerGroup L r replace)))"

text \<open>All elements of \<^verbatim>\<open>Operations\<close> have to be objects.\<close>

definition groupOperations :: "json list \<Rightarrow> json_object list res" where
  "groupOperations ops =
     (if length (objects ops) = length ops then Inr (objects ops)
      else Inl (NewScimError 400 ''invalidSyntax'' ''Invalid PATCH operation''))"

definition handlePatchGroup :: "ext \<Rightarrow> http_request \<Rightarrow> reply" where
  "handlePatchGroup L r =
     inWorkspace r (\<lambda>wsID. withGroupID L r (\<lambda>groupID. withJSON r (\<lambda>patchReq.
       let ops = arrayMember patchReq ''Operations'';
           patch = andThen (checked (groupOperations ops)) (\<lambda>opMaps. executePatchGroup L wsID groupID opMaps (IfMatch r)) in
       if JStr patchSchema \<notin> set (arrayMember patchReq ''schemas'') then
         fail 400 ''invalidValue'' ''PATCH request must include PatchOp schema''
       else if ops = [] then fail 400 ''invalidValue'' ''PATCH Operations is required''
       else (case shouldExecuteAsync L (Prefer r) of
           Some prefHeader \<Rightarrow>
             dispatchAsyncOperation L wsID (baseOf r) prefHeader ''PATCH'' ''Group'' (Some groupID)
               (groupToken L r (Some groupID) ''PATCH'' (extractModifiedPatchPaths L (objects ops)) patch)
         | None \<Rightarrow> answerGroup L r patch))))"

definition handleDeleteGroup :: "ext \<Rightarrow> http_request \<Rightarrow> reply" where
  "handleDeleteGroup L r =
     inWorkspace r (\<lambda>wsID. withGroupID L r (\<lambda>groupID.
       let delete = executeDeleteGroup wsID groupID (IfMatch r) in
       case shouldExecuteAsync L (Prefer r) of
         Some prefHeader \<Rightarrow>
           dispatchAsyncOperation L wsID (baseOf r) prefHeader ''DELETE'' ''Group'' (Some groupID) (\<lambda>txnID.
             pbind delete (\<lambda>result. case result of
                 Inl e \<Rightarrow> Ret (Some groupID, Inl (errorOf e))
               | Inr _ \<Rightarrow> buildSETJson L (baseOf r) txnID ''Group'' groupID ''DELETE'' None []
                   (\<lambda>setStr. Ret (Some groupID, Inr setStr))))
       | None \<Rightarrow> pbind delete (\<lambda>result. case result of
             Inl e \<Rightarrow> respond (errorResponse (errorOf e)) | Inr _ \<Rightarrow> respond (emptyResponse 204 []))))"

end
