(* ===== verification/BulkRefs.thy ===== *)
theory BulkRefs
  imports GroupHttp "HOL-Library.AList"
begin

text \<open>
  \<^verbatim>\<open>internal/handler/bulk.go\<close>, part one: references \<^verbatim>\<open>bulkId:x\<close> inside a bulk request, paths of its
  operations, results. The regular expression for a reference is matched by \<open>tokenAt\<close>; the map from bulk
  identifiers to identifiers of created resources is an association list.
\<close>

section \<open>References\<close>

text \<open>\<^verbatim>\<open>bulkId:([^\s"'/\]\[,]+)\<close> at the start of a string: the text after the colon.\<close>

definition refChar :: "char \<Rightarrow> bool" where
  "refChar c \<longleftrightarrow> \<not> regex_space c \<and> c \<notin> set [dquote, CHR 0x27, CHR ''/'', CHR '']'', CHR ''['', CHR '','']"

definition bulkPrefix :: string where
  "bulkPrefix = ''bulkId:''"

definition tokenAt :: "string \<Rightarrow> string option" where
  "tokenAt s = (let key = takeWhile refChar (drop 7 s) in if HasPrefix s bulkPrefix \<and> key \<noteq> [] then Some key else None)"

text \<open>\<^verbatim>\<open>FindAllStringSubmatch\<close> and \<^verbatim>\<open>ReplaceAllStringFunc\<close>: the leftmost matches that do not overlap.\<close>

function findTokens :: "string \<Rightarrow> string list" where
  "findTokens s = (case s of [] \<Rightarrow> []
     | c # cs \<Rightarrow> (case tokenAt s of
         Some key \<Rightarrow> key # findTokens (drop (7 + length key) s)
       | None \<Rightarrow> findTokens cs))"
  by pat_completeness auto
termination by (relation "measure length") auto

function replaceTokens :: "(string \<Rightarrow> string) \<Rightarrow> string \<Rightarrow> string" where
  "replaceTokens f s = (case s of [] \<Rightarrow> []
     | c # cs \<Rightarrow> (case tokenAt s of
         Some key \<Rightarrow> f key @ replaceTokens f (drop (7 + length key) s)
       | None \<Rightarrow> c # replaceTokens f cs))"
  by pat_completeness auto
termination by (relation "measure (\<lambda>(f, s). length s)") auto

declare findTokens.simps [simp del] replaceTokens.simps [simp del]

lemma drop_token: "drop (7 + n) (c # cs) = drop (6 + n) cs"
  by (simp add: drop_Cons')

lemma findTokens_Nil [simp]: "findTokens [] = []"
  by (simp add: findTokens.simps)

lemma replaceTokens_Nil [simp]: "replaceTokens f [] = []"
  by (simp add: replaceTokens.simps)

lemma findTokens_Cons:
  "findTokens (c # cs) = (case tokenAt (c # cs) of
     Some key \<Rightarrow> key # findTokens (drop (6 + length key) cs) | None \<Rightarrow> findTokens cs)"
  by (simp add: findTokens.simps [of "c # cs"] drop_token del: drop_Suc_Cons split: option.split)

lemma replaceTokens_Cons:
  "replaceTokens f (c # cs) = (case tokenAt (c # cs) of
     Some key \<Rightarrow> f key @ replaceTokens f (drop (6 + length key) cs) | None \<Rightarrow> c # replaceTokens f cs)"
  by (simp add: replaceTokens.simps [of f "c # cs"] drop_token del: drop_Suc_Cons split: option.split)

text \<open>A string that is a reference as a whole may have white space other than blanks in its name.\<close>

definition stringRefs :: "string \<Rightarrow> string list" where
  "stringRefs x =
     (if HasPrefix x bulkPrefix \<and> \<not> ContainsAny (drop 7 x) ('' '' @ [dquote, CHR 0x27] @ ''/][,'')
      then (if drop 7 x = [] then [] else [drop 7 x]) else findTokens x)"

primrec bulkRefs :: "json \<Rightarrow> string list" where
  "bulkRefs JNull = []"
| "bulkRefs (JBool b) = []"
| "bulkRefs (JNum n) = []"
| "bulkRefs (JStr s) = stringRefs s"
| "bulkRefs (JArr xs) = concat (map bulkRefs xs)"
| "bulkRefs (JObj m) = concat (map snd (map (map_prod (\<lambda>k. k) bulkRefs) m))"

definition firstOccurrences :: "'a list \<Rightarrow> 'a list" where
  "firstOccurrences xs = rev (remdups (rev xs))"

lemma set_firstOccurrences [simp]: "set (firstOccurrences xs) = set xs"
  by (simp add: firstOccurrences_def)

definition extractBulkIDRefs :: "json \<Rightarrow> string list" where
  "extractBulkIDRefs v = firstOccurrences (bulkRefs v)"

type_synonym bulk_ids = "(string \<times> string) list"

definition resolveBulkIdReferences :: "string \<Rightarrow> bulk_ids \<Rightarrow> string" where
  "resolveBulkIdReferences s bulkIdMap =
     (let replaced = replaceTokens (\<lambda>key. case map_of bulkIdMap key of
            Some resolved \<Rightarrow> resolved | None \<Rightarrow> bulkPrefix @ key) s in
      if bulkIdMap = [] \<or> \<not> Contains s bulkPrefix then s
      else if HasPrefix s bulkPrefix then
        (case map_of bulkIdMap (drop 7 s) of Some resolved \<Rightarrow> resolved | None \<Rightarrow> replaced)
      else replaced)"

primrec resolveValue :: "bulk_ids \<Rightarrow> json \<Rightarrow> json" where
  "resolveValue ids JNull = JNull"
| "resolveValue ids (JBool b) = JBool b"
| "resolveValue ids (JNum n) = JNum n"
| "resolveValue ids (JStr s) = JStr (resolveBulkIdReferences s ids)"
| "resolveValue ids (JArr xs) = JArr (map (resolveValue ids) xs)"
| "resolveValue ids (JObj m) = JObj (map (map_prod (\<lambda>k. k) (resolveValue ids)) m)"

definition resolveBulkIdInData :: "json_object \<Rightarrow> bulk_ids \<Rightarrow> json_object" where
  "resolveBulkIdInData m ids = map (\<lambda>(k, v). (k, resolveValue ids v)) m"

section \<open>Paths\<close>

definition normalizeBulkPath :: "string \<Rightarrow> string list res" where
  "normalizeBulkPath rawPath =
     (let stripped = TrimByte (TrimSpace rawPath) CHR ''/'';
          segments = filter (\<lambda>s. s \<noteq> []) (SplitByte stripped CHR ''/'') in
      if stripped = [] then Inr []
      else if ''.'' \<in> set segments \<or> ''..'' \<in> set segments then
        invalidPath (''Path traversal segments ('' @ quoted ''.'' @ '' or '' @ quoted ''..'' @ '') are not allowed: '' @ rawPath)
      else Inr segments)"

datatype bulkResourceType = BulkUsers | BulkGroups

record bulkPathTarget =
  TargetType :: bulkResourceType
  TargetID :: string

text \<open>The identifier is the nil UUID where the path has none.\<close>

definition parseBulkTarget :: "ext \<Rightarrow> string \<Rightarrow> bool \<Rightarrow> bulkPathTarget res" where
  "parseBulkTarget L rawPath isItemRequired =
     rbind (normalizeBulkPath rawPath) (\<lambda>segments.
       case segments of
         [] \<Rightarrow> invalidPath (''Bulk path cannot be empty: '' @ rawPath)
       | seg # rest \<Rightarrow>
           rbind (if EqualFold L seg ''Users'' then Inr BulkUsers
                  else if EqualFold L seg ''Groups'' then Inr BulkGroups
                  else invalidValue (''Unknown resource path: '' @ rawPath)) (\<lambda>rType.
             if isItemRequired then
               (case rest of
                  [sid] \<Rightarrow>
                    (case (if length sid \<noteq> 36 then None else uuid_parse L sid) of
                       None \<Rightarrow> invalidValue (''Invalid resource ID: '' @ sid)
                     | Some u \<Rightarrow> Inr \<lparr>TargetType = rType, TargetID = u\<rparr>)
                | _ \<Rightarrow> invalidPath (''Bulk path must include resource ID: '' @ rawPath))
             else if rest \<noteq> [] then invalidPath (''Bulk POST must specify a resource type endpoint: '' @ rawPath)
             else Inr \<lparr>TargetType = rType, TargetID = nilUUID\<rparr>))"

definition userCollectionPath :: string where
  "userCollectionPath = ''/Users/''"

definition groupCollectionPath :: string where
  "groupCollectionPath = ''/Groups/''"

definition collectionPath :: "bulkResourceType \<Rightarrow> string" where
  "collectionPath t = (case t of BulkUsers \<Rightarrow> userCollectionPath | BulkGroups \<Rightarrow> groupCollectionPath)"

definition computeBulkTargetLocation :: "ext \<Rightarrow> string \<Rightarrow> string \<Rightarrow> string \<Rightarrow> string" where
  "computeBulkTargetLocation L baseURL method resolvedPath =
     (if method = ''POST'' then []
      else (case parseBulkTarget L resolvedPath True of
          Inr target \<Rightarrow> baseURL @ collectionPath (TargetType target) @ TargetID target
        | Inl _ \<Rightarrow>
            (case normalizeBulkPath resolvedPath of
               Inr (seg # rest) \<Rightarrow>
                 let seg0 = (if EqualFold L seg ''Users'' then ''Users''
                             else if EqualFold L seg ''Groups'' then ''Groups'' else seg)
                 in baseURL @ ''/'' @ Join (seg0 # rest) ''/''
             | _ \<Rightarrow>
                 let trimmed = TrimByte (TrimSpace resolvedPath) CHR ''/''
                 in if trimmed \<noteq> [] then baseURL @ ''/'' @ trimmed else [])))"

section \<open>Results\<close>

definition buildBulkError :: "string \<Rightarrow> string \<Rightarrow> string \<Rightarrow> json_object" where
  "buildBulkError status scimType detail =
     [(''schemas'', JArr [JStr ''urn:ietf:params:scim:api:messages:2.0:Error'']), (''status'', JStr status)]
     @ (if scimType = [] then [] else [(''scimType'', JStr scimType)])
     @ (if detail = [] then [] else [(''detail'', JStr detail)])"

definition bulkStatus :: "string \<Rightarrow> string \<Rightarrow> string \<Rightarrow> json_object \<Rightarrow> json_object" where
  "bulkStatus status scimType detail result =
     jput (jput result ''status'' (JStr status)) ''response'' (JObj (buildBulkError status scimType detail))"

definition setBulkError :: "json_object \<Rightarrow> go_error \<Rightarrow> json_object" where
  "setBulkError result err = (case err of
       ScimErr se \<Rightarrow> bulkStatus (itoa (Status se)) (ScimType se) (Detail se) result
     | DbErr _ \<Rightarrow> bulkStatus ''500'' [] ''Internal server error'' result)"

definition isErrorResult :: "json_object \<Rightarrow> bool" where
  "isErrorResult result = (case textMember result ''status'' of [] \<Rightarrow> False | c # _ \<Rightarrow> code CHR ''4'' \<le> code c)"

end
