(* ===== verification/BulkOrder.thy ===== *)
theory BulkOrder
  imports BulkRefs
begin

text \<open>
  \<^verbatim>\<open>internal/handler/bulk.go\<close>, part two: the order in which the operations of a bulk request are executed.
  An operation is the object at its position in the request, or \<open>None\<close> for an element that is none. The
  producers map a bulk identifier to the position of the first POST that declares it.
\<close>

type_synonym bulk_ops = "json_object option list"
type_synonym producers = "(string \<times> nat) list"

section \<open>Producers and their closure\<close>

definition isPost :: "ext \<Rightarrow> string \<Rightarrow> bool" where
  "isPost L rawMethod = EqualFold L rawMethod ''POST''"

text \<open>The first declaration of an identifier counts.\<close>

definition declareProducer :: "ext \<Rightarrow> nat \<times> json_object option \<Rightarrow> producers \<Rightarrow> producers" where
  "declareProducer L iop ps = (case iop of
       (i, None) \<Rightarrow> ps
     | (i, Some op) \<Rightarrow>
         let bid = TrimSpace (textMember op ''bulkId'') in
         if isPost L (textMember op ''method'') \<and> bid \<noteq> [] \<and> map_of ps bid = None then ps @ [(bid, i)] else ps)"

definition declareProducers :: "ext \<Rightarrow> bulk_ops \<Rightarrow> producers" where
  "declareProducers L ops = fold (declareProducer L) (enumerate 0 ops) []"

definition opRefs :: "json_object \<Rightarrow> string list" where
  "opRefs op = extractBulkIDRefs (jget op ''path'') @ extractBulkIDRefs (jget op ''data'')"

text \<open>The positions of the producers an operation refers to, each once.\<close>

definition refProducers :: "bulk_ops \<Rightarrow> producers \<Rightarrow> nat \<Rightarrow> nat list" where
  "refProducers ops ps i = (case ops ! i of
       None \<Rightarrow> [] | Some op \<Rightarrow> firstOccurrences (List.map_filter (map_of ps) (opRefs op)))"

text \<open>Breadth-first search from a producer along \<open>directDeps\<close>. Every visited position enters the queue once.\<close>

fun visitNext :: "nat list \<Rightarrow> nat list \<Rightarrow> nat list \<Rightarrow> nat list \<times> nat list" where
  "visitNext [] visited queue = (visited, queue)"
| "visitNext (n # ns) visited queue =
     (if n \<in> set visited then visitNext ns visited queue else visitNext ns (n # visited) (queue @ [n]))"

primrec search :: "nat \<Rightarrow> (nat \<Rightarrow> nat list) \<Rightarrow> nat list \<Rightarrow> nat list \<Rightarrow> nat list" where
  "search 0 directDeps visited queue = visited"
| "search (Suc fuel) directDeps visited queue = (case queue of
       [] \<Rightarrow> visited
     | cur # queue \<Rightarrow>
         case visitNext (directDeps cur) visited queue of (visited, queue) \<Rightarrow> search fuel directDeps visited queue)"

definition directDeps :: "bulk_ops \<Rightarrow> producers \<Rightarrow> nat \<Rightarrow> nat list" where
  "directDeps ops ps p = (if p \<in> snd ` set ps then refProducers ops ps p else [])"

definition producerClosure :: "bulk_ops \<Rightarrow> producers \<Rightarrow> nat \<Rightarrow> nat list" where
  "producerClosure ops ps p =
     (if p \<in> snd ` set ps then search (Suc (length ops)) (directDeps ops ps) [p] [p] else [])"

section \<open>Edges\<close>

record bulk_graph =
  dependents :: "nat list list"
  inDegree :: "nat list"

text \<open>\<^verbatim>\<open>addEdge\<close>: the second component is \<^verbatim>\<open>seenProducers\<close> of the operation at the edge's end.\<close>

definition addEdge :: "nat \<Rightarrow> nat \<Rightarrow> bulk_graph \<times> nat list \<Rightarrow> bulk_graph \<times> nat list" where
  "addEdge to from gs = (case gs of (g, seen) \<Rightarrow>
     if from = to \<or> from \<in> set seen then (g, seen)
     else (g\<lparr>dependents := (dependents g)[from := dependents g ! from @ [to]],
             inDegree := (inDegree g)[to := Suc (inDegree g ! to)]\<rparr>, from # seen))"

definition resourceKey :: "ext \<Rightarrow> json_object \<Rightarrow> string option" where
  "resourceKey L op = (case jget op ''path'' of
       JStr rawPath \<Rightarrow> (case normalizeBulkPath rawPath of
           Inr (seg0 # seg1 # _) \<Rightarrow> Some (ToLower L seg0 @ ''/'' @ seg1) | _ \<Rightarrow> None)
     | _ \<Rightarrow> None)"

definition addRefEdges :: "bulk_ops \<Rightarrow> producers \<Rightarrow> nat \<Rightarrow> string \<Rightarrow> bulk_graph \<times> nat list \<Rightarrow> bulk_graph \<times> nat list" where
  "addRefEdges ops ps i ref gs = (case map_of ps ref of
       None \<Rightarrow> gs
     | Some prodIdx \<Rightarrow>
         let closure = producerClosure ops ps prodIdx; gs = addEdge i prodIdx gs in
         if i \<in> set closure then gs else fold (addEdge i) closure gs)"

text \<open>The edges of one operation, and \<^verbatim>\<open>lastOpForResource\<close>.\<close>

definition addOpEdges :: "ext \<Rightarrow> bulk_ops \<Rightarrow> producers \<Rightarrow> nat \<times> json_object option
    \<Rightarrow> bulk_graph \<times> (string \<times> nat) list \<Rightarrow> bulk_graph \<times> (string \<times> nat) list" where
  "addOpEdges L ops ps iop gl = (case iop of
       (i, None) \<Rightarrow> gl
     | (i, Some op) \<Rightarrow> (case gl of (g, lastOp) \<Rightarrow>
         let prev = Option.bind (resourceKey L op) (map_of lastOp);
             gs = (case prev of None \<Rightarrow> (g, []) | Some p \<Rightarrow> addEdge i p (g, []));
             lastOp = (case resourceKey L op of None \<Rightarrow> lastOp | Some key \<Rightarrow> AList.update key i lastOp)
         in (fst (fold (addRefEdges ops ps i) (opRefs op) gs), lastOp)))"

definition emptyGraph :: "nat \<Rightarrow> bulk_graph" where
  "emptyGraph n = \<lparr>dependents = replicate n [], inDegree = replicate n 0\<rparr>"

definition bulkGraph :: "ext \<Rightarrow> bulk_ops \<Rightarrow> producers \<Rightarrow> bulk_graph" where
  "bulkGraph L ops ps = fst (fold (addOpEdges L ops ps) (enumerate 0 ops) (emptyGraph (length ops), []))"

section \<open>The order\<close>

definition isPostOp :: "ext \<Rightarrow> bulk_ops \<Rightarrow> nat \<Rightarrow> bool" where
  "isPostOp L ops i = (case ops ! i of None \<Rightarrow> False | Some op \<Rightarrow> isPost L (TrimSpace (textMember op ''method'')))"

text \<open>Without a free operation the earliest POST is chosen, and without one the earliest operation.\<close>

definition chooseNext :: "ext \<Rightarrow> bulk_ops \<Rightarrow> nat list \<Rightarrow> bool list \<Rightarrow> nat option" where
  "chooseNext L ops deg scheduled =
     (let unscheduled = filter (\<lambda>i. \<not> scheduled ! i) [0..<length ops] in
      case find (\<lambda>i. deg ! i = 0) unscheduled of
        Some i \<Rightarrow> Some i
      | None \<Rightarrow> (case find (isPostOp L ops) unscheduled of
          Some i \<Rightarrow> Some i
        | None \<Rightarrow> (case unscheduled of [] \<Rightarrow> None | i # _ \<Rightarrow> Some i)))"

definition lowerDegree :: "nat \<Rightarrow> nat list \<Rightarrow> nat list" where
  "lowerDegree dep deg = (if 0 < deg ! dep then deg[dep := deg ! dep - 1] else deg)"

text \<open>The loop runs once for every operation; the second equation's \<open>None\<close> does not occur.\<close>

primrec schedule :: "ext \<Rightarrow> bulk_ops \<Rightarrow> nat list list \<Rightarrow> nat \<Rightarrow> bool list \<Rightarrow> nat list \<Rightarrow> nat list" where
  "schedule L ops deps 0 scheduled deg = []"
| "schedule L ops deps (Suc left) scheduled deg = (case chooseNext L ops deg scheduled of
       None \<Rightarrow> []
     | Some chosen \<Rightarrow> chosen # schedule L ops deps left (scheduled[chosen := True]) (fold lowerDegree (deps ! chosen) deg))"

definition computeBulkExecutionOrder :: "ext \<Rightarrow> bulk_ops \<Rightarrow> producers \<Rightarrow> nat list" where
  "computeBulkExecutionOrder L ops ps =
     (let n = length ops; g = bulkGraph L ops ps in
      if n \<le> 1 \<or> ps = [] then [0..<n]
      else schedule L ops (dependents g) n (replicate n False) (inDegree g))"

end
