(* ===== verification/BulkHandler.thy ===== *)
theory BulkHandler
  imports BulkOrder
begin

text \<open>
  \<^verbatim>\<open>internal/handler/bulk.go\<close>, part three: one operation of a bulk request, the references that are resolved
  after the resource exists, and taking created resources back. A result is the map that becomes an element of
  the response. The repositories are wired; a panic of an operation is left out.
\<close>

section \<open>State\<close>

datatype deferred = DeferredMembers "json_object list" | DeferredManager json

record deferredBulkFixup =
  FixupKind :: deferred
  FixupIdx :: nat
  FixupResource :: string

record createdPostRecord =
  PostIdx :: nat
  PostType :: bulkResourceType
  PostResource :: string
  PostBulkID :: string
  DepBulkIDs :: "string list"
  RolledBack :: bool

text \<open>The maps and slices of \<^verbatim>\<open>ProcessBulk\<close> that its loop changes.\<close>

record bulk_state =
  BulkIdMap :: bulk_ids
  Results :: "json_object option list"
  Fixups :: "deferredBulkFixup list"
  CreatedPosts :: "createdPostRecord list"
  CompletedOps :: "nat list"
  RolledBackIDs :: "string list"
  ErrorCount :: nat

section \<open>References that wait\<close>

definition declaredRef :: "producers \<Rightarrow> string \<Rightarrow> string \<Rightarrow> bool" where
  "declaredRef ps selfBulkID s \<longleftrightarrow>
     HasPrefix s bulkPrefix \<and> drop 7 s \<noteq> [] \<and> drop 7 s \<noteq> selfBulkID \<and> map_of ps (drop 7 s) \<noteq> None"

definition deferredMember :: "producers \<Rightarrow> string \<Rightarrow> json \<Rightarrow> bool" where
  "deferredMember ps selfBulkID m = (case m of JObj mm \<Rightarrow> declaredRef ps selfBulkID (textMember mm ''value'') | _ \<Rightarrow> False)"

definition extractDeferredGroupMembers :: "json_object \<Rightarrow> producers \<Rightarrow> string \<Rightarrow> json_object \<times> json_object list" where
  "extractDeferredGroupMembers data ps selfBulkID =
     (let rawMembers = arrayMember data ''members'';
          delayed = objects (filter (deferredMember ps selfBulkID) rawMembers);
          immediate = filter (\<lambda>m. \<not> deferredMember ps selfBulkID m) rawMembers in
      if delayed = [] then (data, []) else (jput data ''members'' (JArr immediate), delayed))"

text \<open>The first member whose key is the URN of the enterprise extension, if it is an object.\<close>

definition enterpriseOf :: "ext \<Rightarrow> json_object \<Rightarrow> (string \<times> json_object) option" where
  "enterpriseOf L data = (case find (\<lambda>(k, v). EqualFold L k EnterpriseSchemaURN) data of
       Some (k, JObj m) \<Rightarrow> Some (k, m) | _ \<Rightarrow> None)"

definition managerText :: "json \<Rightarrow> string" where
  "managerText mgr = (case mgr of JStr s \<Rightarrow> s | JObj m \<Rightarrow> textMember m ''value'' | _ \<Rightarrow> [])"

definition extractDeferredUserManager :: "ext \<Rightarrow> json_object \<Rightarrow> producers \<Rightarrow> string \<Rightarrow> json_object \<times> json option" where
  "extractDeferredUserManager L data ps selfBulkID = (case enterpriseOf L data of
       None \<Rightarrow> (data, None)
     | Some (entKey, entMap) \<Rightarrow>
         let rawMgr = jget entMap ''manager'' in
         if declaredRef ps selfBulkID (managerText rawMgr)
         then (jput data entKey (JObj (filter (\<lambda>(k, v). \<not> EqualFold L k ''manager'') entMap)), Some rawMgr)
         else (data, None))"

section \<open>One operation\<close>

text \<open>What an operation leaves besides its result: the identifier of a created resource, references that wait
  for others, and the record of the created resource.\<close>

record post_outcome =
  PostResult :: json_object
  NewID :: "string option"
  NewFixups :: "deferredBulkFixup list"
  NewPost :: "createdPostRecord option"

definition onlyResult :: "json_object \<Rightarrow> post_outcome" where
  "onlyResult result = \<lparr>PostResult = result, NewID = None, NewFixups = [], NewPost = None\<rparr>"

definition succeeded :: "json_object \<Rightarrow> string \<Rightarrow> string \<Rightarrow> int \<Rightarrow> json_object" where
  "succeeded result status location version =
     jput (jput (jput result ''status'' (JStr status)) ''location'' (JStr location)) ''version'' (JStr (etag version))"

definition createdPost :: "json_object \<Rightarrow> nat \<Rightarrow> bulkResourceType \<Rightarrow> string \<Rightarrow> string \<Rightarrow> int \<Rightarrow> string \<Rightarrow> string list
    \<Rightarrow> deferred option \<Rightarrow> post_outcome" where
  "createdPost result origIdx rType baseURL rid version bulkId refs wait =
     \<lparr>PostResult = succeeded result ''201'' (baseURL @ collectionPath rType @ rid) version,
      NewID = Some rid,
      NewFixups = (case wait of None \<Rightarrow> []
        | Some kind \<Rightarrow> [\<lparr>FixupKind = kind, FixupIdx = origIdx, FixupResource = rid\<rparr>]),
      NewPost = Some \<lparr>PostIdx = origIdx, PostType = rType, PostResource = rid, PostBulkID = bulkId,
        DepBulkIDs = refs, RolledBack = False\<rparr>\<rparr>"

definition handleBulkPost :: "ext \<Rightarrow> json_object \<Rightarrow> nat \<Rightarrow> string \<Rightarrow> json_object \<Rightarrow> string list \<Rightarrow> string \<Rightarrow> string
    \<Rightarrow> string \<Rightarrow> producers \<Rightarrow> post_outcome prog" where
  "handleBulkPost L result origIdx rawPath data refs wsID baseURL bulkId ps =
     (case parseBulkTarget L rawPath False of
        Inl err \<Rightarrow> Ret (onlyResult (setBulkError result (ScimErr err)))
      | Inr target \<Rightarrow> (case TargetType target of
          BulkUsers \<Rightarrow>
            (case (if ps = [] then (data, None) else extractDeferredUserManager L data ps bulkId) of (phase1, mgr) \<Rightarrow>
             pbind (executeCreateUser L wsID baseURL phase1) (\<lambda>r. Ret (case r of
                 Inl err \<Rightarrow> onlyResult (setBulkError result (ScimErr err))
               | Inr user \<Rightarrow> createdPost result origIdx BulkUsers baseURL (ID user) (Version user) bulkId refs
                   (map_option DeferredManager mgr))))
        | BulkGroups \<Rightarrow>
            (case (if ps = [] then (data, []) else extractDeferredGroupMembers data ps bulkId) of (phase1, ms) \<Rightarrow>
             pbind (executeCreateGroup L wsID phase1) (\<lambda>r. Ret (case r of
                 Inl err \<Rightarrow> onlyResult (setBulkError result err)
               | Inr g \<Rightarrow> createdPost result origIdx BulkGroups baseURL (GroupID g) (GroupVersion g) bulkId refs
                   (if ms = [] then None else Some (DeferredMembers ms)))))))"

text \<open>A PUT or PATCH: the version of the resource, or an error.\<close>

definition fromUser :: "'a res prog \<Rightarrow> 'a attempt" where
  "fromUser p = pbind p (\<lambda>r. Ret (case r of Inl e \<Rightarrow> Inl (ScimErr e) | Inr x \<Rightarrow> Inr x))"

definition onTarget :: "ext \<Rightarrow> json_object \<Rightarrow> string \<Rightarrow> (bulkPathTarget \<Rightarrow> json_object prog) \<Rightarrow> json_object prog" where
  "onTarget L result rawPath k = (case parseBulkTarget L rawPath True of
       Inl err \<Rightarrow> Ret (setBulkError result (ScimErr err)) | Inr target \<Rightarrow> k target)"

definition answerVersion :: "json_object \<Rightarrow> string \<Rightarrow> bulkPathTarget \<Rightarrow> int attempt \<Rightarrow> json_object prog" where
  "answerVersion result baseURL target p =
     pbind p (\<lambda>r. Ret (case r of
         Inl err \<Rightarrow> setBulkError result err
       | Inr ver \<Rightarrow> succeeded result ''200'' (baseURL @ collectionPath (TargetType target) @ TargetID target) ver))"

definition returnVersion :: "('a \<Rightarrow> int) \<Rightarrow> 'a attempt \<Rightarrow> int attempt" where
  "returnVersion f p = andThen p (\<lambda>x. Ret (Inr (f x)))"

definition handleBulkPut :: "ext \<Rightarrow> json_object \<Rightarrow> string \<Rightarrow> json_object \<Rightarrow> string \<Rightarrow> string \<Rightarrow> string \<Rightarrow> json_object prog" where
  "handleBulkPut L result rawPath data opVersion wsID baseURL =
     onTarget L result rawPath (\<lambda>target.
       answerVersion result baseURL target (case TargetType target of
           BulkUsers \<Rightarrow> returnVersion Version (fromUser (executeReplaceUser L wsID (TargetID target) baseURL data opVersion))
         | BulkGroups \<Rightarrow> returnVersion GroupVersion (executeReplaceGroup L wsID (TargetID target) data opVersion)))"

definition handleBulkPatch :: "ext \<Rightarrow> json_object \<Rightarrow> string \<Rightarrow> json_object \<Rightarrow> string \<Rightarrow> string \<Rightarrow> string \<Rightarrow> json_object prog" where
  "handleBulkPatch L result rawPath data opVersion wsID baseURL =
     onTarget L result rawPath (\<lambda>target.
       let ops = arrayMember data ''Operations''; operations = objects ops in
       if ops = [] then Ret (setBulkError result (ScimErr (NewScimError 400 ''invalidValue'' ''PATCH Operations is required'')))
       else if length operations \<noteq> length ops then
         Ret (setBulkError result (ScimErr (NewScimError 400 ''invalidSyntax'' ''Invalid PATCH operation'')))
       else answerVersion result baseURL target (case TargetType target of
           BulkUsers \<Rightarrow> returnVersion Version (fromUser (executePatchUser L wsID (TargetID target) baseURL operations opVersion))
         | BulkGroups \<Rightarrow> returnVersion GroupVersion (executePatchGroup L wsID (TargetID target) operations opVersion)))"

definition handleBulkDelete :: "ext \<Rightarrow> json_object \<Rightarrow> string \<Rightarrow> string \<Rightarrow> string \<Rightarrow> json_object prog" where
  "handleBulkDelete L result rawPath opVersion wsID =
     onTarget L result rawPath (\<lambda>target.
       pbind (case TargetType target of
           BulkUsers \<Rightarrow> fromUser (executeDeleteUser wsID (TargetID target) opVersion)
         | BulkGroups \<Rightarrow> executeDeleteGroup wsID (TargetID target) opVersion) (\<lambda>r. Ret (case r of
           Inl err \<Rightarrow> setBulkError result err
         | Inr _ \<Rightarrow> jput result ''status'' (JStr ''204''))))"

definition dataOf :: "json_object \<Rightarrow> json_object" where
  "dataOf op = (case jget op ''data'' of JObj m \<Rightarrow> m | _ \<Rightarrow> [])"

definition initialResult :: "ext \<Rightarrow> json_object \<Rightarrow> string \<Rightarrow> string \<Rightarrow> string \<Rightarrow> json_object" where
  "initialResult L op baseURL method opPath =
     (let bulkId = textMember op ''bulkId'';
          result = (if bulkId = [] then [] else [(''bulkId'', JStr bulkId)]) @ [(''method'', JStr method)];
          loc = (if method \<in> set [''PUT'', ''PATCH'', ''DELETE''] then computeBulkTargetLocation L baseURL method opPath else []) in
      if loc = [] then result else jput result ''location'' (JStr loc))"

definition processOperationInternal :: "ext \<Rightarrow> string \<Rightarrow> json_object \<Rightarrow> nat \<Rightarrow> string \<Rightarrow> bulk_ids \<Rightarrow> producers
    \<Rightarrow> post_outcome prog" where
  "processOperationInternal L baseURL op origIdx wsID bulkIdMap ps =
     (let method = ToUpper L (TrimSpace (textMember op ''method''));
          opPath = resolveBulkIdReferences (textMember op ''path'') bulkIdMap;
          bulkId = textMember op ''bulkId''; opVersion = textMember op ''version'';
          result = initialResult L op baseURL method opPath;
          data = resolveBulkIdInData (dataOf op) bulkIdMap;
          plain = (\<lambda>p. pbind p (\<lambda>res. Ret (onlyResult res)))
      in if method \<notin> set [''POST'', ''PUT'', ''PATCH'', ''DELETE''] then
           Ret (onlyResult (bulkStatus ''400'' ''invalidValue'' (''Unsupported method: '' @ method) result))
         else if method = ''POST'' \<and> TrimSpace bulkId = [] then
           Ret (onlyResult (bulkStatus ''400'' ''invalidValue'' ''bulkId is required for POST operations'' result))
         else if method = ''DELETE'' then plain (handleBulkDelete L result opPath opVersion wsID)
         else if dataOf op = [] then
           Ret (onlyResult (bulkStatus ''400'' ''invalidSyntax'' (''data is required for '' @ method @ '' bulk operations'') result))
         else if method = ''POST'' then
           handleBulkPost L result origIdx opPath data (extractBulkIDRefs (JObj (dataOf op))) wsID baseURL bulkId ps
         else if method = ''PUT'' then plain (handleBulkPut L result opPath data opVersion wsID baseURL)
         else plain (handleBulkPatch L result opPath data opVersion wsID baseURL))"

end
