(* ===== verification/BulkProcess.thy ===== *)
theory BulkProcess
  imports BulkHandler
begin

text \<open>
  \<^verbatim>\<open>internal/handler/bulk.go\<close>, part four: references that had to wait, taking created resources back, and
  \<^verbatim>\<open>ProcessBulk\<close>. The order in which Go visits the members of a map is the order of a list.
\<close>

primrec eachDo :: "('a \<Rightarrow> 's \<Rightarrow> 's prog) \<Rightarrow> 'a list \<Rightarrow> 's \<Rightarrow> 's prog" where
  "eachDo f [] st = Ret st"
| "eachDo f (x # xs) st = pbind (f x st) (eachDo f xs)"

section \<open>Taking a created resource back\<close>

definition postAt :: "nat \<Rightarrow> bulk_state \<Rightarrow> createdPostRecord option" where
  "postAt i st = find (\<lambda>r. PostIdx r = i) (CreatedPosts st)"

text \<open>The errors of the statements are dropped.\<close>

definition deleteCreated :: "createdPostRecord \<Rightarrow> string \<Rightarrow> 'b prog \<Rightarrow> 'b prog" where
  "deleteCreated r wsID k = (case PostType r of
       BulkGroups \<Rightarrow>
         pbind (deleteMembersByValue (PostResource r)) (\<lambda>_.
         pbind (deleteMembersOfGroup (PostResource r)) (\<lambda>_.
         pbind (deleteGroupRow (PostResource r) wsID) (\<lambda>_. k)))
     | BulkUsers \<Rightarrow> deleteByMemberValue (PostResource r) (\<lambda>_. deleteUserRow (PostResource r) wsID (\<lambda>_. k)))"

definition undoRecord :: "createdPostRecord \<Rightarrow> bulk_state \<Rightarrow> bulk_state" where
  "undoRecord r st =
     st\<lparr>CreatedPosts := map (\<lambda>r'. if PostIdx r' = PostIdx r then r'\<lparr>RolledBack := True\<rparr> else r') (CreatedPosts st),
        BulkIdMap := (if PostBulkID r = [] then BulkIdMap st else AList.delete (PostBulkID r) (BulkIdMap st)),
        RolledBackIDs := (if PostBulkID r = [] then RolledBackIDs st else PostBulkID r # RolledBackIDs st)\<rparr>"

definition resultAt :: "nat \<Rightarrow> bulk_state \<Rightarrow> json_object option" where
  "resultAt i st = (if i < length (Results st) then Results st ! i else None)"

text \<open>The result of a resource that is taken back becomes an error, which counts if it was none.\<close>

definition failResult :: "nat \<Rightarrow> go_error \<Rightarrow> bulk_state \<Rightarrow> bulk_state" where
  "failResult i err st = (case resultAt i st of
       None \<Rightarrow> st
     | Some res \<Rightarrow>
         let failed = setBulkError (jdelete (jdelete res ''location'') ''version'') err in
         st\<lparr>Results := (Results st)[i := Some failed],
            ErrorCount := ErrorCount st + (if \<not> isErrorResult res \<and> isErrorResult failed then 1 else 0)\<rparr>)"

definition rollbackRecord :: "string \<Rightarrow> nat \<Rightarrow> go_error \<Rightarrow> bulk_state \<Rightarrow> bulk_state prog" where
  "rollbackRecord wsID i err st = (case postAt i st of
       None \<Rightarrow> Ret st
     | Some r \<Rightarrow>
         if RolledBack r then Ret st
         else deleteCreated r wsID (Ret (failResult i err (undoRecord r st))))"

section \<open>Deferred references\<close>

definition addDeferredMembers :: "ext \<Rightarrow> string \<Rightarrow> string \<Rightarrow> bulk_ids \<Rightarrow> json_object list \<Rightarrow> unit attempt" where
  "addDeferredMembers L groupID wsID ids ms =
     andThen (forEach (\<lambda>rawMember seen.
         let resolved = resolveBulkIdInData rawMember ids;
             mv = textMember resolved ''value'';
             key = (case uuid_parse L mv of Some u \<Rightarrow> u | None \<Rightarrow> mv) in
         if mv \<noteq> [] \<and> key \<in> set seen then Ret (Inr seen)
         else andThen (addMember L groupID wsID resolved) (\<lambda>_. Ret (Inr (if mv = [] then seen else key # seen)))) [] ms)
       (\<lambda>_. Ret (Inr ()))"

definition setVersion :: "nat \<Rightarrow> int \<Rightarrow> bulk_state \<Rightarrow> bulk_state" where
  "setVersion i version st = (case resultAt i st of
       None \<Rightarrow> st
     | Some res \<Rightarrow> st\<lparr>Results := (Results st)[i := Some (jput res ''version'' (JStr (etag version)))]\<rparr>)"

definition withManager :: "string \<Rightarrow> string \<Rightarrow> ScimUser \<Rightarrow> ScimUser" where
  "withManager mgrID ref user =
     user\<lparr>EnterpriseManagerValue := Some mgrID,
          EnterpriseManagerRef := (if ref = [] then EnterpriseManagerRef user else Some ref)\<rparr>"

definition fixManager :: "ext \<Rightarrow> string \<Rightarrow> string \<Rightarrow> deferredBulkFixup \<Rightarrow> json \<Rightarrow> bulk_state \<Rightarrow> bulk_state prog" where
  "fixManager L wsID baseURL fx mgr st =
     (let resolved = resolveValue (BulkIdMap st) mgr;
          ref = (case resolved of JObj m \<Rightarrow> textMember m ''$ref'' | _ \<Rightarrow> []);
          back = (\<lambda>status scimType detail.
            rollbackRecord wsID (FixupIdx fx) (ScimErr (NewScimError status scimType detail)) st) in
      case uuid_parse L (TrimSpace (managerText resolved)) of
        None \<Rightarrow> back 400 ''invalidValue'' (''Invalid manager reference: '' @ managerText resolved)
      | Some mgrID \<Rightarrow>
          findUser (FixupResource fx) wsID (\<lambda>r. case r of
              Inr (Some user) \<Rightarrow>
                resolveManagerMetadata L (withManager mgrID ref user) wsID baseURL (\<lambda>user.
                updateUserRow L user (\<lambda>r. case r of
                    Inl _ \<Rightarrow> back 500 [] ''Failed to update deferred user manager''
                  | Inr stored \<Rightarrow> Ret (setVersion (FixupIdx fx) (Version stored) st)))
            | _ \<Rightarrow> back 500 [] ''Failed to resolve deferred user manager''))"

definition applyFixup :: "ext \<Rightarrow> string \<Rightarrow> string \<Rightarrow> deferredBulkFixup \<Rightarrow> bulk_state \<Rightarrow> bulk_state prog" where
  "applyFixup L wsID baseURL fx st =
     (if \<exists>r \<in> set_option (postAt (FixupIdx fx) st). RolledBack r then Ret st
      else (case FixupKind fx of
          DeferredMembers ms \<Rightarrow>
            pbind (addDeferredMembers L (FixupResource fx) wsID (BulkIdMap st) ms) (\<lambda>r. case r of
                Inl err \<Rightarrow> rollbackRecord wsID (FixupIdx fx) err st
              | Inr _ \<Rightarrow> Ret st)
        | DeferredManager mgr \<Rightarrow> fixManager L wsID baseURL fx mgr st))"

text \<open>One pass over the created resources: whoever refers to one that was taken back is taken back as well.\<close>

definition failedDep :: "bulk_state \<Rightarrow> createdPostRecord \<Rightarrow> string option" where
  "failedDep st r = (if RolledBack r then None else find (\<lambda>dep. dep \<in> set (RolledBackIDs st)) (DepBulkIDs r))"

primrec cascadePass :: "string \<Rightarrow> nat list \<Rightarrow> bulk_state \<times> bool \<Rightarrow> (bulk_state \<times> bool) prog" where
  "cascadePass wsID [] sc = Ret sc"
| "cascadePass wsID (i # is) sc = (case sc of (st, changed) \<Rightarrow>
     (case Option.bind (postAt i st) (failedDep st) of
        None \<Rightarrow> cascadePass wsID is (st, changed)
      | Some dep \<Rightarrow>
          pbind (rollbackRecord wsID i (ScimErr (NewScimError 400 ''invalidValue'' (''Referenced bulkId failed: '' @ dep))) st)
            (\<lambda>st. cascadePass wsID is (st, True))))"

text \<open>Passes until nothing changes. Every pass but the last takes back at least one resource.\<close>

primrec cascade :: "nat \<Rightarrow> string \<Rightarrow> bulk_state \<Rightarrow> bulk_state prog" where
  "cascade 0 wsID st = Ret st"
| "cascade (Suc fuel) wsID st =
     pbind (cascadePass wsID (map PostIdx (CreatedPosts st)) (st, False)) (\<lambda>(st, changed).
       if changed then cascade fuel wsID st else Ret st)"

definition applyDeferredBulkFixups :: "ext \<Rightarrow> string \<Rightarrow> string \<Rightarrow> deferredBulkFixup list \<Rightarrow> bulk_state \<Rightarrow> bulk_state prog" where
  "applyDeferredBulkFixups L wsID baseURL fixups st =
     pbind (eachDo (applyFixup L wsID baseURL) fixups st) (\<lambda>st.
       if RolledBackIDs st = [] then Ret st else cascade (Suc (length (CreatedPosts st))) wsID st)"

section \<open>The loop over the operations\<close>

definition recordOutcome :: "json_object \<Rightarrow> nat \<Rightarrow> post_outcome \<Rightarrow> bulk_state \<Rightarrow> bulk_state" where
  "recordOutcome op i out st =
     st\<lparr>Results := (Results st)[i := Some (PostResult out)],
        BulkIdMap := (case NewID out of None \<Rightarrow> BulkIdMap st
          | Some rid \<Rightarrow> AList.update (textMember op ''bulkId'') rid (BulkIdMap st)),
        Fixups := Fixups st @ NewFixups out,
        CreatedPosts := (case NewPost out of None \<Rightarrow> CreatedPosts st | Some r \<Rightarrow> CreatedPosts st @ [r]),
        CompletedOps := i # CompletedOps st,
        ErrorCount := ErrorCount st + (if isErrorResult (PostResult out) then 1 else 0)\<rparr>"

definition fixupReady :: "bulk_ops \<Rightarrow> producers \<Rightarrow> bulk_state \<Rightarrow> deferredBulkFixup \<Rightarrow> bool" where
  "fixupReady ops ps st fx \<longleftrightarrow> set (producerClosure ops ps (FixupIdx fx)) \<subseteq> set (CompletedOps st)"

definition resolveReady :: "ext \<Rightarrow> string \<Rightarrow> string \<Rightarrow> bulk_ops \<Rightarrow> producers \<Rightarrow> bulk_state \<Rightarrow> bulk_state prog" where
  "resolveReady L wsID baseURL ops ps st =
     (let ready = filter (fixupReady ops ps st) (Fixups st);
          remaining = filter (\<lambda>fx. \<not> fixupReady ops ps st fx) (Fixups st) in
      if ready = [] then Ret st
      else applyDeferredBulkFixups L wsID baseURL ready (st\<lparr>Fixups := remaining\<rparr>))"

definition bulkStep :: "ext \<Rightarrow> string \<Rightarrow> string \<Rightarrow> bulk_ops \<Rightarrow> producers \<Rightarrow> nat \<Rightarrow> bulk_state \<Rightarrow> bulk_state prog" where
  "bulkStep L wsID baseURL ops ps i st = (case ops ! i of
       None \<Rightarrow> Ret (st\<lparr>CompletedOps := i # CompletedOps st\<rparr>)
     | Some op \<Rightarrow>
         pbind (processOperationInternal L baseURL op i wsID (BulkIdMap st) ps) (\<lambda>out.
           resolveReady L wsID baseURL ops ps (recordOutcome op i out st)))"

definition limitReached :: "int \<Rightarrow> bulk_state \<Rightarrow> bool" where
  "limitReached failOnErrors st \<longleftrightarrow> 0 < failOnErrors \<and> failOnErrors \<le> int (ErrorCount st)"

text \<open>The check at the end of an iteration is the one at the start of the next.\<close>

primrec bulkLoop :: "ext \<Rightarrow> string \<Rightarrow> string \<Rightarrow> int \<Rightarrow> bulk_ops \<Rightarrow> producers \<Rightarrow> nat list \<Rightarrow> bulk_state \<Rightarrow> bulk_state prog" where
  "bulkLoop L wsID baseURL failOnErrors ops ps [] st = Ret st"
| "bulkLoop L wsID baseURL failOnErrors ops ps (i # order) st =
     (if limitReached failOnErrors st then Ret st
      else pbind (bulkStep L wsID baseURL ops ps i st) (bulkLoop L wsID baseURL failOnErrors ops ps order))"

definition initialBulk :: "nat \<Rightarrow> bulk_state" where
  "initialBulk n = \<lparr>BulkIdMap = [], Results = replicate n None, Fixups = [], CreatedPosts = [], CompletedOps = [],
     RolledBackIDs = [], ErrorCount = 0\<rparr>"

definition runBulk :: "ext \<Rightarrow> string \<Rightarrow> string \<Rightarrow> int \<Rightarrow> bulk_ops \<Rightarrow> bulk_state prog" where
  "runBulk L wsID baseURL failOnErrors ops =
     (let ps = declareProducers L ops in
      pbind (bulkLoop L wsID baseURL failOnErrors ops ps (computeBulkExecutionOrder L ops ps) (initialBulk (length ops))) (\<lambda>st.
        if Fixups st = [] then Ret st else applyDeferredBulkFixups L wsID baseURL (Fixups st) st))"

section \<open>The request\<close>

text \<open>\<open>BodyTooLarge\<close> says that the first value of the body does not end within the size limit.\<close>

record bulk_request = http_request +
  ContentLength :: int
  BodyTooLarge :: bool

definition maxOperations :: nat where
  "maxOperations = 1000"

definition maxBulkPayloadBytes :: int where
  "maxBulkPayloadBytes = 1048576"

definition bulkRequestSchema :: string where
  "bulkRequestSchema = ''urn:ietf:params:scim:api:messages:2.0:BulkRequest''"

text \<open>\<^verbatim>\<open>int(n)\<close> of a floating point number drops the fraction; \<open>conv\<close> is what the platform does with a number that
  is no 64-bit integer.\<close>

definition truncated :: "bool \<times> nat \<times> int \<Rightarrow> int" where
  "truncated v = (case v of (neg, q, k) \<Rightarrow>
     let m = int (if 0 \<le> k then q * 2 ^ nat k else q div 2 ^ nat (- k)) in if neg then - m else m)"

definition failOnErrorsOf :: "(int \<Rightarrow> int) \<Rightarrow> json_object \<Rightarrow> int" where
  "failOnErrorsOf conv body = (case jget body ''failOnErrors'' of
       JNum lit \<Rightarrow> (case float64 lit of None \<Rightarrow> 0
         | Some v \<Rightarrow> if int64 (truncated v) then truncated v else conv (truncated v))
     | _ \<Rightarrow> 0)"

definition bulkTooLarge :: reply where
  "bulkTooLarge = fail 413 [] (''Bulk request exceeds maxPayloadSize ('' @ itoa_int maxBulkPayloadBytes @ '' bytes)'')"

definition bulkResponse :: "bulk_state \<Rightarrow> http_response" where
  "bulkResponse st = jsonResponse 200 []
     [(''schemas'', JArr [JStr ''urn:ietf:params:scim:api:messages:2.0:BulkResponse'']),
      (''Operations'', JArr (map JObj (List.map_filter (\<lambda>r. r) (Results st))))]"

definition ProcessBulk :: "ext \<Rightarrow> (int \<Rightarrow> int) \<Rightarrow> bulk_request \<Rightarrow> reply" where
  "ProcessBulk L conv r =
     (let req = http_request.truncate r in
      inWorkspace req (\<lambda>wsID.
        if maxBulkPayloadBytes < ContentLength r \<or> BodyTooLarge r then bulkTooLarge
        else withJSON req (\<lambda>body.
          if JStr bulkRequestSchema \<notin> set (arrayMember body ''schemas'') then
            fail 400 ''invalidValue'' ''Bulk request must include BulkRequest schema''
          else (case jget body ''Operations'' of
              JArr rawOps \<Rightarrow>
                if maxOperations < length rawOps then
                  fail 413 [] (''Bulk request exceeds maxOperations ('' @ itoa maxOperations @ '')'')
                else pbind (runBulk L wsID (baseOf req) (failOnErrorsOf conv body)
                    (map (\<lambda>v. case v of JObj op \<Rightarrow> Some op | _ \<Rightarrow> None) rawOps)) (\<lambda>st. respond (bulkResponse st))
            | _ \<Rightarrow> fail 400 ''invalidValue'' ''Bulk request must contain Operations''))))"

end
