(* ===== verification/BulkSched.thy ===== *)
theory BulkSched
  imports BulkOrder
begin

text \<open>
  The schedule of a bulk request takes every operation once, and takes an operation after all with an edge
  into it if the graph has no cycle.
\<close>

section \<open>Positions in a list\<close>

definition precedes :: "'a list \<Rightarrow> 'a \<Rightarrow> 'a \<Rightarrow> bool" where
  "precedes xs p i \<longleftrightarrow> (\<exists>ys zs. xs = ys @ i # zs \<and> p \<in> set ys)"

lemma precedes_head: "i \<in> set xs \<Longrightarrow> precedes (p # xs) p i"
  unfolding precedes_def by (metis append_Cons list.set_intros(1) split_list)

lemma precedes_Cons: "precedes xs p i \<Longrightarrow> precedes (x # xs) p i"
  unfolding precedes_def by (metis append_Cons list.set_intros(2))

lemma precedes_upt:
  assumes "p < i" "i < n"
  shows "precedes [0..<n] p i"
proof -
  have "[0..<n] = [0..<i] @ i # [Suc i..<n]"
    using assms(2) by (metis le_add_diff_inverse less_imp_le_nat upt_add_eq_append upt_conv_Cons zero_le)
  then show ?thesis unfolding precedes_def using assms(1) by (intro exI conjI) auto
qed

lemma find_member: "find P xs = Some x \<Longrightarrow> x \<in> set xs \<and> P x"
  by (auto simp: find_Some_iff)

section \<open>The schedule\<close>

definition unscheduledOf :: "nat \<Rightarrow> bool list \<Rightarrow> nat set" where
  "unscheduledOf n scheduled = {i. i < n \<and> \<not> scheduled ! i}"

lemma finite_unscheduledOf [simp]: "finite (unscheduledOf n sch)"
  by (simp add: unscheduledOf_def)

lemma unscheduledOf_update:
  "length sch = n \<Longrightarrow> unscheduledOf n (sch[c := True]) = unscheduledOf n sch - {c}"
proof -
  assume n: "length sch = n"
  have "sch[c := True] ! i = (i = c \<or> sch ! i)" if "i < n" for i
    using that n by (cases "i = c") simp_all
  then show ?thesis by (auto simp: unscheduledOf_def)
qed

lemma set_unscheduled: "set (filter (\<lambda>i. \<not> sch ! i) [0..<n]) = unscheduledOf n sch"
  by (auto simp: unscheduledOf_def)

lemma chooseNext_unscheduled:
  assumes "chooseNext L ops deg sch = Some i"
  shows "i \<in> unscheduledOf (length ops) sch"
  using assms unfolding chooseNext_def Let_def set_unscheduled [symmetric]
  by (auto simp del: set_filter dest: find_member split: option.splits list.splits)

lemma chooseNext_None:
  assumes "chooseNext L ops deg sch = None"
  shows "unscheduledOf (length ops) sch = {}"
  using assms unfolding chooseNext_def Let_def set_unscheduled [symmetric]
  by (auto simp del: set_filter split: option.splits list.splits)

lemma chooseNext_free:
  assumes "chooseNext L ops deg sch = Some c" and "i \<in> unscheduledOf (length ops) sch" and "deg ! i = 0"
  shows "deg ! c = 0"
  using assms unfolding chooseNext_def Let_def set_unscheduled [symmetric]
  by (auto simp del: set_filter simp: find_None_iff dest: find_member split: option.splits)

lemma schedule_perm:
  assumes "length sch = length ops" and "left = card (unscheduledOf (length ops) sch)"
  shows "distinct (schedule L ops deps left sch deg) \<and>
    set (schedule L ops deps left sch deg) = unscheduledOf (length ops) sch"
  using assms
proof (induction left arbitrary: sch deg)
  case 0
  then show ?case by simp
next
  case (Suc left)
  then have "unscheduledOf (length ops) sch \<noteq> {}" by auto
  with chooseNext_None obtain c where c: "chooseNext L ops deg sch = Some c" by fastforce
  have m: "c \<in> unscheduledOf (length ops) sch" by (rule chooseNext_unscheduled [OF c])
  have u: "unscheduledOf (length ops) (sch[c := True]) = unscheduledOf (length ops) sch - {c}"
    by (rule unscheduledOf_update [OF Suc.prems(1)])
  have "left = card (unscheduledOf (length ops) (sch[c := True]))"
    using Suc.prems(2) m unfolding u by simp
  from Suc.IH [OF _ this] Suc.prems(1) have
    "distinct (schedule L ops deps left (sch[c := True]) (fold lowerDegree (deps ! c) deg)) \<and>
     set (schedule L ops deps left (sch[c := True]) (fold lowerDegree (deps ! c) deg)) = unscheduledOf (length ops) sch - {c}"
    unfolding u by simp
  then show ?case using c m by auto
qed

text \<open>\<open>counted\<close>: the degree of an operation is the number of unscheduled ones with an edge into it.\<close>

definition intoOf :: "nat list list \<Rightarrow> nat set \<Rightarrow> nat \<Rightarrow> nat set" where
  "intoOf deps U i = {p \<in> U. i \<in> set (deps ! p)}"

definition counted :: "nat list list \<Rightarrow> nat set \<Rightarrow> nat list \<Rightarrow> bool" where
  "counted deps U deg \<longleftrightarrow> (\<forall>i \<in> U. deg ! i = card (intoOf deps U i))"

definition graph_ok :: "nat \<Rightarrow> nat list list \<Rightarrow> bool" where
  "graph_ok n deps \<longleftrightarrow> length deps = n \<and> (\<forall>p < n. distinct (deps ! p) \<and> p \<notin> set (deps ! p) \<and> set (deps ! p) \<subseteq> {..<n})"

lemma fold_lowerDegree:
  assumes "distinct ds" and "set ds \<subseteq> {..<length deg}"
  shows "length (fold lowerDegree ds deg) = length deg
    \<and> (\<forall>i < length deg. fold lowerDegree ds deg ! i = (if i \<in> set ds then deg ! i - 1 else deg ! i))"
  using assms
proof (induction ds arbitrary: deg)
  case Nil
  then show ?case by simp
next
  case (Cons d ds)
  have l: "length (lowerDegree d deg) = length deg" by (simp add: lowerDegree_def)
  have n: "lowerDegree d deg ! i = (if i = d then deg ! i - 1 else deg ! i)" if "i < length deg" for i
    using that by (auto simp: lowerDegree_def)
  show ?case using Cons.IH [of "lowerDegree d deg"] Cons.prems l n by auto
qed

lemma counted_step:
  assumes "graph_ok n deps" and "length deg = n" and "length sch = n" and "c \<in> unscheduledOf n sch"
    and "counted deps (unscheduledOf n sch) deg"
  shows "counted deps (unscheduledOf n (sch[c := True])) (fold lowerDegree (deps ! c) deg)"
  unfolding counted_def unscheduledOf_update [OF assms(3)]
proof
  fix i
  assume i: "i \<in> unscheduledOf n sch - {c}"
  let ?U = "unscheduledOf n sch"
  have c: "c < n" using assms(4) by (simp add: unscheduledOf_def)
  have into: "intoOf deps (?U - {c}) i = intoOf deps ?U i - {c}" by (auto simp: intoOf_def)
  have fin: "finite (intoOf deps ?U i)" by (simp add: intoOf_def)
  have "fold lowerDegree (deps ! c) deg ! i = (if i \<in> set (deps ! c) then deg ! i - 1 else deg ! i)"
    using fold_lowerDegree [of "deps ! c" deg] assms(1,2) c i by (auto simp: graph_ok_def unscheduledOf_def)
  also have "\<dots> = card (intoOf deps ?U i - {c})"
    using assms(4,5) i fin by (auto simp: counted_def intoOf_def)
  finally show "fold lowerDegree (deps ! c) deg ! i = card (intoOf deps (?U - {c}) i)" by (simp add: into)
qed

definition edges :: "nat \<Rightarrow> nat list list \<Rightarrow> (nat \<times> nat) set" where
  "edges n deps = {(p, i). p < n \<and> i < n \<and> i \<in> set (deps ! p)}"

lemma finite_edges [simp]: "finite (edges n deps)"
  by (rule finite_subset [of _ "{..<n} \<times> {..<n}"]) (auto simp: edges_def)

lemma acyclic_free:
  assumes "acyclic (edges n deps)" and "U \<subseteq> {..<n}" and "U \<noteq> {}"
  shows "\<exists>i \<in> U. intoOf deps U i = {}"
proof -
  have "wf (edges n deps)" using assms(1) by (simp add: finite_acyclic_wf)
  with assms(3) obtain i where "i \<in> U" "\<And>p. (p, i) \<in> edges n deps \<Longrightarrow> p \<notin> U"
    unfolding wf_eq_minimal by blast
  then show ?thesis using assms(2) by (auto simp: intoOf_def edges_def)
qed

lemma schedule_edges:
  assumes "graph_ok (length ops) deps" and "acyclic (edges (length ops) deps)"
    and "length deg = length ops" and "length sch = length ops"
    and "left = card (unscheduledOf (length ops) sch)"
    and "counted deps (unscheduledOf (length ops) sch) deg"
    and "(p, i) \<in> edges (length ops) deps" and "p \<in> unscheduledOf (length ops) sch" and "i \<in> unscheduledOf (length ops) sch"
  shows "precedes (schedule L ops deps left sch deg) p i"
  using assms(3-)
proof (induction left arbitrary: sch deg)
  case 0
  then show ?case by simp
next
  case (Suc left)
  let ?n = "length ops" and ?U = "unscheduledOf (length ops) sch"
  from Suc.prems(3) have "?U \<noteq> {}" by auto
  with chooseNext_None obtain c where c: "chooseNext L ops deg sch = Some c" by fastforce
  have m: "c \<in> ?U" by (rule chooseNext_unscheduled [OF c])
  have "?U \<subseteq> {..<?n}" by (auto simp: unscheduledOf_def)
  from acyclic_free [OF assms(2) this \<open>?U \<noteq> {}\<close>] obtain f where f: "f \<in> ?U" "intoOf deps ?U f = {}" by blast
  then have "deg ! f = 0" using Suc.prems(4) by (simp add: counted_def)
  then have "deg ! c = 0" by (rule chooseNext_free [OF c f(1)])
  then have "card (intoOf deps ?U c) = 0" using Suc.prems(4) m by (simp add: counted_def)
  moreover have "finite (intoOf deps ?U c)" by (simp add: intoOf_def)
  ultimately have free: "intoOf deps ?U c = {}" by simp
  let ?sch = "sch[c := True]" and ?deg = "fold lowerDegree (deps ! c) deg"
  have u: "unscheduledOf ?n ?sch = ?U - {c}" by (rule unscheduledOf_update [OF Suc.prems(2)])
  have left: "left = card (unscheduledOf ?n ?sch)" using Suc.prems(3) m unfolding u by simp
  have ic: "i \<noteq> c" using free Suc.prems(5,6) by (auto simp: intoOf_def edges_def)
  have sch: "schedule L ops deps (Suc left) sch deg = c # schedule L ops deps left ?sch ?deg" using c by simp
  show ?case
  proof (cases "p = c")
    case True
    have "i \<in> set (schedule L ops deps left ?sch ?deg)"
      using schedule_perm [of ?sch ops left L deps ?deg] left Suc.prems(2,7) ic unfolding u by simp
    then show ?thesis unfolding sch True by (rule precedes_head)
  next
    case False
    have "c < ?n" using m by (simp add: unscheduledOf_def)
    then have deg: "length ?deg = ?n"
      using fold_lowerDegree [of "deps ! c" deg] assms(1) Suc.prems(1) by (auto simp: graph_ok_def)
    have "counted deps (unscheduledOf ?n ?sch) ?deg"
      by (rule counted_step [OF assms(1) Suc.prems(1,2) m Suc.prems(4)])
    from Suc.IH [OF deg _ left this Suc.prems(5)] have "precedes (schedule L ops deps left ?sch ?deg) p i"
      using Suc.prems(2,6,7) False ic unfolding u by simp
    then show ?thesis unfolding sch by (rule precedes_Cons)
  qed
qed

end
