(* ===== verification/BulkGraph.thy ===== *)
theory BulkGraph
  imports BulkSched
begin

text \<open>
  The graph of a bulk request: the search for the closure of a producer ends and is exact, and the edges are
  those from the producers an operation refers to, their closures, and the previous operation on the resource.
\<close>

section \<open>The closure of a producer\<close>

lemma visitNext_spec:
  assumes "visitNext ns visited queue = (visited', queue')" and "distinct visited"
  shows "\<exists>new. distinct new \<and> set new = set ns - set visited \<and> set visited' = set visited \<union> set new
    \<and> distinct visited' \<and> queue' = queue @ new \<and> length visited' = length visited + length new"
  using assms
proof (induction ns visited queue rule: visitNext.induct)
  case (1 visited queue)
  then show ?case by simp
next
  case (2 n ns visited queue)
  show ?case
  proof (cases "n \<in> set visited")
    case True
    with 2 show ?thesis by auto
  next
    case False
    with 2 obtain new where "distinct new" "set new = set ns - set (n # visited)"
      "set visited' = set (n # visited) \<union> set new" "distinct visited'" "queue' = (queue @ [n]) @ new"
      "length visited' = length (n # visited) + length new" by auto
    with False show ?thesis by (intro exI [of _ "n # new"]) auto
  qed
qed

text \<open>Every visited operation is in the queue or has its dependencies visited.\<close>

definition searching :: "nat \<Rightarrow> (nat \<Rightarrow> nat list) \<Rightarrow> nat \<Rightarrow> nat list \<Rightarrow> nat list \<Rightarrow> nat \<Rightarrow> bool" where
  "searching n deps p visited queue fuel \<longleftrightarrow>
     distinct visited \<and> p \<in> set visited \<and> set queue \<subseteq> set visited \<and> set visited \<subseteq> {..<n}
     \<and> set visited \<subseteq> {q. (q, p) \<in> {(d, x). d \<in> set (deps x)}\<^sup>*}
     \<and> (\<forall>x \<in> set visited - set queue. set (deps x) \<subseteq> set visited)
     \<and> n - length visited + length queue \<le> fuel"

lemma searching_step:
  assumes s: "searching n deps p visited (q # queue) (Suc fuel)" and d: "\<And>x. set (deps x) \<subseteq> {..<n}"
    and v: "visitNext (deps q) visited queue = (visited', queue')"
  shows "searching n deps p visited' queue' fuel"
proof -
  from visitNext_spec [OF v] s obtain new where new: "distinct new" "set new = set (deps q) - set visited"
    "set visited' = set visited \<union> set new" "distinct visited'" "queue' = queue @ new"
    "length visited' = length visited + length new" by (auto simp: searching_def)
  have sub: "set visited' \<subseteq> {..<n}" using new(2,3) d s by (auto simp: searching_def)
  then have "length visited' \<le> n" using new(4) by (metis card_lessThan card_mono distinct_card finite_lessThan)
  then have "n - length visited' + length queue' \<le> fuel" using s new(5,6) by (simp add: searching_def)
  moreover have "set visited' \<subseteq> {q. (q, p) \<in> {(d, x). d \<in> set (deps x)}\<^sup>*}"
  proof
    fix x
    assume "x \<in> set visited'"
    then consider "x \<in> set visited" | "x \<in> set (deps q)" using new(2,3) by auto
    then show "x \<in> {q. (q, p) \<in> {(d, x). d \<in> set (deps x)}\<^sup>*}"
    proof cases
      case 1
      then show ?thesis using s by (auto simp: searching_def)
    next
      case 2
      moreover have "(q, p) \<in> {(d, x). d \<in> set (deps x)}\<^sup>*" using s by (auto simp: searching_def)
      ultimately show ?thesis by (auto intro: converse_rtrancl_into_rtrancl)
    qed
  qed
  moreover have "\<forall>x \<in> set visited' - set queue'. set (deps x) \<subseteq> set visited'"
  proof
    fix x
    assume x: "x \<in> set visited' - set queue'"
    then have "x = q \<or> x \<in> set visited - set (q # queue)" using new(3,5) by auto
    then show "set (deps x) \<subseteq> set visited'" using s new(2,3) unfolding searching_def by blast
  qed
  ultimately show ?thesis using s new sub by (auto simp: searching_def)
qed

lemma search_spec:
  assumes "searching n deps p visited queue fuel" and "\<And>x. set (deps x) \<subseteq> {..<n}"
  shows "searching n deps p (search fuel deps visited queue) [] (n - length (search fuel deps visited queue))"
  using assms(1)
proof (induction fuel arbitrary: visited queue)
  case 0
  then have "queue = []" by (simp add: searching_def)
  with 0 show ?case by (simp add: searching_def)
next
  case (Suc fuel)
  show ?case
  proof (cases queue)
    case Nil
    with Suc.prems show ?thesis by (simp add: searching_def)
  next
    case (Cons q rest)
    obtain v' q' where v: "visitNext (deps q) visited rest = (v', q')" by fastforce
    have "searching n deps p v' q' fuel"
      by (rule searching_step [OF Suc.prems [unfolded Cons] assms(2) v])
    from Suc.IH [OF this] show ?thesis by (simp add: Cons v)
  qed
qed

definition valid_producers :: "bulk_ops \<Rightarrow> producers \<Rightarrow> bool" where
  "valid_producers ops ps \<longleftrightarrow> snd ` set ps \<subseteq> {..<length ops}"

lemma refProducers_producers: "set (refProducers ops ps i) \<subseteq> snd ` set ps"
  by (auto simp: refProducers_def List.map_filter_def dest: map_of_SomeD split: option.splits intro: rev_image_eqI)

lemma producerClosure_spec:
  assumes "valid_producers ops ps" and "p \<in> snd ` set ps"
  shows "p \<in> set (producerClosure ops ps p)"
    and "q \<in> set (producerClosure ops ps p) \<Longrightarrow> q < length ops \<and> (q, p) \<in> {(d, x). d \<in> set (directDeps ops ps x)}\<^sup>*"
    and "q \<in> set (producerClosure ops ps p) \<Longrightarrow> set (directDeps ops ps q) \<subseteq> set (producerClosure ops ps p)"
proof -
  have d: "set (directDeps ops ps x) \<subseteq> {..<length ops}" for x
    using refProducers_producers [of ops ps x] assms(1) by (auto simp: directDeps_def valid_producers_def)
  have "p < length ops" using assms by (auto simp: valid_producers_def)
  then have "searching (length ops) (directDeps ops ps) p [p] [p] (Suc (length ops))" by (simp add: searching_def)
  from search_spec [OF this d] have "searching (length ops) (directDeps ops ps) p (producerClosure ops ps p) []
      (length ops - length (producerClosure ops ps p))"
    using assms(2) by (simp add: producerClosure_def)
  then show "p \<in> set (producerClosure ops ps p)"
    and "q \<in> set (producerClosure ops ps p) \<Longrightarrow> q < length ops \<and> (q, p) \<in> {(d, x). d \<in> set (directDeps ops ps x)}\<^sup>*"
    and "q \<in> set (producerClosure ops ps p) \<Longrightarrow> set (directDeps ops ps q) \<subseteq> set (producerClosure ops ps p)"
    by (auto simp: searching_def)
qed

section \<open>Edges\<close>

definition keyOf :: "ext \<Rightarrow> bulk_ops \<Rightarrow> nat \<Rightarrow> string option" where
  "keyOf L ops i = Option.bind (ops ! i) (resourceKey L)"

definition lastWith :: "ext \<Rightarrow> bulk_ops \<Rightarrow> nat \<Rightarrow> string \<Rightarrow> nat \<Rightarrow> bool" where
  "lastWith L ops i key p \<longleftrightarrow> p < i \<and> keyOf L ops p = Some key \<and> (\<forall>j < i. keyOf L ops j = Some key \<longrightarrow> j \<le> p)"

definition refSources :: "bulk_ops \<Rightarrow> producers \<Rightarrow> nat \<Rightarrow> string list \<Rightarrow> nat set" where
  "refSources ops ps i refs = (\<Union>p \<in> {p. \<exists>ref \<in> set refs. map_of ps ref = Some p}.
     insert p (if i \<in> set (producerClosure ops ps p) then {} else set (producerClosure ops ps p)))"

definition refsOf :: "bulk_ops \<Rightarrow> nat \<Rightarrow> string list" where
  "refsOf ops i = (case ops ! i of None \<Rightarrow> [] | Some op \<Rightarrow> opRefs op)"

definition sources :: "ext \<Rightarrow> bulk_ops \<Rightarrow> producers \<Rightarrow> nat \<Rightarrow> nat set" where
  "sources L ops ps i = {p. \<exists>key. keyOf L ops i = Some key \<and> lastWith L ops i key p} \<union> refSources ops ps i (refsOf ops i)"

definition graph_inv :: "nat \<Rightarrow> bulk_graph \<Rightarrow> bool" where
  "graph_inv n g \<longleftrightarrow> graph_ok n (dependents g) \<and> length (inDegree g) = n
     \<and> counted (dependents g) {..<n} (inDegree g)"

definition into :: "nat \<Rightarrow> bulk_graph \<Rightarrow> nat \<Rightarrow> nat set" where
  "into n g i = {p. (p, i) \<in> edges n (dependents g)}"

text \<open>One operation: the set of those with an edge into it grows, all other edges stay.\<close>

definition adds :: "nat \<Rightarrow> nat \<Rightarrow> bulk_graph \<times> nat list \<Rightarrow> nat set \<Rightarrow> bulk_graph \<times> nat list \<Rightarrow> bool" where
  "adds n i gs P gs' \<longleftrightarrow>
     (graph_inv n (fst gs) \<and> set (snd gs) = into n (fst gs) i \<longrightarrow>
      graph_inv n (fst gs') \<and> set (snd gs') = into n (fst gs') i
      \<and> edges n (dependents (fst gs')) = edges n (dependents (fst gs)) \<union> (P - {i}) \<times> {i})"

lemma adds_empty: "adds n i gs {} gs"
  by (simp add: adds_def)

lemma adds_trans: "adds n i gs P gs' \<Longrightarrow> adds n i gs' Q gs'' \<Longrightarrow> adds n i gs (P \<union> Q) gs''"
  unfolding adds_def by (auto simp: Un_Diff Sigma_Un_distrib1)

lemma adds_fold:
  assumes "\<And>x gs. x \<in> set xs \<Longrightarrow> adds n i gs (P x) (f x gs)"
  shows "adds n i gs (\<Union>x \<in> set xs. P x) (fold f xs gs)"
  using assms
proof (induction xs arbitrary: gs)
  case Nil
  then show ?case by (simp add: adds_empty)
next
  case (Cons x xs)
  have "adds n i gs (P x) (f x gs)" by (rule Cons.prems) simp
  moreover have "adds n i (f x gs) (\<Union>x \<in> set xs. P x) (fold f xs (f x gs))" by (rule Cons.IH) (use Cons.prems in simp)
  ultimately show ?case using adds_trans by fastforce
qed

lemma counted_insert:
  assumes "graph_ok n deps" and "counted deps {..<n} deg" and "length deg = n" and "from < n" "i < n" "from \<noteq> i"
    and "i \<notin> set (deps ! from)"
  shows "counted (deps[from := deps ! from @ [i]]) {..<n} (deg[i := Suc (deg ! i)])"
  unfolding counted_def
proof
  fix j
  assume j: "j \<in> {..<n}"
  have l: "length deps = n" using assms(1) by (simp add: graph_ok_def)
  have "intoOf (deps[from := deps ! from @ [i]]) {..<n} j = (if j = i then insert from (intoOf deps {..<n} j) else intoOf deps {..<n} j)"
    using l assms(4) by (auto simp: intoOf_def nth_list_update split: if_splits)
  moreover have "from \<notin> intoOf deps {..<n} i" using assms(7) by (simp add: intoOf_def)
  moreover have "finite (intoOf deps {..<n} j)" by (simp add: intoOf_def)
  ultimately show "deg[i := Suc (deg ! i)] ! j = card (intoOf (deps[from := deps ! from @ [i]]) {..<n} j)"
    using assms(2,3,5) j by (auto simp: counted_def nth_list_update)
qed

lemma addEdge_adds:
  assumes "from < n" "i < n"
  shows "adds n i gs {from} (addEdge i from gs)"
proof (cases gs)
  case (Pair g seen)
  show ?thesis
  proof (cases "from = i \<or> from \<in> set seen")
    case True
    then show ?thesis unfolding Pair by (auto simp: adds_def addEdge_def into_def)
  next
    case False
    show ?thesis unfolding Pair adds_def
    proof (clarify, intro conjI)
      assume g: "graph_inv n (fst (g, seen))" and s: "set (snd (g, seen)) = into n (fst (g, seen)) i"
      let ?deps = "(dependents g)[from := dependents g ! from @ [i]]"
      have l: "length (dependents g) = n" using g by (simp add: graph_inv_def graph_ok_def)
      have new: "i \<notin> set (dependents g ! from)" using False s assms by (auto simp: into_def edges_def)
      have e: "edges n ?deps = insert (from, i) (edges n (dependents g))"
        using l assms by (auto simp: edges_def nth_list_update split: if_splits)
      have r: "addEdge i from (g, seen) = (g\<lparr>dependents := ?deps, inDegree := (inDegree g)[i := Suc (inDegree g ! i)]\<rparr>, from # seen)"
        using False by (simp add: addEdge_def)
      have "graph_ok n ?deps"
        using g new l assms False by (auto simp: graph_inv_def graph_ok_def nth_list_update)
      moreover have "counted ?deps {..<n} ((inDegree g)[i := Suc (inDegree g ! i)])"
        using g new assms False by (intro counted_insert) (auto simp: graph_inv_def)
      ultimately show "graph_inv n (fst (addEdge i from (g, seen)))"
        unfolding r using g by (simp add: graph_inv_def)
      show "set (snd (addEdge i from (g, seen))) = into n (fst (addEdge i from (g, seen))) i"
        unfolding r using s by (auto simp: into_def e)
      show "edges n (dependents (fst (addEdge i from (g, seen)))) = edges n (dependents (fst (g, seen))) \<union> ({from} - {i}) \<times> {i}"
        unfolding r using False by (auto simp: e)
    qed
  qed
qed

lemma addRefEdges_adds:
  assumes "valid_producers ops ps" and "i < length ops"
  shows "adds (length ops) i gs (refSources ops ps i [ref]) (addRefEdges ops ps i ref gs)"
proof (cases "map_of ps ref")
  case None
  then show ?thesis by (simp add: addRefEdges_def refSources_def adds_empty)
next
  case (Some p)
  then have p: "p \<in> snd ` set ps" by (auto dest: map_of_SomeD intro: rev_image_eqI)
  then have "p < length ops" using assms(1) by (auto simp: valid_producers_def)
  then have one: "adds (length ops) i gs {p} (addEdge i p gs)" by (rule addEdge_adds) (rule assms(2))
  have "adds (length ops) i gs' (\<Union>q \<in> set (producerClosure ops ps p). {q}) (fold (addEdge i) (producerClosure ops ps p) gs')" for gs'
    by (rule adds_fold) (rule addEdge_adds, use producerClosure_spec(2) [OF assms(1) p] assms(2) in auto)
  then have "adds (length ops) i gs ({p} \<union> set (producerClosure ops ps p))
      (fold (addEdge i) (producerClosure ops ps p) (addEdge i p gs))"
    using adds_trans [OF one] by simp
  moreover have "refSources ops ps i [ref] =
      insert p (if i \<in> set (producerClosure ops ps p) then {} else set (producerClosure ops ps p))"
    using Some by (simp add: refSources_def)
  ultimately show ?thesis using one Some by (simp add: addRefEdges_def Let_def)
qed

lemma refSources_all: "(\<Union>ref \<in> set refs. refSources ops ps i [ref]) = refSources ops ps i refs"
  by (auto simp: refSources_def)

definition graph_of :: "ext \<Rightarrow> bulk_ops \<Rightarrow> producers \<Rightarrow> nat \<Rightarrow> bulk_graph \<times> (string \<times> nat) list \<Rightarrow> bool" where
  "graph_of L ops ps k gl \<longleftrightarrow> graph_inv (length ops) (fst gl)
     \<and> edges (length ops) (dependents (fst gl)) = {(p, i). i < k \<and> p \<noteq> i \<and> p \<in> sources L ops ps i}
     \<and> (\<forall>key p. map_of (snd gl) key = Some p \<longleftrightarrow> lastWith L ops k key p)"

lemma lastWith_Suc:
  "lastWith L ops (Suc k) key p \<longleftrightarrow> (if keyOf L ops k = Some key then p = k else lastWith L ops k key p)"
  unfolding lastWith_def less_Suc_eq by (auto intro: le_antisym less_imp_le)

lemma addOpEdges_step:
  assumes "valid_producers ops ps" and "k < length ops" and g: "graph_of L ops ps k gl"
  shows "graph_of L ops ps (Suc k) (addOpEdges L ops ps (k, ops ! k) gl)"
proof (cases "ops ! k")
  case None
  then have "keyOf L ops k = None" "sources L ops ps k = {}"
    by (auto simp: keyOf_def sources_def refsOf_def refSources_def)
  then show ?thesis using g None by (auto simp: graph_of_def addOpEdges_def lastWith_Suc less_Suc_eq)
next
  case (Some op)
  obtain gr lastOp where gl: "gl = (gr, lastOp)" by fastforce
  have key: "keyOf L ops k = resourceKey L op" using Some by (simp add: keyOf_def)
  define prev where "prev = Option.bind (resourceKey L op) (map_of lastOp)"
  define P where "P = {p. \<exists>key. keyOf L ops k = Some key \<and> lastWith L ops k key p}"
  have P: "P = (case prev of None \<Rightarrow> {} | Some p \<Rightarrow> {p})"
  proof -
    have "lastWith L ops k key p = (map_of lastOp key = Some p)" for key p
      using g by (simp add: graph_of_def gl)
    then have "P = {p. prev = Some p}" unfolding P_def prev_def key by (auto simp: bind_eq_Some_conv)
    then show ?thesis by (cases prev) auto
  qed

  let ?gs = "case prev of None \<Rightarrow> (gr, []) | Some p \<Rightarrow> addEdge k p (gr, [])"
  have "p < k" if "prev = Some p" for p using that P by (auto simp: P_def lastWith_def)
  then have a: "adds (length ops) k (gr, []) P ?gs"
    unfolding P using assms(2) by (auto simp: adds_empty split: option.split intro!: addEdge_adds)
  have b: "adds (length ops) k ?gs (\<Union>ref \<in> set (opRefs op). refSources ops ps k [ref])
      (fold (addRefEdges ops ps k) (opRefs op) ?gs)"
    by (rule adds_fold) (rule addRefEdges_adds [OF assms(1,2)])
  let ?g = "fst (fold (addRefEdges ops ps k) (opRefs op) ?gs)"
  have s: "P \<union> (\<Union>ref \<in> set (opRefs op). refSources ops ps k [ref]) = sources L ops ps k"
    unfolding refSources_all sources_def P_def refsOf_def Some by simp
  have new: "into (length ops) gr k = {}" and inv: "graph_inv (length ops) gr"
    and old: "edges (length ops) (dependents gr) = {(p, i). i < k \<and> p \<noteq> i \<and> p \<in> sources L ops ps i}"
    using g by (auto simp: graph_of_def gl into_def)
  have "graph_inv (length ops) ?g"
    and "edges (length ops) (dependents ?g) = edges (length ops) (dependents gr) \<union> (sources L ops ps k - {k}) \<times> {k}"
    using adds_trans [OF a b, unfolded s] new inv by (simp_all add: adds_def)
  moreover have "map_of (case resourceKey L op of None \<Rightarrow> lastOp | Some key \<Rightarrow> AList.update key k lastOp) key = Some p
      \<longleftrightarrow> lastWith L ops (Suc k) key p" for key p
    using g unfolding lastWith_Suc key gl graph_of_def by (auto simp: update_conv split: option.splits)
  moreover have "addOpEdges L ops ps (k, ops ! k) gl =
      (?g, case resourceKey L op of None \<Rightarrow> lastOp | Some key \<Rightarrow> AList.update key k lastOp)"
    unfolding gl Some addOpEdges_def prev_def by (simp add: Let_def)
  ultimately show ?thesis unfolding graph_of_def old by (auto simp: less_Suc_eq)
qed

lemma graph_of_all:
  assumes "valid_producers ops ps" and "k \<le> length ops"
  shows "graph_of L ops ps k (fold (addOpEdges L ops ps) (enumerate 0 (take k ops)) (emptyGraph (length ops), []))"
  using assms(2)
proof (induction k)
  case 0
  have "edges (length ops) (replicate (length ops) []) = {}" by (auto simp: edges_def)
  then show ?case
    by (auto simp: graph_of_def emptyGraph_def graph_inv_def graph_ok_def counted_def intoOf_def lastWith_def)
next
  case (Suc k)
  then have "enumerate 0 (take (Suc k) ops) = enumerate 0 (take k ops) @ [(k, ops ! k)]"
    by (simp add: take_Suc_conv_app_nth enumerate_append_eq)
  then show ?case using addOpEdges_step [OF assms(1) _ Suc.IH] Suc.prems by simp
qed

lemma bulkGraph_spec:
  assumes "valid_producers ops ps"
  shows "graph_inv (length ops) (bulkGraph L ops ps)"
    and "edges (length ops) (dependents (bulkGraph L ops ps)) = {(p, i). i < length ops \<and> p \<noteq> i \<and> p \<in> sources L ops ps i}"
  using graph_of_all [OF assms order_refl, of L] by (simp_all add: graph_of_def bulkGraph_def)

end
