(* ===== verification/BulkOrderProps.thy ===== *)
theory BulkOrderProps
  imports BulkGraph "HOL-Library.Multiset"
begin

text \<open>
  The order in which a bulk request is executed.
\<close>

lemma precedes_trans:
  assumes "precedes xs p q" and "precedes xs q i" and "distinct xs"
  shows "precedes xs p i"
proof -
  obtain a b where q: "xs = a @ q # b" "p \<in> set a" using assms(1) by (auto simp: precedes_def)
  obtain c d where i: "xs = c @ i # d" "q \<in> set c" using assms(2) by (auto simp: precedes_def)
  obtain c1 c2 where c: "c = c1 @ q # c2" using i(2) by (meson split_list)
  have "a @ q # b = c1 @ q # (c2 @ i # d)" using q(1) i(1) c by simp
  moreover have "distinct (a @ q # b)" "distinct (c1 @ q # c2 @ i # d)" using assms(3) q(1) i(1) c by simp_all
  then have "q \<notin> set a" "q \<notin> set b" by auto
  ultimately have "a = c1" by (metis append_Cons_eq_iff)
  then have "p \<in> set c" using q(2) c by simp
  then show ?thesis using i(1) unfolding precedes_def by blast
qed

lemma valid_declareProducers: "valid_producers ops (declareProducers L ops)"
proof -
  have "snd ` set (fold (declareProducer L) iops ps) \<subseteq> snd ` set ps \<union> fst ` set iops" for iops ps
  proof (induction iops arbitrary: ps)
    case Nil
    then show ?case by simp
  next
    case (Cons iop iops)
    have "snd ` set (declareProducer L iop ps) \<subseteq> snd ` set ps \<union> {fst iop}"
      by (cases iop; cases "snd iop") (auto simp: declareProducer_def Let_def)
    then show ?case using Cons.IH [of "declareProducer L iop ps"] by (simp, blast)
  qed
  from this [of "enumerate 0 ops" "[]"] show ?thesis
    by (auto simp: valid_producers_def declareProducers_def set_zip enumerate_eq_zip)
qed

text \<open>Operation \<open>i\<close> depends on \<open>p\<close> if it refers to the identifier that \<open>p\<close> declares, or if \<open>p\<close> comes before it
  in the request and has the same resource.\<close>

definition dependsOn :: "ext \<Rightarrow> bulk_ops \<Rightarrow> nat \<Rightarrow> nat \<Rightarrow> bool" where
  "dependsOn L ops i p \<longleftrightarrow> i < length ops \<and> p \<noteq> i \<and>
     ((\<exists>ref \<in> set (refsOf ops i). map_of (declareProducers L ops) ref = Some p)
      \<or> (p < i \<and> keyOf L ops i \<noteq> None \<and> keyOf L ops p = keyOf L ops i))"

lemma directDeps_dependsOn:
  assumes "d \<in> set (directDeps ops (declareProducers L ops) x)"
  shows "d = x \<or> dependsOn L ops x d"
proof -
  have x: "x \<in> snd ` set (declareProducers L ops)"
    by (rule ccontr) (use assms in \<open>simp add: directDeps_def\<close>)
  with assms have d: "d \<in> set (refProducers ops (declareProducers L ops) x)" by (simp add: directDeps_def)
  from x have "x < length ops" using valid_declareProducers [of ops L] by (auto simp: valid_producers_def)
  moreover from d have "\<exists>ref \<in> set (refsOf ops x). map_of (declareProducers L ops) ref = Some d"
    by (cases "ops ! x") (auto simp: refProducers_def refsOf_def List.map_filter_def)
  ultimately show ?thesis by (simp add: dependsOn_def)
qed

lemma edges_dependsOn:
  assumes "(p, i) \<in> edges (length ops) (dependents (bulkGraph L ops (declareProducers L ops)))"
  shows "(p, i) \<in> {(p, i). dependsOn L ops i p}\<^sup>+"
proof -
  let ?ps = "declareProducers L ops" and ?R = "{(p, i). dependsOn L ops i p}"
  have i: "i < length ops" "p \<noteq> i" "p \<in> sources L ops ?ps i"
    using assms by (auto simp: bulkGraph_spec(2) [OF valid_declareProducers])
  have "{(d, x). d \<in> set (directDeps ops ?ps x)} \<subseteq> ?R\<^sup>=" using directDeps_dependsOn by auto
  then have reach: "{(d, x). d \<in> set (directDeps ops ?ps x)}\<^sup>* \<subseteq> ?R\<^sup>*" by (metis rtrancl_mono rtrancl_reflcl)
  consider key where "keyOf L ops i = Some key" "lastWith L ops i key p"
    | "p \<in> refSources ops ?ps i (refsOf ops i)" using i(3) by (auto simp: sources_def)
  then show ?thesis
  proof cases
    case 1
    then show ?thesis using i by (auto simp: dependsOn_def lastWith_def)
  next
    case 2
    then obtain ref q where q: "ref \<in> set (refsOf ops i)" "map_of ?ps ref = Some q"
      "p = q \<or> i \<notin> set (producerClosure ops ?ps q) \<and> p \<in> set (producerClosure ops ?ps q)"
      by (auto simp: refSources_def split: if_splits)
    have prod: "q \<in> snd ` set ?ps" using q(2) by (auto dest: map_of_SomeD intro: rev_image_eqI)
    note closure = producerClosure_spec [OF valid_declareProducers prod]
    have "(q, i) \<in> ?R" using i(1,2) q closure(1) by (auto simp: dependsOn_def)
    moreover have "(p, q) \<in> ?R\<^sup>*" using q(3) closure(2) [of p] reach by auto
    ultimately show ?thesis by (rule rtrancl_into_trancl1 [rotated])
  qed
qed

lemma lastWith_exists:
  assumes "p < i" and "keyOf L ops p = Some key"
  obtains q where "lastWith L ops i key q" "p \<le> q"
proof -
  let ?S = "{j. j < i \<and> keyOf L ops j = Some key}"
  have S: "finite ?S" "?S \<noteq> {}" using assms by auto
  from Max_in [OF S] Max_ge [OF S(1)] assms show ?thesis by (intro that [of "Max ?S"]) (auto simp: lastWith_def)
qed

lemma dependsOn_edges:
  assumes "dependsOn L ops i p"
  shows "(p, i) \<in> (edges (length ops) (dependents (bulkGraph L ops (declareProducers L ops))))\<^sup>+"
proof -
  let ?ps = "declareProducers L ops"
  have e: "edges (length ops) (dependents (bulkGraph L ops ?ps)) = {(p, i). i < length ops \<and> p \<noteq> i \<and> p \<in> sources L ops ?ps i}"
    by (rule bulkGraph_spec(2) [OF valid_declareProducers])
  have same: "(p, i) \<in> {(p, i). i < length ops \<and> p \<noteq> i \<and> p \<in> sources L ops ?ps i}\<^sup>+"
    if "p < i" "i < length ops" "keyOf L ops i = Some key" "keyOf L ops p = Some key" for p i key
    using that
  proof (induction i rule: less_induct)
    case (less i)
    obtain q where q: "lastWith L ops i key q" "p \<le> q" by (rule lastWith_exists [OF less.prems(1,4)])
    then have "(q, i) \<in> {(p, i). i < length ops \<and> p \<noteq> i \<and> p \<in> sources L ops ?ps i}"
      using less.prems by (auto simp: sources_def lastWith_def)
    moreover have "p = q \<or> (p, q) \<in> {(p, i). i < length ops \<and> p \<noteq> i \<and> p \<in> sources L ops ?ps i}\<^sup>+"
      using less.IH [of q] less.prems q by (auto simp: lastWith_def le_less)
    ultimately show ?case by (auto intro: trancl_into_trancl)
  qed
  consider ref where "ref \<in> set (refsOf ops i)" "map_of ?ps ref = Some p"
    | key where "p < i" "keyOf L ops i = Some key" "keyOf L ops p = Some key"
    using assms by (auto simp: dependsOn_def)
  then show ?thesis
  proof cases
    case 1
    then have "(p, i) \<in> {(p, i). i < length ops \<and> p \<noteq> i \<and> p \<in> sources L ops ?ps i}"
      using assms by (auto simp: dependsOn_def sources_def refSources_def)
    then show ?thesis unfolding e by blast
  next
    case 2
    then show ?thesis unfolding e using same assms by (auto simp: dependsOn_def)
  qed
qed

lemma order_perm:
  "distinct (computeBulkExecutionOrder L ops ps) \<and> set (computeBulkExecutionOrder L ops ps) = {..<length ops}"
proof -
  have u: "unscheduledOf (length ops) (replicate (length ops) False) = {..<length ops}"
    by (auto simp: unscheduledOf_def)
  show ?thesis
    using schedule_perm [of "replicate (length ops) False" ops "length ops" L] u
    by (auto simp: computeBulkExecutionOrder_def Let_def)
qed

lemma order_edges:
  assumes "acyclic {(p, i). dependsOn L ops i p}"
    and "(p, i) \<in> edges (length ops) (dependents (bulkGraph L ops (declareProducers L ops)))"
    and "\<not> (length ops \<le> 1 \<or> declareProducers L ops = [])"
  shows "precedes (computeBulkExecutionOrder L ops (declareProducers L ops)) p i"
proof -
  let ?g = "bulkGraph L ops (declareProducers L ops)"
  have g: "graph_inv (length ops) ?g" by (rule bulkGraph_spec(1) [OF valid_declareProducers])
  have u: "unscheduledOf (length ops) (replicate (length ops) False) = {..<length ops}"
    by (auto simp: unscheduledOf_def)
  have "edges (length ops) (dependents ?g) \<subseteq> {(p, i). dependsOn L ops i p}\<^sup>+" using edges_dependsOn by auto
  moreover have "acyclic ({(p, i). dependsOn L ops i p}\<^sup>+)" using assms(1) by (simp add: acyclic_def)
  ultimately have "acyclic (edges (length ops) (dependents ?g))" by (rule acyclic_subset [rotated])
  then have "precedes (schedule L ops (dependents ?g) (length ops) (replicate (length ops) False) (inDegree ?g)) p i"
    using g assms(2) by (intro schedule_edges) (auto simp: graph_inv_def u edges_def)
  then show ?thesis using assms(3) by (simp add: computeBulkExecutionOrder_def Let_def)
qed

text \<open>C37. The operations of a bulk request are executed in an order that has every operation exactly once. If their
  dependencies have no cycle, every operation comes after all operations it depends on: the POST that declares a
  \<^verbatim>\<open>bulkId\<close> it refers to, and the earlier operations on the same resource.\<close>

theorem bulk_order:
  "mset (computeBulkExecutionOrder L ops (declareProducers L ops)) = mset [0..<length ops]
   \<and> (acyclic {(p, i). dependsOn L ops i p} \<and> dependsOn L ops i p \<longrightarrow>
      precedes (computeBulkExecutionOrder L ops (declareProducers L ops)) p i)"
proof (intro conjI impI)
  let ?order = "computeBulkExecutionOrder L ops (declareProducers L ops)"
  show "mset ?order = mset [0..<length ops]"
    using order_perm [of L ops] by (intro set_eq_iff_mset_eq_distinct [THEN iffD1]) (auto simp: atLeast0LessThan)
  assume d: "acyclic {(p, i). dependsOn L ops i p} \<and> dependsOn L ops i p"
  show "precedes ?order p i"
  proof (cases "length ops \<le> 1 \<or> declareProducers L ops = []")
    case True
    have "p < i" "i < length ops"
      using d True valid_declareProducers [of ops L]
      by (auto simp: dependsOn_def valid_producers_def dest!: map_of_SomeD)
    with True show ?thesis by (auto simp: computeBulkExecutionOrder_def precedes_upt)
  next
    case False
    have "(p, i) \<in> (edges (length ops) (dependents (bulkGraph L ops (declareProducers L ops))))\<^sup>+"
      using d dependsOn_edges by blast
    then show ?thesis
    proof induction
      case (base y)
      show ?case by (rule order_edges [OF conjunct1 [OF d] base False])
    next
      case (step y z)
      show ?case
        by (rule precedes_trans [OF step.IH order_edges [OF conjunct1 [OF d] step.hyps(2) False] conjunct1 [OF order_perm]])
    qed
  qed
qed

end
