(* ===== verification/BulkRollback.thy ===== *)
theory BulkRollback
  imports BulkProcess BulkOrderProps GroupProps
begin

text \<open>
  Deferred references that fail: the resources that are taken back are gone, and so are all that refer to them.
\<close>

section \<open>Statements that add no user or group\<close>

definition shrinks :: "query \<Rightarrow> bool" where
  "shrinks q \<longleftrightarrow> (case q of Begin \<Rightarrow> False | Commit \<Rightarrow> False | Rollback \<Rightarrow> False | InsertUser _ \<Rightarrow> False
     | InsertGroup _ \<Rightarrow> False | UpdateGroup _ _ \<Rightarrow> False | _ \<Rightarrow> True)"

definition rows_of :: "bulkResourceType \<Rightarrow> store \<Rightarrow> (string \<times> string) set" where
  "rows_of t s = (case t of BulkUsers \<Rightarrow> users_of s | BulkGroups \<Rightarrow> groups_of s)"

lemma exec_shrinks:
  assumes "shrinks q"
  shows "rows_of t (snd (exec D q s)) \<subseteq> rows_of t s"
proof (cases q)
  case (UpdateUser u v)
  then show ?thesis
    by (cases t) (auto simp: rows_of_def users_of_update groups_of_def split: sum.split dest!: updateRows_Inr)
qed (use assms in \<open>auto simp: shrinks_def rows_of_def users_of_def groups_of_def Let_def
  split: bulkResourceType.split sum.split\<close>)

lemma run_shrinks: "only shrinks p \<Longrightarrow> rows_of t (snd (run D p s)) \<subseteq> rows_of t s"
  by (rule only_run [of shrinks p "\<lambda>u. rows_of t u \<subseteq> rows_of t s"]) (use exec_shrinks in blast)+

lemma shrinks_steps:
  "(\<And>r. only shrinks (f r)) \<Longrightarrow> only shrinks (findUser u ws f)"
  "(\<And>r. only shrinks (d r)) \<Longrightarrow> only shrinks (updateUserRow L v d)"
  by (auto simp: timeNow_def findUser_def updateUserRow_def shrinks_def)

lemma shrinks_resolveManagerMetadata: "(\<And>u. only shrinks (k u)) \<Longrightarrow> only shrinks (resolveManagerMetadata L u ws b k)"
  unfolding resolveManagerMetadata_def Let_def by (intro only_cases shrinks_steps) auto

lemma shrinks_addDeferredMembers: "only shrinks (addDeferredMembers L gid ws ids ms)"
proof -
  have "works (addDeferredMembers L gid ws ids ms)"
    unfolding addDeferredMembers_def Let_def by (intro only_intros works_addMember only_Ret)
  then show ?thesis by (rule only_mono) (auto simp: member_work_def shrinks_def split: query.splits)
qed

section \<open>Taking back one resource\<close>

lemma run_eachDo:
  assumes "P st s" and "\<And>x st s st' s'. x \<in> set xs \<Longrightarrow> P st s \<Longrightarrow> run D (f x st) s = (st', s') \<Longrightarrow> P st' s'"
    and "run D (eachDo f xs st) s = (st', s')"
  shows "P st' s'"
  using assms
proof (induction xs arbitrary: st s)
  case (Cons x xs)
  obtain st1 s1 where r: "run D (f x st) s = (st1, s1)" by fastforce
  have "P st1 s1" using Cons.prems(2) [OF _ Cons.prems(1) r] by simp
  have rest: "run D (eachDo f xs st1) s1 = (st', s')" using Cons.prems(3) r by (simp add: run_pbind)
  show ?case by (rule Cons.IH [OF \<open>P st1 s1\<close> _ rest]) (meson Cons.prems(2) list.set_intros(2))
qed simp

lemma run_deleteCreated:
  obtains s1 where "run D (deleteCreated r ws (Ret x)) s = (x, s1)" "(PostResource r, ws) \<notin> rows_of (PostType r) s1"
    "\<And>t. rows_of t s1 \<subseteq> rows_of t s"
proof
  let ?s1 = "snd (run D (deleteCreated r ws (Ret x)) s)"
  show "run D (deleteCreated r ws (Ret x)) s = (x, ?s1)"
    by (auto simp: deleteCreated_def deleteMembersByValue_def deleteMembersOfGroup_def deleteGroupRow_def deleteByMemberValue_def
        deleteUserRow_def run_pbind run_command split: bulkResourceType.split prod.split)
  show "(PostResource r, ws) \<notin> rows_of (PostType r) ?s1"
    by (auto simp: deleteCreated_def deleteMembersByValue_def deleteMembersOfGroup_def deleteGroupRow_def deleteByMemberValue_def
        deleteUserRow_def run_pbind run_command rows_of_def users_of_def groups_of_def split: bulkResourceType.split)
  have "only shrinks (deleteCreated r ws (Ret x))"
    by (auto simp: deleteCreated_def deleteMembersByValue_def deleteMembersOfGroup_def deleteGroupRow_def deleteByMemberValue_def
        deleteUserRow_def command_def shrinks_def intro!: only_pbind split: bulkResourceType.split)
  then show "rows_of t ?s1 \<subseteq> rows_of t s" for t by (rule run_shrinks)
qed

abbreviation indices :: "bulk_state \<Rightarrow> nat list" where
  "indices st \<equiv> map PostIdx (CreatedPosts st)"

text \<open>\<open>undone\<close>: what was taken back is not in the tables. \<open>unrolled\<close> counts the resources that stay.\<close>

definition undone :: "string \<Rightarrow> bulk_state \<Rightarrow> store \<Rightarrow> bool" where
  "undone ws st s \<longleftrightarrow> (\<forall>r \<in> set (CreatedPosts st). RolledBack r \<longrightarrow> (PostResource r, ws) \<notin> rows_of (PostType r) s)"

definition unrolled :: "bulk_state \<Rightarrow> nat" where
  "unrolled st = length (filter (\<lambda>r. \<not> RolledBack r) (CreatedPosts st))"

lemma undone_subset: "undone ws st s \<Longrightarrow> (\<And>t. rows_of t s1 \<subseteq> rows_of t s) \<Longrightarrow> undone ws st s1"
  unfolding undone_def by blast

lemma postAt_some: "postAt i st = Some r \<Longrightarrow> r \<in> set (CreatedPosts st) \<and> PostIdx r = i"
  unfolding postAt_def by (auto dest: find_member)

lemma postAt_member:
  assumes "distinct (indices st)" and "r \<in> set (CreatedPosts st)"
  shows "postAt (PostIdx r) st = Some r"
proof -
  from assms(2) have "postAt (PostIdx r) st \<noteq> None" by (auto simp: postAt_def find_None_iff)
  then obtain r' where r': "postAt (PostIdx r) st = Some r'" by blast
  with postAt_some [OF this] assms show ?thesis by (auto simp: distinct_map dest: inj_onD)
qed

lemma failResult_posts [simp]:
  "CreatedPosts (failResult i err st) = CreatedPosts st" "RolledBackIDs (failResult i err st) = RolledBackIDs st"
  by (simp_all add: failResult_def Let_def split: option.split)

lemma undoRecord_simps [simp]:
  "CreatedPosts (undoRecord r st) = map (\<lambda>r'. if PostIdx r' = PostIdx r then r'\<lparr>RolledBack := True\<rparr> else r') (CreatedPosts st)"
  by (simp add: undoRecord_def)

lemma rollbackRecord_run:
  assumes "run D (rollbackRecord ws i err st) s = (st', s')" and "distinct (indices st)" and "undone ws st s"
  shows "indices st' = indices st \<and> undone ws st' s' \<and> unrolled st' \<le> unrolled st
    \<and> (\<forall>r. postAt i st = Some r \<and> \<not> RolledBack r \<longrightarrow> unrolled st' < unrolled st)"
proof (cases "\<exists>r. postAt i st = Some r \<and> \<not> RolledBack r")
  case False
  then have "st' = st" "s' = s" using assms(1) by (auto simp: rollbackRecord_def split: option.splits if_splits)
  with False assms(3) show ?thesis by auto
next
  case True
  then obtain r where r: "postAt i st = Some r" "\<not> RolledBack r" by blast
  let ?st = "failResult i err (undoRecord r st)"
  have m: "r \<in> set (CreatedPosts st)" "PostIdx r = i" using postAt_some [OF r(1)] by auto
  obtain s1 where d: "run D (deleteCreated r ws (Ret ?st)) s = (?st, s1)"
    "(PostResource r, ws) \<notin> rows_of (PostType r) s1" "\<And>t. rows_of t s1 \<subseteq> rows_of t s"
    by (rule run_deleteCreated [where D = D and r = r and ws = ws and x = ?st and s = s], rule that, assumption+)
  have st': "st' = ?st" "s' = s1" using assms(1) r d(1) by (simp_all add: rollbackRecord_def)
  have "indices ?st = indices st" by (simp add: comp_def)
  moreover have "undone ws ?st s1"
  proof -
    have "PostResource r' = PostResource r \<and> PostType r' = PostType r" if "r' \<in> set (CreatedPosts st)" "PostIdx r' = PostIdx r" for r'
      using that m assms(2) by (metis distinct_map inj_onD)
    then show ?thesis using undone_subset [OF assms(3) d(3)] d(2) by (auto simp: undone_def)
  qed
  moreover have "unrolled ?st < unrolled st"
  proof -
    obtain a b where ab: "CreatedPosts st = a @ r # b" using m(1) by (meson split_list)
    let ?mark = "\<lambda>r'. if PostIdx r' = PostIdx r then r'\<lparr>RolledBack := True\<rparr> else r'"
    have le: "length (filter (\<lambda>r. \<not> RolledBack r) (map ?mark xs)) \<le> length (filter (\<lambda>r. \<not> RolledBack r) xs)" for xs
      by (induction xs) auto
    show ?thesis using le [of a] le [of b] r(2) by (simp add: unrolled_def ab)
  qed
  ultimately show ?thesis unfolding st' by auto
qed

section \<open>Fixups and the cascade\<close>

definition tracked :: "string \<Rightarrow> nat list \<Rightarrow> bulk_state \<Rightarrow> store \<Rightarrow> bool" where
  "tracked ws is st s \<longleftrightarrow> distinct is \<and> indices st = is \<and> undone ws st s"

lemma rollbackRecord_tracked:
  "run D (rollbackRecord ws i err st) s = (st', s') \<Longrightarrow> tracked ws is st s \<Longrightarrow> tracked ws is st' s'"
  using rollbackRecord_run [of D ws i err st s st' s'] by (auto simp: tracked_def)

lemma tracked_shrinks:
  assumes "only shrinks p" and "run D p s = (x, s')" and "tracked ws is st s"
  shows "tracked ws is st s'"
  using run_shrinks [OF assms(1), of _ D s] assms(2,3) undone_subset [of ws st s s'] by (simp add: tracked_def)

lemma setVersion_tracked [simp]: "tracked ws is (setVersion i v st) s = tracked ws is st s"
  by (auto simp: tracked_def undone_def setVersion_def split: option.split)

definition tracks :: "string \<Rightarrow> nat list \<Rightarrow> bulk_state \<Rightarrow> bulk_state prog \<Rightarrow> bool" where
  "tracks ws is st p \<longleftrightarrow> (\<forall>D s st' s'. tracked ws is st s \<longrightarrow> run D p s = (st', s') \<longrightarrow> tracked ws is st' s')"

lemma tracks_end: "tracks ws is st (Ret st)" "tracks ws is st (Ret (setVersion i v st))" "tracks ws is st (rollbackRecord ws i err st)"
  unfolding tracks_def using rollbackRecord_tracked by auto

lemma tracks_Ask: "shrinks q \<Longrightarrow> (\<And>a. tracks ws is st (k a)) \<Longrightarrow> tracks ws is st (Ask q k)"
  unfolding tracks_def
proof (intro allI impI)
  fix D s st' s'
  assume q: "shrinks q" and k: "\<And>a. \<forall>D s st' s'. tracked ws is st s \<longrightarrow> run D (k a) s = (st', s') \<longrightarrow> tracked ws is st' s'"
    and t: "tracked ws is st s" and r: "run D (Ask q k) s = (st', s')"
  obtain a s1 where e: "exec D q s = (a, s1)" by fastforce
  have "tracked ws is st s1"
    using tracked_shrinks [of "Ask q (\<lambda>a. Ret a)" D s a s1 ws "is" st] q t e by simp
  then show "tracked ws is st' s'" using k r e by simp
qed

lemma tracks_pbind:
  assumes "only shrinks p" and "\<And>x. tracks ws is st (f x)"
  shows "tracks ws is st (pbind p f)"
  using assms(1) by (induction p) (use assms(2) tracks_Ask in auto)

lemma tracks_cases:
  "(b \<Longrightarrow> tracks ws is st p) \<Longrightarrow> (\<not> b \<Longrightarrow> tracks ws is st q) \<Longrightarrow> tracks ws is st (if b then p else q)"
  "tracks ws is st n \<Longrightarrow> (\<And>x. tracks ws is st (f x)) \<Longrightarrow> tracks ws is st (case z of None \<Rightarrow> n | Some x \<Rightarrow> f x)"
  "(\<And>x. tracks ws is st (g x)) \<Longrightarrow> (\<And>y. tracks ws is st (h y)) \<Longrightarrow> tracks ws is st (case r of Inl x \<Rightarrow> g x | Inr y \<Rightarrow> h y)"
  by (simp_all split: option.split sum.split)

lemma tracks_statements:
  "(\<And>r. tracks ws is st (f r)) \<Longrightarrow> tracks ws is st (findUser u w f)"
  "(\<And>r. tracks ws is st (g r)) \<Longrightarrow> tracks ws is st (updateUserRow L v g)"
  unfolding findUser_def updateUserRow_def timeNow_def by (rule tracks_Ask, simp add: shrinks_def)+ (auto simp: shrinks_def intro!: tracks_Ask)

lemma tracks_resolveManagerMetadata:
  "(\<And>u. tracks ws is st (k u)) \<Longrightarrow> tracks ws is st (resolveManagerMetadata L u w b k)"
  unfolding resolveManagerMetadata_def Let_def by (intro tracks_cases tracks_statements) auto

lemma applyFixup_tracks: "tracks ws is st (applyFixup L ws b fx st)"
proof (cases "FixupKind fx")
  case (DeferredMembers ms)
  then show ?thesis unfolding applyFixup_def
    by (auto intro!: tracks_cases tracks_pbind tracks_end shrinks_addDeferredMembers)
next
  case (DeferredManager mgr)
  have "tracks ws is st (fixManager L ws b fx mgr st)"
    unfolding fixManager_def Let_def
    by (intro tracks_cases tracks_statements tracks_resolveManagerMetadata tracks_end)
  with DeferredManager show ?thesis unfolding applyFixup_def by (auto intro!: tracks_cases tracks_end)
qed

text \<open>A pass finds nothing to do, or takes something back.\<close>

definition quiet :: "bulk_state \<Rightarrow> nat set \<Rightarrow> bool" where
  "quiet st I \<longleftrightarrow> (\<forall>i \<in> I. Option.bind (postAt i st) (failedDep st) = None)"

lemma cascadePass_run:
  assumes "run D (cascadePass ws js (st, c)) s = ((st', c'), s')" and "tracked ws is st s"
  shows "tracked ws is st' s' \<and> unrolled st' \<le> unrolled st
    \<and> (if c' \<and> \<not> c then unrolled st' < unrolled st else c' = c) \<and> (\<not> c' \<longrightarrow> st' = st \<and> quiet st (set js))"
  using assms
proof (induction js arbitrary: st c s)
  case Nil
  then show ?case by (auto simp: quiet_def)
next
  case (Cons j js)
  show ?case
  proof (cases "Option.bind (postAt j st) (failedDep st)")
    case None
    then have "run D (cascadePass ws js (st, c)) s = ((st', c'), s')" using Cons.prems(1) by simp
    from Cons.IH [OF this Cons.prems(2)] None show ?thesis by (auto simp: quiet_def)
  next
    case (Some dep)
    then obtain r where r: "postAt j st = Some r" "\<not> RolledBack r" by (auto simp: bind_eq_Some_conv failedDep_def split: if_splits)
    obtain err where run: "run D (pbind (rollbackRecord ws j err st) (\<lambda>st. cascadePass ws js (st, True))) s = ((st', c'), s')"
      using Cons.prems(1) Some by auto
    obtain st1 s1 where b: "run D (rollbackRecord ws j err st) s = (st1, s1)" by fastforce
    then have rest: "run D (cascadePass ws js (st1, True)) s1 = ((st', c'), s')" using run by (simp add: run_pbind)
    have "distinct (indices st)" "undone ws st s" using Cons.prems(2) by (auto simp: tracked_def)
    from rollbackRecord_run [OF b this] r have "unrolled st1 < unrolled st" by blast
    moreover have "tracked ws is st1 s1" by (rule rollbackRecord_tracked [OF b Cons.prems(2)])
    ultimately show ?thesis using Cons.IH [OF rest] by (auto split: if_splits)
  qed
qed

lemma cascade_run:
  assumes "run D (cascade fuel ws st) s = (st', s')" and "tracked ws is st s" and "unrolled st < fuel"
  shows "tracked ws is st' s' \<and> quiet st' (set is)"
  using assms
proof (induction fuel arbitrary: st s)
  case 0
  then show ?case by simp
next
  case (Suc fuel)
  obtain st1 c s1 where p: "run D (cascadePass ws (indices st) (st, False)) s = ((st1, c), s1)"
    by (metis prod.exhaust)
  note pass = cascadePass_run [OF p Suc.prems(2)]
  have ix: "set (indices st) = set is" using Suc.prems(2) by (simp add: tracked_def)
  show ?case
  proof (cases c)
    case True
    then have "run D (cascade fuel ws st1) s1 = (st', s')" using Suc.prems(1) p by (simp add: run_pbind)
    then show ?thesis by (rule Suc.IH) (use pass True Suc.prems(3) in auto)
  next
    case False
    then have "st' = st1" "s' = s1" using Suc.prems(1) p by (simp_all add: run_pbind)
    then show ?thesis using pass False ix by auto
  qed
qed

lemma quiet_indices:
  assumes "quiet st (set (indices st))" and "distinct (indices st)" and "r \<in> set (CreatedPosts st)" and "\<not> RolledBack r"
  shows "set (DepBulkIDs r) \<inter> set (RolledBackIDs st) = {}"
proof -
  have "failedDep st r = None"
    using assms(1,3) postAt_member [OF assms(2,3)] by (auto simp: quiet_def)
  then show ?thesis using assms(4) by (auto simp: failedDep_def find_None_iff)
qed

definition gone :: "string \<Rightarrow> createdPostRecord \<Rightarrow> store \<Rightarrow> bool" where
  "gone ws r s \<longleftrightarrow> (case PostType r of
       BulkUsers \<Rightarrow> \<forall>u \<in> set (user_rows s). \<not> (ID u = PostResource r \<and> WorkspaceID u = ws)
     | BulkGroups \<Rightarrow> \<forall>g \<in> set (group_rows s). \<not> (GroupID g = PostResource r \<and> GroupWorkspaceID g = ws))"

lemma undone_gone: "undone ws st s \<longleftrightarrow> (\<forall>r \<in> set (CreatedPosts st). RolledBack r \<longrightarrow> gone ws r s)"
  by (force simp: undone_def gone_def rows_of_def users_of_def groups_of_def split: bulkResourceType.split)

text \<open>C38. When deferred references have been resolved or have failed, no created resource remains that refers to one
  that was taken back, and what was taken back is not in the tables.\<close>

theorem rollback_cascades:
  assumes "run D (applyDeferredBulkFixups L wsID baseURL fixups st) s = (st', s')"
    and "distinct (map PostIdx (CreatedPosts st))" and "\<forall>r \<in> set (CreatedPosts st). RolledBack r \<longrightarrow> gone wsID r s"
    and "r \<in> set (CreatedPosts st')"
  shows "if RolledBack r then gone wsID r s' else set (DepBulkIDs r) \<inter> set (RolledBackIDs st') = {}"
proof -
  obtain st1 s1 where a: "run D (eachDo (applyFixup L wsID baseURL) fixups st) s = (st1, s1)" by fastforce
  have "tracked wsID (indices st) st s" using assms(2,3) by (simp add: tracked_def undone_gone)
  then have t1: "tracked wsID (indices st) st1 s1"
    by (rule run_eachDo [OF _ _ a]) (use applyFixup_tracks in \<open>auto simp: tracks_def\<close>)
  have "tracked wsID (indices st) st' s' \<and> (RolledBackIDs st' = [] \<or> quiet st' (set (indices st)))"
  proof (cases "RolledBackIDs st1 = []")
    case True
    then show ?thesis using assms(1) a t1 by (simp add: applyDeferredBulkFixups_def run_pbind)
  next
    case False
    then have "run D (cascade (Suc (length (CreatedPosts st1))) wsID st1) s1 = (st', s')"
      using assms(1) a by (simp add: applyDeferredBulkFixups_def run_pbind)
    from cascade_run [OF this t1] show ?thesis by (simp add: unrolled_def less_Suc_eq_le)
  qed
  then show ?thesis
    using quiet_indices [of st' r] assms(4)
    by (auto simp: tracked_def undone_gone)
qed

end
