(* ===== verification/BulkProps.thy ===== *)
theory BulkProps
  imports BulkRollback
begin

text \<open>
  Bulk requests on concrete inputs.
\<close>

definition post_group :: "string \<Rightarrow> string \<Rightarrow> json_object option" where
  "post_group bid member = Some [(''method'', JStr ''POST''), (''path'', JStr ''/Groups''), (''bulkId'', JStr bid),
     (''data'', JObj [(''displayName'', JStr bid), (''members'', JArr [JObj [(''value'', JStr (''bulkId:'' @ member))]])])]"

text \<open>Two groups that have each other as member.\<close>

definition club_pair :: bulk_ops where
  "club_pair = [post_group ''a'' ''b'', post_group ''b'' ''a'']"

lemma club_pair_run:
  "(let (st, s) = run sample_database (runBulk any_ext ''w1'' [] 0 club_pair) empty_store in
    (map (map_option (\<lambda>r. textMember r ''status'')) (Results st),
     map (\<lambda>m. (MemberGroupID m, MemberValue m)) (member_rows s)))
   = ([Some ''201'', Some ''201''], [(''uu'', ''u''), (''u'', ''uu'')])"
  by code_simp

text \<open>The order is right for dependencies without a cycle. A POST that refers to a cycle but is not on it may be chosen
  before the cycle: the first POST of the request is, although the comment at the choice speaks of a cyclic
  reference.\<close>

definition off_cycle :: bulk_ops where
  "off_cycle = post_group ''c'' ''a'' # club_pair"

lemma off_cycle_first:
  "dependsOn any_ext off_cycle 0 1 \<and> computeBulkExecutionOrder any_ext off_cycle (declareProducers any_ext off_cycle) = [0, 1, 2]"
proof
  have "refsOf off_cycle 0 = [''a'']" "map_of (declareProducers any_ext off_cycle) ''a'' = Some 1" "length off_cycle = 3"
    by code_simp+
  then show "dependsOn any_ext off_cycle 0 1" unfolding dependsOn_def by simp
  show "computeBulkExecutionOrder any_ext off_cycle (declareProducers any_ext off_cycle) = [0, 1, 2]" by code_simp
qed

section \<open>Witnesses\<close>

definition group_then_user :: bulk_ops where
  "group_then_user = [post_group ''g'' ''a'', Some [(''method'', JStr ''POST''), (''path'', JStr ''/Users''), (''bulkId'', JStr ''a''),
     (''data'', JObj [(''userName'', JStr ''ann'')])]]"

theorem bulk_order_witness:
  "precedes (computeBulkExecutionOrder any_ext group_then_user (declareProducers any_ext group_then_user)) 1 0"
proof -
  let ?R = "{(p, i). dependsOn any_ext group_then_user i p}"
  have ev: "refsOf group_then_user 0 = [''a'']" "refsOf group_then_user 1 = []" "length group_then_user = 2"
    "map_of (declareProducers any_ext group_then_user) ''a'' = Some 1"
    "keyOf any_ext group_then_user 0 = None" "keyOf any_ext group_then_user 1 = None"
    by code_simp+
  have "dependsOn any_ext group_then_user i p \<longleftrightarrow> i = 0 \<and> p = 1" for i p
    unfolding dependsOn_def ev(3) using ev by (cases "i = 0"; cases "i = 1") (auto simp: numeral_2_eq_2 less_Suc_eq)
  then have R: "?R = {(1, 0)}" by auto
  have "acyclic ?R" unfolding R by (simp add: acyclic_insert) (simp add: acyclic_def)
  moreover have "dependsOn any_ext group_then_user 0 1" using R by auto
  ultimately show ?thesis using bulk_order [of any_ext group_then_user 0 1] by blast
qed

definition created_groups :: bulk_state where
  "created_groups = (initialBulk 2)\<lparr>
     Results := [Some [(''bulkId'', JStr ''a''), (''status'', JStr ''201'')], Some [(''bulkId'', JStr ''b''), (''status'', JStr ''201'')]],
     BulkIdMap := [(''a'', ''u1''), (''b'', ''uuuu'')],
     CreatedPosts :=
      [\<lparr>PostIdx = 0, PostType = BulkGroups, PostResource = ''u1'', PostBulkID = ''a'', DepBulkIDs = [''b''], RolledBack = False\<rparr>,
       \<lparr>PostIdx = 1, PostType = BulkGroups, PostResource = ''uuuu'', PostBulkID = ''b'', DepBulkIDs = [''c''], RolledBack = False\<rparr>]\<rparr>"

definition missing_member :: deferredBulkFixup where
  "missing_member = \<lparr>FixupKind = DeferredMembers [[(''value'', JStr ''bulkId:c'')]], FixupIdx = 1, FixupResource = ''uuuu''\<rparr>"

definition undone_run :: "bulk_state \<times> store" where
  "undone_run = run sample_database (applyDeferredBulkFixups any_ext ''w1'' [] [missing_member] created_groups) club_store"

theorem rollback_cascades_witness:
  "map (map_option (\<lambda>r. textMember r ''status'')) (Results (fst undone_run)) = [Some ''400'', Some ''404'']
   \<and> list_all (\<lambda>g. (GroupID g, GroupWorkspaceID g) \<noteq> (''uuuu'', ''w1'')) (group_rows (snd undone_run))"
proof
  show "map (map_option (\<lambda>r. textMember r ''status'')) (Results (fst undone_run)) = [Some ''400'', Some ''404'']"
    unfolding undone_run_def by code_simp
  let ?r = "\<lparr>PostIdx = 1, PostType = BulkGroups, PostResource = ''uuuu'', PostBulkID = ''b'', DepBulkIDs = [''c''], RolledBack = True\<rparr>"
  have r: "?r \<in> set (CreatedPosts (fst undone_run))" unfolding undone_run_def by code_simp
  have "run sample_database (applyDeferredBulkFixups any_ext ''w1'' [] [missing_member] created_groups) club_store
      = (fst undone_run, snd undone_run)" by (simp add: undone_run_def)
  from rollback_cascades [OF this _ _ r]
  show "list_all (\<lambda>g. (GroupID g, GroupWorkspaceID g) \<noteq> (''uuuu'', ''w1'')) (group_rows (snd undone_run))"
    by (simp add: created_groups_def initialBulk_def gone_def list_all_iff)
qed

end
