(* ===== verification/BulkCount.thy ===== *)
theory BulkCount
  imports BulkRollback UserHttpProps
begin

text \<open>
  How far a bulk request is executed, and what its results say of the operations and of the errors among them.
\<close>

section \<open>Counting the errors among the results\<close>

definition errorEntry :: "json_object option \<Rightarrow> bool" where
  "errorEntry r = (case r of None \<Rightarrow> False | Some res \<Rightarrow> isErrorResult res)"

definition errorResults :: "bulk_state \<Rightarrow> nat" where
  "errorResults st = length (filter errorEntry (Results st))"

lemma filter_update:
  "i < length xs \<Longrightarrow> length (filter P (xs[i := y])) + (if P (xs ! i) then 1 else 0) = length (filter P xs) + (if P y then 1 else 0)"
proof (induction xs arbitrary: i)
  case (Cons x xs)
  then show ?case by (cases i) auto
qed simp

text \<open>What fixups and rollbacks do: they change results of operations that have one, no error becomes a success, and
  the count of errors goes up with the errors.\<close>

definition settles :: "bulk_state \<Rightarrow> bulk_state \<Rightarrow> bool" where
  "settles st st' \<longleftrightarrow> map Option.is_none (Results st') = map Option.is_none (Results st)
     \<and> errorResults st \<le> errorResults st' \<and> ErrorCount st' + errorResults st = ErrorCount st + errorResults st'"

lemma settles_refl [simp]: "settles st st"
  by (simp add: settles_def)

lemma settles_trans: "settles st st1 \<Longrightarrow> settles st1 st2 \<Longrightarrow> settles st st2"
  by (simp add: settles_def)

lemma settles_put:
  assumes "resultAt i st = Some res" and "Results st' = (Results st)[i := Some res']"
    and "isErrorResult res \<Longrightarrow> isErrorResult res'"
    and "ErrorCount st' = ErrorCount st + (if \<not> isErrorResult res \<and> isErrorResult res' then 1 else 0)"
  shows "settles st st'"
proof -
  have i: "i < length (Results st)" "Results st ! i = Some res" using assms(1) by (auto simp: resultAt_def split: if_splits)
  have "map Option.is_none ((Results st)[i := Some res']) = map Option.is_none (Results st)"
    using i by (intro nth_equalityI) (auto simp: nth_list_update)
  moreover have "errorResults st' + (if isErrorResult res then 1 else 0) = errorResults st + (if isErrorResult res' then 1 else 0)"
    using filter_update [OF i(1), of errorEntry "Some res'"] i(2) assms(2) by (simp add: errorResults_def errorEntry_def)
  ultimately show ?thesis using assms by (auto simp: settles_def split: if_splits)
qed

text \<open>The errors that a reference can fail with have a status that counts as one.\<close>

definition counts :: "go_error \<Rightarrow> bool" where
  "counts err = (case err of ScimErr e \<Rightarrow> Status e \<in> {400, 404, 500} | DbErr _ \<Rightarrow> True)"

lemma setBulkError_counts: "counts err \<Longrightarrow> isErrorResult (setBulkError res err)"
proof -
  have "itoa 400 = ''400''" "itoa 404 = ''404''" "itoa 500 = ''500''" "code CHR ''4'' \<le> code CHR ''5''" by code_simp+
  then show "counts err \<Longrightarrow> isErrorResult (setBulkError res err)"
    by (auto simp: counts_def setBulkError_def bulkStatus_def isErrorResult_def textMember_def jget_def split: go_error.splits)
qed

lemma failResult_settles: "counts err \<Longrightarrow> settles st (failResult i err st)"
  using setBulkError_counts
  by (cases "resultAt i st") (auto simp: failResult_def Let_def intro!: settles_put)

lemma setVersion_settles: "settles st (setVersion i v st)"
proof (cases "resultAt i st")
  case (Some res)
  have "isErrorResult (jput res ''version'' (JStr (etag v))) = isErrorResult res"
    by (simp add: isErrorResult_def textMember_def jget_def)
  with Some show ?thesis by (auto simp: setVersion_def intro!: settles_put)
qed (simp add: setVersion_def)

lemma undoRecord_settles: "settles st (undoRecord r st)"
  by (simp add: settles_def undoRecord_def errorResults_def)

section \<open>Fixups and rollbacks\<close>

lemma results_run: "results P p \<Longrightarrow> P (fst (run D p s))"
  by (induction p arbitrary: s) (auto split: prod.split)

lemma results_mono: "results P p \<Longrightarrow> (\<And>x. P x \<Longrightarrow> Q x) \<Longrightarrow> results Q p"
  by (induction p) auto

lemma results_chain: "results P p \<Longrightarrow> (\<And>x. P x \<Longrightarrow> results Q (f x)) \<Longrightarrow> results Q (pbind p f)"
  by (induction p) auto

lemma results_deleteCreated: "results P k \<Longrightarrow> results P (deleteCreated r ws k)"
  by (auto simp: deleteCreated_def deleteByMemberValue_def deleteUserRow_def intro!: results_pbind split: bulkResourceType.split)

lemma rollbackRecord_settles:
  assumes "counts err"
  shows "results (settles st) (rollbackRecord ws i err st)"
proof -
  have "settles st (failResult i err (undoRecord r st))" for r
    by (rule settles_trans [OF undoRecord_settles failResult_settles [OF assms]])
  then show ?thesis by (auto simp: rollbackRecord_def intro!: results_deleteCreated split: option.split)
qed

definition counted :: "'a attempt \<Rightarrow> bool" where
  "counted p \<longleftrightarrow> results (\<lambda>r. case r of Inl err \<Rightarrow> counts err | Inr _ \<Rightarrow> True) p"

lemma counts_status: "status \<in> {400, 404, 500} \<Longrightarrow> counts (ScimErr (NewScimError status t d))"
  by (simp add: counts_def NewScimError_def)

lemma counted_ends:
  "counted (Ret (Inr x))" "counted (fromDb p)" "status \<in> {400, 404, 500} \<Longrightarrow> counted (reject status t d)"
  "(\<And>e. r = Inl e \<Longrightarrow> Status e \<in> {400, 404, 500}) \<Longrightarrow> counted (checked r)"
  using counts_status
  by (auto simp: counted_def fromDb_def returnErr_def checked_def counts_def intro!: results_pbind split: sum.split)

lemma counted_andThen: "counted p \<Longrightarrow> (\<And>x. counted (f x)) \<Longrightarrow> counted (andThen p f)"
  unfolding andThen_def counted_def by (erule results_chain) (simp split: sum.splits)

lemma counted_forEach: "(\<And>x st. counted (f x st)) \<Longrightarrow> counted (forEach f st xs)"
  by (induction xs arbitrary: st) (auto intro!: counted_andThen counted_ends)

lemma counted_cases:
  "(b \<Longrightarrow> counted p) \<Longrightarrow> (\<not> b \<Longrightarrow> counted q) \<Longrightarrow> counted (if b then p else q)"
  "counted n \<Longrightarrow> (\<And>x. counted (f x)) \<Longrightarrow> counted (case z of None \<Rightarrow> n | Some x \<Rightarrow> f x)"
  "(\<And>x y. counted (h x y)) \<Longrightarrow> counted (case z' of (x, y) \<Rightarrow> h x y)"
  by (simp_all split: option.split prod.split)

lemma counted_statements:
  "(\<And>r. counted (k r)) \<Longrightarrow> counted (memberUser u ws k)"
  "(\<And>g. counted (h g)) \<Longrightarrow> counted (memberGroup u ws h)"
  "(\<And>i. counted (f i)) \<Longrightarrow> counted (newUUID f)"
  unfolding counted_def memberUser_def memberGroup_def
  by (auto intro!: results_pbind results_findUser results_newUUID)

lemmas counted_intros = counted_andThen counted_forEach counted_cases counted_statements counted_ends

lemma counted_checks:
  "counted (checked (checkMemberValueRefConflict L m))" "counted (checked (explicitMemberType L m))"
  by (rule counted_ends, auto simp: checkMemberValueRefConflict_def explicitMemberType_def stringMember_def NewScimError_def
      Let_def split: sum.splits json.splits if_splits option.splits)+

lemma counted_resolveMember: "counted (resolveMember ws v u t)"
  unfolding resolveMember_def Let_def by (intro counted_intros) simp_all

lemma counted_addMember: "counted (addMember L gid ws m)"
  unfolding addMember_def Let_def by (intro counted_intros counted_checks counted_resolveMember) simp_all

lemma counted_addDeferredMembers: "counted (addDeferredMembers L gid ws ids ms)"
  unfolding addDeferredMembers_def Let_def by (intro counted_intros counted_addMember)

lemma results_settles: "settles st st1 \<Longrightarrow> results (settles st1) p \<Longrightarrow> results (settles st) p"
  by (rule results_mono [of "settles st1"]) (auto intro: settles_trans)

lemma fixups_settle_ends: "results (settles st) (Ret st)" "results (settles st) (Ret (setVersion i v st))"
  "counts err \<Longrightarrow> results (settles st) (rollbackRecord ws i err st)"
  using rollbackRecord_settles setVersion_settles by auto

lemma results_updateUserRow: "(\<And>r. results P (k r)) \<Longrightarrow> results P (updateUserRow L u k)"
  by (auto simp: updateUserRow_def intro!: results_timeNow)

lemma results_resolveManagerMetadata: "(\<And>u. results P (k u)) \<Longrightarrow> results P (resolveManagerMetadata L u ws b k)"
  by (auto simp: resolveManagerMetadata_def Let_def intro!: results_findUser split: option.split sum.split)

lemma applyFixup_settles: "results (settles st) (applyFixup L ws b fx st)"
proof (cases "FixupKind fx")
  case (DeferredMembers ms)
  have "results (settles st) (pbind (addDeferredMembers L (FixupResource fx) ws (BulkIdMap st) ms) (\<lambda>r. case r of
      Inl err \<Rightarrow> rollbackRecord ws (FixupIdx fx) err st | Inr _ \<Rightarrow> Ret st))"
    by (rule results_chain [OF counted_addDeferredMembers [unfolded counted_def]])
      (auto intro!: fixups_settle_ends split: sum.splits)
  with DeferredMembers show ?thesis by (simp add: applyFixup_def)
next
  case (DeferredManager mgr)
  have "results (settles st) (fixManager L ws b fx mgr st)"
    by (auto simp: fixManager_def Let_def intro!: fixups_settle_ends setVersion_settles counts_status results_findUser results_resolveManagerMetadata
        results_updateUserRow split: option.split sum.split)
  with DeferredManager show ?thesis by (simp add: applyFixup_def)
qed

lemma eachDo_settles: "(\<And>x st. results (settles st) (f x st)) \<Longrightarrow> results (settles st) (eachDo f xs st)"
proof (induction xs arbitrary: st)
  case (Cons x xs)
  then show ?case by (auto intro!: results_chain [OF Cons.prems] intro: results_settles)
qed simp

lemma cascadePass_settles: "results (\<lambda>r. settles st (fst r)) (cascadePass ws is (st, c))"
proof (induction "is" arbitrary: st c)
  case (Cons i "is")
  show ?case
  proof (cases "Option.bind (postAt i st) (failedDep st)")
    case None
    then show ?thesis using Cons.IH by simp
  next
    case (Some dep)
    show ?thesis
      using Some by (auto intro!: results_chain [OF rollbackRecord_settles] counts_status intro: results_mono [OF Cons.IH] settles_trans)
  qed
qed simp

lemma cascade_settles: "results (settles st) (cascade fuel ws st)"
proof (induction fuel arbitrary: st)
  case (Suc fuel)
  then show ?case
    by (auto intro!: results_chain [OF cascadePass_settles] intro: results_settles [OF _ Suc.IH])
qed simp

lemma applyDeferredBulkFixups_settles: "results (settles st) (applyDeferredBulkFixups L ws b fixups st)"
  unfolding applyDeferredBulkFixups_def
  by (auto intro!: results_chain [OF eachDo_settles [of "applyFixup L ws b"]] applyFixup_settles
      intro: results_settles [OF _ cascade_settles] simp del: cascade.simps)

section \<open>The loop\<close>

text \<open>\<open>accounted ops is st\<close>: the operations \<open>is\<close> have been executed. Those that are objects have a result, no other
  operation has one, and the count of errors is that of the errors among the results.\<close>

definition accounted :: "bulk_ops \<Rightarrow> nat list \<Rightarrow> bulk_state \<Rightarrow> bool" where
  "accounted ops is st \<longleftrightarrow> length (Results st) = length ops
     \<and> (\<forall>i < length ops. (Results st ! i \<noteq> None) = (i \<in> set is \<and> ops ! i \<noteq> None))
     \<and> ErrorCount st = errorResults st"

lemma settles_accounted: "settles st st' \<Longrightarrow> accounted ops is st \<Longrightarrow> accounted ops is st'"
proof -
  assume s: "settles st st'" and a: "accounted ops is st"
  have m: "map Option.is_none (Results st') = map Option.is_none (Results st)" using s by (simp add: settles_def)
  have len: "length (Results st') = length (Results st)" using map_eq_imp_length_eq [OF m] .
  have "(Results st' ! i = None) = (Results st ! i = None)" if "i < length ops" for i
  proof -
    have "map Option.is_none (Results st') ! i = map Option.is_none (Results st) ! i" by (simp only: m)
    with that len a show ?thesis by (simp add: accounted_def Option.is_none_def)
  qed
  with s len a show ?thesis by (simp add: accounted_def settles_def)
qed

lemma results_accounted: "accounted ops is st \<Longrightarrow> results (settles st) p \<Longrightarrow> results (accounted ops is) p"
  by (rule results_mono [of "settles st"]) (auto intro: settles_accounted)

lemma recordOutcome_accounted:
  assumes "accounted ops is st" and "i < length ops" and "i \<notin> set is" and "ops ! i \<noteq> None"
  shows "accounted ops (is @ [i]) (recordOutcome op i out st)"
proof -
  let ?r = "Some (PostResult out)"
  have i: "i < length (Results st)" "Results st ! i = None" using assms by (auto simp: accounted_def)
  have "length (filter errorEntry ((Results st)[i := ?r])) = errorResults st + (if isErrorResult (PostResult out) then 1 else 0)"
    using filter_update [OF i(1), of errorEntry ?r] i(2) by (simp add: errorResults_def errorEntry_def)
  with assms show ?thesis by (auto simp: accounted_def recordOutcome_def errorResults_def nth_list_update)
qed

lemma bulkStep_accounted:
  assumes "accounted ops is st" and "i < length ops" and "i \<notin> set is"
  shows "results (accounted ops (is @ [i])) (bulkStep L ws b ops ps i st)"
proof (cases "ops ! i")
  case None
  then show ?thesis using assms by (auto simp: bulkStep_def accounted_def errorResults_def)
next
  case (Some op)
  have "results (accounted ops (is @ [i])) (resolveReady L ws b ops ps (recordOutcome op i out st))" for out
  proof -
    have "accounted ops (is @ [i]) (recordOutcome op i out st)" using recordOutcome_accounted [OF assms] Some by simp
    then have "accounted ops (is @ [i]) ((recordOutcome op i out st)\<lparr>Fixups := f\<rparr>)" for f
      by (simp add: accounted_def errorResults_def)
    with recordOutcome_accounted [OF assms] Some show ?thesis
      unfolding resolveReady_def Let_def by (auto intro!: results_accounted [OF _ applyDeferredBulkFixups_settles])
  qed
  with Some show ?thesis by (simp add: bulkStep_def results_pbind)
qed

lemma bulkLoop_accounted:
  assumes "accounted ops is st" and "distinct (is @ order)" and "set order \<subseteq> {..<length ops}"
    and "run D (bulkLoop L ws b failOnErrors ops ps order st) s = (st', s')"
  shows "\<exists>k \<le> length order. accounted ops (is @ take k order) st' \<and> (k < length order \<longrightarrow> limitReached failOnErrors st')
    \<and> (\<forall>j < k. let stj = fst (run D (bulkLoop L ws b failOnErrors ops ps (take j order) st) s) in
        accounted ops (is @ take j order) stj \<and> \<not> limitReached failOnErrors stj)"
  using assms
proof (induction order arbitrary: "is" st s)
  case Nil
  then show ?case by simp
next
  case (Cons i order)
  show ?case
  proof (cases "limitReached failOnErrors st")
    case True
    then show ?thesis using Cons.prems by (intro exI [of _ 0]) simp
  next
    case False
    obtain st1 s1 where r: "run D (bulkStep L ws b ops ps i st) s = (st1, s1)" by fastforce
    have "accounted ops (is @ [i]) st1"
      using results_run [OF bulkStep_accounted [OF Cons.prems(1), of i L ws b ps], of D s] Cons.prems(2,3) r by simp
    moreover have "run D (bulkLoop L ws b failOnErrors ops ps order st1) s1 = (st', s')"
      using Cons.prems(4) False r by (simp add: run_pbind)
    ultimately obtain k where k: "k \<le> length order" "accounted ops ((is @ [i]) @ take k order) st'"
      "k < length order \<longrightarrow> limitReached failOnErrors st'"
      "\<forall>j < k. let stj = fst (run D (bulkLoop L ws b failOnErrors ops ps (take j order) st1) s1) in
        accounted ops ((is @ [i]) @ take j order) stj \<and> \<not> limitReached failOnErrors stj"
      using Cons.IH [of "is @ [i]" st1 s1] Cons.prems(2,3) by auto
    have "let stj = fst (run D (bulkLoop L ws b failOnErrors ops ps (take j (i # order)) st) s) in
        accounted ops (is @ take j (i # order)) stj \<and> \<not> limitReached failOnErrors stj" if "j < Suc k" for j
      using that k(4) False Cons.prems(1) r by (cases j) (auto simp: run_pbind Let_def)
    with k show ?thesis by (intro exI [of _ "Suc k"]) auto
  qed
qed

text \<open>C10. A bulk request executes the operations in their order up to one after which \<open>failOnErrors\<close> of the results are
  errors, and all of them if that many never are or the limit is not positive. The operations executed, and no others,
  have a result, unless they are no objects. Errors that come from taking a resource back count as well.\<close>

theorem bulk_stops_at_limit:
  fixes L :: ext and ops :: bulk_ops
  defines "order \<equiv> computeBulkExecutionOrder L ops (declareProducers L ops)"
  assumes "run D (runBulk L wsID baseURL failOnErrors ops) s = (st, s')"
  shows "\<exists>k \<le> length ops. length (Results st) = length ops
    \<and> (\<forall>i < length ops. (Results st ! i \<noteq> None) = (i \<in> set (take k order) \<and> ops ! i \<noteq> None))
    \<and> (k < length ops \<longrightarrow> 0 < failOnErrors \<and> failOnErrors \<le> int (errorResults st))
    \<and> (\<forall>j < k. 0 < failOnErrors \<longrightarrow> int (errorResults (fst (run D
        (bulkLoop L wsID baseURL failOnErrors ops (declareProducers L ops) (take j order) (initialBulk (length ops))) s))) < failOnErrors)"
proof -
  let ?loop = "\<lambda>order. bulkLoop L wsID baseURL failOnErrors ops (declareProducers L ops) order (initialBulk (length ops))"
  have o: "distinct order" "set order = {..<length ops}" unfolding order_def using order_perm by auto
  then have len: "length order = length ops" using distinct_card [of order] by simp
  have "accounted ops [] (initialBulk (length ops))"
    by (simp add: accounted_def initialBulk_def errorResults_def errorEntry_def)
  moreover obtain st1 s1 where r: "run D (?loop order) s = (st1, s1)" by fastforce
  ultimately obtain k where k: "k \<le> length order" "accounted ops (take k order) st1"
      "k < length order \<longrightarrow> limitReached failOnErrors st1"
      "\<forall>j < k. let stj = fst (run D (?loop (take j order)) s) in accounted ops (take j order) stj
        \<and> \<not> limitReached failOnErrors stj"
    using bulkLoop_accounted [of ops "[]" "initialBulk (length ops)" order D L wsID baseURL failOnErrors "declareProducers L ops" s st1 s1] o by auto
  have st: "settles st1 st"
    using assms(2) r results_run [OF applyDeferredBulkFixups_settles, of st1 D L wsID baseURL "Fixups st1" s1]
    by (auto simp: runBulk_def Let_def run_pbind order_def split: if_splits)
  have "accounted ops (take k order) st" by (rule settles_accounted [OF st k(2)])
  moreover have "k < length ops \<longrightarrow> 0 < failOnErrors \<and> failOnErrors \<le> int (errorResults st)"
    using k(2,3) st len by (auto simp: limitReached_def accounted_def settles_def)
  moreover have "\<forall>j < k. 0 < failOnErrors \<longrightarrow> int (errorResults (fst (run D (?loop (take j order)) s))) < failOnErrors"
    using k(4) by (auto simp: limitReached_def accounted_def Let_def)
  ultimately show ?thesis using k(1) len by (intro exI [of _ k]) (simp add: accounted_def)
qed

definition two_unsupported :: bulk_ops where
  "two_unsupported = [Some [(''method'', JStr ''GET'')], Some [(''method'', JStr ''GET'')]]"

theorem bulk_stops_at_limit_witness:
  "case run sample_database (runBulk any_ext ''w1'' [] 1 two_unsupported) empty_store of (st, _) \<Rightarrow>
     Results st ! 1 = None \<and> errorResults st = 1"
proof -
  obtain st s where r: "run sample_database (runBulk any_ext ''w1'' [] 1 two_unsupported) empty_store = (st, s)" by fastforce
  let ?ps = "declareProducers any_ext two_unsupported"
  have order: "computeBulkExecutionOrder any_ext two_unsupported ?ps = [0, 1]" by code_simp
  have first: "errorResults (fst (run sample_database (bulkLoop any_ext ''w1'' [] 1 two_unsupported ?ps [0]
      (initialBulk (length two_unsupported))) empty_store)) = 1" by code_simp
  have n: "length two_unsupported = 2" by (simp add: two_unsupported_def)
  obtain k where k: "\<forall>i < 2. (Results st ! i \<noteq> None) = (i \<in> set (take k [0, 1]) \<and> two_unsupported ! i \<noteq> None)"
      "\<forall>j < k. 0 < (1::int) \<longrightarrow> int (errorResults (fst (run sample_database (bulkLoop any_ext ''w1'' [] 1 two_unsupported ?ps
        (take j [0, 1]) (initialBulk (length two_unsupported))) empty_store))) < 1"
    using bulk_stops_at_limit [OF r] unfolding order n by blast
  have "k \<le> 1"
  proof (rule ccontr)
    assume "\<not> k \<le> 1"
    then have "1 < k" by simp
    from k(2) [THEN spec, THEN mp, OF this] have "errorResults (fst (run sample_database
        (bulkLoop any_ext ''w1'' [] 1 two_unsupported ?ps [0] (initialBulk (length two_unsupported))) empty_store)) < 1"
      by (simp del: bulkLoop.simps)
    then show False unfolding first by simp
  qed
  then have "1 \<notin> set (take k [0, 1 :: nat])" by (cases k) auto
  then have "Results st ! 1 = None" using k(1) [rule_format, of 1] by simp
  moreover have "errorResults (fst (run sample_database (runBulk any_ext ''w1'' [] 1 two_unsupported) empty_store)) = 1" by code_simp
  ultimately show ?thesis using r by simp
qed

end
