(* ===== verification/Schema.thy ===== *)
theory Schema
  imports Http Mapper
begin

text \<open>
  \<^verbatim>\<open>internal/scim/schema.go\<close>: the documents that describe the server to its clients, the six schemas, the resource
  types and the configuration. Go changes an attribute in place with \<^verbatim>\<open>a[k] = v\<close>; here every change gives the next
  value of the name.
\<close>

section \<open>Attributes\<close>

definition coreSchemaURN :: string where
  "coreSchemaURN = ''urn:ietf:params:scim:schemas:core:2.0:Schema''"

definition attr :: "string \<Rightarrow> string \<Rightarrow> bool \<Rightarrow> string \<Rightarrow> string \<Rightarrow> string \<Rightarrow> bool \<Rightarrow> json_object" where
  "attr name attrType required mutab uniqueness description multiValued =
     [(''name'', JStr name), (''type'', JStr attrType), (''multiValued'', JBool multiValued),
      (''description'', JStr description), (''required'', JBool required), (''mutability'', JStr mutab),
      (''returned'', JStr ''default'')]
     @ (if attrType = ''string'' \<or> attrType = ''reference'' then
          [(''caseExact'', JBool False), (''uniqueness'', JStr uniqueness)] else [])"

definition withCaseExact :: "json_object \<Rightarrow> json_object" where
  "withCaseExact a = jput a ''caseExact'' (JBool True)"

definition withReturned :: "json_object \<Rightarrow> string \<Rightarrow> json_object" where
  "withReturned a returned = jput a ''returned'' (JStr returned)"

definition withSubAttributes :: "json_object \<Rightarrow> json_object list \<Rightarrow> json_object" where
  "withSubAttributes a subs = jput a ''subAttributes'' (JArr (map JObj subs))"

definition withRefTypes :: "json_object \<Rightarrow> string list \<Rightarrow> json_object" where
  "withRefTypes a types = jput a ''referenceTypes'' (JArr (map JStr types))"

section \<open>Sub-attributes\<close>

definition emailsSubAttributes :: "json_object list" where
  "emailsSubAttributes =
     (let t = attr ''type'' ''string'' False ''readWrite'' ''none'' ''The type label'' False;
      t = jput t ''canonicalValues'' (JArr [JStr ''work'', JStr ''home'', JStr ''other'']) in
     [attr ''value'' ''string'' False ''readWrite'' ''none'' ''The value'' False,
     t,
     attr ''display'' ''string'' False ''readWrite'' ''none'' ''Human-readable name'' False,
     attr ''primary'' ''boolean'' False ''readWrite'' ''none'' ''Primary indicator'' False])"

definition phoneNumbersSubAttributes :: "json_object list" where
  "phoneNumbersSubAttributes =
     (let t = attr ''type'' ''string'' False ''readWrite'' ''none'' ''The type label'' False;
      t = jput t ''canonicalValues'' (JArr [JStr ''work'', JStr ''home'', JStr ''mobile'', JStr ''fax'', JStr
            ''pager'', JStr ''other'']) in
     [attr ''value'' ''string'' False ''readWrite'' ''none'' ''The value'' False,
     t,
     attr ''display'' ''string'' False ''readWrite'' ''none'' ''Human-readable name'' False,
     attr ''primary'' ''boolean'' False ''readWrite'' ''none'' ''Primary indicator'' False])"

definition imsSubAttributes :: "json_object list" where
  "imsSubAttributes =
     (let t = attr ''type'' ''string'' False ''readWrite'' ''none'' ''The type label'' False;
      t = jput t ''canonicalValues'' (JArr [JStr ''aim'', JStr ''gtalk'', JStr ''icq'', JStr ''xmpp'', JStr
            ''skype'', JStr ''qq'', JStr ''msn'', JStr ''yahoo'']) in
     [attr ''value'' ''string'' False ''readWrite'' ''none'' ''The value'' False,
     t,
     attr ''display'' ''string'' False ''readWrite'' ''none'' ''Human-readable name'' False,
     attr ''primary'' ''boolean'' False ''readWrite'' ''none'' ''Primary indicator'' False])"

definition photosSubAttributes :: "json_object list" where
  "photosSubAttributes =
     (let v = withCaseExact (attr ''value'' ''reference'' False ''readWrite'' ''none'' ''The value'' False);
      v = jput v ''referenceTypes'' (JArr [JStr ''external'']);
      t = attr ''type'' ''string'' False ''readWrite'' ''none'' ''The type label'' False;
      t = jput t ''canonicalValues'' (JArr [JStr ''photo'', JStr ''thumbnail'']) in
     [v,
     t,
     attr ''display'' ''string'' False ''readWrite'' ''none'' ''Human-readable name'' False,
     attr ''primary'' ''boolean'' False ''readWrite'' ''none'' ''Primary indicator'' False])"

definition addressesSubAttributes :: "json_object list" where
  "addressesSubAttributes =
     (let t = attr ''type'' ''string'' False ''readWrite'' ''none'' ''Address type (work, home, other)'' False;
      t = jput t ''canonicalValues'' (JArr [JStr ''work'', JStr ''home'', JStr ''other'']) in
     [attr ''formatted'' ''string'' False ''readWrite'' ''none'' ''Full mailing address'' False,
     attr ''streetAddress'' ''string'' False ''readWrite'' ''none'' ''Street address'' False,
     attr ''locality'' ''string'' False ''readWrite'' ''none'' ''City or locality'' False,
     attr ''region'' ''string'' False ''readWrite'' ''none'' ''State or region'' False,
     attr ''postalCode'' ''string'' False ''readWrite'' ''none'' ''Postal code'' False,
     attr ''country'' ''string'' False ''readWrite'' ''none'' ''Country'' False,
     t,
     attr ''primary'' ''boolean'' False ''readWrite'' ''none'' ''Primary address indicator'' False])"

definition entitlementsSubAttributes :: "json_object list" where
  "entitlementsSubAttributes =
     [attr ''value'' ''string'' False ''readWrite'' ''none'' ''The value'' False,
     attr ''type'' ''string'' False ''readWrite'' ''none'' ''The type label'' False,
     attr ''display'' ''string'' False ''readWrite'' ''none'' ''Human-readable name'' False,
     attr ''primary'' ''boolean'' False ''readWrite'' ''none'' ''Primary indicator'' False]"

definition rolesSubAttributes :: "json_object list" where
  "rolesSubAttributes =
     [attr ''value'' ''string'' False ''readWrite'' ''none'' ''The value'' False,
     attr ''type'' ''string'' False ''readWrite'' ''none'' ''The type label'' False,
     attr ''display'' ''string'' False ''readWrite'' ''none'' ''Human-readable name'' False,
     attr ''primary'' ''boolean'' False ''readWrite'' ''none'' ''Primary indicator'' False]"

definition x509CertificatesSubAttributes :: "json_object list" where
  "x509CertificatesSubAttributes =
     (let v = attr ''value'' ''binary'' False ''readWrite'' ''none'' ''The value'' False;
      v = jput v ''caseExact'' (JBool True) in
     [v,
     attr ''type'' ''string'' False ''readWrite'' ''none'' ''The type label'' False,
     attr ''display'' ''string'' False ''readWrite'' ''none'' ''Human-readable name'' False,
     attr ''primary'' ''boolean'' False ''readWrite'' ''none'' ''Primary indicator'' False])"

definition groupsSubAttributes :: "json_object list" where
  "groupsSubAttributes =
     (let ref = withCaseExact (attr ''$ref'' ''reference'' False ''readOnly'' ''none'' ''Group URI'' False);
      ref = jput ref ''referenceTypes'' (JArr [JStr ''Group'']);
      t = attr ''type'' ''string'' False ''readOnly'' ''none'' ''Membership type'' False;
      t = jput t ''canonicalValues'' (JArr [JStr ''direct'', JStr ''indirect'']) in
     [attr ''value'' ''string'' False ''readOnly'' ''none'' ''Group id'' False,
     ref,
     attr ''display'' ''string'' False ''readOnly'' ''none'' ''Group displayName'' False,
     t])"

definition membersSubAttributes :: "json_object list" where
  "membersSubAttributes =
     (let ref = withCaseExact (attr ''$ref'' ''reference'' False ''immutable'' ''none'' ''Member URI'' False);
      ref = jput ref ''referenceTypes'' (JArr [JStr ''User'', JStr ''Group'']);
      t = attr ''type'' ''string'' False ''immutable'' ''none'' ''Member type (User or Group)'' False;
      t = jput t ''canonicalValues'' (JArr [JStr ''User'', JStr ''Group'']) in
     [attr ''value'' ''string'' False ''immutable'' ''none'' ''Member identifier'' False,
     ref,
     attr ''display'' ''string'' False ''readOnly'' ''none'' ''Member display name'' False,
     t])"

section \<open>Schemas\<close>

definition userSchema :: "json_object" where
  "userSchema =
     (let attrs = [withReturned (withCaseExact (attr ''id'' ''string'' True ''readOnly'' ''server''
           ''A unique identifier for a SCIM resource'' False)) ''always'',
     withCaseExact (attr ''externalId'' ''string'' False ''readWrite'' ''none''
           ''An identifier for the resource as defined by the provisioning client'' False),
     attr ''userName'' ''string'' True ''readWrite'' ''server'' ''Unique identifier for the User'' False,
     withSubAttributes (attr ''name'' ''complex'' False ''readWrite'' ''none''
           ''The components of the user's real name'' False)
        [attr ''formatted'' ''string'' False ''readWrite'' ''none'' ''The full name'' False,
        attr ''familyName'' ''string'' False ''readWrite'' ''none'' ''The family name'' False,
        attr ''givenName'' ''string'' False ''readWrite'' ''none'' ''The given name'' False,
        attr ''middleName'' ''string'' False ''readWrite'' ''none'' ''The middle name'' False,
        attr ''honorificPrefix'' ''string'' False ''readWrite'' ''none'' ''The honorific prefix'' False,
        attr ''honorificSuffix'' ''string'' False ''readWrite'' ''none'' ''The honorific suffix'' False],
     attr ''displayName'' ''string'' False ''readWrite'' ''none'' ''The name displayed for the user'' False,
     attr ''nickName'' ''string'' False ''readWrite'' ''none'' ''The casual way to address the user'' False,
     withRefTypes (withCaseExact (attr ''profileUrl'' ''reference'' False ''readWrite'' ''none''
           ''A URI that is a URL to the user's online profile'' False)) [''external''],
     attr ''title'' ''string'' False ''readWrite'' ''none'' ''The user's title'' False,
     attr ''userType'' ''string'' False ''readWrite'' ''none'' ''The type of user'' False,
     attr ''preferredLanguage'' ''string'' False ''readWrite'' ''none'' ''Preferred written or spoken language''
           False,
     attr ''locale'' ''string'' False ''readWrite'' ''none'' ''User's default location'' False,
     attr ''timezone'' ''string'' False ''readWrite'' ''none'' ''The User's time zone'' False,
     attr ''active'' ''boolean'' False ''readWrite'' ''none''
           ''A Boolean value indicating the User's administrative status'' False,
     withReturned (attr ''password'' ''string'' False ''writeOnly'' ''none'' ''The User's cleartext password'' False)
           ''never'',
     withSubAttributes (attr ''emails'' ''complex'' False ''readWrite'' ''none'' ''Email addresses for the user''
           True)
        emailsSubAttributes,
     withSubAttributes (attr ''phoneNumbers'' ''complex'' False ''readWrite'' ''none'' ''Phone numbers for the user''
           True)
        phoneNumbersSubAttributes,
     withSubAttributes (attr ''ims'' ''complex'' False ''readWrite'' ''none''
           ''Instant messaging addresses for the user'' True)
        imsSubAttributes,
     withSubAttributes (attr ''photos'' ''complex'' False ''readWrite'' ''none'' ''URLs of photos of the User'' True)
        photosSubAttributes,
     withSubAttributes (attr ''addresses'' ''complex'' False ''readWrite'' ''none''
           ''Physical mailing addresses for this User'' True)
        addressesSubAttributes,
     withSubAttributes (attr ''entitlements'' ''complex'' False ''readWrite'' ''none''
           ''A list of entitlements for the User'' True)
        entitlementsSubAttributes,
     withSubAttributes (attr ''roles'' ''complex'' False ''readWrite'' ''none'' ''A list of roles for the User'' True)
        rolesSubAttributes,
     withSubAttributes (attr ''x509Certificates'' ''complex'' False ''readWrite'' ''none''
           ''A list of certificates issued to the User'' True)
        x509CertificatesSubAttributes,
     withSubAttributes (attr ''groups'' ''complex'' False ''readOnly'' ''none''
           ''A list of groups to which the user belongs'' True)
        groupsSubAttributes] in
     [(''schemas'', JArr [JStr coreSchemaURN]),
      (''id'', JStr ''urn:ietf:params:scim:schemas:core:2.0:User''),
      (''name'', JStr ''User''),
      (''description'', JStr ''User Account''),
      (''attributes'', JArr (map JObj attrs)),
      (''meta'', JObj [(''resourceType'', JStr ''Schema''),
      (''location'', JStr ''/Schemas/urn:ietf:params:scim:schemas:core:2.0:User'')])])"

definition groupSchema :: "json_object" where
  "groupSchema =
     (let attrs = [withReturned (withCaseExact (attr ''id'' ''string'' True ''readOnly'' ''server''
           ''Unique identifier'' False)) ''always'',
     withCaseExact (attr ''externalId'' ''string'' False ''readWrite'' ''none'' ''External identifier'' False),
     attr ''displayName'' ''string'' True ''readWrite'' ''none'' ''A human-readable name for the Group'' False,
     withSubAttributes (attr ''members'' ''complex'' False ''readWrite'' ''none'' ''A list of members of the Group''
           True)
        membersSubAttributes] in
     [(''schemas'', JArr [JStr coreSchemaURN]),
      (''id'', JStr ''urn:ietf:params:scim:schemas:core:2.0:Group''),
      (''name'', JStr ''Group''),
      (''description'', JStr ''Group''),
      (''attributes'', JArr (map JObj attrs)),
      (''meta'', JObj [(''resourceType'', JStr ''Schema''),
      (''location'', JStr ''/Schemas/urn:ietf:params:scim:schemas:core:2.0:Group'')])])"

definition enterpriseUserSchema :: "json_object" where
  "enterpriseUserSchema =
     (let managerRef = withCaseExact (attr ''$ref'' ''reference'' True ''readWrite'' ''none'' ''Manager URI'' False);
      managerRef = jput managerRef ''referenceTypes'' (JArr [JStr ''User'']);
      attrs = [attr ''employeeNumber'' ''string'' False ''readWrite'' ''none'' ''Employee number'' False,
     attr ''costCenter'' ''string'' False ''readWrite'' ''none'' ''Cost center'' False,
     attr ''organization'' ''string'' False ''readWrite'' ''none'' ''Organization'' False,
     attr ''division'' ''string'' False ''readWrite'' ''none'' ''Division'' False,
     attr ''department'' ''string'' False ''readWrite'' ''none'' ''Department'' False,
     withSubAttributes (attr ''manager'' ''complex'' False ''readWrite'' ''none'' ''The user's manager'' False)
        [withCaseExact (attr ''value'' ''string'' True ''readWrite'' ''none'' ''Manager user id'' False),
        managerRef,
        attr ''displayName'' ''string'' False ''readOnly'' ''none'' ''Manager display name'' False]] in
     [(''schemas'', JArr [JStr coreSchemaURN]),
      (''id'', JStr ''urn:ietf:params:scim:schemas:extension:enterprise:2.0:User''),
      (''name'', JStr ''EnterpriseUser''),
      (''description'', JStr ''Enterprise User Extension''),
      (''attributes'', JArr (map JObj attrs)),
      (''meta'', JObj [(''resourceType'', JStr ''Schema''),
      (''location'', JStr ''/Schemas/urn:ietf:params:scim:schemas:extension:enterprise:2.0:User'')])])"

definition serviceProviderConfigSchema :: "json_object" where
  "serviceProviderConfigSchema =
     (let docURI = withCaseExact (attr ''documentationUri'' ''reference'' False ''readOnly'' ''none''
           ''Service provider documentation'' False);
      docURI = jput docURI ''referenceTypes'' (JArr [JStr ''external'']);
      patch = withSubAttributes (attr ''patch'' ''complex'' True ''readOnly'' ''none'' ''PATCH configuration'' False)
        [attr ''supported'' ''boolean'' True ''readOnly'' ''none'' ''Whether PATCH is supported'' False];
      bulk = withSubAttributes (attr ''bulk'' ''complex'' True ''readOnly'' ''none'' ''Bulk configuration'' False)
        [attr ''supported'' ''boolean'' True ''readOnly'' ''none'' ''Whether bulk is supported'' False,
        attr ''maxOperations'' ''integer'' True ''readOnly'' ''none'' ''Maximum operations'' False,
        attr ''maxPayloadSize'' ''integer'' True ''readOnly'' ''none'' ''Maximum payload size'' False];
      filterAttr = withSubAttributes (attr ''filter'' ''complex'' True ''readOnly'' ''none'' ''Filter configuration''
            False)
        [attr ''supported'' ''boolean'' True ''readOnly'' ''none'' ''Whether filtering is supported'' False,
        attr ''maxResults'' ''integer'' True ''readOnly'' ''none'' ''Maximum results'' False];
      paginationMode = attr ''defaultPaginationMethod'' ''string'' False ''readOnly'' ''none''
            ''Default pagination method'' False;
      paginationMode = jput paginationMode ''canonicalValues'' (JArr [JStr ''cursor'', JStr ''index'']);
      paginationMode = jdelete paginationMode ''uniqueness'';
      pagination = withSubAttributes (attr ''pagination'' ''complex'' False ''readOnly'' ''none''
            ''Pagination configuration'' False)
        [attr ''cursor'' ''boolean'' True ''readOnly'' ''none'' ''Cursor pagination supported'' False,
        attr ''index'' ''boolean'' True ''readOnly'' ''none'' ''Index pagination supported'' False,
        paginationMode,
        attr ''defaultPageSize'' ''integer'' False ''readOnly'' ''none'' ''Default page size'' False,
        attr ''maxPageSize'' ''integer'' False ''readOnly'' ''none'' ''Max page size'' False,
        attr ''cursorTimeout'' ''integer'' False ''readOnly'' ''none'' ''Cursor timeout in seconds'' False];
      changePassword = withSubAttributes (attr ''changePassword'' ''complex'' True ''readOnly'' ''none''
            ''Change password configuration'' False)
        [attr ''supported'' ''boolean'' True ''readOnly'' ''none'' ''Whether changePassword is supported'' False];
      sortAttr = withSubAttributes (attr ''sort'' ''complex'' True ''readOnly'' ''none'' ''Sort configuration'' False)
        [attr ''supported'' ''boolean'' True ''readOnly'' ''none'' ''Whether sorting is supported'' False];
      etag = withSubAttributes (attr ''etag'' ''complex'' True ''readOnly'' ''none'' ''ETag configuration'' False)
        [attr ''supported'' ''boolean'' True ''readOnly'' ''none'' ''Whether ETags are supported'' False];
      asyncRequest = attr ''asyncRequest'' ''string'' False ''readOnly'' ''none'' ''Async request mode'' False;
      asyncRequest = jput asyncRequest ''canonicalValues'' (JArr [JStr ''request'', JStr ''long'', JStr ''none'']);
      asyncRequest = jdelete asyncRequest ''uniqueness'';
      securityEvents = withSubAttributes (attr ''securityEvents'' ''complex'' False ''readOnly'' ''none''
            ''Security events configuration'' False)
        [attr ''supported'' ''boolean'' True ''readOnly'' ''none'' ''Whether security events are supported'' False,
        asyncRequest];
      schemeType = attr ''type'' ''string'' True ''readOnly'' ''none'' ''Scheme type'' False;
      schemeType = jput schemeType ''canonicalValues'' (JArr [JStr ''httpbasic'', JStr ''httpdigest'', JStr
            ''oauth'', JStr ''oauth2'', JStr ''oauthbearertoken'']);
      specURI = withCaseExact (attr ''specUri'' ''reference'' False ''readOnly'' ''none'' ''Specification URI''
            False);
      specURI = jput specURI ''referenceTypes'' (JArr [JStr ''external'']);
      authDocURI = withCaseExact (attr ''documentationUri'' ''reference'' False ''readOnly'' ''none''
            ''Documentation URI'' False);
      authDocURI = jput authDocURI ''referenceTypes'' (JArr [JStr ''external'']);
      authSchemes = withSubAttributes (attr ''authenticationSchemes'' ''complex'' True ''readOnly'' ''none''
            ''Authentication schemes'' True)
        [schemeType,
        attr ''name'' ''string'' True ''readOnly'' ''none'' ''Scheme name'' False,
        attr ''description'' ''string'' True ''readOnly'' ''none'' ''Scheme description'' False,
        specURI,
        authDocURI];
      attrs = [docURI, patch, bulk, filterAttr, pagination, changePassword, sortAttr, etag, securityEvents, authSchemes] in
     [(''schemas'', JArr [JStr coreSchemaURN]),
      (''id'', JStr ''urn:ietf:params:scim:schemas:core:2.0:ServiceProviderConfig''),
      (''name'', JStr ''ServiceProviderConfig''),
      (''description'', JStr ''Schema for representing the service provider's configuration''),
      (''attributes'', JArr (map JObj attrs)),
      (''meta'', JObj [(''resourceType'', JStr ''Schema''),
      (''location'', JStr ''/Schemas/urn:ietf:params:scim:schemas:core:2.0:ServiceProviderConfig'')])])"

definition resourceTypeSchema :: "json_object" where
  "resourceTypeSchema =
     (let endpoint = withCaseExact (attr ''endpoint'' ''reference'' True ''readOnly'' ''server''
           ''Resource type endpoint'' False);
      endpoint = jput endpoint ''referenceTypes'' (JArr [JStr ''uri'']);
      schemaRef = withCaseExact (attr ''schema'' ''reference'' True ''readOnly'' ''none'' ''Resource schema URI''
            False);
      schemaRef = jput schemaRef ''referenceTypes'' (JArr [JStr ''uri'']);
      schemaExtRef = withCaseExact (attr ''schema'' ''reference'' True ''readOnly'' ''none'' ''Extension schema URI''
            False);
      schemaExtRef = jput schemaExtRef ''referenceTypes'' (JArr [JStr ''uri'']);
      schemaExtensions = withSubAttributes (withCaseExact (attr ''schemaExtensions'' ''complex'' True ''readOnly''
            ''none'' ''Schema extensions'' True))
        [schemaExtRef,
        attr ''required'' ''boolean'' True ''readOnly'' ''none'' ''Whether extension is required'' False];
      attrs = [attr ''name'' ''string'' True ''readOnly'' ''server'' ''Resource type name'' False,
     attr ''description'' ''string'' False ''readOnly'' ''none'' ''Resource type description'' False,
     endpoint,
     schemaRef,
     schemaExtensions] in
     [(''schemas'', JArr [JStr coreSchemaURN]),
      (''id'', JStr ''urn:ietf:params:scim:schemas:core:2.0:ResourceType''),
      (''name'', JStr ''ResourceType''),
      (''description'', JStr ''Schema for representing resource types''),
      (''attributes'', JArr (map JObj attrs)),
      (''meta'', JObj [(''resourceType'', JStr ''Schema''),
      (''location'', JStr ''/Schemas/urn:ietf:params:scim:schemas:core:2.0:ResourceType'')])])"

definition schemaSchema :: "json_object" where
  "schemaSchema =
     (let innerSubAttributes = [withCaseExact (attr ''name'' ''string'' True ''readOnly'' ''none'' ''Attribute name''
           False),
     attr ''type'' ''string'' True ''readOnly'' ''none'' ''Attribute type'' False,
     attr ''multiValued'' ''boolean'' True ''readOnly'' ''none'' ''Multi-valued flag'' False,
     attr ''description'' ''string'' False ''readOnly'' ''none'' ''Attribute description'' False,
     attr ''required'' ''boolean'' False ''readOnly'' ''none'' ''Required flag'' False,
     withCaseExact (attr ''canonicalValues'' ''string'' False ''readOnly'' ''none'' ''Canonical values'' True),
     attr ''caseExact'' ''boolean'' False ''readOnly'' ''none'' ''Case exact flag'' False,
     withCaseExact (attr ''mutability'' ''string'' False ''readOnly'' ''none'' ''Mutability'' False),
     withCaseExact (attr ''returned'' ''string'' False ''readOnly'' ''none'' ''Returned behavior'' False),
     withCaseExact (attr ''uniqueness'' ''string'' False ''readOnly'' ''none'' ''Uniqueness'' False),
     withCaseExact (attr ''referenceTypes'' ''string'' False ''readOnly'' ''none'' ''Reference types'' True)];
      subAttributesAttr = attr ''subAttributes'' ''complex'' False ''readOnly'' ''none'' ''Sub-attributes'' True;
      subAttributesAttr = jput subAttributesAttr ''subAttributes'' (JArr (map JObj innerSubAttributes));
      typeAttr = attr ''type'' ''string'' True ''readOnly'' ''none'' ''Attribute type'' False;
      typeAttr = jput typeAttr ''canonicalValues'' (JArr [JStr ''string'', JStr ''boolean'', JStr ''decimal'', JStr
            ''integer'', JStr ''dateTime'', JStr ''reference'', JStr ''complex'', JStr ''binary'']);
      mutabilityAttr = withCaseExact (attr ''mutability'' ''string'' False ''readOnly'' ''none'' ''Mutability''
            False);
      mutabilityAttr = jput mutabilityAttr ''canonicalValues'' (JArr [JStr ''readOnly'', JStr ''readWrite'', JStr
            ''immutable'', JStr ''writeOnly'']);
      returnedAttr = withCaseExact (attr ''returned'' ''string'' False ''readOnly'' ''none'' ''Returned behavior''
            False);
      returnedAttr = jput returnedAttr ''canonicalValues'' (JArr [JStr ''always'', JStr ''never'', JStr ''default'',
            JStr ''request'']);
      uniquenessAttr = withCaseExact (attr ''uniqueness'' ''string'' False ''readOnly'' ''none'' ''Uniqueness''
            False);
      uniquenessAttr = jput uniquenessAttr ''canonicalValues'' (JArr [JStr ''none'', JStr ''server'', JStr
            ''global'']);
      attributeSubAttributes = [withCaseExact (attr ''name'' ''string'' True ''readOnly'' ''none'' ''Attribute name''
            False),
     typeAttr,
     attr ''multiValued'' ''boolean'' True ''readOnly'' ''none'' ''Multi-valued flag'' False,
     attr ''description'' ''string'' False ''readOnly'' ''none'' ''Attribute description'' False,
     attr ''required'' ''boolean'' False ''readOnly'' ''none'' ''Required flag'' False,
     withCaseExact (attr ''canonicalValues'' ''string'' False ''readOnly'' ''none'' ''Canonical values'' True),
     attr ''caseExact'' ''boolean'' False ''readOnly'' ''none'' ''Case exact flag'' False,
     mutabilityAttr,
     returnedAttr,
     uniquenessAttr,
     withCaseExact (attr ''referenceTypes'' ''string'' False ''readOnly'' ''none'' ''Reference types'' True),
     subAttributesAttr];
      attributes = withSubAttributes (attr ''attributes'' ''complex'' True ''readOnly'' ''none''
            ''Schema attribute definitions'' True)
        attributeSubAttributes;
      attrs = [attr ''name'' ''string'' True ''readOnly'' ''none'' ''Schema name'' False,
     attr ''description'' ''string'' False ''readOnly'' ''none'' ''Schema description'' False,
     attributes] in
     [(''schemas'', JArr [JStr coreSchemaURN]),
      (''id'', JStr coreSchemaURN),
      (''name'', JStr ''Schema''),
      (''description'', JStr ''Schema for representing schemas''),
      (''attributes'', JArr (map JObj attrs)),
      (''meta'', JObj [(''resourceType'', JStr ''Schema''),
      (''location'', JStr ''/Schemas/urn:ietf:params:scim:schemas:core:2.0:Schema'')])])"

definition AllSchemas :: "json_object list" where
  "AllSchemas = [userSchema, groupSchema, enterpriseUserSchema, serviceProviderConfigSchema, resourceTypeSchema, schemaSchema]"

definition GetSchemaByID :: "string \<Rightarrow> json_object option" where
  "GetSchemaByID sid = find (\<lambda>s. jget s ''id'' = JStr sid) AllSchemas"

section \<open>Configuration and resource types\<close>

definition ServiceProviderConfig :: "json_object" where
  "ServiceProviderConfig =
     [(''schemas'', JArr [JStr ''urn:ietf:params:scim:schemas:core:2.0:ServiceProviderConfig'']),
      (''documentationUri'', JStr ''https://datatracker.ietf.org/doc/html/rfc7644''),
      (''patch'', JObj [(''supported'', JBool True)]),
      (''bulk'', JObj [(''supported'', JBool True),
      (''maxOperations'', JNum ''1000''),
      (''maxPayloadSize'', JNum ''1048576'')]),
      (''filter'', JObj [(''supported'', JBool True),
      (''maxResults'', JNum ''200'')]),
      (''pagination'', JObj [(''cursor'', JBool True),
      (''index'', JBool True),
      (''defaultPaginationMethod'', JStr ''index''),
      (''defaultPageSize'', JNum ''10''),
      (''maxPageSize'', JNum ''200''),
      (''cursorTimeout'', JNum ''3600'')]),
      (''changePassword'', JObj [(''supported'', JBool True)]),
      (''sort'', JObj [(''supported'', JBool True)]),
      (''etag'', JObj [(''supported'', JBool True)]),
      (''securityEvents'', JObj [(''supported'', JBool True),
      (''asyncRequest'', JStr ''request'')]),
      (''authenticationSchemes'', JArr [JObj [(''type'', JStr ''oauthbearertoken''),
      (''name'', JStr ''OAuth Bearer Token''),
      (''description'', JStr ''Authentication scheme using the OAuth Bearer Token Standard''),
      (''specUri'', JStr ''https://www.rfc-editor.org/info/rfc6750''),
      (''documentationUri'', JStr ''https://datatracker.ietf.org/doc/html/rfc6750'')]])]"

definition ResourceTypes :: "string \<Rightarrow> json_object list" where
  "ResourceTypes baseURL =
     [[(''schemas'', JArr [JStr ''urn:ietf:params:scim:schemas:core:2.0:ResourceType'']),
      (''id'', JStr ''User''),
      (''name'', JStr ''User''),
      (''description'', JStr ''User Account''),
      (''endpoint'', JStr ''/Users''),
      (''schema'', JStr ''urn:ietf:params:scim:schemas:core:2.0:User''),
      (''schemaExtensions'', JArr [JObj [(''schema'', JStr
            ''urn:ietf:params:scim:schemas:extension:enterprise:2.0:User''),
      (''required'', JBool False)]]),
      (''meta'', JObj [(''resourceType'', JStr ''ResourceType''),
      (''location'', JStr (baseURL @ ''/ResourceTypes/User''))])],
     [(''schemas'', JArr [JStr ''urn:ietf:params:scim:schemas:core:2.0:ResourceType'']),
      (''id'', JStr ''Group''),
      (''name'', JStr ''Group''),
      (''description'', JStr ''Group''),
      (''endpoint'', JStr ''/Groups''),
      (''schema'', JStr ''urn:ietf:params:scim:schemas:core:2.0:Group''),
      (''schemaExtensions'', JArr []),
      (''meta'', JObj [(''resourceType'', JStr ''ResourceType''),
      (''location'', JStr (baseURL @ ''/ResourceTypes/Group''))])]]"

definition GetResourceTypeByID :: "string \<Rightarrow> string \<Rightarrow> json_object option" where
  "GetResourceTypeByID rid baseURL =
     find (\<lambda>rt. jget rt ''id'' = JStr rid \<or> jget rt ''name'' = JStr rid) (ResourceTypes baseURL)"

end
