(* ===== verification/SchemaProps.thy ===== *)
theory SchemaProps
  imports Schema UserHandler
begin

text \<open>
  What the server answers has the types its schemas announce.
\<close>

section \<open>Attribute definitions\<close>

text \<open>An attribute definition of a schema: its name, type, whether it has many values, whether it is never returned,
  whether it is required, its canonical values and its sub-attributes, down to a depth.\<close>

datatype attribute =
  Attribute (nameOf: string) (kindOf: string) (multi: bool) (hidden: bool) (needed: bool) (canonical: "json list")
    (subsOf: "attribute list")

primrec readAttribute :: "nat \<Rightarrow> json_object \<Rightarrow> attribute" where
  "readAttribute 0 a = Attribute (textMember a ''name'') (textMember a ''type'') False True False [] []"
| "readAttribute (Suc depth) a =
     Attribute (textMember a ''name'') (textMember a ''type'') (jget a ''multiValued'' = JBool True)
       (jget a ''returned'' = JStr ''never'') (jget a ''required'' = JBool True) (arrayMember a ''canonicalValues'')
       (map (readAttribute depth) (objects (arrayMember a ''subAttributes'')))"

definition attributesOf :: "json_object \<Rightarrow> attribute list" where
  "attributesOf schema = map (readAttribute 4) (objects (arrayMember schema ''attributes''))"

section \<open>Conformance\<close>

text \<open>A single value of an attribute; \<open>sub\<close> says what an object with the sub-attributes has to be. A strict reading
  takes only the canonical values of an attribute that lists some.\<close>

definition singleTyped :: "bool \<Rightarrow> (attribute list \<Rightarrow> json_object \<Rightarrow> bool) \<Rightarrow> attribute \<Rightarrow> json \<Rightarrow> bool" where
  "singleTyped strict sub a v =
     (case v of
        JNull \<Rightarrow> False
      | JBool b \<Rightarrow> kindOf a = ''boolean''
      | JNum n \<Rightarrow> kindOf a = ''integer''
      | JStr s \<Rightarrow> kindOf a \<in> set [''string'', ''reference'', ''binary'', ''dateTime'']
          \<and> (strict \<longrightarrow> canonical a = [] \<or> v \<in> set (canonical a))
      | JArr vs \<Rightarrow> False
      | JObj m \<Rightarrow> kindOf a = ''complex'' \<and> sub (subsOf a) m)"

definition valueTyped :: "bool \<Rightarrow> (attribute list \<Rightarrow> json_object \<Rightarrow> bool) \<Rightarrow> attribute \<Rightarrow> json \<Rightarrow> bool" where
  "valueTyped strict sub a v =
     (if multi a then (case v of JArr vs \<Rightarrow> list_all (singleTyped strict sub a) vs | _ \<Rightarrow> False)
      else singleTyped strict sub a v)"

text \<open>Every member of an object is a defined attribute that may be returned and has a value of its type; a strict
  reading also asks for the required ones.\<close>

definition memberTyped :: "bool \<Rightarrow> (attribute list \<Rightarrow> json_object \<Rightarrow> bool) \<Rightarrow> attribute list \<Rightarrow> string \<times> json \<Rightarrow> bool" where
  "memberTyped strict sub defs e =
     (case find (\<lambda>a. nameOf a = fst e) defs of
        None \<Rightarrow> False | Some a \<Rightarrow> \<not> hidden a \<and> valueTyped strict sub a (snd e))"

primrec conforms :: "bool \<Rightarrow> nat \<Rightarrow> attribute list \<Rightarrow> json_object \<Rightarrow> bool" where
  "conforms strict 0 defs m = False"
| "conforms strict (Suc depth) defs m \<longleftrightarrow>
     list_all (memberTyped strict (conforms strict depth) defs) m
     \<and> (strict \<longrightarrow> list_all (\<lambda>a. needed a \<longrightarrow> list_ex (\<lambda>e. fst e = nameOf a) m) defs)"

text \<open>The attributes every resource has (RFC 7643, section 3) and the extension of a user.\<close>

definition simple :: "string \<Rightarrow> string \<Rightarrow> attribute" where
  "simple name kind = Attribute name kind False False False [] []"

definition commonAttributes :: "attribute list" where
  "commonAttributes =
    [Attribute ''schemas'' ''reference'' True False True [] [], simple ''id'' ''string'',
     Attribute ''meta'' ''complex'' False False False []
       [simple ''resourceType'' ''string'', simple ''created'' ''dateTime'', simple ''lastModified'' ''dateTime'',
        simple ''location'' ''reference'', simple ''version'' ''string'']]"

definition userAttributes :: "attribute list" where
  "userAttributes = commonAttributes @ attributesOf userSchema
     @ [Attribute EnterpriseSchemaURN ''complex'' False False False [] (attributesOf enterpriseUserSchema)]"

definition groupAttributes :: "attribute list" where
  "groupAttributes = commonAttributes @ attributesOf groupSchema"

definition schemaAttributes :: "attribute list" where
  "schemaAttributes = commonAttributes @ attributesOf schemaSchema"

section \<open>The documents of the server\<close>

lemma config_conforms: "conforms True 4 (commonAttributes @ attributesOf serviceProviderConfigSchema) ServiceProviderConfig"
  by code_simp

lemma user_schema_conforms: "conforms True 4 schemaAttributes userSchema"
  by code_simp

lemma other_schemas_conform:
  "list_all (conforms True 4 schemaAttributes)
     [groupSchema, enterpriseUserSchema, serviceProviderConfigSchema, resourceTypeSchema]"
  by code_simp

section \<open>Objects built member by member\<close>

text \<open>\<open>takes defs k kind many\<close>: there is an attribute \<open>k\<close> of this kind that may be returned.\<close>

definition takes :: "attribute list \<Rightarrow> string \<Rightarrow> string list \<Rightarrow> bool \<Rightarrow> bool" where
  "takes defs k kinds many =
     (case find (\<lambda>a. nameOf a = k) defs of None \<Rightarrow> False | Some a \<Rightarrow> \<not> hidden a \<and> multi a = many \<and> kindOf a \<in> set kinds)"

abbreviation "text_kinds \<equiv> [''string'', ''reference'', ''binary'', ''dateTime'']"

definition subsAt :: "attribute list \<Rightarrow> string \<Rightarrow> attribute list" where
  "subsAt defs k = (case find (\<lambda>a. nameOf a = k) defs of None \<Rightarrow> [] | Some a \<Rightarrow> subsOf a)"

lemma typed_text: "takes defs k text_kinds False \<Longrightarrow> memberTyped False sub defs (k, JStr s)"
  by (auto simp: takes_def memberTyped_def valueTyped_def singleTyped_def split: option.splits)

lemma typed_flag: "takes defs k [''boolean''] False \<Longrightarrow> memberTyped False sub defs (k, JBool b)"
  by (auto simp: takes_def memberTyped_def valueTyped_def singleTyped_def split: option.splits)

lemma typed_object: "takes defs k [''complex''] False \<Longrightarrow> sub (subsAt defs k) m \<Longrightarrow> memberTyped False sub defs (k, JObj m)"
  by (auto simp: takes_def memberTyped_def valueTyped_def singleTyped_def subsAt_def split: option.splits)

lemma typed_objects:
  "takes defs k [''complex''] True \<Longrightarrow> list_all (sub (subsAt defs k)) ms \<Longrightarrow> memberTyped False sub defs (k, JArr (map JObj ms))"
  by (auto simp: takes_def memberTyped_def valueTyped_def singleTyped_def subsAt_def list_all_iff split: option.splits)

lemma typed_texts:
  "takes defs k text_kinds True \<Longrightarrow> list_all (\<lambda>v. case v of JStr s \<Rightarrow> True | _ \<Rightarrow> False) vs \<Longrightarrow> memberTyped False sub defs (k, JArr vs)"
  by (auto simp: takes_def memberTyped_def valueTyped_def singleTyped_def list_all_iff split: option.splits json.splits)

lemmas typed_member = typed_text typed_flag typed_object typed_objects typed_texts

lemma conforms_Nil: "conforms False (Suc depth) defs []"
  by simp

lemma conforms_Cons:
  "memberTyped False (conforms False depth) defs e \<Longrightarrow> conforms False (Suc depth) defs m \<Longrightarrow> conforms False (Suc depth) defs (e # m)"
  by simp

lemma conforms_put:
  assumes "conforms False (Suc depth) defs m" "memberTyped False (conforms False depth) defs (k, v)"
  shows "conforms False (Suc depth) defs (jput m k v)"
  using assms by (auto simp: list_all_iff jput_def)

lemma conforms_putIfNotNull:
  assumes "conforms False (Suc depth) defs m" "takes defs k text_kinds False"
  shows "conforms False (Suc depth) defs (putIfNotNull m k v)"
  using assms conforms_put typed_text by (auto simp: putIfNotNull_def split: option.split)

lemma conforms_putCollection:
  assumes "conforms False (Suc depth) defs m" "takes defs k [''complex''] True" "list_all (conforms False depth (subsAt defs k)) items"
  shows "conforms False (Suc depth) defs (putCollection m k items)"
  using assms conforms_put typed_objects by (auto simp: putCollection_def)

lemma conforms_append:
  "conforms False (Suc depth) defs xs \<Longrightarrow> conforms False (Suc depth) defs ys \<Longrightarrow> conforms False (Suc depth) defs (xs @ ys)"
  by simp

lemma conforms_textField: "takes defs k text_kinds False \<Longrightarrow> conforms False (Suc depth) defs (textField k s)"
  by (simp add: textField_def typed_text)

lemma conforms_If:
  "conforms False depth defs m \<Longrightarrow> conforms False depth defs m' \<Longrightarrow> conforms False depth defs (if P then m else m')"
  by simp

lemmas conforms_intros = conforms_If conforms_Nil conforms_Cons conforms_put conforms_putIfNotNull conforms_putCollection conforms_append conforms_textField
  typed_member

section \<open>Users and groups\<close>

definition entryAttribute :: "attribute list \<Rightarrow> bool" where
  "entryAttribute defs \<longleftrightarrow> list_all (\<lambda>k. takes defs k text_kinds False) [''value'', ''type'', ''display''] \<and> takes defs ''primary'' [''boolean''] False"

lemma entry_conforms: "entryAttribute defs \<Longrightarrow> conforms False (Suc depth) defs (entryToMap e)"
  unfolding entryToMap_def entryAttribute_def by (intro conforms_intros) simp_all

lemma address_conforms:
  assumes "list_all (\<lambda>k. takes defs k text_kinds False)
      [''formatted'', ''streetAddress'', ''locality'', ''region'', ''postalCode'', ''country'', ''type'']"
    and "takes defs ''primary'' [''boolean''] False"
  shows "conforms False (Suc depth) defs (addressToMap a)"
  unfolding addressToMap_def using assms by (intro conforms_intros) simp_all

text \<open>What the definitions of a user offer, the sub-attributes of its complex attributes included.\<close>

definition offersUser :: "attribute list \<Rightarrow> bool" where
  "offersUser defs \<longleftrightarrow>
     list_all (\<lambda>k. takes defs k text_kinds False)
       [''id'', ''externalId'', ''userName'', ''displayName'', ''nickName'', ''profileUrl'', ''title'', ''userType'',
        ''preferredLanguage'', ''locale'', ''timezone'']
     \<and> takes defs ''active'' [''boolean''] False \<and> takes defs ''schemas'' text_kinds True
     \<and> list_all (\<lambda>k. takes defs k [''complex''] False) [''name'', ''meta'', EnterpriseSchemaURN]
     \<and> list_all (\<lambda>k. takes defs k [''complex''] True)
       [''emails'', ''phoneNumbers'', ''ims'', ''photos'', ''addresses'', ''entitlements'', ''roles'', ''x509Certificates'', ''groups'']
     \<and> list_all (\<lambda>k. entryAttribute (subsAt defs k))
       [''emails'', ''phoneNumbers'', ''ims'', ''photos'', ''entitlements'', ''roles'', ''x509Certificates'']
     \<and> list_all (\<lambda>k. takes (subsAt defs ''addresses'') k text_kinds False)
       [''formatted'', ''streetAddress'', ''locality'', ''region'', ''postalCode'', ''country'', ''type'']
     \<and> takes (subsAt defs ''addresses'') ''primary'' [''boolean''] False
     \<and> list_all (\<lambda>k. takes (subsAt defs ''name'') k text_kinds False)
       [''formatted'', ''familyName'', ''givenName'', ''middleName'', ''honorificPrefix'', ''honorificSuffix'']
     \<and> list_all (\<lambda>k. takes (subsAt defs ''groups'') k text_kinds False) [''value'', ''$ref'', ''display'', ''type'']
     \<and> list_all (\<lambda>k. takes (subsAt defs ''meta'') k text_kinds False)
       [''resourceType'', ''created'', ''lastModified'', ''location'', ''version'']
     \<and> list_all (\<lambda>k. takes (subsAt defs EnterpriseSchemaURN) k text_kinds False)
       [''employeeNumber'', ''costCenter'', ''organization'', ''division'', ''department'']
     \<and> takes (subsAt defs EnterpriseSchemaURN) ''manager'' [''complex''] False
     \<and> list_all (\<lambda>k. takes (subsAt (subsAt defs EnterpriseSchemaURN) ''manager'') k text_kinds False) [''value'', ''$ref'', ''displayName'']"

lemma user_offers: "offersUser userAttributes"
  by code_simp

lemma parts_conform:
  assumes "offersUser defs"
  shows "conforms False (Suc d) (subsAt defs ''name'') (buildNameMap user)"
    "conforms False (Suc d) (subsAt defs ''meta'') (buildUserMeta L user baseURL)"
    "conforms False (Suc (Suc d)) (subsAt defs EnterpriseSchemaURN) (enterpriseMap user)"
    "conforms False (Suc d) (subsAt defs ''groups'') (BuildUserGroupRef gid gname baseURL)"
    "conforms False (Suc d) (subsAt defs ''addresses'') (addressToMap a)"
proof -
  note offers = assms [unfolded offersUser_def]
  show "conforms False (Suc d) (subsAt defs ''name'') (buildNameMap user)"
    unfolding buildNameMap_def Let_def using offers by (intro conforms_intros) simp_all
  show "conforms False (Suc d) (subsAt defs ''meta'') (buildUserMeta L user baseURL)"
    unfolding buildUserMeta_def using offers by (intro conforms_intros) simp_all
  show "conforms False (Suc d) (subsAt defs ''groups'') (BuildUserGroupRef gid gname baseURL)"
    unfolding BuildUserGroupRef_def using offers by (intro conforms_intros) simp_all
  show "conforms False (Suc d) (subsAt defs ''addresses'') (addressToMap a)"
    using offers by (intro address_conforms) simp_all
  have "conforms False (Suc d) (subsAt (subsAt defs EnterpriseSchemaURN) ''manager'') (buildManagerMap user)"
    unfolding buildManagerMap_def Let_def using offers by (intro conforms_intros) simp_all
  then show "conforms False (Suc (Suc d)) (subsAt defs EnterpriseSchemaURN) (enterpriseMap user)"
    unfolding enterpriseMap_def Let_def using offers by (intro conforms_intros) simp_all
qed

abbreviation groupRefs :: "string \<Rightarrow> (string \<times> string) list \<Rightarrow> json_object list" where
  "groupRefs baseURL refs \<equiv> map (\<lambda>(gid, gname). BuildUserGroupRef gid gname baseURL) refs"

lemma user_conforms:
  assumes "offersUser defs"
  shows "conforms False (Suc (Suc (Suc d))) defs (UserToScimResponse L user baseURL (groupRefs baseURL refs))"
proof -
  note offers = assms [unfolded offersUser_def]
  have entries: "list_all (conforms False (Suc (Suc d)) (subsAt defs k)) (map entryToMap es)"
    if "entryAttribute (subsAt defs k)" for k es
    using that entry_conforms by (simp add: list_all_iff)
  have "list_all (conforms False (Suc (Suc d)) (subsAt defs ''addresses'')) (map addressToMap as)"
    "list_all (conforms False (Suc (Suc d)) (subsAt defs ''groups'')) (groupRefs baseURL refs)"
    for as using parts_conform(4,5) [OF assms] by (auto simp: list_all_iff)
  then show ?thesis
    unfolding UserToScimResponse_def Let_def toMaps_defs
    using offers parts_conform(1-3) [OF assms] by (intro conforms_intros entries) simp_all
qed

definition offersGroup :: "attribute list \<Rightarrow> bool" where
  "offersGroup defs \<longleftrightarrow>
     list_all (\<lambda>k. takes defs k text_kinds False) [''id'', ''externalId'', ''displayName'']
     \<and> takes defs ''schemas'' text_kinds True \<and> takes defs ''meta'' [''complex''] False
     \<and> takes defs ''members'' [''complex''] True
     \<and> list_all (\<lambda>k. takes (subsAt defs ''members'') k text_kinds False) [''value'', ''$ref'', ''display'', ''type'']
     \<and> list_all (\<lambda>k. takes (subsAt defs ''meta'') k text_kinds False)
       [''resourceType'', ''created'', ''lastModified'', ''location'', ''version'']"

lemma group_offers: "offersGroup groupAttributes"
  by code_simp

lemma group_conforms:
  assumes "offersGroup defs"
  shows "conforms False (Suc (Suc d)) defs (GroupToScimResponse L grp baseURL)"
proof -
  note offers = assms [unfolded offersGroup_def]
  have "conforms False (Suc d) (subsAt defs ''members'') (memberToMap m baseURL)" for m
    unfolding memberToMap_def Let_def using offers by (intro conforms_intros) simp_all
  then have "list_all (conforms False (Suc d) (subsAt defs ''members'')) (map (\<lambda>m. memberToMap m baseURL) ms)" for ms
    by (simp add: list_all_iff)
  then show ?thesis
    unfolding GroupToScimResponse_def Let_def using offers by (intro conforms_intros) simp_all
qed

text \<open>C39. The resources and documents of the server have the types its schemas announce: every member of a user or group
  as the mapper answers it, in the extension and inside complex values as well, is an attribute that the served schema
  defines and does not hide, with a value of its type, a list where it is multi-valued. The configuration, the resource
  types and the schemas of users, groups, the extension, the configuration and the resource types moreover have all required
  attributes and only canonical values. The schema of schemas defines attributes down to the sub-attributes and is not
  measured by itself, and a user rewritten for the Microsoft compatibility mode is no longer one of these responses.\<close>

theorem responses_typed:
  "conforms False 4 userAttributes (UserToScimResponse L user baseURL (groupRefs baseURL refs))
   \<and> conforms False 4 groupAttributes (GroupToScimResponse L grp baseURL)
   \<and> conforms True 4 (commonAttributes @ attributesOf serviceProviderConfigSchema) ServiceProviderConfig
   \<and> list_all (conforms True 4 (commonAttributes @ attributesOf resourceTypeSchema)) (ResourceTypes baseURL)
   \<and> list_all (conforms True 4 (commonAttributes @ attributesOf schemaSchema)) (butlast AllSchemas)"
proof -
  have "list_all (conforms True 4 (commonAttributes @ attributesOf resourceTypeSchema)) (ResourceTypes baseURL)"
    by code_simp
  moreover have "conforms False 4 userAttributes (UserToScimResponse L user baseURL (groupRefs baseURL refs))"
    "conforms False 4 groupAttributes (GroupToScimResponse L grp baseURL)"
    using user_conforms [OF user_offers, of "Suc 0"] group_conforms [OF group_offers, of "Suc (Suc 0)"]
    by (simp_all add: eval_nat_numeral del: conforms.simps)
  ultimately show ?thesis
    using config_conforms user_schema_conforms other_schemas_conform by (simp add: AllSchemas_def schemaAttributes_def del: conforms.simps)
qed

end
