(* ===== verification/Discovery.thy ===== *)
theory Discovery
  imports Schema GroupHttp "HOL-Library.List_Lexorder" "HOL-Library.Char_ord"
begin

text \<open>
  \<^verbatim>\<open>internal/handler/discovery.go\<close>: the discovery endpoints, the answer to a method a path does not have, and the
  search over users and groups together.
\<close>

section \<open>Schemas, resource types and configuration\<close>

definition rejectDiscoveryFilter :: "http_request \<Rightarrow> http_response \<Rightarrow> http_response" where
  "rejectDiscoveryFilter r response =
     (if TrimSpace (Get (Query r) ''filter'') \<noteq> [] then
        errorResponse (NewScimError 403 ''invalidFilter'' ''Filtering is not supported on discovery endpoints'')
      else response)"

definition GetServiceProviderConfig :: "http_request \<Rightarrow> http_response" where
  "GetServiceProviderConfig r = rejectDiscoveryFilter r (jsonResponse 200 [] ServiceProviderConfig)"

definition allOf :: "json_object list \<Rightarrow> json_object" where
  "allOf resources =
     [(''schemas'', JArr [JStr listSchema]), (''totalResults'', JNum (itoa (length resources))), (''startIndex'', JNum ''1''),
      (''itemsPerPage'', JNum (itoa (length resources))), (''Resources'', JArr (map JObj resources))]"

definition GetSchemas :: "http_request \<Rightarrow> http_response" where
  "GetSchemas r = rejectDiscoveryFilter r (jsonResponse 200 [] (allOf AllSchemas))"

text \<open>\<^verbatim>\<open>url.PathUnescape\<close>: a percent sign has to come before two hexadecimal digits.\<close>

definition hexDigit :: "char \<Rightarrow> nat option" where
  "hexDigit c =
     (let n = of_char c :: nat in
      if 48 \<le> n \<and> n \<le> 57 then Some (n - 48)
      else if 65 \<le> n \<and> n \<le> 70 then Some (n - 55)
      else if 97 \<le> n \<and> n \<le> 102 then Some (n - 87) else None)"

fun PathUnescape :: "string \<Rightarrow> string option" where
  "PathUnescape (CHR ''%'' # a # b # s) =
     (case (hexDigit a, hexDigit b) of
        (Some x, Some y) \<Rightarrow> map_option ((#) (char_of (16 * x + y))) (PathUnescape s)
      | _ \<Rightarrow> None)"
| "PathUnescape [] = Some []"
| "PathUnescape (c # s) = (if c = CHR ''%'' then None else map_option ((#) c) (PathUnescape s))"

definition discoveryID :: "http_request \<Rightarrow> string" where
  "discoveryID r = (case PathUnescape (PathID r) of Some decoded \<Rightarrow> decoded | None \<Rightarrow> PathID r)"

definition GetSchemaByIDHandler :: "http_request \<Rightarrow> http_response" where
  "GetSchemaByIDHandler r =
     rejectDiscoveryFilter r (case GetSchemaByID (discoveryID r) of
         None \<Rightarrow> errorResponse (NewScimError 404 [] (''Schema not found: '' @ discoveryID r))
       | Some schema \<Rightarrow> jsonResponse 200 [] schema)"

definition GetResourceTypes :: "http_request \<Rightarrow> http_response" where
  "GetResourceTypes r = rejectDiscoveryFilter r (jsonResponse 200 [] (allOf (ResourceTypes (baseOf r))))"

definition GetResourceTypeByIDHandler :: "http_request \<Rightarrow> http_response" where
  "GetResourceTypeByIDHandler r =
     rejectDiscoveryFilter r (case GetResourceTypeByID (discoveryID r) (baseOf r) of
         None \<Rightarrow> errorResponse (NewScimError 404 [] (''ResourceType not found: '' @ discoveryID r))
       | Some rt \<Rightarrow> jsonResponse 200 [] rt)"

definition GlobalSearchNotImplemented :: http_response where
  "GlobalSearchNotImplemented = errorResponse (NewScimError 501 [] ''Global cross-resource search is not implemented'')"

section \<open>Methods a path does not have\<close>

text \<open>\<open>matches\<close> is the router's \<^verbatim>\<open>Match\<close> at the path of the request.\<close>

definition MethodNotAllowedWithAllow :: "string \<Rightarrow> http_response" where
  "MethodNotAllowedWithAllow allow =
     (case WriteScimError (NewScimError 405 [] ''Method not allowed'') of
        (status, body) \<Rightarrow> jsonResponse status [(''Allow'', allow)] body)"

definition candidateMethods :: "string list" where
  "candidateMethods = [''GET'', ''POST'', ''PUT'', ''PATCH'', ''DELETE'']"

definition MethodNotAllowed :: "(string \<Rightarrow> bool) \<Rightarrow> string \<Rightarrow> http_response" where
  "MethodNotAllowed matches method =
     (let allowed = filter matches candidateMethods in
      MethodNotAllowedWithAllow (if matches method \<or> allowed = [] then ''GET'' else Join allowed '', ''))"

section \<open>Order of resources of both kinds\<close>

text \<open>An attribute path may begin with the schema of the attribute.\<close>

definition withoutPrefix :: "string \<Rightarrow> string \<Rightarrow> string option" where
  "withoutPrefix p s = (if HasPrefix s p then Some (drop (length p) s) else None)"

definition schemaPrefix :: "ext \<Rightarrow> string \<Rightarrow> string" where
  "schemaPrefix L urn = ToLower L urn @ '':''"

definition isCaseExactSortAttr :: "ext \<Rightarrow> string \<Rightarrow> bool" where
  "isCaseExactSortAttr L sortBy =
     (let lower = ToLower L (TrimSpace sortBy);
          stripped = (\<lambda>urn. withoutPrefix (schemaPrefix L urn) lower);
          lower = (case stripped EnterpriseSchemaURN of Some s \<Rightarrow> s
            | None \<Rightarrow> (case stripped UserSchemaURN of Some s \<Rightarrow> s
              | None \<Rightarrow> (case stripped GroupSchemaURN of Some s \<Rightarrow> s | None \<Rightarrow> lower)))
      in lower \<in> set [''id'', ''externalid'', ''profileurl'', ''meta.version'', ''meta.location'', ''manager.value'', ''manager.$ref''])"

text \<open>\<^verbatim>\<open>%v\<close> of a value of a response: a map is printed in the order of its keys.\<close>

fun goPrint :: "json \<Rightarrow> string" where
  "goPrint JNull = ''<nil>''"
| "goPrint (JBool b) = (if b then ''true'' else ''false'')"
| "goPrint (JNum n) = n"
| "goPrint (JStr s) = s"
| "goPrint (JArr xs) = ''['' @ Join (map goPrint xs) '' '' @ '']''"
| "goPrint (JObj kvs) =
     ''map['' @ Join (map (\<lambda>(k, s). k @ '':'' @ s) (sort_key fst (map (\<lambda>(k, v). (k, goPrint v)) kvs))) '' '' @ '']''"

definition lookupFold :: "ext \<Rightarrow> json_object \<Rightarrow> string \<Rightarrow> json" where
  "lookupFold L m name = (case find (\<lambda>(k, _). EqualFold L k name) m of Some (_, v) \<Rightarrow> v | None \<Rightarrow> JNull)"

primrec followParts :: "ext \<Rightarrow> string list \<Rightarrow> json \<Rightarrow> json" where
  "followParts L [] current = current"
| "followParts L (part # parts) current =
     (case current of JObj m \<Rightarrow> followParts L parts (lookupFold L m part) | _ \<Rightarrow> JNull)"

text \<open>The resource and the path in it that \<^verbatim>\<open>sortBy\<close> names.\<close>

definition sortPath :: "ext \<Rightarrow> json_object \<Rightarrow> string \<Rightarrow> json \<times> string" where
  "sortPath L res sortBy =
     (let path = TrimSpace sortBy;
          lower = ToLower L path;
          rest = (\<lambda>urn. drop (length (schemaPrefix L urn)) path) in
      if HasPrefix lower (schemaPrefix L EnterpriseSchemaURN) then
        (lookupFold L res EnterpriseSchemaURN, rest EnterpriseSchemaURN)
      else if HasPrefix lower (schemaPrefix L UserSchemaURN) then (JObj res, rest UserSchemaURN)
      else if HasPrefix lower (schemaPrefix L GroupSchemaURN) then (JObj res, rest GroupSchemaURN)
      else (JObj res, path))"

definition extractSortAttr :: "ext \<Rightarrow> json_object \<Rightarrow> string \<Rightarrow> string option" where
  "extractSortAttr L res sortBy =
     (case sortPath L res sortBy of (start, path) \<Rightarrow>
        (case followParts L (SplitByte path CHR ''.'') start of JNull \<Rightarrow> None | v \<Rightarrow> Some (goPrint v)))"

definition sortLess :: "ext \<Rightarrow> string \<Rightarrow> string \<Rightarrow> json_object \<Rightarrow> json_object \<Rightarrow> bool" where
  "sortLess L sortBy sortOrder a b =
     (let isDesc = EqualFold L sortOrder ''descending'' in
      case (extractSortAttr L a sortBy, extractSortAttr L b sortBy) of
        (None, None) \<Rightarrow> False
      | (None, Some _) \<Rightarrow> isDesc
      | (Some _, None) \<Rightarrow> \<not> isDesc
      | (Some v, Some w) \<Rightarrow>
          (let (v, w) = (if isDesc then (w, v) else (v, w)) in
           if isCaseExactSortAttr L sortBy then v < w
           else if ToLower L v \<noteq> ToLower L w then ToLower L v < ToLower L w else v < w))"

text \<open>\<^verbatim>\<open>sort.SliceStable\<close>.\<close>

fun insertBy :: "('a \<Rightarrow> 'a \<Rightarrow> bool) \<Rightarrow> 'a \<Rightarrow> 'a list \<Rightarrow> 'a list" where
  "insertBy lt x [] = [x]"
| "insertBy lt x (y # ys) = (if lt y x then y # insertBy lt x ys else x # y # ys)"

definition stableSort :: "('a \<Rightarrow> 'a \<Rightarrow> bool) \<Rightarrow> 'a list \<Rightarrow> 'a list" where
  "stableSort lt xs = foldr (insertBy lt) xs []"

definition sortResources :: "ext \<Rightarrow> json_object list \<Rightarrow> string \<Rightarrow> string \<Rightarrow> json_object list" where
  "sortResources L items sortBy sortOrder =
     (if length items \<le> 1 \<or> sortBy = [] then items else stableSort (sortLess L sortBy sortOrder) items)"

section \<open>Search over users and groups\<close>

text \<open>The handlers of users and of groups may be missing.\<close>

record discovery =
  hasUser :: bool
  hasGroup :: bool

text \<open>What a search asks for: the members of a POST body come before the parameters of the query.\<close>

record rootQuery =
  FilterStr :: string
  SortBy :: string
  SortOrder :: string
  Attrs :: string
  ExcludedAttrs :: string

definition bodyText :: "json_object \<Rightarrow> string \<Rightarrow> string \<Rightarrow> string" where
  "bodyText body k q = (case jget body k of JStr s \<Rightarrow> s | _ \<Rightarrow> q)"

definition bodyNames :: "json_object \<Rightarrow> string \<Rightarrow> string \<Rightarrow> string" where
  "bodyNames body k q =
     (case jget body k of
        JArr a \<Rightarrow> Join (List.map_filter (\<lambda>v. case v of JStr s \<Rightarrow> Some s | _ \<Rightarrow> None) a) '',''
      | _ \<Rightarrow> q)"

definition searchOf :: "url_values \<Rightarrow> json_object \<Rightarrow> rootQuery" where
  "searchOf q body =
     \<lparr>FilterStr = bodyText body ''filter'' (Get q ''filter''), SortBy = bodyText body ''sortBy'' (Get q ''sortBy''),
      SortOrder = bodyText body ''sortOrder'' (Get q ''sortOrder''), Attrs = bodyNames body ''attributes'' (Get q ''attributes''),
      ExcludedAttrs = bodyNames body ''excludedAttributes'' (Get q ''excludedAttributes'')\<rparr>"

type_synonym condition = "string \<times> sql_arg list"

definition conditionOf :: "FilterResult option \<Rightarrow> condition" where
  "conditionOf fr = (case fr of None \<Rightarrow> ([], []) | Some fr \<Rightarrow> (SQL fr, Args fr))"

definition rootFilters :: "ext \<Rightarrow> string \<Rightarrow> (condition \<times> condition) res" where
  "rootFilters L filterStr =
     (if filterStr = [] then Inr (([], []), ([], []))
      else (case ParseUserFilterForRoot L filterStr 2 of
          Inl e \<Rightarrow> Inl (NewScimError 400 ''invalidFilter'' (perr_text e))
        | Inr uf \<Rightarrow> (case ParseGroupFilterForRoot L filterStr 2 of
              Inl e \<Rightarrow> Inl (NewScimError 400 ''invalidFilter'' (perr_text e))
            | Inr gf \<Rightarrow> Inr (conditionOf uf, conditionOf gf))))"

text \<open>A query answers the number of all matches and the resources of one page.\<close>

type_synonym found = "(db_error + nat \<times> json_object list) prog"

definition userResource :: "ext \<Rightarrow> http_request \<Rightarrow> rootQuery \<Rightarrow> json_object list \<Rightarrow> ScimUser \<Rightarrow> json_object" where
  "userResource L r q groups user =
     compatible L r (applyAttributeProjection L (UserToScimResponse L user (baseOf r) groups) (Attrs q) (ExcludedAttrs q))"

definition groupResource :: "ext \<Rightarrow> http_request \<Rightarrow> rootQuery \<Rightarrow> ScimGroup \<Rightarrow> json_object" where
  "groupResource L r q g =
     applyAttributeProjection L (GroupToScimResponse L g (baseOf r)) (Attrs q) (ExcludedAttrs q)"

definition rootUserSort :: "ext \<Rightarrow> string \<Rightarrow> string" where
  "rootUserSort L sortBy = (if sortBy = [] then [] else ResolveUserSortAttribute L sortBy)"

definition rootGroupSort :: "ext \<Rightarrow> string \<Rightarrow> string" where
  "rootGroupSort L sortBy =
     (let col = ResolveGroupSortAttribute L sortBy in if sortBy = [] \<or> col = [] then ''display_name'' else col)"

definition queryUsers :: "ext \<Rightarrow> discovery \<Rightarrow> http_request \<Rightarrow> string \<Rightarrow> rootQuery \<Rightarrow> condition \<Rightarrow> string \<Rightarrow> string \<Rightarrow> int \<Rightarrow> int \<Rightarrow> found" where
  "queryUsers L h r wsID q flt sortBy sortOrder offset count =
     (if \<not> hasUser h then Ret (Inr (0, []))
      else (case flt of (whereClause, args) \<Rightarrow>
        countUsers wsID whereClause args (\<lambda>c. case c of
            Inl e \<Rightarrow> Ret (Inl e)
          | Inr totalCount \<Rightarrow>
              if count = 0 then Ret (Inr (totalCount, []))
              else listUsers L wsID whereClause args (rootUserSort L sortBy) (sortDirection L sortOrder) offset count (\<lambda>rows.
                case rows of
                  Inl e \<Rightarrow> Ret (Inl e)
                | Inr users \<Rightarrow> getUserGroupsBatch users (baseOf r) (\<lambda>groups.
                    Ret (Inr (totalCount, map (\<lambda>user. userResource L r q (groups (ID user)) user) users)))))))"

definition queryGroups :: "ext \<Rightarrow> discovery \<Rightarrow> http_request \<Rightarrow> string \<Rightarrow> rootQuery \<Rightarrow> condition \<Rightarrow> string \<Rightarrow> string \<Rightarrow> int \<Rightarrow> int \<Rightarrow> found" where
  "queryGroups L h r wsID q flt sortBy sortOrder offset count =
     (if \<not> hasGroup h then Ret (Inr (0, []))
      else (case flt of (whereClause, args) \<Rightarrow>
        pbind (countGroups wsID whereClause args) (\<lambda>c. case c of
            Inl e \<Rightarrow> Ret (Inl e)
          | Inr totalCount \<Rightarrow>
              if count = 0 then Ret (Inr (totalCount, []))
              else pbind (listGroups L wsID whereClause args (rootGroupSort L sortBy) (sortDirection L sortOrder) offset count) (\<lambda>rows.
                case rows of
                  Inl e \<Rightarrow> Ret (Inl e)
                | Inr groups \<Rightarrow> loadMembers groups (\<lambda>groups.
                    Ret (Inr (totalCount, map (groupResource L r q) groups)))))))"

text \<open>The page of one query; the pages of both kinds drop the errors.\<close>

definition pageOf :: "found \<Rightarrow> (json_object list \<Rightarrow> 'b prog) \<Rightarrow> 'b prog" where
  "pageOf p k = pbind p (\<lambda>found. k (case found of Inl _ \<Rightarrow> [] | Inr (_, resources) \<Rightarrow> resources))"

definition slice :: "int \<Rightarrow> int \<Rightarrow> 'a list \<Rightarrow> 'a list" where
  "slice offset count xs = take (nat count) (drop (nat offset) xs)"

type_synonym kind_query = "string \<Rightarrow> string \<Rightarrow> int \<Rightarrow> int \<Rightarrow> found"

definition sortedPage :: "ext \<Rightarrow> rootQuery \<Rightarrow> PaginationRequest \<Rightarrow> kind_query \<Rightarrow> kind_query \<Rightarrow> json_object list prog" where
  "sortedPage L q pag users groups =
     (let fetchLimit = min 200 (PageOffset pag + PageCount pag) in
      pageOf (users (SortBy q) (SortOrder q) 0 fetchLimit) (\<lambda>uRes.
      pageOf (groups (SortBy q) (SortOrder q) 0 fetchLimit) (\<lambda>gRes.
        Ret (slice (PageOffset pag) (PageCount pag) (sortResources L (uRes @ gRes) (SortBy q) (SortOrder q))))))"

definition unsortedPage :: "PaginationRequest \<Rightarrow> nat \<Rightarrow> kind_query \<Rightarrow> kind_query \<Rightarrow> json_object list prog" where
  "unsortedPage pag totUsers users groups =
     (if PageOffset pag < int totUsers then
        pageOf (users [] [] (PageOffset pag) (min (PageCount pag) (int totUsers - PageOffset pag))) (\<lambda>uRes.
          if int (length uRes) < PageCount pag then
            pageOf (groups [] [] 0 (PageCount pag - int (length uRes))) (\<lambda>gRes. Ret (uRes @ gRes))
          else Ret uRes)
      else pageOf (groups [] [] (PageOffset pag - int totUsers) (PageCount pag)) Ret)"

definition bothKinds :: "ext \<Rightarrow> rootQuery \<Rightarrow> PaginationRequest \<Rightarrow> kind_query \<Rightarrow> kind_query \<Rightarrow> found" where
  "bothKinds L q pag users groups =
     andThen (users [] [] 0 0) (\<lambda>(totUsers, _). andThen (groups [] [] 0 0) (\<lambda>(totGroups, _).
       pbind (if 0 < PageCount pag then
                (if SortBy q \<noteq> [] then sortedPage L q pag users groups else unsortedPage pag totUsers users groups)
              else Ret [])
         (\<lambda>resources. Ret (Inr (totUsers + totGroups, resources)))))"

definition rootResources :: "ext \<Rightarrow> discovery \<Rightarrow> http_request \<Rightarrow> string \<Rightarrow> rootQuery \<Rightarrow> condition \<times> condition \<Rightarrow> PaginationRequest \<Rightarrow> found" where
  "rootResources L h r wsID q flt pag =
     (let users = queryUsers L h r wsID q (fst flt); groups = queryGroups L h r wsID q (snd flt) in
      if hasUser h \<and> hasGroup h then bothKinds L q pag users groups
      else if hasUser h then users (SortBy q) (SortOrder q) (PageOffset pag) (PageCount pag)
      else if hasGroup h then groups (SortBy q) (SortOrder q) (PageOffset pag) (PageCount pag)
      else Ret (Inr (0, [])))"

definition RootSearch :: "crypto \<Rightarrow> ext \<Rightarrow> string \<Rightarrow> (int \<Rightarrow> int) \<Rightarrow> discovery \<Rightarrow> string \<Rightarrow> http_request \<Rightarrow> reply" where
  "RootSearch C L key conv h method r =
     inWorkspace r (\<lambda>wsID.
       if CompatParam r \<noteq> [] \<and> \<not> EqualFold L (CompatParam r) ''ms'' then
         fail 404 [] (''Resource or endpoint not found: '' @ CompatParam r)
       else if method = ''POST'' \<and> readJSON r = None \<and> \<not> BodyEOF r then fail 400 ''invalidSyntax'' ''Invalid JSON''
       else
        (let body = (if method = ''POST'' then (case readJSON r of None \<Rightarrow> [] | Some body \<Rightarrow> body) else []);
             q = searchOf (Query r) body in
         timeNow (\<lambda>now.
           case rbind (parsePagination C L key now conv (Query r) (Some body) wsID 100) (\<lambda>pag.
                rbind (rootFilters L (FilterStr q)) (\<lambda>flt. Inr (pag, flt))) of
             Inl e \<Rightarrow> respond (errorResponse e)
           | Inr (pag, flt) \<Rightarrow>
               pbind (rootResources L h r wsID q flt pag) (\<lambda>found. case found of
                   Inl _ \<Rightarrow> fail 500 [] ''Internal error''
                 | Inr (totalResults, resources) \<Rightarrow> timeNow (\<lambda>now.
                     respond (jsonResponse 200 [] (buildListResponse C key now pag wsID (int totalResults) resources)))))))"

end
