(* ===== verification/DiscoveryProps.thy ===== *)
theory DiscoveryProps
  imports Discovery GroupProps
begin

text \<open>
  The search over users and groups together answers a page of one listing, although it asks the database for a
  page of each kind.
\<close>

section \<open>Stable sorting\<close>

text \<open>Two sorted lists merged; on equal elements the first list comes first.\<close>

fun mergeBy :: "('a \<Rightarrow> 'a \<Rightarrow> bool) \<Rightarrow> 'a list \<Rightarrow> 'a list \<Rightarrow> 'a list" where
  "mergeBy lt [] ys = ys"
| "mergeBy lt xs [] = xs"
| "mergeBy lt (x # xs) (y # ys) = (if lt y x then y # mergeBy lt (x # xs) ys else x # mergeBy lt xs (y # ys))"

lemma mergeBy_Nil2 [simp]: "mergeBy lt xs [] = xs"
  by (cases xs) simp_all

lemma take_mergeBy:
  "k \<le> i \<Longrightarrow> k \<le> j \<Longrightarrow> take k (mergeBy lt (take i xs) (take j ys)) = take k (mergeBy lt xs ys)"
proof (induction lt xs ys arbitrary: k i j rule: mergeBy.induct)
  case (3 lt x xs y ys)
  show ?case
  proof (cases k)
    case (Suc k')
    then obtain i' j' where "i = Suc i'" "j = Suc j'" "k' \<le> i'" "k' \<le> j'" using 3(3,4) by (metis Suc_le_D Suc_le_mono)
    then show ?thesis using Suc 3(1) [of k' i j'] 3(2) [of k' i' j] by (simp add: min_def)
  qed simp
qed (simp_all add: min_def)

abbreviation sortedBy :: "('a \<Rightarrow> 'a \<Rightarrow> bool) \<Rightarrow> 'a list \<Rightarrow> bool" where
  "sortedBy lt xs \<equiv> sorted_wrt (\<lambda>x y. \<not> lt y x) xs"

text \<open>The comparison function of a stable sort: what is not less is an order without antisymmetry.\<close>

locale comparison =
  fixes lt :: "'a \<Rightarrow> 'a \<Rightarrow> bool"
  assumes lt_trans: "\<not> lt y x \<Longrightarrow> \<not> lt z y \<Longrightarrow> \<not> lt z x"
begin

lemma insert_first: "\<forall>x \<in> set xs. \<not> lt x u \<Longrightarrow> insertBy lt u xs = u # xs"
  by (cases xs) simp_all

lemma insert_merge: "\<forall>x \<in> set xs. \<not> lt x u \<Longrightarrow> insertBy lt u (mergeBy lt xs ys) = mergeBy lt (u # xs) ys"
proof (induction ys)
  case Nil
  then show ?case by (simp add: insert_first)
next
  case (Cons y ys)
  then have rest: "insertBy lt u (mergeBy lt xs ys) = mergeBy lt (u # xs) ys" by simp
  show ?case
  proof (cases xs)
    case Nil
    with rest show ?thesis by simp
  next
    case (Cons x xs')
    then show ?thesis using rest \<open>\<forall>x \<in> set xs. \<not> lt x u\<close> lt_trans [of x u y] by auto
  qed
qed

lemma foldr_insert: "sortedBy lt xs \<Longrightarrow> foldr (insertBy lt) xs ys = mergeBy lt xs ys"
  by (induction xs) (simp_all add: insert_merge)

lemma sort_sorted: "sortedBy lt xs \<Longrightarrow> stableSort lt xs = xs"
  by (simp add: stableSort_def foldr_insert)

text \<open>The first elements of the sorted concatenation are among the first elements of each list.\<close>

lemma sort_append_take:
  assumes "sortedBy lt xs" "sortedBy lt ys" and "k \<le> i" "k \<le> j"
  shows "take k (stableSort lt (take i xs @ take j ys)) = take k (stableSort lt (xs @ ys))"
proof -
  have "stableSort lt (us @ vs) = mergeBy lt us vs" if "sortedBy lt us" "sortedBy lt vs" for us vs
    using that by (simp add: stableSort_def foldr_insert)
  then show ?thesis using assms by (simp add: sorted_wrt_take take_mergeBy)
qed

end

lemma sortLess_trans:
  assumes "\<not> sortLess L sortBy sortOrder y x" "\<not> sortLess L sortBy sortOrder z y"
  shows "\<not> sortLess L sortBy sortOrder z x"
  using assms
  by (cases "extractSortAttr L x sortBy"; cases "extractSortAttr L y sortBy"; cases "extractSortAttr L z sortBy")
    (auto simp: sortLess_def Let_def split: if_split_asm)

interpretation resource_order: comparison "sortLess L sortBy sortOrder" for L sortBy sortOrder
  by unfold_locales (fact sortLess_trans)

section \<open>The listing\<close>

text \<open>All matches of one kind in the order of the database, each as the resource a client gets.\<close>

definition listOrder :: "ext \<Rightarrow> (string \<Rightarrow> string) \<Rightarrow> rootQuery \<Rightarrow> string" where
  "listOrder L column q =
     buildOrderClause L (column (SortBy q)) (sortDirection L (if SortBy q = [] then [] else SortOrder q))"

definition userListing :: "database \<Rightarrow> ext \<Rightarrow> http_request \<Rightarrow> string \<Rightarrow> rootQuery \<Rightarrow> condition \<Rightarrow> store \<Rightarrow> json_object list" where
  "userListing D L r wsID q flt s =
     map (\<lambda>u. userResource L r q [BuildUserGroupRef (MemberGroupID m) (GroupDisplayName g) (baseOf r).
         m \<leftarrow> member_rows s, MemberValue m = ID u, g \<leftarrow> group_rows s, GroupID g = MemberGroupID m] u)
       (user_order D (listOrder L (\<lambda>sb. resolveUserSortColumn L (rootUserSort L sb)) q)
         (filter (\<lambda>u. WorkspaceID u = wsID \<and> user_where D (fst flt) (snd flt) u) (user_rows s)))"

definition groupListing :: "database \<Rightarrow> ext \<Rightarrow> http_request \<Rightarrow> string \<Rightarrow> rootQuery \<Rightarrow> condition \<Rightarrow> store \<Rightarrow> json_object list" where
  "groupListing D L r wsID q flt s =
     map (\<lambda>g. groupResource L r q (g\<lparr>Members := filter (\<lambda>m. MemberGroupID m = GroupID g) (member_rows s)\<rparr>))
       (group_order D (listOrder L (\<lambda>sb. resolveGroupSortColumn L (rootGroupSort L sb)) q)
         (filter (\<lambda>g. GroupWorkspaceID g = wsID \<and> group_where D (fst flt) (snd flt) g) (group_rows s)))"

text \<open>\<^verbatim>\<open>ORDER BY\<close> neither drops nor repeats a row.\<close>

definition orders :: "database \<Rightarrow> bool" where
  "orders D \<longleftrightarrow> (\<forall>ord rows. length (user_order D ord rows) = length rows)
     \<and> (\<forall>ord rows. length (group_order D ord rows) = length rows)"

text \<open>What a query of one kind has to answer: the size of the listing and a part of it.\<close>

definition pages :: "database \<Rightarrow> store \<Rightarrow> rootQuery \<Rightarrow> kind_query \<Rightarrow> json_object list \<Rightarrow> bool" where
  "pages D s q query all \<longleftrightarrow>
     (\<forall>offset n. 0 \<le> offset \<longrightarrow> 0 \<le> n \<longrightarrow>
        run D (query (SortBy q) (if SortBy q = [] then [] else SortOrder q) offset n) s
        = (Inr (length all, slice offset n all), s))
     \<and> run D (query [] [] 0 0) s = (Inr (length all, []), s)"

lemma run_loadMembers:
  "run D (loadMembers gs k) s
   = run D (k (map (\<lambda>g. g\<lparr>Members := filter (\<lambda>m. MemberGroupID m = GroupID g) (member_rows s)\<rparr>) gs)) s"
  by (induction gs arbitrary: k) (simp_all add: run_pbind findMembers_def)

lemma slice_0 [simp]: "slice offset 0 xs = []"
  by (simp add: slice_def)

lemma map_slice: "map f (slice offset n xs) = slice offset n (map f xs)"
  by (simp add: slice_def take_map drop_map)

lemma limitOffset_slice: "limitOffset limit offset rows = slice offset limit rows"
  by (simp add: limitOffset_def slice_def)

lemma set_slice: "x \<in> set (slice offset n xs) \<Longrightarrow> x \<in> set xs"
  unfolding slice_def by (meson in_set_dropD in_set_takeD)

text \<open>The groups of one user are the same whichever users are looked up with it.\<close>

lemma refs_of_user:
  assumes "uid \<in> ids"
  shows "map (\<lambda>(m, name). BuildUserGroupRef (MemberGroupID m) name baseURL)
      (filter (\<lambda>(m, name). MemberValue m = uid)
        [(m, GroupDisplayName g). m \<leftarrow> ms, MemberValue m \<in> ids, g \<leftarrow> gs, GroupID g = MemberGroupID m])
    = [BuildUserGroupRef (MemberGroupID m) (GroupDisplayName g) baseURL.
        m \<leftarrow> ms, MemberValue m = uid, g \<leftarrow> gs, GroupID g = MemberGroupID m]"
proof (induction ms)
  case (Cons m ms)
  have "map (\<lambda>(m, name). BuildUserGroupRef (MemberGroupID m) name baseURL)
      (filter (\<lambda>(m, name). MemberValue m = uid) [(m, GroupDisplayName g). g \<leftarrow> gs, GroupID g = MemberGroupID m])
    = (if MemberValue m = uid
       then [BuildUserGroupRef (MemberGroupID m) (GroupDisplayName g) baseURL. g \<leftarrow> gs, GroupID g = MemberGroupID m] else [])"
    by (induction gs) simp_all
  then show ?case using Cons assms by auto
qed simp

lemma queryGroups_pages:
  assumes "hasGroup h" "orders D"
  shows "pages D s q (queryGroups L h r wsID q flt) (groupListing D L r wsID q flt s)"
  unfolding pages_def
proof (intro conjI allI impI)
  show "run D (queryGroups L h r wsID q flt (SortBy q) (if SortBy q = [] then [] else SortOrder q) offset n) s
      = (Inr (length (groupListing D L r wsID q flt s), slice offset n (groupListing D L r wsID q flt s)), s)" for offset n
    using assms
    by (cases flt) (simp add: queryGroups_def run_pbind countGroups_def listGroups_def run_loadMembers limitOffset_slice
        groupListing_def orders_def map_slice listOrder_def o_def)
  show "run D (queryGroups L h r wsID q flt [] [] 0 0) s = (Inr (length (groupListing D L r wsID q flt s), []), s)"
    using assms by (cases flt) (simp add: queryGroups_def run_pbind countGroups_def groupListing_def orders_def)
qed

lemma queryUsers_pages:
  assumes "hasUser h" "orders D"
  shows "pages D s q (queryUsers L h r wsID q flt) (userListing D L r wsID q flt s)"
  unfolding pages_def
proof (intro conjI allI impI)
  show "run D (queryUsers L h r wsID q flt (SortBy q) (if SortBy q = [] then [] else SortOrder q) offset n) s
      = (Inr (length (userListing D L r wsID q flt s), slice offset n (userListing D L r wsID q flt s)), s)" for offset n
    using assms
    by (cases flt) (auto simp: queryUsers_def countUsers_def listUsers_def getUserGroupsBatch_def findGroupRefs_def
        limitOffset_slice userListing_def orders_def map_slice [symmetric] listOrder_def refs_of_user intro!: map_cong
        arg_cong2 [where f = "userResource L r q"])
  show "run D (queryUsers L h r wsID q flt [] [] 0 0) s = (Inr (length (userListing D L r wsID q flt s), []), s)"
    using assms by (cases flt) (simp add: queryUsers_def countUsers_def userListing_def orders_def)
qed

section \<open>One page of both kinds\<close>

lemma run_pageOf:
  "run D (pageOf p k) s = (case run D p s of (found, s') \<Rightarrow>
     run D (k (case found of Inl _ \<Rightarrow> [] | Inr (_, resources) \<Rightarrow> resources)) s')"
  by (simp add: pageOf_def run_pbind)

lemma slice_as_take: "0 \<le> offset \<Longrightarrow> 0 \<le> n \<Longrightarrow> slice offset n xs = drop (nat offset) (take (nat (offset + n)) xs)"
  by (simp add: slice_def take_drop nat_add_distrib add.commute)

lemma sortResources_sort:
  "sortBy \<noteq> [] \<Longrightarrow> sortResources L items sortBy sortOrder = stableSort (sortLess L sortBy sortOrder) items"
  by (cases items; cases "tl items") (simp_all add: sortResources_def stableSort_def)

lemma sortedPage_run:
  assumes u: "pages D s q users us" and g: "pages D s q groups gs" and "SortBy q \<noteq> []"
    and "0 \<le> PageOffset pag" "0 \<le> PageCount pag" and limit: "PageOffset pag + PageCount pag \<le> 200"
    and "sortedBy (sortLess L (SortBy q) (SortOrder q)) us" "sortedBy (sortLess L (SortBy q) (SortOrder q)) gs"
  shows "run D (sortedPage L q pag users groups) s
    = (slice (PageOffset pag) (PageCount pag) (sortResources L (us @ gs) (SortBy q) (SortOrder q)), s)"
proof -
  let ?n = "PageOffset pag + PageCount pag"
  have "min 200 ?n = ?n" "0 \<le> ?n" using assms by auto
  moreover have "run D (users (SortBy q) (SortOrder q) 0 ?n) s = (Inr (length us, take (nat ?n) us), s)"
    "run D (groups (SortBy q) (SortOrder q) 0 ?n) s = (Inr (length gs, take (nat ?n) gs), s)"
    using u g assms(3) \<open>0 \<le> ?n\<close> by (auto simp: pages_def slice_def)
  moreover have "slice (PageOffset pag) (PageCount pag) (sortResources L (take (nat ?n) us @ take (nat ?n) gs) (SortBy q) (SortOrder q))
      = slice (PageOffset pag) (PageCount pag) (sortResources L (us @ gs) (SortBy q) (SortOrder q))"
    using assms by (simp add: slice_as_take sortResources_sort resource_order.sort_append_take)
  ultimately show ?thesis by (simp add: sortedPage_def run_pageOf Let_def)
qed

lemma unsortedPage_run:
  assumes u: "pages D s q users us" and g: "pages D s q groups gs" and "SortBy q = []"
    and "0 \<le> PageOffset pag" "0 < PageCount pag"
  shows "run D (unsortedPage pag (length us) users groups) s = (slice (PageOffset pag) (PageCount pag) (us @ gs), s)"
proof (cases "PageOffset pag < int (length us)")
  case True
  let ?n = "min (PageCount pag) (int (length us) - PageOffset pag)"
  let ?rest = "PageCount pag - int (length (slice (PageOffset pag) ?n us))"
  have "run D (users [] [] (PageOffset pag) ?n) s = (Inr (length us, slice (PageOffset pag) ?n us), s)"
    using u assms True by (simp add: pages_def)
  moreover have "run D (groups [] [] 0 ?rest) s = (Inr (length gs, slice 0 ?rest gs), s)" if "0 \<le> ?rest"
    using g assms that by (simp add: pages_def)
  moreover have "nat (PageCount pag - (int (length us) - PageOffset pag)) = nat (PageCount pag) + nat (PageOffset pag) - length us"
    using assms(4,5) True by linarith
  ultimately show ?thesis using assms True
    by (simp add: unsortedPage_def run_pageOf) (auto simp: slice_def)
next
  case False
  then have "run D (groups [] [] (PageOffset pag - int (length us)) (PageCount pag)) s
      = (Inr (length gs, slice (PageOffset pag - int (length us)) (PageCount pag) gs), s)"
    using g assms by (simp add: pages_def)
  with False show ?thesis by (simp add: unsortedPage_def run_pageOf slice_def nat_diff_distrib')
qed

text \<open>C40. A search over users and groups together answers the page of one listing, all matching users before
  all matching groups, sorted as the client asks, together with the size of that listing, and it changes nothing;
  although it reads no more rows of each kind than the page may need. A sorted page has to end within the first 200
  resources, and the database has to sort each kind as the server does.\<close>

theorem root_search_pages:
  assumes "hasUser h" "hasGroup h" and "orders D" and "0 \<le> PageOffset pag" "0 \<le> PageCount pag"
    and "us = userListing D L r wsID q (fst flt) s" and "gs = groupListing D L r wsID q (snd flt) s"
    and "SortBy q \<noteq> [] \<Longrightarrow> PageOffset pag + PageCount pag \<le> 200"
    and "SortBy q \<noteq> [] \<Longrightarrow> sortedBy (sortLess L (SortBy q) (SortOrder q)) us"
    and "SortBy q \<noteq> [] \<Longrightarrow> sortedBy (sortLess L (SortBy q) (SortOrder q)) gs"
  shows "run D (rootResources L h r wsID q flt pag) s
    = (Inr (length us + length gs,
        take (nat (PageCount pag)) (drop (nat (PageOffset pag)) (sortResources L (us @ gs) (SortBy q) (SortOrder q)))), s)"
proof -
  let ?users = "queryUsers L h r wsID q (fst flt)" and ?groups = "queryGroups L h r wsID q (snd flt)"
  have u: "pages D s q ?users us" and g: "pages D s q ?groups gs" 
    using queryUsers_pages queryGroups_pages assms by simp_all
  then have n: "run D (?users [] [] 0 0) s = (Inr (length us, []), s)" "run D (?groups [] [] 0 0) s = (Inr (length gs, []), s)"
    by (simp_all add: pages_def)
  consider "PageCount pag = 0" | "0 < PageCount pag" "SortBy q = []" | "0 < PageCount pag" "SortBy q \<noteq> []"
    using assms(5) by linarith
  then show ?thesis
  proof cases
    case 2
    then show ?thesis using assms(1,2) n unsortedPage_run [OF u g 2(2) assms(4) 2(1)]
      by (simp add: rootResources_def Let_def bothKinds_def andThen_def run_pbind slice_def sortResources_def)
  next
    case 3
    then show ?thesis using assms(1,2) n sortedPage_run [OF u g 3(2) assms(4,5)] assms(8-10)
      by (simp add: rootResources_def Let_def bothKinds_def andThen_def run_pbind slice_def)
  qed (use assms(1,2) n in \<open>simp add: rootResources_def Let_def bothKinds_def andThen_def run_pbind\<close>)
qed

text \<open>A user and a group sorted by their identifiers, the greatest first.\<close>

definition root_request :: http_request where
  "root_request = \<lparr>ForwardedProto = [], TLS = False, Host = ''h'', WorkspaceParam = ''w1'', CompatParam = [],
     WorkspaceCtx = Some ''w1'', PathID = [], IfMatch = [], IfNoneMatch = [], Prefer = [], Query = [], Body = None, BodyEOF = True\<rparr>"

definition by_id :: rootQuery where
  "by_id = \<lparr>FilterStr = [], SortBy = ''id'', SortOrder = ''descending'', Attrs = [], ExcludedAttrs = []\<rparr>"

definition first_page :: PaginationRequest where
  "first_page = \<lparr>IsCursor = False, PageOffset = 0, PageCount = 1, StartIndex = 1, PrevPageSize = 0\<rparr>"

definition ann_found :: json_object where
  "ann_found = userResource any_ext root_request by_id [BuildUserGroupRef ''uuuu'' ''Club'' (baseOf root_request)] ann"

definition club_found :: json_object where
  "club_found = groupResource any_ext root_request by_id (club\<lparr>Members := [ann_member]\<rparr>)"

lemmas no_projection = compatible_def msCompat_def ParseCompatMode_def applyAttributeProjection_def jdelete_def Let_def
  root_request_def by_id_def

lemma empty_collections:
  "emailsToMaps [] = []" "phoneNumbersToMaps [] = []" "imsToMaps [] = []" "photosToMaps [] = []" "addressesToMaps [] = []"
  "entitlementsToMaps [] = []" "rolesToMaps [] = []" "x509CertificatesToMaps [] = []"
  by code_simp+

lemma by_id_fields: "SortBy by_id = ''id''" "SortOrder by_id = ''descending''"
  by (simp_all add: by_id_def)

lemma id_path: "sortPath any_ext res ''id'' = (JObj res, ''id'')"
  by (simp add: sortPath_def) code_simp

lemma id_second:
  assumes "res = (''schemas'', v) # (''id'', JStr i) # rest"
  shows "extractSortAttr any_ext res ''id'' = Some i"
proof -
  have "\<not> EqualFold any_ext ''schemas'' ''id''" "EqualFold any_ext ''id'' ''id''" by code_simp+
  then show ?thesis by (simp add: assms extractSortAttr_def id_path lookupFold_def)
qed

lemma found_ids: "extractSortAttr any_ext ann_found ''id'' = Some ''uu''" "extractSortAttr any_ext club_found ''id'' = Some ''uuuu''"
proof -
  have "\<not> EqualFold any_ext [] ''ms''" by code_simp
  then show "extractSortAttr any_ext ann_found ''id'' = Some ''uu''"
    by - (rule id_second, simp add: ann_found_def userResource_def no_projection UserToScimResponse_def empty_collections
        jput_def putIfNotNull_def putCollection_def ann_def newUser_def hasEnterpriseData_def buildNameMap_def)
  show "extractSortAttr any_ext club_found ''id'' = Some ''uuuu''"
    by (rule id_second) (simp add: club_found_def groupResource_def no_projection GroupToScimResponse_def
        jput_def putIfNotNull_def putCollection_def club_def newGroup_def)
qed

lemma found_sorted: "sortResources any_ext [ann_found, club_found] ''id'' ''descending'' = [club_found, ann_found]"
proof -
  have "EqualFold any_ext ''descending'' ''descending''" "isCaseExactSortAttr any_ext ''id''" "(''uu'' < ''uuuu'') = True"
    by code_simp+
  then show ?thesis by (simp add: sortResources_sort stableSort_def sortLess_def found_ids)
qed

lemma found_listings:
  "userListing sample_database any_ext root_request ''w1'' by_id ([], []) club_store = [ann_found]"
  "groupListing sample_database any_ext root_request ''w1'' by_id ([], []) club_store = [club_found]"
proof -
  have rows: "user_rows club_store = [ann]" "group_rows club_store = [club]" "member_rows club_store = [ann_member]"
    "WorkspaceID ann = ''w1''" "GroupWorkspaceID club = ''w1''" "GroupID club = ''uuuu''" "GroupDisplayName club = ''Club''"
    "ID ann = ''uu''" "MemberValue ann_member = ''uu''" "MemberGroupID ann_member = ''uuuu''"
    by (simp_all add: club_store_def ann_store_def ann_def newUser_def club_def newGroup_def ann_member_def)
  have database: "user_order sample_database ord us = us" "user_where sample_database w a u"
    "group_order sample_database ord gs = gs" "group_where sample_database w a g" for ord us w a u gs g
    by (simp_all add: sample_database_def)
  show "userListing sample_database any_ext root_request ''w1'' by_id ([], []) club_store = [ann_found]"
    "groupListing sample_database any_ext root_request ''w1'' by_id ([], []) club_store = [club_found]"
    by (simp_all add: userListing_def groupListing_def ann_found_def club_found_def rows database)
qed

theorem root_search_pages_witness:
  "run sample_database (rootResources any_ext \<lparr>hasUser = True, hasGroup = True\<rparr> root_request ''w1'' by_id (([], []), ([], [])) first_page)
     club_store = (Inr (2, [club_found]), club_store)"
proof -
  have "orders sample_database" by (simp add: orders_def sample_database_def)
  from root_search_pages [where D = sample_database and L = any_ext and h = "\<lparr>hasUser = True, hasGroup = True\<rparr>"
      and r = root_request and wsID = "''w1''" and q = by_id and flt = "(([], []), ([], []))" and pag = first_page and s = club_store,
      OF _ _ this _ _ refl refl]
  show ?thesis using found_listings found_sorted by (simp add: first_page_def by_id_fields)
qed

end
