(* ===== verification/Auth.thy ===== *)
theory Auth
  imports Async Cursor
begin

text \<open>
  \<^verbatim>\<open>internal/middleware/auth.go\<close>: the workspace of a request and its bearer token, before any handler runs; and what
  the middleware notes for the metrics (\<^verbatim>\<open>internal/middleware/metrics_state.go\<close>).
\<close>

section \<open>Workspaces and tokens\<close>

record Workspace =
  WsID :: string
  WsName :: string
  WsDescription :: "string option"
  CreatedByUsername :: "string option"
  WsCreatedAt :: int
  WsUpdatedAt :: int

record WorkspaceToken =
  TokenID :: string
  TokenWorkspaceID :: string
  TokenHash :: string
  TokenName :: "string option"
  TokenDescription :: "string option"
  ExpiresAt :: "int option"
  Revoked :: bool
  TokenCreatedAt :: int
  TokenUpdatedAt :: int

text \<open>\<^verbatim>\<open>TokenRepository\<close> and \<^verbatim>\<open>WorkspaceRepository\<close> on their tables.\<close>

definition FindByTokenHashNotRevoked :: "WorkspaceToken list \<Rightarrow> string \<Rightarrow> db_error + WorkspaceToken option" where
  "FindByTokenHashNotRevoked rows tokenHash = Inr (find (\<lambda>t. TokenHash t = tokenHash \<and> \<not> Revoked t) rows)"

definition FindByID :: "Workspace list \<Rightarrow> string \<Rightarrow> db_error + Workspace option" where
  "FindByID rows wsID = Inr (find (\<lambda>w. WsID w = wsID) rows)"

text \<open>The two interfaces of the middleware, and the time.\<close>

record finders =
  tokenFinder :: "string \<Rightarrow> db_error + WorkspaceToken option"
  workspaceFinder :: "string \<Rightarrow> db_error + Workspace option"
  Now :: int

section \<open>Metrics state\<close>

record requestMetricsState =
  Authentication :: string
  Throttled :: string
  MetricsWorkspaceID :: string
  UserEmail :: string

definition AuthenticationOK :: string where "AuthenticationOK = ''ok''"
definition AuthenticationFailed :: string where "AuthenticationFailed = ''failed''"

definition MarkAuthentication :: "string \<Rightarrow> requestMetricsState \<Rightarrow> requestMetricsState" where
  "MarkAuthentication outcome m = m\<lparr>Authentication := outcome\<rparr>"

definition MarkThrottled :: "string \<Rightarrow> requestMetricsState \<Rightarrow> requestMetricsState" where
  "MarkThrottled throttled m = m\<lparr>Throttled := throttled\<rparr>"

definition MarkWorkspaceID :: "string \<Rightarrow> requestMetricsState \<Rightarrow> requestMetricsState" where
  "MarkWorkspaceID workspaceID m = (if workspaceID \<noteq> [] then m\<lparr>MetricsWorkspaceID := workspaceID\<rparr> else m)"

definition MarkUserEmail :: "string \<Rightarrow> requestMetricsState \<Rightarrow> requestMetricsState" where
  "MarkUserEmail userEmail m = (if userEmail \<noteq> [] then m\<lparr>UserEmail := userEmail\<rparr> else m)"

section \<open>The bearer token\<close>

record auth_request = http_request +
  Method :: string
  Path :: string
  Authorization :: string

text \<open>The next handler runs for a workspace, or the middleware answers.\<close>

datatype verdict = Next string | Answer http_response

definition hexNibble :: "nat \<Rightarrow> char" where
  "hexNibble n = (char_of (if n < 10 then 48 + n else 87 + n) :: char)"

definition hexEncode :: "string \<Rightarrow> string" where
  "hexEncode s = concat (map (\<lambda>c. [hexNibble (of_char c div 16), hexNibble (of_char c mod 16)]) s)"

definition HashToken :: "crypto \<Rightarrow> string \<Rightarrow> string" where
  "HashToken C token = hexEncode (sha256 C token)"

definition unauthorized :: "requestMetricsState \<Rightarrow> requestMetricsState \<times> verdict" where
  "unauthorized m =
     (MarkAuthentication AuthenticationFailed m,
      case WriteScimError (NewScimError 401 [] ''Unauthorized'') of
        (status, body) \<Rightarrow> Answer (jsonResponse status [(''WWW-Authenticate'', ''Bearer'')] body))"

definition markAuthenticatedPrincipal :: "finders \<Rightarrow> string \<Rightarrow> requestMetricsState \<Rightarrow> requestMetricsState" where
  "markAuthenticatedPrincipal F workspaceID m =
     (case workspaceFinder F workspaceID of
        Inr (Some w) \<Rightarrow> (case CreatedByUsername w of None \<Rightarrow> m | Some u \<Rightarrow> MarkUserEmail (TrimSpace u) m)
      | _ \<Rightarrow> m)"

definition configWithoutToken :: "auth_request \<Rightarrow> bool" where
  "configWithoutToken r \<longleftrightarrow> Method r = ''GET'' \<and> HasSuffix (TrimRightByte (Path r) CHR ''/'') ''/ServiceProviderConfig''
     \<and> TrimSpace (Authorization r) = []"

definition expired :: "int \<Rightarrow> WorkspaceToken \<Rightarrow> bool" where
  "expired now t \<longleftrightarrow> (case ExpiresAt t of None \<Rightarrow> False | Some e \<Rightarrow> e < now)"

definition BearerTokenAuth :: "crypto \<Rightarrow> finders \<Rightarrow> string option \<Rightarrow> auth_request \<Rightarrow> requestMetricsState
    \<Rightarrow> requestMetricsState \<times> verdict" where
  "BearerTokenAuth C F wsID r m =
     (case wsID of
        None \<Rightarrow> unauthorized m
      | Some workspaceID \<Rightarrow>
          if configWithoutToken r then
            (case workspaceFinder F workspaceID of
               Inr (Some w) \<Rightarrow> (m, Next workspaceID)
             | _ \<Rightarrow> (m, Answer (errorResponse (NewScimError 404 [] ''Workspace not found''))))
          else if \<not> HasPrefix (Authorization r) ''Bearer '' then unauthorized m
          else (case tokenFinder F (HashToken C (drop 7 (Authorization r))) of
              Inr (Some t) \<Rightarrow>
                if TokenWorkspaceID t \<noteq> workspaceID \<or> expired (Now F) t then unauthorized m
                else (MarkAuthentication AuthenticationOK (markAuthenticatedPrincipal F workspaceID m), Next workspaceID)
            | _ \<Rightarrow> unauthorized m))"

definition ExtractWorkspaceID :: "ext \<Rightarrow> auth_request \<Rightarrow> requestMetricsState
    \<Rightarrow> (string option \<Rightarrow> requestMetricsState \<Rightarrow> requestMetricsState \<times> verdict) \<Rightarrow> requestMetricsState \<times> verdict" where
  "ExtractWorkspaceID L r m next =
     (let notFound = (\<lambda>mark. (MarkAuthentication AuthenticationFailed (MarkWorkspaceID mark m),
            Answer (errorResponse (NewScimError 404 [] ''Not Found'')))) in
      if WorkspaceParam r = [] then notFound ''unknown''
      else (case uuid_parse L (WorkspaceParam r) of
          None \<Rightarrow> notFound ''invalid''
        | Some wsID \<Rightarrow> next (Some wsID) (MarkWorkspaceID wsID m)))"

text \<open>The two in the order the router has them.\<close>

definition authenticate :: "crypto \<Rightarrow> ext \<Rightarrow> finders \<Rightarrow> auth_request \<Rightarrow> requestMetricsState \<Rightarrow> requestMetricsState \<times> verdict" where
  "authenticate C L F r m = ExtractWorkspaceID L r m (\<lambda>wsID m. BearerTokenAuth C F wsID r m)"

section \<open>Who gets through\<close>

text \<open>What the middleware needs of a token finder: what it finds is a token of the store with that hash, and it finds
  one if there is one.\<close>

locale token_store =
  fixes findToken :: "string \<Rightarrow> db_error + WorkspaceToken option"
    and stored :: "WorkspaceToken \<Rightarrow> bool"
  assumes found: "findToken h = Inr (Some t) \<Longrightarrow> stored t \<and> TokenHash t = h"
    and finds: "stored t \<Longrightarrow> \<exists>t'. findToken (TokenHash t) = Inr (Some t')"
begin

lemma find_unique:
  assumes "\<And>t t'. stored t \<Longrightarrow> stored t' \<Longrightarrow> TokenHash t = TokenHash t' \<Longrightarrow> t = t'"
  shows "findToken h = Inr (Some t) \<longleftrightarrow> stored t \<and> TokenHash t = h"
  using assms found finds by metis

lemma bearer_next:
  assumes "tokenFinder F = findToken" "\<not> configWithoutToken r"
    and unique: "\<And>t t'. stored t \<Longrightarrow> stored t' \<Longrightarrow> TokenHash t = TokenHash t' \<Longrightarrow> t = t'"
  shows "snd (BearerTokenAuth C F (Some ws) r m) = Next ws'
    \<longleftrightarrow> ws' = ws \<and> (\<exists>token t. Authorization r = ''Bearer '' @ token \<and> stored t \<and> TokenHash t = HashToken C token
      \<and> TokenWorkspaceID t = ws \<and> \<not> expired (Now F) t)"
proof (cases "HasPrefix (Authorization r) ''Bearer ''")
  case True
  then obtain token where a: "Authorization r = ''Bearer '' @ token" by (auto simp: HasPrefix_def prefix_def)
  then have "(\<exists>token' t. Authorization r = ''Bearer '' @ token' \<and> stored t \<and> TokenHash t = HashToken C token'
        \<and> TokenWorkspaceID t = ws \<and> \<not> expired (Now F) t)
    \<longleftrightarrow> (\<exists>t. findToken (HashToken C token) = Inr (Some t) \<and> TokenWorkspaceID t = ws \<and> \<not> expired (Now F) t)"
    by (auto simp: find_unique [OF unique])
  moreover have "snd (BearerTokenAuth C F (Some ws) r m) = Next ws' \<longleftrightarrow>
      ws' = ws \<and> (\<exists>t. findToken (HashToken C token) = Inr (Some t) \<and> TokenWorkspaceID t = ws \<and> \<not> expired (Now F) t)"
    using assms(1,2) True a
    by (auto simp: BearerTokenAuth_def unauthorized_def split: sum.split option.split prod.splits)
  ultimately show ?thesis by blast
next
  case False
  then show ?thesis using assms(1,2)
    by (auto simp: BearerTokenAuth_def unauthorized_def HasPrefix_def prefix_def split: prod.splits)
qed

end

definition live :: "WorkspaceToken list \<Rightarrow> WorkspaceToken list" where
  "live rows = filter (\<lambda>t. \<not> Revoked t) rows"

interpretation token_table: token_store "FindByTokenHashNotRevoked rows" "\<lambda>t. t \<in> set (live rows)" for rows
proof
  show "t \<in> set (live rows) \<and> TokenHash t = h" if "FindByTokenHashNotRevoked rows h = Inr (Some t)" for h t
    using that by (auto simp: FindByTokenHashNotRevoked_def find_Some_iff live_def)
  show "\<exists>t'. FindByTokenHashNotRevoked rows (TokenHash t) = Inr (Some t')" if "t \<in> set (live rows)" for t
  proof (cases "find (\<lambda>t'. TokenHash t' = TokenHash t \<and> \<not> Revoked t') rows")
    case None
    with that show ?thesis by (auto simp: find_None_iff live_def)
  qed (simp add: FindByTokenHashNotRevoked_def)
qed

text \<open>A request may reach the handlers of a workspace.\<close>

definition granted :: "crypto \<Rightarrow> ext \<Rightarrow> WorkspaceToken list \<Rightarrow> Workspace list \<Rightarrow> int \<Rightarrow> auth_request \<Rightarrow> string \<Rightarrow> bool" where
  "granted C L toks workspaces now r ws \<longleftrightarrow>
     WorkspaceParam r \<noteq> [] \<and> uuid_parse L (WorkspaceParam r) = Some ws \<and>
     (if configWithoutToken r then ws \<in> WsID ` set workspaces
      else \<exists>token t. Authorization r = ''Bearer '' @ token \<and> t \<in> set (live toks) \<and> TokenHash t = HashToken C token
        \<and> TokenWorkspaceID t = ws \<and> \<not> expired now t)"

definition repositories :: "WorkspaceToken list \<Rightarrow> Workspace list \<Rightarrow> int \<Rightarrow> finders" where
  "repositories toks workspaces now =
     \<lparr>tokenFinder = FindByTokenHashNotRevoked toks, workspaceFinder = FindByID workspaces, Now = now\<rparr>"

lemma refused_status:
  "snd (authenticate C L F r m) = Answer resp \<Longrightarrow> HttpStatus resp \<in> {401, 404}"
  by (auto simp: authenticate_def ExtractWorkspaceID_def BearerTokenAuth_def unauthorized_def jsonResponse_def errorResponse_def
      WriteScimError_def NewScimError_def Let_def split: if_splits option.splits sum.splits)

text \<open>C4. A request reaches the handlers of a workspace exactly if its path names that workspace and it carries a bearer
  token whose hash is stored for that workspace, neither revoked nor expired, or it is a GET without credentials in an
  existing workspace whose path ends in \<^verbatim>\<open>/ServiceProviderConfig\<close>, which is how the code recognises the service provider
  configuration: the path need not name it otherwise. Every other request is answered 401 or 404.\<close>

theorem auth_exact:
  assumes "distinct (map TokenHash (live toks))"
  shows "case snd (authenticate C L (repositories toks workspaces now) r m) of
      Next ws \<Rightarrow> granted C L toks workspaces now r ws
    | Answer resp \<Rightarrow> (\<forall>ws. \<not> granted C L toks workspaces now r ws) \<and> HttpStatus resp \<in> {401, 404}"
proof -
  let ?F = "repositories toks workspaces now"
  have unique: "t = t'" if "t \<in> set (live toks)" "t' \<in> set (live toks)" "TokenHash t = TokenHash t'" for t t'
    using assms that by (metis distinct_map inj_onD)
  have "snd (authenticate C L ?F r m) = Next ws \<longleftrightarrow> granted C L toks workspaces now r ws" for ws
  proof (cases "configWithoutToken r")
    case True
    then show ?thesis
      by (auto simp: authenticate_def ExtractWorkspaceID_def granted_def BearerTokenAuth_def repositories_def FindByID_def
          Let_def find_Some_iff find_None_iff split: option.splits)
  next
    case False
    have "snd (BearerTokenAuth C ?F (Some w) r (MarkWorkspaceID w m)) = Next ws
      \<longleftrightarrow> ws = w \<and> (\<exists>token t. Authorization r = ''Bearer '' @ token \<and> t \<in> set (live toks) \<and> TokenHash t = HashToken C token
        \<and> TokenWorkspaceID t = w \<and> \<not> expired (Now ?F) t)" for w
      by (rule token_table.bearer_next [OF _ False unique]) (simp_all add: repositories_def)
    moreover have "Now ?F = now" by (simp add: repositories_def)
    ultimately show ?thesis using False
      by (auto simp: authenticate_def ExtractWorkspaceID_def granted_def Let_def split: option.splits)
  qed
  then show ?thesis using refused_status by (cases "snd (authenticate C L ?F r m)") (auto split: verdict.split)
qed

definition sample_token :: WorkspaceToken where
  "sample_token = \<lparr>TokenID = ''t1'', TokenWorkspaceID = ''w1'', TokenHash = HashToken toy_crypto ''secret'', TokenName = None,
     TokenDescription = None, ExpiresAt = Some 9, Revoked = False, TokenCreatedAt = 1, TokenUpdatedAt = 1\<rparr>"

definition sample_auth :: auth_request where
  "sample_auth = \<lparr>ForwardedProto = [], TLS = False, Host = ''h'', WorkspaceParam = ''w1'', CompatParam = [],
     WorkspaceCtx = None, PathID = [], IfMatch = [], IfNoneMatch = [], Prefer = [], Query = [], Body = None, BodyEOF = True,
     Method = ''GET'', Path = ''/ws/w1/scim/v2/Users'', Authorization = ''Bearer secret''\<rparr>"

definition sample_state :: requestMetricsState where
  "sample_state = \<lparr>Authentication = ''unknown'', Throttled = ''no'', MetricsWorkspaceID = [], UserEmail = []\<rparr>"

theorem auth_exact_witness:
  "snd (authenticate toy_crypto (plain_ext\<lparr>uuid_parse := Some\<rparr>) (repositories [sample_token] [] 7) sample_auth sample_state) = Next ''w1''
   \<and> granted toy_crypto (plain_ext\<lparr>uuid_parse := Some\<rparr>) [sample_token] [] 7 sample_auth ''w1''"
proof -
  have run: "snd (authenticate toy_crypto (plain_ext\<lparr>uuid_parse := Some\<rparr>) (repositories [sample_token] [] 7) sample_auth sample_state)
      = Next ''w1''"
  proof -
    have "\<not> configWithoutToken sample_auth" by code_simp
    then show ?thesis
      by (simp add: authenticate_def ExtractWorkspaceID_def BearerTokenAuth_def repositories_def FindByTokenHashNotRevoked_def
          HasPrefix_def expired_def sample_auth_def sample_token_def)
  qed
  have "distinct (map TokenHash (live [sample_token]))" by (simp add: live_def)
  from auth_exact [where C = toy_crypto and L = "plain_ext\<lparr>uuid_parse := Some\<rparr>" and workspaces = "[]" and now = 7
      and r = sample_auth and m = sample_state, OF this] run
  show ?thesis by simp
qed

end
