(* ===== verification/Cleanup.thy ===== *)
theory Cleanup
  imports Async GroupRepo
begin

text \<open>
  \<^verbatim>\<open>internal/service/async_event_cleanup_service.go\<close> and the statements of
  \<^verbatim>\<open>internal/repository/async_event.go\<close> it sends: events that stay pending too long are failed, and of the events
  that have ended each workspace keeps the newest. The context of a cycle is never cancelled here.
\<close>

section \<open>Repository\<close>

definition DefaultEventPruneBatchSize :: int where
  "DefaultEventPruneBatchSize = 5000"

datatype prune_error = MaxCountError string | QueryError db_error

definition ListWorkspaceIDsExceedingEventCount :: "int \<Rightarrow> (prune_error + string list) prog" where
  "ListWorkspaceIDsExceedingEventCount maxCount =
     (if maxCount \<le> 0 then Ret (Inl (MaxCountError (''maxCount must be greater than 0: '' @ itoa_int maxCount)))
      else Ask (SelectFullWorkspaces maxCount) (\<lambda>a. Ret (case a of WorkspaceIDs ids \<Rightarrow> Inr ids | _ \<Rightarrow> Inl (QueryError (failure a)))))"

text \<open>Batch after batch until one is not full; the fuel bounds the number of batches.\<close>

primrec pruneBatches :: "nat \<Rightarrow> string \<Rightarrow> int \<Rightarrow> nat \<Rightarrow> (nat \<times> bool) prog" where
  "pruneBatches 0 ws maxCount totalDeleted = Ret (totalDeleted, False)"
| "pruneBatches (Suc fuel) ws maxCount totalDeleted =
     Ask (PruneEvents ws maxCount DefaultEventPruneBatchSize) (\<lambda>a. case affected a of
         Inl _ \<Rightarrow> Ret (totalDeleted, False)
       | Inr rows \<Rightarrow>
           if int rows < DefaultEventPruneBatchSize then Ret (totalDeleted + rows, True)
           else pruneBatches fuel ws maxCount (totalDeleted + rows))"

definition DeleteOldEventsForWorkspace :: "nat \<Rightarrow> string \<Rightarrow> int \<Rightarrow> (nat \<times> bool) prog" where
  "DeleteOldEventsForWorkspace fuel ws maxCount =
     (if maxCount < 0 then Ret (0, False) else pruneBatches fuel ws maxCount 0)"

definition FindStalePendingEvents :: "int \<Rightarrow> int \<Rightarrow> (db_error + ScimAsyncEvent list) prog" where
  "FindStalePendingEvents olderThan limit =
     Ask (SelectStaleEvents olderThan (if limit \<le> 0 then 1000 else limit))
       (\<lambda>a. Ret (case a of EventRows es \<Rightarrow> Inr es | _ \<Rightarrow> Inl (failure a)))"

definition TransitionPendingToFailed :: "string \<Rightarrow> string \<Rightarrow> int \<Rightarrow> (db_error + bool) prog" where
  "TransitionPendingToFailed txnID payload completedAt =
     Ask (UpdateEvent txnID AsyncStatusFailed None (Some payload) completedAt) (\<lambda>a. Ret (rbind (affected a) (\<lambda>n. Inr (0 < n))))"

section \<open>The service\<close>

record AsyncEventCleanupService =
  CleanupEnabled :: bool
  CleanupInterval :: int
  CleanupMaxCount :: int
  StalePendingAfter :: int
  CleanupBaseURL :: string

definition DefaultAsyncEventCleanupInterval :: int where
  "DefaultAsyncEventCleanupInterval = 3600 * 1000000000"

definition DefaultAsyncEventCleanupMaxCount :: int where
  "DefaultAsyncEventCleanupMaxCount = 5000"

definition DefaultAsyncEventStalePendingAfter :: int where
  "DefaultAsyncEventStalePendingAfter = 300 * 1000000000"

definition StalePendingTimeoutDetail :: string where
  "StalePendingTimeoutDetail = ''Asynchronous operation timed out or server restarted''"

definition resolveOrigin :: "string \<Rightarrow> string" where
  "resolveOrigin baseURL =
     (if TrimSpace baseURL \<noteq> [] then TrimRightByte (TrimSpace baseURL) CHR ''/'' else ''http://localhost:8080'')"

definition NewAsyncEventCleanupService :: "bool \<Rightarrow> int \<Rightarrow> int \<Rightarrow> int \<Rightarrow> string \<Rightarrow> AsyncEventCleanupService" where
  "NewAsyncEventCleanupService enabled interval maxCount stalePendingAfter baseURL =
     \<lparr>CleanupEnabled = enabled,
      CleanupInterval = (if interval \<le> 0 then DefaultAsyncEventCleanupInterval else interval),
      CleanupMaxCount = (if maxCount \<le> 0 then DefaultAsyncEventCleanupMaxCount else maxCount),
      StalePendingAfter = (if stalePendingAfter \<le> 0 then DefaultAsyncEventStalePendingAfter else stalePendingAfter),
      CleanupBaseURL = resolveOrigin baseURL\<rparr>"

text \<open>The token of a failed event.\<close>

definition NilUUID :: string where
  "NilUUID = ''00000000-0000-0000-0000-000000000000''"

definition staleBaseURL :: "string \<Rightarrow> ScimAsyncEvent \<Rightarrow> string" where
  "staleBaseURL origin event =
     (if Contains origin ''/ws/'' \<or> HasSuffix origin ''/scim/v2'' then origin
      else if EventWorkspaceID event \<noteq> NilUUID then origin @ ''/ws/'' @ EventWorkspaceID event @ ''/scim/v2''
      else origin @ ''/scim/v2'')"

definition staleErrorSET :: "ext \<Rightarrow> ScimAsyncEvent \<Rightarrow> string \<Rightarrow> int \<Rightarrow> string \<Rightarrow> string" where
  "staleErrorSET L event baseOrigin iat jti =
     (let upperMethod = (if ToUpper L (Operation event) = [] then ''POST'' else ToUpper L (Operation event));
          errResp = [(''schemas'', JArr [JStr ''urn:ietf:params:scim:api:messages:2.0:Error'']), (''status'', JStr ''500''),
             (''detail'', JStr StalePendingTimeoutDetail)];
          baseURL = staleBaseURL (resolveOrigin baseOrigin) event;
          (location, sub) = (case ResourceID event of
              None \<Rightarrow> ([], [])
            | Some rid \<Rightarrow> if rid = NilUUID then ([], []) else
                (let uri = resourceURI L baseURL (ResourceType event) rid in
                 ([(''location'', JStr uri)], [(''sub_id'', JObj [(''format'', JStr ''uri''), (''uri'', JStr uri)])])));
          asyncResp = [(''status'', JStr ''500''), (''method'', JStr upperMethod), (''response'', JObj errResp)] @ location in
      marshal (JObj
        ([(''iss'', JStr baseURL), (''iat'', JNum (itoa_int (Unix iat))), (''jti'', JStr jti), (''txn'', JStr (TxnID event)),
          (''events'', JObj [(AsyncRespEventURN, JObj asyncResp)])] @ sub)))"

definition BuildStalePendingErrorSET :: "ext \<Rightarrow> ScimAsyncEvent \<Rightarrow> string \<Rightarrow> (string \<Rightarrow> 'b prog) \<Rightarrow> 'b prog" where
  "BuildStalePendingErrorSET L event baseOrigin k =
     timeNow (\<lambda>iat. newUUID (\<lambda>jti. k (staleErrorSET L event baseOrigin iat jti)))"

primrec reapEach :: "ext \<Rightarrow> string \<Rightarrow> ScimAsyncEvent list \<Rightarrow> nat \<Rightarrow> nat prog" where
  "reapEach L baseURL [] reapedCount = Ret reapedCount"
| "reapEach L baseURL (event # events) reapedCount =
     BuildStalePendingErrorSET L event baseURL (\<lambda>errorSet. timeNow (\<lambda>completedAt.
       pbind (TransitionPendingToFailed (TxnID event) errorSet completedAt) (\<lambda>r.
         reapEach L baseURL events (reapedCount + (if r = Inr True then 1 else 0)))))"

definition ReapStalePendingOnce :: "ext \<Rightarrow> AsyncEventCleanupService \<Rightarrow> (db_error + nat) prog" where
  "ReapStalePendingOnce L svc =
     (if \<not> CleanupEnabled svc then Ret (Inr 0)
      else timeNow (\<lambda>now.
        pbind (FindStalePendingEvents (now - StalePendingAfter svc) 1000) (\<lambda>found. case found of
            Inl e \<Rightarrow> Ret (Inl e)
          | Inr events \<Rightarrow> pbind (reapEach L (CleanupBaseURL svc) events 0) (\<lambda>n. Ret (Inr n)))))"

primrec pruneEach :: "nat \<Rightarrow> int \<Rightarrow> string list \<Rightarrow> nat \<Rightarrow> nat prog" where
  "pruneEach fuel maxCount [] totalDeleted = Ret totalDeleted"
| "pruneEach fuel maxCount (ws # workspaceIDs) totalDeleted =
     pbind (DeleteOldEventsForWorkspace fuel ws maxCount) (\<lambda>(deleted, ok).
       pruneEach fuel maxCount workspaceIDs (if ok then totalDeleted + deleted else totalDeleted))"

definition CleanupTerminalOnce :: "nat \<Rightarrow> AsyncEventCleanupService \<Rightarrow> (prune_error + nat) prog" where
  "CleanupTerminalOnce fuel svc =
     (if \<not> CleanupEnabled svc then Ret (Inr 0)
      else (let maxCount = (if CleanupMaxCount svc \<le> 0 then DefaultAsyncEventCleanupMaxCount else CleanupMaxCount svc) in
        pbind (ListWorkspaceIDsExceedingEventCount maxCount) (\<lambda>ids. case ids of
            Inl e \<Rightarrow> Ret (Inl e)
          | Inr workspaceIDs \<Rightarrow> pbind (pruneEach fuel maxCount workspaceIDs 0) (\<lambda>n. Ret (Inr n)))))"

text \<open>One tick of \<^verbatim>\<open>Start\<close>; it drops the results.\<close>

definition cleanupCycle :: "nat \<Rightarrow> ext \<Rightarrow> AsyncEventCleanupService \<Rightarrow> unit prog" where
  "cleanupCycle fuel L svc = pbind (CleanupTerminalOnce fuel svc) (\<lambda>_. pbind (ReapStalePendingOnce L svc) (\<lambda>_. Ret ()))"

end
