(* ===== verification/CleanupProps.thy ===== *)
theory CleanupProps
  imports Cleanup UserProps
begin

text \<open>
  What a cycle of the cleanup leaves in the table of events.
\<close>

section \<open>Pruning\<close>

lemma newestEvents_filter: "newestEvents ws (filter P rows) = filter P (newestEvents ws rows)"
proof -
  have "filter (\<lambda>e. EventWorkspaceID e = ws \<and> terminal e) (filter P rows)
      = filter P (filter (\<lambda>e. EventWorkspaceID e = ws \<and> terminal e) rows)"
    by (auto intro: filter_cong)
  then show ?thesis unfolding newestEvents_def by (simp only: filter_sort rev_filter [symmetric])
qed

lemma newestEvents_set: "set (newestEvents ws rows) = {e \<in> set rows. EventWorkspaceID e = ws \<and> terminal e}"
  by (auto simp: newestEvents_def)

lemma newestEvents_distinct: "distinct (map TxnID rows) \<Longrightarrow> distinct (map TxnID (newestEvents ws rows))"
proof -
  assume "distinct (map TxnID rows)"
  then have "distinct rows" "inj_on TxnID (set rows)" by (auto simp: distinct_map)
  then show ?thesis by (auto simp: newestEvents_def distinct_map intro: inj_on_subset)
qed

text \<open>What is left when a workspace keeps its \<open>k\<close> newest events.\<close>

definition pruned :: "nat \<Rightarrow> string \<Rightarrow> ScimAsyncEvent list \<Rightarrow> ScimAsyncEvent list" where
  "pruned k ws rows = filter (\<lambda>e. EventWorkspaceID e = ws \<and> terminal e \<longrightarrow> e \<in> set (take k (newestEvents ws rows))) rows"

lemma newestEvents_other: "ws' \<noteq> ws \<Longrightarrow> newestEvents ws' (pruned k ws rows) = newestEvents ws' rows"
proof -
  assume "ws' \<noteq> ws"
  then have "filter (\<lambda>e. EventWorkspaceID e = ws \<and> terminal e \<longrightarrow> e \<in> set (take k (newestEvents ws rows))) (newestEvents ws' rows)
      = newestEvents ws' rows"
    by (intro filter_True) (auto simp: newestEvents_set)
  then show ?thesis by (simp add: pruned_def newestEvents_filter)
qed

lemma in_drop:
  assumes "distinct (map TxnID xs)" "e \<in> set xs"
  shows "TxnID e \<in> TxnID ` set (drop k xs) \<longleftrightarrow> e \<notin> set (take k xs)"
proof -
  have d: "distinct (map TxnID (take k xs @ drop k xs))" and m: "e \<in> set (take k xs @ drop k xs)" using assms by simp_all
  then show ?thesis unfolding map_append distinct_append set_append by auto
qed

text \<open>One batch deletes the events after the first \<open>k\<close>, at most \<open>n\<close> of them.\<close>

lemma batch_rest:
  assumes "distinct (map TxnID xs)"
  shows "filter (\<lambda>e. TxnID e \<notin> TxnID ` set (take n (drop k xs))) xs = take k xs @ drop (k + n) xs"
proof -
  have split: "xs = take k xs @ take n (drop k xs) @ drop (k + n) xs"
    by (metis append_take_drop_id drop_drop add.commute)
  have d: "distinct (map TxnID (take k xs @ take n (drop k xs) @ drop (k + n) xs))" using assms split by metis
  have "filter (\<lambda>e. TxnID e \<notin> TxnID ` set (take n (drop k xs))) (take k xs) = take k xs"
    "filter (\<lambda>e. TxnID e \<notin> TxnID ` set (take n (drop k xs))) (drop (k + n) xs) = drop (k + n) xs"
    by (rule filter_True, use d in auto)+
  moreover have "filter (\<lambda>e. TxnID e \<notin> TxnID ` set (take n (drop k xs))) (take n (drop k xs)) = []"
    by (simp add: filter_empty_conv)
  ultimately have "filter (\<lambda>e. TxnID e \<notin> TxnID ` set (take n (drop k xs))) (take k xs @ take n (drop k xs) @ drop (k + n) xs)
      = take k xs @ drop (k + n) xs"
    by simp
  then show ?thesis using split by metis
qed

lemma batch_count:
  assumes "distinct (map TxnID rows)" "set ys \<subseteq> set (newestEvents ws rows)" "distinct (map TxnID ys)"
  shows "length (filter (\<lambda>e. EventWorkspaceID e = ws \<and> TxnID e \<in> TxnID ` set ys) rows) = length ys"
proof -
  have ys: "y \<in> set rows \<and> EventWorkspaceID y = ws" if "y \<in> set ys" for y
    using that assms(2) by (auto simp: newestEvents_set)
  have inj: "inj_on TxnID (set rows)" and dr: "distinct rows" using assms(1) by (simp_all add: distinct_map)
  have "e \<in> set ys" if "e \<in> set rows" "TxnID e \<in> TxnID ` set ys" for e
  proof -
    from that(2) obtain y where "y \<in> set ys" "TxnID e = TxnID y" by blast
    then show ?thesis using that(1) ys inj_onD [OF inj, of e y] by simp
  qed
  then have "set (filter (\<lambda>e. EventWorkspaceID e = ws \<and> TxnID e \<in> TxnID ` set ys) rows) = set ys"
    unfolding set_filter using ys by blast
  moreover have "distinct ys" using assms(3) by (simp add: distinct_map)
  ultimately have "card (set ys) = length (filter (\<lambda>e. EventWorkspaceID e = ws \<and> TxnID e \<in> TxnID ` set ys) rows)"
    using distinct_card [OF distinct_filter [OF dr]] by metis
  with \<open>distinct ys\<close> show ?thesis by (simp add: distinct_card)
qed

lemma pruneBatches_run:
  assumes "distinct (map TxnID (event_rows s))" "0 \<le> maxCount"
    and "length (newestEvents ws (event_rows s)) - nat maxCount < 5000 * fuel"
  shows "run D (pruneBatches fuel ws maxCount n) s =
    ((n + (length (event_rows s) - length (pruned (nat maxCount) ws (event_rows s))), True),
     s\<lparr>event_rows := pruned (nat maxCount) ws (event_rows s)\<rparr>)"
  using assms
proof (induction fuel arbitrary: n s)
  case (Suc fuel)
  let ?rows = "event_rows s" and ?k = "nat maxCount"
  let ?N = "newestEvents ws ?rows" and ?old = "TxnID ` set (take 5000 (drop ?k (newestEvents ws ?rows)))"
  define rows' where "rows' = filter (\<lambda>e. \<not> (EventWorkspaceID e = ws \<and> TxnID e \<in> ?old)) ?rows"
  have d: "distinct (map TxnID ?N)" by (rule newestEvents_distinct [OF Suc.prems(1)])
  have N': "newestEvents ws rows' = take ?k ?N @ drop (?k + 5000) ?N"
  proof -
    have "newestEvents ws rows' = filter (\<lambda>e. TxnID e \<notin> ?old) ?N"
      unfolding rows'_def newestEvents_filter by (rule filter_cong) (auto simp: newestEvents_set)
    then show ?thesis using batch_rest [OF d] by simp
  qed
  have same: "pruned ?k ws rows' = pruned ?k ws ?rows"
  proof -
    have t: "take ?k (newestEvents ws rows') = take ?k ?N" using N' by (cases "length ?N \<le> ?k") (simp_all add: min_def)
    have "\<not> (EventWorkspaceID e = ws \<and> TxnID e \<in> ?old)" if "e \<in> set ?rows"
      "EventWorkspaceID e = ws \<and> terminal e \<longrightarrow> e \<in> set (take ?k ?N)" for e
    proof
      assume e: "EventWorkspaceID e = ws \<and> TxnID e \<in> ?old"
      then obtain e' where e': "e' \<in> set (drop ?k ?N)" "TxnID e = TxnID e'" by (auto dest: in_set_takeD)
      then have "e' \<in> set ?N" by (meson in_set_dropD)
      then have "e' \<in> set ?rows" "terminal e'" by (simp_all add: newestEvents_set)
      then have "e = e'" using that(1) e' Suc.prems(1) by (metis distinct_map inj_onD)
      then have "e \<in> set (take ?k ?N)" using that(2) e \<open>terminal e'\<close> by simp
      then show False using in_drop [OF d \<open>e' \<in> set ?N\<close>] e' \<open>e = e'\<close> by blast
    qed
    then show ?thesis unfolding pruned_def t by (auto simp: rows'_def intro: filter_cong)
  qed
  have count: "length (filter (\<lambda>e. EventWorkspaceID e = ws \<and> TxnID e \<in> ?old) ?rows) = min 5000 (length ?N - ?k)"
  proof -
    have "set (take 5000 (drop ?k ?N)) \<subseteq> set ?N" by (meson in_set_dropD in_set_takeD subsetI)
    moreover have "distinct (map TxnID (take 5000 (drop ?k ?N)))"
      using d by (simp add: take_map [symmetric] drop_map [symmetric])
    ultimately show ?thesis using batch_count [OF Suc.prems(1)] by simp
  qed
  have step: "exec D (PruneEvents ws maxCount DefaultEventPruneBatchSize) s
      = (Affected (min 5000 (length ?N - ?k)), s\<lparr>event_rows := rows'\<rparr>)"
    unfolding exec.simps Let_def limitOffset_def DefaultEventPruneBatchSize_def rows'_def using count by simp
  have total: "length rows' + min 5000 (length ?N - ?k) = length ?rows"
    using count sum_length_filter_compl [of "\<lambda>e. EventWorkspaceID e = ws \<and> TxnID e \<in> ?old" ?rows] by (simp add: rows'_def)
  show ?case
  proof (cases "length ?N - ?k < 5000")
    case True
    have "pruned ?k ws ?rows = rows'"
    proof -
      have "newestEvents ws rows' = take ?k ?N" using True N' by simp
      then have "take ?k (newestEvents ws rows') = newestEvents ws rows'" by (simp add: min_def)
      then have "pruned ?k ws rows' = rows'"
        unfolding pruned_def by (intro filter_True) (simp add: newestEvents_set)
      with same show ?thesis by simp
    qed
    then show ?thesis using True step total by (simp add: DefaultEventPruneBatchSize_def del: exec.simps)
  next
    case False
    let ?s = "s\<lparr>event_rows := rows'\<rparr>"
    have "distinct (map TxnID (event_rows ?s))" using Suc.prems(1) by (simp add: rows'_def distinct_map inj_on_def)
    moreover have "length (newestEvents ws (event_rows ?s)) - nat maxCount < 5000 * fuel" using False N' Suc.prems(3) by simp
    ultimately have "run D (pruneBatches fuel ws maxCount (n + 5000)) ?s =
        ((n + 5000 + (length rows' - length (pruned ?k ws rows')), True), ?s\<lparr>event_rows := pruned ?k ws rows'\<rparr>)"
      using Suc.IH [of ?s "n + 5000"] Suc.prems(2) by simp
    moreover have "length (pruned ?k ws rows') \<le> length rows'" by (simp add: pruned_def)
    ultimately show ?thesis using False step total same by (simp add: DefaultEventPruneBatchSize_def del: exec.simps)
  qed
qed simp

section \<open>All workspaces\<close>

text \<open>Every workspace of a list keeps its \<open>k\<close> newest events.\<close>

definition prunedAll :: "nat \<Rightarrow> string set \<Rightarrow> ScimAsyncEvent list \<Rightarrow> ScimAsyncEvent list" where
  "prunedAll k W rows =
     filter (\<lambda>e. EventWorkspaceID e \<in> W \<and> terminal e \<longrightarrow> e \<in> set (take k (newestEvents (EventWorkspaceID e) rows))) rows"

lemma prunedAll_insert:
  assumes "ws \<notin> W"
  shows "prunedAll k W (pruned k ws rows) = prunedAll k (insert ws W) rows"
proof -
  have "prunedAll k W (pruned k ws rows)
      = filter (\<lambda>e. EventWorkspaceID e \<in> W \<and> terminal e \<longrightarrow> e \<in> set (take k (newestEvents (EventWorkspaceID e) rows)))
          (pruned k ws rows)"
    unfolding prunedAll_def
  proof (rule filter_cong [OF refl])
    fix e
    show "(EventWorkspaceID e \<in> W \<and> terminal e \<longrightarrow> e \<in> set (take k (newestEvents (EventWorkspaceID e) (pruned k ws rows))))
        = (EventWorkspaceID e \<in> W \<and> terminal e \<longrightarrow> e \<in> set (take k (newestEvents (EventWorkspaceID e) rows)))"
      using assms newestEvents_other [of "EventWorkspaceID e" ws k rows] by (cases "EventWorkspaceID e = ws") simp_all
  qed
  also have "\<dots> = prunedAll k (insert ws W) rows"
    unfolding prunedAll_def pruned_def filter_filter using assms by (intro filter_cong) auto
  finally show ?thesis .
qed

lemma distinct_pruned: "distinct (map TxnID rows) \<Longrightarrow> distinct (map TxnID (pruned k ws rows))"
  by (simp add: pruned_def distinct_map_filter)

lemma length_pruned: "length (pruned k ws rows) \<le> length rows"
  by (simp add: pruned_def)

lemma length_prunedAll: "length (prunedAll k W rows) \<le> length rows"
  by (simp add: prunedAll_def)

lemma length_newest: "length (newestEvents ws rows) \<le> length rows"
  by (simp add: newestEvents_def)

lemma pruneEach_run:
  assumes "distinct (map TxnID (event_rows s))" "0 \<le> maxCount" "length (event_rows s) < 5000 * fuel" "distinct ids"
  shows "run D (pruneEach fuel maxCount ids n) s =
    (n + (length (event_rows s) - length (prunedAll (nat maxCount) (set ids) (event_rows s))),
     s\<lparr>event_rows := prunedAll (nat maxCount) (set ids) (event_rows s)\<rparr>)"
  using assms
proof (induction ids arbitrary: n s)
  case Nil
  then show ?case by (simp add: prunedAll_def)
next
  case (Cons ws ids)
  let ?k = "nat maxCount" and ?rows = "event_rows s"
  let ?s = "s\<lparr>event_rows := pruned ?k ws ?rows\<rparr>" and ?gone = "length ?rows - length (pruned ?k ws ?rows)"
  have "length (newestEvents ws ?rows) - ?k < 5000 * fuel"
    using length_newest [of ws ?rows] Cons.prems(3) by simp
  then have "run D (pruneEach fuel maxCount (ws # ids) n) s = run D (pruneEach fuel maxCount ids (n + ?gone)) ?s"
    using Cons.prems(1,2) by (simp add: run_pbind DeleteOldEventsForWorkspace_def pruneBatches_run)
  also have "\<dots> = (n + ?gone + (length (pruned ?k ws ?rows) - length (prunedAll ?k (set ids) (pruned ?k ws ?rows))),
      s\<lparr>event_rows := prunedAll ?k (set ids) (pruned ?k ws ?rows)\<rparr>)"
    using Cons.IH [of ?s "n + ?gone"] Cons.prems distinct_pruned length_pruned [of ?k ws ?rows] by simp
  finally show ?case
    using Cons.prems(4) length_pruned [of ?k ws ?rows] length_prunedAll [of ?k "set ids" "pruned ?k ws ?rows"]
    by (simp add: prunedAll_insert del: pruneEach.simps)
qed

lemma prunedAll_full:
  assumes "0 \<le> maxCount"
  shows "prunedAll (nat maxCount) (set (fullWorkspaces maxCount rows)) rows = prunedAll (nat maxCount) UNIV rows"
  unfolding prunedAll_def
proof (rule filter_cong)
  fix e assume e: "e \<in> set rows"
  have "e \<in> set (take (nat maxCount) (newestEvents (EventWorkspaceID e) rows))"
    if "terminal e" "EventWorkspaceID e \<notin> set (fullWorkspaces maxCount rows)"
  proof -
    have "length (newestEvents (EventWorkspaceID e) rows) \<le> nat maxCount"
      using that e assms by (auto simp: fullWorkspaces_def)
    then show ?thesis using e that(1) by (simp add: newestEvents_set)
  qed
  then show "(EventWorkspaceID e \<in> set (fullWorkspaces maxCount rows) \<and> terminal e \<longrightarrow>
        e \<in> set (take (nat maxCount) (newestEvents (EventWorkspaceID e) rows)))
      = (EventWorkspaceID e \<in> UNIV \<and> terminal e \<longrightarrow> e \<in> set (take (nat maxCount) (newestEvents (EventWorkspaceID e) rows)))"
    by auto
qed simp

text \<open>C18. A cleanup keeps of each workspace exactly the newest events that have ended, as many as configured, and every
  pending event; it changes nothing else, reports how many events it deleted, and comes to an end however many batches
  it takes.\<close>

theorem cleanup_keeps_newest:
  assumes "CleanupEnabled svc" "0 < CleanupMaxCount svc" and "distinct (map TxnID (event_rows s))"
    and "length (event_rows s) < 5000 * fuel"
    and "kept = filter (\<lambda>e. terminal e \<longrightarrow>
      e \<in> set (take (nat (CleanupMaxCount svc)) (newestEvents (EventWorkspaceID e) (event_rows s)))) (event_rows s)"
  shows "run D (CleanupTerminalOnce fuel svc) s =
    (Inr (length (event_rows s) - length kept), s\<lparr>event_rows := kept\<rparr>)"
proof -
  have "distinct (fullWorkspaces (CleanupMaxCount svc) (event_rows s))" by (simp add: fullWorkspaces_def)
  then show ?thesis using assms
    by (simp add: CleanupTerminalOnce_def ListWorkspaceIDsExceedingEventCount_def run_pbind pruneEach_run
        prunedAll_full Let_def) (simp add: prunedAll_def)
qed

section \<open>Events that stay pending\<close>

lemma pending_not_failed [simp]: "AsyncStatusFailed \<noteq> AsyncStatusPending" "AsyncStatusPending \<noteq> AsyncStatusFailed"
  by (simp_all add: AsyncStatusFailed_def AsyncStatusPending_def)

lemma run_clock: "run D (timeNow k) s = run D (k (clock s)) s"
  by (simp add: timeNow_def)

text \<open>An event that has failed at a time, with the token of the time and of an identifier.\<close>

definition staleFailed :: "ext \<Rightarrow> string \<Rightarrow> int \<Rightarrow> string \<Rightarrow> ScimAsyncEvent \<Rightarrow> ScimAsyncEvent" where
  "staleFailed L base t jti e =
     e\<lparr>EventStatus := AsyncStatusFailed, SetPayload := Some (staleErrorSET L e base t jti), CompletedAt := Some t\<rparr>"

text \<open>The events of a list fail, each with the token of an identifier of its own.\<close>

definition failEvents :: "ext \<Rightarrow> string \<Rightarrow> int \<Rightarrow> (string \<Rightarrow> string) \<Rightarrow> ScimAsyncEvent list \<Rightarrow> ScimAsyncEvent list \<Rightarrow> ScimAsyncEvent list" where
  "failEvents L base t jti es rows = map (\<lambda>e. if e \<in> set es then staleFailed L base t (jti (TxnID e)) e else e) rows"

lemma run_token: "run D (BuildStalePendingErrorSET L event base k) s
    = run D (k (staleErrorSET L event base (clock s) (fresh_uuid D (issued s)))) (s\<lparr>issued := fresh_uuid D (issued s) # issued s\<rparr>)"
  by (simp add: BuildStalePendingErrorSET_def Let_def timeNow_def newUUID_def)

lemma transition_row:
  assumes "distinct (map TxnID rows)" "e \<in> set rows" "EventStatus e = AsyncStatusPending"
  shows "map (\<lambda>r. if TxnID r = TxnID e \<and> EventStatus r = AsyncStatusPending
      then eventTransition AsyncStatusFailed None (Some (staleErrorSET L e base t j)) t r else r) rows
    = map (\<lambda>r. if r = e then staleFailed L base t j r else r) rows"
proof (rule map_cong [OF refl])
  fix r assume "r \<in> set rows"
  then have "TxnID r = TxnID e \<longleftrightarrow> r = e" using assms(1,2) by (auto simp: distinct_map dest: inj_onD)
  then show "(if TxnID r = TxnID e \<and> EventStatus r = AsyncStatusPending
      then eventTransition AsyncStatusFailed None (Some (staleErrorSET L e base t j)) t r else r)
    = (if r = e then staleFailed L base t j r else r)"
    using assms(3) by (auto simp: eventTransition_def staleFailed_def)
qed

lemma staleFailed_fields [simp]: "TxnID (staleFailed L base t j e) = TxnID e" "EventStatus (staleFailed L base t j e) = AsyncStatusFailed"
  by (simp_all add: staleFailed_def)

lemma failEvents_step:
  assumes "distinct (map TxnID (e # es))" "\<forall>x \<in> set (e # es). EventStatus x = AsyncStatusPending"
  shows "failEvents L base t jti es (map (\<lambda>r. if r = e then staleFailed L base t j r else r) rows)
    = failEvents L base t (jti(TxnID e := j)) (e # es) rows"
proof -
  have "TxnID x \<noteq> TxnID e" "x \<noteq> staleFailed L base t j e" if "x \<in> set es" for x
    using assms that by (auto simp: image_iff)
  then show ?thesis using assms by (auto simp: failEvents_def)
qed

lemma reapEach_run:
  assumes "distinct (map TxnID (event_rows s))" and "distinct (map TxnID es)" and "set es \<subseteq> set (event_rows s)"
    and "\<forall>e \<in> set es. EventStatus e = AsyncStatusPending"
  shows "\<exists>jti ids. run D (reapEach L base es n) s =
    (n + length es, s\<lparr>event_rows := failEvents L base (clock s) jti es (event_rows s), issued := ids\<rparr>)"
  using assms
proof (induction es arbitrary: n s)
  case Nil
  then show ?case by (auto simp: failEvents_def intro: exI [of _ "issued s"])
next
  case (Cons e es)
  define j where "j = fresh_uuid D (issued s)"
  let ?rows = "map (\<lambda>r. if r = e then staleFailed L base (clock s) j r else r) (event_rows s)"
  let ?s = "s\<lparr>issued := j # issued s, event_rows := ?rows\<rparr>"
  have "e \<in> set (filter (\<lambda>r. TxnID r = TxnID e \<and> EventStatus r = AsyncStatusPending) (event_rows s))"
    using Cons.prems(3,4) by simp
  then have "filter (\<lambda>r. TxnID r = TxnID e \<and> EventStatus r = AsyncStatusPending) (event_rows s) \<noteq> []"
    by (metis empty_iff list.set(1))
  moreover have "e \<in> set (event_rows s)" "EventStatus e = AsyncStatusPending" using Cons.prems(3,4) by simp_all
  ultimately have run: "run D (reapEach L base (e # es) n) s = run D (reapEach L base es (n + 1)) ?s"
    using transition_row [OF Cons.prems(1), of e L base "clock s" j] unfolding j_def
    by (simp add: run_token run_clock run_pbind TransitionPendingToFailed_def del: map_eq_conv)
  have "event_rows ?s = ?rows" "map TxnID ?rows = map TxnID (event_rows s)" by simp_all
  then have d: "distinct (map TxnID (event_rows ?s))" using Cons.prems(1) by metis
  have "x \<noteq> e" if "x \<in> set es" for x using that Cons.prems(2) by auto
  then have sub: "set es \<subseteq> set (event_rows ?s)" using Cons.prems(3) by (auto simp: image_iff)
  have "distinct (map TxnID es)" "\<forall>e \<in> set es. EventStatus e = AsyncStatusPending" using Cons.prems(2,4) by simp_all
  from Cons.IH [OF d this(1) sub this(2), of "n + 1"]
  obtain jti ids where "run D (reapEach L base es (n + 1)) ?s =
      (n + 1 + length es, ?s\<lparr>event_rows := failEvents L base (clock ?s) jti es (event_rows ?s), issued := ids\<rparr>)"
    by blast
  then show ?case using run failEvents_step [OF Cons.prems(2,4), of L base "clock s" jti j "event_rows s"]
    by (intro exI [of _ "jti(TxnID e := j)"] exI [of _ ids]) (simp add: fun_upd_def)
qed

text \<open>C17. One pass of the reaper fails the up to 1000 oldest of the events that have been pending longer than configured, and
  no other event: each gets the error token of its own transaction, resource and method, and the time of completion.
  Younger events, events that have ended and the fields of an event that are not its outcome stay as they are, and so does
  every other table.\<close>

theorem stale_reaped:
  assumes "CleanupEnabled svc" and "distinct (map TxnID (event_rows s))"
    and "overdue = take 1000 (staleEvents (clock s - StalePendingAfter svc) (event_rows s))"
  shows "\<exists>jti ids. run D (ReapStalePendingOnce L svc) s =
    (Inr (length overdue),
     s\<lparr>event_rows := map (\<lambda>e. if e \<in> set overdue
         then e\<lparr>EventStatus := AsyncStatusFailed, SetPayload := Some (staleErrorSET L e (CleanupBaseURL svc) (clock s) (jti (TxnID e))),
           CompletedAt := Some (clock s)\<rparr> else e)
         (event_rows s), issued := ids\<rparr>)"
proof -
  let ?cutoff = "clock s - StalePendingAfter svc"
  have sub: "set overdue \<subseteq> set (staleEvents ?cutoff (event_rows s))" unfolding assms(3) by (rule set_take_subset)
  have stale: "set (staleEvents ?cutoff (event_rows s))
      = {e \<in> set (event_rows s). EventStatus e = AsyncStatusPending \<and> EventCreatedAt e < ?cutoff}"
    by (auto simp: staleEvents_def)
  have "inj_on TxnID (set (event_rows s))" "distinct (event_rows s)" using assms(2) by (simp_all add: distinct_map)
  then have "distinct (map TxnID (staleEvents ?cutoff (event_rows s)))"
    using inj_on_subset [of TxnID "set (event_rows s)" "set (staleEvents ?cutoff (event_rows s))"] stale
    by (auto simp: distinct_map staleEvents_def)
  then have "distinct (map TxnID overdue)" unfolding assms(3) take_map [symmetric] by (rule distinct_take)
  moreover have "set overdue \<subseteq> set (event_rows s)" "\<forall>e \<in> set overdue. EventStatus e = AsyncStatusPending"
    using sub stale by auto
  ultimately obtain jti ids where "run D (reapEach L (CleanupBaseURL svc) overdue 0) s =
      (0 + length overdue, s\<lparr>event_rows := failEvents L (CleanupBaseURL svc) (clock s) jti overdue (event_rows s), issued := ids\<rparr>)"
    using reapEach_run [OF assms(2)] by blast
  moreover have "run D (ReapStalePendingOnce L svc) s
      = (case run D (reapEach L (CleanupBaseURL svc) overdue 0) s of (n, s') \<Rightarrow> (Inr n, s'))"
    using assms(1,3) by (simp add: ReapStalePendingOnce_def run_clock run_pbind FindStalePendingEvents_def limitOffset_def)
  ultimately show ?thesis
    by (intro exI [of _ jti] exI [of _ ids]) (simp add: failEvents_def staleFailed_def)
qed

text \<open>A table of four events: one that has been pending too long, one that is still running, two that have ended.\<close>

definition sampleEvent :: "string \<Rightarrow> string \<Rightarrow> int \<Rightarrow> ScimAsyncEvent" where
  "sampleEvent txn status created = \<lparr>TxnID = txn, EventWorkspaceID = ''w1'', Operation = ''POST'', ResourceType = ''User'',
     ResourceID = None, EventStatus = status, SetPayload = None, EventCreatedAt = created, CompletedAt = None\<rparr>"

definition event_store :: store where
  "event_store = empty_store\<lparr>clock := 1000, event_rows :=
     [sampleEvent ''t1'' ''PENDING'' 1, sampleEvent ''t2'' ''PENDING'' 900, sampleEvent ''t3'' ''COMPLETED'' 2,
      sampleEvent ''t4'' ''FAILED'' 3]\<rparr>"

definition sampleCleanup :: AsyncEventCleanupService where
  "sampleCleanup = \<lparr>CleanupEnabled = True, CleanupInterval = 10, CleanupMaxCount = 1, StalePendingAfter = 300,
     CleanupBaseURL = ''http://h''\<rparr>"

theorem stale_reaped_witness:
  "fst (run sample_database (ReapStalePendingOnce plain_ext sampleCleanup) event_store) = Inr 1
   \<and> map EventStatus (event_rows (snd (run sample_database (ReapStalePendingOnce plain_ext sampleCleanup) event_store)))
     = [''FAILED'', ''PENDING'', ''COMPLETED'', ''FAILED'']"
proof -
  have stale: "[sampleEvent ''t1'' ''PENDING'' 1] = take 1000 (staleEvents (clock event_store - StalePendingAfter sampleCleanup) (event_rows event_store))"
    by (simp add: event_store_def sampleCleanup_def sampleEvent_def staleEvents_def AsyncStatusPending_def)
  have "CleanupEnabled sampleCleanup" by (simp add: sampleCleanup_def)
  moreover have "distinct (map TxnID (event_rows event_store))" by (simp add: event_store_def sampleEvent_def)
  ultimately obtain jti ids where "run sample_database (ReapStalePendingOnce plain_ext sampleCleanup) event_store =
    (Inr (length [sampleEvent ''t1'' ''PENDING'' 1]), event_store\<lparr>event_rows := map (\<lambda>e. if e \<in> set [sampleEvent ''t1'' ''PENDING'' 1]
         then e\<lparr>EventStatus := AsyncStatusFailed, SetPayload := Some (staleErrorSET plain_ext e (CleanupBaseURL sampleCleanup)
             (clock event_store) (jti (TxnID e))), CompletedAt := Some (clock event_store)\<rparr> else e)
         (event_rows event_store), issued := ids\<rparr>)"
    using stale_reaped [OF _ _ stale, of sample_database plain_ext] by blast
  then show ?thesis by (simp add: event_store_def sampleEvent_def AsyncStatusFailed_def)
qed

theorem cleanup_keeps_newest_witness:
  "run sample_database (CleanupTerminalOnce 1 sampleCleanup) event_store =
    (Inr 1, event_store\<lparr>event_rows := [sampleEvent ''t1'' ''PENDING'' 1, sampleEvent ''t2'' ''PENDING'' 900,
       sampleEvent ''t4'' ''FAILED'' 3]\<rparr>)"
proof -
  have rows: "event_rows event_store = [sampleEvent ''t1'' ''PENDING'' 1, sampleEvent ''t2'' ''PENDING'' 900,
      sampleEvent ''t3'' ''COMPLETED'' 2, sampleEvent ''t4'' ''FAILED'' 3]" by (simp add: event_store_def)
  have ws: "EventWorkspaceID (sampleEvent txn status created) = ''w1''" for txn status created by (simp add: sampleEvent_def)
  have fields: "TxnID (sampleEvent txn status created) = txn" "EventCreatedAt (sampleEvent txn status created) = created"
    "sampleEvent txn status created = sampleEvent txn' status' created' \<longleftrightarrow> txn = txn' \<and> status = status' \<and> created = created'"
    for txn status created txn' status' created' by (auto simp: sampleEvent_def)
  have ended: "terminal (sampleEvent txn status created) \<longleftrightarrow> status \<in> {''COMPLETED'', ''FAILED''}" for txn status created
    by (simp add: sampleEvent_def terminal_def AsyncStatusCompleted_def AsyncStatusFailed_def)
  have new: "newestEvents ''w1'' [sampleEvent ''t1'' ''PENDING'' 1, sampleEvent ''t2'' ''PENDING'' 900,
      sampleEvent ''t3'' ''COMPLETED'' 2, sampleEvent ''t4'' ''FAILED'' 3] = [sampleEvent ''t4'' ''FAILED'' 3, sampleEvent ''t3'' ''COMPLETED'' 2]"
    by (simp add: newestEvents_def ws ended fields)
  have kept: "filter (\<lambda>e. terminal e \<longrightarrow> e \<in> set (take (nat (CleanupMaxCount sampleCleanup))
        (newestEvents (EventWorkspaceID e) (event_rows event_store)))) (event_rows event_store)
      = [sampleEvent ''t1'' ''PENDING'' 1, sampleEvent ''t2'' ''PENDING'' 900, sampleEvent ''t4'' ''FAILED'' 3]"
    unfolding rows filter.simps ws new by (simp add: sampleCleanup_def ended fields)
  have "run sample_database (CleanupTerminalOnce 1 sampleCleanup) event_store =
    (Inr (length (event_rows event_store) - 3), event_store\<lparr>event_rows := [sampleEvent ''t1'' ''PENDING'' 1,
       sampleEvent ''t2'' ''PENDING'' 900, sampleEvent ''t4'' ''FAILED'' 3]\<rparr>)"
    using cleanup_keeps_newest [of sampleCleanup event_store 1, OF _ _ _ _ kept [symmetric]]
    by (simp add: event_store_def sampleCleanup_def sampleEvent_def)
  then show ?thesis by (simp add: event_store_def)
qed

end
