(* ===== verification/AsyncSystem.thy ===== *)
theory AsyncSystem
  imports UserHttpProps CleanupProps GroupInv GroupHttp BulkProcess Discovery
begin

text \<open>
  Everything that runs in the server and reads or changes data, as one system: the requests on users, groups, all
  resources and in bulk, with the workers that the asynchronous ones leave, polling clients and the cycles of the cleanup. What each
  of them does to the table of events.
\<close>

section \<open>Statements that leave the events of others alone\<close>

text \<open>Everything but a new event and pruning: an event that ends was pending.\<close>

definition keepsEvents :: "query \<Rightarrow> bool" where
  "keepsEvents q \<longleftrightarrow> (case q of InsertEvent e \<Rightarrow> False | PruneEvents ws k n \<Rightarrow> False | _ \<Rightarrow> True)"

abbreviation quiet :: "'a prog \<Rightarrow> bool" where
  "quiet \<equiv> only keepsEvents"

named_theorems quiet_intros

lemma quiet_Ask [quiet_intros]: "keepsEvents q \<Longrightarrow> (\<And>a. quiet (k a)) \<Longrightarrow> quiet (Ask q k)"
  by simp

declare only_intros [quiet_intros]

lemma works_quiet: "works p \<Longrightarrow> quiet p"
  by (erule only_mono) (auto simp: member_work_def keepsEvents_def split: query.splits)

lemma quiet_timeNow [quiet_intros]: "(\<And>t. quiet (k t)) \<Longrightarrow> quiet (timeNow k)"
  by (simp add: timeNow_def keepsEvents_def)

lemma quiet_newUUID [quiet_intros]: "(\<And>t. quiet (k t)) \<Longrightarrow> quiet (newUUID k)"
  by (simp add: newUUID_def keepsEvents_def)

lemma quiet_findUser [quiet_intros]: "(\<And>r. quiet (k r)) \<Longrightarrow> quiet (findUser uid ws k)"
  by (simp add: findUser_def keepsEvents_def)

lemma quiet_existsByUserName [quiet_intros]: "(\<And>r. quiet (k r)) \<Longrightarrow> quiet (existsByUserName n ws k)"
  by (simp add: existsByUserName_def keepsEvents_def)

lemma quiet_createUserRow [quiet_intros]: "(\<And>r. quiet (k r)) \<Longrightarrow> quiet (createUserRow L u k)"
  by (auto simp: createUserRow_def keepsEvents_def intro!: quiet_intros)

lemma quiet_updateUserRow [quiet_intros]: "(\<And>r. quiet (k r)) \<Longrightarrow> quiet (updateUserRow L u k)"
  by (auto simp: updateUserRow_def keepsEvents_def intro!: quiet_intros)

lemma quiet_deleteUserRow [quiet_intros]: "(\<And>r. quiet (k r)) \<Longrightarrow> quiet (deleteUserRow uid ws k)"
  by (simp add: deleteUserRow_def keepsEvents_def)

lemma quiet_touchWorkspace [quiet_intros]: "quiet k \<Longrightarrow> quiet (touchWorkspace ws k)"
  by (auto simp: touchWorkspace_def keepsEvents_def intro!: quiet_intros)

lemma quiet_deleteByMemberValue [quiet_intros]: "(\<And>r. quiet (k r)) \<Longrightarrow> quiet (deleteByMemberValue v k)"
  by (simp add: deleteByMemberValue_def keepsEvents_def)

lemma quiet_getUserGroups [quiet_intros]: "(\<And>r. quiet (k r)) \<Longrightarrow> quiet (getUserGroups uid base k)"
  by (simp add: getUserGroups_def findGroupRefs_def keepsEvents_def)

lemma quiet_getUserGroupsBatch [quiet_intros]: "(\<And>r. quiet (k r)) \<Longrightarrow> quiet (getUserGroupsBatch us base k)"
  by (auto simp: getUserGroupsBatch_def findGroupRefs_def keepsEvents_def split: sum.split)

lemma quiet_countUsers [quiet_intros]: "(\<And>r. quiet (k r)) \<Longrightarrow> quiet (countUsers ws w args k)"
  by (simp add: countUsers_def keepsEvents_def)

lemma quiet_listUsers [quiet_intros]: "(\<And>r. quiet (k r)) \<Longrightarrow> quiet (listUsers L ws w args col dir off m k)"
  by (simp add: listUsers_def keepsEvents_def)

lemma quiet_resolveManagerMetadata [quiet_intros]: "(\<And>u. quiet (k u)) \<Longrightarrow> quiet (resolveManagerMetadata L u ws base k)"
  by (auto simp: resolveManagerMetadata_def Let_def intro!: quiet_intros split: option.split sum.split)

lemma quiet_loadUser [quiet_intros]: "(\<And>u. quiet (k u)) \<Longrightarrow> quiet (loadUser ws uid im k)"
  by (auto simp: loadUser_def intro!: quiet_intros split: option.split sum.split)

lemma quiet_storeNewUser [quiet_intros]: "quiet (storeNewUser L ws u)"
  by (auto simp: storeNewUser_def intro!: quiet_intros split: sum.split)

lemma quiet_storeUser [quiet_intros]: "quiet (storeUser L ws u)"
  by (auto simp: storeUser_def intro!: quiet_intros split: sum.split)

lemma quiet_checkUserName [quiet_intros]: "quiet k \<Longrightarrow> quiet (checkUserName L ws old new k)"
  by (auto simp: checkUserName_def intro!: quiet_intros split: sum.split bool.split)

lemma quiet_executeCreateUser [quiet_intros]: "quiet (executeCreateUser L ws base body)"
  by (auto simp: executeCreateUser_def Let_def intro!: quiet_intros split: sum.split bool.split)

lemma quiet_executeReplaceUser [quiet_intros]: "quiet (executeReplaceUser L ws uid base body im)"
  by (auto simp: executeReplaceUser_def Let_def intro!: quiet_intros split: sum.split)

lemma quiet_executePatchUser [quiet_intros]: "quiet (executePatchUser L ws uid base ops im)"
  by (auto simp: executePatchUser_def Let_def intro!: quiet_intros split: sum.split)

lemma quiet_executeDeleteUser [quiet_intros]: "quiet (executeDeleteUser ws uid im)"
  by (auto simp: executeDeleteUser_def intro!: quiet_intros split: sum.split)

lemma quiet_buildSETJson [quiet_intros]: "(\<And>t. quiet (k t)) \<Longrightarrow> quiet (buildSETJson L base txn rt rid method res paths k)"
  by (auto simp: buildSETJson_def Let_def intro!: quiet_intros split: prod.split)

lemma quiet_buildErrorSETJson [quiet_intros]: "(\<And>t. quiet (k t)) \<Longrightarrow> quiet (buildErrorSETJson L base txn rt rid method e k)"
  by (auto simp: buildErrorSETJson_def Let_def intro!: quiet_intros split: prod.split)

lemma quiet_updateEvent [quiet_intros]: "quiet k \<Longrightarrow> quiet (updateEvent txn st rid p k)"
  by (auto simp: updateEvent_def keepsEvents_def intro!: quiet_intros)

lemma quiet_release [quiet_intros]: "quiet release"
  by (simp add: release_def keepsEvents_def)

lemma quiet_asyncWorker [quiet_intros]: "quiet op' \<Longrightarrow> quiet (asyncWorker L ws base txn rt init method op')"
  by (auto simp: asyncWorker_def recordFailure_def Let_def keepsEvents_def intro!: quiet_intros split: sum.split)

section \<open>Groups\<close>

lemma quiet_command [quiet_intros]: "keepsEvents q \<Longrightarrow> quiet (command q)"
  by (simp add: command_def)

lemma quiet_memberGroup [quiet_intros]: "(\<And>r. quiet (k r)) \<Longrightarrow> quiet (memberGroup gid ws k)"
  by (auto simp: memberGroup_def intro!: quiet_intros works_quiet [OF works_statements(1)])

lemma quiet_rows [quiet_intros]:
  "quiet (createGroupRow g)" "quiet (updateGroupRow g)" "quiet (deleteGroupRow gid ws)" "quiet (deleteMembersByValue v)"
  "quiet (countGroups ws w args)" "quiet (listGroups L ws w args col dir off m)"
  by (auto simp: createGroupRow_def updateGroupRow_def deleteGroupRow_def deleteMembersByValue_def countGroups_def
      listGroups_def command_def timeNow_def keepsEvents_def Let_def intro!: only_andThen)

lemmas quiet_work [quiet_intros] = works_statements [THEN works_quiet] works_addDistinct [THEN works_quiet]
  works_reload [THEN works_quiet] works_loadGroup [THEN works_quiet] works_patchOp [THEN works_quiet]
  works_addMember [THEN works_quiet]

lemma quiet_inTransaction [quiet_intros]: "quiet p \<Longrightarrow> quiet (inTransaction p)"
  by (auto simp: inTransaction_def keepsEvents_def intro!: quiet_intros split: sum.split)

lemma quiet_transactions [quiet_intros]:
  "quiet (createGroupTx L ws nm e ms)" "quiet (replaceGroupTx L ws gid input im)" "quiet (patchGroupTx L ws gid ops im)"
  by (auto simp: createGroupTx_def replaceGroupTx_def patchGroupTx_def storeChanged_def checkMemberTypeImmutability_def
      groupNameTaken_def Let_def intro!: quiet_intros)

lemma quiet_groups [quiet_intros]:
  "quiet (executeCreateGroup L ws input)" "quiet (executeReplaceGroup L ws gid input im)"
  "quiet (executePatchGroup L ws gid ops im)" "quiet (executeDeleteGroup ws gid im)"
  by (auto simp: executeCreateGroup_def executeReplaceGroup_def executePatchGroup_def executeDeleteGroup_def
      intro!: quiet_intros split: sum.split)

section \<open>Bulk requests\<close>

lemma quiet_deleteCreated: "quiet k \<Longrightarrow> quiet (deleteCreated r ws k)"
  by (auto simp: deleteCreated_def intro!: quiet_intros split: bulkResourceType.split)

lemma quiet_rollbackRecord [quiet_intros]: "quiet (rollbackRecord ws i err st)"
  by (auto simp: rollbackRecord_def intro!: quiet_deleteCreated split: option.split)

lemma quiet_addDeferredMembers [quiet_intros]: "quiet (addDeferredMembers L gid ws ids ms)"
  by (auto simp: addDeferredMembers_def Let_def intro!: quiet_intros)

lemma quiet_fixManager [quiet_intros]: "quiet (fixManager L ws base fx mgr st)"
  by (auto simp: fixManager_def Let_def intro!: quiet_intros split: option.split sum.split)

lemma quiet_applyFixup [quiet_intros]: "quiet (applyFixup L ws base fx st)"
  by (auto simp: applyFixup_def intro!: quiet_intros split: deferred.split)

lemma quiet_eachDo [quiet_intros]: "(\<And>x st. quiet (f x st)) \<Longrightarrow> quiet (eachDo f xs st)"
  by (induction xs arbitrary: st) (auto intro!: only_pbind)

lemma quiet_cascadePass [quiet_intros]: "quiet (cascadePass ws is sc)"
proof (induction "is" arbitrary: sc)
  case (Cons i "is")
  then show ?case by (auto intro!: quiet_intros split: prod.split option.split)
qed simp

lemma quiet_cascade [quiet_intros]: "quiet (cascade fuel ws st)"
  by (induction fuel arbitrary: st) (auto intro!: quiet_intros)

lemma quiet_fixups [quiet_intros]: "quiet (applyDeferredBulkFixups L ws base fixups st)"
  by (auto simp: applyDeferredBulkFixups_def intro!: quiet_intros)

lemma quiet_onTarget: "(\<And>t. quiet (k t)) \<Longrightarrow> quiet (onTarget L result path k)"
  by (auto simp: onTarget_def split: sum.split)

lemma quiet_versions [quiet_intros]:
  "quiet p \<Longrightarrow> quiet (fromUser p)" "quiet q \<Longrightarrow> quiet (answerVersion result base target q)"
  "quiet r \<Longrightarrow> quiet (returnVersion f r)"
  by (auto simp: fromUser_def answerVersion_def returnVersion_def intro!: quiet_intros)

lemma quiet_kind [quiet_intros]: "quiet p \<Longrightarrow> quiet q \<Longrightarrow> quiet (case t of BulkUsers \<Rightarrow> p | BulkGroups \<Rightarrow> q)"
  by (simp split: bulkResourceType.split)

lemma quiet_bulk_operations [quiet_intros]:
  "quiet (handleBulkPut L result path data v ws base)" "quiet (handleBulkPatch L result path data v ws base)"
  "quiet (handleBulkDelete L result path v ws)"
  by (auto simp: handleBulkPut_def handleBulkPatch_def handleBulkDelete_def Let_def intro!: quiet_onTarget quiet_intros)

lemma quiet_bulk_post [quiet_intros]: "quiet (handleBulkPost L result i path data refs ws base bid ps)"
  by (auto simp: handleBulkPost_def intro!: quiet_intros split: sum.split bulkResourceType.split prod.split)

lemma quiet_processOperation [quiet_intros]: "quiet (processOperationInternal L base op i ws ids ps)"
  unfolding processOperationInternal_def Let_def by (auto intro!: quiet_intros)

lemma quiet_bulkStep: "quiet (bulkStep L ws base ops ps i st)"
  by (auto simp: bulkStep_def resolveReady_def Let_def intro!: quiet_intros split: option.split)

lemma quiet_bulkLoop: "quiet (bulkLoop L ws base n ops ps order st)"
  by (induction order arbitrary: st) (auto intro!: only_pbind quiet_bulkStep)

lemma quiet_runBulk [quiet_intros]: "quiet (runBulk L ws base n ops)"
  by (auto simp: runBulk_def Let_def intro!: quiet_intros quiet_bulkLoop)

section \<open>Searches\<close>

lemma quiet_loadMembers [quiet_intros]: "(\<And>gs. quiet (k gs)) \<Longrightarrow> quiet (loadMembers gs k)"
  by (induction gs arbitrary: k) (auto intro!: quiet_intros)

lemma quiet_queries:
  "quiet (queryUsers L h r ws q flt sortBy sortOrder off n)" "quiet (queryGroups L h r ws q flt sortBy sortOrder off n)"
  by (auto simp: queryUsers_def queryGroups_def intro!: quiet_intros split: prod.split sum.split)

lemma quiet_pageOf [quiet_intros]: "quiet p \<Longrightarrow> (\<And>xs. quiet (k xs)) \<Longrightarrow> quiet (pageOf p k)"
  by (auto simp: pageOf_def intro!: only_pbind)

lemma quiet_rootResources [quiet_intros]: "quiet (rootResources L h r ws q flt pag)"
  by (auto simp: rootResources_def bothKinds_def sortedPage_def unsortedPage_def Let_def
      intro!: quiet_intros quiet_queries split: prod.split)

end
