(* ===== verification/AsyncProps.thy ===== *)
theory AsyncProps
  imports AsyncSystem "HOL-Library.Multiset"
begin

text \<open>
  Requests, their asynchronous workers, polling clients and the cleanup, interleaved: the outcome of an event.
\<close>

section \<open>Identifiers a program holds\<close>

text \<open>\<open>tame K F p\<close>: \<open>p\<close> inserts an event only under an identifier of \<open>F\<close> or one that it is given meanwhile, each once,
  and prunes the ended events of a workspace only after the first \<open>K\<close>.\<close>

primrec tame :: "int \<Rightarrow> string set \<Rightarrow> 'a prog \<Rightarrow> bool" where
  "tame K F (Ret x) \<longleftrightarrow> True"
| "tame K F (Ask q k) \<longleftrightarrow> (case q of
      NewUUID \<Rightarrow> \<forall>u. tame K (insert u F) (k (Uuid u))
    | InsertEvent e \<Rightarrow> TxnID e \<in> F \<and> (\<forall>a. tame K (F - {TxnID e}) (k a))
    | PruneEvents ws maxCount n \<Rightarrow> maxCount = K \<and> (\<forall>a. tame K F (k a))
    | _ \<Rightarrow> \<forall>a. tame K F (k a))"

lemma tame_Ask:
  assumes "keepsEvents q" and "\<And>a F'. F \<subseteq> F' \<Longrightarrow> tame K F' (k a)"
  shows "tame K F (Ask q k)"
proof -
  have "tame K F (k a)" "tame K (insert u F) (k a)" for a u using assms(2) by blast+
  then show ?thesis using assms(1) by (cases q) (simp_all add: keepsEvents_def)
qed

text \<open>Statements of the other kinds before a tame program, whatever it was given meanwhile.\<close>

lemma tame_prefix:
  "quiet p \<Longrightarrow> (\<And>x F'. F \<subseteq> F' \<Longrightarrow> tame K F' (f x)) \<Longrightarrow> tame K F (pbind p f)"
proof (induction p arbitrary: F)
  case (Ask q k)
  have "tame K F' (pbind (k a) f)" if "F \<subseteq> F'" for a F'
    using that Ask.prems by (intro Ask.IH [OF rangeI [of k a]]) auto
  then show ?case using Ask.prems(1) by (auto intro!: tame_Ask simp del: tame.simps(2))
qed simp

lemma pbind_Ret: "pbind p Ret = p"
  by (induction p) auto

lemma tame_quiet: "quiet p \<Longrightarrow> tame K F p"
  using tame_prefix [of p F K Ret] by (simp add: pbind_Ret)

lemma tame_mono: "tame K F p \<Longrightarrow> F \<subseteq> F' \<Longrightarrow> tame K F' p"
proof (induction p arbitrary: F F')
  case (Ask q k)
  have IH: "tame K G (k a) \<Longrightarrow> G \<subseteq> G' \<Longrightarrow> tame K G' (k a)" for a G G'
    using Ask.IH by blast
  have same: "tame K F (k a) \<Longrightarrow> tame K F' (k a)" "tame K (insert u F) (k a) \<Longrightarrow> tame K (insert u F') (k a)"
    "tame K (F - {u}) (k a) \<Longrightarrow> tame K (F' - {u}) (k a)" for a u
    using Ask.prems(2) by (auto elim!: IH)
  show ?case using Ask.prems by (cases q) (simp_all add: same subset_iff)
qed simp

lemma tame_pbind: "tame K F p \<Longrightarrow> (\<And>x F'. tame K F' (f x)) \<Longrightarrow> tame K F (pbind p f)"
proof (induction p arbitrary: F)
  case (Ask q k)
  then show ?case by (cases q) auto
qed simp

section \<open>Requests with their workers\<close>

text \<open>A request and, after its response, the worker it started.\<close>

definition withWorker :: "reply \<Rightarrow> unit prog" where
  "withWorker p = pbind p (\<lambda>(response, w). case w of None \<Rightarrow> Ret () | Some worker \<Rightarrow> worker)"

definition quietReply :: "reply \<Rightarrow> bool" where
  "quietReply p \<longleftrightarrow> (\<forall>K. tame K {} p) \<and> results (\<lambda>(response, w). case w of None \<Rightarrow> True | Some worker \<Rightarrow> quiet worker) p"

named_theorems reply_intros

lemma quietReply_pbind [reply_intros]:
  assumes "quiet p" and "\<And>x. quietReply (f x)"
  shows "quietReply (pbind p f)"
proof -
  have "tame K {} (pbind p f)" for K
    using assms by (intro tame_prefix) (auto simp: quietReply_def intro: tame_mono)
  then show ?thesis using assms(2) by (simp add: quietReply_def results_pbind)
qed

lemma quietReply_respond [reply_intros]: "quietReply (respond r)"
  by (simp add: quietReply_def)

lemma quietReply_Ask [reply_intros]: "keepsEvents q \<Longrightarrow> (\<And>a. quietReply (k a)) \<Longrightarrow> quietReply (Ask q k)"
  using quietReply_pbind [of "Ask q Ret" k] by (simp add: keepsEvents_def)

lemma tame_withWorker: "quietReply p \<Longrightarrow> tame K {} (withWorker p)"
proof -
  have "tame K F p \<Longrightarrow> results (\<lambda>(response, w). case w of None \<Rightarrow> True | Some worker \<Rightarrow> quiet worker) p \<Longrightarrow>
      tame K F (pbind p (\<lambda>(response, w). case w of None \<Rightarrow> Ret () | Some worker \<Rightarrow> worker))" for p :: reply and F
  proof (induction p arbitrary: F)
    case (Ask q k)
    then show ?case by (cases q) auto
  qed (auto split: option.splits intro: tame_quiet)
  then show "quietReply p \<Longrightarrow> tame K {} (withWorker p)" by (simp add: quietReply_def withWorker_def)
qed

lemma quietReply_dispatch [reply_intros]:
  "(\<And>t. quiet (op' t)) \<Longrightarrow> quietReply (dispatchAsyncOperation L ws base pref method rt init op')"
  by (auto simp: quietReply_def dispatchAsyncOperation_def newUUID_def timeNow_def intro!: quiet_intros results_intros)

lemma quietReply_cases [reply_intros]:
  "(b \<Longrightarrow> quietReply p) \<Longrightarrow> (\<not> b \<Longrightarrow> quietReply q) \<Longrightarrow> quietReply (if b then p else q)"
  "quietReply n \<Longrightarrow> (\<And>x. quietReply (f x)) \<Longrightarrow> quietReply (case z of None \<Rightarrow> n | Some x \<Rightarrow> f x)"
  "(\<And>x. quietReply (g x)) \<Longrightarrow> (\<And>y. quietReply (h y)) \<Longrightarrow> quietReply (case r of Inl x \<Rightarrow> g x | Inr y \<Rightarrow> h y)"
  "(\<And>a b. quietReply (k a b)) \<Longrightarrow> quietReply (case c of (a, b) \<Rightarrow> k a b)"
  "quietReply d \<Longrightarrow> (\<And>xs. quietReply (i xs)) \<Longrightarrow> quietReply (case v of JArr xs \<Rightarrow> i xs | _ \<Rightarrow> d)"
  by (simp_all split: option.split sum.split prod.split json.split)

lemma quietReply_steps [reply_intros]:
  "(\<And>t. quietReply (k1 t)) \<Longrightarrow> quietReply (timeNow k1)"
  "(\<And>x. quietReply (k2 x)) \<Longrightarrow> quietReply (findUser uid ws k2)"
  "(\<And>x. quietReply (k3 x)) \<Longrightarrow> quietReply (getUserGroups uid base k3)"
  "(\<And>x. quietReply (k4 x)) \<Longrightarrow> quietReply (getUserGroupsBatch us base k4)"
  "(\<And>x. quietReply (k5 x)) \<Longrightarrow> quietReply (countUsers ws w args k5)"
  "(\<And>x. quietReply (k6 x)) \<Longrightarrow> quietReply (listUsers L ws w args col dir off m k6)"
  "(\<And>x. quietReply (k7 x)) \<Longrightarrow> quietReply (memberGroup gid ws k7)"
  "(\<And>x. quietReply (k8 x)) \<Longrightarrow> quietReply (findEvent txn ws k8)"
  by (auto simp: timeNow_def findUser_def getUserGroups_def getUserGroupsBatch_def findGroupRefs_def countUsers_def listUsers_def
      memberGroup_def findEvent_def keepsEvents_def intro!: reply_intros works_quiet [OF works_statements(1)] split: sum.split)

lemma quietReply_loadMembers [reply_intros]: "(\<And>gs. quietReply (k gs)) \<Longrightarrow> quietReply (loadMembers gs k)"
  by (induction gs arbitrary: k) (auto intro!: reply_intros quiet_intros)

lemma quietReply_frame [reply_intros]:
  "(\<And>ws. quietReply (k1 ws)) \<Longrightarrow> quietReply (inWorkspace r k1)"
  "(\<And>u. quietReply (k2 u)) \<Longrightarrow> quietReply (withUserID L r k2)"
  "(\<And>b. quietReply (k3 b)) \<Longrightarrow> quietReply (withJSON r k3)"
  "(\<And>g. quietReply (k4 g)) \<Longrightarrow> quietReply (withGroupID L r k4)"
  by (auto simp: inWorkspace_def withUserID_def withJSON_def withGroupID_def intro!: reply_intros)

lemma quietReply_withGroupInput [reply_intros]: "(\<And>i. quietReply (k i)) \<Longrightarrow> quietReply (withGroupInput L r k)"
  by (auto simp: withGroupInput_def intro!: reply_intros)

lemma quietReply_userReply [reply_intros]: "quietReply (userReply L r u)"
  unfolding userReply_def by (intro reply_intros)

lemma quietReply_answerGroup [reply_intros]: "quiet p \<Longrightarrow> quietReply (answerGroup L r p)"
  unfolding answerGroup_def by (intro reply_intros)

lemma quiet_tokens [quiet_intros]:
  "quiet p \<Longrightarrow> quiet (userToken L r uid method paths p txn)" "quiet g \<Longrightarrow> quiet (groupToken L r known method paths g txn)"
  "quiet (createToken L r ws body txn)"
  by (auto simp: userToken_def groupToken_def createToken_def intro!: quiet_intros)

section \<open>The system\<close>

text \<open>What runs: the requests on users, groups, all resources and in bulk, synchronous or with the worker they leave, polling
  clients and cycles of the cleanup, each with its bound on the number of batches.\<close>

datatype activity =
    CreateUserRequest http_request | GetUserRequest http_request | ListUsersRequest http_request
  | SearchUsersRequest http_request | ReplaceUserRequest http_request | PatchUserRequest http_request
  | DeleteUserRequest http_request
  | CreateGroupRequest http_request | GetGroupRequest http_request | ListGroupsRequest http_request
  | SearchGroupsRequest http_request | ReplaceGroupRequest http_request | PatchGroupRequest http_request
  | DeleteGroupRequest http_request
  | BulkRequest bulk_request | RootSearchRequest string http_request | PollRequest http_request | CleanupTick nat

text \<open>How the server is set up.\<close>

record server =
  Crypto :: crypto
  Lib :: ext
  CursorKey :: string
  Conv :: "int \<Rightarrow> int"
  Kinds :: discovery
  Cleaner :: AsyncEventCleanupService

definition activityProgram :: "server \<Rightarrow> activity \<Rightarrow> unit prog" where
  "activityProgram V x =
     (let C = Crypto V; L = Lib V; key = CursorKey V in
      case x of
        CreateUserRequest r \<Rightarrow> withWorker (handleCreateUser L r)
      | GetUserRequest r \<Rightarrow> withWorker (handleGetUser L r)
      | ListUsersRequest r \<Rightarrow> withWorker (handleListUsers C L key r)
      | SearchUsersRequest r \<Rightarrow> withWorker (handleSearchUsers C L key (Conv V) r)
      | ReplaceUserRequest r \<Rightarrow> withWorker (handleReplaceUser L r)
      | PatchUserRequest r \<Rightarrow> withWorker (handlePatchUser L r)
      | DeleteUserRequest r \<Rightarrow> withWorker (handleDeleteUser L r)
      | CreateGroupRequest r \<Rightarrow> withWorker (handleCreateGroup L r)
      | GetGroupRequest r \<Rightarrow> withWorker (handleGetGroup L r)
      | ListGroupsRequest r \<Rightarrow> withWorker (handleListGroups C L key r)
      | SearchGroupsRequest r \<Rightarrow> withWorker (handleSearchGroups C L key (Conv V) r)
      | ReplaceGroupRequest r \<Rightarrow> withWorker (handleReplaceGroup L r)
      | PatchGroupRequest r \<Rightarrow> withWorker (handlePatchGroup L r)
      | DeleteGroupRequest r \<Rightarrow> withWorker (handleDeleteGroup L r)
      | BulkRequest r \<Rightarrow> withWorker (ProcessBulk L (Conv V) r)
      | RootSearchRequest method r \<Rightarrow> withWorker (RootSearch C L key (Conv V) (Kinds V) method r)
      | PollRequest r \<Rightarrow> withWorker (GetEvent L r)
      | CleanupTick fuel \<Rightarrow> cleanupCycle fuel L (Cleaner V))"

lemma quietReply_users:
  "quietReply (handleCreateUser L r)" "quietReply (handleGetUser L r)" "quietReply (handleListUsers C L key r)"
  "quietReply (handleReplaceUser L r)" "quietReply (handlePatchUser L r)" "quietReply (handleDeleteUser L r)"
  unfolding handleCreateUser_def handleGetUser_def handleListUsers_def handleReplaceUser_def handlePatchUser_def
    handleDeleteUser_def Let_def
  by (auto intro!: reply_intros quiet_intros)

lemma quietReply_groups:
  "quietReply (handleCreateGroup L r)" "quietReply (handleGetGroup L r)" "quietReply (handleListGroups C L key r)"
  "quietReply (handleReplaceGroup L r)" "quietReply (handlePatchGroup L r)" "quietReply (handleDeleteGroup L r)"
  unfolding handleCreateGroup_def handleGetGroup_def handleListGroups_def handleReplaceGroup_def handlePatchGroup_def
    handleDeleteGroup_def Let_def
  by (auto intro!: reply_intros quiet_intros)

lemma quietReply_others:
  "quietReply (handleSearchUsers C L key conv r)" "quietReply (handleSearchGroups C L key conv r)"
  "quietReply (ProcessBulk L conv b)" "quietReply (RootSearch C L key conv h method r)" "quietReply (GetEvent L r)"
  unfolding handleSearchUsers_def handleSearchGroups_def ProcessBulk_def RootSearch_def GetEvent_def bulkTooLarge_def Let_def
  by (auto intro!: reply_intros quiet_intros quietReply_users quietReply_groups)

text \<open>The number of ended events that each workspace keeps.\<close>

definition keptCount :: "AsyncEventCleanupService \<Rightarrow> int" where
  "keptCount svc = (if CleanupMaxCount svc \<le> 0 then DefaultAsyncEventCleanupMaxCount else CleanupMaxCount svc)"

lemma keptCount_pos: "0 < keptCount svc"
  by (simp add: keptCount_def DefaultAsyncEventCleanupMaxCount_def)

lemma tame_pruneBatches: "tame K F (pruneBatches fuel ws K n)"
  by (induction fuel arbitrary: n) (auto split: sum.split)

lemma tame_pruneEach: "tame K F (pruneEach fuel K ids n)"
  by (induction ids arbitrary: n F)
     (auto simp: DeleteOldEventsForWorkspace_def intro!: tame_pbind tame_pruneBatches split: prod.split)

lemma quiet_BuildStale [quiet_intros]: "(\<And>t. quiet (k t)) \<Longrightarrow> quiet (BuildStalePendingErrorSET L e base k)"
  by (auto simp: BuildStalePendingErrorSET_def Let_def intro!: quiet_intros)

lemma keepsEvents_cleanup [simp]:
  "keepsEvents (UpdateEvent txn status rid p t)" "keepsEvents (SelectStaleEvents t n)" "keepsEvents (SelectFullWorkspaces n)"
  by (simp_all add: keepsEvents_def)

lemma quiet_reapEach: "quiet (reapEach L base es n)"
proof (induction es arbitrary: n)
  case (Cons e es)
  then show ?case by (auto simp: TransitionPendingToFailed_def intro!: quiet_intros)
qed simp

lemma quiet_reap: "quiet (ReapStalePendingOnce L svc)"
  by (auto simp: ReapStalePendingOnce_def FindStalePendingEvents_def intro!: quiet_intros quiet_reapEach
      split: sum.split)

lemma tame_cleanup: "tame (keptCount svc) F (cleanupCycle fuel L svc)"
proof -
  have list: "quiet (ListWorkspaceIDsExceedingEventCount m)" for m
    by (simp add: ListWorkspaceIDsExceedingEventCount_def)
  have "tame (keptCount svc) G (CleanupTerminalOnce fuel svc)" for G
    unfolding CleanupTerminalOnce_def keptCount_def [symmetric] Let_def
    by (auto intro!: tame_prefix [OF list] tame_pbind [OF tame_pruneEach] split: sum.split)
  moreover have "tame (keptCount svc) G (ReapStalePendingOnce L svc)" for G by (rule tame_quiet [OF quiet_reap])
  ultimately show ?thesis unfolding cleanupCycle_def by (intro tame_pbind) simp_all
qed

lemma tame_activity: "tame (keptCount (Cleaner V)) {} (activityProgram V x)"
  by (cases x) (simp_all add: activityProgram_def Let_def tame_withWorker quietReply_users quietReply_groups
      quietReply_others tame_cleanup)

section \<open>The newest events\<close>

text \<open>The other events of the workspace of an event that have ended and are not older than it.\<close>

definition newerEnded :: "ScimAsyncEvent \<Rightarrow> ScimAsyncEvent list \<Rightarrow> ScimAsyncEvent list" where
  "newerEnded e rows = filter (\<lambda>x. EventWorkspaceID x = EventWorkspaceID e \<and> terminal x
     \<and> EventCreatedAt e \<le> EventCreatedAt x \<and> TxnID x \<noteq> TxnID e) rows"

lemma newestEvents_mset: "mset (newestEvents ws rows) = mset (filter (\<lambda>e. EventWorkspaceID e = ws \<and> terminal e) rows)"
  by (simp add: newestEvents_def)

lemma newestEvents_row: "x \<in> set (newestEvents ws rows) \<Longrightarrow> x \<in> set rows"
  by (simp add: newestEvents_set)

lemma newestEvents_sorted: "sorted_wrt (\<lambda>x y. EventCreatedAt y \<le> EventCreatedAt x) (newestEvents ws rows)"
  unfolding newestEvents_def sorted_wrt_rev by (simp add: sorted_wrt_map [symmetric])

lemma sorted_parts:
  assumes "x \<in> set (take k (newestEvents ws rows))" "y \<in> set (drop k (newestEvents ws rows))"
  shows "EventCreatedAt y \<le> EventCreatedAt x"
  using newestEvents_sorted [of ws rows] assms
  by (metis append_take_drop_id sorted_wrt_append)

text \<open>If as many events as are kept are not older than a time, neither is any that is kept.\<close>

lemma kept_newer:
  assumes "k \<le> length (filter (\<lambda>x. c \<le> EventCreatedAt x) (newestEvents ws rows))" and "x \<in> set (take k (newestEvents ws rows))"
  shows "c \<le> EventCreatedAt x"
proof (rule ccontr)
  let ?N = "newestEvents ws rows" and ?P = "\<lambda>x. c \<le> EventCreatedAt x"
  assume x: "\<not> ?P x"
  have "filter ?P (drop k ?N) = []" using sorted_parts [OF assms(2)] x by (fastforce simp: filter_empty_conv)
  then have "length (filter ?P ?N) = length (filter ?P (take k ?N))"
    by (metis append_Nil2 append_take_drop_id filter_append)
  also have "\<dots> < length (take k ?N)" using assms(2) x by (rule length_filter_less)
  also have "\<dots> \<le> k" by simp
  finally show False using assms(1) by simp
qed

text \<open>An event that has ended is in the table, or it was pruned: then as many newer ones are there as each workspace
  keeps.\<close>

definition kept :: "int \<Rightarrow> ScimAsyncEvent \<Rightarrow> ScimAsyncEvent list \<Rightarrow> bool" where
  "kept K e rows \<longleftrightarrow> e \<in> set rows \<or> TxnID e \<notin> TxnID ` set rows \<and> K \<le> int (length (newerEnded e rows))"

lemma kept_insert: "kept K e rows \<Longrightarrow> TxnID x \<noteq> TxnID e \<Longrightarrow> kept K e (rows @ [x])"
  by (auto simp: kept_def newerEnded_def)

text \<open>Ending a pending event changes no event that has ended.\<close>

lemma kept_map:
  assumes "kept K e rows" "terminal e" and f: "\<And>x. TxnID (f x) = TxnID x" "\<And>x. terminal x \<Longrightarrow> f x = x"
  shows "kept K e (map f rows)"
proof (cases "e \<in> set rows")
  case True
  then have "e \<in> set (map f rows)" using f(2) [OF assms(2)] by (metis image_eqI image_set)
  then show ?thesis by (simp add: kept_def)
next
  case False
  let ?P = "\<lambda>x. EventWorkspaceID x = EventWorkspaceID e \<and> terminal x
     \<and> EventCreatedAt e \<le> EventCreatedAt x \<and> TxnID x \<noteq> TxnID e"
  have "length (filter ?P rows) \<le> length (filter ?P (map f rows))"
    using f(2) by (induction rows) auto
  moreover have "TxnID ` set (map f rows) = TxnID ` set rows" using f(1) by (simp add: image_image)
  ultimately show ?thesis using assms(1) False by (auto simp: kept_def newerEnded_def)
qed

lemma prune_newer:
  assumes "distinct (map TxnID rows)" and ws: "EventWorkspaceID e = ws"
    and "k \<le> length (newestEvents ws rows)" and newer: "\<And>x. x \<in> set (take k (newestEvents ws rows)) \<Longrightarrow>
      EventCreatedAt e \<le> EventCreatedAt x \<and> TxnID x \<noteq> TxnID e"
  shows "k \<le> length (newerEnded e (filter (\<lambda>x. \<not> (EventWorkspaceID x = ws
    \<and> TxnID x \<in> TxnID ` set (take n (drop k (newestEvents ws rows))))) rows))" (is "k \<le> length (newerEnded e ?rows)")
proof -
  let ?N = "newestEvents ws rows"
  have d: "distinct (map TxnID ?N)" by (rule newestEvents_distinct [OF assms(1)])
  have "set (take k ?N) \<subseteq> set (newerEnded e ?rows)"
  proof
    fix x assume x: "x \<in> set (take k ?N)"
    then have "x \<in> set ?N" by (meson in_set_takeD)
    then have "x \<in> set rows" "EventWorkspaceID x = ws" "terminal x" "TxnID x \<notin> TxnID ` set (drop k ?N)"
      using x in_drop [OF d] by (auto simp: newestEvents_set)
    moreover have "set (take n (drop k ?N)) \<subseteq> set (drop k ?N)" by (rule set_take_subset)
    ultimately show "x \<in> set (newerEnded e ?rows)" using newer [OF x] ws by (auto simp: newerEnded_def)
  qed
  then have "card (set (take k ?N)) \<le> card (set (newerEnded e ?rows))" by (intro card_mono) simp_all
  also have "\<dots> \<le> length (newerEnded e ?rows)" by (rule card_length)
  also have "card (set (take k ?N)) = k"
    using d assms(3) by (subst distinct_card) (simp_all add: distinct_map)
  finally show ?thesis .
qed

lemma kept_prune:
  assumes "kept (int k) e rows" "terminal e" and d: "distinct (map TxnID rows)"
  shows "kept (int k) e (filter (\<lambda>x. \<not> (EventWorkspaceID x = ws
    \<and> TxnID x \<in> TxnID ` set (take n (drop k (newestEvents ws rows))))) rows)" (is "kept (int k) e ?rows")
proof -
  let ?N = "newestEvents ws rows"
  have sub: "set ?rows \<subseteq> set rows" by simp
  have inj: "x \<in> set rows \<Longrightarrow> e \<in> set rows \<Longrightarrow> TxnID x = TxnID e \<Longrightarrow> x = e" for x
    using d by (auto simp: distinct_map dest: inj_onD)
  consider (stays) "e \<in> set ?rows" | (other) "e \<notin> set rows" "EventWorkspaceID e \<noteq> ws"
    | (gone) "e \<notin> set rows" "EventWorkspaceID e = ws" | (pruned) "e \<in> set rows" "e \<notin> set ?rows"
    by blast
  then show ?thesis
  proof cases
    case stays
    then show ?thesis by (simp add: kept_def)
  next
    case other
    then have "newerEnded e ?rows = newerEnded e rows" by (auto simp: newerEnded_def intro!: filter_cong)
    then show ?thesis using assms(1) other sub by (auto simp: kept_def)
  next
    case gone
    let ?P = "\<lambda>x. EventCreatedAt e \<le> EventCreatedAt x"
    have no: "TxnID e \<notin> TxnID ` set rows" and count: "k \<le> length (newerEnded e rows)"
      using assms(1) gone(1) by (simp_all add: kept_def)
    have ne: "TxnID x \<noteq> TxnID e" if "x \<in> set rows" for x using no that by (metis imageI)
    have "newerEnded e rows = filter ?P (filter (\<lambda>x. EventWorkspaceID x = ws \<and> terminal x) rows)"
      unfolding newerEnded_def filter_filter by (rule filter_cong) (use ne gone(2) in auto)
    then have "mset (newerEnded e rows) = mset (filter ?P ?N)" by (simp only: mset_filter newestEvents_mset)
    then have len: "k \<le> length (filter ?P ?N)" using count mset_eq_length by metis
    then have "k \<le> length ?N" by (meson length_filter_le order_trans)
    moreover have "EventCreatedAt e \<le> EventCreatedAt x \<and> TxnID x \<noteq> TxnID e" if "x \<in> set (take k ?N)" for x
    proof -
      have "x \<in> set rows" using newestEvents_row [OF in_set_takeD [OF that]] .
      then show ?thesis using kept_newer [OF len that] ne by auto
    qed
    ultimately have "k \<le> length (newerEnded e ?rows)" by (rule prune_newer [OF d gone(2)])
    then show ?thesis using no sub by (auto simp: kept_def)
  next
    case pruned
    then have ws: "EventWorkspaceID e = ws" and "TxnID e \<in> TxnID ` set (take n (drop k ?N))" by auto
    then obtain y where y: "y \<in> set (drop k ?N)" "TxnID y = TxnID e" by (auto dest: in_set_takeD)
    then have "y \<in> set rows" using newestEvents_row [OF in_set_dropD [of y]] by blast
    then have e: "e \<in> set (drop k ?N)" using inj pruned(1) y by metis
    have dN: "distinct (map TxnID ?N)" by (rule newestEvents_distinct [OF d])
    have "k \<le> length ?N" using e by (cases "k \<le> length ?N") simp_all
    moreover have "EventCreatedAt e \<le> EventCreatedAt x \<and> TxnID x \<noteq> TxnID e" if "x \<in> set (take k ?N)" for x
    proof -
      have "TxnID x \<notin> TxnID ` set (drop k ?N)" using in_drop [OF dN in_set_takeD [OF that]] that by blast
      then have "TxnID x \<noteq> TxnID e" using e by (metis imageI)
      then show ?thesis using sorted_parts [OF that e] by blast
    qed
    ultimately have "k \<le> length (newerEnded e ?rows)" by (rule prune_newer [OF d ws])
    moreover have "TxnID e \<notin> TxnID ` set ?rows"
    proof
      assume "TxnID e \<in> TxnID ` set ?rows"
      then obtain x where "x \<in> set ?rows" "TxnID x = TxnID e" by (auto simp only: image_iff)
      then show False using inj [of x] pruned sub by auto
    qed
    ultimately show ?thesis by (simp add: kept_def)
  qed
qed

section \<open>The identifiers of events\<close>

text \<open>No two events have the same identifier, and none has one that a request still holds or one of \<open>X\<close>, which
  were given out before; \<open>F i\<close> is what request \<open>i\<close> holds.\<close>

definition events_ok :: "string set \<Rightarrow> ScimAsyncEvent list \<Rightarrow> string list \<Rightarrow> (nat \<Rightarrow> string set) \<Rightarrow> bool" where
  "events_ok X rows ids F \<longleftrightarrow> distinct (map TxnID rows) \<and> X \<union> TxnID ` set rows \<subseteq> set ids
     \<and> (\<forall>i. \<forall>x \<in> F i. x \<in> set ids \<and> x \<notin> X \<union> TxnID ` set rows) \<and> (\<forall>i j. \<forall>x \<in> F i. i \<noteq> j \<longrightarrow> x \<notin> F j)"

lemma events_okI:
  assumes "distinct (map TxnID rows)" "X \<union> TxnID ` set rows \<subseteq> set ids"
    and "\<And>i x. x \<in> F i \<Longrightarrow> x \<in> set ids \<and> x \<notin> X \<union> TxnID ` set rows" and "\<And>i j x. i \<noteq> j \<Longrightarrow> x \<in> F i \<Longrightarrow> x \<notin> F j"
  shows "events_ok X rows ids F"
  using assms by (simp add: events_ok_def)

lemma events_okD:
  assumes "events_ok X rows ids F"
  shows "distinct (map TxnID rows)" "X \<union> TxnID ` set rows \<subseteq> set ids"
    and "x \<in> F i \<Longrightarrow> x \<in> set ids \<and> x \<notin> X \<union> TxnID ` set rows" and "i \<noteq> j \<Longrightarrow> x \<in> F i \<Longrightarrow> x \<notin> F j"
  using assms by (simp_all add: events_ok_def)

lemma events_ok_given:
  assumes ok: "events_ok X rows ids F" and u: "u \<notin> set ids"
  shows "events_ok X rows (u # ids) (F(i := insert u (F i)))"
proof (rule events_okI)
  have no: "u \<notin> F j" for j using events_okD(3) [OF ok, of u j] u by blast
  show "x \<in> set (u # ids) \<and> x \<notin> X \<union> TxnID ` set rows" if "x \<in> (F(i := insert u (F i))) j" for j x
    using that events_okD(2) [OF ok] events_okD(3) [OF ok, of x j] u by (auto split: if_splits)
  show "x \<notin> (F(i := insert u (F i))) k" if "j \<noteq> k" "x \<in> (F(i := insert u (F i))) j" for j k x
    using that no events_okD(4) [OF ok, of j k x] by (auto split: if_splits)
  show "X \<union> TxnID ` set rows \<subseteq> set (u # ids)" using events_okD(2) [OF ok] by auto
qed (fact events_okD(1) [OF ok])

lemma events_ok_rows:
  assumes ok: "events_ok X rows ids F" and "distinct (map TxnID rows')" "TxnID ` set rows' \<subseteq> TxnID ` set rows"
  shows "events_ok X rows' ids F"
proof (rule events_okI)
  show "x \<in> set ids \<and> x \<notin> X \<union> TxnID ` set rows'" if "x \<in> F i" for i x
    using events_okD(3) [OF ok that] assms(3) by blast
  show "X \<union> TxnID ` set rows' \<subseteq> set ids" using events_okD(2) [OF ok] assms(3) by blast
qed (fact assms(2), fact events_okD(4) [OF ok])

lemma events_ok_drop:
  assumes ok: "events_ok X rows ids F"
  shows "events_ok X rows ids (F(i := F i - A))"
proof (rule events_okI)
  have sub: "x \<in> (F(i := F i - A)) j \<Longrightarrow> x \<in> F j" for x j by (simp split: if_splits)
  show "x \<in> set ids \<and> x \<notin> X \<union> TxnID ` set rows" if "x \<in> (F(i := F i - A)) j" for j x
    by (rule events_okD(3) [OF ok sub [OF that]])
  show "x \<notin> (F(i := F i - A)) k" if "j \<noteq> k" "x \<in> (F(i := F i - A)) j" for j k x
    using events_okD(4) [OF ok that(1) sub [OF that(2)]] sub by blast
qed (fact events_okD [OF ok])+

lemma events_ok_insert:
  assumes ok: "events_ok X rows ids F" and e: "TxnID e \<in> F i"
  shows "events_ok X (rows @ [e]) ids (F(i := F i - {TxnID e}))"
proof (rule events_okI)
  note ok' = events_ok_drop [OF ok, of i "{TxnID e}"]
  show "distinct (map TxnID (rows @ [e]))" using events_okD(1) [OF ok] events_okD(3) [OF ok e] by auto
  show "X \<union> TxnID ` set (rows @ [e]) \<subseteq> set ids" using events_okD(2) [OF ok] events_okD(3) [OF ok e] by auto
  show "x \<in> set ids \<and> x \<notin> X \<union> TxnID ` set (rows @ [e])" if "x \<in> (F(i := F i - {TxnID e})) j" for j x
  proof -
    have "x \<noteq> TxnID e" using that e events_okD(4) [OF ok, of i j "TxnID e"] by (cases "j = i") auto
    then show ?thesis using events_okD(3) [OF ok' that] by simp
  qed
  show "x \<notin> (F(i := F i - {TxnID e})) k" if "j \<noteq> k" "x \<in> (F(i := F i - {TxnID e})) j" for j k x
    by (rule events_okD(4) [OF ok' that])
qed

section \<open>Steps\<close>

text \<open>Statements that neither give an identifier nor change the events.\<close>

definition still :: "query \<Rightarrow> bool" where
  "still q \<longleftrightarrow> (case q of NewUUID \<Rightarrow> False | InsertEvent e \<Rightarrow> False | UpdateEvent txn status rid p t \<Rightarrow> False
     | PruneEvents ws k n \<Rightarrow> False | _ \<Rightarrow> True)"

lemma exec_still: "still q \<Longrightarrow> event_rows (snd (exec D q s)) = event_rows s \<and> issued (snd (exec D q s)) = issued s"
  by (cases q) (auto simp: still_def Let_def split: sum.splits option.splits)

lemma tame_still: "still q \<Longrightarrow> tame K F (Ask q k) \<Longrightarrow> tame K F (k a)"
  by (cases q) (simp_all add: still_def)

lemma statement_kinds:
  obtains (given) "q = NewUUID" | (insert) e where "q = InsertEvent e"
  | (finish) txn status rid p t where "q = UpdateEvent txn status rid p t"
  | (prune) ws k n where "q = PruneEvents ws k n" | (still) "still q"
  by (cases q) (auto simp: still_def)

text \<open>One statement of request \<open>i\<close>, with its effect or without.\<close>

lemma statement_step:
  assumes "fresh D" and ok: "events_ok X (event_rows s) (issued s) F" and tame: "tame (int K) (F i) (Ask q k)"
    and s': "exec D q s = (a, s') \<or> is_sql q \<and> a = Failed Fault \<and> (s' = s \<or> s' = snd (exec D q s))"
  shows "\<exists>G. events_ok X (event_rows s') (issued s') (F(i := G)) \<and> tame (int K) G (k a)
    \<and> (\<forall>e. TxnID e \<in> X \<longrightarrow> terminal e \<longrightarrow> kept (int K) e (event_rows s) \<longrightarrow> kept (int K) e (event_rows s'))"
proof (cases q rule: statement_kinds)
  case given
  have "fresh_uuid D (issued s) \<notin> set (issued s)" using assms(1) by (simp add: fresh_def)
  moreover have "a = Uuid (fresh_uuid D (issued s))" "issued s' = fresh_uuid D (issued s) # issued s" "event_rows s' = event_rows s"
    using s' given by (auto simp: is_sql_def Let_def)
  ultimately show ?thesis
    using events_ok_given [OF ok, of _ i] tame given by (intro exI [of _ "insert (fresh_uuid D (issued s)) (F i)"]) auto
next
  case (insert x)
  have x: "TxnID x \<in> F i" "tame (int K) (F i - {TxnID x}) (k a)" using tame insert by auto
  have ids: "issued s' = issued s" and rows: "event_rows s' = event_rows s \<or> event_rows s' = event_rows s @ [x]"
    using s' insert by auto
  have "TxnID x \<notin> X" using x(1) ok by (auto simp: events_ok_def)
  then have "kept (int K) e (event_rows s) \<Longrightarrow> kept (int K) e (event_rows s')" if "TxnID e \<in> X" for e
  proof -
    have "TxnID x \<noteq> TxnID e" using that \<open>TxnID x \<notin> X\<close> by metis
    then show "kept (int K) e (event_rows s) \<Longrightarrow> kept (int K) e (event_rows s')"
      using kept_insert [of "int K" e "event_rows s" x] rows by (elim disjE) auto
  qed
  moreover have "events_ok X (event_rows s') (issued s') (F(i := F i - {TxnID x}))"
    using rows events_ok_insert [OF ok x(1)] events_ok_drop [OF ok, of i "{TxnID x}"] unfolding ids
    by (elim disjE) (simp_all only:)
  ultimately show ?thesis using x(2) by blast
next
  case (finish txn status rid p t)
  let ?f = "\<lambda>e. if TxnID e = txn \<and> EventStatus e = AsyncStatusPending then eventTransition status rid p t e else e"
  have f: "TxnID (?f e) = TxnID e" "terminal e \<Longrightarrow> ?f e = e" for e
    by (auto simp: eventTransition_def terminal_def AsyncStatusPending_def AsyncStatusCompleted_def AsyncStatusFailed_def)
  have ids: "issued s' = issued s" and rows: "event_rows s' = event_rows s \<or> event_rows s' = map ?f (event_rows s)"
    using s' finish by auto
  have m: "map TxnID (map ?f (event_rows s)) = map TxnID (event_rows s)" using f(1) by simp
  have "events_ok X (map ?f (event_rows s)) (issued s) F"
    using ok m by (intro events_ok_rows [OF ok]) (simp_all only: events_ok_def set_map [symmetric] subset_refl)
  with rows ok have "events_ok X (event_rows s') (issued s') (F(i := F i))"
    unfolding ids fun_upd_triv by (elim disjE) (simp_all only:)
  moreover have "tame (int K) (F i) (k a)" using tame finish by simp
  moreover have "kept (int K) e (event_rows s')" if e: "kept (int K) e (event_rows s)" "terminal e" for e
  proof -
    have "kept (int K) e (map ?f (event_rows s))" by (rule kept_map [OF e f])
    with rows e(1) show ?thesis by (elim disjE) (simp_all only:)
  qed
  ultimately show ?thesis by blast
next
  case (prune ws j n)
  let ?rows = "filter (\<lambda>x. \<not> (EventWorkspaceID x = ws
    \<and> TxnID x \<in> TxnID ` set (take (nat n) (drop K (newestEvents ws (event_rows s)))))) (event_rows s)"
  have j: "j = int K" "tame (int K) (F i) (k a)" using tame prune by auto
  have ids: "issued s' = issued s" and rows: "event_rows s' = event_rows s \<or> event_rows s' = ?rows"
    using s' prune j(1) by (auto simp: Let_def limitOffset_def)
  have d: "distinct (map TxnID (event_rows s))" using ok by (simp add: events_ok_def)
  have "events_ok X ?rows (issued s) F" using d by (intro events_ok_rows [OF ok]) (auto simp: distinct_map_filter)
  with rows ok have "events_ok X (event_rows s') (issued s') (F(i := F i))"
    unfolding ids fun_upd_triv by (elim disjE) (simp_all only:)
  moreover have "kept (int K) e (event_rows s')" if e: "kept (int K) e (event_rows s)" "terminal e" for e
    using rows kept_prune [OF e d, of ws "nat n"] e(1) by (elim disjE) (simp_all only:)
  ultimately show ?thesis using j(2) by blast
next
  case still
  have "event_rows s' = event_rows s" "issued s' = issued s" using s' exec_still [OF still, of D s] by auto
  then show ?thesis using ok tame_still [OF still tame] by (intro exI [of _ "F i"]) simp
qed

text \<open>The state of the system: the events, and what each request holds.\<close>

definition holding :: "nat \<Rightarrow> string set \<Rightarrow> store \<Rightarrow> unit thread list \<Rightarrow> bool" where
  "holding K X s ts \<longleftrightarrow> (\<exists>F. events_ok X (event_rows s) (issued s) F \<and> (\<forall>i < length ts. tame (int K) (F i) (snd (ts ! i))))"

lemma holding_step:
  assumes "fresh D" and K: "int K = keptCount (Cleaner V)" and "sys_step D (activityProgram V) (s, ts) (s', ts')" and "holding K X s ts"
  shows "holding K X s' ts'
    \<and> (\<forall>e. TxnID e \<in> X \<longrightarrow> terminal e \<longrightarrow> kept (int K) e (event_rows s) \<longrightarrow> kept (int K) e (event_rows s'))"
proof -
  obtain F where ok: "events_ok X (event_rows s) (issued s) F" and F: "\<And>i. i < length ts \<Longrightarrow> tame (int K) (F i) (snd (ts ! i))"
    using assms(4) by (auto simp: holding_def)
  from assms(3) show ?thesis
  proof (cases rule: sys_step_cases)
    case (start r)
    have "tame (int K) (F i) (snd (ts' ! i))" if "i < length ts'" for i
    proof (cases "i < length ts")
      case False
      then have "ts' ! i = ([], activityProgram V r)" using that start(2) by (simp add: nth_append)
      then show ?thesis using tame_mono [OF tame_activity [of V r]] K by simp
    qed (use F start(2) in \<open>simp add: nth_append\<close>)
    then show ?thesis using ok start(1) by (auto simp: holding_def)
  next
    case (tick t)
    then show ?thesis using assms(4) by (simp add: holding_def)
  next
    case (ask i l q k a)
    have "tame (int K) (F i) (Ask q k)" using F [OF ask(1)] ask(2) by simp
    from statement_step [OF assms(1) ok this ask(4)] obtain G where G: "events_ok X (event_rows s') (issued s') (F(i := G))"
        "tame (int K) G (k a)"
      and kept: "\<forall>e. TxnID e \<in> X \<longrightarrow> terminal e \<longrightarrow> kept (int K) e (event_rows s) \<longrightarrow> kept (int K) e (event_rows s')"
      by blast
    have "tame (int K) ((F(i := G)) j) (snd (ts' ! j))" if "j < length ts'" for j
      using that F G(2) ask(1,3) by (cases "j = i") simp_all
    then show ?thesis using G(1) kept unfolding holding_def by blast
  qed
qed

lemma holding_steps:
  assumes "fresh D" and "int K = keptCount (Cleaner V)" and "sys_steps D (activityProgram V) (s, ts) (s', ts')" and "holding K X s ts"
  shows "holding K X s' ts'
    \<and> (\<forall>e. TxnID e \<in> X \<longrightarrow> terminal e \<longrightarrow> kept (int K) e (event_rows s) \<longrightarrow> kept (int K) e (event_rows s'))"
  using assms(3)
proof (induction rule: rtranclp_induct2)
  case refl
  then show ?case using assms(4) by simp
next
  case (step s1 ts1 s2 ts2)
  then show ?case using holding_step [OF assms(1,2), of s1 ts1 s2 ts2 X] by blast
qed

lemma find_event:
  assumes "distinct (map TxnID rows)" "e \<in> set rows"
  shows "find (\<lambda>x. TxnID x = TxnID e \<and> EventWorkspaceID x = EventWorkspaceID e) rows = Some e"
  using assms by (induction rows) (auto simp: image_iff)

text \<open>C15. The outcome of an asynchronous request is final: once a client that polls its event has seen it ended, every
  later poll sees the same status, payload and time, or no event any more; and the event is gone only if the workspace has by
  then at least as many other ended events that are not older as the cleanup keeps. This holds whatever requests on users,
  groups, all resources or in bulk, workers, polls and cycles of the cleanup run in between, in whatever order their
  statements arrive and whichever of them fail, as long as the workspace is not removed. The identifiers of
  \<^verbatim>\<open>uuid.New\<close> are taken to be new.\<close>

theorem event_outcome_final:
  assumes "fresh D" and "distinct (map TxnID (event_rows s0))" "TxnID ` set (event_rows s0) \<subseteq> set (issued s0)"
    and "sys_steps D (activityProgram V) (s0, []) (s, ts)" and "sys_steps D (activityProgram V) (s, ts) (s', ts')"
    and "fst (exec D (SelectEvent txn ws) s) = EventRow (Some e)" and "terminal e"
  shows "fst (exec D (SelectEvent txn ws) s') = EventRow (Some e)
    \<or> fst (exec D (SelectEvent txn ws) s') = EventRow None
      \<and> keptCount (Cleaner V) \<le> int (length (newerEnded e (event_rows s')))"
proof -
  obtain K where K: "int K = keptCount (Cleaner V)"
    using keptCount_pos [of "Cleaner V"] by (metis nonneg_int_cases less_imp_le)
  have e: "e \<in> set (event_rows s)" "TxnID e = txn" "EventWorkspaceID e = ws"
    using assms(6) by (auto simp: find_Some_iff)
  have "holding K {} s0 []"
    using assms(2,3) by (auto simp: holding_def intro!: exI [of _ "\<lambda>_. {}"] events_okI)
  then have "holding K {} s ts" using holding_steps [OF assms(1) K assms(4)] by blast
  then obtain F where ok: "events_ok {} (event_rows s) (issued s) F" and F: "\<forall>i < length ts. tame (int K) (F i) (snd (ts ! i))"
    by (auto simp: holding_def)
  have "TxnID e \<in> TxnID ` set (event_rows s)" using e(1) by (rule imageI)
  then have "events_ok {TxnID e} (event_rows s) (issued s) F"
    using events_okD [OF ok] by (intro events_okI) blast+
  then have "holding K {TxnID e} s ts" using F by (auto simp: holding_def)
  moreover have "kept (int K) e (event_rows s)" using e(1) by (simp add: kept_def)
  ultimately have "holding K {TxnID e} s' ts'" and kept: "kept (int K) e (event_rows s')"
    using holding_steps [OF assms(1) K assms(5)] assms(7) by blast+
  then have d: "distinct (map TxnID (event_rows s'))" by (auto simp: holding_def events_ok_def)
  show ?thesis
  proof (cases "e \<in> set (event_rows s')")
    case True
    then show ?thesis using find_event [OF d True] e(2,3) by simp
  next
    case False
    then have "TxnID e \<notin> TxnID ` set (event_rows s')" "int K \<le> int (length (newerEnded e (event_rows s')))"
      using kept by (simp_all add: kept_def)
    moreover from this(1) have "find (\<lambda>x. TxnID x = txn \<and> EventWorkspaceID x = ws) (event_rows s') = None"
      unfolding find_None_iff using e(2) by (metis imageI)
    ultimately show ?thesis using K by simp
  qed
qed

text \<open>A server whose cleanup keeps one event, and a table of two events that have ended.\<close>

definition sampleServer :: server where
  "sampleServer = \<lparr>Crypto = toy_crypto, Lib = plain_ext, CursorKey = ''k'', Conv = (\<lambda>i. i),
     Kinds = \<lparr>hasUser = True, hasGroup = True\<rparr>, Cleaner = sampleCleanup\<rparr>"

definition ended_store :: store where
  "ended_store = event_store\<lparr>event_rows := [sampleEvent ''t3'' ''COMPLETED'' 2, sampleEvent ''t4'' ''FAILED'' 3],
     issued := [''t3'', ''t4'']\<rparr>"

lemma tick_rows:
  "event_rows (snd (run sample_database (activityProgram sampleServer (CleanupTick 1)) ended_store))
    = [sampleEvent ''t4'' ''FAILED'' 3]"
  by code_simp

theorem event_outcome_final_witness:
  "fst (exec sample_database (SelectEvent ''t4'' ''w1'')
      (snd (run sample_database (activityProgram sampleServer (CleanupTick 1)) ended_store)))
    = EventRow (Some (sampleEvent ''t4'' ''FAILED'' 3))"
proof -
  let ?p = "activityProgram sampleServer (CleanupTick 1)" and ?e = "sampleEvent ''t4'' ''FAILED'' 3"
  let ?s = "snd (run sample_database ?p ended_store)"
  have run: "run sample_database ?p ended_store = ((), ?s)" by (simp add: prod_eq_iff)
  have "sys_step sample_database (activityProgram sampleServer) (ended_store, []) (ended_store, [] @ [([], ?p)])"
    by (rule sys_step.start)
  moreover obtain ts where "sys_steps sample_database (activityProgram sampleServer) (ended_store, [] @ [([], ?p)]) (?s, ts)"
    using run_steps [of 0 "[([], ?p)]" "[]" ?p sample_database ended_store "()" ?s "activityProgram sampleServer"] run by auto
  ultimately have steps: "sys_steps sample_database (activityProgram sampleServer) (ended_store, []) (?s, ts)"
    by (rule converse_rtranclp_into_rtranclp)
  have "fst (exec sample_database (SelectEvent ''t4'' ''w1'') ended_store) = EventRow (Some ?e)"
    by (simp add: ended_store_def sampleEvent_def)
  moreover have "terminal ?e" by (simp add: terminal_def sampleEvent_def AsyncStatusFailed_def)
  moreover have "distinct (map TxnID (event_rows ended_store))" "TxnID ` set (event_rows ended_store) \<subseteq> set (issued ended_store)"
    by (simp_all add: ended_store_def sampleEvent_def)
  ultimately have "fst (exec sample_database (SelectEvent ''t4'' ''w1'') ?s) = EventRow (Some ?e)
    \<or> fst (exec sample_database (SelectEvent ''t4'' ''w1'') ?s) = EventRow None
      \<and> keptCount (Cleaner sampleServer) \<le> int (length (newerEnded ?e (event_rows ?s)))"
    by (intro event_outcome_final [OF sample_fresh _ _ rtranclp.rtrancl_refl steps])
  moreover have "\<not> keptCount (Cleaner sampleServer) \<le> int (length (newerEnded ?e (event_rows ?s)))"
    unfolding tick_rows by code_simp
  ultimately show ?thesis by blast
qed

end
