(* ===== verification/Regex.thy ===== *)
theory Regex
  imports GoStrings
begin

text \<open>
  Go's \<^verbatim>\<open>regexp\<close>, as far as the redaction of logged bodies needs it: which match of a pattern
  \<^verbatim>\<open>ReplaceAllString\<close> takes, and its groups. The matches of a pattern at a place are listed in the order in which a
  backtracking matcher finds them; Go documents that it takes the first of these. A pattern works on bytes; a class that
  excludes only ASCII characters under a star means the same on bytes as on runes.
\<close>

datatype regex =
    Empty | OneOf string | NoneOf string | AtEnd
  | Cat regex regex | Alt regex regex
  | Star regex | Lazy regex
  | Group nat regex

text \<open>A match: the text of its groups and what is left of the input.\<close>

type_synonym match = "(nat \<times> string) list \<times> string"

function (sequential) matches :: "regex \<Rightarrow> string \<Rightarrow> match list" where
  "matches Empty s = [([], s)]"
| "matches (OneOf cs) s = (case s of c # t \<Rightarrow> if c \<in> set cs then [([], t)] else [] | [] \<Rightarrow> [])"
| "matches (NoneOf cs) s = (case s of c # t \<Rightarrow> if c \<in> set cs then [] else [([], t)] | [] \<Rightarrow> [])"
| "matches AtEnd s = (if s = [] then [([], s)] else [])"
| "matches (Cat r q) s = concat (map (\<lambda>(g, t). map (\<lambda>(h, u). (g @ h, u)) (matches q t)) (matches r s))"
| "matches (Alt r q) s = matches r s @ matches q s"
| "matches (Star r) s =
     concat (map (\<lambda>(g, t). map (\<lambda>(h, u). (g @ h, u)) (matches (Star r) t))
       (filter (\<lambda>(g, t). length t < length s) (matches r s))) @ [([], s)]"
| "matches (Lazy r) s =
     ([], s) # concat (map (\<lambda>(g, t). map (\<lambda>(h, u). (g @ h, u)) (matches (Lazy r) t))
       (filter (\<lambda>(g, t). length t < length s) (matches r s)))"
| "matches (Group n r) s = map (\<lambda>(g, t). ((n, take (length s - length t) s) # g, t)) (matches r s)"
  by pat_completeness auto
termination
  by (relation "measures [\<lambda>(r, s). size r, \<lambda>(r, s). length s]") auto

declare matches.simps(7,8) [simp del]

text \<open>The text of a group; a group that took no part is empty.\<close>

definition groupText :: "match \<Rightarrow> nat \<Rightarrow> string" where
  "groupText m n = (case map_of (fst m) n of None \<Rightarrow> [] | Some t \<Rightarrow> t)"

text \<open>\<^verbatim>\<open>ReplaceAllString\<close> for a pattern that does not match the empty text: from left to right, what does not match is
  kept, and the search goes on behind a match.\<close>

function ReplaceAllString :: "regex \<Rightarrow> (match \<Rightarrow> string) \<Rightarrow> string \<Rightarrow> string" where
  "ReplaceAllString r template s =
     (case s of
        [] \<Rightarrow> []
      | c # t \<Rightarrow>
          (case matches r s of
             m # _ \<Rightarrow>
               if length (snd m) < length s then template m @ ReplaceAllString r template (snd m)
               else c # ReplaceAllString r template t
           | [] \<Rightarrow> c # ReplaceAllString r template t))"
  by pat_completeness auto
termination
  by (relation "measure (\<lambda>(r, t, s). length s)") auto

declare ReplaceAllString.simps [simp del]

text \<open>\<^verbatim>\<open>FindStringSubmatch\<close>: the first place where the pattern matches.\<close>

fun FindStringSubmatch :: "regex \<Rightarrow> string \<Rightarrow> match option" where
  "FindStringSubmatch r [] = (case matches r [] of m # _ \<Rightarrow> Some m | [] \<Rightarrow> None)"
| "FindStringSubmatch r (c # t) = (case matches r (c # t) of m # _ \<Rightarrow> Some m | [] \<Rightarrow> FindStringSubmatch r t)"

section \<open>Building patterns\<close>

definition seqs :: "regex list \<Rightarrow> regex" where
  "seqs rs = foldr Cat rs Empty"

definition opt :: "regex \<Rightarrow> regex" where
  "opt r = Alt r Empty"

definition spaces :: regex where
  "spaces = Star (OneOf [CHR '' '', CHR 0x09, CHR 0x0A, CHR 0x0C, CHR 0x0D])"

text \<open>A character under \<^verbatim>\<open>(?i)\<close>: both cases, and the two runes outside ASCII that fold to \<open>s\<close> and \<open>k\<close>.\<close>

definition foldChar :: "char \<Rightarrow> regex" where
  "foldChar c =
     (let both = OneOf [ascii_lower c, ascii_upper c] in
      if ascii_lower c = CHR ''s'' then Alt both (Cat (OneOf [CHR 0xC5]) (OneOf [CHR 0xBF]))
      else if ascii_lower c = CHR ''k'' then Alt both (Cat (OneOf [CHR 0xE2]) (Cat (OneOf [CHR 0x84]) (OneOf [CHR 0xAA])))
      else both)"

definition word :: "string \<Rightarrow> regex" where
  "word w = seqs (map foldChar w)"

definition quotedWord :: "string \<Rightarrow> regex" where
  "quotedWord w = seqs [OneOf [dquote], word w, OneOf [dquote]]"

text \<open>\<^verbatim>\<open>"(?:\\.|[^"\\])*\<close>: a JSON string up to its end; the flag is whether the dot matches a line feed.\<close>

definition stringBody :: "bool \<Rightarrow> regex" where
  "stringBody dotAll = Cat (OneOf [dquote])
     (Star (Alt (Cat (OneOf [bslash]) (NoneOf (if dotAll then [] else [CHR 0x0A]))) (NoneOf [dquote, bslash])))"

definition stringValue :: "bool \<Rightarrow> regex" where
  "stringValue dotAll = Cat (stringBody dotAll) (OneOf [dquote])"

section \<open>Matches\<close>

text \<open>A match splits the input.\<close>

lemma matches_suffix: "(g, t) \<in> set (matches r s) \<Longrightarrow> suffix t s"
proof (induction r s arbitrary: g t rule: matches.induct)
  case (5 r q s)
  then obtain g' t' h where "(g', t') \<in> set (matches r s)" "(h, t) \<in> set (matches q t')" by auto
  then have "suffix t' s" "suffix t t'" using "5.IH" by auto
  then show ?case using suffix_order.trans by blast
next
  case (7 r s)
  show ?case
  proof (cases "t = s")
    case False
    then obtain g' t' h where "(g', t') \<in> set (matches r s)" "length t' < length s" "(h, t) \<in> set (matches (Star r) t')"
      using "7.prems" by (auto simp: matches.simps(7) [of r s])
    then have "suffix t' s" "suffix t t'" using "7.IH" by auto
    then show ?thesis using suffix_order.trans by blast
  qed simp
next
  case (8 r s)
  show ?case
  proof (cases "t = s")
    case False
    then obtain g' t' h where "(g', t') \<in> set (matches r s)" "length t' < length s" "(h, t) \<in> set (matches (Lazy r) t')"
      using "8.prems" by (auto simp: matches.simps(8) [of r s])
    then have "suffix t' s" "suffix t t'" using "8.IH" by auto
    then show ?thesis using suffix_order.trans by blast
  qed simp
qed (auto simp: suffix_def split: list.splits if_splits)

text \<open>Text without a match stays as it is.\<close>

lemma ReplaceAllString_none:
  assumes "\<And>t. suffix t s \<Longrightarrow> matches r t = []"
  shows "ReplaceAllString r template s = s"
  using assms
proof (induction s)
  case (Cons c s)
  have "matches r (c # s) = []" by (rule Cons.prems) simp
  moreover have "ReplaceAllString r template s = s" using Cons.prems by (intro Cons.IH) (simp add: suffix_Cons)
  ultimately show ?case by (simp add: ReplaceAllString.simps [of r template "c # s"])
qed (simp add: ReplaceAllString.simps)

end
