(* ===== verification/Redact.thy ===== *)
theory Redact
  imports Regex Async
begin

text \<open>
  \<^verbatim>\<open>internal/middleware/logging.go\<close>: what of a request and its response is kept in the log, and how passwords are
  taken out of it.
\<close>

section \<open>Passwords in decoded JSON\<close>

definition redactedValue :: string where
  "redactedValue = ''[REDACTED]''"

definition isPasswordKey :: "ext \<Rightarrow> string \<Rightarrow> bool" where
  "isPasswordKey L key \<longleftrightarrow> (let lk = ToLower L (TrimSpace key) in lk = ''password'' \<or> HasSuffix lk '':password'')"

definition isPasswordPatchPath :: "ext \<Rightarrow> string \<Rightarrow> bool" where
  "isPasswordPatchPath L path \<longleftrightarrow> (let lp = ToLower L (TrimSpace path) in
     lp = ''password'' \<or> lp = ''urn:ietf:params:scim:schemas:core:2.0:user:password'')"

text \<open>The path of a PATCH operation: of several members that spell it, the one visited last.\<close>

definition patchPath :: "ext \<Rightarrow> json_object \<Rightarrow> string" where
  "patchPath L kvs = fold (\<lambda>(k, sub) path. if EqualFold L (TrimSpace k) ''path''
     then (case sub of JStr ps \<Rightarrow> ps | _ \<Rightarrow> path) else path) kvs []"

definition redacted :: "json \<Rightarrow> json" where
  "redacted sub = (if sub = JNull then JNull else JStr redactedValue)"

fun redactValue :: "ext \<Rightarrow> json \<Rightarrow> json \<times> bool" where
  "redactValue L (JObj kvs) =
     (let isPwPatch = isPasswordPatchPath L (patchPath L kvs) in
      (JObj (map (\<lambda>(k, sub). (k,
         if isPasswordKey L k then redacted sub
         else if isPwPatch \<and> EqualFold L (TrimSpace k) ''value'' then redacted sub
         else fst (redactValue L sub))) kvs),
       list_ex (\<lambda>(k, sub).
         if isPasswordKey L k then sub \<noteq> JNull
         else if isPwPatch \<and> EqualFold L (TrimSpace k) ''value'' then sub \<noteq> JNull
         else snd (redactValue L sub)) kvs))"
| "redactValue L (JArr xs) = (JArr (map (\<lambda>x. fst (redactValue L x)) xs), list_ex (\<lambda>x. snd (redactValue L x)) xs)"
| "redactValue L v = (v, False)"

section \<open>Passwords in text\<close>

definition userURNRe :: regex where
  "userURNRe = opt (word ''urn:ietf:params:scim:schemas:core:2.0:User:'')"

definition passwordKeyRe :: regex where
  "passwordKeyRe = Group 1 (seqs [OneOf [dquote], spaces,
     opt (seqs [word ''urn:'', Star (NoneOf [dquote]), OneOf '':'']), word ''password'', OneOf [dquote], spaces, OneOf '':'', spaces])"

definition passwordPathRe :: regex where
  "passwordPathRe = seqs [quotedWord ''path'', spaces, OneOf '':'', spaces, OneOf [dquote], spaces, userURNRe,
     word ''password'', spaces, OneOf [dquote]]"

definition passwordJSONStringRe :: regex where
  "passwordJSONStringRe = Cat passwordKeyRe (stringValue False)"

definition passwordJSONTruncatedRe :: regex where
  "passwordJSONTruncatedRe = Cat passwordKeyRe (Cat (stringBody False) AtEnd)"

definition pathThenValue :: regex where
  "pathThenValue = Group 1 (seqs [passwordPathRe, Lazy (NoneOf ''{}''), quotedWord ''value'', spaces, OneOf '':'', spaces])"

definition patchPathThenValueRe :: regex where
  "patchPathThenValueRe = Cat pathThenValue (stringValue True)"

definition patchPathThenValueTruncatedRe :: regex where
  "patchPathThenValueTruncatedRe = Cat pathThenValue (Cat (stringBody True) AtEnd)"

definition patchValueThenPathRe :: regex where
  "patchValueThenPathRe = seqs [Group 1 (seqs [quotedWord ''value'', spaces, OneOf '':'', spaces]), stringValue True,
     Group 2 (Cat (Lazy (NoneOf ''{}'')) passwordPathRe)]"

definition mentionsPassword :: "ext \<Rightarrow> string \<Rightarrow> bool" where
  "mentionsPassword L s \<longleftrightarrow> Contains (ToLower L s) ''password''"

definition redactedText :: "match \<Rightarrow> string" where
  "redactedText m = groupText m 1 @ [dquote] @ redactedValue @ [dquote] @ groupText m 2"

definition redactRegexFallback :: "ext \<Rightarrow> string \<Rightarrow> string" where
  "redactRegexFallback L s =
     (if s = [] \<or> \<not> mentionsPassword L s then s
      else fold (\<lambda>r. ReplaceAllString r redactedText)
        [passwordJSONStringRe, patchPathThenValueRe, patchValueThenPathRe, patchPathThenValueTruncatedRe, passwordJSONTruncatedRe] s)"

text \<open>\<^verbatim>\<open>json.Encoder\<close> with \<^verbatim>\<open>SetEscapeHTML(false)\<close>.\<close>

fun quotePlain :: "string \<Rightarrow> string" where
  "quotePlain [] = []"
| "quotePlain (c # cs) =
     (if c = CHR 0xE2 \<and> take 1 cs = [CHR 0x80] \<and> take 1 (drop 1 cs) \<in> {[CHR 0xA8], [CHR 0xA9]}
      then [bslash] @ ''u202'' @ (if cs ! 1 = CHR 0xA8 then ''8'' else ''9'') @ quotePlain (drop 2 cs)
      else (if c \<in> set ''<>&'' then [c] else quoteChar c) @ quotePlain cs)"

fun encodePlain :: "json \<Rightarrow> string" where
  "encodePlain JNull = ''null''"
| "encodePlain (JBool b) = (if b then ''true'' else ''false'')"
| "encodePlain (JNum n) = n"
| "encodePlain (JStr s) = [dquote] @ quotePlain s @ [dquote]"
| "encodePlain (JArr xs) = ''['' @ Join (map encodePlain xs) '','' @ '']''"
| "encodePlain (JObj kvs) =
     ''{'' @ Join (map (\<lambda>(k, t). [dquote] @ quotePlain k @ [dquote] @ '':'' @ t)
       (sort_key fst (map (\<lambda>(k, v). (k, encodePlain v)) kvs))) '','' @ ''}''"

definition RedactSensitiveBody :: "ext \<Rightarrow> string \<Rightarrow> string" where
  "RedactSensitiveBody L raw =
     (if TrimSpace raw = [] then raw
      else if \<not> mentionsPassword L raw then raw
      else (case jsonUnmarshal raw of
          None \<Rightarrow> redactRegexFallback L raw
        | Some parsed \<Rightarrow>
            if snd (redactValue L parsed) then redactRegexFallback L (encodePlain (fst (redactValue L parsed)))
            else redactRegexFallback L raw))"

section \<open>The log of requests\<close>

definition maxBodyLog :: nat where "maxBodyLog = 20000"
definition maxBodyCapture :: nat where "maxBodyCapture = maxBodyLog + 1024"

definition truncate_body :: "string \<Rightarrow> nat \<Rightarrow> string" where
  "truncate_body s m = (if m < length s then take m s @ ''...[truncated]'' else s)"

definition ptrOrNil :: "string \<Rightarrow> string option" where
  "ptrOrNil s = (if s = [] then None else Some s)"

record ScimRequestLog =
  LogID :: string
  LogWorkspaceID :: string
  HttpMethod :: string
  RequestPath :: string
  LogHttpStatus :: nat
  RequestBody :: "string option"
  ResponseBody :: "string option"
  LogCreatedAt :: int

text \<open>\<^verbatim>\<open>bodyCaptureReader.Read\<close> and \<^verbatim>\<open>ResponseCapture.Write\<close>: the first bytes of what goes through.\<close>

definition captureChunk :: "string \<Rightarrow> string \<Rightarrow> string" where
  "captureChunk buf p = (if length buf < maxBodyCapture then buf @ take (maxBodyCapture - length buf) p else buf)"

text \<open>After the handler, the rest of a body it did not read.\<close>

definition capturedRequest :: "string list \<Rightarrow> bool \<Rightarrow> nat \<Rightarrow> string \<Rightarrow> string" where
  "capturedRequest chunks eof status rest =
     (let buf = fold (\<lambda>p buf. captureChunk buf p) chunks [] in
      if \<not> eof \<and> length buf < maxBodyCapture \<and> status \<noteq> 413 then buf @ take (maxBodyCapture - length buf) rest else buf)"

definition wsRegex :: regex where
  "wsRegex = seqs [seqs (map (\<lambda>c. OneOf [c]) ''/ws/''),
     Group 1 (seqs (replicate 36 (OneOf ''0123456789abcdefABCDEF-''))), OneOf ''/'']"

definition logWorkspaceID :: "ext \<Rightarrow> string \<Rightarrow> string" where
  "logWorkspaceID L path =
     (case FindStringSubmatch wsRegex path of
        None \<Rightarrow> ''00000000-0000-0000-0000-000000000000''
      | Some m \<Rightarrow> (case uuid_parse L (groupText m 1) of
            None \<Rightarrow> ''00000000-0000-0000-0000-000000000000'' | Some wsID \<Rightarrow> wsID))"

definition loggedBody :: "ext \<Rightarrow> string \<Rightarrow> string option" where
  "loggedBody L body = ptrOrNil (redactRegexFallback L (truncate_body (RedactSensitiveBody L body) maxBodyLog))"

text \<open>What a handler did with a request: the chunks of the body it read, whether it came to the end, what it left,
  the status and the chunks of the response.\<close>

record exchange =
  ExMethod :: string
  ExPath :: string
  ExURI :: string
  ReadChunks :: "string list"
  ReadEOF :: bool
  Unread :: string
  ExStatus :: nat
  Written :: "string list"

text \<open>\<^verbatim>\<open>RequestLogRepository.Create\<close>.\<close>

definition createLog :: "string \<Rightarrow> int \<Rightarrow> ScimRequestLog \<Rightarrow> ScimRequestLog list \<Rightarrow> ScimRequestLog list" where
  "createLog uuid now entry rows = rows @ [entry\<lparr>LogID := uuid, LogCreatedAt := now\<rparr>]"

definition RequestResponseLogging :: "ext \<Rightarrow> string \<Rightarrow> int \<Rightarrow> exchange \<Rightarrow> ScimRequestLog list \<Rightarrow> ScimRequestLog list" where
  "RequestResponseLogging L uuid now x rows =
     createLog uuid now
       \<lparr>LogID = uuid, LogWorkspaceID = logWorkspaceID L (ExPath x), HttpMethod = ExMethod x, RequestPath = ExURI x,
        LogHttpStatus = ExStatus x,
        RequestBody = loggedBody L (capturedRequest (ReadChunks x) (ReadEOF x) (ExStatus x) (Unread x)),
        ResponseBody = loggedBody L (fold (\<lambda>p buf. captureChunk buf p) (Written x) []), LogCreatedAt = now\<rparr> rows"

section \<open>Keeping the newest entries\<close>

definition DefaultPruneBatchSize :: nat where
  "DefaultPruneBatchSize = 5000"

definition newestLogs :: "string \<Rightarrow> ScimRequestLog list \<Rightarrow> ScimRequestLog list" where
  "newestLogs ws rows = rev (sort_key LogCreatedAt (sort_key LogID (filter (\<lambda>l. LogWorkspaceID l = ws) rows)))"

text \<open>The rows after the statement, and how many it deleted.\<close>

definition pruneLogs :: "string \<Rightarrow> int \<Rightarrow> ScimRequestLog list \<Rightarrow> ScimRequestLog list \<times> nat" where
  "pruneLogs ws maxCount rows =
     (let old = LogID ` set (take DefaultPruneBatchSize (drop (nat maxCount) (newestLogs ws rows)));
          gone = (\<lambda>l. LogWorkspaceID l = ws \<and> LogID l \<in> old) in
      (filter (\<lambda>l. \<not> gone l) rows, length (filter gone rows)))"

primrec pruneLogBatches :: "nat \<Rightarrow> string \<Rightarrow> int \<Rightarrow> ScimRequestLog list \<Rightarrow> nat \<Rightarrow> ScimRequestLog list \<times> nat" where
  "pruneLogBatches 0 ws maxCount rows totalDeleted = (rows, totalDeleted)"
| "pruneLogBatches (Suc fuel) ws maxCount rows totalDeleted =
     (case pruneLogs ws maxCount rows of (rows', n) \<Rightarrow>
        if n < DefaultPruneBatchSize then (rows', totalDeleted + n)
        else pruneLogBatches fuel ws maxCount rows' (totalDeleted + n))"

definition DeleteOldLogsForWorkspace :: "nat \<Rightarrow> string \<Rightarrow> int \<Rightarrow> ScimRequestLog list \<Rightarrow> string + ScimRequestLog list \<times> nat" where
  "DeleteOldLogsForWorkspace fuel ws maxCount rows =
     (if maxCount \<le> 0 then Inl (''maxCount must be greater than 0: '' @ itoa_int maxCount)
      else Inr (pruneLogBatches fuel ws maxCount rows 0))"

definition ListWorkspaceIDsExceedingLogCount :: "int \<Rightarrow> ScimRequestLog list \<Rightarrow> string + string list" where
  "ListWorkspaceIDsExceedingLogCount maxCount rows =
     (if maxCount \<le> 0 then Inl (''maxCount must be greater than 0: '' @ itoa_int maxCount)
      else Inr (filter (\<lambda>ws. maxCount < int (length (newestLogs ws rows))) (remdups (map LogWorkspaceID rows))))"

definition DefaultRequestLogCleanupInterval :: int where "DefaultRequestLogCleanupInterval = 3600 * 1000000000"
definition DefaultRequestLogCleanupMaxCount :: int where "DefaultRequestLogCleanupMaxCount = 10000"

record RequestLogCleanupService =
  LogCleanupEnabled :: bool
  LogCleanupInterval :: int
  LogCleanupMaxCount :: int

definition NewRequestLogCleanupService :: "bool \<Rightarrow> int \<Rightarrow> int \<Rightarrow> RequestLogCleanupService" where
  "NewRequestLogCleanupService enabled interval maxCount =
     \<lparr>LogCleanupEnabled = enabled,
      LogCleanupInterval = (if interval \<le> 0 then DefaultRequestLogCleanupInterval else interval),
      LogCleanupMaxCount = (if maxCount \<le> 0 then DefaultRequestLogCleanupMaxCount else maxCount)\<rparr>"

primrec pruneLogsEach :: "nat \<Rightarrow> int \<Rightarrow> string list \<Rightarrow> ScimRequestLog list \<times> nat \<Rightarrow> ScimRequestLog list \<times> nat" where
  "pruneLogsEach fuel maxCount [] st = st"
| "pruneLogsEach fuel maxCount (ws # wss) st =
     pruneLogsEach fuel maxCount wss
       (case DeleteOldLogsForWorkspace fuel ws maxCount (fst st) of
          Inl _ \<Rightarrow> st | Inr (rows, n) \<Rightarrow> (rows, snd st + n))"

definition CleanupOnce :: "nat \<Rightarrow> RequestLogCleanupService \<Rightarrow> ScimRequestLog list \<Rightarrow> string + ScimRequestLog list \<times> nat" where
  "CleanupOnce fuel svc rows =
     (if \<not> LogCleanupEnabled svc then Inr (rows, 0)
      else (let maxCount = (if LogCleanupMaxCount svc \<le> 0 then DefaultRequestLogCleanupMaxCount else LogCleanupMaxCount svc) in
        case ListWorkspaceIDsExceedingLogCount maxCount rows of
          Inl e \<Rightarrow> Inl e
        | Inr wss \<Rightarrow> Inr (pruneLogsEach fuel maxCount wss (rows, 0))))"

end
