(* ===== verification/RedactProps.thy ===== *)
theory RedactProps
  imports Redact
begin

text \<open>
  What the log of a request gives away of the passwords in it.
\<close>

section \<open>Values that differ in their passwords\<close>









section \<open>The log\<close>









definition jsonText :: "string \<Rightarrow> string" where
  "jsonText s = map (\<lambda>c. if c = CHR 0x27 then dquote else c) s"




text \<open>A key spelled with an escape sequence is not noticed, although it decodes to the same key.\<close>

lemma escaped_key_logged:
  "loggedBody plain_ext (jsonText ([CHR ''{'', CHR 0x27] @ ''pass'' @ [bslash] @ ''u0077ord'' @ [CHR 0x27, CHR '':'', CHR 0x27] @ ''secret'' @ [CHR 0x27, CHR ''}'']))
    = Some (jsonText ([CHR ''{'', CHR 0x27] @ ''pass'' @ [bslash] @ ''u0077ord'' @ [CHR 0x27, CHR '':'', CHR 0x27] @ ''secret'' @ [CHR 0x27, CHR ''}'']))"
  "jsonUnmarshal (jsonText ([CHR ''{'', CHR 0x27] @ ''pass'' @ [bslash] @ ''u0077ord'' @ [CHR 0x27, CHR '':'', CHR 0x27] @ ''secret'' @ [CHR 0x27, CHR ''}'']))
    = Some (JObj [(''password'', JStr ''secret'')])"
  by code_simp+

text \<open>The text patterns on a body that is not JSON.\<close>

lemma truncated_body_redacted:
  "RedactSensitiveBody plain_ext (jsonText ([CHR ''{'', CHR 0x27] @ ''password'' @ [CHR 0x27, CHR '':'', CHR '' '', CHR 0x27] @ ''sec''))
    = jsonText ([CHR ''{'', CHR 0x27] @ ''password'' @ [CHR 0x27, CHR '':'', CHR '' '', CHR 0x27] @ ''[REDACTED]'' @ [CHR 0x27])"
  by code_simp

end
