(* ===== verification/Routes.thy ===== *)
theory Routes
  imports Http Cursor
begin

text \<open>
  The routes of \<^verbatim>\<open>internal/app/serve_internal.go\<close>, the operation that \<^verbatim>\<open>internal/middleware/metrics.go\<close> reports for a
  request, and the limiter of \<^verbatim>\<open>internal/httpapi\<close>. The router itself is not code of the repository; what is stated of
  it is which requests are instances of which registered pattern.
\<close>

section \<open>Registered endpoints\<close>

text \<open>A handler under the name it is registered with, or a refusal with its \<^verbatim>\<open>Allow\<close> header.\<close>

datatype endpoint = Endpoint string | NotAllowed string

type_synonym route = "string \<times> string list \<times> endpoint"

definition refuse :: "string list \<Rightarrow> string list \<Rightarrow> string \<Rightarrow> route list" where
  "refuse methods pattern allow = map (\<lambda>m. (m, pattern, NotAllowed allow)) methods"

definition collectionRoutes :: "string \<Rightarrow> string \<Rightarrow> string \<Rightarrow> route list" where
  "collectionRoutes name create list' =
     [(''POST'', [name], Endpoint create), (''GET'', [name], Endpoint list')]
     @ refuse [''PUT'', ''PATCH'', ''DELETE''] [name] ''GET, POST''"

definition resourceRoutes :: "string \<Rightarrow> string \<Rightarrow> string \<Rightarrow> string \<Rightarrow> string \<Rightarrow> route list" where
  "resourceRoutes name get' replace patch delete =
     [(''GET'', [name, ''{id}''], Endpoint get'), (''PUT'', [name, ''{id}''], Endpoint replace),
      (''PATCH'', [name, ''{id}''], Endpoint patch), (''DELETE'', [name, ''{id}''], Endpoint delete)]
     @ refuse [''POST''] [name, ''{id}''] ''GET, PUT, PATCH, DELETE''"

definition postOnly :: "string list \<Rightarrow> string \<Rightarrow> route list" where
  "postOnly pattern h = (''POST'', pattern, Endpoint h) # refuse [''GET'', ''PUT'', ''PATCH'', ''DELETE''] pattern ''POST''"

definition getOnly :: "string list \<Rightarrow> string \<Rightarrow> route list" where
  "getOnly pattern h = (''GET'', pattern, Endpoint h) # refuse [''POST'', ''PUT'', ''PATCH'', ''DELETE''] pattern ''GET''"

definition scimEndpoints :: "route list" where
  "scimEndpoints =
     collectionRoutes ''Users'' ''userHandler.CreateUser'' ''userHandler.ListUsers''
     @ resourceRoutes ''Users'' ''userHandler.GetUser'' ''userHandler.ReplaceUser'' ''userHandler.PatchUser'' ''userHandler.DeleteUser''
     @ postOnly [''Users'', ''.search''] ''userHandler.SearchUsers''
     @ collectionRoutes ''Groups'' ''groupHandler.CreateGroup'' ''groupHandler.ListGroups''
     @ resourceRoutes ''Groups'' ''groupHandler.GetGroup'' ''groupHandler.ReplaceGroup'' ''groupHandler.PatchGroup'' ''groupHandler.DeleteGroup''
     @ postOnly [''Groups'', ''.search''] ''groupHandler.SearchGroups''
     @ getOnly [''Events'', ''{txnId}''] ''asyncEventHandler.GetEvent''
     @ getOnly [[]] ''discoveryHandler.RootSearch''
     @ postOnly [''Bulk''] ''bulkHandler.ProcessBulk''
     @ postOnly [''.search''] ''discoveryHandler.RootSearch''
     @ getOnly [''ServiceProviderConfig''] ''discoveryHandler.GetServiceProviderConfig''
     @ getOnly [''Schemas''] ''discoveryHandler.GetSchemas''
     @ getOnly [''Schemas'', ''{id}''] ''discoveryHandler.GetSchemaByID''
     @ getOnly [''ResourceTypes''] ''discoveryHandler.GetResourceTypes''
     @ getOnly [''ResourceTypes'', ''{id}''] ''discoveryHandler.GetResourceTypeByID''
     @ map (\<lambda>m. (m, [''Me''], Endpoint ''meHandler.Handle''))
         [''CONNECT'', ''DELETE'', ''GET'', ''HEAD'', ''OPTIONS'', ''PATCH'', ''POST'', ''PUT'', ''TRACE'']"

text \<open>An instance of a pattern below the root of a workspace, with or without a compatibility segment.\<close>

definition segmentText :: "string \<Rightarrow> string \<Rightarrow> string" where
  "segmentText i seg = (if HasPrefix seg ''{'' then i else seg)"

definition requestPath :: "string \<Rightarrow> string option \<Rightarrow> string \<Rightarrow> string list \<Rightarrow> string" where
  "requestPath ws cm i pattern =
     ''/ws/'' @ ws @ ''/scim/v2'' @ (case cm of None \<Rightarrow> [] | Some c \<Rightarrow> CHR ''/'' # c)
     @ CHR ''/'' # Join (map (segmentText i) pattern) ''/''"

section \<open>Metrics\<close>

record scimOperation =
  OperationName :: string
  OperationResource :: string
  OperationAction :: string

definition unknownOperation :: scimOperation where
  "unknownOperation = \<lparr>OperationName = ''unknown'', OperationResource = ''unknown'', OperationAction = ''unknown''\<rparr>"

definition resolveOperationName :: "string \<Rightarrow> string \<Rightarrow> string" where
  "resolveOperationName resource action =
     (if resource = ''users'' then
        (if action = ''create'' then ''createUser'' else if action = ''list'' then ''listUsers''
         else if action = ''get'' then ''getUser'' else if action = ''replace'' then ''replaceUser''
         else if action = ''patch'' then ''patchUser'' else if action = ''delete'' then ''deleteUser'' else ''unknown'')
      else if resource = ''groups'' then
        (if action = ''create'' then ''createGroup'' else if action = ''list'' then ''listGroups''
         else if action = ''get'' then ''getGroup'' else if action = ''replace'' then ''replaceGroup''
         else if action = ''patch'' then ''patchGroup'' else if action = ''delete'' then ''deleteGroup'' else ''unknown'')
      else if resource = ''bulk'' \<and> action = ''process'' then ''processBulk'' else ''unknown'')"

definition operationAction :: "string \<Rightarrow> string \<Rightarrow> string \<Rightarrow> bool \<Rightarrow> string option" where
  "operationAction method path resourceName hasID =
     (if method = ''POST'' then
        Some (if resourceName = ''Bulk'' then ''process'' else if HasSuffix path ''/.search'' then ''list'' else ''create'')
      else if method = ''GET'' then Some (if hasID then ''get'' else ''list'')
      else if method = ''PUT'' then Some ''replace''
      else if method = ''PATCH'' then Some ''patch''
      else if method = ''DELETE'' then Some ''delete'' else None)"

definition resolveOperation :: "ext \<Rightarrow> string \<Rightarrow> string \<Rightarrow> scimOperation" where
  "resolveOperation L method path =
     (case Index path ''/scim/v2/'' of
        None \<Rightarrow> unknownOperation
      | Some idx \<Rightarrow>
          (let rest = drop (idx + 9) path;
               parts = SplitByte (TrimSuffix rest ''/'') CHR ''/'';
               resIdx = (if parts ! 0 = ''MS'' \<and> 1 < length parts then 1 else 0);
               resourceName = parts ! resIdx in
           if resourceName \<notin> {''Users'', ''Groups'', ''Bulk''} then unknownOperation
           else (let resource = ToLower L resourceName;
                     hasID = (resIdx + 1 < length parts \<and> parts ! (resIdx + 1) \<noteq> []) in
             case operationAction method path resourceName hasID of
               None \<Rightarrow> unknownOperation
             | Some action \<Rightarrow> \<lparr>OperationName = resolveOperationName resource action, OperationResource = resource,
                 OperationAction = action\<rparr>)))"

definition isScimRequest :: "string \<Rightarrow> bool" where
  "isScimRequest path \<longleftrightarrow> path \<noteq> [] \<and> HasPrefix path ''/ws/'' \<and> Contains path ''/scim/v2''"

definition resolveAuthenticationOutcome :: "string \<Rightarrow> nat \<Rightarrow> string" where
  "resolveAuthenticationOutcome state statusCode =
     (if state = ''ok'' \<or> state = ''failed'' then state
      else if state = [] \<or> state = ''unknown'' then (if statusCode = 401 \<or> statusCode = 403 then ''failed'' else ''unknown'')
      else ''unknown'')"

definition resolveThrottledOutcome :: "string \<Rightarrow> nat \<Rightarrow> string \<Rightarrow> string" where
  "resolveThrottledOutcome state statusCode retryAfter =
     (if state = ''yes'' \<or> state = ''no'' then state
      else if statusCode = 503 \<and> retryAfter \<noteq> [] then ''yes'' else ''no'')"

text \<open>The counters, by their labels; \<^verbatim>\<open>Inc\<close> appends an event.\<close>

record metrics =
  OpCounter :: "(string \<times> string) list"
  AuthCounter :: "string list"
  ThrottledCounter :: "string list"

definition ScimMetrics :: "ext \<Rightarrow> string \<Rightarrow> string \<Rightarrow> string \<Rightarrow> string \<Rightarrow> nat \<Rightarrow> string \<Rightarrow> metrics \<Rightarrow> metrics" where
  "ScimMetrics L method path authentication throttled statusCode retryAfter m =
     (if \<not> isScimRequest path then m
      else m\<lparr>OpCounter := OpCounter m @ [(OperationName (resolveOperation L method path), itoa statusCode)],
             AuthCounter := AuthCounter m @ [resolveAuthenticationOutcome authentication statusCode],
             ThrottledCounter := ThrottledCounter m @ [resolveThrottledOutcome throttled statusCode retryAfter]\<rparr>)"

section \<open>The metrics name the handler\<close>

text \<open>What the metrics should call a handler.\<close>

definition handlerLabel :: "string \<Rightarrow> string" where
  "handlerLabel h = (case map_of
     [(''userHandler.CreateUser'', ''createUser''), (''userHandler.ListUsers'', ''listUsers''), (''userHandler.SearchUsers'', ''listUsers''),
      (''userHandler.GetUser'', ''getUser''), (''userHandler.ReplaceUser'', ''replaceUser''), (''userHandler.PatchUser'', ''patchUser''),
      (''userHandler.DeleteUser'', ''deleteUser''),
      (''groupHandler.CreateGroup'', ''createGroup''), (''groupHandler.ListGroups'', ''listGroups''), (''groupHandler.SearchGroups'', ''listGroups''),
      (''groupHandler.GetGroup'', ''getGroup''), (''groupHandler.ReplaceGroup'', ''replaceGroup''), (''groupHandler.PatchGroup'', ''patchGroup''),
      (''groupHandler.DeleteGroup'', ''deleteGroup''), (''bulkHandler.ProcessBulk'', ''processBulk'')] h of
     None \<Rightarrow> ''unknown'' | Some l \<Rightarrow> l)"

lemma Index_skip:
  "CHR ''/'' \<notin> set a \<Longrightarrow> Index (a @ t) (CHR ''/'' # p) = map_option ((+) (length a)) (Index t (CHR ''/'' # p))"
proof (induction a)
  case (Cons c a)
  then show ?case by (cases "Index t (CHR ''/'' # p)") auto
next
  case Nil
  then show ?case by (cases "Index t (CHR ''/'' # p)") simp_all
qed

lemma scim_start:
  assumes "CHR ''/'' \<notin> set ws"
  shows "Index (''/ws/'' @ ws @ ''/scim/v2/'' @ rest) ''/scim/v2/'' = Some (length ws + 4)"
proof -
  have "\<not> prefix ''scim/v2/'' (ws @ ''/scim/v2/'' @ rest)"
    using assms by (cases ws; cases "tl ws"; cases "tl (tl ws)"; cases "tl (tl (tl ws))"; cases "tl (tl (tl (tl ws)))") auto
  then have "Index (''/ws/'' @ ws @ ''/scim/v2/'' @ rest) ''/scim/v2/''
      = map_option ((+) 4) (Index (ws @ ''/scim/v2/'' @ rest) ''/scim/v2/'')"
    by (cases "Index (ws @ ''/scim/v2/'' @ rest) ''/scim/v2/''") simp_all
  also have "\<dots> = Some (length ws + 4)" using Index_skip [OF assms, of "''/scim/v2/'' @ rest" "''scim/v2/''"] by simp
  finally show ?thesis .
qed

lemma HasSuffix_append: "length p \<le> length b \<Longrightarrow> HasSuffix (a @ b) p = HasSuffix b p"
  unfolding HasSuffix_def by (meson suffixI suffix_appendI suffix_length_suffix suffix_order.refl)

text \<open>The operation of a request below the root of a workspace.\<close>

definition restOperation :: "ext \<Rightarrow> string \<Rightarrow> string \<Rightarrow> scimOperation" where
  "restOperation L method rest =
     (let parts = SplitByte (TrimSuffix rest ''/'') CHR ''/'';
          resIdx = (if parts ! 0 = ''MS'' \<and> 1 < length parts then 1 else 0);
          resourceName = parts ! resIdx in
      if resourceName \<notin> {''Users'', ''Groups'', ''Bulk''} then unknownOperation
      else (let resource = ToLower L resourceName;
                hasID = (resIdx + 1 < length parts \<and> parts ! (resIdx + 1) \<noteq> []) in
        case operationAction method (''/scim/v2/'' @ rest) resourceName hasID of
          None \<Rightarrow> unknownOperation
        | Some action \<Rightarrow> \<lparr>OperationName = resolveOperationName resource action, OperationResource = resource,
            OperationAction = action\<rparr>))"

lemma resolveOperation_rest:
  assumes "CHR ''/'' \<notin> set ws"
  shows "resolveOperation L method (''/ws/'' @ ws @ ''/scim/v2/'' @ rest) = restOperation L method rest"
proof -
  have "drop (length ws + 4 + 9) (''/ws/'' @ ws @ ''/scim/v2/'' @ rest) = rest"
    by (simp add: eval_nat_numeral)
  moreover have "HasSuffix (''/ws/'' @ ws @ ''/scim/v2/'' @ rest) ''/.search'' = HasSuffix (''/scim/v2/'' @ rest) ''/.search''"
    using HasSuffix_append [of "''/.search''" "''/scim/v2/'' @ rest" "''/ws/'' @ ws"] by simp
  ultimately show ?thesis
    using scim_start [OF assms, of rest] unfolding resolveOperation_def restOperation_def operationAction_def
    by (simp only: option.case Let_def)
qed

lemma SplitByte_one: "CHR ''/'' \<notin> set a \<Longrightarrow> SplitByte a CHR ''/'' = [a]"
  by (induction a) auto

lemma SplitByte_more: "CHR ''/'' \<notin> set a \<Longrightarrow> SplitByte (a @ CHR ''/'' # b) CHR ''/'' = a # SplitByte b CHR ''/''"
  by (induction a) auto

lemma TrimSuffix_slash: "TrimSuffix (s @ [c]) ''/'' = (if c = CHR ''/'' then s else s @ [c])"
  by (auto simp: TrimSuffix_def HasSuffix_def)

lemma TrimSuffix_segment: "i \<noteq> [] \<Longrightarrow> CHR ''/'' \<notin> set i \<Longrightarrow> TrimSuffix (s @ i) ''/'' = s @ i"
proof (cases i rule: rev_cases)
  case (snoc i' c)
  then show "CHR ''/'' \<notin> set i \<Longrightarrow> TrimSuffix (s @ i) ''/'' = s @ i" using TrimSuffix_slash [of "s @ i'" c] by auto
qed simp

text \<open>The segments below the root, given that none is empty or has a slash in it.\<close>

lemma SplitByte_Join:
  "ps \<noteq> [] \<Longrightarrow> \<forall>p \<in> set ps. CHR ''/'' \<notin> set p \<Longrightarrow> SplitByte (Join ps ''/'') CHR ''/'' = ps"
proof (induction ps "''/''" rule: Join.induct)
  case (3 s t ss)
  then show ?case using SplitByte_more [of s "Join (t # ss) ''/''"] by simp
qed (simp_all add: SplitByte_one)

lemma TrimSuffix_Join:
  "ps \<noteq> [] \<Longrightarrow> \<forall>p \<in> set ps. p \<noteq> [] \<and> CHR ''/'' \<notin> set p \<Longrightarrow> TrimSuffix (Join ps ''/'') ''/'' = Join ps ''/''"
proof -
  assume ps: "ps \<noteq> []" "\<forall>p \<in> set ps. p \<noteq> [] \<and> CHR ''/'' \<notin> set p"
  have "\<exists>s p. p \<in> set ps \<and> Join ps ''/'' = s @ p" using ps(1)
  proof (induction ps "''/''" rule: Join.induct)
    case (3 s t ss)
    then obtain a p where "p \<in> set (t # ss)" "Join (t # ss) ''/'' = a @ p" by auto
    then show ?case by (intro exI [of _ "s @ ''/'' @ a"] exI [of _ p]) simp
  qed auto
  then obtain s p where "p \<in> set ps" "Join ps ''/'' = s @ p" by blast
  then show "TrimSuffix (Join ps ''/'') ''/'' = Join ps ''/''" using ps(2) TrimSuffix_segment [of p s] by simp
qed

lemma lowerNames: "ToLower L ''Users'' = ''users''" "ToLower L ''Groups'' = ''groups''" "ToLower L ''Bulk'' = ''bulk''"
  by (subst ToLower_ascii, code_simp, code_simp)+

lemma restOperation_segments:
  assumes "ps \<noteq> []" "\<forall>p \<in> set ps. p \<noteq> [] \<and> CHR ''/'' \<notin> set p"
  shows "restOperation L method (Join ps ''/'') =
     (let resIdx = (if ps ! 0 = ''MS'' \<and> 1 < length ps then 1 else 0);
          resourceName = ps ! resIdx in
      if resourceName \<notin> {''Users'', ''Groups'', ''Bulk''} then unknownOperation
      else (let resource = ToLower L resourceName;
                hasID = (resIdx + 1 < length ps \<and> ps ! (resIdx + 1) \<noteq> []) in
        case operationAction method (''/scim/v2/'' @ Join ps ''/'') resourceName hasID of
          None \<Rightarrow> unknownOperation
        | Some action \<Rightarrow> \<lparr>OperationName = resolveOperationName resource action, OperationResource = resource,
            OperationAction = action\<rparr>))"
  using assms SplitByte_Join [of ps] TrimSuffix_Join [of ps] unfolding restOperation_def by simp

lemma restOperation_root:
  "OperationName (restOperation L method []) = ''unknown''" "OperationName (restOperation L method ''MS/'') = ''unknown''"
  by (simp_all add: restOperation_def TrimSuffix_def HasSuffix_def suffix_def unknownOperation_def)

lemma requestPath_rest:
  assumes "pattern \<noteq> []"
  shows "requestPath ws cm i pattern = ''/ws/'' @ ws @ ''/scim/v2/'' @
    Join ((case cm of None \<Rightarrow> [] | Some c \<Rightarrow> [c]) @ map (segmentText i) pattern) ''/''"
proof -
  have "Join (c # map (segmentText i) pattern) ''/'' = c @ ''/'' @ Join (map (segmentText i) pattern) ''/''" for c
    using assms by (cases pattern) simp_all
  then show ?thesis by (simp add: requestPath_def split: option.split)
qed

lemma restOperation_ext: "OperationName (restOperation L method rest) = OperationName (restOperation plain_ext method rest)"
proof -
  have "resolveOperationName (ToLower L r) a = resolveOperationName (ToLower plain_ext r) a" if "r \<in> {''Users'', ''Groups'', ''Bulk''}" for r a
    using that by (auto simp: lowerNames)
  then show ?thesis by (simp add: restOperation_def Let_def split: option.split)
qed

text \<open>What the table of endpoints looks like, and that the metrics name each of them on the pattern itself.\<close>

definition plainSegment :: "string \<Rightarrow> bool" where
  "plainSegment seg \<longleftrightarrow> \<not> HasPrefix seg ''{''"

definition labelledRow :: "route \<Rightarrow> bool" where
  "labelledRow r = (case r of (m, pattern, e) \<Rightarrow> (case e of NotAllowed a \<Rightarrow> True | Endpoint h \<Rightarrow>
     (pattern = [[]] \<or> list_all (\<lambda>seg. seg \<noteq> [] \<and> CHR ''/'' \<notin> set seg) pattern
       \<and> (case pattern of [a] \<Rightarrow> plainSegment a
         | [a, b] \<Rightarrow> plainSegment a \<and> a \<noteq> ''MS'' \<and> (plainSegment b \<or> m \<noteq> ''POST'') | _ \<Rightarrow> False))
     \<and> OperationName (restOperation plain_ext m (Join pattern ''/'')) = handlerLabel h
     \<and> OperationName (restOperation plain_ext m (Join (''MS'' # pattern) ''/'')) = handlerLabel h))"

lemma table_labelled: "list_all labelledRow scimEndpoints"
  by code_simp

lemma instance_operation:
  assumes "plainSegment a" "a \<noteq> ''MS''" "\<not> plainSegment b" "m \<noteq> ''POST''" "i \<noteq> []" "CHR ''/'' \<notin> set i" "pre = [] \<or> pre = [''MS'']"
    and "a \<noteq> []" "CHR ''/'' \<notin> set a" "b \<noteq> []" "CHR ''/'' \<notin> set b"
  shows "restOperation L m (Join (pre @ [a, i]) ''/'') = restOperation L m (Join (pre @ [a, b]) ''/'')"
proof -
  have "\<forall>path n k. operationAction m path n k = operationAction m [] n k" using assms(4) by (simp add: operationAction_def)
  then obtain act where act: "operationAction m path n k = act n k" for path n k by metis
  have "restOperation L m (Join (pre @ [a, c]) ''/'') = (if a \<notin> {''Users'', ''Groups'', ''Bulk''} then unknownOperation
      else (case act a True of None \<Rightarrow> unknownOperation
        | Some action \<Rightarrow> \<lparr>OperationName = resolveOperationName (ToLower L a) action, OperationResource = ToLower L a,
            OperationAction = action\<rparr>))" if c: "c \<noteq> []" "CHR ''/'' \<notin> set c" for c
  proof (cases "pre = []")
    case True
    have "restOperation L m (Join [a, c] ''/'') = (if a \<notin> {''Users'', ''Groups'', ''Bulk''} then unknownOperation
      else (case act a True of None \<Rightarrow> unknownOperation
        | Some action \<Rightarrow> \<lparr>OperationName = resolveOperationName (ToLower L a) action, OperationResource = ToLower L a,
            OperationAction = action\<rparr>))"
      using c assms(2,8,9) by (subst restOperation_segments) (simp_all add: act Let_def split: option.split)
    with True show ?thesis by (simp only: append_Nil)
  next
    case False
    then have pre: "pre = [''MS'']" using assms(7) by blast
    have "restOperation L m (Join [''MS'', a, c] ''/'') = (if a \<notin> {''Users'', ''Groups'', ''Bulk''} then unknownOperation
      else (case act a True of None \<Rightarrow> unknownOperation
        | Some action \<Rightarrow> \<lparr>OperationName = resolveOperationName (ToLower L a) action, OperationResource = ToLower L a,
            OperationAction = action\<rparr>))"
      using c assms(2,8,9) by (subst restOperation_segments) (simp_all add: act Let_def split: option.split)
    with pre show ?thesis by (simp only: append.simps)
  qed
  then show ?thesis using assms(5,6,10,11) by simp
qed

lemma labelled:
  assumes "(m, pattern, Endpoint h) \<in> set scimEndpoints" "i \<noteq> []" "CHR ''/'' \<notin> set i" "pre = [] \<or> pre = [''MS'']"
  shows "OperationName (restOperation L m (Join (pre @ map (segmentText i) pattern) ''/'')) = handlerLabel h"
proof -
  have row: "labelledRow (m, pattern, Endpoint h)" using table_labelled assms(1) by (simp add: list_all_iff)
  have name: "OperationName (restOperation L m (Join (pre @ pattern) ''/'')) = handlerLabel h"
    using row assms(4) restOperation_ext [of L] by (auto simp: labelledRow_def)
  have seg: "segmentText i c = c" if "plainSegment c" for c using that by (simp add: segmentText_def plainSegment_def)
  have var: "segmentText i c = i" if "\<not> plainSegment c" for c using that by (simp add: segmentText_def plainSegment_def)
  consider "pattern = [[]]" | a where "pattern = [a]" "plainSegment a"
    | a b where "pattern = [a, b]" "plainSegment a" "plainSegment b"
    | a b where "pattern = [a, b]" "plainSegment a" "\<not> plainSegment b" "a \<noteq> ''MS''" "m \<noteq> ''POST''"
        "list_all (\<lambda>seg. seg \<noteq> [] \<and> CHR ''/'' \<notin> set seg) [a, b]"
    using row unfolding labelledRow_def by (auto split: list.splits)
  then show ?thesis
  proof cases
    case 1
    then show ?thesis using name by (simp add: segmentText_def HasPrefix_def)
  next
    case 2
    then show ?thesis using name seg by simp
  next
    case 3
    then show ?thesis using name seg by simp
  next
    case 4
    then show ?thesis using name seg var instance_operation [of a b m i pre L] assms(2-4) by simp
  qed
qed

text \<open>C11. The metrics count every request under the handler that serves it: for every registered endpoint, every
  workspace and every identifier, with no compatibility segment or with \<^verbatim>\<open>MS\<close>, the operation they report is the label of
  the endpoint's handler.\<close>

theorem metrics_name_handler:
  assumes "(m, pattern, Endpoint h) \<in> set scimEndpoints" and "CHR ''/'' \<notin> set ws"
    and "i \<noteq> []" "CHR ''/'' \<notin> set i" and "cm \<in> {None, Some ''MS''}"
  shows "OperationName (resolveOperation L m (requestPath ws cm i pattern)) = handlerLabel h"
proof -
  have "pattern \<noteq> []" using table_labelled assms(1) by (auto simp: list_all_iff labelledRow_def)
  moreover have "(case cm of None \<Rightarrow> [] | Some c \<Rightarrow> [c]) = [] \<or> (case cm of None \<Rightarrow> [] | Some c \<Rightarrow> [c]) = [''MS'']"
    using assms(5) by auto
  ultimately show ?thesis
    using labelled [OF assms(1,3,4), of "case cm of None \<Rightarrow> [] | Some c \<Rightarrow> [c]" L] requestPath_rest [of pattern ws cm i]
      resolveOperation_rest [OF assms(2), of L m] by simp
qed

theorem metrics_name_handler_witness:
  "OperationName (resolveOperation plain_ext ''PATCH'' (requestPath ''w1'' (Some ''MS'') ''42'' [''Groups'', ''{id}''])) = ''patchGroup''"
proof -
  have "(''PATCH'', [''Groups'', ''{id}''], Endpoint ''groupHandler.PatchGroup'') \<in> set scimEndpoints" by code_simp
  then show ?thesis
    using metrics_name_handler [of "''PATCH''" "[''Groups'', ''{id}'']" "''groupHandler.PatchGroup''" "''w1''" "''42''" "Some ''MS''" plain_ext]
    by (simp add: handlerLabel_def)
qed

text \<open>Refused requests are counted too, some of them as an operation that did not run; and a compatibility segment
  other than \<^verbatim>\<open>MS\<close> hides the operation.\<close>

lemma refused_counted:
  "OperationName (resolveOperation plain_ext ''GET'' ''/ws/w/scim/v2/Users/.search'') = ''getUser''"
  "OperationName (resolveOperation plain_ext ''PUT'' ''/ws/w/scim/v2/Users'') = ''replaceUser''"
  "OperationName (resolveOperation plain_ext ''GET'' ''/ws/w/scim/v2/ms/Users'') = ''unknown''"
  by code_simp+

end
