(* ===== verification/ConfigLoader.thy ===== *)
theory ConfigLoader
  imports Complex_Main GoStrings
begin

text \<open>
  \<^verbatim>\<open>internal/configloader\<close>: which YAML documents are accepted as configuration, and the environment variables that
  override the fields of the decoded struct. Decoding YAML into the struct is done by the YAML package and a parameter
  of the loader; a struct is the list of its fields, as \<^verbatim>\<open>reflect\<close> shows them.
\<close>

section \<open>YAML nodes\<close>

datatype yaml_kind = DocumentNode | SequenceNode | MappingNode | ScalarNode | AliasNode

text \<open>The nodes of the YAML package: kind, value, anchor and content.\<close>

datatype yaml_node = Node (kind_of: yaml_kind) (value_of: string) (anchor_of: string) (content_of: "yaml_node list")

definition errAnchorsNotSupported :: string where "errAnchorsNotSupported = ''YAML anchors are not supported''"
definition errAliasesNotSupported :: string where "errAliasesNotSupported = ''YAML aliases are not supported''"
definition errMapKeysMustBeScalars :: string where "errMapKeysMustBeScalars = ''YAML map keys must be scalars''"
definition errMergeKeysNotSupported :: string where "errMergeKeysNotSupported = ''YAML merge keys are not supported''"
definition errSequencesUnsupported :: string where "errSequencesUnsupported = ''YAML sequences are not supported''"

definition rejectAnchor :: "yaml_node \<Rightarrow> string + unit" where
  "rejectAnchor node = (if anchor_of node \<noteq> [] then Inl errAnchorsNotSupported else Inr ())"

definition validateKeyNode :: "yaml_node \<Rightarrow> string + unit" where
  "validateKeyNode node =
     rbind (rejectAnchor node) (\<lambda>_.
       if kind_of node \<noteq> ScalarNode then Inl errMapKeysMustBeScalars
       else if value_of node = ''<<'' then Inl errMergeKeysNotSupported else Inr ())"

text \<open>\<^verbatim>\<open>validateMappingNode\<close> and \<^verbatim>\<open>validateValueNode\<close>; the content of a mapping has an even length.\<close>

function validateMappingNode :: "yaml_node list \<Rightarrow> string + unit"
  and validateValueNode :: "yaml_node \<Rightarrow> string + unit" where
  "validateMappingNode [] = Inr ()"
| "validateMappingNode [keyNode] = Inr ()"
| "validateMappingNode (keyNode # valueNode # rest) =
     rbind (validateKeyNode keyNode) (\<lambda>_. rbind (validateValueNode valueNode) (\<lambda>_. validateMappingNode rest))"
| "validateValueNode (Node k v a content) =
     rbind (rejectAnchor (Node k v a content)) (\<lambda>_. case k of
         MappingNode \<Rightarrow> validateMappingNode content
       | ScalarNode \<Rightarrow> Inr ()
       | SequenceNode \<Rightarrow> Inl errSequencesUnsupported
       | AliasNode \<Rightarrow> Inl errAliasesNotSupported
       | DocumentNode \<Rightarrow> Inl ''unsupported YAML node kind 1'')"
  by pat_completeness auto
termination
  by (relation "measure (\<lambda>x. case x of Inl ns \<Rightarrow> size_list size ns | Inr n \<Rightarrow> size n)") auto

definition validateDocumentNode :: "yaml_node \<Rightarrow> string + unit" where
  "validateDocumentNode node =
     rbind (rejectAnchor node) (\<lambda>_. case kind_of node of
         MappingNode \<Rightarrow> validateMappingNode (content_of node)
       | SequenceNode \<Rightarrow> Inl errSequencesUnsupported
       | _ \<Rightarrow> Inl ''YAML root node must be a mapping'')"

text \<open>\<^verbatim>\<open>validateMinimalYAML\<close> on the documents of the stream.\<close>

fun validateDocuments :: "nat \<Rightarrow> yaml_node list \<Rightarrow> string + unit" where
  "validateDocuments documentCount [] = Inr ()"
| "validateDocuments documentCount (node # nodes) =
     (case content_of node of
        [] \<Rightarrow> validateDocuments documentCount nodes
      | doc # _ \<Rightarrow>
          if 1 < documentCount + 1 then Inl ''multiple YAML documents are not supported''
          else rbind (validateDocumentNode doc) (\<lambda>_. validateDocuments (documentCount + 1) nodes))"

text \<open>The YAML package: the documents of a text with the error that ends them, if one does; decoding the first document
  into a struct, where an unknown field is an error; and what follows the first document.\<close>

datatype yaml_rest = EndOfStream | BadDocument string | MoreDocuments

section \<open>Fields\<close>

text \<open>Parsers of the standard library that a field may need.\<close>

record parsers =
  ParseDuration :: "string \<Rightarrow> string + int"
  ParseFloat :: "string \<Rightarrow> string + rat"

datatype field_value =
    StringField string | BoolField bool | BoolPtrField "bool option" | DurationField int
  | IntField nat int | UintField nat int | FloatField rat | StructField "(string \<times> bool \<times> string \<times> string \<times> field_value) list"
  | OtherField string

text \<open>A field: its Go name, whether it is exported, its \<^verbatim>\<open>yaml\<close> and \<^verbatim>\<open>env\<close> tags, its value.\<close>

type_synonym struct_field = "string \<times> bool \<times> string \<times> string \<times> field_value"

definition toSnakeCase :: "ext \<Rightarrow> string \<Rightarrow> string" where
  "toSnakeCase L input =
     (case runes input of
        [] \<Rightarrow> []
      | r # rs \<Rightarrow>
          (let lower = (\<lambda>r. ToLower L r); isUpper = (\<lambda>r. lower r \<noteq> r) in
           (if isUpper r then lower r else r) @ concat (map (\<lambda>r. if isUpper r then CHR ''_'' # lower r else r) rs)))"

definition yamlFieldName :: "ext \<Rightarrow> string \<Rightarrow> string \<Rightarrow> string" where
  "yamlFieldName L fieldName tag =
     (if tag = ''-'' then []
      else if tag \<noteq> [] then
        (let name = takeWhile (\<lambda>c. c \<noteq> CHR '','') tag in if name = [] then toSnakeCase L fieldName else name)
      else toSnakeCase L fieldName)"

definition isAsciiAlnum :: "char \<Rightarrow> bool" where
  "isAsciiAlnum c \<longleftrightarrow> is_digit c \<or> is_upper c \<or> is_lower c"

text \<open>On ASCII; a name of a field has no other letters here.\<close>

definition normalizeEnvPart :: "ext \<Rightarrow> string \<Rightarrow> string" where
  "normalizeEnvPart L input =
     TrimByte (concat (map (\<lambda>c. if isAsciiAlnum c then [ascii_upper c] else ''_'') input)) CHR ''_''"

definition envName :: "ext \<Rightarrow> string \<Rightarrow> string \<Rightarrow> string list \<Rightarrow> string" where
  "envName L override pfx path =
     (if override \<noteq> [] then override
      else Join ((if pfx \<noteq> [] then [TrimSuffix pfx ''_''] else []) @ map (normalizeEnvPart L) path) ''_'')"

definition ParseBool :: "string \<Rightarrow> string + bool" where
  "ParseBool s =
     (if s \<in> set [''1'', ''t'', ''T'', ''TRUE'', ''true'', ''True''] then Inr True
      else if s \<in> set [''0'', ''f'', ''F'', ''FALSE'', ''false'', ''False''] then Inr False
      else Inl (''strconv.ParseBool: parsing '' @ [dquote] @ s @ [dquote] @ '': invalid syntax''))"

definition syntaxError :: "string \<Rightarrow> string \<Rightarrow> string" where
  "syntaxError f s = ''strconv.'' @ f @ '': parsing '' @ [dquote] @ s @ [dquote] @ '': invalid syntax''"

definition rangeError :: "string \<Rightarrow> string \<Rightarrow> string" where
  "rangeError f s = ''strconv.'' @ f @ '': parsing '' @ [dquote] @ s @ [dquote] @ '': value out of range''"

text \<open>\<^verbatim>\<open>strconv.ParseUint\<close> and \<^verbatim>\<open>ParseInt\<close> with base 10.\<close>

definition ParseUint :: "string \<Rightarrow> nat \<Rightarrow> string + int" where
  "ParseUint s bits =
     (if s = [] \<or> \<not> list_all is_digit s then Inl (syntaxError ''ParseUint'' s)
      else if 2 ^ bits \<le> atoi_from 0 s then Inl (rangeError ''ParseUint'' s) else Inr (int (atoi_from 0 s)))"

definition ParseInt :: "string \<Rightarrow> nat \<Rightarrow> string + int" where
  "ParseInt s bits =
     (let (negative, ds) = (case s of c # cs \<Rightarrow> if c = CHR ''-'' then (True, cs) else if c = CHR ''+'' then (False, cs) else (False, s)
          | [] \<Rightarrow> (False, [])) in
      if ds = [] \<or> \<not> list_all is_digit ds then Inl (syntaxError ''ParseInt'' s)
      else (let n = (if negative then - int (atoi_from 0 ds) else int (atoi_from 0 ds)) in
        if n < - (2 ^ (bits - 1)) \<or> 2 ^ (bits - 1) \<le> n then Inl (rangeError ''ParseInt'' s) else Inr n))"

definition setValue :: "parsers \<Rightarrow> field_value \<Rightarrow> string \<Rightarrow> string + field_value" where
  "setValue P field raw =
     (case field of
        DurationField _ \<Rightarrow> rbind (ParseDuration P raw) (\<lambda>d. Inr (DurationField d))
      | BoolPtrField _ \<Rightarrow> rbind (ParseBool raw) (\<lambda>b. Inr (BoolPtrField (Some b)))
      | StringField _ \<Rightarrow> Inr (StringField raw)
      | BoolField _ \<Rightarrow> rbind (ParseBool raw) (\<lambda>b. Inr (BoolField b))
      | IntField bits _ \<Rightarrow> rbind (ParseInt raw bits) (\<lambda>i. Inr (IntField bits i))
      | UintField bits _ \<Rightarrow> rbind (ParseUint raw bits) (\<lambda>i. Inr (UintField bits i))
      | FloatField _ \<Rightarrow> rbind (ParseFloat P raw) (\<lambda>f. Inr (FloatField f))
      | StructField _ \<Rightarrow> Inl ''unsupported field type struct''
      | OtherField typ \<Rightarrow> Inl (''unsupported field type '' @ typ))"

section \<open>Environment variables\<close>

text \<open>\<^verbatim>\<open>walkStruct\<close>: the fields in order; the first error ends it.\<close>

function walkStruct :: "ext \<Rightarrow> parsers \<Rightarrow> string \<Rightarrow> string list \<Rightarrow> (string \<Rightarrow> string option) \<Rightarrow> struct_field list
    \<Rightarrow> string + struct_field list" where
  "walkStruct L P pfx path lookupEnv [] = Inr []"
| "walkStruct L P pfx path lookupEnv ((fieldName, exported, yamlTag, envTag, v) # rest) =
     rbind
       (let name = yamlFieldName L fieldName yamlTag; currentPath = path @ [name] in
        if \<not> exported \<or> name = [] then Inr v
        else (case v of
            StructField inner \<Rightarrow> rbind (walkStruct L P pfx currentPath lookupEnv inner) (\<lambda>fs. Inr (StructField fs))
          | _ \<Rightarrow>
              (case lookupEnv (envName L envTag pfx currentPath) of
                 None \<Rightarrow> Inr v
               | Some raw \<Rightarrow>
                   (case setValue P v raw of
                      Inl e \<Rightarrow> Inl (''apply '' @ envName L envTag pfx currentPath @ '': '' @ e)
                    | Inr v' \<Rightarrow> Inr v'))))
       (\<lambda>v'. rbind (walkStruct L P pfx path lookupEnv rest) (\<lambda>fs. Inr ((fieldName, exported, yamlTag, envTag, v') # fs)))"
  by pat_completeness auto
termination
  by (relation "measure (\<lambda>(L, P, pfx, path, lookupEnv, rest). size_list (size_prod (\<lambda>_. 0) (size_prod (\<lambda>_. 0) (size_prod (\<lambda>_. 0) (size_prod (\<lambda>_. 0) size)))) rest)")
    auto

section \<open>Loading\<close>

record yaml =
  Documents :: "string \<Rightarrow> yaml_node list \<times> string option"
  DecodeStruct :: "string \<Rightarrow> struct_field list \<Rightarrow> string + struct_field list"
  AfterFirst :: "string \<Rightarrow> yaml_rest"

definition validateMinimalYAML :: "yaml \<Rightarrow> string \<Rightarrow> string + unit" where
  "validateMinimalYAML Y text =
     (case Documents Y text of (nodes, err) \<Rightarrow>
        rbind (validateDocuments 0 nodes) (\<lambda>_. case err of None \<Rightarrow> Inr () | Some e \<Rightarrow> Inl e))"

definition decodeMinimalYAML :: "yaml \<Rightarrow> string \<Rightarrow> struct_field list \<Rightarrow> string + struct_field list" where
  "decodeMinimalYAML Y text target =
     (let trimmed = TrimSpace text in
      if trimmed = [] then Inr target
      else rbind (validateMinimalYAML Y trimmed) (\<lambda>_.
        rbind (DecodeStruct Y trimmed target) (\<lambda>decoded. case AfterFirst Y trimmed of
            EndOfStream \<Rightarrow> Inr decoded
          | BadDocument e \<Rightarrow> Inl e
          | MoreDocuments \<Rightarrow> Inl ''multiple YAML documents are not supported'')))"

text \<open>The files in order, each into the struct that the ones before it left. The type is a struct.\<close>

primrec loadFiles :: "yaml \<Rightarrow> (string \<Rightarrow> string + string) \<Rightarrow> string list \<Rightarrow> struct_field list \<Rightarrow> string + struct_field list" where
  "loadFiles Y readFile [] cfg = Inr cfg"
| "loadFiles Y readFile (path # paths) cfg =
     (case readFile path of
        Inl e \<Rightarrow> Inl (''read '' @ path @ '': '' @ e)
      | Inr contents \<Rightarrow>
          (case decodeMinimalYAML Y contents cfg of
             Inl e \<Rightarrow> Inl (''load '' @ path @ '': '' @ e)
           | Inr cfg' \<Rightarrow> loadFiles Y readFile paths cfg'))"

definition Load :: "ext \<Rightarrow> parsers \<Rightarrow> yaml \<Rightarrow> (string \<Rightarrow> string + string) \<Rightarrow> string list \<Rightarrow> string \<Rightarrow> (string \<Rightarrow> string option)
    \<Rightarrow> struct_field list \<Rightarrow> string + struct_field list" where
  "Load L P Y readFile paths envPrefix lookupEnv zero =
     (if paths = [] then Inl ''at least one config file is required''
      else rbind (loadFiles Y readFile paths zero) (walkStruct L P envPrefix [] lookupEnv))"

text \<open>The fields that are not structs themselves, with the names of their environment variables.\<close>

function leaves :: "ext \<Rightarrow> string \<Rightarrow> string list \<Rightarrow> struct_field list \<Rightarrow> (string \<times> field_value) list" where
  "leaves L pfx path [] = []"
| "leaves L pfx path ((fieldName, exported, yamlTag, envTag, v) # rest) =
     (let name = yamlFieldName L fieldName yamlTag; currentPath = path @ [name] in
      if \<not> exported \<or> name = [] then []
      else (case v of
          StructField inner \<Rightarrow> leaves L pfx currentPath inner
        | _ \<Rightarrow> [(envName L envTag pfx currentPath, v)]))
     @ leaves L pfx path rest"
  by pat_completeness auto
termination
  by (relation "measure (\<lambda>(L, pfx, path, rest). size_list (size_prod (\<lambda>_. 0) (size_prod (\<lambda>_. 0) (size_prod (\<lambda>_. 0) (size_prod (\<lambda>_. 0) size)))) rest)")
    auto

text \<open>A value stays in its kind of field.\<close>

lemma setValue_leaf: "setValue P v raw = Inr v' \<Longrightarrow> (\<forall>fs. v \<noteq> StructField fs) \<and> (\<forall>fs. v' \<noteq> StructField fs)"
  by (cases v) (auto simp: setValue_def rbind_eq_Inr)

text \<open>Loading sets exactly the fields whose variable is set, each to the value its text has for the kind of field, and
  leaves the other fields as they were decoded.\<close>

lemma walkStruct_leaves:
  "walkStruct L P pfx path lookupEnv rest = Inr fs \<Longrightarrow>
   list_all2 (\<lambda>(n, v) (n', v'). n' = n \<and> (case lookupEnv n of None \<Rightarrow> v' = v | Some raw \<Rightarrow> setValue P v raw = Inr v'))
     (leaves L pfx path rest) (leaves L pfx path fs)"
proof (induction L P pfx path lookupEnv rest arbitrary: fs rule: walkStruct.induct)
  case (2 L P pfx path lookupEnv fieldName exported yamlTag envTag v rest)
  let ?name = "yamlFieldName L fieldName yamlTag"
  let ?env = "envName L envTag pfx (path @ [?name])"
  let ?R = "\<lambda>(n, v) (n', v'). n' = n \<and> (case lookupEnv n of None \<Rightarrow> v' = v | Some raw \<Rightarrow> setValue P v raw = Inr v')"
  obtain v' fs' where v': "(if \<not> exported \<or> ?name = [] then Inr v
      else (case v of
          StructField inner \<Rightarrow> rbind (walkStruct L P pfx (path @ [?name]) lookupEnv inner) (\<lambda>fs. Inr (StructField fs))
        | _ \<Rightarrow> (case lookupEnv ?env of
             None \<Rightarrow> Inr v
           | Some raw \<Rightarrow> (case setValue P v raw of Inl e \<Rightarrow> Inl (''apply '' @ ?env @ '': '' @ e) | Inr v' \<Rightarrow> Inr v')))) = Inr v'"
    and fs: "walkStruct L P pfx path lookupEnv rest = Inr fs'" "fs = (fieldName, exported, yamlTag, envTag, v') # fs'"
    using "2.prems" by (auto simp: rbind_eq_Inr Let_def)
  have "list_all2 ?R (leaves L pfx path rest) (leaves L pfx path fs')" using "2.IH"(2) [of v' fs'] v' fs(1) unfolding Let_def by blast
  moreover have "list_all2 ?R (leaves L pfx path [(fieldName, exported, yamlTag, envTag, v)])
      (leaves L pfx path [(fieldName, exported, yamlTag, envTag, v')])"
  proof (cases "\<not> exported \<or> ?name = []")
    case False
    show ?thesis
    proof (cases "\<exists>inner. v = StructField inner")
      case True
      then obtain inner inner' where "v = StructField inner" "v' = StructField inner'"
        "walkStruct L P pfx (path @ [?name]) lookupEnv inner = Inr inner'"
        using v' False by (auto simp: rbind_eq_Inr)
      then show ?thesis using False "2.IH"(1) by simp
    next
      case leaf: False
      then have "case lookupEnv ?env of None \<Rightarrow> v' = v | Some raw \<Rightarrow> setValue P v raw = Inr v'"
        using v' False by (cases v) (auto split: option.splits sum.splits)
      moreover from this have "\<forall>fs. v' \<noteq> StructField fs" using leaf setValue_leaf by (auto split: option.splits)
      ultimately show ?thesis using leaf False by (cases v; cases v') (auto split: option.splits)
    qed
  qed auto
  ultimately have "list_all2 ?R (leaves L pfx path [(fieldName, exported, yamlTag, envTag, v)] @ leaves L pfx path rest)
      (leaves L pfx path [(fieldName, exported, yamlTag, envTag, v')] @ leaves L pfx path fs')"
    by (intro list_all2_appendI)
  then show ?case unfolding fs(2) by simp
qed simp

lemma Load_env_wins:
  assumes "Load L P Y readFile paths envPrefix lookupEnv zero = Inr cfg"
  obtains decoded where "loadFiles Y readFile paths zero = Inr decoded"
    and "list_all2 (\<lambda>(n, v) (n', v'). n' = n \<and> (case lookupEnv n of None \<Rightarrow> v' = v | Some raw \<Rightarrow> setValue P v raw = Inr v'))
      (leaves L envPrefix [] decoded) (leaves L envPrefix [] cfg)"
  using assms walkStruct_leaves by (auto simp: Load_def rbind_eq_Inr split: if_splits)

text \<open>A file with several documents is refused, and so is one whose documents the checks refuse.\<close>

lemma second_document_refused:
  assumes "fst (Documents Y (TrimSpace text)) = first # rest" and "content_of first \<noteq> []" and "\<exists>d \<in> set rest. content_of d \<noteq> []"
    and "TrimSpace text \<noteq> []"
  shows "\<exists>e. decodeMinimalYAML Y text target = Inl e"
proof -
  have later: "\<exists>e. validateDocuments (Suc n) ds = Inl e" if "\<exists>d \<in> set ds. content_of d \<noteq> []" for n ds
    using that by (induction ds) (auto split: list.split)
  have "\<exists>e. validateDocuments 0 (first # rest) = Inl e"
  proof (cases "validateDocumentNode (hd (content_of first))")
    case (Inr u)
    with assms(2) later [OF assms(3), of 0] show ?thesis by (cases "content_of first") auto
  qed (use assms(2) in \<open>cases "content_of first"; simp\<close>)
  with assms(1,4) show ?thesis by (auto simp: decodeMinimalYAML_def validateMinimalYAML_def Let_def split: prod.split)
qed

end
