(* ===== verification/AppConfig.thy ===== *)
theory AppConfig
  imports Complex_Main Cleanup Redact
begin

text \<open>
  The configuration of \<^verbatim>\<open>internal/app\<close>: its struct, defaults and checks, what the server derives from it
  (\<^verbatim>\<open>config.go\<close>, \<^verbatim>\<open>config_internal.go\<close>, \<^verbatim>\<open>run_internal.go\<close>, \<^verbatim>\<open>run.go\<close>, \<^verbatim>\<open>serve_internal.go\<close>). Durations are numbers of
  nanoseconds; the rate of requests is a rational number. The loader is a parameter here, its code is in ConfigLoader.
\<close>

section \<open>The struct\<close>

record ServerConfig =
  Port :: int
  BaseURL :: string
  ReadTimeout :: int
  ReadHeaderTimeout :: int
  WriteTimeout :: int
  IdleTimeout :: int
  ShutdownTimeout :: int
  CursorSecret :: string

record RateLimitConfig =
  RateLimitEnabled :: bool
  RequestsPerSecond :: rat
  WaitTimeout :: int

record StorageConfig =
  DSN :: string
  Username :: string
  StoragePassword :: string
  MaxConns :: int
  MinConns :: int

record CleanupRequestLogsConfig =
  RequestLogsEnabled :: "bool option"
  RequestLogsInterval :: int
  RequestLogsMaxCount :: int

record CleanupAsyncEventsConfig =
  AsyncEventsEnabled :: "bool option"
  AsyncEventsInterval :: int
  AsyncEventsMaxCount :: int
  AsyncEventsStalePendingAfter :: int

record CleanupConfig =
  CleanupOn :: bool
  WorkspaceInterval :: int
  StaleAfter :: int
  RequestLogs :: CleanupRequestLogsConfig
  AsyncEvents :: CleanupAsyncEventsConfig

record Config =
  Server :: ServerConfig
  ManagementPort :: int
  RateLimit :: RateLimitConfig
  Storage :: StorageConfig
  CleanupCfg :: CleanupConfig
  MessagesLanguage :: string
  LoggingLevel :: string

section \<open>Defaults and checks\<close>

definition applyConfigDefaults :: "Config \<Rightarrow> Config" where
  "applyConfigDefaults cfg =
     (let cfg = cfg\<lparr>Server := (Server cfg)\<lparr>BaseURL := TrimRightByte (TrimSpace (BaseURL (Server cfg))) CHR ''/''\<rparr>\<rparr>;
          rl = RequestLogs (CleanupCfg cfg);
          rl = (if RequestLogsEnabled rl = None then rl\<lparr>RequestLogsEnabled := Some True\<rparr> else rl);
          rl = (if RequestLogsInterval rl = 0 then rl\<lparr>RequestLogsInterval := DefaultRequestLogCleanupInterval\<rparr> else rl);
          rl = (if RequestLogsMaxCount rl = 0 then rl\<lparr>RequestLogsMaxCount := DefaultRequestLogCleanupMaxCount\<rparr> else rl);
          ae = AsyncEvents (CleanupCfg cfg);
          ae = (if AsyncEventsEnabled ae = None then ae\<lparr>AsyncEventsEnabled := Some True\<rparr> else ae);
          ae = (if AsyncEventsInterval ae = 0 then ae\<lparr>AsyncEventsInterval := DefaultAsyncEventCleanupInterval\<rparr> else ae);
          ae = (if AsyncEventsMaxCount ae = 0 then ae\<lparr>AsyncEventsMaxCount := DefaultAsyncEventCleanupMaxCount\<rparr> else ae);
          ae = (if AsyncEventsStalePendingAfter ae = 0
                then ae\<lparr>AsyncEventsStalePendingAfter := DefaultAsyncEventStalePendingAfter\<rparr> else ae) in
      cfg\<lparr>CleanupCfg := (CleanupCfg cfg)\<lparr>RequestLogs := rl, AsyncEvents := ae\<rparr>\<rparr>)"

definition minCursorSecretLength :: nat where
  "minCursorSecretLength = 32"

definition validateConfig :: "Config \<Rightarrow> string + unit" where
  "validateConfig cfg =
     (if BaseURL (Server cfg) \<noteq> [] \<and> \<not> HasPrefix (BaseURL (Server cfg)) ''http://'' \<and> \<not> HasPrefix (BaseURL (Server cfg)) ''https://''
      then Inl ''server.base_url must start with http:// or https://''
      else if TrimSpace (CursorSecret (Server cfg)) \<noteq> [] \<and> length (TrimSpace (CursorSecret (Server cfg))) < minCursorSecretLength
      then Inl ''server.cursor_secret must be at least 32 characters long''
      else if RateLimitEnabled (RateLimit cfg) \<and> RequestsPerSecond (RateLimit cfg) \<le> 0
      then Inl ''rate_limit.requests_per_second must be greater than 0 when rate limiting is enabled''
      else if WaitTimeout (RateLimit cfg) < 0 then Inl ''rate_limit.wait_timeout must be greater than or equal to 0''
      else if RequestLogsInterval (RequestLogs (CleanupCfg cfg)) \<le> 0 then Inl ''cleanup.request_logs.interval must be greater than 0''
      else if RequestLogsMaxCount (RequestLogs (CleanupCfg cfg)) \<le> 0 then Inl ''cleanup.request_logs.max_count must be greater than 0''
      else if AsyncEventsInterval (AsyncEvents (CleanupCfg cfg)) \<le> 0 then Inl ''cleanup.async_events.interval must be greater than 0''
      else if AsyncEventsMaxCount (AsyncEvents (CleanupCfg cfg)) \<le> 0 then Inl ''cleanup.async_events.max_count must be greater than 0''
      else if AsyncEventsStalePendingAfter (AsyncEvents (CleanupCfg cfg)) \<le> 0
      then Inl ''cleanup.async_events.stale_pending_after must be greater than 0''
      else Inr ())"

text \<open>\<^verbatim>\<open>loadConfig\<close>: the files that exist, the loader on them, defaults, checks. A file that cannot be looked at other
  than because it does not exist is not modelled. The cursor secret is set as a side effect.\<close>

definition resolveConfigFiles :: "(string \<Rightarrow> bool) \<Rightarrow> string \<Rightarrow> string list" where
  "resolveConfigFiles exists configDir =
     filter exists [configDir @ ''/app-conf.yaml'', configDir @ ''/app-secrets.yaml'']"

definition loadConfig :: "(string \<Rightarrow> bool) \<Rightarrow> (string list \<Rightarrow> string + Config) \<Rightarrow> (string \<Rightarrow> string option)
    \<Rightarrow> string option \<Rightarrow> (string + Config) \<times> string option" where
  "loadConfig exists load lookupEnv secret =
     (let configDir = (case lookupEnv ''GO_CONFIG_DIR'' of Some d \<Rightarrow> d | None \<Rightarrow> ''config'');
          mainFile = configDir @ ''/app-conf.yaml'' in
      if \<not> exists mainFile then (Inl (''config file not found: '' @ mainFile), secret)
      else (case load (resolveConfigFiles exists configDir) of
          Inl e \<Rightarrow> (Inl e, secret)
        | Inr cfg \<Rightarrow>
            (let cfg = applyConfigDefaults cfg in
             case validateConfig cfg of
               Inl e \<Rightarrow> (Inl e, secret)
             | Inr _ \<Rightarrow> (Inr cfg, if CursorSecret (Server cfg) \<noteq> [] then Some (CursorSecret (Server cfg)) else secret))))"

text \<open>\<^verbatim>\<open>ensureCursorSecret\<close>: the secret of the configuration, or of the environment.\<close>

definition ensureCursorSecret :: "Config \<Rightarrow> (string \<Rightarrow> string option) \<Rightarrow> (string \<Rightarrow> string) \<Rightarrow> string + string" where
  "ensureCursorSecret cfg lookupEnv getenv =
     (let secret = TrimSpace (CursorSecret (Server cfg));
          secret = (if secret = [] then (case lookupEnv ''GO_CURSOR_SECRET'' of Some v \<Rightarrow> TrimSpace v | None \<Rightarrow> secret) else secret);
          secret = (if secret = [] then TrimSpace (getenv ''GO_CURSOR_SECRET'') else secret) in
      if secret = [] then Inl ''cursor secret is not configured: set GO_CURSOR_SECRET (or server.cursor_secret)''
      else if length secret < minCursorSecretLength then Inl ''cursor secret is too short: must be at least 32 characters long''
      else Inr secret)"

section \<open>What the server derives\<close>

text \<open>\<^verbatim>\<open>strings.Replace(s, old, new, 1)\<close>.\<close>

definition ReplaceFirst :: "string \<Rightarrow> string \<Rightarrow> string \<Rightarrow> string" where
  "ReplaceFirst s old new = (case Index s old of None \<Rightarrow> s | Some i \<Rightarrow> take i s @ new @ drop (i + length old) s)"

definition resolveDSN :: "Config \<Rightarrow> string" where
  "resolveDSN cfg =
     (let dsn = TrimPrefix (DSN (Storage cfg)) ''jdbc:'';
          dsn = ReplaceFirst dsn ''postgresql://'' ''postgres://'';
          dsn = (if Username (Storage cfg) \<noteq> []
            then ReplaceFirst dsn ''postgres://'' (''postgres://'' @ Username (Storage cfg) @ '':'' @ StoragePassword (Storage cfg) @ ''@'')
            else dsn) in
      if Contains dsn ''sslmode='' then dsn
      else if Contains dsn ''?'' then dsn @ ''&sslmode=disable'' else dsn @ ''?sslmode=disable'')"

definition managementPort :: "Config \<Rightarrow> int" where
  "managementPort cfg = (if ManagementPort cfg = 0 then 9090 else ManagementPort cfg)"

definition serverBaseURL :: "Config \<Rightarrow> string" where
  "serverBaseURL cfg =
     (let u = TrimRightByte (TrimSpace (BaseURL (Server cfg))) CHR ''/'' in
      if u \<noteq> [] then u
      else ''http://localhost:'' @ itoa_int (if Port (Server cfg) \<le> 0 then 8080 else Port (Server cfg)))"

definition printableConfig :: "Config \<Rightarrow> Config" where
  "printableConfig cfg =
     (let masked = (if StoragePassword (Storage cfg) \<noteq> [] then cfg\<lparr>Storage := (Storage cfg)\<lparr>StoragePassword := ''***''\<rparr>\<rparr> else cfg) in
      if CursorSecret (Server masked) \<noteq> [] then masked\<lparr>Server := (Server masked)\<lparr>CursorSecret := ''***''\<rparr>\<rparr> else masked)"

text \<open>The variables of Spring that \<^verbatim>\<open>serve\<close> reads over the configuration; \<open>atoi\<close> is \<^verbatim>\<open>strconv.Atoi\<close>.\<close>

definition springOverrides :: "(string \<Rightarrow> string) \<Rightarrow> (string \<Rightarrow> int option) \<Rightarrow> Config \<Rightarrow> Config" where
  "springOverrides getenv atoi cfg =
     (let st = Storage cfg;
          st = (if getenv ''SPRING_DATASOURCE_URL'' \<noteq> [] then st\<lparr>DSN := getenv ''SPRING_DATASOURCE_URL''\<rparr> else st);
          st = (if getenv ''SPRING_DATASOURCE_USERNAME'' \<noteq> [] then st\<lparr>Username := getenv ''SPRING_DATASOURCE_USERNAME''\<rparr> else st);
          st = (if getenv ''SPRING_DATASOURCE_PASSWORD'' \<noteq> [] then st\<lparr>StoragePassword := getenv ''SPRING_DATASOURCE_PASSWORD''\<rparr> else st);
          cfg = cfg\<lparr>Storage := st\<rparr> in
      if getenv ''SERVER_PORT'' \<noteq> [] then
        (case atoi (getenv ''SERVER_PORT'') of None \<Rightarrow> cfg | Some p \<Rightarrow> cfg\<lparr>Server := (Server cfg)\<lparr>Port := p\<rparr>\<rparr>)
      else cfg)"

definition enabledFor :: "bool \<Rightarrow> bool option \<Rightarrow> bool" where
  "enabledFor on flag \<longleftrightarrow> on \<and> flag = Some True"

definition requestLogCleanup :: "Config \<Rightarrow> RequestLogCleanupService" where
  "requestLogCleanup cfg = (let rl = RequestLogs (CleanupCfg cfg) in
     NewRequestLogCleanupService (enabledFor (CleanupOn (CleanupCfg cfg)) (RequestLogsEnabled rl))
       (RequestLogsInterval rl) (RequestLogsMaxCount rl))"

definition asyncEventCleanup :: "Config \<Rightarrow> AsyncEventCleanupService" where
  "asyncEventCleanup cfg = (let ae = AsyncEvents (CleanupCfg cfg) in
     NewAsyncEventCleanupService (enabledFor (CleanupOn (CleanupCfg cfg)) (AsyncEventsEnabled ae))
       (AsyncEventsInterval ae) (AsyncEventsMaxCount ae) (AsyncEventsStalePendingAfter ae) (serverBaseURL cfg))"

text \<open>\<^verbatim>\<open>shutdownServers\<close> on the results of the shutdowns: the first error that is not the server being closed.\<close>

definition shutdownServers :: "string \<Rightarrow> string option list \<Rightarrow> string option" where
  "shutdownServers errServerClosed results = find (\<lambda>_. True) (List.map_filter (\<lambda>r. case r of
     Some e \<Rightarrow> if e = errServerClosed then None else Some e | None \<Rightarrow> None) results)"

text \<open>\<^verbatim>\<open>Run\<close>.\<close>

datatype cli_command = Serve | Healthcheck | PrintConfig | UnknownCommand string

definition Run :: "string list \<Rightarrow> cli_command" where
  "Run args = (let name = (case args of a # _ \<Rightarrow> a | [] \<Rightarrow> ''serve'') in
     if name = ''serve'' then Serve else if name = ''healthcheck'' then Healthcheck
     else if name = ''print-config'' then PrintConfig else UnknownCommand (''unknown command: '' @ name))"

definition healthy :: "int \<Rightarrow> bool" where
  "healthy status \<longleftrightarrow> \<not> (status < 200 \<or> 400 \<le> status)"

section \<open>Workspaces that nobody uses\<close>

text \<open>\<^verbatim>\<open>WorkspaceCleanupService.cleanup\<close> with \<^verbatim>\<open>DeleteStale\<close>, on the workspaces with the times of their last change.\<close>

definition DeleteStale :: "int \<Rightarrow> (string \<times> int) list \<Rightarrow> (string \<times> int) list \<times> nat" where
  "DeleteStale before rows = (filter (\<lambda>(w, t). \<not> t < before) rows, length (filter (\<lambda>(w, t). t < before) rows))"

definition workspaceCleanup :: "int \<Rightarrow> int \<Rightarrow> (string \<times> int) list \<Rightarrow> (string \<times> int) list" where
  "workspaceCleanup now staleAfter rows = fst (DeleteStale (now - staleAfter) rows)"

section \<open>What an accepted configuration guarantees\<close>

text \<open>The cleanup services of an accepted configuration run with the values it names.\<close>

lemma accepted_cleanup:
  assumes "validateConfig cfg = Inr ()"
  shows "LogCleanupMaxCount (requestLogCleanup cfg) = RequestLogsMaxCount (RequestLogs (CleanupCfg cfg))"
    and "LogCleanupInterval (requestLogCleanup cfg) = RequestLogsInterval (RequestLogs (CleanupCfg cfg))"
    and "CleanupMaxCount (asyncEventCleanup cfg) = AsyncEventsMaxCount (AsyncEvents (CleanupCfg cfg))"
    and "StalePendingAfter (asyncEventCleanup cfg) = AsyncEventsStalePendingAfter (AsyncEvents (CleanupCfg cfg))"
  using assms
  by (auto simp: validateConfig_def requestLogCleanup_def asyncEventCleanup_def NewRequestLogCleanupService_def
      NewAsyncEventCleanupService_def Let_def split: if_splits)

text \<open>The server does not start with a short cursor secret.\<close>

lemma cursor_secret_long: "ensureCursorSecret cfg lookupEnv getenv = Inr secret \<Longrightarrow> 32 \<le> length secret"
  by (auto simp: ensureCursorSecret_def Let_def minCursorSecretLength_def split: if_splits)

text \<open>What is printed of a configuration does not depend on its secrets, once they are set.\<close>

lemma printable_hides:
  assumes "p \<noteq> []" "q \<noteq> []" "c \<noteq> []" "d \<noteq> []"
  shows "printableConfig (cfg\<lparr>Storage := (Storage cfg)\<lparr>StoragePassword := p\<rparr>, Server := (Server cfg)\<lparr>CursorSecret := c\<rparr>\<rparr>)
    = printableConfig (cfg\<lparr>Storage := (Storage cfg)\<lparr>StoragePassword := q\<rparr>, Server := (Server cfg)\<lparr>CursorSecret := d\<rparr>\<rparr>)"
  using assms by (simp add: printableConfig_def)

text \<open>The connection always says what it wants of TLS.\<close>

lemma Index_append: "Index s p \<noteq> None \<Longrightarrow> Index (a @ s) p \<noteq> None"
  by (induction a) auto

lemma resolveDSN_sslmode: "Contains (resolveDSN cfg) ''sslmode=''"
proof -
  have "Index (d @ ''?sslmode=disable'') ''sslmode='' \<noteq> None" "Index (d @ ''&sslmode=disable'') ''sslmode='' \<noteq> None" for d
    by (rule Index_append, simp)+
  then show ?thesis by (simp add: resolveDSN_def Let_def Contains_def)
qed

end
