(* ===== verification/Platform.thy ===== *)
theory Platform
  imports Async
begin

text \<open>
  The packages below the handlers: \<^verbatim>\<open>internal/jdbc\<close> (the shared connection pool, its settings, table locks, error
  translation), \<^verbatim>\<open>internal/messages\<close> (texts by language), \<^verbatim>\<open>internal/logging\<close> (levels and fields) and
  \<^verbatim>\<open>internal/httpapi\<close> (the request limiter). The driver, the logging library and the limiter are parameters.
\<close>

section \<open>Database connections\<close>

definition ErrDSNRequired :: string where "ErrDSNRequired = ''jdbc postgres dsn is required''"
definition ErrNotInitialized :: string where "ErrNotInitialized = ''jdbc pool is not initialized''"
definition ErrAlreadyInitialized :: string where "ErrAlreadyInitialized = ''jdbc pool is already initialized''"
definition ErrTableNameRequired :: string where "ErrTableNameRequired = ''jdbc table name is required''"
definition ErrOptimisticLockConflict :: string where "ErrOptimisticLockConflict = ''jdbc optimistic lock conflict''"
definition ErrUniqueViolation :: string where "ErrUniqueViolation = ''jdbc unique constraint violation''"

definition optimisticLockMessage :: "string \<Rightarrow> string" where
  "optimisticLockMessage resource =
     (if TrimSpace resource = [] then ErrOptimisticLockConflict else ErrOptimisticLockConflict @ '': '' @ TrimSpace resource)"

definition uniqueViolationMessage :: "string \<Rightarrow> string" where
  "uniqueViolationMessage constraint =
     (if TrimSpace constraint = [] then ErrUniqueViolation else ErrUniqueViolation @ '': '' @ TrimSpace constraint)"

text \<open>The settings of a pool; a setting that is not positive leaves what the DSN says.\<close>

record pool_config =
  PoolMaxConns :: int
  PoolMinConns :: int
  MaxConnLifetime :: int
  MaxConnIdleTime :: int
  HealthCheckPeriod :: int

definition over :: "int \<Rightarrow> int \<Rightarrow> int" where
  "over configured parsed = (if 0 < configured then configured else parsed)"

definition buildPoolConfig :: "(string \<Rightarrow> string + pool_config) \<Rightarrow> string \<Rightarrow> pool_config \<Rightarrow> string + pool_config" where
  "buildPoolConfig parsePoolConfig dsn config =
     (if TrimSpace dsn = [] then Inl ErrDSNRequired
      else rbind (parsePoolConfig (TrimSpace dsn)) (\<lambda>p. Inr
        \<lparr>PoolMaxConns = over (PoolMaxConns config) (PoolMaxConns p), PoolMinConns = over (PoolMinConns config) (PoolMinConns p),
         MaxConnLifetime = over (MaxConnLifetime config) (MaxConnLifetime p),
         MaxConnIdleTime = over (MaxConnIdleTime config) (MaxConnIdleTime p),
         HealthCheckPeriod = over (HealthCheckPeriod config) (HealthCheckPeriod p)\<rparr>))"

text \<open>The pool that all repositories share: the backend, and whether a backend was closed, under the lock.\<close>

record 'b backendState =
  backend :: "'b option"
  closed :: "'b list"

definition initBackend :: "(string + pool_config) \<Rightarrow> (pool_config \<Rightarrow> string + 'b) \<Rightarrow> 'b backendState \<Rightarrow> (string + unit) \<times> 'b backendState" where
  "initBackend poolConfig newDatabaseBackend st =
     (case rbind poolConfig newDatabaseBackend of
        Inl e \<Rightarrow> (Inl e, st)
      | Inr b \<Rightarrow> (case backend st of
            Some _ \<Rightarrow> (Inl ErrAlreadyInitialized, st\<lparr>closed := b # closed st\<rparr>)
          | None \<Rightarrow> (Inr (), st\<lparr>backend := Some b\<rparr>)))"

definition closeBackend :: "'b backendState \<Rightarrow> 'b backendState" where
  "closeBackend st = (case backend st of None \<Rightarrow> st | Some b \<Rightarrow> st\<lparr>backend := None, closed := b # closed st\<rparr>)"

definition currentBackend :: "'b backendState \<Rightarrow> string + 'b" where
  "currentBackend st = (case backend st of None \<Rightarrow> Inl ErrNotInitialized | Some b \<Rightarrow> Inr b)"

definition withBackend :: "'b backendState \<Rightarrow> ('b \<Rightarrow> string + 'a) \<Rightarrow> string + 'a" where
  "withBackend st f = rbind (currentBackend st) f"

text \<open>Locks of tables; a rune outside ASCII makes a name invalid, and so does each of its bytes.\<close>

definition isIdentifierChar :: "char \<Rightarrow> bool" where
  "isIdentifierChar c \<longleftrightarrow> is_lower c \<or> is_upper c \<or> is_digit c \<or> c = CHR ''_'' \<or> c = CHR ''.''"

definition isValidIdentifier :: "string \<Rightarrow> bool" where
  "isValidIdentifier name \<longleftrightarrow> list_all isIdentifierChar name"

definition lockTableStatement :: "string \<Rightarrow> string + string" where
  "lockTableStatement table =
     (let name = TrimSpace table in
      if name = [] then Inl ErrTableNameRequired
      else if \<not> isValidIdentifier name then Inl (''jdbc invalid table name: '' @ [dquote] @ name @ [dquote])
      else Inr (''LOCK TABLE '' @ name @ '' IN EXCLUSIVE MODE''))"

datatype driver_error = PgError (Code: string) (ConstraintName: string) | OtherError string

definition pgUniqueViolation :: string where
  "pgUniqueViolation = ''23505''"

definition translateExecError :: "driver_error \<Rightarrow> db_error" where
  "translateExecError e = (case e of
       PgError sqlstate constraint \<Rightarrow> if sqlstate = pgUniqueViolation then UniqueViolation constraint else Fault
     | OtherError _ \<Rightarrow> Fault)"

definition CheckOptimisticLock :: "(db_error + nat) option \<Rightarrow> db_error + unit" where
  "CheckOptimisticLock result = (case result of
       None \<Rightarrow> Inl Fault
     | Some (Inl e) \<Rightarrow> Inl e
     | Some (Inr n) \<Rightarrow> if n = 0 then Inl OptimisticLock else Inr ())"

text \<open>No table name ends the statement or starts another.\<close>

lemma lock_statement_safe:
  assumes "lockTableStatement table = Inr statement"
  obtains name where "statement = ''LOCK TABLE '' @ name @ '' IN EXCLUSIVE MODE''"
    "CHR '';'' \<notin> set name" "CHR '' '' \<notin> set name" "dquote \<notin> set name" "CHR ''-'' \<notin> set name" "name \<noteq> []"
proof -
  have "isValidIdentifier (TrimSpace table)" "TrimSpace table \<noteq> []"
    and s: "statement = ''LOCK TABLE '' @ TrimSpace table @ '' IN EXCLUSIVE MODE''"
    using assms by (auto simp: lockTableStatement_def Let_def split: if_splits)
  then have "\<forall>c \<in> set (TrimSpace table). isIdentifierChar c" by (simp add: isValidIdentifier_def list_all_iff)
  then have "c \<notin> set (TrimSpace table)" if "\<not> isIdentifierChar c" for c using that by blast
  moreover have "\<not> isIdentifierChar CHR '';''" "\<not> isIdentifierChar CHR '' ''" "\<not> isIdentifierChar dquote" "\<not> isIdentifierChar CHR ''-''"
    by (simp_all add: isIdentifierChar_def is_lower_def is_upper_def is_digit_def code_def)
  ultimately show thesis using that [of "TrimSpace table"] s \<open>TrimSpace table \<noteq> []\<close> by blast
qed

text \<open>The pool is set once: while it is open, another initialisation closes the new backend and keeps the old one.\<close>

lemma backend_kept: "backend st = Some b \<Longrightarrow> backend (snd (initBackend c new st)) = Some b"
  by (auto simp: initBackend_def split: sum.split)

section \<open>Messages\<close>

type_synonym bundles = "(string \<times> (string \<times> string) list) list"

definition English :: string where "English = ''en''"

definition normalizeLanguage :: "ext \<Rightarrow> string \<Rightarrow> string" where
  "normalizeLanguage L language =
     (let v = ToLower L (TrimSpace language) in
      if v = [] then English
      else (let v = ReplaceAll v ''_'' ''-'' in takeWhile (\<lambda>c. c \<noteq> CHR ''-'') v))"

definition resolveLanguage :: "ext \<Rightarrow> bundles \<Rightarrow> string \<Rightarrow> string" where
  "resolveLanguage L bundles language =
     (let normalized = normalizeLanguage L language in
      if normalized = English then English
      else if map_of bundles normalized \<noteq> None then normalized else English)"

definition localizedTemplate :: "bundles \<Rightarrow> string \<Rightarrow> string \<Rightarrow> string option" where
  "localizedTemplate bundles language key =
     (case Option.bind (map_of bundles language) (\<lambda>templates. map_of templates key) of
        Some t \<Rightarrow> Some t
      | None \<Rightarrow> if language \<noteq> English then Option.bind (map_of bundles English) (\<lambda>templates. map_of templates key) else None)"

definition Template :: "bundles \<Rightarrow> string \<Rightarrow> string \<Rightarrow> string" where
  "Template bundles language key = (case localizedTemplate bundles language key of Some t \<Rightarrow> t | None \<Rightarrow> key)"

text \<open>The language in use is English or one with a bundle, whatever was asked for.\<close>

lemma resolveLanguage_known: "resolveLanguage L bs language = English \<or> map_of bs (resolveLanguage L bs language) \<noteq> None"
  by (simp add: resolveLanguage_def Let_def)

section \<open>Logging\<close>

datatype Level = DebugLevel | InfoLevel | WarnLevel | ErrorLevel

definition normalizeLevel :: "ext \<Rightarrow> string \<Rightarrow> Level" where
  "normalizeLevel L level =
     (let l = ToLower L (TrimSpace level) in
      if l = ''debug'' then DebugLevel else if l = ''warn'' then WarnLevel else if l = ''error'' then ErrorLevel else InfoLevel)"

text \<open>The level of zap that a configured level stands for, and the order it gives to the levels: an entry below the
  configured level is not written.\<close>

definition levelFromConfig :: "Level \<Rightarrow> int" where
  "levelFromConfig level = (case level of DebugLevel \<Rightarrow> - 1 | InfoLevel \<Rightarrow> 0 | WarnLevel \<Rightarrow> 1 | ErrorLevel \<Rightarrow> 2)"

instantiation Level :: linorder
begin

definition less_eq_Level :: "Level \<Rightarrow> Level \<Rightarrow> bool" where
  "less_eq_Level a b \<longleftrightarrow> levelFromConfig a \<le> levelFromConfig b"

definition less_Level :: "Level \<Rightarrow> Level \<Rightarrow> bool" where
  "less_Level a b \<longleftrightarrow> levelFromConfig a < levelFromConfig b"

instance
  by intro_classes (auto simp: less_eq_Level_def less_Level_def levelFromConfig_def split: Level.splits)

end

lemma level_floor: "ToLower L (TrimSpace level) \<noteq> ''debug'' \<Longrightarrow> InfoLevel \<le> normalizeLevel L level"
  by (simp add: normalizeLevel_def Let_def less_eq_Level_def levelFromConfig_def)

text \<open>The fields by kind; the value of some may be missing, and such a field is left out.\<close>

datatype field_kind = FieldUnset | FieldAny | FieldString | FieldInt | FieldInt64 | FieldUint64 | FieldBool
  | FieldDuration | FieldTime | FieldStrings | FieldStringer | FieldError | FieldFloat64

definition toField :: "field_kind \<times> string \<times> json option \<Rightarrow> (field_kind \<times> string \<times> json option) option" where
  "toField f = (case f of (kind, key, v) \<Rightarrow>
     if kind = FieldUnset \<or> v = None \<and> kind \<in> {FieldAny, FieldString, FieldStringer, FieldError} then None
     else Some (kind, key, v))"

definition toFields :: "(field_kind \<times> string \<times> json option) list \<Rightarrow> (field_kind \<times> string \<times> json option) list" where
  "toFields fs = List.map_filter toField fs"

section \<open>The limiter\<close>

definition defaultRateLimitWaitTimeout :: int where
  "defaultRateLimitWaitTimeout = 60 * 1000000000"

definition rateLimitRetryAfter :: int where
  "rateLimitRetryAfter = 5 * 60 * 1000000000"

definition resolveRateLimitWaitTimeout :: "int \<Rightarrow> int" where
  "resolveRateLimitWaitTimeout waitTimeout = (if waitTimeout = 0 then defaultRateLimitWaitTimeout else waitTimeout)"

text \<open>How waiting for the limiter ends: with a token, at the timeout, or with the client gone.\<close>

datatype wait_result = Token | TimedOut | ClientGone

text \<open>The mark for the metrics and the answer; \<open>None\<close> is no answer to a client that has gone.\<close>

definition throttlingMiddleware :: "wait_result \<Rightarrow> http_response \<Rightarrow> string \<times> http_response option" where
  "throttlingMiddleware w next = (case w of
       Token \<Rightarrow> (''no'', Some next)
     | ClientGone \<Rightarrow> (''no'', None)
     | TimedOut \<Rightarrow> (''yes'', Some (case WriteScimError (NewScimError 503 [] ''The server reached max capacity. Try again later.'') of
         (status, body) \<Rightarrow> jsonResponse status [(''Retry-After'', itoa_int (rateLimitRetryAfter div 1000000000))] body)))"

lemma throttled_answer:
  assumes "snd (throttlingMiddleware w next) = Some r"
  shows "r = next \<or> HttpStatus r = 503 \<and> map_of (Headers r) ''Retry-After'' = Some ''300''"
proof -
  have "itoa_int (rateLimitRetryAfter div 1000000000) = ''300''" by code_simp
  then show ?thesis using assms
    by (cases w) (auto simp: throttlingMiddleware_def WriteScimError_def NewScimError_def jsonResponse_def)
qed

end
