(* ===== verification/Spec2Isabelle.thy ===== *)
theory Spec2Isabelle
  imports FilterProps PatchProps MapperProps MapperRound PagProps HttpProps UserHttpProps GroupProps GroupHttp BulkProps BulkCount SchemaProps DiscoveryProps Auth CleanupProps AsyncProps RedactProps Routes ConfigLoader AppConfig Platform
begin

text \<open>
  A model of the SCIM 2.0 server of this repository (Go, below \<^verbatim>\<open>src/internal\<close>) and its correctness.

  \<^bold>\<open>The program.\<close> A request passes the route table, the middleware (metrics, request log, bearer token), one of the
  handlers, and the repositories, which run SQL statements on PostgreSQL. The handlers share the package
  \<^verbatim>\<open>scim\<close>: filters, PATCH, mapping between JSON and users or groups, cursors, schemas. A request with
  \<^verbatim>\<open>Prefer: respond-async\<close> is run by a worker, whose outcome the client polls; a cleanup service fails events that
  have been pending too long and deletes old ones. The request log is written by the middleware and cleaned by a
  service of its own.

  \<^bold>\<open>Theories, in the order of the code.\<close>
  \<^item> Shared: \<open>Prelude\<close> (results with errors as values, collections of simplification rules, the parameters of the
    model), \<open>GoStrings\<close> (Go's strings, strconv, unicode), \<open>Base64\<close>, \<open>Regex\<close> (Go's regexp, the match it prefers),
    \<open>Json\<close> (decoded values, \<^verbatim>\<open>scim/error.go\<close>, typed readers), \<open>JsonText\<close> (parsing and printing, with a round trip).
  \<^item> Filters (\<^verbatim>\<open>scim/filter.go\<close>): \<open>FilterTables\<close> (lexer, attributes, sort columns), \<open>FilterBuild\<close> (SQL fragments),
    \<open>FilterParse\<close> (recursive descent), \<open>FilterTotal\<close> (it returns), \<open>FilterSql\<close> (its placeholders), \<open>FilterProps\<close>.
  \<^item> Users as data (\<^verbatim>\<open>scim/canonicalize.go\<close>, \<^verbatim>\<open>password.go\<close>, \<^verbatim>\<open>patch.go\<close>, \<^verbatim>\<open>mapper.go\<close>, \<^verbatim>\<open>model/model.go\<close>): \<open>Canonical\<close>,
    \<open>MultiValue\<close> (the loops repeated for each multi-valued attribute, as functions of a key and of primary),
    \<open>User\<close>, \<open>Collections\<close>, \<open>Patch\<close>, \<open>Mapper\<close>; their lemmas in \<open>PatchInv\<close>, \<open>PatchProps\<close>, \<open>MapperInv\<close>, \<open>MapperProps\<close>,
    \<open>MapperRound\<close>.
  \<^item> HTTP (\<^verbatim>\<open>scim/cursor.go\<close>, \<^verbatim>\<open>handler/pagination.go\<close>, \<^verbatim>\<open>base.go\<close>, \<^verbatim>\<open>me.go\<close>, \<^verbatim>\<open>scim/compat.go\<close>): \<open>Cursor\<close>,
    \<open>Pagination\<close>, \<open>PagProps\<close>, \<open>Http\<close>, \<open>HttpProps\<close>.
  \<^item> The database (\<^verbatim>\<open>repository\<close>, \<^verbatim>\<open>jdbc\<close>): \<open>Store\<close> has the tables, the statements (type \<open>query\<close>), what each does
    to the tables and answers (\<open>exec\<close>), and programs of statements; \<open>UserRepo\<close> and \<open>GroupRepo\<close> the repository functions
    as such programs; \<open>Interleave\<close> programs of several requests that run at once, any statement of which may fail, with
    or without effect.
  \<^item> Users (\<^verbatim>\<open>handler/user.go\<close>): \<open>UserHandler\<close> (operations), \<open>UserHttp\<close> (handlers), \<open>UserSystem\<close> and \<open>UserInv\<close> (the
    invariant of the rows under interleaving), \<open>UserRun\<close> (refinement of a directory), \<open>UserProps\<close>, \<open>UserHttpProps\<close>.
  \<^item> Groups (\<^verbatim>\<open>handler/group.go\<close>): \<open>GroupHandler\<close>, \<open>GroupHttp\<close>, \<open>GroupInv\<close>, \<open>GroupRun\<close>, \<open>GroupProps\<close>.
  \<^item> Bulk (\<^verbatim>\<open>handler/bulk.go\<close>): \<open>BulkRefs\<close>, \<open>BulkOrder\<close>, \<open>BulkHandler\<close>, \<open>BulkProcess\<close>; \<open>BulkSched\<close>, \<open>BulkGraph\<close>,
    \<open>BulkOrderProps\<close> (the order), \<open>BulkRollback\<close> (taking resources back), \<open>BulkCount\<close> (how far the order is executed),
    \<open>BulkProps\<close> (concrete requests).
  \<^item> Discovery (\<^verbatim>\<open>scim/schema.go\<close>, \<^verbatim>\<open>handler/discovery.go\<close>): \<open>Schema\<close>, \<open>Discovery\<close>, \<open>SchemaProps\<close>, \<open>DiscoveryProps\<close>.
  \<^item> Asynchronous requests (\<^verbatim>\<open>handler/async_event.go\<close>, \<^verbatim>\<open>service/async_event_cleanup_service.go\<close>): \<open>Async\<close>, \<open>Cleanup\<close>,
    \<open>CleanupProps\<close> (what a cycle leaves), \<open>AsyncSystem\<close> (what each request, worker and cycle does to the events),
    \<open>AsyncProps\<close> (all of them interleaved).
  \<^item> Middleware (\<^verbatim>\<open>middleware/auth.go\<close>, \<^verbatim>\<open>logging.go\<close>, \<^verbatim>\<open>metrics.go\<close>) and routes (\<^verbatim>\<open>app/serve_internal.go\<close>): \<open>Auth\<close>,
    \<open>Redact\<close>, \<open>RedactProps\<close>, \<open>Routes\<close>.
  \<^item> Configuration and what is below: \<open>ConfigLoader\<close> (\<^verbatim>\<open>configloader\<close>), \<open>AppConfig\<close> (\<^verbatim>\<open>app/config.go\<close>, \<^verbatim>\<open>run.go\<close>),
    \<open>Platform\<close> (\<^verbatim>\<open>jdbc\<close>, \<^verbatim>\<open>messages\<close>, \<^verbatim>\<open>logging\<close>, \<^verbatim>\<open>httpapi\<close>).

  \<^bold>\<open>State and operations.\<close> Structs are records with the fields of the code, in its spelling; a Go pointer is an option,
  a Go error the left side of a sum. A function that mutates its argument returns it. Code that talks to the
  database is a value of type \<open>prog\<close>: it asks a statement and goes on with the answer. \<open>run\<close> runs a program alone,
  \<open>sys_step\<close> interleaves several. Users, groups, memberships, workspaces and events are lists of rows of the record
  \<open>tables\<close>; a transaction of a request that runs alone is a backup of the tables that an error gives back, except for
  the events, whose statements belong to no transaction.

  \<^bold>\<open>What is proved.\<close> Filters: the SQL of an accepted filter binds exactly its arguments, the parser returns on every
  input, LIKE patterns mean what the operator says (C1 to C3). Access: who reaches the handlers of a workspace (C4).
  PATCH and PUT: identity, hashed passwords, single primaries, read-only attributes, agreement of the two ways to
  write, detection of changes, the round trip through a response (C5 to C9, C12 to C14, C16, C19). Metrics name the
  handler that serves a request (C11). Asynchronous events end once and stay until they are pruned (C15), and are reaped
  and pruned as configured (C17, C18). Cursors and pages (C20, C21, C23, C24). The request log does not depend on passwords (C22), and no response
  has one (C33). Projection (C25, C26). User rows under interleaving and failures: invariant, no lost update,
  refinement of a directory, preconditions, isolation of workspaces, errors (C27 to C32). Groups: valid memberships,
  atomic requests, versions (C34 to C36). Bulk: where it stops (C10), order (C37) and rollback (C38). Responses have the types the schemas
  announce (C39), and the combined search is a page of one listing (C40).

  \<^bold>\<open>Interfaces.\<close> The locales \<open>multi_valued\<close> and \<open>collection\<close> (the contract of a multi-valued attribute: key, primary flag
  and builder) are interpreted for the eight attributes of a user in \<open>Collections\<close>; \<open>token_store\<close> (what
  authentication needs of a token table) for the repository in \<open>Auth\<close>; \<open>comparison\<close> (what sorting needs of an order)
  for the order of resources in \<open>DiscoveryProps\<close>. The levels of the log are an instance of \<open>linorder\<close> (\<open>Platform\<close>).

  \<^bold>\<open>Parameters and hypotheses.\<close> \<open>ext\<close>: Unicode normalisation and case tables, UUID, time, URL and certificate parsers,
  bcrypt. \<open>crypto\<close>: SHA-256 and HMAC. \<open>database\<close>: the meaning of a WHERE clause and of ORDER BY, the unique
  constraints and fresh identifiers. The router's \<^verbatim>\<open>Match\<close>, the YAML parsers and the environment of the process are
  arguments as well. Where a proof needs something of them it is a named hypothesis with a documented meaning, for
  example that parsed identifiers are canonical (\<open>uuid_canonical\<close>), that the database enforces the index on user
  names (\<open>ci_index\<close>), that it gives out fresh identifiers (\<open>fresh\<close>), or the length of a digest (\<open>digests\<close>); each
  such theorem has a witness with a concrete parameter.

  \<^bold>\<open>Fuel.\<close> The filter parser starts with fuel that \<open>FilterTotal\<close> proves enough for every input; the JSON parser with
  twice the length of the text plus two, each call consuming a byte on at most two levels; the search for the closure
  of a bulk producer with one more than the number of operations, each of which is visited once (\<open>BulkGraph\<close>); the
  cascade of rollbacks with one more than the number of created resources, one of which is taken back in every pass but
  the last (\<open>BulkRollback\<close>). Pruning takes the number of batches as fuel, and C18 asks that it covers the table.

  \<^bold>\<open>Choices of the model.\<close> Strings are lists of bytes. Versions, instants and sizes that the code never lets overflow
  are unbounded integers; sizes read from a client and offsets of cursors wrap at 64 bits (\<open>wrap64\<close>). A column of
  JSON reads back what was written. A Go map is an association list, so its iteration order is one of those Go
  allows; the order matters to no property except where said. Counters are lists of increments. The table of logged
  requests is kept apart from the other tables, because no other statement reads it. User requests are interleaved with
  each other, statement by statement and with statements that fail (C27, C28); everything that can touch an event is
  interleaved in C15: requests on users, groups, all resources and in bulk, workers, polls and cycles of the cleanup. There
  only the events are observed, so it does not matter that interleaved transactions share the one backup of the model. The
  properties of groups (C34 to C36) and of bulk requests speak of requests that run alone on a database whose statements
  do not fail; what a failing statement of a DELETE leaves behind is a finding of the manifest.

  \<^bold>\<open>Not modelled.\<close> Start and shutdown of listeners and the wiring of objects, the JSON codec switch, test support, the
  wrappers of the PostgreSQL driver and of zap, the registry and histograms of Prometheus, reading the embedded
  bundles of messages, the clock of the token bucket: they only call libraries. Decoding of YAML is a
  parameter. Functions without callers are left out, and the repository functions that take a transaction stand
  for their twins without one. Panics, cancellation of contexts, timeouts of statements and the messages written to
  the server's own log are left out.
\<close>

end
